(* ===== verification/Wm_Prelude.thy ===== *)
theory Wm_Prelude
  imports Main "HOL-Library.Word" "HOL-Library.Char_ord" "HOL-Library.List_Lexorder"
begin

text \<open>
  Shared vocabulary of the development: what the sources use of Rust's standard library.

  \<^item> A Rust byte (\<open>u8\<close>) is a HOL \<^typ>\<open>char\<close> (eight bits); \<open>Vec<u8>\<close>, \<open>&[u8]\<close>, \<open>String\<close> and
    \<open>&str\<close> are \<^typ>\<open>char list\<close>. A \<open>str\<close> is the list of the bytes of its UTF-8 form, so \<open>len()\<close> is
    \<^const>\<open>length\<close> and \<open>as_bytes\<close> is the identity.
  \<^item> \<open>Result<T, E>\<close> is \<open>'e + 't\<close>, \<open>Inl\<close> the error.
  \<^item> \<open>u32\<close> and \<open>u64\<close> are words; \<open>saturating_add\<close> and \<open>saturating_sub\<close> are defined on every width.
  \<^item> \<open>BTreeMap\<close> is an association list kept strictly sorted by key, so that two equal maps are
    equal lists; its interface is the locale \<open>ordered_map\<close>.
\<close>

named_theorems str_simps \<open>evaluation of the string helpers\<close>

type_synonym bytes = "char list"
type_synonym u32 = "32 word"
type_synonym u64 = "64 word"


section \<open>Words\<close>

definition saturating_add :: "'a::len word \<Rightarrow> 'a word \<Rightarrow> 'a word" where
  "saturating_add a b = (if unat a + unat b < 2 ^ LENGTH('a) then a + b else - 1)"

definition saturating_sub :: "'a::len word \<Rightarrow> 'a word \<Rightarrow> 'a word" where
  "saturating_sub a b = (if a < b then 0 else a - b)"

text \<open>\<open>u32::try_from(n: u64)\<close>.\<close>

definition u32_try_from :: "u64 \<Rightarrow> u32 option" where
  "u32_try_from n = (if unat n < 2 ^ 32 then Some (ucast n) else None)"

definition u64_from :: "u32 \<Rightarrow> u64" where
  "u64_from n = ucast n"

lemma unat_saturating_add:
  "unat (saturating_add a (b :: 'a::len word)) = min (unat a + unat b) (2 ^ LENGTH('a) - 1)"
proof (cases "unat a + unat b < 2 ^ LENGTH('a)")
  case True
  then show ?thesis
    by (simp add: saturating_add_def unat_word_ariths)
next
  case False
  then show ?thesis
    by (simp add: saturating_add_def unsigned_minus_1_eq_mask mask_eq_exp_minus_1)
qed

lemma saturating_sub_0 [simp]: "saturating_sub a 0 = a"
  by (simp add: saturating_sub_def)

lemma saturating_add_0 [simp]: "saturating_add a 0 = a"
  by (simp add: saturating_add_def)

lemma saturating_sub_add_cancel:
  assumes "unat a + unat b < 2 ^ LENGTH('a)"
  shows "saturating_sub (saturating_add a b) (b :: 'a::len word) = a"
proof -
  have "unat (a + b) = unat a + unat b"
    using assms by (simp add: unat_word_ariths)
  then have "\<not> a + b < b"
    by (simp add: word_less_nat_alt)
  then show ?thesis
    using assms by (simp add: saturating_sub_def saturating_add_def)
qed

lemma unat_saturating_sub: "unat (saturating_sub a (b :: 'a::len word)) = unat a - unat b"
  by (auto simp: saturating_sub_def word_less_nat_alt unat_sub word_le_nat_alt)

lemma unat_u64_from [simp]: "unat (u64_from n) = unat n"
proof -
  have "unat n < 2 ^ 64"
    by (rule order.strict_trans [OF unsigned_less]) simp
  then show ?thesis
    by (simp add: u64_from_def unsigned_ucast_eq take_bit_nat_eq_self)
qed

lemma u32_try_from_u64_from [simp]: "u32_try_from (u64_from n) = Some n"
proof -
  have n: "unat n < 2 ^ 32"
    using unsigned_less [of n] by simp
  have "(ucast (u64_from n) :: u32) = n"
    using n by (simp add: word_unat_eq_iff unsigned_ucast_eq take_bit_nat_eq_self)
  with n show ?thesis
    by (simp add: u32_try_from_def)
qed

lemma u64_from_eq_0_iff [simp]: "u64_from n = 0 \<longleftrightarrow> n = 0"
  using unat_u64_from [of n] by (simp add: unat_0_iff flip: unat_0_iff)


section \<open>Options and results\<close>

text \<open>\<open>Option::or\<close>, \<open>Option::filter\<close> and \<open>Result::ok\<close>.\<close>

fun or_else :: "'a option \<Rightarrow> 'a option \<Rightarrow> 'a option" where
  "or_else (Some x) _ = Some x"
| "or_else None y = y"

definition ofilter :: "('a \<Rightarrow> bool) \<Rightarrow> 'a option \<Rightarrow> 'a option" where
  "ofilter P x = (case x of None \<Rightarrow> None | Some y \<Rightarrow> if P y then Some y else None)"

definition unwrap_or :: "'a option \<Rightarrow> 'a \<Rightarrow> 'a" where
  "unwrap_or x d = (case x of None \<Rightarrow> d | Some y \<Rightarrow> y)"

definition is_some_and :: "'a option \<Rightarrow> ('a \<Rightarrow> bool) \<Rightarrow> bool" where
  "is_some_and x P = (case x of None \<Rightarrow> False | Some y \<Rightarrow> P y)"

lemma ofilter_simps [simp]:
  "ofilter P None = None"
  "ofilter P (Some y) = (if P y then Some y else None)"
  by (simp_all add: ofilter_def)

lemma unwrap_or_simps [simp]:
  "unwrap_or None d = d"
  "unwrap_or (Some y) d = y"
  by (simp_all add: unwrap_or_def)

lemma is_some_and_simps [simp]:
  "is_some_and None P = False"
  "is_some_and (Some y) P = P y"
  by (simp_all add: is_some_and_def)

lemma is_some_and_ofilter: "is_some_and x P \<longleftrightarrow> ofilter P x \<noteq> None"
  by (cases x) auto

lemma or_else_None [simp]: "or_else x None = x"
  by (cases x) auto

lemma or_else_assoc: "or_else (or_else x y) z = or_else x (or_else y z)"
  by (cases x) auto

lemma or_else_idem [simp]: "or_else x x = x"
  by (cases x) auto

lemma or_else_eq_Some: "or_else x y = Some z \<longleftrightarrow> x = Some z \<or> (x = None \<and> y = Some z)"
  by (cases x) auto

lemma or_else_eq_None [simp]: "or_else x y = None \<longleftrightarrow> x = None \<and> y = None"
  by (cases x) auto


section \<open>Ordered maps\<close>

text \<open>The contract of \<open>BTreeMap\<close> the clients rely on.\<close>

locale ordered_map =
  fixes get :: "'m \<Rightarrow> 'k \<Rightarrow> 'v option"
    and ins :: "'k \<Rightarrow> 'v \<Rightarrow> 'm \<Rightarrow> 'm"
    and rem :: "'k \<Rightarrow> 'm \<Rightarrow> 'm"
    and wf :: "'m \<Rightarrow> bool"
  assumes get_ins: "get (ins k v m) k' = (if k' = k then Some v else get m k')"
    and get_rem: "wf m \<Longrightarrow> get (rem k m) k' = (if k' = k then None else get m k')"
    and wf_ins: "wf m \<Longrightarrow> wf (ins k v m)"
    and wf_rem: "wf m \<Longrightarrow> wf (rem k m)"
    and ext: "wf m \<Longrightarrow> wf m' \<Longrightarrow> (\<And>k. get m k = get m' k) \<Longrightarrow> m = m'"
begin

lemma ins_ins_same: "wf m \<Longrightarrow> ins k v (ins k w m) = ins k v m"
  by (rule ext) (auto simp: get_ins intro: wf_ins)

lemma ins_commute: "wf m \<Longrightarrow> k \<noteq> k' \<Longrightarrow> ins k v (ins k' v' m) = ins k' v' (ins k v m)"
  by (rule ext) (auto simp: get_ins intro: wf_ins)

lemma rem_ins: "wf m \<Longrightarrow> get m k = None \<Longrightarrow> rem k (ins k v m) = m"
  by (rule ext) (auto simp: get_ins get_rem wf_ins intro: wf_rem)

lemma ins_idle: "wf m \<Longrightarrow> get m k = Some v \<Longrightarrow> ins k v m = m"
  by (rule ext) (auto simp: get_ins intro: wf_ins)

end

fun bt_insert :: "'k::linorder \<Rightarrow> 'v \<Rightarrow> ('k \<times> 'v) list \<Rightarrow> ('k \<times> 'v) list" where
  "bt_insert k v [] = [(k, v)]"
| "bt_insert k v ((k', v') # m) =
     (if k < k' then (k, v) # (k', v') # m
      else if k = k' then (k, v) # m
      else (k', v') # bt_insert k v m)"

fun bt_remove :: "'k \<Rightarrow> ('k \<times> 'v) list \<Rightarrow> ('k \<times> 'v) list" where
  "bt_remove k [] = []"
| "bt_remove k ((k', v') # m) = (if k = k' then m else (k', v') # bt_remove k m)"

definition bt_wf :: "('k::linorder \<times> 'v) list \<Rightarrow> bool" where
  "bt_wf m = sorted_wrt (<) (map fst m)"

lemma bt_wf_Nil [simp]: "bt_wf []"
  by (simp add: bt_wf_def)

lemma bt_wf_Cons [simp]: "bt_wf ((k, v) # m) \<longleftrightarrow> (\<forall>k' \<in> fst ` set m. k < k') \<and> bt_wf m"
  by (simp add: bt_wf_def)

lemma map_of_bt_insert [simp]: "map_of (bt_insert k v m) k' = (if k' = k then Some v else map_of m k')"
  by (induction m) auto

lemma fst_set_bt_insert [simp]: "fst ` set (bt_insert k v m) = insert k (fst ` set m)"
  by (induction k v m rule: bt_insert.induct) auto

lemma bt_wf_insert [simp]: "bt_wf m \<Longrightarrow> bt_wf (bt_insert k v m)"
  by (induction k v m rule: bt_insert.induct) (fastforce dest: order.strict_trans)+

lemma fst_set_bt_remove: "fst ` set (bt_remove k m) \<subseteq> fst ` set m"
  by (induction k m rule: bt_remove.induct) auto

lemma bt_wf_remove [simp]: "bt_wf m \<Longrightarrow> bt_wf (bt_remove k m)"
  by (induction k m rule: bt_remove.induct) (use fst_set_bt_remove in \<open>force+\<close>)

lemma map_of_bt_remove:
  "bt_wf m \<Longrightarrow> map_of (bt_remove k m) k' = (if k' = k then None else map_of m k')"
proof (induction m)
  case (Cons p m)
  obtain a b where p: "p = (a, b)" by (cases p)
  show ?case
  proof (cases "k = a")
    case True
    with Cons.prems p have "map_of m a = None"
      by (auto simp: map_of_eq_None_iff)
    with True p show ?thesis by simp
  next
    case False
    with Cons p show ?thesis by auto
  qed
qed simp

lemma bt_wf_distinct: "bt_wf m \<Longrightarrow> distinct (map fst m)"
  by (simp add: bt_wf_def strict_sorted_iff)

lemma map_fst_eq_map_of_eq:
  "distinct (map fst m) \<Longrightarrow> map fst m = map fst m' \<Longrightarrow> map_of m = map_of m' \<Longrightarrow> m = m'"
proof (induction m arbitrary: m')
  case (Cons p m)
  then obtain p' n where m': "m' = p' # n" by (cases m') auto
  obtain a b b' where ab: "p = (a, b)" "p' = (a, b')"
    using Cons.prems m' by (cases p, cases p') auto
  have b: "b = b'"
    using fun_cong [OF Cons.prems(3), of a] m' ab by simp
  have None: "map_of m a = None" "map_of n a = None"
    using Cons.prems(1,2) m' ab by (auto simp: map_of_eq_None_iff simp flip: set_map)
  have "map_of m = map_of n"
  proof
    fix k
    show "map_of m k = map_of n k"
      using fun_cong [OF Cons.prems(3), of k] m' ab None by (cases "k = a") auto
  qed
  with Cons m' ab b show ?case by auto
qed simp

lemma bt_ext:
  assumes "bt_wf m" "bt_wf m'" "\<And>k. map_of m k = map_of m' k"
  shows "m = m'"
proof -
  have eq: "map_of m = map_of m'"
    using assms(3) by blast
  have dom: "set (map fst m) = set (map fst m')"
    using arg_cong [OF eq, of dom] by (simp add: dom_map_of_conv_image_fst)
  have keys: "map fst m = map fst m'"
    using assms(1,2) dom by (intro strict_sorted_equal) (simp_all add: bt_wf_def)
  show ?thesis
    using bt_wf_distinct [OF assms(1)] keys eq by (rule map_fst_eq_map_of_eq)
qed

interpretation btree: ordered_map map_of bt_insert bt_remove bt_wf
  by unfold_locales (auto simp: map_of_bt_remove intro: bt_ext)

end
