(* ===== verification/Wm_Strings.thy ===== *)
theory Wm_Strings
  imports Wm_Prelude
begin

text \<open>
  The operations of Rust's \<open>str\<close> and \<open>[u8]\<close> that the sources call: prefixes and suffixes,
  \<open>split_once\<close>, \<open>trim\<close> (Unicode \<open>White_Space\<close>, on the UTF-8 bytes), ASCII case folding,
  decimal and hexadecimal printing, UTF-8 validation and the lossy decoding of
  \<open>String::from_utf8_lossy\<close> (every maximal ill-formed subpart becomes U+FFFD).
\<close>

section \<open>Prefixes, suffixes, splitting\<close>

fun strip_prefix :: "string \<Rightarrow> string \<Rightarrow> string option" where
  "strip_prefix [] s = Some s"
| "strip_prefix (p # ps) [] = None"
| "strip_prefix (p # ps) (c # cs) = (if p = c then strip_prefix ps cs else None)"

definition starts_with :: "string \<Rightarrow> string \<Rightarrow> bool" where
  "starts_with p s = (strip_prefix p s \<noteq> None)"

definition strip_suffix :: "string \<Rightarrow> string \<Rightarrow> string option" where
  "strip_suffix p s = map_option rev (strip_prefix (rev p) (rev s))"

definition ends_with :: "string \<Rightarrow> string \<Rightarrow> bool" where
  "ends_with p s = (strip_suffix p s \<noteq> None)"

text \<open>\<open>s.split_once(c)\<close> on a one-byte separator, and \<open>s.find(c)\<close>.\<close>

fun split_once :: "char \<Rightarrow> string \<Rightarrow> (string \<times> string) option" where
  "split_once c [] = None"
| "split_once c (x # xs) =
     (if x = c then Some ([], xs) else map_option (\<lambda>(a, b). (x # a, b)) (split_once c xs))"

text \<open>Substring test, \<open>s.contains(p)\<close>.\<close>

fun contains_str :: "string \<Rightarrow> string \<Rightarrow> bool" where
  "contains_str p [] = (p = [])"
| "contains_str p (c # cs) = (starts_with p (c # cs) \<or> contains_str p cs)"

text \<open>\<open>xs.join(sep)\<close> on a slice of strings.\<close>

fun join :: "string \<Rightarrow> string list \<Rightarrow> string" where
  "join sep [] = []"
| "join sep [x] = x"
| "join sep (x # y # xs) = x @ sep @ join sep (y # xs)"

lemma strip_prefix_Some: "strip_prefix p s = Some r \<longleftrightarrow> s = p @ r"
  by (induction p s rule: strip_prefix.induct) auto

lemma strip_prefix_append [simp]: "strip_prefix p (p @ r) = Some r"
  by (simp add: strip_prefix_Some)

lemma starts_with_iff: "starts_with p s \<longleftrightarrow> (\<exists>r. s = p @ r)"
  by (auto simp: starts_with_def strip_prefix_Some)

lemma strip_suffix_Some: "strip_suffix p s = Some r \<longleftrightarrow> s = r @ p"
  by (auto simp: strip_suffix_def strip_prefix_Some rev_eq_append_conv intro: exI [of _ "rev r"])

lemma ends_with_iff: "ends_with p s \<longleftrightarrow> (\<exists>r. s = r @ p)"
  by (auto simp: ends_with_def strip_suffix_Some)

lemma split_once_Some: "split_once c s = Some (a, b) \<longleftrightarrow> s = a @ c # b \<and> c \<notin> set a"
proof (induction s arbitrary: a)
  case (Cons x s)
  then show ?case by (cases a) auto
qed simp

lemma split_once_None: "split_once c s = None \<longleftrightarrow> c \<notin> set s"
  by (induction s) auto

lemma split_once_append [simp]: "c \<notin> set a \<Longrightarrow> split_once c (a @ c # b) = Some (a, b)"
  by (simp add: split_once_Some)

lemma contains_str_iff: "contains_str p s \<longleftrightarrow> (\<exists>a b. s = a @ p @ b)"
proof (induction s)
  case (Cons c cs)
  show ?case
  proof
    assume "contains_str p (c # cs)"
    then show "\<exists>a b. c # cs = a @ p @ b"
      using Cons by (auto simp: starts_with_iff) (metis append_Cons append_Nil)+
  next
    assume "\<exists>a b. c # cs = a @ p @ b"
    then obtain a b where ab: "c # cs = a @ p @ b" by blast
    show "contains_str p (c # cs)"
    proof (cases a)
      case Nil
      with ab have "starts_with p (c # cs)" by (simp add: starts_with_iff)
      then show ?thesis by simp
    next
      case (Cons d ds)
      then show ?thesis using ab Cons.IH by auto
    qed
  qed
qed auto


section \<open>ASCII case\<close>

definition byte_val :: "char \<Rightarrow> nat" where
  "byte_val c = of_char c"

definition ascii_lower :: "char \<Rightarrow> char" where
  "ascii_lower c = (if 65 \<le> byte_val c \<and> byte_val c \<le> 90 then char_of (byte_val c + 32) else c)"

definition to_ascii_lowercase :: "string \<Rightarrow> string" where
  "to_ascii_lowercase s = map ascii_lower s"

definition eq_ignore_ascii_case :: "string \<Rightarrow> string \<Rightarrow> bool" where
  "eq_ignore_ascii_case a b = (to_ascii_lowercase a = to_ascii_lowercase b)"

definition is_ascii_alphabetic :: "char \<Rightarrow> bool" where
  "is_ascii_alphabetic c = (65 \<le> byte_val c \<and> byte_val c \<le> 90 \<or> 97 \<le> byte_val c \<and> byte_val c \<le> 122)"

definition is_ascii_digit :: "char \<Rightarrow> bool" where
  "is_ascii_digit c = (48 \<le> byte_val c \<and> byte_val c \<le> 57)"

definition is_ascii_alphanumeric :: "char \<Rightarrow> bool" where
  "is_ascii_alphanumeric c = (is_ascii_alphabetic c \<or> is_ascii_digit c)"


section \<open>Splitting at a substring\<close>

text \<open>\<open>s.split_once(pat)\<close> for a string pattern: at its first occurrence.\<close>

fun split_once_str :: "bytes \<Rightarrow> bytes \<Rightarrow> (bytes \<times> bytes) option" where
  "split_once_str p [] = (if p = [] then Some ([], []) else None)"
| "split_once_str p (c # s) =
     (case strip_prefix p (c # s) of
        Some r \<Rightarrow> Some ([], r)
      | None \<Rightarrow> map_option (\<lambda>(a, b). (c # a, b)) (split_once_str p s))"

lemma split_once_str_Some: "split_once_str p s = Some (a, b) \<Longrightarrow> s = a @ p @ b"
proof (induction p s arbitrary: a rule: split_once_str.induct)
  case (2 p c s)
  then show ?case by (auto simp: strip_prefix_Some split: option.splits)
qed (auto split: if_splits)

text \<open>A separator whose first byte does not occur before it is found where it stands.\<close>

lemma split_once_str_fresh:
  "x \<notin> set a \<Longrightarrow> split_once_str (x # p) (a @ (x # p) @ b) = Some (a, b)"
proof (induction a)
  case Nil
  have "strip_prefix (x # p) (x # p @ b) = Some b" using strip_prefix_Some [of "x # p" "x # p @ b" b] by simp
  then show ?case by (simp del: strip_prefix.simps)
next
  case (Cons c a)
  have "strip_prefix (x # p) (c # a @ x # p @ b) = None"
    using Cons.prems strip_prefix_Some [of "x # p" "c # a @ x # p @ b"]
    by (cases "strip_prefix (x # p) (c # a @ x # p @ b)") auto
  with Cons show ?case by (simp del: strip_prefix.simps)
qed


section \<open>Trimming\<close>

text \<open>The UTF-8 forms of the code points with the Unicode \<open>White_Space\<close> property.\<close>

definition whitespace_encodings :: "bytes list" where
  "whitespace_encodings =
     map (map (char_of :: nat \<Rightarrow> char))
       [[9], [10], [11], [12], [13], [32], [0xC2, 0x85], [0xC2, 0xA0], [0xE1, 0x9A, 0x80],
        [0xE2, 0x80, 0x80], [0xE2, 0x80, 0x81], [0xE2, 0x80, 0x82], [0xE2, 0x80, 0x83],
        [0xE2, 0x80, 0x84], [0xE2, 0x80, 0x85], [0xE2, 0x80, 0x86], [0xE2, 0x80, 0x87],
        [0xE2, 0x80, 0x88], [0xE2, 0x80, 0x89], [0xE2, 0x80, 0x8A], [0xE2, 0x80, 0xA8],
        [0xE2, 0x80, 0xA9], [0xE2, 0x80, 0xAF], [0xE2, 0x81, 0x9F], [0xE3, 0x80, 0x80]]"

text \<open>The first encoding (if any) that the string starts with, removed.\<close>

fun strip_any :: "bytes list \<Rightarrow> bytes \<Rightarrow> bytes option" where
  "strip_any [] s = None"
| "strip_any (w # ws) s =
     (case strip_prefix w s of Some r \<Rightarrow> Some r | None \<Rightarrow> strip_any ws s)"

lemma strip_any_Some: "strip_any ws s = Some r \<Longrightarrow> \<exists>w \<in> set ws. s = w @ r"
  by (induction ws) (auto simp: strip_prefix_Some split: option.splits)

lemma strip_any_shorter:
  "[] \<notin> set ws \<Longrightarrow> strip_any ws s = Some r \<Longrightarrow> length r < length s"
  by (auto dest!: strip_any_Some)

lemma whitespace_nonempty: "[] \<notin> set whitespace_encodings" "[] \<notin> set (map rev whitespace_encodings)"
  by (auto simp: whitespace_encodings_def)

function trim_start :: "bytes \<Rightarrow> bytes" where
  "trim_start s = (case strip_any whitespace_encodings s of None \<Rightarrow> s | Some r \<Rightarrow> trim_start r)"
  by pat_completeness auto
termination
  by (relation "measure length") (auto dest: strip_any_shorter [OF whitespace_nonempty(1)])

text \<open>\<open>trim_end\<close> removes whole encodings from the end: on the reversed bytes they are prefixes.\<close>

function trim_rev :: "bytes \<Rightarrow> bytes" where
  "trim_rev s = (case strip_any (map rev whitespace_encodings) s of None \<Rightarrow> s | Some r \<Rightarrow> trim_rev r)"
  by pat_completeness auto
termination
  by (relation "measure length") (auto dest: strip_any_shorter [OF whitespace_nonempty(2)])

declare trim_start.simps [simp del] trim_rev.simps [simp del]

definition trim_end :: "bytes \<Rightarrow> bytes" where
  "trim_end s = rev (trim_rev (rev s))"

definition trim :: "bytes \<Rightarrow> bytes" where
  "trim s = trim_end (trim_start s)"

text \<open>\<open>s.trim_end_matches(c)\<close> and \<open>s.trim_start_matches(c)\<close> for one byte.\<close>

definition trim_end_matches :: "char \<Rightarrow> bytes \<Rightarrow> bytes" where
  "trim_end_matches c s = rev (dropWhile (\<lambda>x. x = c) (rev s))"

lemma trim_start_suffix: "\<exists>p. s = p @ trim_start s"
proof (induction s rule: trim_start.induct)
  case (1 s)
  show ?case
  proof (cases "strip_any whitespace_encodings s")
    case None
    then show ?thesis by (simp add: trim_start.simps [of s])
  next
    case (Some r)
    then obtain w where "s = w @ r" by (auto dest: strip_any_Some)
    moreover obtain p where "r = p @ trim_start r" using 1 [OF Some] by blast
    ultimately have "s = (w @ p) @ trim_start r" by simp
    with Some show ?thesis
      unfolding trim_start.simps [of s] by auto
  qed
qed

lemma trim_rev_suffix: "\<exists>p. s = p @ trim_rev s"
proof (induction s rule: trim_rev.induct)
  case (1 s)
  show ?case
  proof (cases "strip_any (map rev whitespace_encodings) s")
    case None
    then show ?thesis by (simp add: trim_rev.simps [of s])
  next
    case (Some r)
    then obtain w where "s = w @ r" by (blast dest: strip_any_Some)
    moreover obtain p where "r = p @ trim_rev r" using 1 [OF Some] by blast
    ultimately have "s = (w @ p) @ trim_rev r" by simp
    with Some show ?thesis
      unfolding trim_rev.simps [of s] by auto
  qed
qed

lemma trim_infix: "\<exists>p q. s = p @ trim s @ q"
proof -
  obtain p where p: "s = p @ trim_start s" using trim_start_suffix by blast
  obtain q where "rev (trim_start s) = q @ trim_rev (rev (trim_start s))"
    using trim_rev_suffix by blast
  then have "trim_start s = trim s @ rev q"
    by (metis rev_append rev_rev_ident trim_def trim_end_def)
  with p show ?thesis by metis
qed

lemma trim_Nil [simp]: "trim [] = []"
  using trim_infix [of "[]"] by simp

text \<open>A string that starts and ends with a printable ASCII byte is its own trim.\<close>

lemma whitespace_ends:
  "w \<in> set whitespace_encodings \<Longrightarrow> w \<noteq> [] \<and> (byte_val (hd w) \<le> 32 \<or> 127 < byte_val (hd w))
     \<and> (byte_val (last w) \<le> 32 \<or> 127 < byte_val (last w))"
  by (auto simp: whitespace_encodings_def byte_val_def)

lemma trim_printable [simp]:
  assumes "33 \<le> byte_val c" "byte_val c \<le> 127" "33 \<le> byte_val d" "byte_val d \<le> 127"
  shows "trim (c # s @ [d]) = c # s @ [d]" "trim [c] = [c]"
proof -
  have s1: "strip_any whitespace_encodings (c # r) = None" for r
  proof (cases "strip_any whitespace_encodings (c # r)")
    case (Some q)
    then obtain w where "w \<in> set whitespace_encodings" "c # r = w @ q" using strip_any_Some by blast
    with whitespace_ends [of w] assms show ?thesis by (cases w) auto
  qed
  have s2: "strip_any (map rev whitespace_encodings) (x # r) = None"
    if "33 \<le> byte_val x" "byte_val x \<le> 127" for x r
  proof (cases "strip_any (map rev whitespace_encodings) (x # r)")
    case (Some q)
    then obtain w where w: "w \<in> set whitespace_encodings" "x # r = rev w @ q"
      using strip_any_Some by fastforce
    then have "last w = x" using whitespace_ends [of w] by (cases w rule: rev_cases) auto
    with whitespace_ends [OF w(1)] that show ?thesis by auto
  qed
  show "trim (c # s @ [d]) = c # s @ [d]" "trim [c] = [c]"
    using assms by (simp_all add: trim_def trim_end_def trim_start.simps [of "c # _"] trim_start.simps [of "[c]"] s1
        trim_rev.simps [of "d # _"] trim_rev.simps [of "[c]"] s2)
qed

lemma trim_nonempty: "trim s \<noteq> [] \<Longrightarrow> s \<noteq> []"
  by auto


section \<open>Numbers as text\<close>

definition digit_char :: "nat \<Rightarrow> char" where
  "digit_char n = char_of (if n < 10 then 48 + n else 87 + n)"

function show_nat :: "nat \<Rightarrow> string" where
  "show_nat n = (if n < 10 then [digit_char n] else show_nat (n div 10) @ [digit_char (n mod 10)])"
  by pat_completeness auto
termination
  by (relation "measure id") auto

declare show_nat.simps [simp del]

definition show_int :: "int \<Rightarrow> string" where
  "show_int i = (if i < 0 then CHR ''-'' # show_nat (nat (- i)) else show_nat (nat i))"

text \<open>\<open>format!("{x:02x}")\<close>.\<close>

definition show_hex2 :: "char \<Rightarrow> string" where
  "show_hex2 c = [digit_char (byte_val c div 16), digit_char (byte_val c mod 16)]"


section \<open>UTF-8\<close>

definition in_range :: "nat \<Rightarrow> nat \<Rightarrow> char \<Rightarrow> bool" where
  "in_range lo hi c = (lo \<le> byte_val c \<and> byte_val c \<le> hi)"

definition utf8_cont :: "char \<Rightarrow> bool" where
  "utf8_cont c = in_range 0x80 0xBF c"

definition utf8_char_width :: "char \<Rightarrow> nat" where
  "utf8_char_width c =
     (if in_range 0 0x7F c then 1 else if in_range 0xC2 0xDF c then 2
      else if in_range 0xE0 0xEF c then 3 else if in_range 0xF0 0xF4 c then 4 else 0)"

text \<open>The second byte that may follow a three- or four-byte lead.\<close>

definition utf8_second :: "char \<Rightarrow> char \<Rightarrow> bool" where
  "utf8_second b c =
     (if byte_val b = 0xE0 then in_range 0xA0 0xBF c
      else if byte_val b = 0xED then in_range 0x80 0x9F c
      else if byte_val b = 0xF0 then in_range 0x90 0xBF c
      else if byte_val b = 0xF4 then in_range 0x80 0x8F c
      else utf8_cont c)"

text \<open>One step of the decoder at the lead byte \<open>b\<close>: whether the sequence is well formed, and how many
  bytes it consumes (the maximal ill-formed subpart when it is not).\<close>

definition utf8_step :: "char \<Rightarrow> bytes \<Rightarrow> bool \<times> nat" where
  "utf8_step b rest =
     (if utf8_char_width b = 1 then (True, 1)
      else if utf8_char_width b = 2 then
        (case rest of c # _ \<Rightarrow> if utf8_cont c then (True, 2) else (False, 1) | [] \<Rightarrow> (False, 1))
      else if utf8_char_width b = 3 then
        (case rest of
           [] \<Rightarrow> (False, 1)
         | c # r \<Rightarrow> if \<not> utf8_second b c then (False, 1)
             else (case r of d # _ \<Rightarrow> if utf8_cont d then (True, 3) else (False, 2) | [] \<Rightarrow> (False, 2)))
      else if utf8_char_width b = 4 then
        (case rest of
           [] \<Rightarrow> (False, 1)
         | c # r \<Rightarrow> if \<not> utf8_second b c then (False, 1)
             else (case r of
                [] \<Rightarrow> (False, 2)
              | d # r' \<Rightarrow> if \<not> utf8_cont d then (False, 2)
                  else (case r' of e # _ \<Rightarrow> if utf8_cont e then (True, 4) else (False, 3)
                        | [] \<Rightarrow> (False, 3))))
      else (False, 1))"

lemma utf8_step_pos: "utf8_step b rest = (ok, n) \<Longrightarrow> 0 < n"
  by (auto simp: utf8_step_def split: if_splits list.splits)

definition replacement_char :: bytes where
  "replacement_char = [char_of (0xEF :: nat), char_of (0xBF :: nat), char_of (0xBD :: nat)]"

function from_utf8_lossy :: "bytes \<Rightarrow> string" where
  "from_utf8_lossy [] = []"
| "from_utf8_lossy (b # rest) =
     (case utf8_step b rest of
        (ok, n) \<Rightarrow> (if ok then take n (b # rest) else replacement_char)
                  @ from_utf8_lossy (drop n (b # rest)))"
  by pat_completeness auto
termination
  by (relation "measure length") (auto dest!: utf8_step_pos [OF sym])

function utf8_valid :: "bytes \<Rightarrow> bool" where
  "utf8_valid [] = True"
| "utf8_valid (b # rest) =
     (case utf8_step b rest of (ok, n) \<Rightarrow> ok \<and> utf8_valid (drop n (b # rest)))"
  by pat_completeness auto
termination
  by (relation "measure length") (auto dest!: utf8_step_pos [OF sym])

declare from_utf8_lossy.simps(2) [simp del] utf8_valid.simps(2) [simp del]

text \<open>\<open>std::str::from_utf8\<close> / \<open>String::from_utf8\<close>.\<close>

definition from_utf8 :: "bytes \<Rightarrow> string option" where
  "from_utf8 bs = (if utf8_valid bs then Some bs else None)"

lemma from_utf8_lossy_valid: "utf8_valid bs \<Longrightarrow> from_utf8_lossy bs = bs"
proof (induction bs rule: utf8_valid.induct)
  case (2 b rest)
  obtain ok n where s: "utf8_step b rest = (ok, n)" by force
  with 2 show ?case
    by (auto simp: from_utf8_lossy.simps(2) utf8_valid.simps(2))
qed simp

lemma utf8_step_ascii [simp]: "byte_val b < 128 \<Longrightarrow> utf8_step b rest = (True, 1)"
  by (simp add: utf8_step_def utf8_char_width_def in_range_def)

lemma utf8_valid_ascii: "(\<And>c. c \<in> set s \<Longrightarrow> byte_val c < 128) \<Longrightarrow> utf8_valid s"
  by (induction s) (simp_all add: utf8_valid.simps(2))

end
