(* ===== verification/Wm_Json.thy ===== *)
theory Wm_Json
  imports Wm_Strings
begin

text \<open>
  The value type of \<open>serde_json\<close> as the sources match on it: \<open>Value\<close> with its six constructors, a
  number that is a \<open>u64\<close>, a negative \<open>i64\<close> or an \<open>f64\<close> (kept as its 64 bits), and an object
  that is a \<open>BTreeMap\<close> (the crate is built without \<open>preserve_order\<close>), so an object is an
  association list strictly sorted by key. The accessors are those the sources call.

  Parsing and printing JSON text belong to \<open>serde_json\<close> itself and are parameters
  (\<open>from_str\<close>, \<open>to_str\<close>) of the definitions that call them.
\<close>

datatype number = PosInt u64 | NegInt int | Float "64 word"

datatype json =
    JNull
  | JBool bool
  | JNumber number
  | JString string
  | JArray "json list"
  | JObject "(string \<times> json) list"

type_synonym jobject = "(string \<times> json) list"

text \<open>Well-formed values: every object, at every depth, is a sorted map.\<close>

fun jwf :: "json \<Rightarrow> bool" where
  "jwf (JArray xs) = list_all jwf xs"
| "jwf (JObject m) = (bt_wf m \<and> list_all (\<lambda>(k, v). jwf v) m)"
| "jwf _ = True"


section \<open>Accessors\<close>

text \<open>\<open>Value::get(key)\<close>: \<open>None\<close> on anything but an object.\<close>

fun jget :: "json \<Rightarrow> string \<Rightarrow> json option" where
  "jget (JObject m) k = map_of m k"
| "jget _ k = None"

fun as_str :: "json \<Rightarrow> string option" where
  "as_str (JString s) = Some s"
| "as_str _ = None"

fun as_bool :: "json \<Rightarrow> bool option" where
  "as_bool (JBool b) = Some b"
| "as_bool _ = None"

fun as_u64 :: "json \<Rightarrow> u64 option" where
  "as_u64 (JNumber (PosInt n)) = Some n"
| "as_u64 _ = None"

fun as_i64 :: "json \<Rightarrow> int option" where
  "as_i64 (JNumber (PosInt n)) = (if unat n < 2 ^ 63 then Some (int (unat n)) else None)"
| "as_i64 (JNumber (NegInt i)) = Some i"
| "as_i64 _ = None"

fun as_array :: "json \<Rightarrow> json list option" where
  "as_array (JArray xs) = Some xs"
| "as_array _ = None"

fun as_object :: "json \<Rightarrow> jobject option" where
  "as_object (JObject m) = Some m"
| "as_object _ = None"

fun is_object :: "json \<Rightarrow> bool" where
  "is_object (JObject m) = True"
| "is_object _ = False"

fun is_null :: "json \<Rightarrow> bool" where
  "is_null JNull = True"
| "is_null _ = False"

text \<open>\<open>Value::pointer\<close> with the tokens already split at \<open>/\<close>. The sources use keys and the array
  index \<open>0\<close> only; a token on an array is an index when it is a decimal without leading zeros.\<close>

definition parse_index :: "string \<Rightarrow> nat option" where
  "parse_index s =
     (if s = [] \<or> \<not> list_all is_ascii_digit s \<or> (hd s = CHR ''0'' \<and> length s \<noteq> 1) then None
      else Some (foldl (\<lambda>acc c. acc * 10 + (byte_val c - 48)) 0 s))"

fun step_pointer :: "json \<Rightarrow> string \<Rightarrow> json option" where
  "step_pointer (JObject m) k = map_of m k"
| "step_pointer (JArray xs) k =
     (case parse_index k of None \<Rightarrow> None | Some i \<Rightarrow> if i < length xs then Some (xs ! i) else None)"
| "step_pointer _ k = None"

fun pointer :: "json \<Rightarrow> string list \<Rightarrow> json option" where
  "pointer v [] = Some v"
| "pointer v (k # ks) = (case step_pointer v k of None \<Rightarrow> None | Some w \<Rightarrow> pointer w ks)"


section \<open>Construction\<close>

text \<open>\<open>json!(n)\<close> for an unsigned count, \<open>json!(text)\<close>, and a literal object \<open>json!({ ... })\<close>: the
  entries are inserted in order.\<close>

definition json_u64 :: "u64 \<Rightarrow> json" where
  "json_u64 n = JNumber (PosInt n)"

definition json_u32 :: "u32 \<Rightarrow> json" where
  "json_u32 n = JNumber (PosInt (u64_from n))"

definition json_i64 :: "int \<Rightarrow> json" where
  "json_i64 i = JNumber (if i < 0 then NegInt i else PosInt (of_int i))"

definition json_obj :: "(string \<times> json) list \<Rightarrow> json" where
  "json_obj kvs = JObject (foldl (\<lambda>m (k, v). bt_insert k v m) [] kvs)"

text \<open>\<open>value[key] = v\<close> (\<open>IndexMut\<close>): inserts into an object, turns \<open>null\<close> into an object first. It panics
  on any other value; the sources only use it on values they have just built as objects.\<close>

fun jset :: "string \<Rightarrow> json \<Rightarrow> json \<Rightarrow> json option" where
  "jset k v (JObject m) = Some (JObject (bt_insert k v m))"
| "jset k v JNull = Some (JObject [(k, v)])"
| "jset k v _ = None"

text \<open>\<open>as_object_mut\<close> followed by \<open>insert\<close>, and by \<open>remove\<close>: other values are left alone.\<close>

fun jinsert :: "string \<Rightarrow> json \<Rightarrow> json \<Rightarrow> json" where
  "jinsert k v (JObject m) = JObject (bt_insert k v m)"
| "jinsert k v j = j"

fun jremove :: "string \<Rightarrow> json \<Rightarrow> json" where
  "jremove k (JObject m) = JObject (bt_remove k m)"
| "jremove k j = j"


section \<open>Helpers shared by the stream decoders\<close>

text \<open>\<open>str_field\<close>, \<open>u32_field\<close> of \<open>stream/mod.rs\<close>; \<open>nested_u32\<close> of \<open>stream/usage.rs\<close>.\<close>

definition str_field :: "json \<Rightarrow> string \<Rightarrow> string option" where
  "str_field v k = Option.bind (jget v k) as_str"

definition u32_field :: "json \<Rightarrow> string \<Rightarrow> u32 option" where
  "u32_field v k = Option.bind (Option.bind (jget v k) as_u64) u32_try_from"

definition nested_u32 :: "json \<Rightarrow> string \<Rightarrow> string \<Rightarrow> u32 option" where
  "nested_u32 v obj k = Option.bind (jget v obj) (\<lambda>o'. u32_field o' k)"

text \<open>\<open>.and_then(Value::as_str).filter(|s| !s.is_empty())\<close>.\<close>

definition nonempty_str_opt :: "json option \<Rightarrow> string option" where
  "nonempty_str_opt v = ofilter (\<lambda>s. s \<noteq> []) (Option.bind v as_str)"


section \<open>Lemmas\<close>

lemma jget_json_obj_foldl:
  "map_of (foldl (\<lambda>m (k, v). bt_insert k v m) m kvs) k =
     (case map_of (rev kvs) k of Some v \<Rightarrow> Some v | None \<Rightarrow> map_of m k)"
proof (induction kvs arbitrary: m)
  case (Cons p kvs)
  obtain a b where p: "p = (a, b)" by (cases p)
  show ?case
    by (auto simp: p Cons map_add_def split: option.splits)
qed simp

lemma jget_json_obj [simp]: "jget (json_obj kvs) k = map_of (rev kvs) k"
  by (simp add: json_obj_def jget_json_obj_foldl split: option.splits)

lemma jinsert_json_obj: "jinsert k v (json_obj kvs) = json_obj (kvs @ [(k, v)])"
  by (simp add: json_obj_def)

lemma is_object_json_obj [simp]: "is_object (json_obj kvs)"
  by (simp add: json_obj_def)

lemma jget_jinsert [simp]:
  "jget (jinsert k v (JObject m)) k' = (if k' = k then Some v else map_of m k')"
  by simp

lemma jget_jinsert_obj:
  "is_object j \<Longrightarrow> jget (jinsert k v j) k' = (if k' = k then Some v else jget j k')"
  by (cases j) auto

lemma is_object_jinsert [simp]: "is_object (jinsert k v j) = is_object j"
  by (cases j) auto

lemma jwf_map_of: "jwf (JObject m) \<Longrightarrow> map_of m k = Some v \<Longrightarrow> jwf v"
  by (auto simp: list_all_iff dest: map_of_SomeD)

lemma jwf_jget: "jwf j \<Longrightarrow> jget j k = Some v \<Longrightarrow> jwf v"
  by (cases j) (auto simp: list_all_iff dest: map_of_SomeD)

lemma list_all_bt_insert:
  "list_all (\<lambda>(k, v). P v) m \<Longrightarrow> P v \<Longrightarrow> list_all (\<lambda>(k, v). P v) (bt_insert k v m)"
  by (induction k v m rule: bt_insert.induct) auto

lemma jwf_jinsert: "jwf j \<Longrightarrow> jwf v \<Longrightarrow> jwf (jinsert k v j)"
  by (cases j) (auto intro: list_all_bt_insert)

lemma jwf_json_obj: "list_all (\<lambda>(k, v). jwf v) kvs \<Longrightarrow> jwf (json_obj kvs)"
proof -
  have "bt_wf m \<and> list_all (\<lambda>(k, v). jwf v) m \<Longrightarrow> list_all (\<lambda>(k, v). jwf v) kvs \<Longrightarrow>
      bt_wf (foldl (\<lambda>m (k, v). bt_insert k v m) m kvs)
      \<and> list_all (\<lambda>(k, v). jwf v) (foldl (\<lambda>m (k, v). bt_insert k v m) m kvs)" for m
  proof (induction kvs arbitrary: m)
    case (Cons p kvs)
    obtain a b where p: "p = (a, b)" by (cases p)
    show ?case
      using Cons.prems Cons.IH [of "bt_insert a b m"] by (simp add: p list_all_bt_insert)
  qed simp
  from this [of "[]"] show "list_all (\<lambda>(k, v). jwf v) kvs \<Longrightarrow> jwf (json_obj kvs)"
    by (simp add: json_obj_def)
qed

lemma jwf_leaf [simp]: "jwf (json_u32 n)" "jwf (json_u64 n')" "jwf (json_i64 i)"
  by (simp_all add: json_u32_def json_u64_def json_i64_def)

lemma as_u64_json [simp]: "as_u64 (json_u32 n) = Some (u64_from n)" "as_u64 (json_u64 m) = Some m"
  by (simp_all add: json_u32_def json_u64_def)

lemma u32_field_obj [simp]:
  "u32_field (json_obj kvs) k = Option.bind (Option.bind (map_of (rev kvs) k) as_u64) u32_try_from"
  by (simp add: u32_field_def)

lemma str_field_obj [simp]: "str_field (json_obj kvs) k = Option.bind (map_of (rev kvs) k) as_str"
  by (simp add: str_field_def)

lemma step_pointer_object: "is_object j \<Longrightarrow> step_pointer j k = jget j k"
  by (cases j) simp_all

lemma step_pointer_obj [simp]: "step_pointer (json_obj kvs) k = map_of (rev kvs) k"
proof -
  obtain m where m: "json_obj kvs = JObject m" by (simp add: json_obj_def)
  then show ?thesis using jget_json_obj [of kvs k] by simp
qed

end
