(* ===== verification/Wm_Ir.thy ===== *)
theory Wm_Ir
  imports Wm_Json
begin

text \<open>
  The data the stream components exchange: the wires (\<open>profile/types.rs\<close>), one SSE frame
  (\<open>RawSse\<close>, \<open>stream/mod.rs\<close>), the stream half of the intermediate representation
  (\<open>IrStreamEvent\<close>, \<open>ir/mod.rs\<close>), the loss report (\<open>ir/mod.rs\<close>) and the error of the maps
  (\<open>MapError\<close>, \<open>map/mod.rs\<close>).
\<close>

section \<open>Wires and stream policy\<close>

datatype wire = ChatCompletions | Messages | Responses | Gemini | Converse

fun wire_as_str :: "wire \<Rightarrow> string" where
  "wire_as_str ChatCompletions = ''chat-completions''"
| "wire_as_str Messages = ''messages''"
| "wire_as_str Responses = ''responses''"
| "wire_as_str Gemini = ''gemini''"
| "wire_as_str Converse = ''converse''"

fun default_stream_events :: "wire \<Rightarrow> string list" where
  "default_stream_events ChatCompletions = [''chunk'', ''[DONE]'']"
| "default_stream_events Messages =
     [''message_start'', ''content_block_start'', ''content_block_delta'', ''content_block_stop'',
      ''message_delta'', ''message_stop'', ''ping'', ''error'']"
| "default_stream_events Responses =
     [''response.created'', ''response.in_progress'', ''response.output_item.added'',
      ''response.content_part.added'', ''response.content_part.done'', ''response.output_text.delta'',
      ''response.output_text.done'', ''response.reasoning_summary_part.added'',
      ''response.reasoning_summary_part.done'', ''response.reasoning_summary_text.delta'',
      ''response.reasoning_summary_text.done'', ''response.reasoning.delta'',
      ''response.reasoning_text.delta'', ''response.reasoning_text.done'', ''response.refusal.delta'',
      ''response.refusal.done'', ''response.output_text.annotation.added'', ''response.audio.delta'',
      ''response.audio.done'', ''response.audio.transcript.delta'', ''response.audio.transcript.done'',
      ''response.function_call_arguments.delta'', ''response.function_call_arguments.done'',
      ''response.custom_tool_call_input.delta'', ''response.custom_tool_call_input.done'',
      ''response.output_item.done'', ''response.completed'', ''response.failed'',
      ''response.incomplete'', ''error'', ''response.web_search_call.in_progress'',
      ''response.web_search_call.searching'', ''response.web_search_call.completed'',
      ''response.file_search_call.in_progress'', ''response.file_search_call.searching'',
      ''response.file_search_call.completed'', ''response.code_interpreter_call.in_progress'',
      ''response.code_interpreter_call.interpreting'', ''response.code_interpreter_call.completed'',
      ''response.image_generation_call.in_progress'', ''response.image_generation_call.generating'',
      ''response.image_generation_call.completed'', ''response.mcp_call.in_progress'',
      ''response.mcp_call.completed'', ''response.mcp_call.failed'',
      ''response.mcp_list_tools.in_progress'', ''response.mcp_list_tools.completed'',
      ''response.mcp_list_tools.failed'']"
| "default_stream_events Gemini = [''chunk'']"
| "default_stream_events Converse =
     [''messageStart'', ''contentBlockStart'', ''contentBlockDelta'', ''contentBlockStop'',
      ''messageStop'', ''metadata'']"

fun default_chat_path :: "wire \<Rightarrow> string" where
  "default_chat_path ChatCompletions = ''/v1/chat/completions''"
| "default_chat_path Messages = ''/v1/messages''"
| "default_chat_path Responses = ''/v1/responses''"
| "default_chat_path Gemini = ''/v1beta/models/{model}:generateContent''"
| "default_chat_path Converse = ''/model/{model}/converse''"

datatype stream_unknown_policy = HardError | Passthrough

text \<open>The part of \<open>Dialect\<close> the stream decoders read.\<close>

record dialect =
  stream_events :: "string list"
  stream_unknown_policy :: stream_unknown_policy


section \<open>Frames, events, errors\<close>

record raw_sse =
  event :: "string option"
  data :: string

datatype ir_stream_event =
    TextDelta string
  | RefusalDelta string
  | ReasoningDelta string
  | ReasoningSignature string
  | ToolCallStart (tcs_id: string) (tcs_name: string) (tcs_signature: "string option") (tcs_index: u32)
  | ToolCallArgDelta (tca_delta: string) (tca_index: u32)
  | ToolCallEnd
  | AnnotationAdded json
  | SearchEntryPoint string
  | AudioDelta string
  | ImageDelta string string
  | AudioTranscriptDelta string
  | CustomToolCallStart string string u32
  | CustomToolCallInputDelta string u32
  | Logprobs json "json option"
  | Created int
  | ServiceTier string
  | Metadata "(string \<times> string) list"
  | Moderation "json option" "json option"
  | Diagnostics json
  | Container json
  | ContextManagement json
  | StopSequence string
  | Usage (prompt_tokens: u32) (completion_tokens: u32) (cache_read_tokens: u32)
      (cache_write_tokens: u32) (reasoning_tokens: u32) (audio_tokens: u32)
      (completion_audio_tokens: u32) (inference_geo: "string option")
  | FinishReason (finish_reason: string) (finish_vendor: "string option")
  | Protocol (item_type: string) (payload: json)
  | Unknown string json
  | Done

text \<open>\<open>MapError::Json\<close> wraps the error of the JSON parser, whose content the maps never read.\<close>

datatype map_error = MapJson | MapHardError (hard_path: string) (hard_detail: string) | MapInvalid string


section \<open>Loss report\<close>

datatype loss_action = LossPreserve | LossDegrade | LossDrop | LossHardError

record loss_event =
  loss_path :: string
  action :: loss_action
  detail :: string

type_synonym loss_report = "loss_event list"

definition loss_record :: "string \<Rightarrow> loss_action \<Rightarrow> string \<Rightarrow> loss_report \<Rightarrow> loss_report" where
  "loss_record p a d r = r @ [\<lparr>loss_path = p, action = a, detail = d\<rparr>]"

definition lossy :: "loss_report \<Rightarrow> loss_event list" where
  "lossy r = filter (\<lambda>e. action e \<noteq> LossPreserve) r"

fun loss_action_word :: "loss_action \<Rightarrow> string" where
  "loss_action_word LossPreserve = ''preserve''"
| "loss_action_word LossDegrade = ''degrade''"
| "loss_action_word LossDrop = ''drop''"
| "loss_action_word LossHardError = ''harderror''"

definition loss_event_fmt :: "loss_event \<Rightarrow> string" where
  "loss_event_fmt e = loss_action_word (action e) @ '' '' @ loss_path e @ '': '' @ detail e"


section \<open>Helpers of \<open>stream/mod.rs\<close>\<close>

definition protocol :: "string \<Rightarrow> json \<Rightarrow> ir_stream_event" where
  "protocol name v = Protocol name v"

definition check_index :: "json \<Rightarrow> string \<Rightarrow> u32 \<Rightarrow> string \<Rightarrow> map_error + unit" where
  "check_index v key cap kind =
     (case jget v key of
        None \<Rightarrow> Inr ()
      | Some raw \<Rightarrow>
          (case as_u64 raw of
             None \<Rightarrow> Inl (MapInvalid (kind @ '' index must be an unsigned integer''))
           | Some n \<Rightarrow>
               if u64_from cap < n then
                 Inl (MapInvalid (kind @ '' index '' @ show_nat (unat n) @ '' exceeds cap (''
                        @ show_nat (unat cap) @ '')''))
               else Inr ()))"

definition MAX_TOOL_CALL_INDEX :: u32 where
  "MAX_TOOL_CALL_INDEX = 128"

definition MAX_CONTENT_BLOCK_INDEX :: u32 where
  "MAX_CONTENT_BLOCK_INDEX = 128"

text \<open>\<open>json_text_field\<close>: a string, or an object or array printed as compact JSON.\<close>

definition json_text_field ::
  "(json \<Rightarrow> string) \<Rightarrow> json \<Rightarrow> string \<Rightarrow> map_error + string option" where
  "json_text_field to_str v key =
     (case jget v key of
        None \<Rightarrow> Inr None
      | Some (JString text) \<Rightarrow> if text = [] then Inr None else Inr (Some text)
      | Some (JObject m) \<Rightarrow> Inr (Some (to_str (JObject m)))
      | Some (JArray xs) \<Rightarrow> Inr (Some (to_str (JArray xs)))
      | Some _ \<Rightarrow> Inl (MapInvalid (key @ '' must be a string, object, or array'')))"

lemma check_index_Inr:
  "check_index v key cap kind = Inr u \<longleftrightarrow>
     (case jget v key of None \<Rightarrow> True | Some raw \<Rightarrow> (case as_u64 raw of None \<Rightarrow> False | Some n \<Rightarrow> n \<le> u64_from cap))"
  by (auto simp: check_index_def not_less split: option.splits)

lemma wire_as_str_inj: "inj wire_as_str"
proof (rule injI)
  fix a b :: wire
  assume "wire_as_str a = wire_as_str b"
  then show "a = b" by (cases a; cases b) simp_all
qed

end
