(* ===== verification/Wm_Chunks.thy ===== *)
theory Wm_Chunks
  imports Wm_Prelude
begin

text \<open>
  The interface of an incremental frame reader: a method \<open>feed\<close> that takes the bytes of one network
  read and returns the frames they complete, and an invariant of its state. What every client needs
  is that the way the transport cuts the byte stream into reads does not matter. The locale
  \<open>chunked_reader\<close> states the law for one cut (whatever is accepted in one piece is accepted in two,
  with the same frames and the same final state) and proves it for every sequence of reads;
  \<open>exact_reader\<close> adds the converse.
\<close>

fun feed_all :: "(bytes \<Rightarrow> 's \<Rightarrow> ('e + 'f list) \<times> 's) \<Rightarrow> bytes list \<Rightarrow> 's \<Rightarrow> ('e + 'f list) \<times> 's" where
  "feed_all feed [] s = (Inr [], s)"
| "feed_all feed (c # cs) s =
     (case feed c s of
        (Inl e, s') \<Rightarrow> (Inl e, s')
      | (Inr fs, s') \<Rightarrow>
          (case feed_all feed cs s' of
             (Inl e, s'') \<Rightarrow> (Inl e, s'')
           | (Inr gs, s'') \<Rightarrow> (Inr (fs @ gs), s'')))"

lemma feed_all_Cons_Inr:
  "feed_all feed (c # cs) s = (Inr fs, s') \<longleftrightarrow>
     (\<exists>fs1 fs2 s1. feed c s = (Inr fs1, s1) \<and> feed_all feed cs s1 = (Inr fs2, s') \<and> fs = fs1 @ fs2)"
  by (auto split: sum.splits prod.splits)

locale chunked_reader =
  fixes feed :: "bytes \<Rightarrow> 's \<Rightarrow> ('e + 'f list) \<times> 's"
    and inv :: "'s \<Rightarrow> bool"
  assumes feed_nil: "inv s \<Longrightarrow> feed [] s = (Inr [], s)"
    and feed_inv: "inv s \<Longrightarrow> feed bs s = (Inr fs, s') \<Longrightarrow> inv s'"
    and feed_split: "inv s \<Longrightarrow> feed (a @ b) s = (Inr fs, s') \<Longrightarrow>
      \<exists>fs1 fs2 s1. feed a s = (Inr fs1, s1) \<and> feed b s1 = (Inr fs2, s') \<and> fs = fs1 @ fs2"
begin

lemma feed_all_concat:
  "inv s \<Longrightarrow> feed (concat cs) s = (Inr fs, s') \<Longrightarrow> feed_all feed cs s = (Inr fs, s')"
proof (induction cs arbitrary: s fs)
  case Nil
  then show ?case by (simp add: feed_nil)
next
  case (Cons c cs)
  then obtain fs1 fs2 s1 where
    1: "feed c s = (Inr fs1, s1)" "feed (concat cs) s1 = (Inr fs2, s')" "fs = fs1 @ fs2"
    using feed_split [of s c "concat cs"] by auto
  moreover have "feed_all feed cs s1 = (Inr fs2, s')"
    using Cons.IH feed_inv [OF Cons.prems(1) 1(1)] 1(2) by blast
  ultimately show ?case by simp
qed

lemma feed_all_inv: "inv s \<Longrightarrow> feed_all feed cs s = (Inr fs, s') \<Longrightarrow> inv s'"
  by (induction cs arbitrary: s fs) (auto simp: feed_all_Cons_Inr simp del: feed_all.simps(2) dest: feed_inv)

end

locale exact_reader = chunked_reader +
  assumes feed_join: "inv s \<Longrightarrow> feed a s = (Inr fs1, s1) \<Longrightarrow> feed b s1 = (Inr fs2, s') \<Longrightarrow>
      feed (a @ b) s = (Inr (fs1 @ fs2), s')"
begin

lemma concat_feed_all:
  "inv s \<Longrightarrow> feed_all feed cs s = (Inr fs, s') \<Longrightarrow> feed (concat cs) s = (Inr fs, s')"
proof (induction cs arbitrary: s fs)
  case Nil
  then show ?case by (simp add: feed_nil)
next
  case (Cons c cs)
  then obtain fs1 fs2 s1 where
    1: "feed c s = (Inr fs1, s1)" "feed_all feed cs s1 = (Inr fs2, s')" "fs = fs1 @ fs2"
    unfolding feed_all_Cons_Inr by blast
  have "feed (concat cs) s1 = (Inr fs2, s')"
    using Cons.IH feed_inv [OF Cons.prems(1) 1(1)] 1(2) by blast
  with feed_join [OF Cons.prems(1) 1(1)] 1(3) show ?case by simp
qed

lemma feed_all_iff:
  "inv s \<Longrightarrow> feed_all feed cs s = (Inr fs, s') \<longleftrightarrow> feed (concat cs) s = (Inr fs, s')"
  using feed_all_concat concat_feed_all by blast

lemma same_bytes_same_frames:
  assumes "inv s" "concat cs = concat ds"
  shows "feed_all feed cs s = (Inr fs, s') \<longleftrightarrow> feed_all feed ds s = (Inr fs, s')"
  using assms by (simp add: feed_all_iff)

end

end
