(* ===== verification/Wm_Sse.thy ===== *)
theory Wm_Sse
  imports Wm_Ir Wm_Chunks
begin

text \<open>
  The incremental SSE frame reader (\<open>stream/sse.rs\<close>). The reader's struct is the record
  \<open>sse_reader\<close>; \<open>push_line\<close>, \<open>take_frame\<close>, \<open>reset\<close>, \<open>feed\<close>, \<open>finish\<close> and \<open>drain\<close> are one definition
  each, in explicit state-passing style. A method that fails returns the state it leaves behind
  together with the error, since the sources reset the reader before they return \<open>Err\<close>.
\<close>

definition MAX_SSE_PENDING :: nat where
  "MAX_SSE_PENDING = 16 * 1024 * 1024"

abbreviation NL :: char where "NL \<equiv> CHR 0x0A"
abbreviation CR :: char where "CR \<equiv> CHR 0x0D"

record sse_reader =
  buffer :: bytes
  r_event :: "string option"
  r_data :: "string list"
  data_bytes :: nat
  has_fields :: bool

definition sse_new :: sse_reader where
  "sse_new = \<lparr>buffer = [], r_event = None, r_data = [], data_bytes = 0, has_fields = False\<rparr>"

text \<open>Every field is cleared.\<close>

definition sse_reset :: "sse_reader \<Rightarrow> sse_reader" where
  "sse_reset r = r\<lparr>buffer := [], r_event := None, r_data := [], data_bytes := 0, has_fields := False\<rparr>"

definition take_frame :: "sse_reader \<Rightarrow> raw_sse option \<times> sse_reader" where
  "take_frame r =
     (if \<not> has_fields r then (None, r)
      else (Some \<lparr>event = r_event r, data = join [NL] (r_data r)\<rparr>,
            r\<lparr>r_event := None, r_data := [], data_bytes := 0, has_fields := False\<rparr>))"

definition sse_data_error :: string where
  "sse_data_error = ''SSE data exceeds '' @ show_nat MAX_SSE_PENDING @ '' bytes''"

definition sse_line_error :: string where
  "sse_line_error = ''SSE line exceeds '' @ show_nat MAX_SSE_PENDING @ '' bytes''"

text \<open>The field name and value of a line: the value loses one leading space.\<close>

definition split_field :: "string \<Rightarrow> string \<times> string" where
  "split_field line =
     (case split_once (CHR '':'') line of
        Some (name, v) \<Rightarrow> (name, (case strip_prefix '' '' v of Some w \<Rightarrow> w | None \<Rightarrow> v))
      | None \<Rightarrow> (line, []))"

definition push_line :: "string \<Rightarrow> sse_reader \<Rightarrow> (string + raw_sse option) \<times> sse_reader" where
  "push_line line r =
     (if line = [] then (let (f, r') = take_frame r in (Inr f, r'))
      else if starts_with '':'' line then (Inr None, r)
      else
        (let (name, v) = split_field line in
         if name = ''event'' then (Inr None, r\<lparr>r_event := Some v, has_fields := True\<rparr>)
         else if name = ''data'' then
           (let extra = (if r_data r = [] then length v else length v + 1) in
            if data_bytes r + extra > MAX_SSE_PENDING then (Inl sse_data_error, sse_reset r)
            else (Inr None, r\<lparr>data_bytes := data_bytes r + extra, r_data := r_data r @ [v],
                             has_fields := True\<rparr>))
         else if name = ''id'' \<or> name = ''retry'' then (Inr None, r\<lparr>has_fields := True\<rparr>)
         else (Inr None, r)))"

text \<open>A trailing carriage return is dropped from a complete line before it is decoded.\<close>

definition line_text :: "bytes \<Rightarrow> string" where
  "line_text l = from_utf8_lossy (if l \<noteq> [] \<and> last l = CR then butlast l else l)"

text \<open>The \<open>while\<close> loop of \<open>feed\<close>: the argument is the unread rest of the buffer
  (\<open>self.buffer[cursor..]\<close>), the result the frames in order, the rest after the last newline and the
  reader. The reader's own buffer is written once, after the loop.\<close>

function feed_lines :: "bytes \<Rightarrow> sse_reader \<Rightarrow> (string + raw_sse list \<times> bytes) \<times> sse_reader" where
  "feed_lines bs r =
     (case split_once NL bs of
        None \<Rightarrow> (Inr ([], bs), r)
      | Some (l, rest) \<Rightarrow>
          if length l > MAX_SSE_PENDING then (Inl sse_line_error, sse_reset r)
          else
            (case push_line (line_text l) r of
               (Inl e, r') \<Rightarrow> (Inl e, r')
             | (Inr f, r') \<Rightarrow>
                 (case feed_lines rest r' of
                    (Inl e, r'') \<Rightarrow> (Inl e, r'')
                  | (Inr (fs, left), r'') \<Rightarrow>
                      (Inr (case f of None \<Rightarrow> fs | Some x \<Rightarrow> x # fs, left), r''))))"
  by pat_completeness auto
termination
  by (relation "measure (\<lambda>(bs, r). length bs)") (auto simp: split_once_Some)

declare feed_lines.simps [simp del]

definition sse_feed :: "bytes \<Rightarrow> sse_reader \<Rightarrow> (string + raw_sse list) \<times> sse_reader" where
  "sse_feed bs r =
     (if length (buffer r) + length bs > MAX_SSE_PENDING \<and> NL \<notin> set bs \<and> NL \<notin> set (buffer r)
      then (Inl sse_line_error, sse_reset r)
      else
        (case feed_lines (buffer r @ bs) (r\<lparr>buffer := buffer r @ bs\<rparr>) of
           (Inl e, r') \<Rightarrow> (Inl e, r')
         | (Inr (fs, left), r') \<Rightarrow>
             if length left > MAX_SSE_PENDING then (Inl sse_line_error, sse_reset r')
             else (Inr fs, r'\<lparr>buffer := left\<rparr>)))"

definition sse_finish :: "sse_reader \<Rightarrow> (string + raw_sse option) \<times> sse_reader" where
  "sse_finish r =
     (if buffer r \<noteq> [] then
        (case push_line (trim_end_matches CR (from_utf8_lossy (buffer r))) (r\<lparr>buffer := []\<rparr>) of
           (Inr (Some f), r') \<Rightarrow> (Inr (Some f), r')
         | (Inr None, r') \<Rightarrow> (let (f, r'') = take_frame r' in (Inr f, r''))
         | (Inl e, r') \<Rightarrow> (Inl e, r'))
      else (let (f, r') = take_frame r in (Inr f, r')))"

definition sse_drain :: "sse_reader \<Rightarrow> raw_sse option \<times> sse_reader" where
  "sse_drain r = (case sse_finish r of (Inr f, r') \<Rightarrow> (f, r') | (Inl e, r') \<Rightarrow> (None, r'))"

definition has_open_frame :: "sse_reader \<Rightarrow> bool" where
  "has_open_frame r = (has_fields r \<or> buffer r \<noteq> [])"

definition pending_wire_bytes :: "sse_reader \<Rightarrow> bytes" where
  "pending_wire_bytes r =
     (case r_event r of None \<Rightarrow> [] | Some e \<Rightarrow> ''event: '' @ e @ [NL])
     @ concat (map (\<lambda>l. ''data: '' @ l @ [NL]) (r_data r))
     @ buffer r"

definition parse_all :: "string \<Rightarrow> string + raw_sse list" where
  "parse_all text =
     (case sse_feed text sse_new of
        (Inl e, _) \<Rightarrow> Inl e
      | (Inr out, r) \<Rightarrow>
          (case sse_finish r of
             (Inl e, _) \<Rightarrow> Inl e
           | (Inr None, _) \<Rightarrow> Inr out
           | (Inr (Some l), _) \<Rightarrow> Inr (out @ [l])))"

text \<open>\<open>format_sse\<close> of \<open>proxy.rs\<close>: how the proxy writes a frame back to the wire
  (\<open>split('\n')\<close> of a string always yields at least one piece).\<close>

function split_char :: "char \<Rightarrow> string \<Rightarrow> string list" where
  "split_char c s = (case split_once c s of None \<Rightarrow> [s] | Some (a, b) \<Rightarrow> a # split_char c b)"
  by pat_completeness auto
termination
  by (relation "measure (\<lambda>(c, s). length s)") (auto simp: split_once_Some)

declare split_char.simps [simp del]

definition format_sse :: "raw_sse \<Rightarrow> string" where
  "format_sse raw =
     (case event raw of None \<Rightarrow> [] | Some e \<Rightarrow> ''event: '' @ e @ [NL])
     @ concat (map (\<lambda>l. ''data: '' @ l @ [NL]) (split_char NL (data raw)))
     @ [NL]"


section \<open>The loop over complete lines\<close>

lemma push_line_buffer:
  "push_line l (r\<lparr>buffer := x\<rparr>) =
     (case push_line l r of
        (Inl e, r') \<Rightarrow> (Inl e, r')
      | (Inr f, r') \<Rightarrow> (Inr f, r'\<lparr>buffer := x\<rparr>))"
  by (auto simp: push_line_def take_frame_def sse_reset_def Let_def split: prod.splits)

lemma push_line_Inl: "push_line l r = (Inl e, r') \<Longrightarrow> r' = sse_reset r"
  by (auto simp: push_line_def Let_def split: if_splits prod.splits)

lemma sse_reset_buffer [simp]: "sse_reset (r\<lparr>buffer := x\<rparr>) = sse_reset r"
  by (simp add: sse_reset_def)

lemma feed_lines_buffer:
  "feed_lines bs (r\<lparr>buffer := x\<rparr>) =
     (case feed_lines bs r of
        (Inl e, r') \<Rightarrow> (Inl e, r')
      | (Inr f, r') \<Rightarrow> (Inr f, r'\<lparr>buffer := x\<rparr>))"
proof (induction bs r rule: feed_lines.induct)
  case (1 bs r)
  show ?case
  proof (cases "split_once NL bs")
    case None
    then show ?thesis by (simp add: feed_lines.simps)
  next
    case (Some p)
    obtain l rest where p: "p = (l, rest)" by force
    obtain res r1 where push: "push_line (line_text l) r = (res, r1)" by force
    show ?thesis
    proof (cases "length l > MAX_SSE_PENDING \<or> (\<exists>e. res = Inl e)")
      case True
      then show ?thesis
        using Some p push
        by (auto simp: feed_lines.simps [of bs] push_line_buffer split: sum.splits)
    next
      case False
      then obtain f where f: "res = Inr f" by (cases res) auto
      have "feed_lines rest (r1\<lparr>buffer := x\<rparr>) =
          (case feed_lines rest r1 of
             (Inl e, r') \<Rightarrow> (Inl e, r') | (Inr f, r') \<Rightarrow> (Inr f, r'\<lparr>buffer := x\<rparr>))"
        using 1 Some p push f False by auto
      then show ?thesis
        using Some p push f False
        by (auto simp: feed_lines.simps [of bs] push_line_buffer split: sum.splits prod.splits)
    qed
  qed
qed

text \<open>Feeding \<open>a @ b\<close> is feeding \<open>a\<close>, then the rest it left together with \<open>b\<close>.\<close>

lemma split_once_append_Some: "split_once c a = Some (l, rest) \<Longrightarrow> split_once c (a @ b) = Some (l, rest @ b)"
  by (auto simp: split_once_Some)

lemma feed_lines_append:
  "feed_lines (a @ b) r =
     (case feed_lines a r of
        (Inl e, r') \<Rightarrow> (Inl e, r')
      | (Inr (fs, left), r') \<Rightarrow>
          (case feed_lines (left @ b) r' of
             (Inl e, r'') \<Rightarrow> (Inl e, r'')
           | (Inr (gs, left'), r'') \<Rightarrow> (Inr (fs @ gs, left'), r'')))"
proof (induction a r rule: feed_lines.induct)
  case (1 a r)
  show ?case
  proof (cases "split_once NL a")
    case None
    then show ?thesis
      by (simp add: feed_lines.simps [of a] split: sum.splits prod.splits)
  next
    case (Some p)
    obtain l rest where p: "p = (l, rest)" by force
    obtain res r1 where push: "push_line (line_text l) r = (res, r1)" by force
    show ?thesis
    proof (cases "length l > MAX_SSE_PENDING \<or> (\<exists>e. res = Inl e)")
      case True
      then show ?thesis
        using Some p push
        by (auto simp: feed_lines.simps [of a] feed_lines.simps [of "a @ b"] split_once_append_Some)
    next
      case False
      then obtain f where f: "res = Inr f" by (cases res) auto
      show ?thesis
        using Some p push f False 1 [OF Some p [symmetric]]
        by (auto simp: feed_lines.simps [of a] feed_lines.simps [of "a @ b"] split_once_append_Some
            split: sum.splits prod.splits option.splits)
    qed
  qed
qed

lemma feed_lines_left_no_newline: "feed_lines bs r = (Inr (fs, left), r') \<Longrightarrow> NL \<notin> set left"
proof (induction bs r arbitrary: fs rule: feed_lines.induct)
  case (1 bs r)
  then show ?case
    by (subst (asm) feed_lines.simps)
      (fastforce simp: split_once_None split: option.splits sum.splits prod.splits if_splits)
qed

text \<open>No accepted line, and no rest of an accepted feed, is over the cap.\<close>

lemma feed_lines_prefix_bounded:
  assumes "feed_lines (l @ b) r = (Inr (fs, left), r')" "NL \<notin> set l" "length left \<le> MAX_SSE_PENDING"
  shows "length l \<le> MAX_SSE_PENDING"
proof (cases "split_once NL b")
  case None
  then have "split_once NL (l @ b) = None"
    using assms(2) by (simp add: split_once_None)
  then show ?thesis
    using assms(1,3) by (auto simp: feed_lines.simps [of "l @ b"])
next
  case (Some p)
  obtain x y where "p = (x, y)" by force
  then have "split_once NL (l @ b) = Some (l @ x, y)"
    using Some assms(2) by (auto simp: split_once_Some)
  then show ?thesis
    using assms(1) by (auto simp: feed_lines.simps [of "l @ b"] split: if_splits)
qed


section \<open>The reader as an exact incremental reader\<close>

definition sse_buf_ok :: "sse_reader \<Rightarrow> bool" where
  "sse_buf_ok r = (NL \<notin> set (buffer r) \<and> length (buffer r) \<le> MAX_SSE_PENDING)"

lemma feed_lines_no_newline: "NL \<notin> set bs \<Longrightarrow> feed_lines bs r = (Inr ([], bs), r)"
  by (subst feed_lines.simps) (simp add: split_once_None [THEN iffD2])

lemma sse_feed_Inr:
  assumes "sse_buf_ok r"
  shows "sse_feed bs r = (Inr fs, r') \<longleftrightarrow>
    (\<exists>left r1. feed_lines (buffer r @ bs) r = (Inr (fs, left), r1)
       \<and> length left \<le> MAX_SSE_PENDING \<and> r' = r1\<lparr>buffer := left\<rparr>)"
proof -
  have early: "feed_lines (buffer r @ bs) r = (Inr ([], buffer r @ bs), r)"
    if "NL \<notin> set bs" "NL \<notin> set (buffer r)"
    using that by (simp add: feed_lines_no_newline)
  show ?thesis
    by (auto simp: sse_feed_def feed_lines_buffer early split: sum.splits prod.splits)
qed

lemma sse_feed_buf_ok: "sse_buf_ok r \<Longrightarrow> sse_feed bs r = (Inr fs, r') \<Longrightarrow> sse_buf_ok r'"
  by (auto simp: sse_feed_Inr) (auto simp: sse_buf_ok_def dest: feed_lines_left_no_newline)

lemma sse_feed_nil: "sse_buf_ok r \<Longrightarrow> sse_feed [] r = (Inr [], r)"
  by (simp add: sse_feed_Inr, simp add: sse_buf_ok_def feed_lines_no_newline)

lemma sse_feed_split:
  assumes ok: "sse_buf_ok r" and feed: "sse_feed (a @ b) r = (Inr fs, r')"
  shows "\<exists>fs1 fs2 r1. sse_feed a r = (Inr fs1, r1) \<and> sse_feed b r1 = (Inr fs2, r') \<and> fs = fs1 @ fs2"
proof -
  obtain left r2 where
    f: "feed_lines ((buffer r @ a) @ b) r = (Inr (fs, left), r2)" "length left \<le> MAX_SSE_PENDING"
      "r' = r2\<lparr>buffer := left\<rparr>"
    using feed by (auto simp: sse_feed_Inr [OF ok])
  obtain fs1 l1 r1 fs2 where
    g: "feed_lines (buffer r @ a) r = (Inr (fs1, l1), r1)"
      "feed_lines (l1 @ b) r1 = (Inr (fs2, left), r2)" "fs = fs1 @ fs2"
    using f(1) unfolding feed_lines_append [of "buffer r @ a" b r]
    by (auto split: sum.splits prod.splits)
  have nl: "NL \<notin> set l1" and len: "length l1 \<le> MAX_SSE_PENDING"
    using feed_lines_left_no_newline [OF g(1)] feed_lines_prefix_bounded [OF g(2) _ f(2)] by auto
  have "sse_feed a r = (Inr fs1, r1\<lparr>buffer := l1\<rparr>)"
    using g(1) len by (auto simp: sse_feed_Inr [OF ok])
  moreover have "sse_feed b (r1\<lparr>buffer := l1\<rparr>) = (Inr fs2, r')"
    using nl len g(2) f(2,3) by (subst sse_feed_Inr) (auto simp: sse_buf_ok_def feed_lines_buffer)
  ultimately show ?thesis using g(3) by blast
qed

lemma sse_feed_join:
  assumes ok: "sse_buf_ok r" and a: "sse_feed a r = (Inr fs1, r1)" and b: "sse_feed b r1 = (Inr fs2, r')"
  shows "sse_feed (a @ b) r = (Inr (fs1 @ fs2), r')"
proof -
  have ok1: "sse_buf_ok r1" using ok a by (rule sse_feed_buf_ok)
  obtain l1 s1 where 1: "feed_lines (buffer r @ a) r = (Inr (fs1, l1), s1)" "r1 = s1\<lparr>buffer := l1\<rparr>"
    using a by (auto simp: sse_feed_Inr [OF ok])
  have "buffer r1 = l1" by (simp add: 1(2))
  then obtain l2 s2 where 2: "feed_lines (l1 @ b) r1 = (Inr (fs2, l2), s2)"
      "length l2 \<le> MAX_SSE_PENDING" "r' = s2\<lparr>buffer := l2\<rparr>"
    using b unfolding sse_feed_Inr [OF ok1] by blast
  obtain s2' where 3: "feed_lines (l1 @ b) s1 = (Inr (fs2, l2), s2')" "s2 = s2'\<lparr>buffer := l1\<rparr>"
    using 2(1) 1(2) by (auto simp: feed_lines_buffer split: sum.splits prod.splits)
  have "feed_lines ((buffer r @ a) @ b) r = (Inr (fs1 @ fs2, l2), s2')"
    unfolding feed_lines_append [of "buffer r @ a" b r] using 1(1) 3(1) by simp
  then show ?thesis
    using 2(2,3) 3(2) by (auto simp: sse_feed_Inr [OF ok])
qed

interpretation sse: exact_reader sse_feed sse_buf_ok
  by unfold_locales (auto simp: sse_feed_nil intro: sse_feed_buf_ok sse_feed_join dest: sse_feed_split)

lemma sse_buf_ok_new [simp]: "sse_buf_ok sse_new"
  by (simp add: sse_buf_ok_def sse_new_def)


section \<open>Memory bounds\<close>

text \<open>What the reader holds between calls: a partial line without a newline and within the cap, a byte
  count that is the length of the joined payload and within the cap, and no payload without the
  \<open>has_fields\<close> mark.\<close>

definition sse_fields_ok :: "sse_reader \<Rightarrow> bool" where
  "sse_fields_ok r =
     (data_bytes r = length (join [NL] (r_data r)) \<and> data_bytes r \<le> MAX_SSE_PENDING
      \<and> (r_data r \<noteq> [] \<or> r_event r \<noteq> None \<longrightarrow> has_fields r))"

definition sse_inv :: "sse_reader \<Rightarrow> bool" where
  "sse_inv r = (sse_buf_ok r \<and> sse_fields_ok r)"

definition frame_bounded :: "raw_sse \<Rightarrow> bool" where
  "frame_bounded f = (length (data f) \<le> MAX_SSE_PENDING)"

lemma join_snoc: "join sep (xs @ [x]) = (if xs = [] then x else join sep xs @ sep @ x)"
  by (induction sep xs rule: join.induct) auto

lemma buffer_sse_reset [simp]: "buffer (sse_reset r) = []"
  by (simp add: sse_reset_def)

lemma sse_fields_ok_reset [simp]: "sse_fields_ok (sse_reset r)" "sse_buf_ok (sse_reset r)"
  by (auto simp: sse_fields_ok_def sse_buf_ok_def sse_reset_def)

lemma sse_fields_ok_buffer [simp]: "sse_fields_ok (r\<lparr>buffer := x\<rparr>) = sse_fields_ok r"
  by (simp add: sse_fields_ok_def)

lemma take_frame_ok:
  assumes "sse_fields_ok r" "take_frame r = (f, r')"
  shows "sse_fields_ok r' \<and> pred_option frame_bounded f \<and> buffer r' = buffer r"
  using assms by (auto simp: take_frame_def sse_fields_ok_def frame_bounded_def split: if_splits)

text \<open>The five things \<open>push_line\<close> can do to the reader.\<close>

lemma push_line_cases:
  assumes "push_line l r = (res, r')"
  obtains (blank) f where "take_frame r = (f, r')" "res = Inr f"
  | (skip) "res = Inr None" "r' = r"
  | (mark) ev where "res = Inr None" "r' = r\<lparr>r_event := ev, has_fields := True\<rparr>"
  | (payload) v n where "res = Inr None" "n = data_bytes r + (if r_data r = [] then length v else length v + 1)"
      "n \<le> MAX_SSE_PENDING" "r' = r\<lparr>data_bytes := n, r_data := r_data r @ [v], has_fields := True\<rparr>"
  | (over) "res = Inl sse_data_error" "r' = sse_reset r"
proof -
  obtain name v where nv: "split_field l = (name, v)" by force
  consider "l = []" | "l \<noteq> []" "starts_with '':'' l" | "l \<noteq> []" "\<not> starts_with '':'' l" "name = ''event''"
    | "l \<noteq> []" "\<not> starts_with '':'' l" "name = ''data''"
    | "l \<noteq> []" "\<not> starts_with '':'' l" "name \<noteq> ''event''" "name \<noteq> ''data''" by blast
  then show thesis
  proof cases
    case 1
    then show thesis using assms blank by (auto simp: push_line_def split: prod.splits)
  next
    case 2
    then show thesis using assms skip by (simp add: push_line_def)
  next
    case 3
    then show thesis using assms mark [of "Some v"] nv by (simp add: push_line_def)
  next
    case 4
    then show thesis
      using assms payload [of "data_bytes r + (if r_data r = [] then length v else length v + 1)" v] over nv
      by (simp add: push_line_def Let_def split: if_splits)
  next
    case 5
    then show thesis
      using assms skip mark [of "r_event r"] nv by (simp add: push_line_def split: if_splits)
  qed
qed

lemma push_line_ok:
  assumes "sse_fields_ok r" "push_line l r = (res, r')"
  shows "sse_fields_ok r'"
    and "res = Inr f \<Longrightarrow> pred_option frame_bounded f \<and> buffer r' = buffer r"
proof -
  have "sse_fields_ok r' \<and> (res = Inr f \<longrightarrow> pred_option frame_bounded f \<and> buffer r' = buffer r)"
    using assms(2)
  proof (cases rule: push_line_cases)
    case (blank g)
    with take_frame_ok [OF assms(1)] show ?thesis by auto
  qed (use assms(1) in \<open>auto simp: sse_fields_ok_def join_snoc sse_reset_def\<close>)
  then show "sse_fields_ok r'" "res = Inr f \<Longrightarrow> pred_option frame_bounded f \<and> buffer r' = buffer r"
    by auto
qed

lemma push_line_frame_ok:
  "sse_fields_ok r \<Longrightarrow> push_line l r = (Inr (Some f), r') \<Longrightarrow> frame_bounded f"
  using push_line_ok(2) [of r l "Inr (Some f)" r' "Some f"] by simp

lemma feed_lines_ok:
  "sse_fields_ok r \<Longrightarrow> feed_lines bs r = (res, r') \<Longrightarrow>
     sse_fields_ok r' \<and> (\<forall>fs left. res = Inr (fs, left) \<longrightarrow> list_all frame_bounded fs)
     \<and> (\<forall>e. res = Inl e \<longrightarrow> buffer r' = [])"
proof (induction bs r arbitrary: res r' rule: feed_lines.induct)
  case (1 bs r)
  show ?case
  proof (cases "split_once NL bs")
    case None
    with 1 show ?thesis by (auto simp: feed_lines.simps [of bs])
  next
    case (Some p)
    obtain l rest where p: "p = (l, rest)" by force
    obtain pr r1 where push: "push_line (line_text l) r = (pr, r1)" by force
    have r1: "sse_fields_ok r1" using push_line_ok(1) [OF "1.prems"(1) push] .
    show ?thesis
    proof (cases "length l > MAX_SSE_PENDING \<or> (\<exists>e. pr = Inl e)")
      case True
      then show ?thesis
        using "1.prems" Some p push r1 push_line_Inl [of "line_text l" r]
        by (auto simp: feed_lines.simps [of bs] sse_reset_def sse_fields_ok_def split: if_splits)
    next
      case False
      then obtain f where f: "pr = Inr f" by (cases pr) auto
      obtain res2 r2 where rec: "feed_lines rest r1 = (res2, r2)" by force
      have IH: "sse_fields_ok r2 \<and> (\<forall>fs left. res2 = Inr (fs, left) \<longrightarrow> list_all frame_bounded fs)
          \<and> (\<forall>e. res2 = Inl e \<longrightarrow> buffer r2 = [])"
        using "1.IH" [OF Some p [symmetric] _ push [symmetric] f r1 rec] False by simp
      show ?thesis
        using "1.prems" Some p push f False rec IH push_line_frame_ok [OF "1.prems"(1), of "line_text l"]
        by (auto simp: feed_lines.simps [of bs] split: sum.splits prod.splits option.splits)
    qed
  qed
qed

lemma sse_inv_new [simp]: "sse_inv sse_new"
  by (simp add: sse_inv_def sse_fields_ok_def sse_new_def sse_buf_ok_def)

lemma sse_feed_inv:
  assumes inv: "sse_inv r" and feed: "sse_feed bs r = (res, r')"
  shows "sse_inv r' \<and> (\<forall>fs. res = Inr fs \<longrightarrow> list_all frame_bounded fs)"
proof -
  have ok: "sse_buf_ok r" "sse_fields_ok r" using inv by (auto simp: sse_inv_def)
  obtain lres r1 where lines: "feed_lines (buffer r @ bs) r = (lres, r1)" by force
  note fl = feed_lines_ok [OF ok(2) lines]
  show ?thesis
  proof (cases res)
    case (Inl e)
    then show ?thesis
      using feed fl lines
      by (auto simp: sse_feed_def sse_inv_def sse_buf_ok_def feed_lines_buffer
          split: if_splits sum.splits prod.splits)
  next
    case (Inr fs)
    then obtain left where "feed_lines (buffer r @ bs) r = (Inr (fs, left), r1)"
        "r' = r1\<lparr>buffer := left\<rparr>"
      using feed lines by (auto simp: sse_feed_Inr [OF ok(1)])
    then show ?thesis
      using fl lines Inr sse_feed_buf_ok [OF ok(1), of bs fs r'] feed by (auto simp: sse_inv_def)
  qed
qed

lemma sse_finish_inv:
  assumes inv: "sse_inv r" and fin: "sse_finish r = (res, r')"
  shows "sse_inv r' \<and> buffer r' = [] \<and> (\<forall>f. res = Inr (Some f) \<longrightarrow> frame_bounded f)"
proof -
  let ?l = "trim_end_matches CR (from_utf8_lossy (buffer r))"
  have ok: "sse_fields_ok (r\<lparr>buffer := []\<rparr>)" using inv by (simp add: sse_inv_def)
  obtain pr r1 where push: "push_line ?l (r\<lparr>buffer := []\<rparr>) = (pr, r1)" by force
  note p = push_line_ok [OF ok push]
  have buf: "buffer r1 = []"
    using p(2) push_line_Inl [of ?l "r\<lparr>buffer := []\<rparr>"] push by (cases pr) auto
  have tf: "sse_fields_ok r2 \<and> pred_option frame_bounded f \<and> buffer r2 = buffer r0"
    if "take_frame r0 = (f, r2)" "sse_fields_ok r0" for f r0 r2
    using take_frame_ok that by blast
  show ?thesis
  proof (cases "buffer r = []")
    case True
    then show ?thesis
      using fin tf [of r] inv
      by (auto simp: sse_finish_def sse_inv_def sse_buf_ok_def split: prod.splits)
  next
    case False
    then show ?thesis
      using fin push p buf tf [of r1]
      by (auto simp: sse_finish_def sse_inv_def sse_buf_ok_def split: prod.splits sum.splits option.splits)
  qed
qed


section \<open>Reading back what the proxy writes\<close>

text \<open>A line that survives the reader: no newline inside, no carriage return at its end, valid UTF-8.\<close>

definition clean_line :: "string \<Rightarrow> bool" where
  "clean_line s = (NL \<notin> set s \<and> (s = [] \<or> last s \<noteq> CR) \<and> utf8_valid s)"

definition frame_ok :: "raw_sse \<Rightarrow> bool" where
  "frame_ok f =
     ((case event f of None \<Rightarrow> True | Some e \<Rightarrow> clean_line e \<and> length e + 7 \<le> MAX_SSE_PENDING)
      \<and> list_all (\<lambda>l. clean_line l \<and> length l + 6 \<le> MAX_SSE_PENDING) (split_char NL (data f))
      \<and> length (data f) \<le> MAX_SSE_PENDING)"

lemma split_char_nonempty [simp]: "split_char c s \<noteq> []"
  by (subst split_char.simps) (auto split: option.splits)

lemma join_split_char [simp]: "join [c] (split_char c s) = s"
proof (induction c s rule: split_char.induct)
  case (1 c s)
  show ?case
  proof (cases "split_once c s")
    case None
    then show ?thesis by (simp add: split_char.simps [of c s])
  next
    case (Some p)
    obtain a b where p: "p = (a, b)" by force
    obtain x xs where xs: "split_char c b = x # xs"
      by (cases "split_char c b") auto
    have "join [c] (split_char c b) = b"
      using 1 [OF Some p [symmetric]] .
    moreover have "split_char c s = a # split_char c b"
      using Some p by (simp add: split_char.simps [of c s])
    moreover have "s = a @ c # b"
      using Some p by (simp add: split_once_Some)
    ultimately show ?thesis
      using xs by simp
  qed
qed

lemma utf8_valid_ascii_Cons: "byte_val c < 128 \<Longrightarrow> utf8_valid (c # s) = utf8_valid s"
  by (simp add: utf8_valid.simps(2))

lemma line_text_data: "clean_line l \<Longrightarrow> line_text (''data: '' @ l) = ''data: '' @ l"
  by (auto simp: line_text_def clean_line_def byte_val_def utf8_valid_ascii_Cons
      intro!: from_utf8_lossy_valid)

lemma line_text_event: "clean_line l \<Longrightarrow> line_text (''event: '' @ l) = ''event: '' @ l"
  by (auto simp: line_text_def clean_line_def byte_val_def utf8_valid_ascii_Cons
      intro!: from_utf8_lossy_valid)

lemma push_line_data:
  "push_line (''data: '' @ l) r =
     (let extra = (if r_data r = [] then length l else length l + 1) in
      if data_bytes r + extra > MAX_SSE_PENDING then (Inl sse_data_error, sse_reset r)
      else (Inr None, r\<lparr>data_bytes := data_bytes r + extra, r_data := r_data r @ [l], has_fields := True\<rparr>))"
  by (simp add: push_line_def split_field_def starts_with_def)

lemma push_line_event:
  "push_line (''event: '' @ l) r = (Inr None, r\<lparr>r_event := Some l, has_fields := True\<rparr>)"
  by (simp add: push_line_def split_field_def starts_with_def)

lemma feed_lines_step:
  assumes "NL \<notin> set l" "length l \<le> MAX_SSE_PENDING" "push_line (line_text l) r = (Inr None, r')"
  shows "feed_lines (l @ NL # rest) r = feed_lines rest r'"
  using assms by (subst feed_lines.simps) (auto split: sum.splits prod.splits)

lemma feed_lines_blank:
  "feed_lines (NL # rest) r =
     (let (f, r') = take_frame r in
      case feed_lines rest r' of
        (Inl e, r'') \<Rightarrow> (Inl e, r'')
      | (Inr (fs, left), r'') \<Rightarrow> (Inr (case f of None \<Rightarrow> fs | Some x \<Rightarrow> x # fs, left), r''))"
  by (subst feed_lines.simps)
    (simp add: line_text_def push_line_def Let_def split: sum.splits prod.splits)

lemma feed_lines_event:
  assumes "clean_line e" "length e + 7 \<le> MAX_SSE_PENDING"
  shows "feed_lines (''event: '' @ e @ NL # rest) r =
           feed_lines rest (r\<lparr>r_event := Some e, has_fields := True\<rparr>)"
  using feed_lines_step [of "''event: '' @ e" r _ rest] assms
  by (simp add: line_text_event [simplified] push_line_event [simplified] clean_line_def)

lemma join_Cons: "join sep (x # xs) = (if xs = [] then x else x @ sep @ join sep xs)"
  by (cases xs) auto

lemma length_join_mono: "length (join sep xs) \<le> length (join sep (xs @ ys))"
  by (induction sep xs rule: join.induct) (auto simp: join_Cons)

lemma feed_lines_data:
  assumes "list_all (\<lambda>l. clean_line l \<and> length l + 6 \<le> MAX_SSE_PENDING) ls"
    and "length (join [NL] (r_data r @ ls)) \<le> MAX_SSE_PENDING"
    and "data_bytes r = length (join [NL] (r_data r))"
  shows "feed_lines (concat (map (\<lambda>l. ''data: '' @ l @ [NL]) ls) @ rest) r =
    feed_lines rest (r\<lparr>data_bytes := length (join [NL] (r_data r @ ls)), r_data := r_data r @ ls,
      has_fields := has_fields r \<or> ls \<noteq> []\<rparr>)"
  using assms
proof (induction ls arbitrary: r)
  case Nil
  then show ?case by (cases r) simp
next
  case (Cons l ls)
  let ?r = "r\<lparr>data_bytes := length (join [NL] (r_data r @ [l])), r_data := r_data r @ [l], has_fields := True\<rparr>"
  have len: "length (join [NL] (r_data r @ [l])) \<le> MAX_SSE_PENDING"
    using Cons.prems(2) length_join_mono [of "[NL]" "r_data r @ [l]" ls] by simp
  have push: "push_line (line_text (''data: '' @ l)) r = (Inr None, ?r)"
    using Cons.prems len by (auto simp: line_text_data push_line_data join_snoc Let_def simp del: append_Cons)
  have "feed_lines (concat (map (\<lambda>l. ''data: '' @ l @ [NL]) (l # ls)) @ rest) r =
      feed_lines (concat (map (\<lambda>l. ''data: '' @ l @ [NL]) ls) @ rest) ?r"
    using feed_lines_step [OF _ _ push] Cons.prems(1) by (simp add: clean_line_def)
  also have "\<dots> = feed_lines rest (?r\<lparr>data_bytes := length (join [NL] (r_data ?r @ ls)),
      r_data := r_data ?r @ ls, has_fields := has_fields ?r \<or> ls \<noteq> []\<rparr>)"
    using Cons.prems by (intro Cons.IH) auto
  finally show ?case by simp
qed


lemma sse_frame_step:
  assumes f: "frame_ok f"
  shows "feed_lines (format_sse f @ rest) sse_new =
    (case feed_lines rest sse_new of
       (Inl e, r'') \<Rightarrow> (Inl e, r'')
     | (Inr (fs, left), r'') \<Rightarrow> (Inr (f # fs, left), r''))"
proof -
  let ?ls = "split_char NL (data f)"
  let ?r = "sse_new\<lparr>r_event := event f, has_fields := event f \<noteq> None\<rparr>"
  let ?r' = "?r\<lparr>data_bytes := length (data f), r_data := ?ls, has_fields := True\<rparr>"
  have ev: "feed_lines ((case event f of None \<Rightarrow> [] | Some e \<Rightarrow> ''event: '' @ e @ [NL]) @ xs) sse_new =
      feed_lines xs ?r" for xs
    using f by (auto simp: frame_ok_def sse_new_def feed_lines_event [simplified] split: option.splits)
  have "feed_lines (format_sse f @ rest) sse_new =
      feed_lines (concat (map (\<lambda>l. ''data: '' @ l @ [NL]) ?ls) @ NL # rest) ?r"
    using ev by (simp add: format_sse_def)
  also have "\<dots> = feed_lines (NL # rest) ?r'"
    using f by (subst feed_lines_data) (auto simp: frame_ok_def sse_new_def)
  also have "take_frame ?r' = (Some f, sse_new)"
    by (simp add: take_frame_def sse_new_def)
  then have "feed_lines (NL # rest) ?r' = (case feed_lines rest sse_new of
       (Inl e, r'') \<Rightarrow> (Inl e, r'')
     | (Inr (fs, left), r'') \<Rightarrow> (Inr (f # fs, left), r''))"
    unfolding feed_lines_blank by (simp split: sum.splits prod.splits)
  finally show ?thesis .
qed

lemma sse_frames_read_back:
  "list_all frame_ok fs \<Longrightarrow> sse_feed (concat (map format_sse fs)) sse_new = (Inr fs, sse_new)"
proof -
  assume "list_all frame_ok fs"
  then have "feed_lines (concat (map format_sse fs)) sse_new = (Inr (fs, []), sse_new)"
    by (induction fs) (simp_all add: sse_frame_step feed_lines_no_newline)
  then show ?thesis
    by (subst sse_feed_Inr [OF sse_buf_ok_new]) (auto simp: sse_new_def)
qed


text \<open>The open part of a frame, as the proxy replays it.\<close>

definition open_part_clean :: "sse_reader \<Rightarrow> bool" where
  "open_part_clean r =
     (sse_inv r \<and> (has_fields r \<longleftrightarrow> r_data r \<noteq> [] \<or> r_event r \<noteq> None)
      \<and> (case r_event r of None \<Rightarrow> True | Some e \<Rightarrow> clean_line e \<and> length e + 7 \<le> MAX_SSE_PENDING)
      \<and> list_all (\<lambda>l. clean_line l \<and> length l + 6 \<le> MAX_SSE_PENDING) (r_data r))"

lemma pending_bytes_refeed:
  assumes "open_part_clean r"
  shows "sse_feed (pending_wire_bytes r) sse_new = (Inr [], r)"
proof -
  have inv: "sse_fields_ok r" "NL \<notin> set (buffer r)" "length (buffer r) \<le> MAX_SSE_PENDING"
    using assms by (auto simp: open_part_clean_def sse_inv_def sse_buf_ok_def)
  let ?r = "sse_new\<lparr>r_event := r_event r, has_fields := r_event r \<noteq> None\<rparr>"
  let ?r' = "?r\<lparr>data_bytes := data_bytes r, r_data := r_data r, has_fields := has_fields r\<rparr>"
  have ev: "feed_lines ((case r_event r of None \<Rightarrow> [] | Some e \<Rightarrow> ''event: '' @ e @ [NL]) @ xs) sse_new =
      feed_lines xs ?r" for xs
    using assms
    by (auto simp: open_part_clean_def sse_new_def feed_lines_event [simplified] split: option.splits)
  have "feed_lines (pending_wire_bytes r) sse_new =
      feed_lines (concat (map (\<lambda>l. ''data: '' @ l @ [NL]) (r_data r)) @ buffer r) ?r"
    using ev by (simp add: pending_wire_bytes_def)
  also have "\<dots> = feed_lines (buffer r) ?r'"
    using assms inv(1)
    by (subst feed_lines_data) (auto simp: open_part_clean_def sse_fields_ok_def sse_new_def
        intro!: arg_cong2 [where f = feed_lines])
  also have "\<dots> = (Inr ([], buffer r), ?r')"
    using inv(2) by (rule feed_lines_no_newline)
  finally show ?thesis
    using inv(3) by (subst sse_feed_Inr [OF sse_buf_ok_new]) (cases r, auto simp: sse_new_def)
qed


section \<open>Properties\<close>

text \<open>C7. The way the transport cuts the byte stream does not matter: two sequences of reads with the same
  bytes produce the same frames and leave the same reader, or neither is accepted. In particular a
  multi-byte character split over two reads is decoded as if it had arrived whole.\<close>

theorem sse_chunking_irrelevant:
  assumes "sse_buf_ok r" "concat cs = concat ds"
  shows "feed_all sse_feed cs r = (Inr fs, r') \<longleftrightarrow> feed_all sse_feed ds r = (Inr fs, r')"
  using assms by (rule sse.same_bytes_same_frames)

definition euro_frame :: raw_sse where
  "euro_frame = \<lparr>event = Some ''message'', data = [CHR 0xE2, CHR 0x82, CHR 0xAC]\<rparr>"

lemmas utf8_eval = utf8_valid.simps utf8_step_def utf8_char_width_def utf8_second_def utf8_cont_def
  in_range_def byte_val_def

lemma euro_frame_ok: "list_all frame_ok [euro_frame]"
  by (simp add: frame_ok_def euro_frame_def clean_line_def split_char.simps MAX_SSE_PENDING_def utf8_eval)

lemma euro_frame_bytes:
  "concat (map format_sse [euro_frame]) =
     ''event: message'' @ [NL] @ ''data: '' @ [CHR 0xE2, CHR 0x82, CHR 0xAC, NL, NL]"
  by (simp add: format_sse_def euro_frame_def split_char.simps)

theorem sse_chunking_irrelevant_witness:
  "feed_all sse_feed
     [''event: mess'', ''age'' @ [NL] @ ''data: '' @ [CHR 0xE2, CHR 0x82], [CHR 0xAC, NL], [NL]] sse_new
     = (Inr [euro_frame], sse_new)"
proof -
  let ?cs = "[''event: mess'', ''age'' @ [NL] @ ''data: '' @ [CHR 0xE2, CHR 0x82], [CHR 0xAC, NL], [NL]]"
  let ?ds = "[concat (map format_sse [euro_frame])]"
  have same: "concat ?cs = concat ?ds"
    unfolding euro_frame_bytes by simp
  have whole: "feed_all sse_feed ?ds sse_new = (Inr [euro_frame], sse_new)"
    using sse_frames_read_back [OF euro_frame_ok] by simp
  show ?thesis
    using sse_chunking_irrelevant [OF sse_buf_ok_new same, THEN iffD2, OF whole] .
qed

text \<open>C38. Whatever list of frames the proxy writes with \<open>format_sse\<close>, and however the transport cuts it,
  the reader returns exactly these frames and is empty afterwards (for frames whose lines hold no
  newline and no trailing carriage return and are within the cap).\<close>

theorem sse_format_read_back:
  assumes "list_all frame_ok fs" "concat cs = concat (map format_sse fs)"
  shows "feed_all sse_feed cs sse_new = (Inr fs, sse_new)"
  using sse_frames_read_back [OF assms(1)] assms(2)
  by (simp add: sse.feed_all_iff)

theorem sse_format_read_back_witness:
  "feed_all sse_feed
     [''event: message'', [NL] @ ''data: '' @ [CHR 0xE2], [CHR 0x82, CHR 0xAC, NL, NL]] sse_new
     = (Inr [euro_frame], sse_new)"
  by (rule sse_format_read_back [OF euro_frame_ok]) (unfold euro_frame_bytes, simp)

text \<open>The states a client can bring a reader to, errors included.\<close>

inductive sse_reachable :: "sse_reader \<Rightarrow> bool" where
  new: "sse_reachable sse_new"
| feed: "sse_reachable r \<Longrightarrow> sse_reachable (snd (sse_feed bs r))"
| finish: "sse_reachable r \<Longrightarrow> sse_reachable (snd (sse_finish r))"
| drain: "sse_reachable r \<Longrightarrow> sse_reachable (snd (sse_drain r))"

lemma sse_reachable_inv: "sse_reachable r \<Longrightarrow> sse_inv r"
proof (induction rule: sse_reachable.induct)
  case (feed r bs)
  then show ?case using sse_feed_inv [of r bs] by (cases "sse_feed bs r") auto
next
  case (finish r)
  then show ?case using sse_finish_inv [of r] by (cases "sse_finish r") auto
next
  case (drain r)
  then show ?case
    using sse_finish_inv [of r] by (cases "sse_finish r") (auto simp: sse_drain_def split: sum.splits)
qed simp



text \<open>The bytes the proxy keeps for an open frame (\<open>pending_wire_bytes\<close>) rebuild it: a fresh reader
  fed with them completes no frame and is in the state of the reader they were taken from.\<close>

theorem sse_pending_bytes_rebuild:
  assumes "open_part_clean r"
  shows "sse_feed (pending_wire_bytes r) sse_new = (Inr [], r)"
  using assms by (rule pending_bytes_refeed)

theorem sse_pending_bytes_rebuild_witness:
  "sse_feed (''event: m'' @ [NL] @ ''data: a'' @ [NL] @ ''data: b'' @ [NL] @ ''dat'') sse_new
     = (Inr [], \<lparr>buffer = ''dat'', r_event = Some ''m'', r_data = [''a'', ''b''], data_bytes = 3,
               has_fields = True\<rparr>)"
proof -
  let ?r = "\<lparr>buffer = ''dat'', r_event = Some ''m'', r_data = [''a'', ''b''], data_bytes = 3,
               has_fields = True\<rparr>"
  have "open_part_clean ?r"
    by (simp add: open_part_clean_def sse_inv_def sse_buf_ok_def sse_fields_ok_def clean_line_def
        MAX_SSE_PENDING_def utf8_eval)
  from sse_pending_bytes_rebuild [OF this] show ?thesis
    by (simp add: pending_wire_bytes_def)
qed

end
