(* ===== verification/Wm_Eventstream.thy ===== *)
theory Wm_Eventstream
  imports Wm_Ir Wm_Chunks
begin

unbundle bit_operations_syntax

text \<open>
  AWS Event Stream (\<open>stream/eventstream.rs\<close>): the binary framing Bedrock uses for streamed Converse
  responses. A message is a 12-byte prelude (total length, headers length, CRC of these eight
  bytes), typed headers, a payload and a CRC of everything before it. The reader's struct is its
  buffer. Slices \<open>buf[i..]\<close> with a moving index are modelled by the unread suffix.

  The JSON parser is the parameter \<open>parse\<close> (\<open>serde_json::from_slice\<close> / \<open>from_str\<close>, \<open>None\<close> on an
  error) and the printer is \<open>to_str\<close> (\<open>Value::to_string\<close>).
\<close>

definition MAX_EVENTSTREAM_PENDING :: nat where
  "MAX_EVENTSTREAM_PENDING = 16 * 1024 * 1024"

definition PRELUDE_LEN :: nat where "PRELUDE_LEN = 12"
definition CRC_LEN :: nat where "CRC_LEN = 4"


section \<open>Big-endian integers and CRC-32\<close>

definition be_nat :: "bytes \<Rightarrow> nat" where
  "be_nat bs = foldl (\<lambda>a c. a * 256 + byte_val c) 0 bs"

definition u32_from_be_bytes :: "bytes \<Rightarrow> u32" where
  "u32_from_be_bytes bs = of_nat (be_nat bs)"

text \<open>Two's complement value of a big-endian signed integer (\<open>i16\<close>, \<open>i32\<close>, \<open>i64::from_be_bytes\<close>).\<close>

definition be_signed :: "bytes \<Rightarrow> int" where
  "be_signed bs =
     (let n = int (be_nat bs); w = 8 * length bs in if n < 2 ^ (w - 1) then n else n - 2 ^ w)"

definition to_be_bytes :: "nat \<Rightarrow> nat \<Rightarrow> bytes" where
  "to_be_bytes k n = map (\<lambda>i. char_of (n div 256 ^ i)) (rev [0..<k])"

definition u32_to_be_bytes :: "u32 \<Rightarrow> bytes" where
  "u32_to_be_bytes w = to_be_bytes 4 (unat w)"

text \<open>\<open>(n as u16).to_be_bytes()\<close>, \<open>(n as u32).to_be_bytes()\<close>, \<open>n as u8\<close> for \<open>n: usize\<close> truncate.\<close>

definition crc_bit :: "u32 \<Rightarrow> u32" where
  "crc_bit crc = (if crc AND 1 = 1 then drop_bit 1 crc XOR 0xEDB88320 else drop_bit 1 crc)"

definition crc_byte :: "u32 \<Rightarrow> char \<Rightarrow> u32" where
  "crc_byte crc b = (crc_bit ^^ 8) (crc XOR of_char b)"

definition crc32_ieee :: "bytes \<Rightarrow> u32" where
  "crc32_ieee bs = NOT (foldl crc_byte 0xFFFFFFFF bs)"


section \<open>Headers\<close>

definition take_bytes :: "bytes \<Rightarrow> nat \<Rightarrow> string + bytes \<times> bytes" where
  "take_bytes rest n =
     (if n > length rest then Inl ''eventstream header value truncated''
      else Inr (take n rest, drop n rest))"

definition bind_res :: "'e + 'a \<Rightarrow> ('a \<Rightarrow> 'e + 'b) \<Rightarrow> 'e + 'b" where
  "bind_res x f = (case x of Inl e \<Rightarrow> Inl e | Inr a \<Rightarrow> f a)"

text \<open>\<open>format!("{bytes:?}")\<close> of a byte byte_slice.\<close>

definition show_bytes_debug :: "bytes \<Rightarrow> string" where
  "show_bytes_debug bs = ''['' @ join '', '' (map (\<lambda>c. show_nat (byte_val c)) bs) @ '']''"

definition read_header_value :: "nat \<Rightarrow> bytes \<Rightarrow> string + string \<times> bytes" where
  "read_header_value ty rest =
     (if ty = 0 then Inr (''true'', rest)
      else if ty = 1 then Inr (''false'', rest)
      else if ty = 2 then bind_res (take_bytes rest 1) (\<lambda>(b, r). Inr (show_nat (be_nat b), r))
      else if ty = 3 then bind_res (take_bytes rest 2) (\<lambda>(b, r). Inr (show_int (be_signed b), r))
      else if ty = 4 then bind_res (take_bytes rest 4) (\<lambda>(b, r). Inr (show_int (be_signed b), r))
      else if ty = 5 then bind_res (take_bytes rest 8) (\<lambda>(b, r). Inr (show_int (be_signed b), r))
      else if ty = 6 then
        bind_res (take_bytes rest 2) (\<lambda>(b, r).
          bind_res (take_bytes r (be_nat b)) (\<lambda>(v, r'). Inr (show_bytes_debug v, r')))
      else if ty = 7 then
        bind_res (take_bytes rest 2) (\<lambda>(b, r).
          bind_res (take_bytes r (be_nat b)) (\<lambda>(v, r').
            case from_utf8 v of
              None \<Rightarrow> Inl ''eventstream string header is not UTF-8''
            | Some t \<Rightarrow> Inr (t, r')))
      else if ty = 8 then bind_res (take_bytes rest 8) (\<lambda>(b, r). Inr (show_int (be_signed b), r))
      else if ty = 9 then
        bind_res (take_bytes rest 16) (\<lambda>(b, r). Inr (concat (map show_hex2 b), r))
      else Inl (''eventstream unknown header type '' @ show_nat ty))"

record parsed_headers =
  h_event_type :: "string option"
  h_message_type :: "string option"
  h_exception_type :: "string option"

definition no_headers :: parsed_headers where
  "no_headers = \<lparr>h_event_type = None, h_message_type = None, h_exception_type = None\<rparr>"

definition set_header :: "string \<Rightarrow> string \<Rightarrow> parsed_headers \<Rightarrow> parsed_headers" where
  "set_header name v h =
     (if name = '':event-type'' then h\<lparr>h_event_type := Some v\<rparr>
      else if name = '':message-type'' then h\<lparr>h_message_type := Some v\<rparr>
      else if name = '':exception-type'' then h\<lparr>h_exception_type := Some v\<rparr>
      else h)"

lemma take_bytes_shorter: "take_bytes rest n = Inr (b, r) \<Longrightarrow> length r \<le> length rest"
  by (auto simp: take_bytes_def split: if_splits)

lemma bind_res_Inr: "bind_res x f = Inr y \<longleftrightarrow> (\<exists>a. x = Inr a \<and> f a = Inr y)"
  by (auto simp: bind_res_def split: sum.splits)

lemma read_header_value_shorter: "read_header_value ty rest = Inr (v, r) \<Longrightarrow> length r \<le> length rest"
  unfolding read_header_value_def
  by (auto simp: bind_res_Inr split: if_splits option.splits dest!: take_bytes_shorter)

function parse_headers_loop :: "bytes \<Rightarrow> parsed_headers \<Rightarrow> string + parsed_headers" where
  "parse_headers_loop [] h = Inr h"
| "parse_headers_loop (n # rest) h =
     (if byte_val n + 1 > length rest then Inl ''eventstream header name truncated''
      else
        (case from_utf8 (take (byte_val n) rest) of
           None \<Rightarrow> Inl ''eventstream header name is not UTF-8''
         | Some name \<Rightarrow>
             (case read_header_value (byte_val (rest ! byte_val n)) (drop (byte_val n + 1) rest) of
                Inl e \<Rightarrow> Inl e
              | Inr (v, rest') \<Rightarrow> parse_headers_loop rest' (set_header name v h))))"
  by pat_completeness auto
termination
  by (relation "measure (\<lambda>(bs, h). length bs)") (auto dest!: read_header_value_shorter)

declare parse_headers_loop.simps(2) [simp del]

definition parse_headers :: "bytes \<Rightarrow> string + parsed_headers" where
  "parse_headers bs = parse_headers_loop bs no_headers"


section \<open>Messages\<close>

record es_message =
  event_type :: "string option"
  es_payload :: bytes

datatype es_take = Frame es_message nat | Exception string nat

definition exception_error :: "(bytes \<Rightarrow> json option) \<Rightarrow> string \<Rightarrow> bytes \<Rightarrow> string" where
  "exception_error parse exception_type pl =
     (let message =
        unwrap_or (Option.bind (parse pl) (\<lambda>v. Option.bind (jget v ''message'') as_str))
          (from_utf8_lossy pl)
      in ''eventstream exception '' @ exception_type @ '': '' @ message)"

definition byte_slice :: "bytes \<Rightarrow> nat \<Rightarrow> nat \<Rightarrow> bytes" where
  "byte_slice bs i j = take (j - i) (drop i bs)"

definition take_message :: "(bytes \<Rightarrow> json option) \<Rightarrow> bytes \<Rightarrow> string + es_take option" where
  "take_message parse buf =
     (if length buf < PRELUDE_LEN then Inr None
      else
        (let total = unat (u32_from_be_bytes (byte_slice buf 0 4));
             headers_len = unat (u32_from_be_bytes (byte_slice buf 4 8));
             prelude_crc = u32_from_be_bytes (byte_slice buf 8 12) in
         if crc32_ieee (byte_slice buf 0 8) \<noteq> prelude_crc then Inl ''eventstream prelude CRC mismatch''
         else if \<not> (PRELUDE_LEN + CRC_LEN \<le> total \<and> total \<le> MAX_EVENTSTREAM_PENDING) then
           Inl (''eventstream total_length '' @ show_nat total @ '' is invalid'')
         else if length buf < total then Inr None
         else
           (let message_crc = u32_from_be_bytes (byte_slice buf (total - CRC_LEN) total) in
            if crc32_ieee (take (total - CRC_LEN) buf) \<noteq> message_crc then
              Inl ''eventstream message CRC mismatch''
            else
              (let headers_end = PRELUDE_LEN + headers_len in
               if headers_end > total - CRC_LEN then Inl ''eventstream headers overflow payload''
               else
                 (case parse_headers (byte_slice buf PRELUDE_LEN headers_end) of
                    Inl e \<Rightarrow> Inl e
                  | Inr h \<Rightarrow>
                      (let pl = byte_slice buf headers_end (total - CRC_LEN) in
                       if h_message_type h = Some ''exception'' then
                         Inr (Some (Exception
                           (exception_error parse (unwrap_or (h_exception_type h) ''unknown'') pl) total))
                       else
                         Inr (Some (Frame \<lparr>event_type = h_event_type h, es_payload = pl\<rparr> total))))))))"

definition wrap_event_payload ::
  "(bytes \<Rightarrow> json option) \<Rightarrow> (json \<Rightarrow> string) \<Rightarrow> string option \<Rightarrow> bytes \<Rightarrow> string" where
  "wrap_event_payload parse to_str ety pl =
     (let text = from_utf8_lossy pl in
      case ofilter (\<lambda>n. n \<noteq> []) ety of
        None \<Rightarrow> text
      | Some name \<Rightarrow>
          (case parse pl of
             Some (JObject m) \<Rightarrow>
               if map_of m name \<noteq> None then text
               else to_str (json_obj [(name, JObject m)])
           | _ \<Rightarrow> text))"

definition into_raw_sse ::
  "(bytes \<Rightarrow> json option) \<Rightarrow> (json \<Rightarrow> string) \<Rightarrow> es_message \<Rightarrow> raw_sse" where
  "into_raw_sse parse to_str msg =
     \<lparr>event = event_type msg, data = wrap_event_payload parse to_str (event_type msg) (es_payload msg)\<rparr>"

definition ensure_block_index :: "(json \<Rightarrow> string) \<Rightarrow> string \<Rightarrow> json \<Rightarrow> bytes" where
  "ensure_block_index to_str ety v =
     to_str
       (if ety \<in> set [''contentBlockDelta'', ''contentBlockStart'', ''contentBlockStop'']
           \<and> jget v ''contentBlockIndex'' = None
        then jinsert ''contentBlockIndex'' (json_u64 0) v else v)"

definition unwrap_event_payload ::
  "(bytes \<Rightarrow> json option) \<Rightarrow> (json \<Rightarrow> string) \<Rightarrow> string \<Rightarrow> string \<Rightarrow> bytes" where
  "unwrap_event_payload parse to_str ety d =
     (case parse d of
        Some (JObject m) \<Rightarrow>
          (case map_of m ety of
             Some inner \<Rightarrow> if length m \<noteq> 1 then d else ensure_block_index to_str ety inner
           | None \<Rightarrow> ensure_block_index to_str ety (JObject m))
      | _ \<Rightarrow> d)"


section \<open>The reader\<close>

record es_reader =
  es_buffer :: bytes

definition es_new :: es_reader where
  "es_new = \<lparr>es_buffer = []\<rparr>"

lemma take_message_consumed:
  assumes "take_message parse buf = Inr (Some t)"
  shows "case t of Frame m n \<Rightarrow> 16 \<le> n \<and> n \<le> length buf | Exception e n \<Rightarrow> 16 \<le> n \<and> n \<le> length buf"
  using assms unfolding take_message_def
  by (auto simp: Let_def PRELUDE_LEN_def CRC_LEN_def split: if_splits sum.splits)

text \<open>The loop of \<open>feed\<close> over \<open>self.buffer[cursor..]\<close>: the frames, the exception if one ended the chunk,
  and the buffer that is left.\<close>

function es_loop ::
  "(bytes \<Rightarrow> json option) \<Rightarrow> (json \<Rightarrow> string) \<Rightarrow> bytes \<Rightarrow> (string + raw_sse list \<times> string option) \<times> bytes" where
  "es_loop parse to_str rest =
     (case take_message parse rest of
        Inl e \<Rightarrow> (Inl e, rest)
      | Inr None \<Rightarrow> (Inr ([], None), rest)
      | Inr (Some (Exception e n)) \<Rightarrow> (Inr ([], Some e), [])
      | Inr (Some (Frame m n)) \<Rightarrow>
          (case es_loop parse to_str (drop n rest) of
             (Inl e, b) \<Rightarrow> (Inl e, b)
           | (Inr (fs, ex), b) \<Rightarrow> (Inr (into_raw_sse parse to_str m # fs, ex), b)))"
  by pat_completeness auto
termination
  by (relation "measure (\<lambda>(p, t, bs). length bs)") (auto dest!: take_message_consumed)

declare es_loop.simps [simp del]

definition es_feed ::
  "(bytes \<Rightarrow> json option) \<Rightarrow> (json \<Rightarrow> string) \<Rightarrow> bytes \<Rightarrow> es_reader
     \<Rightarrow> (string + raw_sse list \<times> string option) \<times> es_reader" where
  "es_feed parse to_str bs r =
     (if length (es_buffer r) + length bs > MAX_EVENTSTREAM_PENDING then
        (Inl (''eventstream buffer exceeds '' @ show_nat MAX_EVENTSTREAM_PENDING @ '' bytes''),
         r\<lparr>es_buffer := []\<rparr>)
      else
        (let (res, b) = es_loop parse to_str (es_buffer r @ bs) in (res, r\<lparr>es_buffer := b\<rparr>)))"

definition es_drain :: "es_reader \<Rightarrow> raw_sse option \<times> es_reader" where
  "es_drain r = (None, r)"

definition es_finish :: "es_reader \<Rightarrow> (string + raw_sse option) \<times> es_reader" where
  "es_finish r =
     (if es_buffer r = [] then (Inr None, r)
      else (Inl (''eventstream ended with '' @ show_nat (length (es_buffer r)) @ '' trailing bytes''),
            r\<lparr>es_buffer := []\<rparr>))"


section \<open>Encoding\<close>

definition write_string_header :: "bytes \<Rightarrow> string \<Rightarrow> string \<Rightarrow> bytes" where
  "write_string_header out name v =
     out @ [char_of (length name)] @ name @ [char_of (7 :: nat)] @ to_be_bytes 2 (length v) @ v"

definition encode_with_headers :: "bytes \<Rightarrow> bytes \<Rightarrow> bytes" where
  "encode_with_headers headers pl =
     (let total = PRELUDE_LEN + length headers + length pl + CRC_LEN;
          out = u32_to_be_bytes (of_nat total) @ u32_to_be_bytes (of_nat (length headers));
          out = out @ u32_to_be_bytes (crc32_ieee out);
          out = out @ headers @ pl
      in out @ u32_to_be_bytes (crc32_ieee out))"

definition encode_message :: "string \<Rightarrow> bytes \<Rightarrow> bytes" where
  "encode_message ety pl =
     (let h = write_string_header [] '':message-type'' ''event'';
          h = write_string_header h '':event-type'' ety;
          h = write_string_header h '':content-type'' ''application/json''
      in encode_with_headers h pl)"

definition encode_exception_message :: "string \<Rightarrow> bytes \<Rightarrow> bytes" where
  "encode_exception_message xty pl =
     (let h = write_string_header [] '':message-type'' ''exception'';
          h = write_string_header h '':exception-type'' xty;
          h = write_string_header h '':content-type'' ''application/json''
      in encode_with_headers h pl)"


section \<open>Integers round trip\<close>

lemma be_nat_append: "be_nat (xs @ [c]) = be_nat xs * 256 + byte_val c"
  by (simp add: be_nat_def)

lemma byte_val_char_of [simp]: "byte_val (char_of n) = n mod 256"
  by (simp add: byte_val_def)

lemma to_be_bytes_Suc: "to_be_bytes (Suc k) n = to_be_bytes k (n div 256) @ [char_of n]"
proof -
  have "rev [0..<Suc k] = map Suc (rev [0..<k]) @ [0]"
    by (simp only: upt_conv_Cons [OF zero_less_Suc] rev.simps map_Suc_upt flip: rev_map)
  then show ?thesis
    by (simp add: to_be_bytes_def div_mult2_eq)
qed

lemma length_to_be_bytes [simp]: "length (to_be_bytes k n) = k"
  by (simp add: to_be_bytes_def)

lemma be_nat_to_be_bytes: "be_nat (to_be_bytes k n) = n mod 256 ^ k"
proof (induction k arbitrary: n)
  case 0
  then show ?case by (simp add: be_nat_def to_be_bytes_def)
next
  case (Suc k)
  have "n mod 256 ^ Suc k = 256 * (n div 256 mod 256 ^ k) + n mod 256"
    by (simp add: mod_mult2_eq)
  then show ?case
    by (simp add: to_be_bytes_Suc be_nat_append Suc)
qed

lemma length_u32_to_be_bytes [simp]: "length (u32_to_be_bytes w) = 4"
  by (simp add: u32_to_be_bytes_def)

lemma u32_from_to_be_bytes [simp]: "u32_from_be_bytes (u32_to_be_bytes w) = w"
proof -
  have "unat w < 256 ^ 4"
    using unsigned_less [of w] by simp
  then show ?thesis
    by (simp add: u32_from_be_bytes_def u32_to_be_bytes_def be_nat_to_be_bytes)
qed


section \<open>Reading a prefix\<close>

lemma byte_slice_append: "j \<le> length xs \<Longrightarrow> byte_slice (xs @ ys) i j = byte_slice xs i j"
  by (auto simp: byte_slice_def)

lemma byte_slice_in_append:
  "length a = i \<Longrightarrow> length b = j - i \<Longrightarrow> byte_slice (a @ b @ c) i j = b"
  by (auto simp: byte_slice_def)

text \<open>Once the bytes at hand decide the next message, more bytes do not change the decision.\<close>

lemma take_message_append:
  assumes "take_message parse xs \<noteq> Inr None"
  shows "take_message parse (xs @ ys) = take_message parse xs"
proof -
  have long: "12 \<le> length xs"
    using assms by (auto simp: take_message_def PRELUDE_LEN_def not_less split: if_splits)
  have slices: "byte_slice (xs @ ys) 0 4 = byte_slice xs 0 4" "byte_slice (xs @ ys) 4 8 = byte_slice xs 4 8"
    "byte_slice (xs @ ys) 8 12 = byte_slice xs 8 12" "byte_slice (xs @ ys) 0 8 = byte_slice xs 0 8"
    using long by (auto intro: byte_slice_append)
  let ?total = "unat (u32_from_be_bytes (byte_slice xs 0 4))"
  show ?thesis
  proof (cases "length xs < ?total")
    case True
    then show ?thesis
      using assms long
      by (auto simp: take_message_def Let_def PRELUDE_LEN_def slices split: if_splits)
  next
    case False
    then have rest: "byte_slice (xs @ ys) i j = byte_slice xs i j" "take (?total - CRC_LEN) (xs @ ys) = take (?total - CRC_LEN) xs"
      if "j \<le> ?total" for i j
      using that by (auto intro: byte_slice_append simp: CRC_LEN_def)
    show ?thesis
      using long False
      by (simp add: take_message_def Let_def slices rest PRELUDE_LEN_def CRC_LEN_def cong: if_cong sum.case_cong)
  qed
qed

lemma take_message_short: "length buf < 12 \<Longrightarrow> take_message parse buf = Inr None"
  by (simp add: take_message_def PRELUDE_LEN_def)

lemma es_loop_append:
  assumes "es_loop parse to_str (a @ b) = (Inr (fs, None), left)"
  shows "\<exists>fs1 fs2 l1. es_loop parse to_str a = (Inr (fs1, None), l1)
    \<and> es_loop parse to_str (l1 @ b) = (Inr (fs2, None), left) \<and> fs = fs1 @ fs2"
  using assms
proof (induction parse to_str a arbitrary: fs rule: es_loop.induct)
  case (1 parse to_str a)
  show ?case
  proof (cases "take_message parse a")
    case (Inl e)
    then have "take_message parse (a @ b) = Inl e"
      by (simp add: take_message_append)
    with "1.prems" show ?thesis by (simp add: es_loop.simps [of _ _ "a @ b"])
  next
    case (Inr t)
    show ?thesis
    proof (cases t)
      case None
      with Inr "1.prems" show ?thesis by (simp add: es_loop.simps [of _ _ a])
    next
      case (Some m)
      then have ab: "take_message parse (a @ b) = Inr (Some m)"
        using Inr by (simp add: take_message_append)
      show ?thesis
      proof (cases m)
        case (Exception e n)
        with ab "1.prems" show ?thesis by (simp add: es_loop.simps [of _ _ "a @ b"])
      next
        case (Frame f n)
        have "n \<le> length a"
          using take_message_consumed [of parse a] Inr Some Frame by force
        then have "drop n (a @ b) = drop n a @ b" by simp
        with ab Frame "1.prems" obtain gs where
          gs: "es_loop parse to_str (drop n a @ b) = (Inr (gs, None), left)"
            "fs = into_raw_sse parse to_str f # gs"
          by (auto simp: es_loop.simps [of _ _ "a @ b"] split: sum.splits prod.splits)
        then show ?thesis
          using "1.IH" [OF Inr Some Frame gs(1)] Inr Some Frame
          by (auto simp: es_loop.simps [of _ _ a])
      qed
    qed
  qed
qed

lemma es_loop_left:
  "es_loop parse to_str bs = (Inr (fs, None), left) \<Longrightarrow>
     take_message parse left = Inr None \<and> length left \<le> length bs"
proof (induction parse to_str bs arbitrary: fs rule: es_loop.induct)
  case (1 parse to_str bs)
  then show ?case
    by (subst (asm) (2) es_loop.simps)
      (fastforce split: sum.splits option.splits es_take.splits prod.splits)
qed


section \<open>The reader as an incremental reader\<close>

text \<open>\<open>feed\<close> seen by a client that treats an exception frame as the end of the stream.\<close>

definition es_feed_frames ::
  "(bytes \<Rightarrow> json option) \<Rightarrow> (json \<Rightarrow> string) \<Rightarrow> bytes \<Rightarrow> es_reader \<Rightarrow> (string + raw_sse list) \<times> es_reader" where
  "es_feed_frames parse to_str bs r =
     (case es_feed parse to_str bs r of
        (Inr (fs, None), r') \<Rightarrow> (Inr fs, r')
      | (Inr (fs, Some e), r') \<Rightarrow> (Inl e, r')
      | (Inl e, r') \<Rightarrow> (Inl e, r'))"

definition es_inv :: "(bytes \<Rightarrow> json option) \<Rightarrow> es_reader \<Rightarrow> bool" where
  "es_inv parse r =
     (take_message parse (es_buffer r) = Inr None \<and> length (es_buffer r) \<le> MAX_EVENTSTREAM_PENDING)"

lemma es_feed_frames_Inr:
  "es_feed_frames parse to_str bs r = (Inr fs, r') \<longleftrightarrow>
     length (es_buffer r) + length bs \<le> MAX_EVENTSTREAM_PENDING
     \<and> es_loop parse to_str (es_buffer r @ bs) = (Inr (fs, None), es_buffer r')"
  by (cases r; cases r')
    (auto simp: es_feed_frames_def es_feed_def not_less split: sum.splits prod.splits option.splits)

interpretation es: chunked_reader "es_feed_frames parse to_str" "es_inv parse" for parse to_str
proof
  fix s
  assume "es_inv parse s"
  then show "es_feed_frames parse to_str [] s = (Inr [], s)"
    by (simp add: es_feed_frames_Inr es_inv_def es_loop.simps)
next
  fix s bs fs s'
  assume "es_inv parse s" "es_feed_frames parse to_str bs s = (Inr fs, s')"
  then show "es_inv parse s'"
    using es_loop_left [of parse to_str "es_buffer s @ bs" fs "es_buffer s'"]
    by (auto simp: es_feed_frames_Inr es_inv_def)
next
  fix s a b fs s'
  assume feed: "es_feed_frames parse to_str (a @ b) s = (Inr fs, s')"
  then have "es_loop parse to_str ((es_buffer s @ a) @ b) = (Inr (fs, None), es_buffer s')"
    and len: "length (es_buffer s) + length a + length b \<le> MAX_EVENTSTREAM_PENDING"
    by (auto simp: es_feed_frames_Inr)
  then obtain fs1 fs2 l1 where
    1: "es_loop parse to_str (es_buffer s @ a) = (Inr (fs1, None), l1)"
      "es_loop parse to_str (l1 @ b) = (Inr (fs2, None), es_buffer s')" "fs = fs1 @ fs2"
    using es_loop_append by blast
  have "length l1 \<le> length (es_buffer s) + length a"
    using es_loop_left [OF 1(1)] by simp
  then have "es_feed_frames parse to_str a s = (Inr fs1, \<lparr>es_buffer = l1\<rparr>)
      \<and> es_feed_frames parse to_str b \<lparr>es_buffer = l1\<rparr> = (Inr fs2, s')"
    using 1 len by (simp add: es_feed_frames_Inr)
  then show "\<exists>fs1 fs2 s1. es_feed_frames parse to_str a s = (Inr fs1, s1)
      \<and> es_feed_frames parse to_str b s1 = (Inr fs2, s') \<and> fs = fs1 @ fs2"
    using 1(3) by blast
qed

lemma es_inv_new [simp]: "es_inv parse es_new"
  by (simp add: es_inv_def es_new_def take_message_short)


section \<open>Encoded messages read back\<close>

lemma three_headers:
  "write_string_header (write_string_header (write_string_header [] a b) c d) e f =
     write_string_header [] a b @ write_string_header [] c d @ write_string_header [] e f"
  by (simp add: write_string_header_def)

lemma parse_string_header:
  assumes "length name < 256" "utf8_valid name" "length v < 65536" "utf8_valid v"
  shows "parse_headers_loop (write_string_header [] name v @ rest) h =
           parse_headers_loop rest (set_header name v h)"
proof -
  have len: "be_nat (to_be_bytes 2 (length v)) = length v"
    using assms(3) by (simp add: be_nat_to_be_bytes)
  have "read_header_value 7 (to_be_bytes 2 (length v) @ v @ rest) = Inr (v, rest)"
    using assms(4) by (simp add: read_header_value_def take_bytes_def bind_res_def len from_utf8_def)
  then show ?thesis
    using assms(1,2)
    by (simp add: write_string_header_def parse_headers_loop.simps(2) from_utf8_def nth_append)
qed

lemma parse_last_header:
  assumes "length name < 256" "utf8_valid name" "length v < 65536" "utf8_valid v"
  shows "parse_headers_loop (write_string_header [] name v) h = Inr (set_header name v h)"
  using parse_string_header [OF assms, of "[]"] by simp

lemma unat_of_nat_u32: "n < 2 ^ 32 \<Longrightarrow> unat (of_nat n :: u32) = n"
  by (simp add: unsigned_of_nat take_bit_nat_eq_self)

lemma take_message_encoded:
  assumes h: "parse_headers headers = Inr h"
    and fits: "length headers + length pl + 16 \<le> MAX_EVENTSTREAM_PENDING"
  shows "take_message parse (encode_with_headers headers pl @ rest) =
    Inr (Some (let total = length headers + length pl + 16 in
      if h_message_type h = Some ''exception''
      then Exception (exception_error parse (unwrap_or (h_exception_type h) ''unknown'') pl) total
      else Frame \<lparr>event_type = h_event_type h, es_payload = pl\<rparr> total))"
proof -
  let ?total = "length headers + length pl + 16"
  let ?a = "u32_to_be_bytes (of_nat ?total)" and ?b = "u32_to_be_bytes (of_nat (length headers))"
  let ?c = "u32_to_be_bytes (crc32_ieee (?a @ ?b))"
  let ?m = "?a @ ?b @ ?c @ headers @ pl"
  let ?d = "u32_to_be_bytes (crc32_ieee ?m)"
  let ?buf = "?m @ ?d @ rest"
  have enc: "encode_with_headers headers pl @ rest = ?buf"
    by (simp add: encode_with_headers_def Let_def PRELUDE_LEN_def CRC_LEN_def add.commute add.left_commute)
  have small: "?total < 2 ^ 32"
    using fits by (simp add: MAX_EVENTSTREAM_PENDING_def)
  have nums: "unat (of_nat ?total :: u32) = ?total" "unat (of_nat (length headers) :: u32) = length headers"
    by (rule unat_of_nat_u32, use small in linarith)+
  have sl: "byte_slice ?buf 0 4 = ?a" "byte_slice ?buf 4 8 = ?b" "byte_slice ?buf 8 12 = ?c"
    "byte_slice ?buf 0 8 = ?a @ ?b" "byte_slice ?buf 12 (12 + length headers) = headers"
    "byte_slice ?buf (12 + length headers) (?total - 4) = pl" "byte_slice ?buf (?total - 4) ?total = ?d"
    "take (?total - 4) ?buf = ?m"
    by (simp_all add: byte_slice_def)
  have len: "length ?buf = ?total + length rest" by simp
  show ?thesis
    unfolding enc take_message_def Let_def len PRELUDE_LEN_def CRC_LEN_def
    using fits by (simp only: sl u32_from_to_be_bytes nums h) simp
qed


definition es_fits :: "string \<times> bytes \<Rightarrow> bool" where
  "es_fits m = (utf8_valid (fst m) \<and> length (fst m) < 65536
     \<and> length (fst m) + length (snd m) + 100 \<le> MAX_EVENTSTREAM_PENDING)"

lemma utf8_valid_literals [simp]:
  "utf8_valid '':message-type''" "utf8_valid '':event-type''" "utf8_valid '':content-type''"
  "utf8_valid '':exception-type''" "utf8_valid ''event''" "utf8_valid ''exception''"
  "utf8_valid ''application/json''"
  by (rule utf8_valid_ascii, auto simp: byte_val_def)+

lemma length_write_string_header [simp]:
  "length (write_string_header out name v) = length out + length name + length v + 4"
  by (simp add: write_string_header_def)

lemma take_message_encode:
  assumes "es_fits (ety, pl)"
  shows "take_message parse (encode_message ety pl @ rest) =
    Inr (Some (Frame \<lparr>event_type = Some ety, es_payload = pl\<rparr> (length (encode_message ety pl))))"
proof -
  let ?h = "write_string_header (write_string_header (write_string_header []
    '':message-type'' ''event'') '':event-type'' ety) '':content-type'' ''application/json''"
  have h: "parse_headers ?h = Inr \<lparr>h_event_type = Some ety, h_message_type = Some ''event'', h_exception_type = None\<rparr>"
    using assms
    by (simp add: three_headers parse_headers_def parse_string_header parse_last_header es_fits_def
        set_header_def no_headers_def)
  have "length ?h + length pl + 16 \<le> MAX_EVENTSTREAM_PENDING"
    using assms by (simp add: es_fits_def)
  from take_message_encoded [OF h this] show ?thesis
    by (simp add: encode_message_def encode_with_headers_def Let_def PRELUDE_LEN_def CRC_LEN_def)
qed

lemma take_message_encode_exception:
  assumes "es_fits (xty, pl)"
  shows "take_message parse (encode_exception_message xty pl @ rest) =
    Inr (Some (Exception (exception_error parse xty pl) (length (encode_exception_message xty pl))))"
proof -
  let ?h = "write_string_header (write_string_header (write_string_header []
    '':message-type'' ''exception'') '':exception-type'' xty) '':content-type'' ''application/json''"
  have h: "parse_headers ?h = Inr \<lparr>h_event_type = None, h_message_type = Some ''exception'', h_exception_type = Some xty\<rparr>"
    using assms
    by (simp add: three_headers parse_headers_def parse_string_header parse_last_header es_fits_def
        set_header_def no_headers_def)
  have "length ?h + length pl + 16 \<le> MAX_EVENTSTREAM_PENDING"
    using assms by (simp add: es_fits_def)
  from take_message_encoded [OF h this] show ?thesis
    by (simp add: encode_exception_message_def encode_with_headers_def Let_def PRELUDE_LEN_def CRC_LEN_def)
qed

definition es_frame :: "(bytes \<Rightarrow> json option) \<Rightarrow> (json \<Rightarrow> string) \<Rightarrow> string \<times> bytes \<Rightarrow> raw_sse" where
  "es_frame parse to_str m = into_raw_sse parse to_str \<lparr>event_type = Some (fst m), es_payload = snd m\<rparr>"

lemma es_loop_encode:
  "list_all es_fits ms \<Longrightarrow>
   es_loop parse to_str (concat (map (\<lambda>(e, p). encode_message e p) ms) @ rest) =
     (case es_loop parse to_str rest of
        (Inl e, b) \<Rightarrow> (Inl e, b)
      | (Inr (fs, ex), b) \<Rightarrow> (Inr (map (es_frame parse to_str) ms @ fs, ex), b))"
proof (induction ms)
  case Nil
  then show ?case by (simp split: sum.splits prod.splits)
next
  case (Cons m ms)
  obtain e p where m: "m = (e, p)" by force
  then show ?case
    using Cons
    by (subst es_loop.simps)
      (auto simp: take_message_encode es_frame_def split: sum.splits prod.splits)
qed


section \<open>CRC-32 detects one corrupted byte\<close>

lemma xor_u32_cancel: "a XOR k = b XOR k \<Longrightarrow> a = (b :: u32)" "k XOR a = k XOR b \<Longrightarrow> a = b"
proof -
  have undo: "(w XOR k) XOR k = w" "k XOR (k XOR w) = w" for w :: u32
    by (rule bit_eqI, auto simp: bit_xor_iff)+
  show "a XOR k = b XOR k \<Longrightarrow> a = b" using undo(1) by metis
  show "k XOR a = k XOR b \<Longrightarrow> a = b" using undo(2) by metis
qed

lemma crc_bit_inj: "crc_bit a = crc_bit b \<Longrightarrow> a = b"
proof -
  assume eq: "crc_bit a = crc_bit b"
  have top: "bit (crc_bit w) 31 \<longleftrightarrow> bit w 0" for w
  proof -
    have "bit (drop_bit 1 w) 31 = False"
      using bit_imp_le_length [of w 32] by (auto simp: bit_drop_bit_eq)
    moreover have "bit (0xEDB88320 :: u32) 31" by simp
    moreover have "w AND 1 = 1 \<longleftrightarrow> bit w 0"
      by (simp add: and_one_eq mod_2_eq_odd bit_0)
    ultimately show ?thesis
      by (simp add: crc_bit_def bit_xor_iff)
  qed
  have low: "bit a 0 = bit b 0" using top eq by metis
  have "w AND 1 = 1 \<longleftrightarrow> bit w 0" for w :: u32
    by (simp add: and_one_eq mod_2_eq_odd bit_0)
  with low eq have "drop_bit 1 a = drop_bit 1 b"
    by (auto simp: crc_bit_def split: if_splits dest: xor_u32_cancel)
  show "a = b"
  proof (rule bit_eqI)
    fix n
    have "bit (drop_bit 1 a) (n - 1) = bit (drop_bit 1 b) (n - 1)"
      using \<open>drop_bit 1 a = drop_bit 1 b\<close> by simp
    with low show "bit a n = bit b n"
      by (cases n) (simp_all add: bit_drop_bit_eq)
  qed
qed

lemma crc_bit_pow_inj: "(crc_bit ^^ n) a = (crc_bit ^^ n) b \<Longrightarrow> a = b"
  by (induction n) (auto dest: crc_bit_inj)

lemma of_char_u32_inj: "(of_char c :: u32) = of_char d \<Longrightarrow> c = d"
proof -
  assume "(of_char c :: u32) = of_char d"
  then have "unat (of_char c :: u32) = unat (of_char d :: u32)" by simp
  moreover have "(of_char x :: u32) = of_nat (byte_val x)" for x
    by (simp add: byte_val_def of_nat_of_char)
  moreover have "byte_val x < 2 ^ 32" for x
    by (rule order.strict_trans [of _ 256]) (simp_all add: byte_val_def)
  ultimately have "byte_val c = byte_val d"
    by (metis unat_of_nat_u32)
  then show "c = d" by (simp add: byte_val_def)
qed

lemma crc_byte_inj: "crc_byte a x = crc_byte b x \<Longrightarrow> a = b"
  unfolding crc_byte_def by (blast dest: crc_bit_pow_inj xor_u32_cancel(1))

lemma crc_byte_inj_byte: "crc_byte a x = crc_byte a y \<Longrightarrow> x = y"
  unfolding crc_byte_def by (blast dest: crc_bit_pow_inj xor_u32_cancel(2) of_char_u32_inj)

lemma crc_fold_inj: "foldl crc_byte a bs = foldl crc_byte b bs \<Longrightarrow> a = b"
  by (induction bs arbitrary: a b) (auto dest: crc_byte_inj)

lemma crc32_one_byte:
  assumes "x \<noteq> y"
  shows "crc32_ieee (xs @ x # ys) \<noteq> crc32_ieee (xs @ y # ys)"
proof
  assume "crc32_ieee (xs @ x # ys) = crc32_ieee (xs @ y # ys)"
  then have "crc_byte (foldl crc_byte 0xFFFFFFFF xs) x = crc_byte (foldl crc_byte 0xFFFFFFFF xs) y"
    by (simp add: crc32_ieee_def) (metis crc_fold_inj bit.compl_eq_compl_iff)
  with assms show False by (auto dest: crc_byte_inj_byte)
qed


lemma be_nat_bound: "be_nat bs < 256 ^ length bs"
proof (induction bs rule: rev_induct)
  case (snoc c bs)
  have "byte_val c < 256" by (simp add: byte_val_def)
  with snoc show ?case by (simp add: be_nat_append)
qed (simp add: be_nat_def)

lemma be_nat_inj: "length a = length b \<Longrightarrow> be_nat a = be_nat b \<Longrightarrow> a = b"
proof (induction a arbitrary: b rule: rev_induct)
  case (snoc x a)
  then obtain b' y where b: "b = b' @ [y]" by (cases b rule: rev_cases) auto
  have lt: "byte_val x < 256" "byte_val y < 256" by (simp_all add: byte_val_def)
  have eq: "be_nat a * 256 + byte_val x = be_nat b' * 256 + byte_val y"
    using snoc.prems(2) b by (simp add: be_nat_append)
  have "be_nat a = be_nat b'" "byte_val x = byte_val y"
    using arg_cong [OF eq, of "\<lambda>n. n div 256"] arg_cong [OF eq, of "\<lambda>n. n mod 256"] lt by simp_all
  then show ?case
    using snoc b by (simp add: byte_val_def)
qed simp

lemma u32_from_be_bytes_inj:
  assumes "length a = 4" "length b = 4" "u32_from_be_bytes a = u32_from_be_bytes b"
  shows "a = b"
proof -
  have "be_nat a < 2 ^ 32" "be_nat b < 2 ^ 32"
    using be_nat_bound [of a] be_nat_bound [of b] assms(1,2) by simp_all
  then have "be_nat a = be_nat b"
    using assms(3) unat_of_nat_u32 unfolding u32_from_be_bytes_def by metis
  then show ?thesis using assms(1,2) be_nat_inj by simp
qed

lemma byte_slice_0: "byte_slice bs 0 k = take k bs"
  by (simp add: byte_slice_def)

lemma byte_slice_other:
  "j \<le> length xs \<or> length xs < i \<Longrightarrow> byte_slice (xs @ x # ys) i j = byte_slice (xs @ y # ys) i j"
  by (auto simp: byte_slice_def drop_Cons')

lemma byte_slice_hit:
  "i \<le> length xs \<Longrightarrow> length xs < j \<Longrightarrow>
     byte_slice (xs @ x # ys) i j = drop i xs @ x # take (j - length xs - 1) ys"
  by (simp add: byte_slice_def take_Cons')

fun es_consumed :: "es_take \<Rightarrow> nat" where
  "es_consumed (Frame m n) = n"
| "es_consumed (Exception e n) = n"

lemma take_message_checked:
  assumes "take_message parse buf = Inr (Some t)"
  shows "12 \<le> length buf" "es_consumed t \<le> length buf" "16 \<le> es_consumed t"
    "es_consumed t = unat (u32_from_be_bytes (byte_slice buf 0 4))"
    "crc32_ieee (byte_slice buf 0 8) = u32_from_be_bytes (byte_slice buf 8 12)"
    "crc32_ieee (byte_slice buf 0 (es_consumed t - 4)) =
       u32_from_be_bytes (byte_slice buf (es_consumed t - 4) (es_consumed t))"
  using assms unfolding take_message_def
  by (auto simp: Let_def PRELUDE_LEN_def CRC_LEN_def byte_slice_def split: if_splits sum.splits)

lemma take_message_prelude_mismatch:
  "12 \<le> length buf \<Longrightarrow> crc32_ieee (byte_slice buf 0 8) \<noteq> u32_from_be_bytes (byte_slice buf 8 12) \<Longrightarrow>
     take_message parse buf = Inl ''eventstream prelude CRC mismatch''"
  by (simp add: take_message_def PRELUDE_LEN_def Let_def)

lemma take_message_body_mismatch:
  assumes "12 \<le> length buf" "n = unat (u32_from_be_bytes (byte_slice buf 0 4))" "n \<le> length buf"
    "crc32_ieee (byte_slice buf 0 (n - 4)) \<noteq> u32_from_be_bytes (byte_slice buf (n - 4) n)"
  shows "\<exists>e. take_message parse buf = Inl e"
  using assms by (simp add: take_message_def PRELUDE_LEN_def CRC_LEN_def Let_def byte_slice_0)

text \<open>A checked region \<open>[0, k)\<close> followed by its four CRC bytes does not check any more after one byte of
  either was replaced.\<close>

lemma crc_region_corrupted:
  assumes ok: "crc32_ieee (byte_slice (xs @ x # ys) 0 k) = u32_from_be_bytes (byte_slice (xs @ x # ys) k (k + 4))"
    and len: "length xs < k + 4" "k + 4 \<le> length (xs @ x # ys)" and "x \<noteq> y"
  shows "crc32_ieee (byte_slice (xs @ y # ys) 0 k) \<noteq> u32_from_be_bytes (byte_slice (xs @ y # ys) k (k + 4))"
proof (cases "length xs < k")
  case True
  have "byte_slice (xs @ x # ys) k (k + 4) = byte_slice (xs @ y # ys) k (k + 4)"
    using True by (intro byte_slice_other) simp
  moreover have "crc32_ieee (byte_slice (xs @ x # ys) 0 k) \<noteq> crc32_ieee (byte_slice (xs @ y # ys) 0 k)"
    using True crc32_one_byte [OF \<open>x \<noteq> y\<close>] by (simp add: byte_slice_hit)
  ultimately show ?thesis using ok by simp
next
  case False
  have "byte_slice (xs @ x # ys) 0 k = byte_slice (xs @ y # ys) 0 k"
    using False by (intro byte_slice_other) simp
  moreover have "byte_slice (xs @ x # ys) k (k + 4) \<noteq> byte_slice (xs @ y # ys) k (k + 4)"
    using False len \<open>x \<noteq> y\<close> by (simp add: byte_slice_hit)
  moreover have "length (byte_slice (xs @ z # ys) k (k + 4)) = 4" for z
    using len by (simp add: byte_slice_def)
  ultimately show ?thesis using ok u32_from_be_bytes_inj by metis
qed


section \<open>Properties\<close>

text \<open>C8. Any sequence of messages written by \<open>encode_message\<close> is read back frame by frame, in order, for
  every way the transport cuts the bytes, and the reader is empty afterwards.\<close>

theorem es_encode_read_back:
  assumes "list_all es_fits ms"
    and "concat cs = concat (map (\<lambda>(e, p). encode_message e p) ms)"
    and "length (concat cs) \<le> MAX_EVENTSTREAM_PENDING"
  shows "feed_all (es_feed_frames parse to_str) cs es_new = (Inr (map (es_frame parse to_str) ms), es_new)"
proof -
  have "es_loop parse to_str [] = (Inr ([], None), [])"
    by (simp add: es_loop.simps take_message_short)
  then have "es_feed_frames parse to_str (concat cs) es_new = (Inr (map (es_frame parse to_str) ms), es_new)"
    using assms(3) es_loop_encode [OF assms(1), of parse to_str "[]"]
    by (simp add: es_feed_frames_Inr es_new_def assms(2))
  then show ?thesis
    by (rule es.feed_all_concat [OF es_inv_new])
qed

lemma length_encode_message: "length (encode_message e p) = length e + length p + 86"
  "length (encode_exception_message e p) = length e + length p + 94"
  by (simp_all add: encode_message_def encode_exception_message_def encode_with_headers_def Let_def
      PRELUDE_LEN_def CRC_LEN_def)

lemma es_fits_example: "es_fits (''metadata'', ''{}'')" "es_fits (''m'', ''x'')"
  by (auto simp: es_fits_def MAX_EVENTSTREAM_PENDING_def byte_val_def intro!: utf8_valid_ascii)

theorem es_encode_read_back_witness:
  "feed_all (es_feed_frames (\<lambda>_. None) (\<lambda>_. []))
     [take 5 (encode_message ''m'' ''x''), drop 5 (encode_message ''m'' ''x'') @ encode_message ''metadata'' ''{}'']
     es_new
   = (Inr [\<lparr>event = Some ''m'', data = ''x''\<rparr>, \<lparr>event = Some ''metadata'', data = ''{}''\<rparr>], es_new)"
proof -
  let ?ms = "[(''m'', ''x''), (''metadata'', ''{}'')]"
  have "utf8_valid ''x''" "utf8_valid ''{}''"
    by (rule utf8_valid_ascii, auto simp: byte_val_def)+
  then have frames: "map (es_frame (\<lambda>_. None) (\<lambda>_. [])) ?ms =
      [\<lparr>event = Some ''m'', data = ''x''\<rparr>, \<lparr>event = Some ''metadata'', data = ''{}''\<rparr>]"
    by (simp add: es_frame_def into_raw_sse_def wrap_event_payload_def from_utf8_lossy_valid)
  show ?thesis
    unfolding frames [symmetric]
    by (rule es_encode_read_back)
      (simp_all add: es_fits_example length_encode_message MAX_EVENTSTREAM_PENDING_def)
qed

text \<open>C40. An exception frame does not swallow the frames before it: they are returned together with the
  error text, bytes after the exception are discarded and the reader is empty.\<close>

theorem es_exception_after_frames:
  assumes "list_all es_fits ms" "es_fits (xty, pl)"
    and "length (concat (map (\<lambda>(e, p). encode_message e p) ms) @ encode_exception_message xty pl @ rest)
      \<le> MAX_EVENTSTREAM_PENDING"
  shows "es_feed parse to_str
      (concat (map (\<lambda>(e, p). encode_message e p) ms) @ encode_exception_message xty pl @ rest) es_new
    = (Inr (map (es_frame parse to_str) ms, Some (exception_error parse xty pl)), es_new)"
proof -
  have "es_loop parse to_str (encode_exception_message xty pl @ rest) =
      (Inr ([], Some (exception_error parse xty pl)), [])"
    using take_message_encode_exception [OF assms(2), of parse rest] by (simp add: es_loop.simps)
  then show ?thesis
    using assms(3) es_loop_encode [OF assms(1), of parse to_str "encode_exception_message xty pl @ rest"]
    by (simp add: es_feed_def es_new_def)
qed

theorem es_exception_after_frames_witness:
  "es_feed (\<lambda>_. None) (\<lambda>_. []) (encode_message ''m'' ''x'' @ encode_exception_message ''m'' ''x'' @ ''tail'') es_new
   = (Inr ([es_frame (\<lambda>_. None) (\<lambda>_. []) (''m'', ''x'')], Some ''eventstream exception m: x''), es_new)"
proof -
  have "utf8_valid ''x''" by (rule utf8_valid_ascii, auto simp: byte_val_def)
  then have "exception_error (\<lambda>_. None) ''m'' ''x'' = ''eventstream exception m: x''"
    by (simp add: exception_error_def from_utf8_lossy_valid)
  then show ?thesis
    using es_exception_after_frames [of "[(''m'', ''x'')]" "''m''" "''x''" "''tail''" "\<lambda>_. None" "\<lambda>_. []"]
    by (simp add: es_fits_example length_encode_message MAX_EVENTSTREAM_PENDING_def)
qed

text \<open>C9. Integrity. If the reader accepts a message, then after any single byte of that message is
  replaced by another it reports an error instead of a frame: both CRCs together cover every byte.\<close>

theorem es_corrupted_byte_rejected:
  assumes acc: "take_message parse (xs @ x # ys) = Inr (Some t)" and len: "length xs < es_consumed t"
    and "x \<noteq> y"
  shows "\<exists>e. take_message parse (xs @ y # ys) = Inl e"
proof (cases "length xs < 12")
  case True
  have "crc32_ieee (byte_slice (xs @ y # ys) 0 8) \<noteq> u32_from_be_bytes (byte_slice (xs @ y # ys) 8 12)"
    using crc_region_corrupted [of xs x ys 8 y] take_message_checked(1,5) [OF acc] True \<open>x \<noteq> y\<close> by simp
  then show ?thesis
    using take_message_prelude_mismatch [of "xs @ y # ys"] take_message_checked(1) [OF acc] by simp
next
  case False
  let ?n = "es_consumed t"
  note checked = take_message_checked [OF acc]
  have "byte_slice (xs @ y # ys) 0 4 = byte_slice (xs @ x # ys) 0 4"
    using False by (intro byte_slice_other) simp
  moreover have "crc32_ieee (byte_slice (xs @ y # ys) 0 (?n - 4)) \<noteq>
      u32_from_be_bytes (byte_slice (xs @ y # ys) (?n - 4) ?n)"
    using crc_region_corrupted [of xs x ys "?n - 4" y] checked len \<open>x \<noteq> y\<close> by simp
  ultimately show ?thesis
    using take_message_body_mismatch [of "xs @ y # ys" ?n] checked by simp
qed

theorem es_corrupted_byte_rejected_witness:
  "\<exists>e. take_message (\<lambda>_. None) (take 3 (encode_message ''m'' ''x'') @ CHR ''z'' # drop 4 (encode_message ''m'' ''x'')) = Inl e"
proof -
  let ?E = "encode_message ''m'' ''x''"
  have split: "?E = take 3 ?E @ ?E ! 3 # drop 4 ?E"
    using id_take_nth_drop [of 3 ?E] by (simp add: length_encode_message)
  have "take 4 ?E = u32_to_be_bytes 88"
    by (simp add: encode_message_def encode_with_headers_def Let_def PRELUDE_LEN_def CRC_LEN_def)
  moreover have "u32_to_be_bytes 88 ! 3 = char_of (88 :: nat)"
    by (simp add: u32_to_be_bytes_def to_be_bytes_def upt_rec)
  moreover have "char_of (88 :: nat) = CHR ''X''"
    by code_simp
  ultimately have byte: "?E ! 3 = CHR ''X''"
    using nth_take [of 3 4 ?E] by simp
  have "take_message (\<lambda>_. None) (take 3 ?E @ ?E ! 3 # drop 4 ?E)
      = Inr (Some (Frame \<lparr>event_type = Some ''m'', es_payload = ''x''\<rparr> 88))"
    using take_message_encode [OF es_fits_example(2), of "\<lambda>_. None" "[]"] split
    by (simp add: length_encode_message)
  then show ?thesis
    by (rule es_corrupted_byte_rejected) (simp_all add: byte)
qed

text \<open>Fail closed. After a framing error the reader stays at the bad message: feeding it more bytes
  reports the same error again and never a frame, until the buffer cap makes it drop everything.\<close>

theorem es_error_is_sticky:
  assumes "es_feed parse to_str bs r = (Inl e, r')"
    and "length (es_buffer r) + length bs \<le> MAX_EVENTSTREAM_PENDING"
    and "length (es_buffer r') + length bs2 \<le> MAX_EVENTSTREAM_PENDING"
  shows "fst (es_feed parse to_str bs2 r') = Inl e"
proof -
  have stuck: "es_loop parse to_str buf = (Inl e, b) \<Longrightarrow> take_message parse b = Inl e" for buf b
  proof (induction parse to_str buf rule: es_loop.induct)
    case (1 parse to_str buf)
    then show ?case
      by (subst (asm) (2) es_loop.simps)
        (fastforce split: sum.splits option.splits es_take.splits prod.splits)
  qed
  have "take_message parse (es_buffer r') = Inl e"
    using assms(1,2) stuck by (auto simp: es_feed_def split: prod.splits)
  then have "take_message parse (es_buffer r' @ bs2) = Inl e"
    by (simp add: take_message_append)
  then show ?thesis
    using assms(3) by (simp add: es_feed_def es_loop.simps)
qed

theorem es_error_is_sticky_witness:
  "fst (es_feed (\<lambda>_. None) (\<lambda>_. []) (encode_message ''m'' ''x'')
     (snd (es_feed (\<lambda>_. None) (\<lambda>_. [])
        (u32_to_be_bytes 0 @ u32_to_be_bytes 0
           @ u32_to_be_bytes (crc32_ieee (u32_to_be_bytes 0 @ u32_to_be_bytes 0))) es_new)))
   = Inl ''eventstream total_length 0 is invalid''"
proof -
  let ?bad = "u32_to_be_bytes 0 @ u32_to_be_bytes 0
     @ u32_to_be_bytes (crc32_ieee (u32_to_be_bytes 0 @ u32_to_be_bytes 0))"
  have sl: "byte_slice ?bad 0 4 = u32_to_be_bytes 0" "byte_slice ?bad 4 8 = u32_to_be_bytes 0"
    "byte_slice ?bad 8 12 = u32_to_be_bytes (crc32_ieee (u32_to_be_bytes 0 @ u32_to_be_bytes 0))"
    "byte_slice ?bad 0 8 = u32_to_be_bytes 0 @ u32_to_be_bytes 0"
    by (simp_all add: byte_slice_def)
  have zero: "show_nat 0 = ''0''" by code_simp
  have "take_message (\<lambda>_. None) ?bad = Inl ''eventstream total_length 0 is invalid''"
    unfolding take_message_def Let_def sl by (simp add: PRELUDE_LEN_def CRC_LEN_def zero)
  then have bad: "es_feed (\<lambda>_. None) (\<lambda>_. []) ?bad es_new =
      (Inl ''eventstream total_length 0 is invalid'', \<lparr>es_buffer = ?bad\<rparr>)"
    by (simp add: es_feed_def es_new_def MAX_EVENTSTREAM_PENDING_def es_loop.simps)
  show ?thesis
    using es_error_is_sticky [OF bad, of "encode_message ''m'' ''x''"] bad
    by (simp add: es_new_def MAX_EVENTSTREAM_PENDING_def length_encode_message)
qed

text \<open>Writing a Converse frame as an Event Stream message and reading it back restores its data: the
  discriminant moves from the JSON body to the \<open>:event-type\<close> header and back. The JSON printer and
  parser are required to agree on the two objects involved.\<close>

theorem es_wrap_unwrap:
  assumes "ety \<noteq> []" "map_of m ety = None"
    and "ety \<in> set [''contentBlockDelta'', ''contentBlockStart'', ''contentBlockStop'']
          \<Longrightarrow> map_of m ''contentBlockIndex'' \<noteq> None"
    and "parse (to_str (json_obj [(ety, JObject m)])) = Some (json_obj [(ety, JObject m)])"
    and "parse (to_str (JObject m)) = Some (JObject m)"
  shows "wrap_event_payload parse to_str (Some ety)
      (unwrap_event_payload parse to_str ety (to_str (json_obj [(ety, JObject m)])))
    = to_str (json_obj [(ety, JObject m)])"
proof -
  have "ensure_block_index to_str ety (JObject m) = to_str (JObject m)"
    using assms(3) by (auto simp: ensure_block_index_def)
  then have "unwrap_event_payload parse to_str ety (to_str (json_obj [(ety, JObject m)])) = to_str (JObject m)"
    using assms(4) by (simp add: unwrap_event_payload_def json_obj_def)
  then show ?thesis
    using assms(1,2,5) by (simp add: wrap_event_payload_def)
qed

definition example_body :: jobject where
  "example_body = [(''stopReason'', JString ''end_turn'')]"

definition example_to_str :: "json \<Rightarrow> string" where
  "example_to_str v = (if v = JObject example_body then ''{stopReason: end_turn}'' else ''{messageStop: {stopReason: end_turn}}'')"

definition example_parse :: "bytes \<Rightarrow> json option" where
  "example_parse s = (if s = ''{stopReason: end_turn}'' then Some (JObject example_body)
     else if s = ''{messageStop: {stopReason: end_turn}}'' then Some (json_obj [(''messageStop'', JObject example_body)])
     else None)"

theorem es_wrap_unwrap_witness:
  "wrap_event_payload example_parse example_to_str (Some ''messageStop'')
     (unwrap_event_payload example_parse example_to_str ''messageStop'' ''{messageStop: {stopReason: end_turn}}'')
   = ''{messageStop: {stopReason: end_turn}}''"
proof -
  have "example_to_str (json_obj [(''messageStop'', JObject example_body)]) = ''{messageStop: {stopReason: end_turn}}''"
    by (simp add: example_to_str_def json_obj_def example_body_def)
  then show ?thesis
    using es_wrap_unwrap [of "''messageStop''" example_body example_parse example_to_str]
    by (simp add: example_parse_def example_body_def) (simp add: example_to_str_def example_body_def)
qed

end
