(* ===== verification/Wm_Usage.thy ===== *)
theory Wm_Usage
  imports Wm_Ir
begin

text \<open>
  Token usage on the four JSON wires (\<open>stream/usage.rs\<close>). The IR keeps exclusive buckets: prompt
  tokens without cache reads, completion tokens without reasoning. Chat Completions, Responses and
  Gemini report inclusive totals, so the decoders subtract and the encoders add back, with \<open>u32\<close>
  saturation. Zero cache, reasoning and audio counts omit their keys.
\<close>

section \<open>Decoding\<close>

definition positive :: "'a::len word option \<Rightarrow> 'a word option" where
  "positive x = ofilter (\<lambda>n. n > 0) x"

definition chat_prediction_token_events :: "json \<Rightarrow> ir_stream_event list" where
  "chat_prediction_token_events u =
     concat (map (\<lambda>(key, ity).
         case positive (nested_u32 u ''completion_tokens_details'' key) of
           None \<Rightarrow> [] | Some count \<Rightarrow> [Protocol ity (json_u32 count)])
       [(''accepted_prediction_tokens'', ''chat_accepted_prediction_tokens''),
        (''rejected_prediction_tokens'', ''chat_rejected_prediction_tokens'')])"

definition from_chat :: "json \<Rightarrow> ir_stream_event" where
  "from_chat u =
     (let cache_read =
            unwrap_or
              (or_else (positive (nested_u32 u ''prompt_tokens_details'' ''cached_tokens''))
                (or_else (positive (u32_field u ''cached_tokens''))
                  (u32_field u ''prompt_cache_hit_tokens''))) 0;
          cache_write = unwrap_or (nested_u32 u ''prompt_tokens_details'' ''cache_write_tokens'') 0;
          reasoning = unwrap_or (nested_u32 u ''completion_tokens_details'' ''reasoning_tokens'') 0;
          audio = unwrap_or (nested_u32 u ''prompt_tokens_details'' ''audio_tokens'') 0;
          completion_audio = unwrap_or (nested_u32 u ''completion_tokens_details'' ''audio_tokens'') 0
      in Usage (saturating_sub (unwrap_or (u32_field u ''prompt_tokens'') 0) cache_read)
           (saturating_sub (unwrap_or (u32_field u ''completion_tokens'') 0) reasoning)
           cache_read cache_write reasoning audio completion_audio None)"

definition messages_web_search_events :: "json \<Rightarrow> ir_stream_event list" where
  "messages_web_search_events u =
     concat (map (\<lambda>(key, ity).
         case Option.bind
                (positive (Option.bind (Option.bind (jget u ''server_tool_use'') (\<lambda>t. jget t key)) as_u64))
                u32_try_from of
           None \<Rightarrow> [] | Some count \<Rightarrow> [Protocol ity (json_u32 count)])
       [(''web_search_requests'', ''messages_web_search_requests''),
        (''web_fetch_requests'', ''messages_web_fetch_requests'')])"

definition messages_cache_creation_events :: "json \<Rightarrow> ir_stream_event list" where
  "messages_cache_creation_events u =
     (case ofilter is_object (jget u ''cache_creation'') of
        None \<Rightarrow> []
      | Some creation \<Rightarrow>
          (let kept = foldl (\<lambda>m key.
                 case positive (Option.bind (jget creation key) as_u64) of
                   None \<Rightarrow> m | Some count \<Rightarrow> bt_insert key (json_u64 count) m) []
                 [''ephemeral_5m_input_tokens'', ''ephemeral_1h_input_tokens'']
           in if kept = [] then [] else [Protocol ''messages_cache_creation'' (JObject kept)]))"

definition from_anthropic :: "json \<Rightarrow> ir_stream_event" where
  "from_anthropic u =
     (let reasoning = unwrap_or (nested_u32 u ''output_tokens_details'' ''thinking_tokens'') 0
      in Usage (unwrap_or (u32_field u ''input_tokens'') 0)
           (saturating_sub (unwrap_or (u32_field u ''output_tokens'') 0) reasoning)
           (unwrap_or (u32_field u ''cache_read_input_tokens'') 0)
           (unwrap_or (u32_field u ''cache_creation_input_tokens'') 0)
           reasoning 0 0
           (ofilter (\<lambda>geo. geo \<noteq> []) (map_option trim (Option.bind (jget u ''inference_geo'') as_str))))"

definition from_responses :: "json \<Rightarrow> ir_stream_event" where
  "from_responses u =
     (let cache_read = unwrap_or (nested_u32 u ''input_tokens_details'' ''cached_tokens'') 0;
          cache_write = unwrap_or (nested_u32 u ''input_tokens_details'' ''cache_write_tokens'') 0;
          reasoning = unwrap_or (nested_u32 u ''output_tokens_details'' ''reasoning_tokens'') 0
      in Usage (saturating_sub (unwrap_or (u32_field u ''input_tokens'') 0) cache_read)
           (saturating_sub (unwrap_or (u32_field u ''output_tokens'') 0) reasoning)
           cache_read cache_write reasoning 0 0 None)"

definition gemini_audio_tokens :: "json \<Rightarrow> string \<Rightarrow> string \<Rightarrow> u32" where
  "gemini_audio_tokens u camel snake =
     (case Option.bind (or_else (jget u camel) (jget u snake)) as_array of
        None \<Rightarrow> 0
      | Some details \<Rightarrow>
          foldl (\<lambda>acc item.
             if \<not> eq_ignore_ascii_case (unwrap_or (str_field item ''modality'') []) ''AUDIO'' then acc
             else (case or_else (u32_field item ''tokenCount'') (u32_field item ''token_count'') of
                     None \<Rightarrow> acc | Some n \<Rightarrow> saturating_add acc n)) 0 details)"

definition from_gemini :: "json \<Rightarrow> ir_stream_event" where
  "from_gemini u =
     (let cache_read = unwrap_or (or_else (u32_field u ''cachedContentTokenCount'')
                                   (u32_field u ''cached_content_token_count'')) 0;
          reasoning = unwrap_or (or_else (u32_field u ''thoughtsTokenCount'')
                                   (u32_field u ''thoughts_token_count'')) 0;
          prompt = unwrap_or (or_else (u32_field u ''promptTokenCount'')
                                   (u32_field u ''prompt_token_count'')) 0;
          completion = unwrap_or (or_else (u32_field u ''candidatesTokenCount'')
                                   (u32_field u ''candidates_token_count'')) 0
      in Usage (saturating_sub prompt cache_read) completion cache_read 0 reasoning
           (gemini_audio_tokens u ''promptTokensDetails'' ''prompt_tokens_details'')
           (gemini_audio_tokens u ''candidatesTokensDetails'' ''candidates_tokens_details'') None)"

definition gemini_traffic_type_events :: "json \<Rightarrow> ir_stream_event list" where
  "gemini_traffic_type_events v =
     (case ofilter (\<lambda>k. k \<noteq> [])
             (map_option trim (Option.bind (pointer v [''usageMetadata'', ''trafficType'']) as_str)) of
        None \<Rightarrow> [] | Some kind \<Rightarrow> [Protocol ''gemini_traffic_type'' (JString kind)])"

definition gemini_tool_use_prompt_events :: "json \<Rightarrow> ir_stream_event list" where
  "gemini_tool_use_prompt_events v =
     (case Option.bind
             (positive (Option.bind (pointer v [''usageMetadata'', ''toolUsePromptTokenCount'']) as_u64))
             u32_try_from of
        None \<Rightarrow> [] | Some count \<Rightarrow> [Protocol ''gemini_tool_use_prompt_tokens'' (json_u32 count)])"

definition modality_row_kept :: "json \<Rightarrow> bool" where
  "modality_row_kept row =
     (let modality = unwrap_or (str_field row ''modality'') [];
          count = unwrap_or (Option.bind (jget row ''tokenCount'') as_u64) 0
      in modality \<noteq> [] \<and> \<not> eq_ignore_ascii_case modality ''IMAGE'' \<and> count > 0)"

definition kept_modality_details :: "json \<Rightarrow> string list \<Rightarrow> json option" where
  "kept_modality_details v ptr =
     (let kept = (case Option.bind (pointer v ptr) as_array of
                    None \<Rightarrow> [] | Some rows \<Rightarrow> filter modality_row_kept rows)
      in if kept = [] then None else Some (JArray kept))"

definition gemini_modality_detail_events :: "json \<Rightarrow> ir_stream_event list" where
  "gemini_modality_detail_events v =
     (case kept_modality_details v [''usageMetadata'', ''promptTokensDetails''] of
        None \<Rightarrow> [] | Some d \<Rightarrow> [Protocol ''gemini_prompt_token_details'' d])
     @ (case kept_modality_details v [''usageMetadata'', ''candidatesTokensDetails''] of
          None \<Rightarrow> [] | Some d \<Rightarrow> [Protocol ''gemini_candidate_token_details'' d])"


section \<open>Encoding\<close>

definition insert_if :: "bool \<Rightarrow> string \<Rightarrow> json \<Rightarrow> json \<Rightarrow> json" where
  "insert_if b k v j = (if b then jinsert k v j else j)"

definition insert_chat_prediction_tokens :: "u32 option \<Rightarrow> u32 option \<Rightarrow> json \<Rightarrow> json" where
  "insert_chat_prediction_tokens accepted rejected u =
     (if accepted = None \<and> rejected = None then u
      else
        (case u of
           JObject m \<Rightarrow>
             (let details = unwrap_or (map_of m ''completion_tokens_details'') (JObject []);
                  details = (case accepted of None \<Rightarrow> details
                     | Some n \<Rightarrow> jinsert ''accepted_prediction_tokens'' (json_u32 n) details);
                  details = (case rejected of None \<Rightarrow> details
                     | Some n \<Rightarrow> jinsert ''rejected_prediction_tokens'' (json_u32 n) details)
              in JObject (bt_insert ''completion_tokens_details'' details m))
         | _ \<Rightarrow> u))"

definition insert_messages_server_tool_counts :: "u32 option \<Rightarrow> u32 option \<Rightarrow> json \<Rightarrow> json" where
  "insert_messages_server_tool_counts search fetch u =
     (if search = None \<and> fetch = None then u
      else
        (let tools = [];
             tools = (case search of None \<Rightarrow> tools | Some n \<Rightarrow> bt_insert ''web_search_requests'' (json_u32 n) tools);
             tools = (case fetch of None \<Rightarrow> tools | Some n \<Rightarrow> bt_insert ''web_fetch_requests'' (json_u32 n) tools)
         in jinsert ''server_tool_use'' (JObject tools) u))"

definition insert_messages_cache_creation :: "json option \<Rightarrow> json \<Rightarrow> json" where
  "insert_messages_cache_creation creation u =
     (case ofilter is_object creation of None \<Rightarrow> u | Some c \<Rightarrow> jinsert ''cache_creation'' c u)"

definition chat_usage_body :: "u32 \<Rightarrow> u32 \<Rightarrow> u32 \<Rightarrow> u32 \<Rightarrow> u32 \<Rightarrow> u32 \<Rightarrow> u32 \<Rightarrow> json" where
  "chat_usage_body p c cr cw rs au cau =
     (let prompt_wire = saturating_add p cr;
          completion_wire = saturating_add c rs;
          usage = json_obj [(''prompt_tokens'', json_u32 prompt_wire),
                            (''completion_tokens'', json_u32 completion_wire),
                            (''total_tokens'', json_u32 (saturating_add prompt_wire completion_wire))];
          details = insert_if (au > 0) ''audio_tokens'' (json_u32 au)
                      (insert_if (cw > 0) ''cache_write_tokens'' (json_u32 cw)
                        (insert_if (cr > 0) ''cached_tokens'' (json_u32 cr) (json_obj [])));
          usage = insert_if (cr > 0 \<or> cw > 0 \<or> au > 0) ''prompt_tokens_details'' details usage;
          details2 = insert_if (cau > 0) ''audio_tokens'' (json_u32 cau)
                      (insert_if (rs > 0) ''reasoning_tokens'' (json_u32 rs) (json_obj []))
      in insert_if (rs > 0 \<or> cau > 0) ''completion_tokens_details'' details2 usage)"

definition encode_chat :: "u32 \<Rightarrow> u32 \<Rightarrow> u32 \<Rightarrow> u32 \<Rightarrow> u32 \<Rightarrow> u32 \<Rightarrow> u32 \<Rightarrow> json" where
  "encode_chat p c cr cw rs au cau =
     json_obj [(''choices'', JArray []), (''usage'', chat_usage_body p c cr cw rs au cau)]"

definition anthropic_usage_body :: "u32 \<Rightarrow> u32 \<Rightarrow> u32 \<Rightarrow> u32 \<Rightarrow> u32 \<Rightarrow> string option \<Rightarrow> json" where
  "anthropic_usage_body p c cr cw rs geo =
     (let usage = json_obj [(''input_tokens'', json_u32 p), (''output_tokens'', json_u32 (saturating_add c rs))];
          usage = insert_if (cr > 0) ''cache_read_input_tokens'' (json_u32 cr) usage;
          usage = insert_if (cw > 0) ''cache_creation_input_tokens'' (json_u32 cw) usage;
          usage = insert_if (rs > 0) ''output_tokens_details'' (json_obj [(''thinking_tokens'', json_u32 rs)]) usage
      in (case geo of None \<Rightarrow> usage | Some g \<Rightarrow> jinsert ''inference_geo'' (JString g) usage))"

definition encode_anthropic :: "u32 \<Rightarrow> u32 \<Rightarrow> u32 \<Rightarrow> u32 \<Rightarrow> u32 \<Rightarrow> string option \<Rightarrow> json" where
  "encode_anthropic p c cr cw rs geo =
     json_obj [(''type'', JString ''message_delta''), (''delta'', json_obj []),
               (''usage'', anthropic_usage_body p c cr cw rs geo)]"

definition responses_usage_body :: "u32 \<Rightarrow> u32 \<Rightarrow> u32 \<Rightarrow> u32 \<Rightarrow> u32 \<Rightarrow> json" where
  "responses_usage_body p c cr cw rs =
     (let input = saturating_add p cr;
          out = saturating_add c rs;
          usage = json_obj [(''input_tokens'', json_u32 input), (''output_tokens'', json_u32 out),
                            (''total_tokens'', json_u32 (saturating_add input out))];
          details = insert_if (cw > 0) ''cache_write_tokens'' (json_u32 cw)
                      (insert_if (cr > 0) ''cached_tokens'' (json_u32 cr) (json_obj []));
          usage = insert_if (cr > 0 \<or> cw > 0) ''input_tokens_details'' details usage
      in insert_if (rs > 0) ''output_tokens_details'' (json_obj [(''reasoning_tokens'', json_u32 rs)]) usage)"

definition encode_responses :: "u32 \<Rightarrow> u32 \<Rightarrow> u32 \<Rightarrow> u32 \<Rightarrow> u32 \<Rightarrow> json" where
  "encode_responses p c cr cw rs =
     json_obj [(''type'', JString ''response.completed''),
               (''response'', json_obj [(''status'', JString ''completed''),
                                       (''usage'', responses_usage_body p c cr cw rs)])]"

definition audio_detail :: "u32 \<Rightarrow> json" where
  "audio_detail n = JArray [json_obj [(''modality'', JString ''AUDIO''), (''tokenCount'', json_u32 n)]]"

definition gemini_usage_body :: "u32 \<Rightarrow> u32 \<Rightarrow> u32 \<Rightarrow> u32 \<Rightarrow> u32 \<Rightarrow> u32 \<Rightarrow> json" where
  "gemini_usage_body p c cr rs au cau =
     (let prompt_wire = saturating_add p cr;
          usage = json_obj [(''promptTokenCount'', json_u32 prompt_wire), (''candidatesTokenCount'', json_u32 c),
                            (''totalTokenCount'', json_u32 (saturating_add (saturating_add prompt_wire c) rs))];
          usage = insert_if (cr > 0) ''cachedContentTokenCount'' (json_u32 cr) usage;
          usage = insert_if (rs > 0) ''thoughtsTokenCount'' (json_u32 rs) usage;
          usage = insert_if (au > 0) ''promptTokensDetails'' (audio_detail au) usage
      in insert_if (cau > 0) ''candidatesTokensDetails'' (audio_detail cau) usage)"

definition encode_gemini :: "u32 \<Rightarrow> u32 \<Rightarrow> u32 \<Rightarrow> u32 \<Rightarrow> u32 \<Rightarrow> u32 \<Rightarrow> json" where
  "encode_gemini p c cr rs au cau = json_obj [(''usageMetadata'', gemini_usage_body p c cr rs au cau)]"

definition insert_gemini_tool_use_prompt_tokens :: "u32 option \<Rightarrow> json \<Rightarrow> json" where
  "insert_gemini_tool_use_prompt_tokens count u =
     (case positive count of
        None \<Rightarrow> u
      | Some n \<Rightarrow>
          (case u of
             JObject m \<Rightarrow>
               (let m' = bt_insert ''toolUsePromptTokenCount'' (json_u32 n) m in
                case Option.bind (map_of m' ''totalTokenCount'') as_u64 of
                  None \<Rightarrow> JObject m'
                | Some t \<Rightarrow>
                    JObject (bt_insert ''totalTokenCount'' (json_u64 (saturating_add t (u64_from n))) m'))
           | _ \<Rightarrow> u))"

definition insert_gemini_modality_details :: "string \<Rightarrow> json option \<Rightarrow> json \<Rightarrow> json" where
  "insert_gemini_modality_details field details u =
     (case ofilter (\<lambda>rows. is_some_and (as_array rows) (\<lambda>items. items \<noteq> [])) details of
        None \<Rightarrow> u | Some d \<Rightarrow> jinsert field d u)"

definition insert_gemini_traffic_type :: "string option \<Rightarrow> json \<Rightarrow> json" where
  "insert_gemini_traffic_type kind u =
     (case ofilter (\<lambda>k. k \<noteq> []) kind of None \<Rightarrow> u | Some k \<Rightarrow> jinsert ''trafficType'' (JString k) u)"



section \<open>Reading the encoded bodies\<close>

lemma jget_insert_if [simp]:
  "is_object j \<Longrightarrow> jget (insert_if b k v j) k' = (if b \<and> k' = k then Some v else jget j k')"
  by (simp add: insert_if_def jget_jinsert_obj)

lemma is_object_insert_if [simp]: "is_object (insert_if b k v j) = is_object j"
  by (simp add: insert_if_def)

lemma word_pos_iff: "(n :: 'a::len word) > 0 \<longleftrightarrow> n \<noteq> 0"
  by (simp add: word_gt_0)

lemmas usage_eval = u32_field_def nested_u32_def str_field_def positive_def word_pos_iff Let_def
  saturating_sub_add_cancel

lemma from_chat_body:
  assumes "unat p + unat cr < 2 ^ 32" "unat c + unat rs < 2 ^ 32"
  shows "from_chat (chat_usage_body p c cr cw rs au cau) = Usage p c cr cw rs au cau None"
  using assms by (auto simp: from_chat_def chat_usage_body_def usage_eval)

lemma from_anthropic_body:
  assumes "unat c + unat rs < 2 ^ 32" "case geo of None \<Rightarrow> True | Some g \<Rightarrow> trim g = g \<and> g \<noteq> []"
  shows "from_anthropic (anthropic_usage_body p c cr cw rs geo) = Usage p c cr cw rs 0 0 geo"
  using assms
  by (cases geo) (auto simp: from_anthropic_def anthropic_usage_body_def usage_eval jget_jinsert_obj)

lemma from_responses_body:
  assumes "unat p + unat cr < 2 ^ 32" "unat c + unat rs < 2 ^ 32"
  shows "from_responses (responses_usage_body p c cr cw rs) = Usage p c cr cw rs 0 0 None"
  using assms by (auto simp: from_responses_def responses_usage_body_def usage_eval)

lemma eq_ignore_ascii_case_refl [simp]: "eq_ignore_ascii_case s s"
  by (simp add: eq_ignore_ascii_case_def)

lemma saturating_add_zero_left [simp]: "saturating_add 0 n = n"
  using unsigned_less [of n] by (simp add: saturating_add_def)

lemma from_gemini_body:
  assumes "unat p + unat cr < 2 ^ 32"
  shows "from_gemini (gemini_usage_body p c cr rs au cau) = Usage p c cr 0 rs au cau None"
  using assms
  by (auto simp: from_gemini_def gemini_usage_body_def usage_eval gemini_audio_tokens_def audio_detail_def)



section \<open>The four bodies as codecs\<close>

text \<open>What a client that moves usage from one wire to another relies on: reading a written body gives the
  event back, for the events the wire has slots for. Two such wires transcode without loss.\<close>

locale usage_codec =
  fixes enc :: "ir_stream_event \<Rightarrow> json" and dec :: "json \<Rightarrow> ir_stream_event"
    and keeps :: "ir_stream_event \<Rightarrow> bool"
  assumes dec_enc: "keeps u \<Longrightarrow> dec (enc u) = u"
begin

lemma enc_inj: "keeps u \<Longrightarrow> keeps v \<Longrightarrow> enc u = enc v \<Longrightarrow> u = v"
  by (metis dec_enc)

end

locale usage_bridge = src: usage_codec enc1 dec1 keeps1 + dst: usage_codec enc2 dec2 keeps2
  for enc1 dec1 keeps1 enc2 dec2 keeps2
begin

lemma transcode: "keeps1 u \<Longrightarrow> keeps2 u \<Longrightarrow> dec2 (enc2 (dec1 (enc1 u))) = u"
  by (simp add: src.dec_enc dst.dec_enc)

end

definition buckets_fit :: "ir_stream_event \<Rightarrow> bool" where
  "buckets_fit u = (unat (prompt_tokens u) + unat (cache_read_tokens u) < 2 ^ 32
     \<and> unat (completion_tokens u) + unat (reasoning_tokens u) < 2 ^ 32)"

definition chat_body_of :: "ir_stream_event \<Rightarrow> json" where
  "chat_body_of u = chat_usage_body (prompt_tokens u) (completion_tokens u) (cache_read_tokens u)
     (cache_write_tokens u) (reasoning_tokens u) (audio_tokens u) (completion_audio_tokens u)"

definition responses_body_of :: "ir_stream_event \<Rightarrow> json" where
  "responses_body_of u = responses_usage_body (prompt_tokens u) (completion_tokens u) (cache_read_tokens u)
     (cache_write_tokens u) (reasoning_tokens u)"

definition messages_body_of :: "ir_stream_event \<Rightarrow> json" where
  "messages_body_of u = anthropic_usage_body (prompt_tokens u) (completion_tokens u) (cache_read_tokens u)
     (cache_write_tokens u) (reasoning_tokens u) (inference_geo u)"

definition gemini_body_of :: "ir_stream_event \<Rightarrow> json" where
  "gemini_body_of u = gemini_usage_body (prompt_tokens u) (completion_tokens u) (cache_read_tokens u)
     (reasoning_tokens u) (audio_tokens u) (completion_audio_tokens u)"

definition is_usage :: "ir_stream_event \<Rightarrow> bool" where
  "is_usage u = (case u of Usage _ _ _ _ _ _ _ _ \<Rightarrow> True | _ \<Rightarrow> False)"

definition keeps_chat :: "ir_stream_event \<Rightarrow> bool" where
  "keeps_chat u = (is_usage u \<and> buckets_fit u \<and> inference_geo u = None)"

definition keeps_responses :: "ir_stream_event \<Rightarrow> bool" where
  "keeps_responses u = (keeps_chat u \<and> audio_tokens u = 0 \<and> completion_audio_tokens u = 0)"

definition keeps_messages :: "ir_stream_event \<Rightarrow> bool" where
  "keeps_messages u = (is_usage u \<and> buckets_fit u \<and> audio_tokens u = 0 \<and> completion_audio_tokens u = 0
     \<and> (case inference_geo u of None \<Rightarrow> True | Some g \<Rightarrow> trim g = g \<and> g \<noteq> []))"

definition keeps_gemini :: "ir_stream_event \<Rightarrow> bool" where
  "keeps_gemini u = (keeps_chat u \<and> cache_write_tokens u = 0)"

lemmas keeps_defs = keeps_chat_def keeps_responses_def keeps_messages_def keeps_gemini_def buckets_fit_def
  is_usage_def

interpretation chat_usage: usage_codec chat_body_of from_chat keeps_chat
  by unfold_locales
    (auto simp: keeps_defs chat_body_of_def from_chat_body split: ir_stream_event.splits)

interpretation responses_usage: usage_codec responses_body_of from_responses keeps_responses
  by unfold_locales
    (auto simp: keeps_defs responses_body_of_def from_responses_body split: ir_stream_event.splits)

interpretation messages_usage: usage_codec messages_body_of from_anthropic keeps_messages
  by unfold_locales
    (auto simp: keeps_defs messages_body_of_def from_anthropic_body split: ir_stream_event.splits option.splits)

interpretation gemini_usage: usage_codec gemini_body_of from_gemini keeps_gemini
  by unfold_locales
    (auto simp: keeps_defs gemini_body_of_def from_gemini_body split: ir_stream_event.splits)

interpretation chat_to_messages: usage_bridge chat_body_of from_chat keeps_chat
    messages_body_of from_anthropic keeps_messages
  by unfold_locales

interpretation gemini_to_responses: usage_bridge gemini_body_of from_gemini keeps_gemini
    responses_body_of from_responses keeps_responses
  by unfold_locales


section \<open>Properties\<close>



text \<open>Totals saturate, they never wrap: on a Chat body the reported prompt, completion and total
  counts are the true sums, capped at the largest \<open>u32\<close>.\<close>

theorem usage_totals_saturate:
  "\<exists>pw cw' tw.
     u32_field (chat_usage_body p c cr cw rs au cau) ''prompt_tokens'' = Some pw
   \<and> u32_field (chat_usage_body p c cr cw rs au cau) ''completion_tokens'' = Some cw'
   \<and> u32_field (chat_usage_body p c cr cw rs au cau) ''total_tokens'' = Some tw
   \<and> unat pw = min (unat p + unat cr) (2 ^ 32 - 1)
   \<and> unat cw' = min (unat c + unat rs) (2 ^ 32 - 1)
   \<and> unat tw = min (unat p + unat cr + unat c + unat rs) (2 ^ 32 - 1)"
proof -
  have "u32_field (chat_usage_body p c cr cw rs au cau) ''prompt_tokens'' = Some (saturating_add p cr)"
    "u32_field (chat_usage_body p c cr cw rs au cau) ''completion_tokens'' = Some (saturating_add c rs)"
    "u32_field (chat_usage_body p c cr cw rs au cau) ''total_tokens'' =
       Some (saturating_add (saturating_add p cr) (saturating_add c rs))"
    by (simp_all add: chat_usage_body_def u32_field_def Let_def)
  then show ?thesis
    by (auto simp: unat_saturating_add)
qed

text \<open>Transcoding between wires loses nothing the second wire has a slot for: usage that both Chat and
  Messages can carry reads back unchanged after Chat and then Messages, and likewise from Gemini to
  Responses.\<close>

theorem usage_transcode:
  "(keeps_chat u \<and> keeps_messages u \<longrightarrow> from_anthropic (messages_body_of (from_chat (chat_body_of u))) = u)
   \<and> (keeps_gemini u \<and> keeps_responses u \<longrightarrow>
        from_responses (responses_body_of (from_gemini (gemini_body_of u))) = u)"
  using chat_to_messages.transcode gemini_to_responses.transcode by blast

theorem usage_transcode_witness:
  "from_anthropic (messages_body_of (from_chat (chat_body_of (Usage 9 4 3 2 1 0 0 None)))) = Usage 9 4 3 2 1 0 0 None"
  using usage_transcode [of "Usage 9 4 3 2 1 0 0 None"] by (simp add: keeps_defs)

definition event_if :: "string \<Rightarrow> u32 option \<Rightarrow> ir_stream_event list" where
  "event_if name n = (case positive n of None \<Rightarrow> [] | Some k \<Rightarrow> [Protocol name (json_u32 k)])"

text \<open>The counts that travel beside the main buckets read back: prediction tokens on Chat, server tool
  counts on Messages, tool-use prompt tokens on Gemini; a zero count produces no event.\<close>

theorem usage_side_counts_round_trip:
  assumes "map_of m ''completion_tokens_details'' = None" "map_of m ''server_tool_use'' = None"
    "map_of m ''toolUsePromptTokenCount'' = None"
  shows "chat_prediction_token_events (insert_chat_prediction_tokens a b (JObject m)) =
      event_if ''chat_accepted_prediction_tokens'' a @ event_if ''chat_rejected_prediction_tokens'' b
    \<and> messages_web_search_events (insert_messages_server_tool_counts a b (JObject m)) =
      event_if ''messages_web_search_requests'' a @ event_if ''messages_web_fetch_requests'' b
    \<and> gemini_tool_use_prompt_events
        (json_obj [(''usageMetadata'', insert_gemini_tool_use_prompt_tokens a (JObject m))]) =
      event_if ''gemini_tool_use_prompt_tokens'' a"
proof (intro conjI)
  show "chat_prediction_token_events (insert_chat_prediction_tokens a b (JObject m)) =
      event_if ''chat_accepted_prediction_tokens'' a @ event_if ''chat_rejected_prediction_tokens'' b"
    using assms(1)
    by (cases a; cases b)
      (auto simp: chat_prediction_token_events_def insert_chat_prediction_tokens_def event_if_def usage_eval)
  show "messages_web_search_events (insert_messages_server_tool_counts a b (JObject m)) =
      event_if ''messages_web_search_requests'' a @ event_if ''messages_web_fetch_requests'' b"
    using assms(2)
    by (cases a; cases b)
      (auto simp: messages_web_search_events_def insert_messages_server_tool_counts_def event_if_def usage_eval)
  show "gemini_tool_use_prompt_events
        (json_obj [(''usageMetadata'', insert_gemini_tool_use_prompt_tokens a (JObject m))]) =
      event_if ''gemini_tool_use_prompt_tokens'' a"
    using assms(3)
    by (cases a)
      (auto simp: gemini_tool_use_prompt_events_def insert_gemini_tool_use_prompt_tokens_def event_if_def
        usage_eval split: option.splits)
qed

theorem usage_side_counts_round_trip_witness:
  "chat_prediction_token_events (insert_chat_prediction_tokens (Some 4) (Some 0) (JObject []))
     = [Protocol ''chat_accepted_prediction_tokens'' (json_u32 4)]"
  using usage_side_counts_round_trip [of "[]" "Some 4" "Some 0"] by (simp add: event_if_def positive_def)

end
