(* ===== verification/Wm_Assembler.thy ===== *)
theory Wm_Assembler
  imports Wm_Ir
begin

text \<open>
  \<open>ToolCallAssembler\<close> (\<open>stream/mod.rs\<close>): Chat upstreams may send a tool call's id, its name and its
  argument fragments in separate chunks and interleave parallel calls. The assembler holds a start
  until both the id and the name are known, keyed by the call's index, keeps fragments with it, and
  releases what is left when the stream finishes. \<open>pending\<close> is the \<open>BTreeMap\<close>, \<open>started\<close> the
  \<open>BTreeSet\<close> of the struct.
\<close>

record pending_tool_start =
  ps_id :: string
  ps_name :: string
  ps_signature :: "string option"
  ps_index :: u32
  ps_args :: "string list"

record assembler =
  pending :: "(u32 \<times> pending_tool_start) list"
  started :: "u32 set"

definition asm_new :: assembler where
  "asm_new = \<lparr>pending = [], started = {}\<rparr>"

definition into_events :: "pending_tool_start \<Rightarrow> ir_stream_event list" where
  "into_events p =
     (if ps_id p \<noteq> [] \<or> ps_name p \<noteq> []
      then [ToolCallStart (ps_id p) (ps_name p) (ps_signature p) (ps_index p)] else [])
     @ map (\<lambda>d. ToolCallArgDelta d (ps_index p)) (ps_args p)"

definition push_start ::
  "string \<Rightarrow> string \<Rightarrow> string option \<Rightarrow> u32 \<Rightarrow> assembler \<Rightarrow> ir_stream_event list \<times> assembler" where
  "push_start id' name sig index a =
     (if index \<in> started a then ([], a)
      else
        (let prev = map_of (pending a) index;
             a = a\<lparr>pending := bt_remove index (pending a)\<rparr>;
             p = (case prev of
                    Some q \<Rightarrow> \<lparr>ps_id = (if id' = [] then ps_id q else id'),
                               ps_name = (if name = [] then ps_name q else name),
                               ps_signature = or_else sig (ps_signature q),
                               ps_index = index, ps_args = ps_args q\<rparr>
                  | None \<Rightarrow> \<lparr>ps_id = id', ps_name = name, ps_signature = sig, ps_index = index, ps_args = []\<rparr>)
         in if ps_id p = [] \<or> ps_name p = [] then ([], a\<lparr>pending := bt_insert index p (pending a)\<rparr>)
            else (into_events p, a\<lparr>started := insert index (started a)\<rparr>)))"

definition asm_flush :: "assembler \<Rightarrow> ir_stream_event list \<times> assembler" where
  "asm_flush a =
     (concat (map (\<lambda>(_, p). into_events p) (pending a)),
      a\<lparr>pending := [],
        started := foldl (\<lambda>s (_, p). if ps_id p \<noteq> [] \<or> ps_name p \<noteq> [] then insert (ps_index p) s else s)
                     (started a) (pending a)\<rparr>)"

definition asm_push :: "ir_stream_event \<Rightarrow> assembler \<Rightarrow> ir_stream_event list \<times> assembler" where
  "asm_push ev a =
     (case ev of
        ToolCallStart id' name sig index \<Rightarrow> push_start id' name sig index a
      | ToolCallArgDelta d index \<Rightarrow>
          (case map_of (pending a) index of
             Some p \<Rightarrow> ([], a\<lparr>pending := bt_insert index (p\<lparr>ps_args := ps_args p @ [d]\<rparr>) (pending a)\<rparr>)
           | None \<Rightarrow>
               if index \<in> started a then ([ToolCallArgDelta d index], a)
               else ([], a\<lparr>pending := bt_insert index
                       \<lparr>ps_id = [], ps_name = [], ps_signature = None, ps_index = index, ps_args = [d]\<rparr>
                       (pending a)\<rparr>))
      | FinishReason _ _ \<Rightarrow> (let (out, a') = asm_flush a in (out @ [ev], a'))
      | Done \<Rightarrow> (let (out, a') = asm_flush a in (out @ [ev], a'))
      | _ \<Rightarrow> ([ev], a))"

text \<open>A whole stream: every event pushed in order, then the final \<open>flush\<close>.\<close>

fun asm_run :: "ir_stream_event list \<Rightarrow> assembler \<Rightarrow> ir_stream_event list \<times> assembler" where
  "asm_run [] a = ([], a)"
| "asm_run (ev # evs) a =
     (let (out, a') = asm_push ev a; (out', a'') = asm_run evs a' in (out @ out', a''))"

definition asm_stream :: "ir_stream_event list \<Rightarrow> ir_stream_event list" where
  "asm_stream evs = (let (out, a) = asm_run evs asm_new in out @ fst (asm_flush a))"


section \<open>Invariant\<close>

definition asm_inv :: "assembler \<Rightarrow> bool" where
  "asm_inv a =
     (bt_wf (pending a)
      \<and> (\<forall>i p. map_of (pending a) i = Some p \<longrightarrow>
            ps_index p = i \<and> i \<notin> started a \<and> (ps_id p = [] \<or> ps_name p = [])))"

lemma asm_inv_new [simp]: "asm_inv asm_new"
  by (simp add: asm_inv_def asm_new_def)

lemma foldl_started:
  "i \<in> foldl (\<lambda>s (_, p). if ps_id p \<noteq> [] \<or> ps_name p \<noteq> [] then insert (ps_index p) s else s) s ps \<longleftrightarrow>
     i \<in> s \<or> (\<exists>kp \<in> set ps. ps_index (snd kp) = i \<and> (ps_id (snd kp) \<noteq> [] \<or> ps_name (snd kp) \<noteq> []))"
proof (induction ps arbitrary: s)
  case (Cons kp ps)
  show ?case
    unfolding foldl_Cons Cons.IH by (cases kp) auto
qed simp

lemma asm_flush_inv: "asm_inv a \<Longrightarrow> asm_inv (snd (asm_flush a))"
  by (simp add: asm_inv_def asm_flush_def)

lemma push_start_inv:
  assumes "asm_inv a"
  shows "asm_inv (snd (push_start id' name sig index a))"
  using assms
  by (auto simp: asm_inv_def push_start_def Let_def map_of_bt_remove split: option.splits if_splits)

lemma asm_push_inv: "asm_inv a \<Longrightarrow> asm_inv (snd (asm_push ev a))"
proof (cases ev)
  case (ToolCallArgDelta d i)
  assume "asm_inv a"
  then show ?thesis
    by (auto simp: asm_push_def asm_inv_def ToolCallArgDelta split: option.splits)
qed (auto simp: asm_push_def push_start_inv asm_flush_inv Let_def split: prod.splits
      dest: asm_flush_inv)

lemma asm_run_inv: "asm_inv a \<Longrightarrow> asm_inv (snd (asm_run evs a))"
proof (induction evs arbitrary: a)
  case (Cons ev evs)
  then show ?case
    using asm_push_inv [of a ev] Cons.IH [of "snd (asm_push ev a)"] by (simp add: case_prod_beta' Let_def)
qed simp


section \<open>What reaches the client\<close>

text \<open>The argument fragments and the starts of one index, and everything that is neither.\<close>

definition args_of :: "u32 \<Rightarrow> ir_stream_event list \<Rightarrow> string list" where
  "args_of i evs = concat (map (\<lambda>ev. case ev of ToolCallArgDelta d j \<Rightarrow> if j = i then [d] else [] | _ \<Rightarrow> []) evs)"

definition is_start :: "u32 \<Rightarrow> ir_stream_event \<Rightarrow> bool" where
  "is_start i ev = (case ev of ToolCallStart _ _ _ j \<Rightarrow> j = i | _ \<Rightarrow> False)"

definition is_tool_event :: "ir_stream_event \<Rightarrow> bool" where
  "is_tool_event ev = (case ev of ToolCallStart _ _ _ _ \<Rightarrow> True | ToolCallArgDelta _ _ \<Rightarrow> True | _ \<Rightarrow> False)"

definition held :: "u32 \<Rightarrow> assembler \<Rightarrow> string list" where
  "held i a = (case map_of (pending a) i of None \<Rightarrow> [] | Some p \<Rightarrow> ps_args p)"

lemma args_of_simps [simp]:
  "args_of i [] = []" "args_of i (xs @ ys) = args_of i xs @ args_of i ys"
  "args_of i (ToolCallArgDelta d j # xs) = (if j = i then [d] else []) @ args_of i xs"
  "args_of i (ToolCallStart a b c j # xs) = args_of i xs"
  by (simp_all add: args_of_def)

lemma args_of_other: "\<not> is_tool_event ev \<Longrightarrow> args_of i (ev # xs) = args_of i xs"
  by (cases ev) (simp_all add: args_of_def is_tool_event_def)

lemma args_of_map: "args_of i (map (\<lambda>d. ToolCallArgDelta d j) ds) = (if j = i then ds else [])"
  by (induction ds) auto

lemma args_of_into_events: "args_of i (into_events p) = (if ps_index p = i then ps_args p else [])"
  by (simp add: into_events_def args_of_map)

lemma args_of_pending:
  "bt_wf ps \<Longrightarrow> (\<forall>k p. map_of ps k = Some p \<longrightarrow> ps_index p = k) \<Longrightarrow>
   args_of i (concat (map (\<lambda>(_, p). into_events p) ps)) = (case map_of ps i of None \<Rightarrow> [] | Some p \<Rightarrow> ps_args p)"
proof (induction ps)
  case (Cons kp ps)
  obtain k p where kp: "kp = (k, p)" by force
  have k: "ps_index p = k" using Cons.prems(2) kp by auto
  have fresh: "map_of ps k = None" using Cons.prems(1) kp by (auto simp: map_of_eq_None_iff)
  have "\<forall>k' p'. map_of ps k' = Some p' \<longrightarrow> ps_index p' = k'"
    using Cons.prems(2) kp fresh by (metis map_of_Cons_code(2) option.distinct(1))
  then show ?case
    using Cons kp k fresh by (auto simp: args_of_into_events)
qed simp

lemma args_of_flush: "asm_inv a \<Longrightarrow> args_of i (fst (asm_flush a)) = held i a"
  by (simp add: asm_flush_def held_def asm_inv_def args_of_pending)

lemma held_flush [simp]: "held i (snd (asm_flush a)) = []"
  by (simp add: held_def asm_flush_def)

lemma push_start_args:
  assumes inv: "asm_inv a"
  shows "args_of i (fst (push_start id' name sig index a)) @ held i (snd (push_start id' name sig index a))
     = held i a"
proof -
  have wf: "bt_wf (pending a)" using inv by (simp add: asm_inv_def)
  show ?thesis
  proof (cases "map_of (pending a) index")
    case None
    then show ?thesis using wf
      by (simp add: push_start_def Let_def held_def map_of_bt_remove args_of_into_events)
  next
    case (Some q)
    then have "held index a = ps_args q" by (simp add: held_def)
    with Some show ?thesis using wf
      by (cases "index = i"; cases "index \<in> started a")
        (simp_all add: push_start_def Let_def held_def map_of_bt_remove args_of_into_events)
  qed
qed

lemma asm_push_args:
  assumes "asm_inv a"
  shows "args_of i (fst (asm_push ev a)) @ held i (snd (asm_push ev a)) = held i a @ args_of i [ev]"
proof (cases ev)
  case (ToolCallStart id' name sig index)
  then show ?thesis using push_start_args [OF assms] by (simp add: asm_push_def)
next
  case (ToolCallArgDelta d j)
  have wf: "bt_wf (pending a)" using assms by (simp add: asm_inv_def)
  have new: "\<And>p. map_of (pending a) j = Some p \<Longrightarrow> j \<notin> started a" using assms by (simp add: asm_inv_def)
  show ?thesis
    using wf new
    by (cases "j = i"; cases "map_of (pending a) j") (simp_all add: asm_push_def held_def ToolCallArgDelta)
next
  case (FinishReason r v)
  then show ?thesis
    using args_of_flush [OF assms, of i]
    by (simp add: asm_push_def case_prod_beta' Let_def args_of_other is_tool_event_def)
next
  case Done
  then show ?thesis
    using args_of_flush [OF assms, of i]
    by (simp add: asm_push_def case_prod_beta' Let_def args_of_other is_tool_event_def)
qed (simp_all add: asm_push_def args_of_other is_tool_event_def)

lemma asm_run_args:
  "asm_inv a \<Longrightarrow> args_of i (fst (asm_run evs a)) @ held i (snd (asm_run evs a)) = held i a @ args_of i evs"
proof (induction evs arbitrary: a)
  case (Cons ev evs)
  obtain out a1 where p: "asm_push ev a = (out, a1)" by force
  obtain out2 a2 where r: "asm_run evs a1 = (out2, a2)" by force
  have inv: "asm_inv a1" using asm_push_inv [OF Cons.prems, of ev] p by simp
  have "args_of i out @ held i a1 = held i a @ args_of i [ev]"
    using asm_push_args [OF Cons.prems, of i ev] p by simp
  moreover have "args_of i out2 @ held i a2 = held i a1 @ args_of i evs"
    using Cons.IH [OF inv] r by simp
  moreover have "args_of i (ev # evs) = args_of i [ev] @ args_of i evs"
    by (simp add: args_of_def)
  ultimately show ?case
    by (simp add: p r)
qed simp


section \<open>Starts\<close>

definition starts :: "u32 \<Rightarrow> ir_stream_event list \<Rightarrow> nat" where
  "starts i evs = length (filter (is_start i) evs)"

lemma starts_simps [simp]:
  "starts i [] = 0" "starts i (xs @ ys) = starts i xs + starts i ys"
  "starts i (ToolCallStart a b c j # xs) = (if j = i then 1 else 0) + starts i xs"
  "starts i (ToolCallArgDelta d j # xs) = starts i xs"
  by (simp_all add: starts_def is_start_def)

lemma starts_other: "\<not> is_tool_event ev \<Longrightarrow> starts i (ev # xs) = starts i xs"
  by (cases ev) (simp_all add: starts_def is_start_def is_tool_event_def)

lemma starts_map [simp]: "starts i (map (\<lambda>d. ToolCallArgDelta d j) ds) = 0"
  by (induction ds) auto

lemma starts_into_events:
  "starts i (into_events p) = (if ps_index p = i \<and> (ps_id p \<noteq> [] \<or> ps_name p \<noteq> []) then 1 else 0)"
  by (simp add: into_events_def)

abbreviation named :: "pending_tool_start \<Rightarrow> bool" where
  "named p \<equiv> ps_id p \<noteq> [] \<or> ps_name p \<noteq> []"

lemma starts_pending:
  "bt_wf ps \<Longrightarrow> (\<forall>k p. map_of ps k = Some p \<longrightarrow> ps_index p = k) \<Longrightarrow>
   starts i (concat (map (\<lambda>(_, p). into_events p) ps)) =
     (case map_of ps i of None \<Rightarrow> 0 | Some p \<Rightarrow> if named p then 1 else 0)"
proof (induction ps)
  case (Cons kp ps)
  obtain k p where kp: "kp = (k, p)" by force
  have k: "ps_index p = k" using Cons.prems(2) kp by auto
  have fresh: "map_of ps k = None" using Cons.prems(1) kp by (auto simp: map_of_eq_None_iff)
  have "\<forall>k' p'. map_of ps k' = Some p' \<longrightarrow> ps_index p' = k'"
    using Cons.prems(2) kp fresh by (metis map_of_Cons_code(2) option.distinct(1))
  then have IH: "starts i (concat (map (\<lambda>(_, p). into_events p) ps)) =
      (case map_of ps i of None \<Rightarrow> 0 | Some p \<Rightarrow> if named p then 1 else 0)"
    using Cons kp by simp
  show ?case
  proof (cases "i = k")
    case True
    with fresh IH show ?thesis by (simp add: kp k starts_into_events)
  next
    case False
    with IH show ?thesis by (simp add: kp k starts_into_events)
  qed
qed simp

lemma flush_started_field: "started (a\<lparr>pending := p, started := s\<rparr>) = s"
  by simp

lemma flush_started:
  assumes "asm_inv a"
  shows "i \<in> started (snd (asm_flush a)) \<longleftrightarrow>
    i \<in> started a \<or> (\<exists>p. map_of (pending a) i = Some p \<and> named p)"
proof -
  have wf: "bt_wf (pending a)" using assms by (simp add: asm_inv_def)
  then have mem: "\<And>k p. (k, p) \<in> set (pending a) \<longleftrightarrow> map_of (pending a) k = Some p"
    by (simp add: bt_wf_distinct)
  have ix: "\<And>k p. map_of (pending a) k = Some p \<Longrightarrow> ps_index p = k"
    using assms by (simp add: asm_inv_def)
  have "(\<exists>kp \<in> set (pending a). ps_index (snd kp) = i \<and> named (snd kp)) \<longleftrightarrow>
      (\<exists>p. map_of (pending a) i = Some p \<and> named p)"
  proof (intro iffI; elim bexE exE conjE)
    fix kp
    assume "kp \<in> set (pending a)" "ps_index (snd kp) = i" "named (snd kp)"
    with mem [of "fst kp" "snd kp"] ix [of "fst kp" "snd kp"]
    show "\<exists>p. map_of (pending a) i = Some p \<and> named p" by (intro exI [of _ "snd kp"]) simp
  next
    fix p
    assume "map_of (pending a) i = Some p" "named p"
    with mem [of i p] ix [of i p]
    show "\<exists>kp \<in> set (pending a). ps_index (snd kp) = i \<and> named (snd kp)"
      by (intro bexI [of _ "(i, p)"]) simp_all
  qed
  then show ?thesis
    by (simp only: asm_flush_def snd_conv flush_started_field foldl_started)
qed

text \<open>One start goes out exactly when an index joins \<open>started\<close>.\<close>

abbreviation begun :: "u32 \<Rightarrow> assembler \<Rightarrow> nat" where
  "begun i a \<equiv> if i \<in> started a then 1 else 0"

lemma flush_starts:
  assumes "asm_inv a"
  shows "starts i (fst (asm_flush a)) + begun i a = begun i (snd (asm_flush a))"
proof -
  have "starts i (fst (asm_flush a)) = (case map_of (pending a) i of None \<Rightarrow> 0 | Some p \<Rightarrow> if named p then 1 else 0)"
    using assms by (simp add: asm_flush_def asm_inv_def starts_pending)
  moreover have "\<And>p. map_of (pending a) i = Some p \<Longrightarrow> i \<notin> started a"
    using assms by (simp add: asm_inv_def)
  ultimately show ?thesis
    unfolding flush_started [OF assms] by (cases "map_of (pending a) i") auto
qed

lemma push_start_starts:
  "starts i (fst (push_start id' name sig index a)) + begun i a
     = begun i (snd (push_start id' name sig index a))"
  by (cases "map_of (pending a) index") (auto simp: push_start_def Let_def starts_into_events)

lemma asm_push_starts:
  assumes "asm_inv a"
  shows "starts i (fst (asm_push ev a)) + begun i a = begun i (snd (asm_push ev a))"
proof (cases ev)
  case (ToolCallStart id' name sig index)
  then show ?thesis using push_start_starts by (simp add: asm_push_def)
next
  case (ToolCallArgDelta d j)
  then show ?thesis by (cases "map_of (pending a) j") (simp_all add: asm_push_def)
next
  case (FinishReason r v)
  then show ?thesis
    using flush_starts [OF assms, of i]
    by (simp add: asm_push_def case_prod_beta' Let_def starts_other is_tool_event_def)
next
  case Done
  then show ?thesis
    using flush_starts [OF assms, of i]
    by (simp add: asm_push_def case_prod_beta' Let_def starts_other is_tool_event_def)
qed (simp_all add: asm_push_def starts_other is_tool_event_def)

lemma asm_run_starts:
  "asm_inv a \<Longrightarrow> starts i (fst (asm_run evs a)) + begun i a = begun i (snd (asm_run evs a))"
proof (induction evs arbitrary: a)
  case (Cons ev evs)
  obtain out a1 where p: "asm_push ev a = (out, a1)" by force
  obtain out2 a2 where r: "asm_run evs a1 = (out2, a2)" by force
  have inv: "asm_inv a1" using asm_push_inv [OF Cons.prems, of ev] p by simp
  show ?case
    using asm_push_starts [OF Cons.prems, of i ev] Cons.IH [OF inv] by (simp add: p r)
qed simp


section \<open>Order\<close>

text \<open>A fragment of a call follows the call's start; \<open>starts_first\<close> reads a stream given the calls
already begun.\<close>

fun starts_first :: "u32 set \<Rightarrow> ir_stream_event list \<Rightarrow> bool" where
  "starts_first s [] = True"
| "starts_first s (ToolCallStart _ _ _ j # evs) = starts_first (insert j s) evs"
| "starts_first s (ToolCallArgDelta _ j # evs) = (j \<in> s \<and> starts_first s evs)"
| "starts_first s (ev # evs) = starts_first s evs"

definition start_set :: "ir_stream_event list \<Rightarrow> u32 set" where
  "start_set evs = {i. \<exists>ev \<in> set evs. is_start i ev}"

lemma start_set_simps [simp]:
  "start_set [] = {}" "start_set (xs @ ys) = start_set xs \<union> start_set ys"
  by (auto simp: start_set_def)

lemma start_set_Cons: "start_set (ev # evs) = {i. is_start i ev} \<union> start_set evs"
  by (auto simp: start_set_def)

lemma starts_first_append:
  "starts_first s (xs @ ys) \<longleftrightarrow> starts_first s xs \<and> starts_first (s \<union> start_set xs) ys"
proof (induction xs arbitrary: s)
  case (Cons x xs)
  then show ?case
    by (cases x) (simp_all add: start_set_Cons is_start_def)
qed simp

lemma starts_first_other: "\<not> is_tool_event ev \<Longrightarrow> starts_first s (ev # evs) = starts_first s evs"
  by (cases ev) (simp_all add: is_tool_event_def)

lemma starts_first_map: "starts_first s (map (\<lambda>d. ToolCallArgDelta d j) ds) \<longleftrightarrow> j \<in> s \<or> ds = []"
  by (induction ds) auto

definition is_finish :: "ir_stream_event \<Rightarrow> bool" where
  "is_finish ev = (case ev of FinishReason _ _ \<Rightarrow> True | Done \<Rightarrow> True | _ \<Rightarrow> False)"

lemma start_set_map [simp]: "start_set (map (\<lambda>d. ToolCallArgDelta d j) ds) = {}"
  by (auto simp: start_set_def is_start_def)

lemma push_start_order:
  "starts_first (started a) (fst (push_start id' name sig index a))
   \<and> started (snd (push_start id' name sig index a))
       = started a \<union> start_set (fst (push_start id' name sig index a))"
  by (cases "map_of (pending a) index")
    (auto simp: push_start_def Let_def into_events_def starts_first_map start_set_Cons is_start_def)

lemma asm_push_order:
  assumes "\<not> is_finish ev"
  shows "starts_first (started a) (fst (asm_push ev a))
    \<and> started (snd (asm_push ev a)) = started a \<union> start_set (fst (asm_push ev a))"
proof (cases ev)
  case (ToolCallStart id' name sig index)
  then show ?thesis using push_start_order by (simp add: asm_push_def)
next
  case (ToolCallArgDelta d j)
  then show ?thesis
    by (cases "map_of (pending a) j") (simp_all add: asm_push_def start_set_Cons is_start_def)
qed (use assms in \<open>simp_all add: asm_push_def start_set_Cons is_start_def is_finish_def\<close>)

lemma asm_run_order:
  "\<forall>ev \<in> set evs. \<not> is_finish ev \<Longrightarrow> starts_first (started a) (fst (asm_run evs a))"
proof (induction evs arbitrary: a)
  case (Cons ev evs)
  obtain out a1 where p: "asm_push ev a = (out, a1)" by force
  obtain out2 a2 where r: "asm_run evs a1 = (out2, a2)" by force
  have "starts_first (started a) out \<and> started a1 = started a \<union> start_set out"
    using asm_push_order [of ev a] Cons.prems p by simp
  moreover have "starts_first (started a1) out2"
    using Cons.IH [of a1] Cons.prems r by simp
  ultimately show ?case by (simp add: p r starts_first_append)
qed simp


section \<open>Everything else passes\<close>

lemma tool_event_start [simp]: "is_tool_event (ToolCallStart a b c i)" "is_tool_event (ToolCallArgDelta d i)"
  by (simp_all add: is_tool_event_def)

lemma not_tool_event [simp]: "\<not> is_tool_event (FinishReason r v)" "\<not> is_tool_event Done"
  by (simp_all add: is_tool_event_def)

lemma filter_into_events [simp]: "filter (\<lambda>e. \<not> is_tool_event e) (into_events p) = []"
  by (auto simp: into_events_def is_tool_event_def filter_empty_conv)

lemma filter_flush [simp]: "filter (\<lambda>e. \<not> is_tool_event e) (fst (asm_flush a)) = []"
  by (auto simp: asm_flush_def filter_concat o_def case_prod_beta')

lemma filter_push_start [simp]:
  "filter (\<lambda>e. \<not> is_tool_event e) (fst (push_start id' name sig index a)) = []"
  by (cases "map_of (pending a) index") (auto simp: push_start_def Let_def)

lemma filter_push:
  "filter (\<lambda>e. \<not> is_tool_event e) (fst (asm_push ev a)) = filter (\<lambda>e. \<not> is_tool_event e) [ev]"
proof (cases ev)
  case (ToolCallArgDelta d j)
  then show ?thesis
    by (cases "map_of (pending a) j") (simp_all add: asm_push_def)
qed (simp_all add: asm_push_def  case_prod_beta' Let_def)

lemma filter_run:
  "filter (\<lambda>e. \<not> is_tool_event e) (fst (asm_run evs a)) = filter (\<lambda>e. \<not> is_tool_event e) evs"
proof (induction evs arbitrary: a)
  case (Cons ev evs)
  show ?case
    using filter_push [of ev a] Cons.IH by (simp add: case_prod_beta' Let_def)
qed simp


section \<open>Properties\<close>

text \<open>C28. Over a whole stream, whatever the order and the repetition of the chunks, at most one
  \<open>ToolCallStart\<close> leaves the assembler for an index, and one leaves exactly when the final state has
  the index in \<open>started\<close>.
\<close>

theorem asm_one_start_per_index:
  "starts i (asm_stream evs) \<le> 1
   \<and> (starts i (asm_stream evs) = 1 \<longleftrightarrow> i \<in> started (snd (asm_flush (snd (asm_run evs asm_new)))))"
proof -
  let ?a = "snd (asm_run evs asm_new)"
  have "starts i (asm_stream evs) = starts i (fst (asm_run evs asm_new)) + starts i (fst (asm_flush ?a))"
    by (simp add: asm_stream_def case_prod_beta' Let_def)
  also have "starts i (fst (asm_run evs asm_new)) = begun i ?a"
    using asm_run_starts [OF asm_inv_new, of i evs] by (simp add: asm_new_def)
  also have "begun i ?a + starts i (fst (asm_flush ?a)) = begun i (snd (asm_flush ?a))"
    using flush_starts [OF asm_run_inv [OF asm_inv_new], of i evs] by simp
  finally have "starts i (asm_stream evs) = begun i (snd (asm_flush ?a))" .
  then show ?thesis by simp
qed

text \<open>C29. No argument fragment is lost, duplicated or reordered: for every index the fragments that leave
  the assembler over a whole stream are the fragments that entered it, in order.
\<close>

theorem asm_args_conserved: "args_of i (asm_stream evs) = args_of i evs"
proof -
  have "held i asm_new = []" by (simp add: held_def asm_new_def)
  then show ?thesis
    using asm_run_args [of asm_new i evs] args_of_flush [OF asm_run_inv [of asm_new evs], of i]
    by (simp add: asm_stream_def case_prod_beta' Let_def)
qed

text \<open>Every event that is not part of a function call leaves the assembler unchanged and in its
  original order.
\<close>

theorem asm_other_events_pass:
  "filter (\<lambda>e. \<not> is_tool_event e) (asm_stream evs) = filter (\<lambda>e. \<not> is_tool_event e) evs"
  by (simp add: asm_stream_def case_prod_beta' Let_def filter_run)

text \<open>Until the stream finishes, no argument fragment leaves before the start of its call: a client
  never sees a fragment of a call it has not been told about.
\<close>

theorem asm_start_before_fragments:
  "\<forall>ev \<in> set evs. \<not> is_finish ev \<Longrightarrow> starts_first {} (fst (asm_run evs asm_new))"
  using asm_run_order [of evs asm_new] by (simp add: asm_new_def)

theorem asm_start_before_fragments_witness:
  "starts_first {} (fst (asm_run [ToolCallArgDelta ''{'' 0, ToolCallStart ''id'' [] None 0,
     ToolCallStart [] ''f'' None 0, ToolCallArgDelta ''}'' 0] asm_new))
   \<and> fst (asm_run [ToolCallArgDelta ''{'' 0, ToolCallStart ''id'' [] None 0,
       ToolCallStart [] ''f'' None 0, ToolCallArgDelta ''}'' 0] asm_new)
     = [ToolCallStart ''id'' ''f'' None 0, ToolCallArgDelta ''{'' 0, ToolCallArgDelta ''}'' 0]"
  using asm_start_before_fragments [of "[ToolCallArgDelta ''{'' 0, ToolCallStart ''id'' [] None 0,
     ToolCallStart [] ''f'' None 0, ToolCallArgDelta ''}'' 0]"]
  by (simp add: is_finish_def asm_push_def push_start_def asm_new_def Let_def into_events_def)

end
