(* ===== verification/Wm_Completion.thy ===== *)
theory Wm_Completion
  imports Wm_Ir
begin

text \<open>
  \<open>completion.rs\<close>: does a JSON body already carry output a caller can see? The decoders of a stream turn
  a vendor error into a failure only when it does not. The parts of the test that live beside the
  Responses and Converse decoders (\<open>responses_has_visible_output\<close> of \<open>stream/complete.rs\<close>,
  \<open>converse_has_completion\<close> of \<open>stream/converse.rs\<close>) are here too, since the test is one predicate.
\<close>

section \<open>Leaves\<close>

definition nonempty_str :: "json \<Rightarrow> string \<Rightarrow> bool" where
  "nonempty_str v k = is_some_and (Option.bind (jget v k) as_str) (\<lambda>s. s \<noteq> [])"

definition array_any :: "json \<Rightarrow> string \<Rightarrow> (json \<Rightarrow> bool) \<Rightarrow> bool" where
  "array_any v k P = is_some_and (Option.bind (jget v k) as_array) (list_ex P)"

text \<open>The presence test of an optional payload: \<open>json_payload\<close>, \<open>responses_arg_present\<close> and the matches of
  \<open>argument_visible\<close> and \<open>converse_tool_visible\<close> are the same.\<close>

fun json_payload :: "json option \<Rightarrow> bool" where
  "json_payload None = False"
| "json_payload (Some JNull) = False"
| "json_payload (Some (JString s)) = (s \<noteq> [])"
| "json_payload (Some _) = True"

lemma jget_size: "jget v k = Some w \<Longrightarrow> size w < size v"
proof (cases v)
  case (JObject m)
  assume "jget v k = Some w"
  then have "(k, w) \<in> set m" using JObject by (auto dest: map_of_SomeD)
  moreover have "size w \<le> size_prod (\<lambda>_. 0) size (k, w)" by simp
  ultimately have "size w \<le> size_list (size_prod (\<lambda>_. 0) size) m"
    by (rule size_list_estimation')
  then show ?thesis by (simp add: JObject)
qed auto

function (sequential) media_leaf_visible :: "json \<Rightarrow> bool" where
  "media_leaf_visible (JString s) = (s \<noteq> [])"
| "media_leaf_visible (JObject m) =
     (nonempty_str (JObject m) ''url'' \<or> nonempty_str (JObject m) ''data''
      \<or> nonempty_str (JObject m) ''transcript''
      \<or> (case jget (JObject m) ''source'' of None \<Rightarrow> False | Some w \<Rightarrow> media_leaf_visible w))"
| "media_leaf_visible _ = False"
  by pat_completeness auto
termination
  by (relation "measure size") (use jget_size in \<open>auto dest!: jget_size simp del: jget.simps\<close>)

definition media_payload_visible :: "json \<Rightarrow> bool" where
  "media_payload_visible v =
     (nonempty_str v ''url'' \<or> nonempty_str v ''data'' \<or> nonempty_str v ''transcript''
      \<or> is_some_and (jget v ''image_url'') media_leaf_visible
      \<or> is_some_and (jget v ''input_audio'') media_leaf_visible
      \<or> is_some_and (jget v ''audio'') media_leaf_visible
      \<or> is_some_and (jget v ''source'') media_leaf_visible)"

definition content_part_visible :: "json \<Rightarrow> bool" where
  "content_part_visible item =
     (is_some_and (as_str item) (\<lambda>s. s \<noteq> []) \<or> nonempty_str item ''text''
      \<or> nonempty_str item ''refusal'' \<or> media_payload_visible item)"

fun content_visible :: "json \<Rightarrow> bool" where
  "content_visible (JString s) = (s \<noteq> [])"
| "content_visible (JArray xs) = list_ex content_part_visible xs"
| "content_visible _ = False"

definition argument_visible :: "json \<Rightarrow> bool" where
  "argument_visible v = json_payload (or_else (jget v ''arguments'') (jget v ''input''))"

definition tool_call_visible :: "json \<Rightarrow> bool" where
  "tool_call_visible call =
     (nonempty_str call ''id'' \<or> nonempty_str call ''name'' \<or> argument_visible call
      \<or> list_ex (\<lambda>key. is_some_and (jget call key)
            (\<lambda>body. nonempty_str body ''name'' \<or> nonempty_str body ''id'' \<or> argument_visible body))
          [''function'', ''custom''])"

definition audio_visible :: "json \<Rightarrow> bool" where
  "audio_visible body =
     (case ofilter is_object (jget body ''audio'') of
        None \<Rightarrow> False
      | Some audio \<Rightarrow> nonempty_str audio ''data'' \<or> nonempty_str audio ''transcript'')"

definition choice_visible :: "json \<Rightarrow> bool" where
  "choice_visible choice =
     (let body = unwrap_or (or_else (jget choice ''message'') (jget choice ''delta'')) choice
      in if is_some_and (jget body ''content'') content_visible then True
         else if nonempty_str body ''refusal'' \<or> nonempty_str body ''reasoning''
              \<or> nonempty_str body ''reasoning_content'' then True
         else if audio_visible body then True
         else if is_some_and (Option.bind (jget body ''tool_calls'') as_array) (list_ex tool_call_visible) then True
         else is_some_and (jget body ''function_call'') tool_call_visible)"


section \<open>Messages blocks\<close>

definition messages_citation_visible :: "json \<Rightarrow> bool" where
  "messages_citation_visible c = (is_object c \<and> Option.bind (jget c ''type'') as_str \<noteq> None)"

definition messages_text_block_visible :: "json \<Rightarrow> bool" where
  "messages_text_block_visible b =
     (nonempty_str b ''text'' \<or> array_any b ''citations'' messages_citation_visible)"

definition messages_thinking_block_visible :: "json \<Rightarrow> bool" where
  "messages_thinking_block_visible b = (nonempty_str b ''thinking'' \<or> nonempty_str b ''signature'')"

definition messages_tool_block_visible :: "json \<Rightarrow> bool" where
  "messages_tool_block_visible b = tool_call_visible b"

definition source_file_visible :: "json \<Rightarrow> bool" where
  "source_file_visible s = (nonempty_str s ''file_id'' \<or> nonempty_str s ''id'')"

fun messages_content_field_visible :: "json option \<Rightarrow> bool" where
  "messages_content_field_visible None = False"
| "messages_content_field_visible (Some JNull) = False"
| "messages_content_field_visible (Some (JString s)) = (s \<noteq> [])"
| "messages_content_field_visible (Some (JArray xs)) =
     list_ex (\<lambda>item. is_some_and (as_str item) (\<lambda>s. s \<noteq> []) \<or> nonempty_str item ''text''
         \<or> nonempty_str item ''thinking'' \<or> tool_call_visible item \<or> media_payload_visible item) xs"
| "messages_content_field_visible (Some (JObject m)) =
     (nonempty_str (JObject m) ''text'' \<or> tool_call_visible (JObject m) \<or> media_payload_visible (JObject m))"
| "messages_content_field_visible (Some _) = False"

definition messages_block_has_payload :: "json \<Rightarrow> bool" where
  "messages_block_has_payload b =
     (nonempty_str b ''text'' \<or> nonempty_str b ''thinking'' \<or> nonempty_str b ''signature''
      \<or> nonempty_str b ''data'' \<or> nonempty_str b ''id'' \<or> nonempty_str b ''name''
      \<or> nonempty_str b ''tool_use_id'' \<or> tool_call_visible b \<or> media_payload_visible b
      \<or> is_some_and (jget b ''source'') source_file_visible
      \<or> messages_content_field_visible (jget b ''content''))"

definition messages_block_keeps_completion :: "json \<Rightarrow> bool" where
  "messages_block_keeps_completion b =
     (case Option.bind (jget b ''type'') as_str of
        None \<Rightarrow> False
      | Some ty \<Rightarrow>
          if ty = ''text'' then messages_text_block_visible b
          else if ty = ''thinking'' then messages_thinking_block_visible b
          else if ty = ''tool_use'' then messages_tool_block_visible b
          else messages_block_has_payload b)"

definition messages_content_visible :: "json \<Rightarrow> bool" where
  "messages_content_visible v = array_any v ''content'' messages_block_keeps_completion"


section \<open>Gemini parts\<close>

definition gemini_function_call_visible :: "json \<Rightarrow> bool" where
  "gemini_function_call_visible call =
     (nonempty_str call ''id'' \<or> nonempty_str call ''name'' \<or> json_payload (jget call ''args''))"

definition gemini_response_visible :: "json \<Rightarrow> bool" where
  "gemini_response_visible v =
     (nonempty_str v ''name'' \<or> nonempty_str v ''id'' \<or> json_payload (jget v ''response''))"

definition gemini_side_part_visible :: "json \<Rightarrow> bool" where
  "gemini_side_part_visible part =
     (is_some_and (jget part ''fileData'') (\<lambda>v. nonempty_str v ''fileUri'' \<or> nonempty_str v ''uri'')
      \<or> is_some_and (jget part ''executableCode'') (\<lambda>v. nonempty_str v ''language'' \<or> nonempty_str v ''code'')
      \<or> is_some_and (jget part ''codeExecutionResult'') (\<lambda>v. nonempty_str v ''outcome'' \<or> nonempty_str v ''output'')
      \<or> is_some_and (jget part ''functionResponse'') gemini_response_visible
      \<or> is_some_and (jget part ''toolCall'') gemini_function_call_visible
      \<or> is_some_and (jget part ''toolResponse'') gemini_response_visible)"

definition gemini_part_visible :: "json \<Rightarrow> bool" where
  "gemini_part_visible part =
     (nonempty_str part ''text''
      \<or> is_some_and (jget part ''functionCall'') gemini_function_call_visible
      \<or> is_some_and (jget part ''inlineData'') (\<lambda>v. nonempty_str v ''data'')
      \<or> gemini_side_part_visible part)"

definition candidate_visible :: "json \<Rightarrow> bool" where
  "candidate_visible c =
     (nonempty_str c ''finishMessage''
      \<or> is_some_and (Option.bind (pointer c [''content'', ''parts'']) as_array) (list_ex gemini_part_visible))"


section \<open>Responses items\<close>

fun responses_hosted_field_present :: "json \<Rightarrow> bool" where
  "responses_hosted_field_present (JString s) = (s \<noteq> [])"
| "responses_hosted_field_present (JArray xs) = (xs \<noteq> [])"
| "responses_hosted_field_present (JObject m) = (m \<noteq> [])"
| "responses_hosted_field_present (JNumber _) = True"
| "responses_hosted_field_present (JBool _) = True"
| "responses_hosted_field_present JNull = False"

definition responses_hosted_visible :: "json \<Rightarrow> bool" where
  "responses_hosted_visible item =
     (case as_object item of
        None \<Rightarrow> False
      | Some m \<Rightarrow> list_ex (\<lambda>(k, v). k \<noteq> ''type'' \<and> responses_hosted_field_present v) m)"

definition responses_part_visible :: "json \<Rightarrow> bool" where
  "responses_part_visible part =
     list_ex (\<lambda>k. is_some_and (str_field part k) (\<lambda>s. s \<noteq> []))
       [''text'', ''refusal'', ''data'', ''transcript'', ''image_url'']"

definition responses_call_visible :: "json \<Rightarrow> bool" where
  "responses_call_visible item =
     (list_ex (\<lambda>k. is_some_and (str_field item k) (\<lambda>s. s \<noteq> [])) [''name'', ''call_id'', ''id'']
      \<or> json_payload (jget item ''arguments'') \<or> json_payload (jget item ''input''))"

definition responses_reasoning_visible :: "json \<Rightarrow> bool" where
  "responses_reasoning_visible item =
     (is_some_and (str_field item ''encrypted_content'') (\<lambda>s. s \<noteq> [])
      \<or> array_any item ''summary'' responses_part_visible
      \<or> array_any item ''content'' responses_part_visible)"

definition responses_item_visible :: "json \<Rightarrow> bool" where
  "responses_item_visible item =
     (case Option.bind (jget item ''type'') as_str of
        None \<Rightarrow> False
      | Some ty \<Rightarrow>
          if ty = ''message'' then array_any item ''content'' responses_part_visible
          else if ty = ''function_call'' \<or> ty = ''custom_tool_call'' then responses_call_visible item
          else if ty = ''reasoning'' then responses_reasoning_visible item
          else if ty = ''output_audio'' \<or> ty = ''audio'' then responses_part_visible item
          else responses_hosted_visible item)"

definition responses_has_visible_output :: "json \<Rightarrow> bool" where
  "responses_has_visible_output v =
     (if is_some_and (str_field v ''text'') (\<lambda>s. s \<noteq> []) then True
      else (case or_else (Option.bind (jget v ''output'') as_array)
                    (Option.bind (pointer v [''response'', ''output'']) as_array) of
              None \<Rightarrow> False
            | Some items \<Rightarrow> list_ex responses_item_visible items))"


section \<open>Converse blocks\<close>

fun nested_nonempty_string :: "json \<Rightarrow> bool" where
  "nested_nonempty_string (JString s) = (trim s \<noteq> [])"
| "nested_nonempty_string (JArray xs) = list_ex nested_nonempty_string xs"
| "nested_nonempty_string (JObject m) = list_ex (\<lambda>(k, v). nested_nonempty_string v) m"
| "nested_nonempty_string _ = False"

definition pointer_nonempty :: "json \<Rightarrow> string list \<Rightarrow> bool" where
  "pointer_nonempty v ks = is_some_and (Option.bind (pointer v ks) as_str) (\<lambda>s. s \<noteq> [])"

definition converse_tool_visible :: "json \<Rightarrow> bool" where
  "converse_tool_visible tool =
     (nonempty_str tool ''toolUseId'' \<or> nonempty_str tool ''name'' \<or> json_payload (jget tool ''input''))"

definition converse_media_visible :: "json \<Rightarrow> bool" where
  "converse_media_visible v =
     (nonempty_str v ''name'' \<or> pointer_nonempty v [''source'', ''bytes'']
      \<or> pointer_nonempty v [''source'', ''s3Location'', ''uri''])"

definition converse_block_visible :: "json \<Rightarrow> bool" where
  "converse_block_visible b =
     (nonempty_str b ''text''
      \<or> pointer_nonempty b [''reasoningContent'', ''reasoningText'', ''text'']
      \<or> pointer_nonempty b [''reasoningContent'', ''reasoningText'', ''signature'']
      \<or> pointer_nonempty b [''reasoningContent'', ''redactedContent'']
      \<or> is_some_and (jget b ''toolUse'') converse_tool_visible
      \<or> is_some_and (jget b ''image'') converse_media_visible
      \<or> is_some_and (jget b ''document'') converse_media_visible
      \<or> is_some_and (jget b ''video'') converse_media_visible
      \<or> is_some_and (jget b ''audio'') (\<lambda>a. pointer_nonempty a [''source'', ''bytes''])
      \<or> is_some_and (jget b ''guardContent'') nested_nonempty_string
      \<or> is_some_and (pointer b [''citationsContent'', ''citations'']) nested_nonempty_string)"

definition converse_output_visible :: "json \<Rightarrow> bool" where
  "converse_output_visible v =
     is_some_and (Option.bind (pointer v [''output'', ''message'', ''content'']) as_array)
       (list_ex converse_block_visible)"

definition converse_has_completion :: "json \<Rightarrow> bool" where
  "converse_has_completion v =
     (if is_some_and (Option.bind (jget v ''stopReason'') as_str) (\<lambda>s. trim s \<noteq> []) then True
      else (case jget v ''output'' of
              Some (JObject _) \<Rightarrow> converse_output_visible v
            | Some (JArray items) \<Rightarrow> list_ex converse_block_visible items
            | _ \<Rightarrow> False))"


section \<open>The predicate and the vendor error\<close>

definition json_has_completion :: "json \<Rightarrow> bool" where
  "json_has_completion v =
     (array_any v ''choices'' choice_visible \<or> array_any v ''candidates'' candidate_visible
      \<or> responses_has_visible_output v \<or> messages_content_visible v \<or> converse_has_completion v)"

definition json_string_error :: "json \<Rightarrow> string option" where
  "json_string_error v =
     ofilter (\<lambda>s. s \<noteq> []) (map_option trim (Option.bind (jget v ''error'') as_str))"

text \<open>One step of \<open>find_map\<close> over \<open>code\<close>, \<open>type\<close>, \<open>status\<close>.\<close>

definition error_code_of :: "json \<Rightarrow> string \<Rightarrow> string option" where
  "error_code_of err key =
     (case jget err key of
        None \<Rightarrow> None
      | Some value \<Rightarrow>
          (case as_str value of
             Some text \<Rightarrow>
               (let text = trim text
                in if text = [] \<or> (key = ''type'' \<and> text = ''error'') then None else Some text)
           | None \<Rightarrow> map_option show_int (as_i64 value)))"

definition error_object_detail :: "json \<Rightarrow> string option" where
  "error_object_detail err =
     (let message = ofilter (\<lambda>s. s \<noteq> []) (map_option trim (Option.bind (jget err ''message'') as_str));
          code = or_else (error_code_of err ''code'')
                   (or_else (error_code_of err ''type'') (error_code_of err ''status''))
      in case (code, message) of
           (Some code, Some message) \<Rightarrow> Some (code @ '': '' @ message)
         | (None, Some message) \<Rightarrow> Some message
         | (Some code, None) \<Rightarrow> Some code
         | (None, None) \<Rightarrow> None)"

text \<open>\<open>reject_bare_chat_error\<close> of \<open>stream/chat.rs\<close>.\<close>

definition reject_bare_chat_error :: "json \<Rightarrow> map_error + unit" where
  "reject_bare_chat_error v =
     (if json_has_completion v then Inr ()
      else (case json_string_error v of
              Some text \<Rightarrow> Inl (MapInvalid text)
            | None \<Rightarrow>
                (case Option.bind (ofilter is_object (jget v ''error'')) error_object_detail of
                   Some d \<Rightarrow> Inl (MapInvalid d)
                 | None \<Rightarrow> Inr ())))"


section \<open>Lemmas\<close>

lemma jget_jinsert_other: "k \<noteq> k' \<Longrightarrow> jget (jinsert k v j) k' = jget j k'"
  by (cases j) auto

lemma step_pointer_jinsert_other: "k \<noteq> k' \<Longrightarrow> step_pointer (jinsert k v j) k' = step_pointer j k'"
  by (cases j) auto

lemma pointer_jinsert_other: "k \<noteq> k' \<Longrightarrow> pointer (jinsert k v j) (k' # ks) = pointer j (k' # ks)"
  by (simp add: step_pointer_jinsert_other)

text \<open>Whether a body has output does not depend on its \<open>error\<close> field.\<close>

lemma json_has_completion_error: "json_has_completion (jinsert ''error'' e v) = json_has_completion v"
  unfolding json_has_completion_def array_any_def responses_has_visible_output_def
    messages_content_visible_def converse_has_completion_def converse_output_visible_def str_field_def
  by (simp only: jget_jinsert_other pointer_jinsert_other list.inject char.inject not_Cons_self2 simp_thms)

lemma trim_error_code: "error_code_of err key = Some c \<Longrightarrow> c \<noteq> []"
  by (auto simp: error_code_of_def Let_def show_int_def split: option.splits if_splits)
    (metis append_is_Nil_conv not_Cons_self2 list.distinct(1) show_nat.simps)

lemma error_object_detail_nonempty: "error_object_detail err = Some d \<Longrightarrow> d \<noteq> []"
  by (auto simp: error_object_detail_def Let_def ofilter_def or_else_eq_Some dest!: trim_error_code
      split: option.splits if_splits)


section \<open>Property\<close>

text \<open>A vendor error fails a Chat chunk exactly when the chunk has no output of its own: with output the
  error field is ignored whatever it holds; without, the failure carries the trimmed message (after the
  error's code when there is one), and an \<open>error\<close> with nothing to say does not fail the chunk.
\<close>

theorem reject_bare_chat_error_iff:
  "reject_bare_chat_error (jinsert ''error'' e (JObject m)) =
     (if json_has_completion (JObject m) then Inr ()
      else case (case e of JString s \<Rightarrow> if trim s = [] then None else Some (trim s)
                         | JObject o' \<Rightarrow> error_object_detail e | _ \<Rightarrow> None) of
             None \<Rightarrow> Inr () | Some d \<Rightarrow> Inl (MapInvalid d))
   \<and> (\<forall>d. error_object_detail e = Some d \<longrightarrow> d \<noteq> [])"
proof (intro conjI)
  let ?v = "jinsert ''error'' e (JObject m)"
  have "jget ?v ''error'' = Some e" by simp
  then show "reject_bare_chat_error ?v =
     (if json_has_completion (JObject m) then Inr ()
      else case (case e of JString s \<Rightarrow> if trim s = [] then None else Some (trim s)
                         | JObject o' \<Rightarrow> error_object_detail e | _ \<Rightarrow> None) of
             None \<Rightarrow> Inr () | Some d \<Rightarrow> Inl (MapInvalid d))"
    unfolding reject_bare_chat_error_def json_has_completion_error json_string_error_def
    by (cases e) (simp_all add: ofilter_def split: option.splits)
qed (use error_object_detail_nonempty in blast)

theorem reject_bare_chat_error_iff_witness:
  "reject_bare_chat_error (jinsert ''error'' (json_obj [(''code'', json_i64 429)]) (JObject []))
     = Inl (MapInvalid ''429'')"
proof -
  have "error_object_detail (json_obj [(''code'', json_i64 429)])
      = Some ''429''"
    by (simp add: error_object_detail_def error_code_of_def Let_def json_obj_def json_i64_def show_int_def
        show_nat.simps [of 429] show_nat.simps [of 42] show_nat.simps [of 4] digit_char_def char_of_def bit_0)
  moreover have "\<not> json_has_completion (JObject [])"
    by (simp add: json_has_completion_def array_any_def responses_has_visible_output_def str_field_def
        messages_content_visible_def converse_has_completion_def)
  ultimately show ?thesis
    using reject_bare_chat_error_iff [of "json_obj [(''code'', json_i64 429)]" "[]"]
    by (simp add: json_obj_def)
qed

end
