(* ===== verification/Wm_Stream_Chat.thy ===== *)
theory Wm_Stream_Chat
  imports Wm_Completion Wm_Usage
begin

text \<open>
  \<open>stream/chat.rs\<close>: Chat Completions chunks to stream events and back. \<open>chat_decode\<close> is the singular
  decoder (first signal wins, a chunk it cannot represent is refused), \<open>chat_decode_all\<close> keeps every
  signal of a chunk, \<open>chat_encode\<close> writes one event as a chunk. The moderation mapping of
  \<open>stream/complete.rs\<close> that the decoders call is here as well. \<open>to_str\<close> is \<open>serde_json\<close>'s printer.
\<close>

section \<open>Moderation (\<open>stream/complete.rs\<close>)\<close>

definition copy_keys :: "string list \<Rightarrow> json \<Rightarrow> jobject \<Rightarrow> jobject" where
  "copy_keys ks v m =
     foldl (\<lambda>m k. case jget v k of None \<Rightarrow> m | Some w \<Rightarrow> bt_insert k w m) m ks"

definition moderation_keys :: "string list" where
  "moderation_keys = [''flagged'', ''categories'', ''category_scores'', ''category_applied_input_types'']"

definition moderation_result_to_chat :: "json \<Rightarrow> json" where
  "moderation_result_to_chat v =
     json_obj [(''type'', JString ''moderation_results''),
               (''model'', unwrap_or (jget v ''model'') (JString [])),
               (''results'', JArray [JObject (copy_keys moderation_keys v [])])]"

definition to_chat_moderation_side :: "json \<Rightarrow> json" where
  "to_chat_moderation_side v =
     (let ty = Option.bind (jget v ''type'') as_str
      in if ty = Some ''error'' \<or> ty = Some ''moderation_results'' then v
         else if ty = Some ''moderation_result'' then moderation_result_to_chat v
         else if jget v ''results'' \<noteq> None then v
         else if jget v ''flagged'' \<noteq> None \<or> jget v ''categories'' \<noteq> None then moderation_result_to_chat v
         else v)"

definition moderation_results_to_responses :: "json \<Rightarrow> json" where
  "moderation_results_to_responses v =
     (let first = Option.bind (Option.bind (jget v ''results'') as_array)
                    (\<lambda>xs. case xs of [] \<Rightarrow> None | x # _ \<Rightarrow> Some x);
          model = unwrap_or (or_else (jget v ''model'') (Option.bind first (\<lambda>r. jget r ''model''))) (JString []);
          obj = bt_insert ''model'' model (bt_insert ''type'' (JString ''moderation_result'') [])
      in JObject (case first of None \<Rightarrow> obj | Some r \<Rightarrow> copy_keys moderation_keys r obj))"

definition to_responses_moderation_side :: "json \<Rightarrow> json" where
  "to_responses_moderation_side v =
     (let ty = Option.bind (jget v ''type'') as_str
      in if ty = Some ''error'' \<or> ty = Some ''moderation_result'' then v
         else if ty = Some ''moderation_results'' then moderation_results_to_responses v
         else if Option.bind (jget v ''results'') as_array \<noteq> None then moderation_results_to_responses v
         else v)"

definition moderation_object :: "json option \<Rightarrow> json option \<Rightarrow> (json \<Rightarrow> json) \<Rightarrow> json option" where
  "moderation_object input output map_side =
     (let obj = (case input of None \<Rightarrow> [] | Some v \<Rightarrow> bt_insert ''input'' (map_side v) []);
          obj = (case output of None \<Rightarrow> obj | Some v \<Rightarrow> bt_insert ''output'' (map_side v) obj)
      in if obj = [] then None else Some (JObject obj))"

definition chat_moderation_value :: "json option \<Rightarrow> json option \<Rightarrow> json option" where
  "chat_moderation_value input output = moderation_object input output (\<lambda>side. side)"

definition responses_moderation_value :: "json option \<Rightarrow> json option \<Rightarrow> json option" where
  "responses_moderation_value input output = moderation_object input output to_responses_moderation_side"

definition moderation_event :: "json \<Rightarrow> ir_stream_event option" where
  "moderation_event v =
     (case or_else (jget v ''moderation'') (pointer v [''response'', ''moderation'']) of
        None \<Rightarrow> None
      | Some moderation \<Rightarrow>
          if \<not> is_object moderation then None
          else
            (let input = map_option to_chat_moderation_side (jget moderation ''input'');
                 output = map_option to_chat_moderation_side (jget moderation ''output'')
             in if input = None \<and> output = None then None else Some (Moderation input output)))"


section \<open>Pieces of a chunk\<close>

text \<open>\<open>.and_then(|d| d.get(key))\<close>, and an event for an optional value.\<close>

definition oget :: "json option \<Rightarrow> string \<Rightarrow> json option" where
  "oget v k = Option.bind v (\<lambda>d. jget d k)"

definition opt_event :: "('a \<Rightarrow> ir_stream_event) \<Rightarrow> 'a option \<Rightarrow> ir_stream_event list" where
  "opt_event f x = (case x of None \<Rightarrow> [] | Some y \<Rightarrow> [f y])"

definition present_logprob_array :: "json option \<Rightarrow> json option" where
  "present_logprob_array v =
     (case Option.bind v as_array of
        None \<Rightarrow> None | Some items \<Rightarrow> if items = [] then None else Some (JArray items))"

definition chat_logprobs_event :: "json \<Rightarrow> ir_stream_event option" where
  "chat_logprobs_event choice =
     (case jget choice ''logprobs'' of
        None \<Rightarrow> None
      | Some logprobs \<Rightarrow>
          (let content = present_logprob_array (jget logprobs ''content'');
               refusal = present_logprob_array (jget logprobs ''refusal'')
           in if content = None \<and> refusal = None then None
              else Some (Logprobs (unwrap_or content JNull) refusal)))"

fun push_logprob_items :: "json list \<Rightarrow> json \<Rightarrow> json list" where
  "push_logprob_items dst (JArray items) = dst @ items"
| "push_logprob_items dst JNull = dst"
| "push_logprob_items dst v = dst @ [v]"

definition merged_logprob_items :: "json \<Rightarrow> json option \<Rightarrow> json list" where
  "merged_logprob_items content refusal =
     (let out = push_logprob_items [] content
      in case refusal of None \<Rightarrow> out | Some r \<Rightarrow> push_logprob_items out r)"

definition insert_logprob_field :: "string \<Rightarrow> json option \<Rightarrow> jobject \<Rightarrow> jobject" where
  "insert_logprob_field key value m =
     (case value of
        None \<Rightarrow> m
      | Some v \<Rightarrow> if is_null v \<or> as_array v = Some [] then m else bt_insert key v m)"

definition chat_logprobs_value :: "json \<Rightarrow> json option \<Rightarrow> json option" where
  "chat_logprobs_value content refusal =
     (let m = insert_logprob_field ''refusal'' refusal (insert_logprob_field ''content'' (Some content) [])
      in if m = [] then None else Some (JObject m))"

definition chat_image_url_part :: "string \<Rightarrow> string \<Rightarrow> json" where
  "chat_image_url_part media_type d =
     json_obj [(''type'', JString ''image_url''),
               (''image_url'', json_obj [(''url'', JString (''data:'' @ media_type @ '';base64,'' @ d))])]"

definition image_event_from_part :: "json \<Rightarrow> ir_stream_event option" where
  "image_event_from_part part =
     (if Option.bind (jget part ''type'') as_str \<noteq> Some ''image_url'' then None
      else case Option.bind (pointer part [''image_url'', ''url'']) as_str of
             None \<Rightarrow> None
           | Some url \<Rightarrow>
               (case strip_prefix ''data:'' url of
                  None \<Rightarrow> None
                | Some rest \<Rightarrow>
                    (case split_once_str '';base64,'' rest of
                       None \<Rightarrow> None
                     | Some (media_type, d) \<Rightarrow>
                         if d = [] \<or> \<not> starts_with ''image/'' (to_ascii_lowercase media_type) then None
                         else Some (ImageDelta media_type d))))"

text \<open>The text of one part of an array content; parts of another type have none.\<close>

definition part_text :: "json \<Rightarrow> string option" where
  "part_text part =
     (let ty = Option.bind (jget part ''type'') as_str
      in if ty = None \<or> ty = Some ''text'' then Option.bind (jget part ''text'') as_str else None)"

definition text_events :: "string \<Rightarrow> ir_stream_event list" where
  "text_events text = (if text = [] then [] else [TextDelta text])"

fun content_loop :: "json list \<Rightarrow> string \<Rightarrow> ir_stream_event list" where
  "content_loop [] text = text_events text"
| "content_loop (part # parts) text =
     (case as_str part of
        Some piece \<Rightarrow> content_loop parts (text @ piece)
      | None \<Rightarrow>
          if Option.bind (jget part ''type'') as_str = Some ''image_url'' then
            text_events text @ [unwrap_or (image_event_from_part part) (protocol ''image_url'' part)]
              @ content_loop parts []
          else content_loop parts (text @ unwrap_or (part_text part) []))"

definition content_events :: "json \<Rightarrow> ir_stream_event list" where
  "content_events content =
     (case ofilter (\<lambda>s. s \<noteq> []) (as_str content) of
        Some text \<Rightarrow> [TextDelta text]
      | None \<Rightarrow> (case as_array content of None \<Rightarrow> [] | Some parts \<Rightarrow> content_loop parts []))"

definition flatten_content :: "json \<Rightarrow> string option" where
  "flatten_content content =
     (case ofilter (\<lambda>s. s \<noteq> []) (as_str content) of
        Some s \<Rightarrow> Some s
      | None \<Rightarrow>
          (case as_array content of
             None \<Rightarrow> None
           | Some parts \<Rightarrow>
               (let out = concat (map (\<lambda>part. case as_str part of Some s \<Rightarrow> s
                                                | None \<Rightarrow> unwrap_or (part_text part) []) parts)
                in if out = [] then None else Some out)))"

definition map_finish :: "string \<Rightarrow> string" where
  "map_finish reason =
     (if reason = ''eos'' then ''stop''
      else if reason = ''function_call'' then ''tool_calls''
      else if reason = ''content_filter'' \<or> reason = ''content-filter'' then ''content_filter''
      else reason)"

definition encode_finish :: "string \<Rightarrow> string" where
  "encode_finish reason =
     (if reason \<in> {''max_tokens'', ''model_context_window_exceeded''} then ''length''
      else if reason \<in> {''failed'', ''cancelled'', ''canceled'', ''end_turn'', ''stop_sequence'', ''pause_turn''}
      then ''stop'' else reason)"

definition finish_after_tool :: "string \<Rightarrow> bool \<Rightarrow> string" where
  "finish_after_tool reason saw_tool =
     (if saw_tool \<and> (reason = ''stop'' \<or> reason = ''end_turn'') then ''tool_calls'' else encode_finish reason)"


section \<open>Annotations\<close>

definition annotation_url :: "json \<Rightarrow> string option" where
  "annotation_url ann = nonempty_str_opt (or_else (pointer ann [''url_citation'', ''url'']) (jget ann ''url''))"

definition annotation_title :: "json \<Rightarrow> string option" where
  "annotation_title ann =
     nonempty_str_opt (or_else (pointer ann [''url_citation'', ''title'']) (jget ann ''title''))"

definition annotation_from_chat :: "json \<Rightarrow> json" where
  "annotation_from_chat ann =
     (if Option.bind (jget ann ''type'') as_str \<noteq> Some ''url_citation'' then ann
      else case jget ann ''url_citation'' of
             None \<Rightarrow> ann
           | Some cit \<Rightarrow>
               JObject (copy_keys [''start_index'', ''end_index'', ''title'', ''url''] cit
                          [(''type'', JString ''url_citation'')]))"

definition annotation_to_chat :: "json \<Rightarrow> json" where
  "annotation_to_chat ann =
     (if Option.bind (jget ann ''type'') as_str \<noteq> Some ''url_citation'' \<or> jget ann ''url_citation'' \<noteq> None then ann
      else json_obj [(''type'', JString ''url_citation''),
             (''url_citation'', json_obj [
                (''start_index'', unwrap_or (jget ann ''start_index'') (json_u32 0)),
                (''end_index'', unwrap_or (jget ann ''end_index'') (json_u32 0)),
                (''title'', unwrap_or (jget ann ''title'') (JString [])),
                (''url'', unwrap_or (jget ann ''url'') (JString []))])])"


section \<open>Tool calls\<close>

definition function_body :: "json \<Rightarrow> json" where
  "function_body call = unwrap_or (jget call ''function'') call"

definition tool_call_index :: "json \<Rightarrow> u32" where
  "tool_call_index call = unwrap_or (u32_field call ''index'') 0"

definition protocol_chunk :: "json \<Rightarrow> ir_stream_event list" where
  "protocol_chunk chunk = [Protocol ''chunk'' chunk]"

definition is_custom_tool_call :: "json \<Rightarrow> bool" where
  "is_custom_tool_call call =
     (case Option.bind (jget call ''type'') as_str of
        Some ty \<Rightarrow> ty = ''custom''
      | None \<Rightarrow> jget call ''custom'' \<noteq> None \<and> jget call ''function'' = None)"

definition expand_custom_tool_call ::
  "(json \<Rightarrow> string) \<Rightarrow> json \<Rightarrow> json \<Rightarrow> map_error + ir_stream_event list" where
  "expand_custom_tool_call to_str call chunk =
     (let custom = unwrap_or (jget call ''custom'') call;
          id' = unwrap_or (str_field call ''id'') [];
          name = unwrap_or (str_field custom ''name'') []
      in case json_text_field to_str custom ''input'' of
           Inl e \<Rightarrow> Inl e
         | Inr input \<Rightarrow>
             (let index = tool_call_index call;
                  out = (if id' \<noteq> [] \<or> name \<noteq> [] then [CustomToolCallStart id' name index] else [])
                        @ opt_event (\<lambda>d. CustomToolCallInputDelta d index) input
              in Inr (if out = [] then protocol_chunk chunk else out)))"

definition expand_tool_call ::
  "(json \<Rightarrow> string) \<Rightarrow> json \<Rightarrow> json \<Rightarrow> map_error + ir_stream_event list" where
  "expand_tool_call to_str call chunk =
     (if is_custom_tool_call call then expand_custom_tool_call to_str call chunk
      else if is_some_and (Option.bind (jget call ''type'') as_str) (\<lambda>ty. ty \<noteq> ''function'')
      then Inr (protocol_chunk chunk)
      else
        (let func = function_body call;
             id' = unwrap_or (str_field call ''id'') [];
             name = unwrap_or (str_field func ''name'') []
         in case json_text_field to_str func ''arguments'' of
              Inl e \<Rightarrow> Inl e
            | Inr args \<Rightarrow>
                (let index = tool_call_index call;
                     out = (if id' \<noteq> [] \<or> name \<noteq> [] then [ToolCallStart id' name None index] else [])
                           @ opt_event (\<lambda>d. ToolCallArgDelta d index) args
                 in Inr (if out = [] then protocol_chunk chunk else out))))"

text \<open>\<open>json_text_field(..).ok().flatten()\<close>.\<close>

definition text_field_ok :: "(json \<Rightarrow> string) \<Rightarrow> json \<Rightarrow> string \<Rightarrow> string option" where
  "text_field_ok to_str v key = (case json_text_field to_str v key of Inl _ \<Rightarrow> None | Inr x \<Rightarrow> x)"

definition call_bundles_arguments :: "(json \<Rightarrow> string) \<Rightarrow> json \<Rightarrow> bool" where
  "call_bundles_arguments to_str call =
     (if is_some_and (Option.bind (jget call ''type'') as_str) (\<lambda>ty. ty \<noteq> ''function'') then False
      else
        (let func = function_body call;
             started = (str_field call ''id'' \<noteq> None \<or> str_field func ''name'' \<noteq> None)
         in started \<and> text_field_ok to_str func ''arguments'' \<noteq> None))"

definition singular_media_limit :: map_error where
  "singular_media_limit = MapInvalid
     (''decode_stream_event cannot represent every event in this Chat chunk; ''
      @ ''use decode_stream_events'')"

definition singular_tool_limit :: map_error where
  "singular_tool_limit = MapInvalid
     (''decode_stream_event cannot represent multiple Chat tool calls or a call that ''
      @ ''includes arguments; use decode_stream_events'')"

definition decode_tool_call :: "(json \<Rightarrow> string) \<Rightarrow> json \<Rightarrow> json \<Rightarrow> ir_stream_event" where
  "decode_tool_call to_str call chunk =
     (if is_some_and (Option.bind (jget call ''type'') as_str) (\<lambda>ty. ty \<noteq> ''function'')
      then Protocol ''chunk'' chunk
      else
        (let func = function_body call;
             id' = str_field call ''id'';
             name = str_field func ''name'';
             args = text_field_ok to_str func ''arguments'';
             index = tool_call_index call
         in if id' \<noteq> None \<or> name \<noteq> None then ToolCallStart (unwrap_or id' []) (unwrap_or name []) None index
            else (case args of Some delta \<Rightarrow> ToolCallArgDelta delta index | None \<Rightarrow> Protocol ''chunk'' chunk)))"


section \<open>Ids\<close>

definition trimmed_protocol :: "string \<Rightarrow> string \<Rightarrow> json \<Rightarrow> ir_stream_event option" where
  "trimmed_protocol key ity v =
     map_option (\<lambda>s. Protocol ity (JString s)) (ofilter (\<lambda>s. trim s \<noteq> []) (str_field v key))"

definition completion_id_event :: "json \<Rightarrow> ir_stream_event option" where
  "completion_id_event v = trimmed_protocol ''id'' ''chat_completion_id'' v"

definition system_fingerprint_event :: "json \<Rightarrow> ir_stream_event option" where
  "system_fingerprint_event v = trimmed_protocol ''system_fingerprint'' ''system_fingerprint'' v"

fun is_number :: "json \<Rightarrow> bool" where
  "is_number (JNumber _) = True"
| "is_number _ = False"

definition audio_identity_events :: "json \<Rightarrow> ir_stream_event list" where
  "audio_identity_events audio =
     opt_event (\<lambda>i. Protocol ''chat_audio_id'' (JString i)) (ofilter (\<lambda>s. s \<noteq> []) (str_field audio ''id''))
     @ opt_event (Protocol ''chat_audio_expires'') (ofilter is_number (jget audio ''expires_at''))"

definition audio_events :: "json option \<Rightarrow> ir_stream_event list" where
  "audio_events delta =
     (case ofilter is_object (oget delta ''audio'') of
        None \<Rightarrow> []
      | Some audio \<Rightarrow>
          opt_event AudioDelta (ofilter (\<lambda>s. s \<noteq> []) (str_field audio ''data''))
          @ opt_event AudioTranscriptDelta (ofilter (\<lambda>s. s \<noteq> []) (str_field audio ''transcript''))
          @ audio_identity_events audio)"


section \<open>Decoding\<close>

definition first_choice :: "json \<Rightarrow> json option" where
  "first_choice v =
     (case Option.bind (jget v ''choices'') as_array of
        None \<Rightarrow> None | Some [] \<Rightarrow> None | Some (c # _) \<Rightarrow> Some c)"

text \<open>\<open>value.get("usage").filter(|v| v.is_object())\<close>.\<close>

definition usage_object :: "json \<Rightarrow> json option" where
  "usage_object v = ofilter is_object (jget v ''usage'')"

definition reasoning_of :: "json option \<Rightarrow> string option" where
  "reasoning_of delta =
     nonempty_str_opt (Option.bind delta (\<lambda>d. or_else (jget d ''reasoning_content'') (jget d ''reasoning'')))"

definition finish_of :: "json \<Rightarrow> ir_stream_event option" where
  "finish_of choice =
     map_option (\<lambda>reason. FinishReason (map_finish reason) None) (nonempty_str_opt (jget choice ''finish_reason''))"

fun check_calls :: "(json \<Rightarrow> string) \<Rightarrow> json list \<Rightarrow> map_error + unit" where
  "check_calls to_str [] = Inr ()"
| "check_calls to_str (call # calls) =
     (case check_index call ''index'' MAX_TOOL_CALL_INDEX ''tool call'' of
        Inl e \<Rightarrow> Inl e
      | Inr _ \<Rightarrow>
          (case json_text_field to_str (function_body call) ''arguments'' of
             Inl e \<Rightarrow> Inl e
           | Inr _ \<Rightarrow> check_calls to_str calls))"

text \<open>The tail of the singular decoder, once the tool calls are out of the way.\<close>

definition chat_decode_rest :: "json \<Rightarrow> json \<Rightarrow> map_error + ir_stream_event option" where
  "chat_decode_rest v choice =
     (let delta = jget choice ''delta''
      in case Option.bind (oget delta ''content'') flatten_content of
           Some text \<Rightarrow> Inr (Some (TextDelta text))
         | None \<Rightarrow>
      (case nonempty_str_opt (oget delta ''refusal'') of
           Some text \<Rightarrow> Inr (Some (RefusalDelta text))
         | None \<Rightarrow>
      (case chat_logprobs_event choice of
           Some ev \<Rightarrow> Inr (Some ev)
         | None \<Rightarrow>
      (case reasoning_of delta of
           Some text \<Rightarrow> Inr (Some (ReasoningDelta text))
         | None \<Rightarrow>
      (case nonempty_str_opt (oget delta ''reasoning_signature'') of
           Some signature \<Rightarrow> Inr (Some (ReasoningSignature signature))
         | None \<Rightarrow>
             (let media = (case oget delta ''content'' of None \<Rightarrow> [] | Some content \<Rightarrow> content_events content)
                          @ audio_events delta;
                  finish = finish_of choice;
                  usage = map_option from_chat (usage_object v)
              in if length media > 1 \<or> (media \<noteq> [] \<and> (finish \<noteq> None \<or> usage \<noteq> None))
                 then Inl singular_media_limit
                 else Inr (or_else (case media of [] \<Rightarrow> None | ev # _ \<Rightarrow> Some ev) (or_else finish usage))))))))"

definition chat_decode_choice ::
  "(json \<Rightarrow> string) \<Rightarrow> json \<Rightarrow> json \<Rightarrow> map_error + ir_stream_event option" where
  "chat_decode_choice to_str v choice =
     (let after_calls =
        (case ofilter is_object (pointer choice [''delta'', ''function_call'']) of
           Some fc \<Rightarrow>
             (case json_text_field to_str (function_body fc) ''arguments'' of
                Inl e \<Rightarrow> Inl e
              | Inr _ \<Rightarrow> if call_bundles_arguments to_str fc then Inl singular_tool_limit
                         else Inr (Some (decode_tool_call to_str fc v)))
         | None \<Rightarrow> chat_decode_rest v choice)
      in case Option.bind (pointer choice [''delta'', ''tool_calls'']) as_array of
           None \<Rightarrow> after_calls
         | Some calls \<Rightarrow>
             (case check_calls to_str calls of
                Inl e \<Rightarrow> Inl e
              | Inr _ \<Rightarrow>
                  (case calls of
                     [] \<Rightarrow> after_calls
                   | call # more_calls \<Rightarrow>
                       if more_calls \<noteq> [] \<or> call_bundles_arguments to_str call then Inl singular_tool_limit
                       else Inr (Some (decode_tool_call to_str call v)))))"

definition chat_decode :: "(json \<Rightarrow> string) \<Rightarrow> json \<Rightarrow> map_error + ir_stream_event option" where
  "chat_decode to_str v =
     (case reject_bare_chat_error v of
        Inl e \<Rightarrow> Inl e
      | Inr _ \<Rightarrow>
          (case first_choice v of
             None \<Rightarrow>
               Inr (or_else (map_option from_chat (usage_object v))
                      (or_else (moderation_event v) (system_fingerprint_event v)))
           | Some choice \<Rightarrow> chat_decode_choice to_str v choice))"

fun expand_calls :: "(json \<Rightarrow> string) \<Rightarrow> json list \<Rightarrow> json \<Rightarrow> map_error + ir_stream_event list" where
  "expand_calls to_str [] chunk = Inr []"
| "expand_calls to_str (call # calls) chunk =
     (case check_index call ''index'' MAX_TOOL_CALL_INDEX ''tool call'' of
        Inl e \<Rightarrow> Inl e
      | Inr _ \<Rightarrow>
          (case expand_tool_call to_str call chunk of
             Inl e \<Rightarrow> Inl e
           | Inr out \<Rightarrow>
               (case expand_calls to_str calls chunk of Inl e \<Rightarrow> Inl e | Inr out' \<Rightarrow> Inr (out @ out'))))"

definition chunk_metadata :: "json \<Rightarrow> ir_stream_event list" where
  "chunk_metadata v =
     (case Option.bind (jget v ''metadata'') as_object of
        None \<Rightarrow> []
      | Some obj \<Rightarrow>
          (let metadata = foldl (\<lambda>m (k, w). case as_str w of None \<Rightarrow> m | Some s \<Rightarrow> bt_insert k s m) [] obj
           in if metadata = [] then [] else [Metadata metadata]))"

definition chunk_header_events :: "json \<Rightarrow> ir_stream_event list" where
  "chunk_header_events v =
     opt_event id (completion_id_event v)
     @ opt_event ServiceTier (nonempty_str_opt (jget v ''service_tier''))
     @ opt_event id (system_fingerprint_event v)
     @ opt_event Created (Option.bind (jget v ''created'') as_i64)
     @ chunk_metadata v
     @ opt_event id (moderation_event v)"

definition chat_tool_events ::
  "(json \<Rightarrow> string) \<Rightarrow> json \<Rightarrow> json \<Rightarrow> map_error + ir_stream_event list" where
  "chat_tool_events to_str v choice =
     (case Option.bind (pointer choice [''delta'', ''tool_calls'']) as_array of
        Some calls \<Rightarrow> expand_calls to_str calls v
      | None \<Rightarrow>
          (case ofilter is_object (pointer choice [''delta'', ''function_call'']) of
             Some fc \<Rightarrow> expand_tool_call to_str fc v
           | None \<Rightarrow> Inr []))"

definition usage_events :: "json \<Rightarrow> ir_stream_event list" where
  "usage_events v =
     (case usage_object v of
        None \<Rightarrow> [] | Some usage \<Rightarrow> from_chat usage # chat_prediction_token_events usage)"

definition delta_events :: "json \<Rightarrow> ir_stream_event list" where
  "delta_events choice =
     (let delta = jget choice ''delta''
      in opt_event ReasoningDelta (reasoning_of delta)
         @ opt_event ReasoningSignature (nonempty_str_opt (oget delta ''reasoning_signature''))
         @ (case oget delta ''content'' of None \<Rightarrow> [] | Some content \<Rightarrow> content_events content)
         @ (case Option.bind (oget delta ''annotations'') as_array of
              None \<Rightarrow> []
            | Some anns \<Rightarrow> map (\<lambda>ann. AnnotationAdded (annotation_from_chat ann)) (filter is_object anns))
         @ opt_event RefusalDelta (nonempty_str_opt (oget delta ''refusal''))
         @ audio_events delta
         @ opt_event id (chat_logprobs_event choice)
         @ opt_event id (finish_of choice))"

definition chat_decode_all :: "(json \<Rightarrow> string) \<Rightarrow> json \<Rightarrow> map_error + ir_stream_event list" where
  "chat_decode_all to_str v =
     (case reject_bare_chat_error v of
        Inl e \<Rightarrow> Inl e
      | Inr _ \<Rightarrow>
          (case first_choice v of
             None \<Rightarrow>
               (if usage_object v \<noteq> None then Inr (opt_event id (completion_id_event v) @ usage_events v)
                else Inr (opt_event id (moderation_event v)))
           | Some choice \<Rightarrow>
               (case chat_tool_events to_str v choice of
                  Inl e \<Rightarrow> Inl e
                | Inr calls \<Rightarrow>
                    Inr (chunk_header_events v @ calls @ delta_events choice @ usage_events v))))"


section \<open>Encoding\<close>

definition chat_choice :: "(string \<times> json) list \<Rightarrow> json" where
  "chat_choice delta =
     json_obj [(''choices'', JArray [json_obj [(''index'', json_u32 0), (''delta'', json_obj delta)]])]"

definition chat_top :: "string \<Rightarrow> json \<Rightarrow> json" where
  "chat_top key v = json_obj [(key, v), (''choices'', JArray [])]"

text \<open>The value \<open>encode\<close> prints; \<open>None\<close> for the events it refuses.\<close>

fun chat_encode_value :: "ir_stream_event \<Rightarrow> json option" where
  "chat_encode_value (TextDelta text) = Some (chat_choice [(''content'', JString text)])"
| "chat_encode_value (RefusalDelta text) = Some (chat_choice [(''refusal'', JString text)])"
| "chat_encode_value (ReasoningDelta text) = Some (chat_choice [(''reasoning_content'', JString text)])"
| "chat_encode_value (ReasoningSignature sig) = Some (chat_choice [(''reasoning_signature'', JString sig)])"
| "chat_encode_value (ToolCallStart id' name _ index) =
     Some (chat_choice [(''tool_calls'', JArray [json_obj [(''index'', json_u32 index), (''id'', JString id'),
        (''type'', JString ''function''),
        (''function'', json_obj [(''name'', JString name), (''arguments'', JString [])])]])])"
| "chat_encode_value (ToolCallArgDelta delta index) =
     Some (chat_choice [(''tool_calls'', JArray [json_obj [(''index'', json_u32 index),
        (''function'', json_obj [(''arguments'', JString delta)])]])])"
| "chat_encode_value ToolCallEnd = Some (chat_choice [])"
| "chat_encode_value (AnnotationAdded ann) =
     Some (chat_choice [(''annotations'', JArray [annotation_to_chat ann])])"
| "chat_encode_value (AudioDelta d) = Some (chat_choice [(''audio'', json_obj [(''data'', JString d)])])"
| "chat_encode_value (ImageDelta media_type d) =
     Some (chat_choice [(''content'', JArray [chat_image_url_part media_type d])])"
| "chat_encode_value (AudioTranscriptDelta text) =
     Some (chat_choice [(''audio'', json_obj [(''transcript'', JString text)])])"
| "chat_encode_value (CustomToolCallStart id' name index) =
     Some (chat_choice [(''tool_calls'', JArray [json_obj [(''index'', json_u32 index), (''id'', JString id'),
        (''type'', JString ''custom''),
        (''custom'', json_obj [(''name'', JString name), (''input'', JString [])])]])])"
| "chat_encode_value (CustomToolCallInputDelta delta index) =
     Some (chat_choice [(''tool_calls'', JArray [json_obj [(''index'', json_u32 index),
        (''type'', JString ''custom''), (''custom'', json_obj [(''input'', JString delta)])]])])"
| "chat_encode_value (Logprobs content refusal) =
     (let choice = json_obj [(''index'', json_u32 0), (''delta'', json_obj [])];
          choice = (case chat_logprobs_value content refusal of
                      None \<Rightarrow> choice | Some logprobs \<Rightarrow> jinsert ''logprobs'' logprobs choice)
      in Some (json_obj [(''choices'', JArray [choice])]))"
| "chat_encode_value (Created unix) = Some (chat_top ''created'' (json_i64 unix))"
| "chat_encode_value (ServiceTier tier) = Some (chat_top ''service_tier'' (JString tier))"
| "chat_encode_value (Metadata metadata) =
     Some (chat_top ''metadata'' (JObject (map (\<lambda>(k, s). (k, JString s)) metadata)))"
| "chat_encode_value (Moderation input output) =
     Some (chat_top ''moderation'' (JObject
        (let obj = (case input of None \<Rightarrow> [] | Some v \<Rightarrow> bt_insert ''input'' v [])
         in case output of None \<Rightarrow> obj | Some v \<Rightarrow> bt_insert ''output'' v obj)))"
| "chat_encode_value (Usage p c cr cw rs au cau _) = Some (encode_chat p c cr cw rs au cau)"
| "chat_encode_value (FinishReason reason _) =
     Some (json_obj [(''choices'', JArray [json_obj [(''index'', json_u32 0), (''delta'', json_obj []),
        (''finish_reason'', JString (encode_finish reason))]])])"
| "chat_encode_value (Diagnostics _) = Some (json_obj [(''choices'', JArray [])])"
| "chat_encode_value (Container _) = Some (json_obj [(''choices'', JArray [])])"
| "chat_encode_value (ContextManagement _) = Some (json_obj [(''choices'', JArray [])])"
| "chat_encode_value (StopSequence _) = Some (json_obj [(''choices'', JArray [])])"
| "chat_encode_value (SearchEntryPoint _) = Some (json_obj [(''choices'', JArray [])])"
| "chat_encode_value Done = None"
| "chat_encode_value (Unknown _ _) = None"
| "chat_encode_value (Protocol ity p) =
     (if ity = ''chat_audio_id'' then Some (chat_choice [(''audio'', json_obj [(''id'', p)])])
      else if ity = ''chat_audio_expires'' then Some (chat_choice [(''audio'', json_obj [(''expires_at'', p)])])
      else if ity = ''system_fingerprint'' \<and> is_some_and (as_str p) (\<lambda>text. trim text \<noteq> [])
      then Some (chat_top ''system_fingerprint'' (JString (unwrap_or (as_str p) [])))
      else None)"

definition chat_encode :: "(json \<Rightarrow> string) \<Rightarrow> ir_stream_event \<Rightarrow> map_error + raw_sse" where
  "chat_encode to_str ev =
     (if ev = Done then Inr \<lparr>event = None, data = ''[DONE]''\<rparr>
      else case chat_encode_value ev of
             None \<Rightarrow> Inl (MapInvalid ''protocol/unknown events are encoded at the stream root'')
           | Some d \<Rightarrow> Inr \<lparr>event = None, data = to_str d\<rparr>)"

section \<open>Chunks that the encoder writes\<close>

lemma opt_event_simps [simp]: "opt_event f None = []" "opt_event f (Some x) = [f x]"
  by (simp_all add: opt_event_def)

lemma oget_simps [simp]: "oget None k = None" "oget (Some v) k = jget v k"
  by (simp_all add: oget_def)

lemma nonempty_str_opt_simps [simp]:
  "nonempty_str_opt None = None" "nonempty_str_opt (Some (JString s)) = (if s = [] then None else Some s)"
  by (simp_all add: nonempty_str_opt_def)

lemma reject_no_error: "jget v ''error'' = None \<Longrightarrow> reject_bare_chat_error v = Inr ()"
  by (simp add: reject_bare_chat_error_def json_string_error_def)

lemma decode_all_choice:
  "chat_decode_all to_str (json_obj [(''choices'', JArray [choice])]) =
     (case chat_tool_events to_str (json_obj [(''choices'', JArray [choice])]) choice of
        Inl e \<Rightarrow> Inl e | Inr calls \<Rightarrow> Inr (calls @ delta_events choice))"
proof -
  let ?v = "json_obj [(''choices'', JArray [choice])]"
  have "chunk_header_events ?v = []"
    by (simp add: chunk_header_events_def completion_id_event_def system_fingerprint_event_def
        trimmed_protocol_def chunk_metadata_def moderation_event_def)
  then show ?thesis
    by (simp add: chat_decode_all_def reject_no_error first_choice_def usage_events_def usage_object_def
        split: sum.splits)
qed

lemma decode_choice:
  "chat_decode to_str (json_obj [(''choices'', JArray [choice])]) =
     chat_decode_choice to_str (json_obj [(''choices'', JArray [choice])]) choice"
  by (simp add: chat_decode_def reject_no_error first_choice_def)

lemma usage_object_choices [simp]: "usage_object (json_obj [(''choices'', c)]) = None"
  by (simp add: usage_object_def)

lemma check_index_u32:
  "check_index (json_obj kvs) key cap kind = Inr () \<longleftrightarrow>
     (case map_of (rev kvs) key of None \<Rightarrow> True | Some raw \<Rightarrow> (case as_u64 raw of None \<Rightarrow> False | Some n \<Rightarrow> n \<le> u64_from cap))"
  by (simp add: check_index_Inr)

lemma u64_from_le [simp]: "u64_from a \<le> u64_from b \<longleftrightarrow> a \<le> b"
  by (simp add: u64_from_def word_le_nat_alt unsigned_ucast_eq take_bit_nat_eq_self unsigned_less
      less_trans [OF unsigned_less])

lemma check_index_ok [simp]:
  "map_of (rev kvs) key = Some (json_u32 i) \<Longrightarrow> i \<le> cap \<Longrightarrow> check_index (json_obj kvs) key cap kind = Inr ()"
  by (simp add: check_index_u32)

lemmas chat_piece_defs = delta_events_def reasoning_of_def finish_of_def audio_events_def
  audio_identity_events_def chat_logprobs_event_def content_events_def flatten_content_def
  chat_tool_events_def

lemmas chat_call_defs = expand_tool_call_def expand_custom_tool_call_def is_custom_tool_call_def
  function_body_def tool_call_index_def json_text_field_def decode_tool_call_def
  call_bundles_arguments_def text_field_ok_def


section \<open>Reading back what was written\<close>

definition full_citation :: "json \<Rightarrow> json \<Rightarrow> json \<Rightarrow> json \<Rightarrow> json" where
  "full_citation s e t u = JObject [(''end_index'', e), (''start_index'', s), (''title'', t),
     (''type'', JString ''url_citation''), (''url'', u)]"

text \<open>The events that have a slot of their own on a Chat chunk.\<close>

fun chat_keeps :: "ir_stream_event \<Rightarrow> bool" where
  "chat_keeps (TextDelta t) = (t \<noteq> [])"
| "chat_keeps (RefusalDelta t) = (t \<noteq> [])"
| "chat_keeps (ReasoningDelta t) = (t \<noteq> [])"
| "chat_keeps (ReasoningSignature t) = (t \<noteq> [])"
| "chat_keeps (ToolCallStart id' name sig i) = (sig = None \<and> (id' \<noteq> [] \<or> name \<noteq> []) \<and> i \<le> MAX_TOOL_CALL_INDEX)"
| "chat_keeps (ToolCallArgDelta d i) = (d \<noteq> [] \<and> i \<le> MAX_TOOL_CALL_INDEX)"
| "chat_keeps (CustomToolCallStart id' name i) = ((id' \<noteq> [] \<or> name \<noteq> []) \<and> i \<le> MAX_TOOL_CALL_INDEX)"
| "chat_keeps (CustomToolCallInputDelta d i) = (d \<noteq> [] \<and> i \<le> MAX_TOOL_CALL_INDEX)"
| "chat_keeps (AudioDelta d) = (d \<noteq> [])"
| "chat_keeps (AudioTranscriptDelta d) = (d \<noteq> [])"
| "chat_keeps (ImageDelta mt d) =
     (d \<noteq> [] \<and> CHR '';'' \<notin> set mt \<and> starts_with ''image/'' (to_ascii_lowercase mt))"
| "chat_keeps (AnnotationAdded ann) =
     (is_object ann \<and> (Option.bind (jget ann ''type'') as_str \<noteq> Some ''url_citation''
        \<or> ann = full_citation (unwrap_or (jget ann ''start_index'') JNull) (unwrap_or (jget ann ''end_index'') JNull)
                   (unwrap_or (jget ann ''title'') JNull) (unwrap_or (jget ann ''url'') JNull)))"
| "chat_keeps (Usage p c cr cw rs au cau geo) =
     (unat p + unat cr < 2 ^ 32 \<and> unat c + unat rs < 2 ^ 32 \<and> geo = None)"
| "chat_keeps (FinishReason r vendor) = (r \<noteq> [] \<and> vendor = None \<and> map_finish (encode_finish r) = r)"
| "chat_keeps _ = False"

text \<open>Those of them the singular decoder returns unchanged.\<close>

fun chat_singular :: "ir_stream_event \<Rightarrow> bool" where
  "chat_singular (CustomToolCallStart _ _ _) = False"
| "chat_singular (CustomToolCallInputDelta _ _) = False"
| "chat_singular (AnnotationAdded _) = False"
| "chat_singular _ = True"

definition chat_reads_back :: "(json \<Rightarrow> string) \<Rightarrow> ir_stream_event \<Rightarrow> bool" where
  "chat_reads_back to_str ev =
     (case chat_encode_value ev of
        None \<Rightarrow> False
      | Some v \<Rightarrow> chat_decode_all to_str v = Inr [ev]
                  \<and> (chat_singular ev \<longrightarrow> chat_decode to_str v = Inr (Some ev)))"

lemma reads_back_text:
  "t \<noteq> [] \<Longrightarrow> chat_reads_back to_str (TextDelta t)"
  "t \<noteq> [] \<Longrightarrow> chat_reads_back to_str (RefusalDelta t)"
  "t \<noteq> [] \<Longrightarrow> chat_reads_back to_str (ReasoningDelta t)"
  "t \<noteq> [] \<Longrightarrow> chat_reads_back to_str (ReasoningSignature t)"
  by (simp_all add: chat_reads_back_def chat_choice_def decode_all_choice decode_choice chat_piece_defs
      chat_decode_choice_def chat_decode_rest_def)

lemma reads_back_audio:
  "t \<noteq> [] \<Longrightarrow> chat_reads_back to_str (AudioDelta t)"
  "t \<noteq> [] \<Longrightarrow> chat_reads_back to_str (AudioTranscriptDelta t)"
  by (simp_all add: chat_reads_back_def chat_choice_def decode_all_choice decode_choice chat_piece_defs
      chat_decode_choice_def chat_decode_rest_def)

lemma reads_back_tool:
  "id' \<noteq> [] \<or> name \<noteq> [] \<Longrightarrow> i \<le> MAX_TOOL_CALL_INDEX \<Longrightarrow> chat_reads_back to_str (ToolCallStart id' name None i)"
  "d \<noteq> [] \<Longrightarrow> i \<le> MAX_TOOL_CALL_INDEX \<Longrightarrow> chat_reads_back to_str (ToolCallArgDelta d i)"
  "id' \<noteq> [] \<or> name \<noteq> [] \<Longrightarrow> i \<le> MAX_TOOL_CALL_INDEX \<Longrightarrow> chat_reads_back to_str (CustomToolCallStart id' name i)"
  "d \<noteq> [] \<Longrightarrow> i \<le> MAX_TOOL_CALL_INDEX \<Longrightarrow> chat_reads_back to_str (CustomToolCallInputDelta d i)"
  by (simp_all add: chat_reads_back_def chat_choice_def decode_all_choice decode_choice chat_piece_defs
      chat_decode_choice_def chat_call_defs)

lemma reads_back_image:
  assumes "d \<noteq> []" "CHR '';'' \<notin> set mt" "starts_with ''image/'' (to_ascii_lowercase mt)"
  shows "chat_reads_back to_str (ImageDelta mt d)"
proof -
  have sp: "split_once_str '';base64,'' (mt @ CHR '';'' # CHR ''b'' # CHR ''a'' # CHR ''s'' # CHR ''e'' # CHR ''6'' # CHR ''4'' # CHR '','' # d)
      = Some (mt, d)"
    using split_once_str_fresh [of "CHR '';''" mt "''base64,''" d] assms(2) by simp
  have "image_event_from_part (chat_image_url_part mt d) = Some (ImageDelta mt d)"
    using assms by (simp add: image_event_from_part_def chat_image_url_part_def sp)
  moreover have "as_str (chat_image_url_part mt d) = None" "part_text (chat_image_url_part mt d) = None"
    "Option.bind (jget (chat_image_url_part mt d) ''type'') as_str = Some ''image_url''"
    by (simp_all add: chat_image_url_part_def json_obj_def part_text_def)
  ultimately show ?thesis
    by (simp add: chat_reads_back_def chat_choice_def decode_all_choice decode_choice chat_piece_defs
        chat_decode_choice_def chat_decode_rest_def text_events_def)
qed

lemma annotation_round_trip:
  "chat_keeps (AnnotationAdded ann) \<Longrightarrow>
     is_object (annotation_to_chat ann) \<and> annotation_from_chat (annotation_to_chat ann) = ann"
proof -
  assume k: "chat_keeps (AnnotationAdded ann)"
  consider "is_object ann" "Option.bind (jget ann ''type'') as_str \<noteq> Some ''url_citation''"
    | s e t u where "ann = full_citation s e t u"
    using k by auto
  then show ?thesis
  proof cases
    case 1
    then show ?thesis by (simp add: annotation_to_chat_def annotation_from_chat_def)
  next
    case 2
    then show ?thesis
      by (simp add: full_citation_def annotation_to_chat_def annotation_from_chat_def copy_keys_def)
  qed
qed

lemma reads_back_annotation:
  "chat_keeps (AnnotationAdded ann) \<Longrightarrow> chat_reads_back to_str (AnnotationAdded ann)"
  using annotation_round_trip [of ann]
  by (simp add: chat_reads_back_def chat_choice_def decode_all_choice chat_piece_defs)

lemma reads_back_finish:
  "r \<noteq> [] \<Longrightarrow> map_finish (encode_finish r) = r \<Longrightarrow> chat_reads_back to_str (FinishReason r None)"
proof -
  assume r: "r \<noteq> []" "map_finish (encode_finish r) = r"
  then have "encode_finish r \<noteq> []" by (auto simp: encode_finish_def map_finish_def split: if_splits)
  with r show ?thesis
    by (simp add: chat_reads_back_def decode_all_choice decode_choice chat_piece_defs chat_decode_choice_def
        chat_decode_rest_def)
qed

lemma no_predictions: "chat_prediction_token_events (chat_usage_body p c cr cw rs au cau) = []"
  by (simp add: chat_prediction_token_events_def chat_usage_body_def nested_u32_def Let_def insert_if_def
      jget_jinsert_obj u32_field_def positive_def)

lemma reads_back_usage:
  assumes "unat p + unat cr < 2 ^ 32" "unat c + unat rs < 2 ^ 32"
  shows "chat_reads_back to_str (Usage p c cr cw rs au cau None)"
proof -
  have "is_object (chat_usage_body p c cr cw rs au cau)"
    by (simp add: chat_usage_body_def Let_def insert_if_def)
  then have "usage_object (encode_chat p c cr cw rs au cau) = Some (chat_usage_body p c cr cw rs au cau)"
    by (simp add: usage_object_def encode_chat_def)
  moreover have "first_choice (encode_chat p c cr cw rs au cau) = None" "jget (encode_chat p c cr cw rs au cau) ''error'' = None"
    "jget (encode_chat p c cr cw rs au cau) ''id'' = None"
    by (simp_all add: first_choice_def encode_chat_def)
  moreover have "from_chat (chat_usage_body p c cr cw rs au cau) = Usage p c cr cw rs au cau None"
    using assms by (rule from_chat_body)
  ultimately show ?thesis
    by (simp add: chat_reads_back_def chat_decode_all_def chat_decode_def reject_no_error usage_events_def
        no_predictions completion_id_event_def trimmed_protocol_def str_field_def)
qed

lemma chat_keeps_reads_back: "chat_keeps ev \<Longrightarrow> chat_reads_back to_str ev"
proof (cases ev)
  case (AnnotationAdded ann)
  then show "chat_keeps ev \<Longrightarrow> ?thesis" using reads_back_annotation by blast
qed (auto simp: reads_back_text reads_back_audio reads_back_tool reads_back_image reads_back_finish reads_back_usage)




section \<open>Tool-bearing frames\<close>

fun tool_index :: "ir_stream_event \<Rightarrow> u32 option" where
  "tool_index (ToolCallStart _ _ _ i) = Some i"
| "tool_index (ToolCallArgDelta _ i) = Some i"
| "tool_index (CustomToolCallStart _ _ i) = Some i"
| "tool_index (CustomToolCallInputDelta _ i) = Some i"
| "tool_index _ = None"

lemma expand_tool_call_nonempty: "expand_tool_call to_str call chunk = Inr out \<Longrightarrow> out \<noteq> []"
  by (auto simp: expand_tool_call_def expand_custom_tool_call_def Let_def protocol_chunk_def
      split: if_splits sum.splits)

lemma tool_call_index_capped:
  assumes "check_index call ''index'' cap kind = Inr u"
  shows "tool_call_index call \<le> cap"
proof (cases "jget call ''index''")
  case None
  then show ?thesis by (simp add: tool_call_index_def u32_field_def)
next
  case (Some raw)
  with assms obtain n where n: "as_u64 raw = Some n" "n \<le> u64_from cap"
    by (auto simp: check_index_Inr split: option.splits)
  then have "unat n \<le> unat cap"
    by (simp add: u64_from_def word_le_nat_alt unsigned_ucast_eq take_bit_nat_eq_self
        less_trans [OF unsigned_less])
  then show ?thesis
    using Some n unsigned_less [of cap]
    by (auto simp: tool_call_index_def u32_field_def u32_try_from_def word_le_nat_alt unsigned_ucast_eq
        take_bit_nat_eq_self split: if_splits)
qed

lemma expand_tool_call_index:
  "expand_tool_call to_str call chunk = Inr out \<Longrightarrow> ev \<in> set out \<Longrightarrow> tool_index ev = Some i \<Longrightarrow>
     i = tool_call_index call"
  by (auto simp: expand_tool_call_def expand_custom_tool_call_def Let_def protocol_chunk_def opt_event_def
      split: if_splits sum.splits option.splits)

lemma expand_calls_all:
  "expand_calls to_str calls chunk = Inr out \<Longrightarrow>
     \<exists>outs. out = concat outs \<and> list_all2 (\<lambda>c o'. expand_tool_call to_str c chunk = Inr o'
        \<and> check_index c ''index'' MAX_TOOL_CALL_INDEX ''tool call'' = Inr ()) calls outs"
proof (induction calls arbitrary: out)
  case (Cons c calls)
  then obtain o1 o2 where o: "check_index c ''index'' MAX_TOOL_CALL_INDEX ''tool call'' = Inr ()"
      "expand_tool_call to_str c chunk = Inr o1" "expand_calls to_str calls chunk = Inr o2" "out = o1 @ o2"
    by (auto split: sum.splits)
  with Cons.IH obtain outs where "o2 = concat outs" "list_all2 (\<lambda>c o'. expand_tool_call to_str c chunk = Inr o'
        \<and> check_index c ''index'' MAX_TOOL_CALL_INDEX ''tool call'' = Inr ()) calls outs"
    by blast
  with o show ?case by (intro exI [of _ "o1 # outs"]) simp
qed simp

text \<open>A Chat frame with tool calls is never dropped: the singular decoder never answers with nothing, and
  whatever the plural decoder returns contains, for every call of the frame in order, a non-empty run of
  events for that call, each with the call's index, which is within the cap.
\<close>

theorem chat_tool_frame_never_dropped:
  assumes "first_choice v = Some choice"
    "Option.bind (pointer choice [''delta'', ''tool_calls'']) as_array = Some calls" "calls \<noteq> []"
  shows "chat_decode to_str v \<noteq> Inr None
    \<and> (\<forall>evs. chat_decode_all to_str v = Inr evs \<longrightarrow>
        (\<exists>pre outs post. evs = pre @ concat outs @ post
           \<and> list_all2 (\<lambda>c o'. expand_tool_call to_str c v = Inr o' \<and> o' \<noteq> []
                \<and> (\<forall>ev \<in> set o'. \<forall>i. tool_index ev = Some i \<longrightarrow> i = tool_call_index c \<and> i \<le> MAX_TOOL_CALL_INDEX))
                calls outs))"
proof (intro conjI allI impI)
  obtain c cs where c: "calls = c # cs" using assms(3) by (cases calls) auto
  show "chat_decode to_str v \<noteq> Inr None"
    using assms c by (auto simp: chat_decode_def chat_decode_choice_def Let_def split: sum.splits if_splits)
next
  fix evs
  assume "chat_decode_all to_str v = Inr evs"
  then obtain out where out: "expand_calls to_str calls v = Inr out"
      and evs: "evs = chunk_header_events v @ out @ delta_events choice @ usage_events v"
    using assms by (auto simp: chat_decode_all_def chat_tool_events_def split: sum.splits)
  obtain outs where outs: "out = concat outs" "list_all2 (\<lambda>c o'. expand_tool_call to_str c v = Inr o'
        \<and> check_index c ''index'' MAX_TOOL_CALL_INDEX ''tool call'' = Inr ()) calls outs"
    using expand_calls_all [OF out] by blast
  have "list_all2 (\<lambda>c o'. expand_tool_call to_str c v = Inr o' \<and> o' \<noteq> []
      \<and> (\<forall>ev \<in> set o'. \<forall>i. tool_index ev = Some i \<longrightarrow> i = tool_call_index c \<and> i \<le> MAX_TOOL_CALL_INDEX)) calls outs"
    using outs(2)
    by (rule list_all2_mono) (use expand_tool_call_nonempty expand_tool_call_index tool_call_index_capped in blast)
  with evs outs(1) show "\<exists>pre outs post. evs = pre @ concat outs @ post
           \<and> list_all2 (\<lambda>c o'. expand_tool_call to_str c v = Inr o' \<and> o' \<noteq> []
                \<and> (\<forall>ev \<in> set o'. \<forall>i. tool_index ev = Some i \<longrightarrow> i = tool_call_index c \<and> i \<le> MAX_TOOL_CALL_INDEX))
                calls outs"
    by blast
qed

theorem chat_tool_frame_never_dropped_witness:
  "chat_decode (\<lambda>_. []) (chat_choice [(''tool_calls'', JArray [json_obj []])]) \<noteq> Inr None"
  using chat_tool_frame_never_dropped [of "chat_choice [(''tool_calls'', JArray [json_obj []])]"
      "json_obj [(''index'', json_u32 0), (''delta'', json_obj [(''tool_calls'', JArray [json_obj []])])]"
      "[json_obj []]" "\<lambda>_. []"]
  by (simp add: chat_choice_def first_choice_def)

text \<open>The cap does not reach the legacy \<open>function_call\<close> slot: a delta there takes its index as sent, for
  every 32-bit value.
\<close>

theorem chat_function_call_index_uncapped:
  "chat_decode_all to_str (chat_choice [(''function_call'',
      json_obj [(''index'', json_u32 i), (''name'', JString ''f'')])]) = Inr [ToolCallStart [] ''f'' None i]"
  by (simp add: chat_choice_def decode_all_choice chat_piece_defs chat_call_defs)

end
