(* ===== verification/Wm_Stream_Messages.thy ===== *)
theory Wm_Stream_Messages
  imports Wm_Stream_Chat
begin

text \<open>
  \<open>stream/messages.rs\<close>: Anthropic Messages frames (a named \<open>event:\<close> with a JSON \<open>data:\<close>) to stream events
  and back, with the custom tool input wrapper of \<open>map/mod.rs\<close> its encoder calls. \<open>parse\<close> and \<open>to_str\<close>
  are \<open>serde_json\<close>'s parser and printer.
\<close>

section \<open>Custom tool input (\<open>map/mod.rs\<close>)\<close>

definition wrapped_json :: "string \<Rightarrow> json \<Rightarrow> json" where
  "wrapped_json key v = JObject (bt_insert key v [])"

definition json_object_or_wrapped :: "(string \<Rightarrow> json option) \<Rightarrow> string \<Rightarrow> string \<Rightarrow> json \<times> bool" where
  "json_object_or_wrapped parse raw_text wrap_key =
     (case parse raw_text of
        Some v \<Rightarrow> if is_object v then (v, False) else (wrapped_json wrap_key v, True)
      | None \<Rightarrow> (wrapped_json wrap_key (JString raw_text), True))"

definition response_custom_tool_input :: "(string \<Rightarrow> json option) \<Rightarrow> string \<Rightarrow> json" where
  "response_custom_tool_input parse raw_text =
     (if raw_text = [] then JObject [] else fst (json_object_or_wrapped parse raw_text ''raw''))"


section \<open>Pieces\<close>

definition block_index :: "json \<Rightarrow> u32" where
  "block_index v = unwrap_or (Option.bind (Option.bind (jget v ''index'') as_u64) u32_try_from) 0"

definition image_delta_from_block :: "json \<Rightarrow> ir_stream_event option" where
  "image_delta_from_block block =
     (case jget block ''source'' of
        None \<Rightarrow> None
      | Some source \<Rightarrow>
          if Option.bind (jget source ''type'') as_str \<notin> {None, Some ''base64''} then None
          else (case nonempty_str_opt (jget source ''data'') of
                  None \<Rightarrow> None
                | Some d \<Rightarrow>
                    (case Option.bind (jget source ''media_type'') as_str of
                       None \<Rightarrow> None
                     | Some media_type \<Rightarrow>
                         if \<not> starts_with ''image/'' (to_ascii_lowercase media_type) then None
                         else Some (ImageDelta media_type d))))"

definition annotation_from_messages_citation :: "json \<Rightarrow> json option" where
  "annotation_from_messages_citation citation =
     (let ty = unwrap_or (Option.bind (jget citation ''type'') as_str) [];
          url = ofilter (\<lambda>s. s \<noteq> [])
            (if ty = ''web_search_result_location'' then Option.bind (jget citation ''url'') as_str
             else if ty = ''search_result_location'' then Option.bind (jget citation ''source'') as_str
             else None)
      in case url of
           None \<Rightarrow> None
         | Some url \<Rightarrow>
             (let out = json_obj [(''type'', JString ''url_citation''), (''url'', JString url)]
              in Some (case nonempty_str_opt (jget citation ''title'') of
                         None \<Rightarrow> out | Some title \<Rightarrow> jinsert ''title'' (JString title) out)))"

definition citation_from_annotation :: "json \<Rightarrow> json" where
  "citation_from_annotation annotation =
     (let url = unwrap_or (annotation_url annotation) [];
          citation = json_obj [(''type'', JString ''web_search_result_location''), (''url'', JString url),
                               (''encrypted_index'', JString []), (''cited_text'', JString [])]
      in case annotation_title annotation of
           None \<Rightarrow> citation | Some title \<Rightarrow> jinsert ''title'' (JString title) citation)"

definition stop_details_explanation :: "json \<Rightarrow> string option" where
  "stop_details_explanation v =
     nonempty_str_opt (pointer v [''delta'', ''stop_details'', ''explanation''])"

definition nonempty_text :: "string option \<Rightarrow> (string \<Rightarrow> ir_stream_event) \<Rightarrow> map_error + ir_stream_event option" where
  "nonempty_text text wrap = Inr (map_option wrap (ofilter (\<lambda>s. s \<noteq> []) text))"

definition map_stop_reason :: "string \<Rightarrow> string" where
  "map_stop_reason reason =
     (if reason = ''refusal'' then ''content_filter''
      else if reason = ''max_tokens'' then ''max_tokens''
      else if reason = ''tool_use'' then ''tool_calls''
      else if reason = ''end_turn'' then ''stop''
      else reason)"

definition encode_stop_reason :: "string \<Rightarrow> string" where
  "encode_stop_reason reason =
     (if reason = ''stop'' \<or> reason = ''end_turn'' then ''end_turn''
      else if reason = ''length'' \<or> reason = ''max_tokens'' then ''max_tokens''
      else if reason = ''tool_calls'' \<or> reason = ''tool_use'' then ''tool_use''
      else reason)"

definition service_tier_from_usage :: "json \<Rightarrow> string option" where
  "service_tier_from_usage usage =
     (case Option.bind (jget usage ''service_tier'') as_str of
        None \<Rightarrow> None
      | Some s \<Rightarrow>
          (let raw = trim s
           in if eq_ignore_ascii_case raw ''priority'' then Some ''priority''
              else if eq_ignore_ascii_case raw ''standard'' then Some ''default''
              else None))"

definition usage_service_tier_to_messages :: "string \<Rightarrow> string option" where
  "usage_service_tier_to_messages tier =
     (let t = to_ascii_lowercase (trim tier)
      in if t = ''priority'' then Some ''priority''
         else if t = ''default'' \<or> t = ''standard'' then Some ''standard''
         else None)"


section \<open>Decoding\<close>

definition messages_decode_block_start :: "string \<Rightarrow> json \<Rightarrow> map_error + ir_stream_event option" where
  "messages_decode_block_start name v =
     (case check_index v ''index'' MAX_CONTENT_BLOCK_INDEX ''content block'' of
        Inl e \<Rightarrow> Inl e
      | Inr _ \<Rightarrow>
          (let block = unwrap_or (jget v ''content_block'') v;
               ty = Option.bind (jget block ''type'') as_str
           in if ty = Some ''tool_use'' then
                Inr (Some (ToolCallStart (unwrap_or (str_field block ''id'') []) (unwrap_or (str_field block ''name'') [])
                             None (block_index v)))
              else if ty = Some ''image'' then
                Inr (Some (unwrap_or (image_delta_from_block block) (protocol name v)))
              else if ty = Some ''redacted_thinking'' \<and> ofilter (\<lambda>s. s \<noteq> []) (str_field block ''data'') = None then
                Inr None
              else Inr (Some (protocol name v))))"

definition messages_decode_block_delta :: "string \<Rightarrow> json \<Rightarrow> map_error + ir_stream_event option" where
  "messages_decode_block_delta name v =
     (case check_index v ''index'' MAX_CONTENT_BLOCK_INDEX ''content block'' of
        Inl e \<Rightarrow> Inl e
      | Inr _ \<Rightarrow>
          (let delta = unwrap_or (jget v ''delta'') v;
               ty = Option.bind (jget delta ''type'') as_str
           in if ty = Some ''text_delta'' then nonempty_text (str_field delta ''text'') TextDelta
              else if ty = Some ''thinking_delta'' then nonempty_text (str_field delta ''thinking'') ReasoningDelta
              else if ty = Some ''signature_delta'' then
                nonempty_text (str_field delta ''signature'') ReasoningSignature
              else if ty = Some ''input_json_delta'' then
                Inr (Some (ToolCallArgDelta (unwrap_or (str_field delta ''partial_json'') []) (block_index v)))
              else if ty = Some ''citations_delta'' then
                (let citation = unwrap_or (jget delta ''citation'') delta
                 in case annotation_from_messages_citation citation of
                      Some annotation \<Rightarrow> Inr (Some (AnnotationAdded annotation))
                    | None \<Rightarrow>
                        if Option.bind (jget citation ''type'') as_str \<noteq> None then Inr (Some (protocol name v))
                        else Inr None)
              else Inr (Some (protocol name v))))"

definition messages_decode_message_delta :: "string \<Rightarrow> json \<Rightarrow> map_error + ir_stream_event option" where
  "messages_decode_message_delta name v =
     (case Option.bind (pointer v [''delta'', ''stop_reason'']) as_str of
        Some reason \<Rightarrow> Inr (Some (FinishReason (map_stop_reason reason) None))
      | None \<Rightarrow>
          (case stop_details_explanation v of
             Some text \<Rightarrow> Inr (Some (RefusalDelta text))
           | None \<Rightarrow>
               (case ofilter is_object (jget v ''usage'') of
                  Some usage \<Rightarrow> Inr (Some (from_anthropic usage))
                | None \<Rightarrow> Inr (Some (protocol name v)))))"

definition messages_decode :: "string \<Rightarrow> json \<Rightarrow> map_error + ir_stream_event option" where
  "messages_decode name v =
     (if name = ''ping'' then Inr None
      else if name = ''error'' then
        (let err = unwrap_or (jget v ''error'') v;
             ty = unwrap_or (str_field err ''type'') ''error'';
             msg = unwrap_or (str_field err ''message'') []
         in Inl (MapInvalid (ty @ '': '' @ msg)))
      else if name = ''message_stop'' then Inr (Some Done)
      else if name = ''message_start'' then
        (case pointer v [''message'', ''usage''] of
           Some usage \<Rightarrow> Inr (Some (from_anthropic usage))
         | None \<Rightarrow> Inr (Some (protocol name v)))
      else if name = ''content_block_start'' then messages_decode_block_start name v
      else if name = ''content_block_delta'' then messages_decode_block_delta name v
      else if name = ''content_block_stop'' then
        (case check_index v ''index'' MAX_CONTENT_BLOCK_INDEX ''content block'' of
           Inl e \<Rightarrow> Inl e | Inr _ \<Rightarrow> Inr (Some (protocol name v)))
      else if name = ''message_delta'' then messages_decode_message_delta name v
      else Inr (Some (protocol name v)))"


section \<open>Encoding\<close>

definition block_delta :: "u32 \<Rightarrow> (string \<times> json) list \<Rightarrow> string \<times> json" where
  "block_delta index delta =
     (''content_block_delta'', json_obj [(''type'', JString ''content_block_delta''), (''index'', json_u32 index),
        (''delta'', json_obj delta)])"

definition block_start :: "u32 \<Rightarrow> json \<Rightarrow> string \<times> json" where
  "block_start index block =
     (''content_block_start'', json_obj [(''type'', JString ''content_block_start''), (''index'', json_u32 index),
        (''content_block'', block)])"

definition message_delta :: "(string \<times> json) list \<Rightarrow> string \<times> json" where
  "message_delta fs = (''message_delta'', json_obj ((''type'', JString ''message_delta'') # fs))"

definition tool_use_block :: "string \<Rightarrow> string \<Rightarrow> json" where
  "tool_use_block id' name = json_obj [(''type'', JString ''tool_use''), (''id'', JString id'),
     (''name'', JString name), (''input'', json_obj [])]"

definition empty_text_delta :: "string \<times> json" where
  "empty_text_delta = block_delta 0 [(''type'', JString ''text_delta''), (''text'', JString [])]"

fun messages_encode_value ::
  "(string \<Rightarrow> json option) \<Rightarrow> (json \<Rightarrow> string) \<Rightarrow> ir_stream_event \<Rightarrow> (string \<times> json) option" where
  "messages_encode_value parse to_str (TextDelta text) =
     Some (block_delta 0 [(''type'', JString ''text_delta''), (''text'', JString text)])"
| "messages_encode_value parse to_str (AudioTranscriptDelta text) =
     Some (block_delta 0 [(''type'', JString ''text_delta''), (''text'', JString text)])"
| "messages_encode_value parse to_str (RefusalDelta text) =
     Some (message_delta [(''delta'', json_obj [(''stop_details'',
        json_obj [(''type'', JString ''refusal''), (''explanation'', JString text)])])])"
| "messages_encode_value parse to_str (ReasoningDelta text) =
     Some (block_delta 0 [(''type'', JString ''thinking_delta''), (''thinking'', JString text)])"
| "messages_encode_value parse to_str (ReasoningSignature sig) =
     Some (block_delta 0 [(''type'', JString ''signature_delta''), (''signature'', JString sig)])"
| "messages_encode_value parse to_str (ToolCallStart id' name _ index) =
     Some (block_start index (tool_use_block id' name))"
| "messages_encode_value parse to_str (CustomToolCallStart id' name index) =
     Some (block_start index (tool_use_block id' name))"
| "messages_encode_value parse to_str (ToolCallArgDelta delta index) =
     Some (block_delta index [(''type'', JString ''input_json_delta''), (''partial_json'', JString delta)])"
| "messages_encode_value parse to_str (CustomToolCallInputDelta delta index) =
     (let partial = to_str (response_custom_tool_input parse delta)
      in Some (block_delta index [(''type'', JString ''input_json_delta''), (''partial_json'', JString partial)]))"
| "messages_encode_value parse to_str (AnnotationAdded ann) =
     Some (block_delta 0 [(''type'', JString ''citations_delta''), (''citation'', citation_from_annotation ann)])"
| "messages_encode_value parse to_str (ServiceTier tier) =
     Some (case usage_service_tier_to_messages tier of
        Some mapped \<Rightarrow>
          (''message_start'', json_obj [(''type'', JString ''message_start''),
             (''message'', json_obj [(''usage'', json_obj [(''input_tokens'', json_u32 0),
                (''output_tokens'', json_u32 0), (''service_tier'', JString mapped)])])])
      | None \<Rightarrow> empty_text_delta)"
| "messages_encode_value parse to_str (ImageDelta media_type d) =
     Some (block_start 0 (json_obj [(''type'', JString ''image''),
        (''source'', json_obj [(''type'', JString ''base64''), (''media_type'', JString media_type),
           (''data'', JString d)])]))"
| "messages_encode_value parse to_str (AudioDelta _) = Some empty_text_delta"
| "messages_encode_value parse to_str (Logprobs _ _) = Some empty_text_delta"
| "messages_encode_value parse to_str (Created _) = Some empty_text_delta"
| "messages_encode_value parse to_str (Metadata _) = Some empty_text_delta"
| "messages_encode_value parse to_str (Moderation _ _) = Some empty_text_delta"
| "messages_encode_value parse to_str ToolCallEnd =
     Some (''content_block_stop'', json_obj [(''type'', JString ''content_block_stop''), (''index'', json_u32 0)])"
| "messages_encode_value parse to_str (Usage p c cr cw rs _ _ geo) =
     Some (''message_delta'', encode_anthropic p c cr cw rs geo)"
| "messages_encode_value parse to_str (FinishReason reason _) =
     Some (message_delta [(''delta'', json_obj [(''stop_reason'', JString (encode_stop_reason reason)),
        (''stop_sequence'', JNull)])])"
| "messages_encode_value parse to_str (Diagnostics reason) =
     Some (message_delta [(''delta'', json_obj []),
        (''diagnostics'', json_obj [(''cache_miss_reason'', reason)])])"
| "messages_encode_value parse to_str (Container v) =
     Some (message_delta [(''delta'', json_obj []), (''container'', v)])"
| "messages_encode_value parse to_str (StopSequence _) = Some (message_delta [(''delta'', json_obj [])])"
| "messages_encode_value parse to_str (SearchEntryPoint _) = Some (message_delta [(''delta'', json_obj [])])"
| "messages_encode_value parse to_str (ContextManagement v) =
     Some (message_delta [(''delta'', json_obj []), (''context_management'', v)])"
| "messages_encode_value parse to_str Done =
     Some (''message_stop'', json_obj [(''type'', JString ''message_stop'')])"
| "messages_encode_value parse to_str (Protocol _ _) = None"
| "messages_encode_value parse to_str (Unknown _ _) = None"

definition messages_encode ::
  "(string \<Rightarrow> json option) \<Rightarrow> (json \<Rightarrow> string) \<Rightarrow> ir_stream_event \<Rightarrow> map_error + raw_sse" where
  "messages_encode parse to_str ev =
     (case messages_encode_value parse to_str ev of
        None \<Rightarrow> Inl (MapInvalid ''protocol/unknown events are encoded at the stream root'')
      | Some (name, d) \<Rightarrow> Inr \<lparr>event = Some name, data = to_str d\<rparr>)"


section \<open>Reading back what was written\<close>

definition plain_citation :: "string \<Rightarrow> string \<Rightarrow> json" where
  "plain_citation title url = JObject [(''title'', JString title), (''type'', JString ''url_citation''), (''url'', JString url)]"

fun messages_keeps :: "ir_stream_event \<Rightarrow> bool" where
  "messages_keeps (TextDelta t) = (t \<noteq> [])"
| "messages_keeps (RefusalDelta t) = (t \<noteq> [])"
| "messages_keeps (ReasoningDelta t) = (t \<noteq> [])"
| "messages_keeps (ReasoningSignature t) = (t \<noteq> [])"
| "messages_keeps (ToolCallStart _ _ sig i) = (sig = None \<and> i \<le> MAX_CONTENT_BLOCK_INDEX)"
| "messages_keeps (ToolCallArgDelta _ i) = (i \<le> MAX_CONTENT_BLOCK_INDEX)"
| "messages_keeps (ImageDelta mt d) = (d \<noteq> [] \<and> starts_with ''image/'' (to_ascii_lowercase mt))"
| "messages_keeps (AnnotationAdded ann) =
     (case (annotation_title ann, annotation_url ann) of
        (Some title, Some url) \<Rightarrow> ann = plain_citation title url | _ \<Rightarrow> False)"
| "messages_keeps (Usage p c cr cw rs au cau geo) = keeps_messages (Usage p c cr cw rs au cau geo)"
| "messages_keeps (FinishReason r vendor) = (vendor = None \<and> map_stop_reason (encode_stop_reason r) = r)"
| "messages_keeps Done = True"
| "messages_keeps _ = False"

lemma index_cap_zero [simp]: "(0 :: u32) \<le> MAX_CONTENT_BLOCK_INDEX"
  by simp

lemma block_index_obj [simp]:
  "map_of (rev kvs) ''index'' = Some (json_u32 i) \<Longrightarrow> block_index (json_obj kvs) = i"
  by (simp add: block_index_def)

lemma annotation_messages_round_trip:
  assumes "messages_keeps (AnnotationAdded ann)"
  shows "annotation_from_messages_citation (citation_from_annotation ann) = Some ann"
proof -
  obtain title url where t: "annotation_title ann = Some title" "annotation_url ann = Some url"
      "ann = plain_citation title url"
    using assms by (auto split: option.splits)
  then have "title \<noteq> []" "url \<noteq> []"
    by (auto simp: annotation_title_def annotation_url_def nonempty_str_opt_def ofilter_def
        split: option.splits if_splits)
  with t show ?thesis
    by (simp add: citation_from_annotation_def annotation_from_messages_citation_def jget_jinsert_obj
        plain_citation_def json_obj_def)
qed

lemma messages_keeps_reads_back:
  assumes "messages_keeps ev"
  shows "case messages_encode_value parse to_str ev of
           None \<Rightarrow> False | Some (name, v) \<Rightarrow> messages_decode name v = Inr (Some ev)"
proof (cases ev)
  case (AnnotationAdded ann)
  then show ?thesis
    using assms annotation_messages_round_trip [of ann]
    by (simp add: block_delta_def messages_decode_def messages_decode_block_delta_def)
next
  case (Usage p c cr cw rs au cau geo)
  then have k: "unat c + unat rs < 2 ^ 32" "case geo of None \<Rightarrow> True | Some g \<Rightarrow> trim g = g \<and> g \<noteq> []"
      "au = 0" "cau = 0"
    using assms by (simp_all add: keeps_defs)
  have "is_object (anthropic_usage_body p c cr cw rs geo)"
    by (simp add: anthropic_usage_body_def Let_def insert_if_def split: option.splits)
  then show ?thesis
    using Usage k from_anthropic_body [OF k(1,2), of p cr cw]
    by (simp add: encode_anthropic_def messages_decode_def messages_decode_message_delta_def
        stop_details_explanation_def)
qed (use assms in \<open>auto simp: block_delta_def block_start_def message_delta_def messages_decode_def
    messages_decode_block_delta_def messages_decode_block_start_def messages_decode_message_delta_def
    nonempty_text_def stop_details_explanation_def tool_use_block_def image_delta_from_block_def\<close>)

text \<open>C34. A stream event with a slot on the Messages wire survives the trip through a frame: decoding the
  frame's name and value returns exactly that event.
\<close>

theorem messages_encode_decode:
  assumes "messages_keeps ev"
  shows "case messages_encode_value parse to_str ev of
           None \<Rightarrow> False | Some (name, v) \<Rightarrow> messages_decode name v = Inr (Some ev)"
  using assms by (rule messages_keeps_reads_back)

theorem messages_encode_decode_witness:
  "messages_decode ''content_block_start'' (snd (block_start 2 (tool_use_block ''t1'' ''search'')))
     = Inr (Some (ToolCallStart ''t1'' ''search'' None 2))"
  using messages_encode_decode [of "ToolCallStart ''t1'' ''search'' None 2" "\<lambda>_. None" "\<lambda>_. []"]
  by (simp add: MAX_CONTENT_BLOCK_INDEX_def block_start_def)


section \<open>Index cap and errors\<close>

abbreviation block_capped :: "json \<Rightarrow> u32 \<Rightarrow> bool" where
  "block_capped v i \<equiv>
     check_index v ''index'' MAX_CONTENT_BLOCK_INDEX ''content block'' = Inr () \<and> i = block_index v"

lemma block_start_capped:
  "messages_decode_block_start name v = Inr (Some ev) \<Longrightarrow> tool_index ev = Some i \<Longrightarrow> block_capped v i"
  by (auto simp: messages_decode_block_start_def protocol_def Let_def image_delta_from_block_def unwrap_or_def
      split: if_splits option.splits sum.splits)

lemma block_delta_capped:
  "messages_decode_block_delta name v = Inr (Some ev) \<Longrightarrow> tool_index ev = Some i \<Longrightarrow> block_capped v i"
  by (auto simp: messages_decode_block_delta_def protocol_def Let_def nonempty_text_def
      split: if_splits option.splits sum.splits)

lemma message_delta_no_tool:
  "messages_decode_message_delta name v = Inr (Some ev) \<Longrightarrow> tool_index ev = None"
  by (auto simp: messages_decode_message_delta_def protocol_def from_anthropic_def Let_def split: option.splits)

lemma messages_decode_capped:
  assumes "messages_decode name v = Inr (Some ev)" "tool_index ev = Some i"
  shows "block_capped v i"
proof (cases "name = ''content_block_start'' \<or> name = ''content_block_delta'' \<or> name = ''message_delta''")
  case True
  then show ?thesis
    using assms block_start_capped block_delta_capped message_delta_no_tool
    by (elim disjE) (fastforce simp: messages_decode_def)+
next
  case False
  then show ?thesis
    using assms by (simp add: messages_decode_def protocol_def from_anthropic_def Let_def
        split: if_splits option.splits sum.splits) auto
qed

text \<open>Every tool event the Messages decoder produces has an index within the cap, an \<open>error\<close> frame never
  decodes (its type and message become the failure), and \<open>ping\<close> is the only frame name that always
  decodes to nothing.
\<close>

theorem messages_decode_safe:
  "(messages_decode name v = Inr (Some ev) \<and> tool_index ev = Some i \<longrightarrow> i \<le> MAX_CONTENT_BLOCK_INDEX)
   \<and> (\<exists>d. messages_decode ''error'' v = Inl (MapInvalid d))
   \<and> ((\<forall>w. messages_decode name w = Inr None) \<longleftrightarrow> name = ''ping'')"
proof (intro conjI impI)
  show "i \<le> MAX_CONTENT_BLOCK_INDEX" if "messages_decode name v = Inr (Some ev) \<and> tool_index ev = Some i"
  proof -
    have "block_capped v i"
      using that messages_decode_capped by blast
    then show ?thesis
      using tool_call_index_capped [of v MAX_CONTENT_BLOCK_INDEX "''content block''" "()"]
      by (simp add: tool_call_index_def block_index_def u32_field_def)
  qed
  show "\<exists>d. messages_decode ''error'' v = Inl (MapInvalid d)"
    by (simp add: messages_decode_def Let_def)
  have other: "messages_decode name JNull \<noteq> Inr None" if "name \<noteq> ''ping''"
    using that
    by (auto simp: messages_decode_def messages_decode_block_start_def messages_decode_block_delta_def
        messages_decode_message_delta_def check_index_def stop_details_explanation_def Let_def)
  have ping: "messages_decode ''ping'' w = Inr None" for w
    by (simp add: messages_decode_def)
  show "(\<forall>w. messages_decode name w = Inr None) \<longleftrightarrow> name = ''ping''"
    using other ping by blast
qed

theorem messages_decode_safe_witness:
  "(128 :: u32) \<le> MAX_CONTENT_BLOCK_INDEX"
  using messages_decode_safe [of "''content_block_start''" "snd (block_start 128 (tool_use_block [] []))"
      "ToolCallStart [] [] None 128" 128]
  by (simp add: messages_decode_def messages_decode_block_start_def block_start_def tool_use_block_def
      MAX_CONTENT_BLOCK_INDEX_def)

end
