(* ===== verification/Wm_Stream_Gemini.thy ===== *)
theory Wm_Stream_Gemini
  imports Wm_Stream_Messages
begin

text \<open>
  \<open>stream/gemini.rs\<close> and the Gemini half of \<open>stream/mod.rs\<close>: \<open>generateContent\<close> chunks to stream events and
  back. \<open>gemini_decode\<close> is first-part-wins, \<open>fan_out_gemini_parts\<close> walks every part and threads the
  counter of function calls through a stream (a \<open>usize\<close>, kept as \<open>nat\<close>: it counts parts of a stream held
  in memory). The service-tier helpers of \<open>map/gemini.rs\<close> that these call are here too.
\<close>

section \<open>Floating-point scores\<close>

text \<open>
  \<open>Value::as_f64\<close>: a float is its own bits; an integer is converted with round-half-to-even. \<open>f64_of_nat\<close>
  gives the bits for a magnitude: with \<open>e\<close> the position of the highest bit, the significand is scaled to
  53 bits and the carry of a rounding up to \<open>2 ^ 53\<close> moves into the exponent field by itself.
\<close>

fun top_bit :: "nat \<Rightarrow> nat" where
  "top_bit n = (if n < 2 then 0 else Suc (top_bit (n div 2)))"

declare top_bit.simps [simp del]

definition f64_of_nat :: "nat \<Rightarrow> nat" where
  "f64_of_nat n =
     (if n = 0 then 0
      else
        (let e = top_bit n
         in if e \<le> 52 then (e + 1022) * 2 ^ 52 + n * 2 ^ (52 - e)
            else
              (let s = e - 52;
                   q = n div 2 ^ s;
                   r = n mod 2 ^ s;
                   q' = (if 2 * r > 2 ^ s \<or> (2 * r = 2 ^ s \<and> odd q) then q + 1 else q)
               in (e + 1022) * 2 ^ 52 + q')))"

fun as_f64 :: "json \<Rightarrow> 64 word option" where
  "as_f64 (JNumber (Float w)) = Some w"
| "as_f64 (JNumber (PosInt n)) = Some (of_nat (f64_of_nat (unat n)))"
| "as_f64 (JNumber (NegInt i)) = Some (of_nat (2 ^ 63 + f64_of_nat (nat (- i))))"
| "as_f64 _ = None"

definition f64_is_finite :: "64 word \<Rightarrow> bool" where
  "f64_is_finite w = ((unat w div 2 ^ 52) mod 2048 \<noteq> 2047)"


section \<open>Service tiers (\<open>map/gemini.rs\<close>)\<close>

definition gemini_decode_service_tier :: "json \<Rightarrow> string option" where
  "gemini_decode_service_tier v =
     ofilter (\<lambda>s. \<not> eq_ignore_ascii_case s ''unspecified'')
       (ofilter (\<lambda>s. s \<noteq> [])
         (map_option trim (or_else (str_field v ''serviceTier'') (str_field v ''service_tier''))))"

definition gemini_service_tier :: "string \<Rightarrow> (string \<times> string option) option" where
  "gemini_service_tier tier =
     (let trimmed = trim tier
      in if trimmed = [] then None
         else
           (let lower = to_ascii_lowercase trimmed
            in if lower \<in> {''flex'', ''priority'', ''standard''} then Some (lower, None)
               else if lower = ''default'' then Some (''standard'', Some ''default maps to standard'')
               else if lower = ''auto'' then Some (''standard'', Some ''auto maps to standard'')
               else None))"


section \<open>Citations and grounding\<close>

definition set_opt :: "string \<Rightarrow> json option \<Rightarrow> json \<Rightarrow> json" where
  "set_opt k v j = (case v of None \<Rightarrow> j | Some w \<Rightarrow> jinsert k w j)"

lemma is_object_set_opt: "is_object (set_opt k v j) = is_object j"
  by (simp add: set_opt_def split: option.split)

lemma jget_set_opt_same:
  "is_object j \<Longrightarrow> jget (set_opt k v j) k' = (if k' = k \<and> v \<noteq> None then v else jget j k')"
  by (auto simp: set_opt_def jget_jinsert_obj split: option.split)

lemma jget_set_opt: "is_object j \<Longrightarrow> k \<noteq> k' \<Longrightarrow> jget (set_opt k v j) k' = jget j k'"
  by (simp add: set_opt_def jget_jinsert_obj split: option.split)

lemma str_field_set_opt: "is_object j \<Longrightarrow> k \<noteq> k' \<Longrightarrow> str_field (set_opt k v j) k' = str_field j k'"
  by (simp add: str_field_def jget_set_opt)

definition apply_citation_span :: "json option \<Rightarrow> json option \<Rightarrow> json \<Rightarrow> json" where
  "apply_citation_span start fin out =
     set_opt ''end_index'' (ofilter is_number fin) (set_opt ''start_index'' (ofilter is_number start) out)"

definition url_citation :: "string \<Rightarrow> string option \<Rightarrow> json" where
  "url_citation url title =
     set_opt ''title'' (map_option JString title)
       (json_obj [(''type'', JString ''url_citation''), (''url'', JString url)])"

definition annotation_from_citation :: "json \<Rightarrow> json option" where
  "annotation_from_citation cite =
     (case nonempty_str_opt (or_else (jget cite ''uri'') (or_else (jget cite ''url'') (jget cite ''retrievedUrl''))) of
        None \<Rightarrow> None
      | Some url \<Rightarrow>
          Some (apply_citation_span (jget cite ''startIndex'') (jget cite ''endIndex'')
                  (url_citation url (nonempty_str_opt (jget cite ''title'')))))"

definition CITATION_LIST_POINTERS :: "string list list" where
  "CITATION_LIST_POINTERS =
     [[''citationMetadata'', ''citations''], [''citationMetadata'', ''citationSources''],
      [''urlContextMetadata'', ''urlMetadata'']]"

definition citation_annotations :: "json \<Rightarrow> json list" where
  "citation_annotations candidate =
     concat (map (\<lambda>ptr.
        (let from_url_context = (ptr = [''urlContextMetadata'', ''urlMetadata'']);
             from_citation = (hd ptr = ''citationMetadata'')
         in case Option.bind (pointer candidate ptr) as_array of
              None \<Rightarrow> []
            | Some cites \<Rightarrow>
                List.map_filter (\<lambda>cite.
                   map_option (\<lambda>a.
                       insert_if from_citation ''citation_metadata'' (JBool True)
                         (insert_if from_url_context ''url_context'' (JBool True) a))
                     (annotation_from_citation cite)) cites))
       CITATION_LIST_POINTERS)"

definition first_citation_annotation :: "json \<Rightarrow> json option" where
  "first_citation_annotation candidate =
     (case citation_annotations candidate of [] \<Rightarrow> None | a # _ \<Rightarrow> Some a)"

definition support_matches :: "nat \<Rightarrow> json \<Rightarrow> bool" where
  "support_matches chunk_index support =
     is_some_and (Option.bind (jget support ''groundingChunkIndices'') as_array)
       (list_ex (\<lambda>v. is_some_and (as_u64 v) (\<lambda>n. unat n = chunk_index)))"

definition apply_grounding_support :: "nat \<Rightarrow> json list \<Rightarrow> json \<Rightarrow> json" where
  "apply_grounding_support chunk_index supports annotation =
     (case find (support_matches chunk_index) supports of
        None \<Rightarrow> annotation
      | Some support \<Rightarrow>
          set_opt ''segment_text'' (map_option JString (nonempty_str_opt (pointer support [''segment'', ''text''])))
            (apply_citation_span (pointer support [''segment'', ''startIndex''])
               (pointer support [''segment'', ''endIndex'']) annotation))"

definition pointer_first :: "json \<Rightarrow> string list list \<Rightarrow> json option" where
  "pointer_first v ps = foldr (\<lambda>p rest. or_else (pointer v p) rest) ps None"

definition annotation_from_grounding_chunk :: "json \<Rightarrow> json option" where
  "annotation_from_grounding_chunk chunk =
     map_option (\<lambda>url. url_citation url
         (nonempty_str_opt (pointer_first chunk [[''web'', ''title''], [''image'', ''title''],
            [''retrievedContext'', ''title''], [''maps'', ''title'']])))
       (nonempty_str_opt (pointer_first chunk [[''web'', ''uri''], [''web'', ''url''], [''image'', ''sourceUri''],
          [''retrievedContext'', ''uri''], [''maps'', ''uri'']]))"

definition grounding_support_from_annotation :: "json \<Rightarrow> nat \<Rightarrow> json" where
  "grounding_support_from_annotation annotation chunk_index =
     (let segment = json_obj [(''startIndex'', unwrap_or (jget annotation ''start_index'') (json_u32 0)),
                              (''endIndex'', unwrap_or (jget annotation ''end_index'') (json_u32 0))];
          segment = set_opt ''text'' (map_option JString (nonempty_str_opt (jget annotation ''segment_text''))) segment
      in json_obj [(''segment'', segment), (''groundingChunkIndices'', JArray [json_u64 (of_nat chunk_index)])])"

definition grounding_chunk_from_annotation :: "json \<Rightarrow> json" where
  "grounding_chunk_from_annotation annotation =
     json_obj [(''web'', set_opt ''title'' (map_option JString (annotation_title annotation))
                  (json_obj [(''uri'', JString (unwrap_or (annotation_url annotation) []))]))]"

definition search_entry_from_value :: "json \<Rightarrow> ir_stream_event option" where
  "search_entry_from_value v =
     map_option SearchEntryPoint
       (nonempty_str_opt (pointer v [''candidates'', ''0'', ''groundingMetadata'', ''searchEntryPoint'', ''renderedContent'']))"

text \<open>The annotations of \<open>groundingChunks\<close>, each with the first support that names its position.\<close>

fun grounding_annotations :: "nat \<Rightarrow> json list \<Rightarrow> json list option \<Rightarrow> json list" where
  "grounding_annotations idx [] supports = []"
| "grounding_annotations idx (chunk # chunks) supports =
     (case annotation_from_grounding_chunk chunk of
        None \<Rightarrow> []
      | Some a \<Rightarrow> [case supports of None \<Rightarrow> a | Some s \<Rightarrow> apply_grounding_support idx s a])
     @ grounding_annotations (Suc idx) chunks supports"


section \<open>Log probabilities\<close>

definition chat_token_from_gemini :: "json \<Rightarrow> json" where
  "chat_token_from_gemini cand =
     (let token = unwrap_or (Option.bind (jget cand ''token'') as_str) []
      in set_opt ''logprob'' (jget cand ''logProbability'')
           (json_obj [(''token'', JString token),
              (''bytes'', JArray (map (\<lambda>c. JNumber (PosInt (of_nat (byte_val c)))) token))]))"

definition gemini_token_from_chat :: "json \<Rightarrow> json" where
  "gemini_token_from_chat item =
     set_opt ''logProbability'' (jget item ''logprob'') (set_opt ''token'' (jget item ''token'') (json_obj []))"

fun logprob_rows :: "nat \<Rightarrow> json list \<Rightarrow> json list option \<Rightarrow> json list" where
  "logprob_rows i [] tops = []"
| "logprob_rows i (cand # cands) tops =
     (let item = chat_token_from_gemini cand;
          item = (case Option.bind tops (\<lambda>t. if i < length t then Some (t ! i) else None) of
                    None \<Rightarrow> item
                  | Some row \<Rightarrow>
                      jinsert ''top_logprobs''
                        (case Option.bind (jget row ''candidates'') as_array of
                           None \<Rightarrow> JArray [] | Some arr \<Rightarrow> JArray (map chat_token_from_gemini arr)) item)
      in item # logprob_rows (Suc i) cands tops)"

definition logprobs_from_result :: "json \<Rightarrow> json option" where
  "logprobs_from_result result =
     (case Option.bind (jget result ''chosenCandidates'') as_array of
        None \<Rightarrow> None
      | Some chosen \<Rightarrow>
          if chosen = [] then None
          else Some (JArray (logprob_rows 0 chosen (Option.bind (jget result ''topCandidates'') as_array))))"

definition logprobs_to_result :: "json \<Rightarrow> json" where
  "logprobs_to_result content =
     (let items = unwrap_or (as_array content) []
      in json_obj [(''chosenCandidates'', JArray (map gemini_token_from_chat items)),
           (''topCandidates'', JArray (map (\<lambda>item. json_obj [(''candidates'',
               JArray (map gemini_token_from_chat
                 (unwrap_or (Option.bind (jget item ''top_logprobs'') as_array) [])))]) items))])"


section \<open>Pieces of a chunk\<close>

definition gemini_map_finish :: "string \<Rightarrow> bool \<Rightarrow> string" where
  "gemini_map_finish reason has_function_call =
     (if reason = ''STOP'' \<and> has_function_call then ''tool_calls''
      else if reason = ''STOP'' then ''stop''
      else if reason = ''MAX_TOKENS'' then ''max_tokens''
      else if reason \<in> {''SAFETY'', ''RECITATION'', ''OTHER'', ''BLOCKLIST'', ''PROHIBITED_CONTENT'', ''SPII'',
                        ''IMAGE_SAFETY'', ''LANGUAGE''} then ''content_filter''
      else if reason = ''MALFORMED_FUNCTION_CALL'' then ''malformed_function_call''
      else if eq_ignore_ascii_case reason ''stop'' then ''stop''
      else reason)"

definition map_block :: "string \<Rightarrow> string" where
  "map_block reason =
     (let mapped = gemini_map_finish reason False;
          preserved_unknown = (mapped = reason \<and> \<not> eq_ignore_ascii_case reason ''stop'')
      in if preserved_unknown \<or> (mapped = ''stop'' \<and> \<not> eq_ignore_ascii_case reason ''stop'')
         then ''content_filter'' else mapped)"

definition is_mapped_finish_reason :: "string \<Rightarrow> bool" where
  "is_mapped_finish_reason reason =
     (reason \<in> {''stop'', ''max_tokens'', ''length'', ''content_filter'', ''tool_calls'', ''malformed_function_call''})"

definition is_gemini_finish_token :: "string \<Rightarrow> bool" where
  "is_gemini_finish_token token =
     (token \<in> {''STOP'', ''MAX_TOKENS'', ''SAFETY'', ''RECITATION'', ''OTHER'', ''BLOCKLIST'', ''PROHIBITED_CONTENT'',
               ''SPII'', ''IMAGE_SAFETY'', ''LANGUAGE'', ''MALFORMED_FUNCTION_CALL''})"

definition gemini_encode_finish :: "string \<Rightarrow> string" where
  "gemini_encode_finish reason =
     (if reason = ''max_tokens'' \<or> reason = ''length'' then ''MAX_TOKENS''
      else if reason = ''content_filter'' then ''SAFETY''
      else if reason = ''tool_calls'' then ''STOP''
      else ''STOP'')"

definition finish_token :: "string \<Rightarrow> string option \<Rightarrow> string" where
  "finish_token reason vendor =
     (case ofilter is_gemini_finish_token vendor of
        Some token \<Rightarrow> token
      | None \<Rightarrow>
          (case ofilter (\<lambda>token. token = reason \<and> \<not> is_mapped_finish_reason reason) vendor of
             Some token \<Rightarrow> token
           | None \<Rightarrow> gemini_encode_finish reason))"

definition gemini_call_id :: "json \<Rightarrow> string \<Rightarrow> nat \<Rightarrow> string" where
  "gemini_call_id fc name seq =
     unwrap_or (nonempty_str_opt (jget fc ''id'')) (name @ ''#'' @ show_nat seq)"

definition inline_data_event :: "json \<Rightarrow> ir_stream_event option" where
  "inline_data_event part =
     (case jget part ''inlineData'' of
        None \<Rightarrow> None
      | Some inline \<Rightarrow>
          (let mime = unwrap_or (str_field inline ''mimeType'') []
           in case ofilter (\<lambda>s. s \<noteq> []) (str_field inline ''data'') of
                None \<Rightarrow> None
              | Some d \<Rightarrow>
                  (let mime_l = to_ascii_lowercase mime
                   in if starts_with ''audio/'' mime_l then Some (AudioDelta d)
                      else if starts_with ''image/'' mime_l then Some (ImageDelta mime d)
                      else None)))"

definition candidate_has_function_call :: "json \<Rightarrow> bool" where
  "candidate_has_function_call candidate =
     is_some_and (Option.bind (pointer candidate [''content'', ''parts'']) as_array)
       (list_ex (\<lambda>p. is_some_and (jget p ''functionCall'') gemini_function_call_visible))"

definition gemini_value_has_function_call :: "json \<Rightarrow> bool" where
  "gemini_value_has_function_call v =
     is_some_and (Option.bind (pointer v [''candidates'', ''0'', ''content'', ''parts'']) as_array)
       (list_ex (\<lambda>p. is_some_and (jget p ''functionCall'') gemini_function_call_visible))"

definition service_tier_from_chunk :: "json \<Rightarrow> ir_stream_event option" where
  "service_tier_from_chunk v =
     Option.bind (ofilter is_object (jget v ''usageMetadata''))
       (\<lambda>usage. map_option ServiceTier (gemini_decode_service_tier usage))"

definition usage_from_chunk :: "json \<Rightarrow> ir_stream_event option" where
  "usage_from_chunk v =
     (case ofilter is_object (jget v ''usageMetadata'') of
        Some usage \<Rightarrow> Some (from_gemini usage)
      | None \<Rightarrow>
          map_option (\<lambda>n. Usage 0 (unwrap_or (u32_try_from n) (- 1)) 0 0 0 0 0 None)
            (ofilter (\<lambda>n. n > 0) (Option.bind (pointer v [''candidates'', ''0'', ''tokenCount'']) as_u64)))"

definition gemini_error_detail :: "json \<Rightarrow> string option" where
  "gemini_error_detail v =
     (case json_string_error v of
        Some text \<Rightarrow> Some text
      | None \<Rightarrow>
          map_option (\<lambda>err. unwrap_or (error_object_detail err) ''vendor error'')
            (ofilter is_object (jget v ''error'')))"


section \<open>Singular decoding\<close>

definition thought_flag :: "json \<Rightarrow> bool" where
  "thought_flag part = (Option.bind (jget part ''thought'') as_bool = Some True)"

definition part_signature :: "json \<Rightarrow> string option" where
  "part_signature part = nonempty_str_opt (jget part ''thoughtSignature'')"

definition visible_call :: "json \<Rightarrow> json option" where
  "visible_call part = ofilter gemini_function_call_visible (jget part ''functionCall'')"

text \<open>The event one part returns, if any; the loop of \<open>decode\<close> stops at the first.\<close>

definition gemini_first_part_event :: "json \<Rightarrow> ir_stream_event option" where
  "gemini_first_part_event part =
     (let text = nonempty_str_opt (jget part ''text'')
      in if thought_flag part \<and> text \<noteq> None then map_option ReasoningDelta text
         else if part_signature part \<noteq> None \<and> jget part ''functionCall'' = None
         then map_option ReasoningSignature (part_signature part)
         else (case visible_call part of
                 Some fc \<Rightarrow>
                   (let name = unwrap_or (str_field fc ''name'') []
                    in Some (ToolCallStart (gemini_call_id fc name 0) name (part_signature part) 0))
               | None \<Rightarrow>
                   (case inline_data_event part of
                      Some ev \<Rightarrow> Some ev
                    | None \<Rightarrow> map_option TextDelta text)))"

fun first_event :: "(json \<Rightarrow> ir_stream_event option) \<Rightarrow> json list \<Rightarrow> ir_stream_event option" where
  "first_event f [] = None"
| "first_event f (x # xs) = or_else (f x) (first_event f xs)"

definition gemini_candidate :: "json \<Rightarrow> json option" where
  "gemini_candidate v =
     (case Option.bind (jget v ''candidates'') as_array of
        None \<Rightarrow> None | Some [] \<Rightarrow> None | Some (c # _) \<Rightarrow> Some c)"

definition gemini_candidate_event :: "json \<Rightarrow> json \<Rightarrow> ir_stream_event option" where
  "gemini_candidate_event v candidate =
     or_else (case Option.bind (pointer candidate [''content'', ''parts'']) as_array of
                None \<Rightarrow> None | Some parts \<Rightarrow> first_event gemini_first_part_event parts)
    (or_else (case Option.bind (pointer candidate [''groundingMetadata'', ''groundingChunks'']) as_array of
                None \<Rightarrow> None
              | Some chunks \<Rightarrow>
                  (case grounding_annotations 0 chunks
                          (Option.bind (pointer candidate [''groundingMetadata'', ''groundingSupports'']) as_array) of
                     [] \<Rightarrow> None | a # _ \<Rightarrow> Some (AnnotationAdded a)))
    (or_else (map_option AnnotationAdded (first_citation_annotation candidate))
    (or_else (case Option.bind (jget candidate ''groundingAttributions'') as_array of
                None \<Rightarrow> None
              | Some attrs \<Rightarrow>
                  first_event (\<lambda>attr. map_option AnnotationAdded (annotation_from_grounding_chunk attr)) attrs)
    (or_else (map_option (\<lambda>content. Logprobs content None)
                (Option.bind (jget candidate ''logprobsResult'') logprobs_from_result))
    (or_else (map_option (\<lambda>reason. FinishReason (gemini_map_finish reason (candidate_has_function_call candidate))
                                     (Some reason))
                (nonempty_str_opt (jget candidate ''finishReason'')))
    (or_else (map_option RefusalDelta (nonempty_str_opt (jget candidate ''finishMessage'')))
    (or_else (usage_from_chunk v) (search_entry_from_value v))))))))"

definition gemini_decode :: "json \<Rightarrow> map_error + ir_stream_event option" where
  "gemini_decode v =
     (let candidate = gemini_candidate v;
          block = nonempty_str_opt (pointer v [''promptFeedback'', ''blockReason''])
      in if candidate = None \<and> block \<noteq> None then
           Inr (map_option (\<lambda>reason. FinishReason (map_block reason) (Some reason)) block)
         else if \<not> is_some_and candidate candidate_visible \<and> gemini_error_detail v \<noteq> None then
           Inl (MapHardError ''error'' (unwrap_or (gemini_error_detail v) []))
         else if usage_from_chunk v \<noteq> None
              \<and> \<not> is_some_and (Option.bind (pointer v [''candidates'', ''0'', ''content'', ''parts'']) as_array) (\<lambda>p. p \<noteq> [])
              \<and> Option.bind (pointer v [''candidates'', ''0'', ''finishReason'']) as_str = None then
           Inr (usage_from_chunk v)
         else (case candidate of
                 None \<Rightarrow> Inr (usage_from_chunk v)
               | Some candidate \<Rightarrow> Inr (gemini_candidate_event v candidate)))"


section \<open>Fan-out (\<open>stream/mod.rs\<close>)\<close>

definition call_args :: "json \<Rightarrow> json option" where
  "call_args fc =
     ofilter (\<lambda>a. (case as_object a of None \<Rightarrow> True | Some m \<Rightarrow> m \<noteq> []) \<and> \<not> is_null a) (jget fc ''args'')"

definition u32_of_seq :: "nat \<Rightarrow> u32" where
  "u32_of_seq seq = (if seq < 2 ^ 32 then of_nat seq else 0)"

definition gemini_part_events :: "(json \<Rightarrow> string) \<Rightarrow> json \<Rightarrow> nat \<Rightarrow> ir_stream_event list \<times> nat" where
  "gemini_part_events to_str part call_seq =
     (let text = nonempty_str_opt (jget part ''text'');
          pre = (if thought_flag part then opt_event ReasoningDelta text else [])
                @ (if jget part ''functionCall'' = None then opt_event ReasoningSignature (part_signature part) else [])
      in case visible_call part of
           Some fc \<Rightarrow>
             (let name = unwrap_or (str_field fc ''name'') [];
                  index = u32_of_seq call_seq
              in (pre @ [ToolCallStart (gemini_call_id fc name call_seq) name (part_signature part) index]
                      @ opt_event (\<lambda>args. ToolCallArgDelta (to_str args) index) (call_args fc),
                  Suc call_seq))
         | None \<Rightarrow>
             (pre @ (if gemini_side_part_visible part then [Protocol ''gemini_code_part'' part]
                     else case inline_data_event part of
                            Some ev \<Rightarrow> [ev]
                          | None \<Rightarrow> if thought_flag part then [] else opt_event TextDelta text),
              call_seq))"

fun gemini_parts_events :: "(json \<Rightarrow> string) \<Rightarrow> json list \<Rightarrow> nat \<Rightarrow> ir_stream_event list \<times> nat" where
  "gemini_parts_events to_str [] seq = ([], seq)"
| "gemini_parts_events to_str (part # parts) seq =
     (let (out, seq) = gemini_part_events to_str part seq;
          (out', seq) = gemini_parts_events to_str parts seq
      in (out @ out', seq))"

definition nonempty_array :: "json option \<Rightarrow> bool" where
  "nonempty_array v = is_some_and (Option.bind v as_array) (\<lambda>items. items \<noteq> [])"

definition gemini_grounding_events :: "json \<Rightarrow> ir_stream_event list" where
  "gemini_grounding_events v =
     (case Option.bind (pointer v [''candidates'', ''0'', ''groundingMetadata'', ''groundingChunks'']) as_array of
        None \<Rightarrow> []
      | Some chunks \<Rightarrow>
          map AnnotationAdded (grounding_annotations 0 chunks
            (Option.bind (pointer v [''candidates'', ''0'', ''groundingMetadata'', ''groundingSupports'']) as_array)))
     @ (case gemini_candidate v of None \<Rightarrow> [] | Some c \<Rightarrow> map AnnotationAdded (citation_annotations c))
     @ opt_event (Protocol ''gemini_url_context'')
         (ofilter (\<lambda>m. nonempty_array (jget m ''urlMetadata''))
            (pointer v [''candidates'', ''0'', ''urlContextMetadata'']))
     @ opt_event (Protocol ''gemini_citation_metadata'')
         (ofilter (\<lambda>m. nonempty_array (jget m ''citationSources'') \<or> nonempty_array (jget m ''citations''))
            (pointer v [''candidates'', ''0'', ''citationMetadata'']))
     @ (case Option.bind (pointer v [''candidates'', ''0'', ''groundingAttributions'']) as_array of
          None \<Rightarrow> [] | Some attrs \<Rightarrow> map AnnotationAdded (List.map_filter annotation_from_grounding_chunk attrs))
     @ opt_event id (search_entry_from_value v)"

definition gemini_tail_events :: "json \<Rightarrow> ir_stream_event list" where
  "gemini_tail_events v =
     opt_event (\<lambda>content. Logprobs content None)
       (Option.bind (pointer v [''candidates'', ''0'', ''logprobsResult'']) logprobs_from_result)
     @ opt_event RefusalDelta (nonempty_str_opt (pointer v [''candidates'', ''0'', ''finishMessage'']))
     @ opt_event (Protocol ''gemini_safety_ratings'')
         (ofilter (\<lambda>r. nonempty_array (Some r)) (pointer v [''candidates'', ''0'', ''safetyRatings'']))
     @ opt_event (Protocol ''gemini_prompt_safety'')
         (ofilter (\<lambda>r. nonempty_array (Some r)) (pointer v [''promptFeedback'', ''safetyRatings'']))
     @ opt_event (\<lambda>m. Protocol ''gemini_block_reason_message'' (JString m))
         (ofilter (\<lambda>m. m \<noteq> [])
            (map_option trim (Option.bind (pointer v [''promptFeedback'', ''blockReasonMessage'']) as_str)))
     @ (if nonempty_str_opt (pointer v [''candidates'', ''0'', ''finishReason'']) = None then
          opt_event (\<lambda>reason. FinishReason (map_block reason) (Some reason))
            (nonempty_str_opt (pointer v [''promptFeedback'', ''blockReason'']))
        else [])
     @ opt_event (\<lambda>score. Protocol ''gemini_avg_logprobs'' (JNumber (Float score)))
         (ofilter f64_is_finite (Option.bind (pointer v [''candidates'', ''0'', ''avgLogprobs'']) as_f64))
     @ opt_event (\<lambda>count. Protocol ''gemini_candidate_tokens'' (json_u32 count))
         (Option.bind (ofilter (\<lambda>n. n > 0) (Option.bind (pointer v [''candidates'', ''0'', ''tokenCount'']) as_u64))
            u32_try_from)
     @ opt_event (\<lambda>reason. FinishReason (gemini_map_finish reason (gemini_value_has_function_call v)) (Some reason))
         (nonempty_str_opt (pointer v [''candidates'', ''0'', ''finishReason'']))
     @ opt_event id (service_tier_from_chunk v)
     @ gemini_traffic_type_events v
     @ gemini_tool_use_prompt_events v
     @ gemini_modality_detail_events v
     @ opt_event id (usage_from_chunk v)"

text \<open>\<open>None\<close> leaves the counter where it was on entry.\<close>

definition fan_out_gemini_parts ::
  "(json \<Rightarrow> string) \<Rightarrow> json \<Rightarrow> nat \<Rightarrow> ir_stream_event list option \<times> nat" where
  "fan_out_gemini_parts to_str v call_seq =
     (let ids = opt_event (\<lambda>i. Protocol ''gemini_response_id'' (JString i))
                  (ofilter (\<lambda>s. trim s \<noteq> []) (str_field v ''responseId''));
          (parts, seq) = (case Option.bind (pointer v [''candidates'', ''0'', ''content'', ''parts'']) as_array of
                            None \<Rightarrow> ([], call_seq)
                          | Some parts \<Rightarrow> gemini_parts_events to_str parts call_seq);
          out = ids @ parts @ gemini_grounding_events v @ gemini_tail_events v
      in if out = [] then (None, call_seq) else (Some out, seq))"

definition expand_gemini_function_call ::
  "(json \<Rightarrow> string) \<Rightarrow> ir_stream_event \<Rightarrow> json \<Rightarrow> ir_stream_event list option" where
  "expand_gemini_function_call to_str first v =
     (case Option.bind (pointer v [''candidates'', ''0'', ''content'', ''parts'']) as_array of
        None \<Rightarrow> None
      | Some parts \<Rightarrow>
          (case find (\<lambda>p. jget p ''functionCall'' \<noteq> None) parts of
             None \<Rightarrow> None
           | Some part \<Rightarrow>
               (case jget part ''functionCall'' of
                  None \<Rightarrow> None
                | Some fc \<Rightarrow>
                    (let name = unwrap_or (str_field fc ''name'') []
                     in case call_args fc of
                          None \<Rightarrow> None
                        | Some args \<Rightarrow>
                            if (case first of Protocol _ _ \<Rightarrow> True | ToolCallStart _ _ _ _ \<Rightarrow> True | _ \<Rightarrow> False) then
                              Some [ToolCallStart (gemini_call_id fc name 0) name (part_signature part) 0,
                                    ToolCallArgDelta (to_str args) 0]
                            else None))))"


section \<open>Encoding\<close>

definition gemini_one :: "(string \<times> json) list \<Rightarrow> json" where
  "gemini_one fs = json_obj [(''candidates'', JArray [json_obj fs])]"

definition gemini_part_chunk :: "json list \<Rightarrow> json" where
  "gemini_part_chunk parts =
     gemini_one [(''content'', json_obj [(''role'', JString ''model''), (''parts'', JArray parts)])]"

definition function_call_value :: "string \<Rightarrow> string \<Rightarrow> json" where
  "function_call_value id' name =
     insert_if (id' \<noteq> []) ''id'' (JString id') (json_obj [(''name'', JString name), (''args'', json_obj [])])"

definition no_candidates :: json where
  "no_candidates = json_obj [(''candidates'', JArray [])]"

fun gemini_encode_value :: "(string \<Rightarrow> json option) \<Rightarrow> ir_stream_event \<Rightarrow> json option" where
  "gemini_encode_value parse (TextDelta text) = Some (gemini_part_chunk [json_obj [(''text'', JString text)]])"
| "gemini_encode_value parse (AudioTranscriptDelta text) =
     Some (gemini_part_chunk [json_obj [(''text'', JString text)]])"
| "gemini_encode_value parse (RefusalDelta text) = Some (gemini_one [(''finishMessage'', JString text)])"
| "gemini_encode_value parse (ReasoningDelta text) =
     Some (gemini_part_chunk [json_obj [(''text'', JString text), (''thought'', JBool True)]])"
| "gemini_encode_value parse (ReasoningSignature sig) =
     Some (gemini_part_chunk [json_obj [(''thoughtSignature'', JString sig)]])"
| "gemini_encode_value parse (ToolCallStart id' name sig _) =
     (let part = json_obj [(''functionCall'', function_call_value id' name)]
      in Some (gemini_part_chunk
           [set_opt ''thoughtSignature'' (map_option JString (ofilter (\<lambda>s. s \<noteq> []) sig)) part]))"
| "gemini_encode_value parse (CustomToolCallStart id' name _) =
     Some (gemini_part_chunk [json_obj [(''functionCall'', function_call_value id' name)]])"
| "gemini_encode_value parse (AnnotationAdded ann) =
     Some (gemini_one [(''groundingMetadata'', json_obj [
        (''groundingChunks'', JArray [grounding_chunk_from_annotation ann]),
        (''groundingSupports'', JArray [grounding_support_from_annotation ann 0])])])"
| "gemini_encode_value parse (SearchEntryPoint rendered) =
     Some (gemini_one [(''groundingMetadata'', json_obj [(''searchEntryPoint'',
        json_obj [(''renderedContent'', JString rendered)])])])"
| "gemini_encode_value parse (AudioDelta d) =
     Some (gemini_part_chunk [json_obj [(''inlineData'',
        json_obj [(''mimeType'', JString ''audio/mpeg''), (''data'', JString d)])]])"
| "gemini_encode_value parse (ImageDelta media_type d) =
     Some (gemini_part_chunk [json_obj [(''inlineData'',
        json_obj [(''mimeType'', JString media_type), (''data'', JString d)])]])"
| "gemini_encode_value parse (Logprobs content refusal) =
     Some (gemini_one [(''logprobsResult'', logprobs_to_result (JArray (merged_logprob_items content refusal)))])"
| "gemini_encode_value parse (ServiceTier tier) =
     Some (case gemini_service_tier tier of
        Some (mapped, _) \<Rightarrow> json_obj [(''usageMetadata'', json_obj [(''serviceTier'', JString mapped)])]
      | None \<Rightarrow> no_candidates)"
| "gemini_encode_value parse (Created _) = Some no_candidates"
| "gemini_encode_value parse (Metadata _) = Some no_candidates"
| "gemini_encode_value parse (Moderation _ _) = Some no_candidates"
| "gemini_encode_value parse (ToolCallArgDelta delta _) =
     (let args = unwrap_or (parse delta) (json_obj [])
      in Some (gemini_part_chunk [json_obj [(''functionCall'',
           json_obj [(''name'', JString []), (''args'', args)])]]))"
| "gemini_encode_value parse (CustomToolCallInputDelta delta _) =
     Some (gemini_part_chunk [json_obj [(''functionCall'',
        json_obj [(''name'', JString []), (''args'', response_custom_tool_input parse delta)])]])"
| "gemini_encode_value parse ToolCallEnd = Some (gemini_part_chunk [])"
| "gemini_encode_value parse (Usage p c cr _ rs au cau _) = Some (encode_gemini p c cr rs au cau)"
| "gemini_encode_value parse (FinishReason reason vendor) =
     Some (gemini_one [(''finishReason'', JString (finish_token reason vendor))])"
| "gemini_encode_value parse (Diagnostics _) = Some no_candidates"
| "gemini_encode_value parse (Container _) = Some no_candidates"
| "gemini_encode_value parse (ContextManagement _) = Some no_candidates"
| "gemini_encode_value parse (StopSequence _) = Some no_candidates"
| "gemini_encode_value parse Done = None"
| "gemini_encode_value parse (Protocol _ _) = None"
| "gemini_encode_value parse (Unknown _ _) = None"

definition gemini_encode ::
  "(string \<Rightarrow> json option) \<Rightarrow> (json \<Rightarrow> string) \<Rightarrow> ir_stream_event \<Rightarrow> map_error + raw_sse" where
  "gemini_encode parse to_str ev =
     (if ev = Done then Inr \<lparr>event = None, data = ''[DONE]''\<rparr>
      else case gemini_encode_value parse ev of
             None \<Rightarrow> Inl (MapInvalid ''protocol/unknown events are encoded at the stream root'')
           | Some d \<Rightarrow> Inr \<lparr>event = None, data = to_str d\<rparr>)"


section \<open>Reading back what was written\<close>

lemma parse_index_zero [simp]: "parse_index ''0'' = Some 0"
  by (simp add: parse_index_def is_ascii_digit_def byte_val_def)

lemma step_pointer_one [simp]:
  "step_pointer (gemini_one fs) k = (if k = ''candidates'' then Some (JArray [json_obj fs]) else None)"
  by (simp add: gemini_one_def)

lemma jget_gemini_one [simp]:
  "jget (gemini_one fs) k = (if k = ''candidates'' then Some (JArray [json_obj fs]) else None)"
  by (simp add: gemini_one_def)

lemma gemini_candidate_one [simp]: "gemini_candidate (gemini_one fs) = Some (json_obj fs)"
  by (simp add: gemini_candidate_def)

lemma no_usage_one:
  "service_tier_from_chunk (gemini_one fs) = None" "gemini_traffic_type_events (gemini_one fs) = []"
  "gemini_tool_use_prompt_events (gemini_one fs) = []" "gemini_modality_detail_events (gemini_one fs) = []"
  by (simp_all add: service_tier_from_chunk_def gemini_traffic_type_events_def gemini_tool_use_prompt_events_def
      gemini_modality_detail_events_def kept_modality_details_def positive_def Let_def)

lemma str_field_one [simp]: "str_field (gemini_one fs) ''responseId'' = None"
  by (simp add: str_field_def)

lemma no_citations:
  "map_of (rev fs) ''citationMetadata'' = None \<Longrightarrow> map_of (rev fs) ''urlContextMetadata'' = None \<Longrightarrow>
     citation_annotations (json_obj fs) = []"
  by (simp add: citation_annotations_def CITATION_LIST_POINTERS_def Let_def)

lemmas gemini_chunk_defs = fan_out_gemini_parts_def gemini_grounding_events_def gemini_tail_events_def
  gemini_part_chunk_def gemini_part_events_def no_usage_one no_citations usage_from_chunk_def
  search_entry_from_value_def thought_flag_def part_signature_def visible_call_def inline_data_event_def
  gemini_side_part_visible_def

lemma fan_out_text:
  "t \<noteq> [] \<Longrightarrow> fan_out_gemini_parts to_str (gemini_part_chunk [json_obj [(''text'', JString t)]]) seq
     = (Some [TextDelta t], seq)"
  "t \<noteq> [] \<Longrightarrow> fan_out_gemini_parts to_str (gemini_part_chunk [json_obj [(''text'', JString t), (''thought'', JBool True)]]) seq
     = (Some [ReasoningDelta t], seq)"
  "t \<noteq> [] \<Longrightarrow> fan_out_gemini_parts to_str (gemini_part_chunk [json_obj [(''thoughtSignature'', JString t)]]) seq
     = (Some [ReasoningSignature t], seq)"
  "t \<noteq> [] \<Longrightarrow> fan_out_gemini_parts to_str (gemini_one [(''finishMessage'', JString t)]) seq
     = (Some [RefusalDelta t], seq)"
  by (simp_all add: gemini_chunk_defs)

lemma fan_out_media:
  "d \<noteq> [] \<Longrightarrow> fan_out_gemini_parts to_str (gemini_part_chunk [json_obj [(''inlineData'',
        json_obj [(''mimeType'', JString ''audio/mpeg''), (''data'', JString d)])]]) seq = (Some [AudioDelta d], seq)"
  "d \<noteq> [] \<Longrightarrow> starts_with ''image/'' (to_ascii_lowercase mt) \<Longrightarrow>
     fan_out_gemini_parts to_str (gemini_part_chunk [json_obj [(''inlineData'',
        json_obj [(''mimeType'', JString mt), (''data'', JString d)])]]) seq = (Some [ImageDelta mt d], seq)"
proof -
  have lower: "to_ascii_lowercase ''audio/mpeg'' = ''audio/mpeg''"
    by (simp add: to_ascii_lowercase_def ascii_lower_def byte_val_def)
  show "d \<noteq> [] \<Longrightarrow> fan_out_gemini_parts to_str (gemini_part_chunk [json_obj [(''inlineData'',
        json_obj [(''mimeType'', JString ''audio/mpeg''), (''data'', JString d)])]]) seq = (Some [AudioDelta d], seq)"
    by (simp add: gemini_chunk_defs lower starts_with_def)
  assume a: "d \<noteq> []" "starts_with ''image/'' (to_ascii_lowercase mt)"
  then have "\<not> starts_with ''audio/'' (to_ascii_lowercase mt)"
    by (auto simp: starts_with_iff)
  with a show "fan_out_gemini_parts to_str (gemini_part_chunk [json_obj [(''inlineData'',
        json_obj [(''mimeType'', JString mt), (''data'', JString d)])]]) seq = (Some [ImageDelta mt d], seq)"
    by (simp add: gemini_chunk_defs)
qed

lemma fan_out_call:
  assumes "id' \<noteq> [] \<or> name \<noteq> []"
  shows "fan_out_gemini_parts to_str (the (gemini_encode_value parse (ToolCallStart id' name sig i))) seq =
     (Some [ToolCallStart (if id' = [] then name @ ''#'' @ show_nat seq else id') name
              (ofilter (\<lambda>s. s \<noteq> []) sig) (u32_of_seq seq)], Suc seq)"
proof -
  have f: "jget (function_call_value id' name) k =
      (if k = ''id'' then (if id' = [] then None else Some (JString id'))
       else if k = ''name'' then Some (JString name) else if k = ''args'' then Some (json_obj []) else None)" for k
    by (simp add: function_call_value_def insert_if_def jget_jinsert_obj)
  have vis: "gemini_function_call_visible (function_call_value id' name)"
    by (simp add: gemini_function_call_visible_def nonempty_str_def f json_obj_def)
  have args: "call_args (function_call_value id' name) = None"
    by (simp add: call_args_def f json_obj_def)
  show ?thesis
    using vis by (cases "ofilter (\<lambda>s. s \<noteq> []) sig")
      (auto simp: gemini_chunk_defs set_opt_def jget_jinsert_obj args gemini_call_id_def f str_field_def ofilter_def
        split: option.splits if_splits)
qed

lemma fan_out_finish:
  "r \<noteq> [] \<Longrightarrow> fan_out_gemini_parts to_str (gemini_one [(''finishReason'', JString r)]) seq
     = (Some [FinishReason (gemini_map_finish r False) (Some r)], seq)"
  by (simp add: gemini_chunk_defs gemini_value_has_function_call_def)

lemma fan_out_search:
  "t \<noteq> [] \<Longrightarrow> fan_out_gemini_parts to_str (gemini_one [(''groundingMetadata'', json_obj [(''searchEntryPoint'',
        json_obj [(''renderedContent'', JString t)])])]) seq = (Some [SearchEntryPoint t], seq)"
  by (simp add: gemini_chunk_defs)

lemma fan_out_usage:
  assumes "unat p + unat cr < 2 ^ 32"
  shows "fan_out_gemini_parts to_str (encode_gemini p c cr rs 0 0) seq
     = (Some [Usage p c cr 0 rs 0 0 None], seq)"
proof -
  let ?b = "gemini_usage_body p c cr rs 0 0"
  have obj: "is_object ?b" by (simp add: gemini_usage_body_def Let_def insert_if_def)
  have keys: "jget ?b ''serviceTier'' = None" "jget ?b ''service_tier'' = None" "jget ?b ''trafficType'' = None"
    "jget ?b ''toolUsePromptTokenCount'' = None" "jget ?b ''promptTokensDetails'' = None"
    "jget ?b ''candidatesTokensDetails'' = None"
    by (simp_all add: gemini_usage_body_def Let_def insert_if_def jget_jinsert_obj)
  obtain m where m: "?b = JObject m" using obj by (cases ?b) auto
  have "from_gemini ?b = Usage p c cr 0 rs 0 0 None"
    using assms by (rule from_gemini_body)
  then show ?thesis
    using keys by (simp add: encode_gemini_def m fan_out_gemini_parts_def gemini_grounding_events_def
        gemini_tail_events_def gemini_candidate_def search_entry_from_value_def usage_from_chunk_def
        service_tier_from_chunk_def gemini_decode_service_tier_def gemini_traffic_type_events_def
        gemini_tool_use_prompt_events_def gemini_modality_detail_events_def kept_modality_details_def
        positive_def Let_def str_field_def)
qed

text \<open>The events with a slot on the Gemini wire, given the number of calls the stream has already seen.\<close>

fun gemini_keeps :: "nat \<Rightarrow> ir_stream_event \<Rightarrow> bool" where
  "gemini_keeps seq (TextDelta t) = (t \<noteq> [])"
| "gemini_keeps seq (ReasoningDelta t) = (t \<noteq> [])"
| "gemini_keeps seq (ReasoningSignature t) = (t \<noteq> [])"
| "gemini_keeps seq (RefusalDelta t) = (t \<noteq> [])"
| "gemini_keeps seq (SearchEntryPoint t) = (t \<noteq> [])"
| "gemini_keeps seq (AudioDelta d) = (d \<noteq> [])"
| "gemini_keeps seq (ImageDelta mt d) = (d \<noteq> [] \<and> starts_with ''image/'' (to_ascii_lowercase mt))"
| "gemini_keeps seq (ToolCallStart id' name sig i) = (id' \<noteq> [] \<and> sig \<noteq> Some [] \<and> i = u32_of_seq seq)"
| "gemini_keeps seq (FinishReason r vendor) =
     (case vendor of None \<Rightarrow> False
      | Some tok \<Rightarrow> tok \<noteq> [] \<and> finish_token r vendor = tok \<and> gemini_map_finish tok False = r)"
| "gemini_keeps seq (Usage p c cr cw rs au cau geo) =
     (unat p + unat cr < 2 ^ 32 \<and> cw = 0 \<and> au = 0 \<and> cau = 0 \<and> geo = None)"
| "gemini_keeps seq _ = False"

lemma gemini_keeps_reads_back:
  assumes "gemini_keeps seq ev"
  shows "case gemini_encode_value parse ev of
           None \<Rightarrow> False
         | Some v \<Rightarrow> fan_out_gemini_parts to_str v seq =
             (Some [ev], case ev of ToolCallStart _ _ _ _ \<Rightarrow> Suc seq | _ \<Rightarrow> seq)"
proof (cases ev)
  case (ToolCallStart id' name sig i)
  then have k: "id' \<noteq> []" "ofilter (\<lambda>s. s \<noteq> []) sig = sig" "i = u32_of_seq seq"
    using assms by (auto simp: ofilter_def split: option.splits)
  then show ?thesis
    using fan_out_call [of id' name to_str parse sig i seq] by (simp add: ToolCallStart Let_def)
next
  case (FinishReason r vendor)
  then obtain tok where "vendor = Some tok" "tok \<noteq> []" "finish_token r vendor = tok" "gemini_map_finish tok False = r"
    using assms by (auto split: option.splits)
  then show ?thesis by (simp add: FinishReason fan_out_finish)
qed (use assms in \<open>auto simp: fan_out_text fan_out_media fan_out_search fan_out_usage\<close>)

text \<open>C36. A stream event with a slot on the Gemini wire survives the trip through a chunk: fanning the chunk
  out returns exactly that event, and the call counter moves by one for a call and not otherwise.
\<close>

theorem gemini_encode_decode:
  assumes "gemini_keeps seq ev"
  shows "case gemini_encode_value parse ev of
           None \<Rightarrow> False
         | Some v \<Rightarrow> fan_out_gemini_parts to_str v seq =
             (Some [ev], case ev of ToolCallStart _ _ _ _ \<Rightarrow> Suc seq | _ \<Rightarrow> seq)"
  using assms by (rule gemini_keeps_reads_back)

theorem gemini_encode_decode_witness:
  "fan_out_gemini_parts (\<lambda>_. []) (gemini_one [(''finishReason'', JString ''RECITATION'')]) 7
     = (Some [FinishReason ''content_filter'' (Some ''RECITATION'')], 7)"
  using gemini_encode_decode [of 7 "FinishReason ''content_filter'' (Some ''RECITATION'')" "\<lambda>_. []" "\<lambda>_. None"]
  by (simp add: finish_token_def is_gemini_finish_token_def gemini_map_finish_def)


section \<open>Call numbering\<close>

definition start_indexes :: "ir_stream_event list \<Rightarrow> u32 list" where
  "start_indexes evs = List.map_filter (\<lambda>ev. case ev of ToolCallStart _ _ _ i \<Rightarrow> Some i | _ \<Rightarrow> None) evs"

definition visible_calls :: "json list \<Rightarrow> nat" where
  "visible_calls parts = length (filter (\<lambda>p. visible_call p \<noteq> None) parts)"

lemma start_indexes_simps [simp]:
  "start_indexes [] = []" "start_indexes (xs @ ys) = start_indexes xs @ start_indexes ys"
  "start_indexes (ToolCallStart a b c i # xs) = i # start_indexes xs"
  by (simp_all add: start_indexes_def map_filter_def)

lemma start_indexes_other: "\<forall>a b c i. ev \<noteq> ToolCallStart a b c i \<Longrightarrow> start_indexes (ev # xs) = start_indexes xs"
  by (cases ev) (simp_all add: start_indexes_def map_filter_def)

lemma start_indexes_opt: "\<forall>x a b c i. f x \<noteq> ToolCallStart a b c i \<Longrightarrow> start_indexes (opt_event f y) = []"
  by (cases y) (simp_all add: start_indexes_other)

lemma gemini_part_numbering:
  "start_indexes (fst (gemini_part_events to_str part seq)) =
      (if visible_call part = None then [] else [u32_of_seq seq])
   \<and> snd (gemini_part_events to_str part seq) = (if visible_call part = None then seq else Suc seq)"
proof (cases "visible_call part")
  case None
  have "start_indexes [ev] = []" if "inline_data_event part = Some ev" for ev
    using that by (auto simp: inline_data_event_def Let_def start_indexes_other split: option.splits if_splits)
  with None show ?thesis
    by (auto simp: gemini_part_events_def Let_def start_indexes_opt start_indexes_other split: option.splits)
next
  case (Some fc)
  then show ?thesis by (simp add: gemini_part_events_def Let_def start_indexes_opt)
qed

text \<open>Function calls of a Gemini stream are numbered consecutively: the starts produced from a list of
  parts carry, in order, the counter values from the one on entry, one for each visible call, and the
  counter leaves after the last of them; so within the first \<open>2 ^ 32\<close> calls of a stream no two share an
  index.
\<close>

theorem gemini_calls_numbered:
  "start_indexes (fst (gemini_parts_events to_str parts seq)) = map u32_of_seq [seq ..< seq + visible_calls parts]
   \<and> snd (gemini_parts_events to_str parts seq) = seq + visible_calls parts
   \<and> (seq + visible_calls parts \<le> 2 ^ 32 \<longrightarrow> distinct (start_indexes (fst (gemini_parts_events to_str parts seq))))"
proof -
  have main: "start_indexes (fst (gemini_parts_events to_str parts seq)) = map u32_of_seq [seq ..< seq + visible_calls parts]
      \<and> snd (gemini_parts_events to_str parts seq) = seq + visible_calls parts"
  proof (induction parts arbitrary: seq)
    case (Cons part parts)
    show ?case
    proof (cases "visible_call part")
      case None
      then show ?thesis
        using gemini_part_numbering [of to_str part seq] Cons.IH [of seq]
        by (simp add: visible_calls_def case_prod_beta' Let_def)
    next
      case (Some fc)
      have "[seq ..< Suc (seq + n)] = seq # [Suc seq ..< Suc seq + n]" for n
        by (simp add: upt_conv_Cons del: upt_Suc)
      with Some show ?thesis
        using gemini_part_numbering [of to_str part seq] Cons.IH [of "Suc seq"]
        by (simp add: visible_calls_def case_prod_beta' Let_def del: upt_Suc)
    qed
  qed (simp add: visible_calls_def)
  moreover have "inj_on u32_of_seq {seq ..< seq + visible_calls parts}" if "seq + visible_calls parts \<le> 2 ^ 32"
  proof (rule inj_onI)
    fix x y
    assume "x \<in> {seq ..< seq + visible_calls parts}" "y \<in> {seq ..< seq + visible_calls parts}"
      and eq: "u32_of_seq x = u32_of_seq y"
    then have "x < 2 ^ 32" "y < 2 ^ 32" using that by auto
    with eq show "x = y"
      by (simp add: u32_of_seq_def word_of_nat_eq_iff take_bit_nat_eq_self)
  qed
  ultimately show ?thesis by (simp add: distinct_map)
qed

theorem gemini_calls_numbered_witness:
  "distinct (start_indexes (fst (gemini_parts_events (\<lambda>_. []) [] 5)))"
  using gemini_calls_numbered [of "\<lambda>_. []" "[]" 5] by (simp add: visible_calls_def)

end
