(* ===== verification/Wm_Stream_Converse.thy ===== *)
theory Wm_Stream_Converse
  imports Wm_Stream_Gemini
begin

text \<open>
  \<open>stream/converse.rs\<close>: Bedrock Converse stream frames and complete bodies to stream events and back, with
  the image-format and service-tier helpers of \<open>map/mod.rs\<close> and \<open>map/converse.rs\<close> they call. The
  visibility tests of the same file are in \<open>Wm_Completion\<close>. \<open>debug\<close> is the derived \<open>Debug\<close> text of an
  event, which only an error message shows.
\<close>

section \<open>Formats, tiers, reasons\<close>

definition converse_image_format :: "string \<Rightarrow> string option" where
  "converse_image_format media_type =
     (let media = to_ascii_lowercase media_type;
          media = unwrap_or (strip_prefix ''image/'' media) media
      in if media = ''png'' then Some ''png''
         else if media = ''jpeg'' \<or> media = ''jpg'' then Some ''jpeg''
         else if media = ''gif'' then Some ''gif''
         else if media = ''webp'' then Some ''webp''
         else None)"

definition converse_image_media_type :: "string \<Rightarrow> string" where
  "converse_image_media_type format =
     (let f = to_ascii_lowercase format
      in if f = ''png'' then ''image/png''
         else if f = ''jpeg'' \<or> f = ''jpg'' then ''image/jpeg''
         else if f = ''gif'' then ''image/gif''
         else if f = ''webp'' then ''image/webp''
         else ''image/'' @ format)"

definition converse_service_tier :: "string \<Rightarrow> (string \<times> string option) option" where
  "converse_service_tier tier =
     (let trimmed = trim tier
      in if trimmed = [] then None
         else
           (let lower = to_ascii_lowercase trimmed
            in if lower \<in> {''flex'', ''priority'', ''reserved'', ''default''} then Some (lower, None)
               else if lower = ''auto'' then Some (''default'', Some ''auto maps to default'')
               else None))"

definition converse_finish_reason :: "string \<Rightarrow> string" where
  "converse_finish_reason reason =
     (if reason \<in> {''tool_use'', ''tool-use'', ''tool_calls''} then ''tool_use''
      else if reason \<in> {''max_tokens'', ''length''} then ''max_tokens''
      else if reason \<in> {''content_filtered'', ''content_filter'', ''content-filter''} then ''content_filtered''
      else if reason = ''stop_sequence'' then ''stop_sequence''
      else if reason = ''guardrail_intervened'' then ''guardrail_intervened''
      else ''end_turn'')"

definition converse_passthrough :: "string \<Rightarrow> bool" where
  "converse_passthrough ity = (ity \<in> {''additionalModelResponseFields'', ''metrics'', ''trace'', ''performanceConfig''})"


section \<open>Errors\<close>

definition converse_stream_frame :: "json \<Rightarrow> bool" where
  "converse_stream_frame v =
     list_ex (\<lambda>k. jget v k \<noteq> None)
       [''messageStart'', ''contentBlockStart'', ''contentBlockDelta'', ''contentBlockStop'', ''messageStop'', ''metadata'']"

definition openai_error_detail :: "json \<Rightarrow> string option" where
  "openai_error_detail v =
     or_else (json_string_error v) (Option.bind (ofilter is_object (jget v ''error'')) error_object_detail)"

definition trimmed_field :: "json \<Rightarrow> string \<Rightarrow> string option" where
  "trimmed_field v k = ofilter (\<lambda>s. s \<noteq> []) (map_option trim (Option.bind (jget v k) as_str))"

definition complete_exception_detail :: "json \<Rightarrow> string option" where
  "complete_exception_detail v =
     (if converse_has_completion v then None
      else case (trimmed_field v ''__type'', trimmed_field v ''message'') of
             (Some ty, Some message) \<Rightarrow> Some (ty @ '': '' @ message)
           | (Some ty, None) \<Rightarrow> Some ty
           | (None, Some message) \<Rightarrow> Some message
           | (None, None) \<Rightarrow> if converse_stream_frame v then None else openai_error_detail v)"


section \<open>Pieces\<close>

definition content_block_index :: "json \<Rightarrow> map_error + u32" where
  "content_block_index block =
     (case check_index block ''contentBlockIndex'' MAX_CONTENT_BLOCK_INDEX ''content block'' of
        Inl e \<Rightarrow> Inl e
      | Inr _ \<Rightarrow> Inr (unwrap_or (Option.bind (Option.bind (jget block ''contentBlockIndex'') as_u64) u32_try_from) 0))"

definition annotation_from_converse_citation :: "json \<Rightarrow> json option" where
  "annotation_from_converse_citation citation =
     map_option (\<lambda>url. url_citation url (nonempty_str_opt (jget citation ''title'')))
       (nonempty_str_opt (or_else (pointer citation [''location'', ''web'', ''url'']) (jget citation ''source'')))"

definition converse_citation_from_annotation :: "json \<Rightarrow> json" where
  "converse_citation_from_annotation annotation =
     (let url = unwrap_or (annotation_url annotation) []
      in set_opt ''title'' (map_option JString (annotation_title annotation))
           (json_obj [(''source'', JString url), (''location'', json_obj [(''web'', json_obj [(''url'', JString url)])])]))"

definition audio_delta_from_block :: "json \<Rightarrow> ir_stream_event option" where
  "audio_delta_from_block audio =
     map_option AudioDelta (nonempty_str_opt (pointer audio [''source'', ''bytes'']))"

definition image_delta_from_converse :: "json \<Rightarrow> ir_stream_event option" where
  "image_delta_from_converse img =
     (case nonempty_str_opt (pointer img [''source'', ''bytes'']) of
        None \<Rightarrow> None
      | Some d \<Rightarrow>
          map_option (\<lambda>format. ImageDelta (converse_image_media_type format) d)
            (nonempty_str_opt (jget img ''format'')))"

definition service_tier_from :: "json \<Rightarrow> string option" where
  "service_tier_from v =
     nonempty_str_opt (or_else (pointer v [''metadata'', ''serviceTier'', ''type'']) (pointer v [''serviceTier'', ''type'']))"

text \<open>\<open>as u32\<close> keeps the low 32 bits.\<close>

definition usage_u32 :: "json \<Rightarrow> string \<Rightarrow> u32" where
  "usage_u32 usage key = ucast (unwrap_or (Option.bind (jget usage key) as_u64) 0)"

definition usage_from_converse :: "json \<Rightarrow> ir_stream_event" where
  "usage_from_converse usage =
     Usage (usage_u32 usage ''inputTokens'') (usage_u32 usage ''outputTokens'')
       (usage_u32 usage ''cacheReadInputTokens'') (usage_u32 usage ''cacheWriteInputTokens'') 0 0 0 None"

definition encode_converse_usage :: "u32 \<Rightarrow> u32 \<Rightarrow> u32 \<Rightarrow> u32 \<Rightarrow> json" where
  "encode_converse_usage p c cr cw =
     (let usage = json_obj [(''inputTokens'', json_u32 p), (''outputTokens'', json_u32 c)];
          usage = insert_if (cr > 0) ''cacheReadInputTokens'' (json_u32 cr) usage;
          usage = insert_if (cw > 0) ''cacheWriteInputTokens'' (json_u32 cw) usage;
          input_tokens = unwrap_or (Option.bind (jget usage ''inputTokens'') as_u64) 0;
          output_tokens = unwrap_or (Option.bind (jget usage ''outputTokens'') as_u64) 0
      in jinsert ''totalTokens'' (json_u64 (saturating_add input_tokens output_tokens)) usage)"

definition metadata_keys :: "string list" where
  "metadata_keys = [''additionalModelResponseFields'', ''metrics'', ''trace'', ''performanceConfig'']"

definition passthrough_events :: "json \<Rightarrow> ir_stream_event list" where
  "passthrough_events source =
     concat (map (\<lambda>key. opt_event (Protocol key) (ofilter (\<lambda>v. \<not> is_null v) (jget source key))) metadata_keys)"

definition decode_metadata_events :: "json \<Rightarrow> ir_stream_event list" where
  "decode_metadata_events v =
     opt_event ServiceTier (service_tier_from v)
     @ passthrough_events (unwrap_or (jget v ''metadata'') v)
     @ opt_event usage_from_converse (pointer v [''metadata'', ''usage''])"


section \<open>Stream frames\<close>

definition converse_delta_event :: "json \<Rightarrow> json \<Rightarrow> (map_error + ir_stream_event) option" where
  "converse_delta_event v delta =
     (case Option.bind (jget delta ''text'') as_str of
        Some text \<Rightarrow> Some (Inr (TextDelta text))
      | None \<Rightarrow>
     (case Option.bind (pointer delta [''reasoningContent'', ''text'']) as_str of
        Some text \<Rightarrow> Some (Inr (ReasoningDelta text))
      | None \<Rightarrow>
     (case Option.bind (pointer delta [''reasoningContent'', ''signature'']) as_str of
        Some signature \<Rightarrow> Some (Inr (ReasoningSignature signature))
      | None \<Rightarrow>
     (case nonempty_str_opt (pointer delta [''reasoningContent'', ''redactedContent'']) of
        Some blob \<Rightarrow> Some (Inr (Protocol ''converse_redacted_content'' (JString blob)))
      | None \<Rightarrow>
     (case Option.bind (pointer delta [''toolUse'', ''input'']) as_str of
        Some input \<Rightarrow>
          (let block = unwrap_or (jget v ''contentBlockDelta'') v
           in Some (case content_block_index block of
                      Inl e \<Rightarrow> Inl e | Inr index \<Rightarrow> Inr (ToolCallArgDelta input index)))
      | None \<Rightarrow>
          map_option (\<lambda>citation.
              Inr (case annotation_from_converse_citation citation of
                     Some annotation \<Rightarrow> AnnotationAdded annotation
                   | None \<Rightarrow> Protocol ''converse_frame'' v))
            (jget delta ''citation''))))))"

definition converse_decode :: "json \<Rightarrow> map_error + ir_stream_event option" where
  "converse_decode v =
     (case complete_exception_detail v of
        Some d \<Rightarrow> Inl (MapInvalid d)
      | None \<Rightarrow>
     (case Option.bind (pointer v [''contentBlockDelta'', ''delta'']) (converse_delta_event v) of
        Some (Inl e) \<Rightarrow> Inl e
      | Some (Inr ev) \<Rightarrow> Inr (Some ev)
      | None \<Rightarrow>
     (case Option.bind (jget v ''contentBlockStart'') (\<lambda>s. pointer s [''start'', ''toolUse'']) of
        Some tool \<Rightarrow>
          (case content_block_index (unwrap_or (jget v ''contentBlockStart'') v) of
             Inl e \<Rightarrow> Inl e
           | Inr index \<Rightarrow>
               Inr (Some (ToolCallStart (unwrap_or (Option.bind (jget tool ''toolUseId'') as_str) [])
                            (unwrap_or (Option.bind (jget tool ''name'') as_str) []) None index)))
      | None \<Rightarrow>
     (case Option.bind (jget v ''contentBlockStart'') (\<lambda>s. pointer s [''start'', ''image'']) of
        Some img \<Rightarrow> Inr (image_delta_from_converse img)
      | None \<Rightarrow>
     (case Option.bind (jget v ''contentBlockStart'') (\<lambda>s. pointer s [''start'', ''audio'']) of
        Some audio \<Rightarrow> Inr (audio_delta_from_block audio)
      | None \<Rightarrow>
          if jget v ''contentBlockStop'' \<noteq> None then Inr None
          else
     (case Option.bind (pointer v [''messageStop'', ''stopReason'']) as_str of
        Some stop \<Rightarrow> Inr (Some (FinishReason stop None))
      | None \<Rightarrow>
     (case pointer v [''metadata'', ''usage''] of
        Some usage \<Rightarrow> Inr (Some (usage_from_converse usage))
      | None \<Rightarrow>
     (case service_tier_from v of
        Some tier \<Rightarrow> Inr (Some (ServiceTier tier))
      | None \<Rightarrow>
          if jget v ''messageStart'' \<noteq> None then Inr None
          else Inr (Some (Unknown ''converse'' v))))))))))"

definition delta_frame :: "(string \<times> json) list \<Rightarrow> json" where
  "delta_frame delta = json_obj [(''contentBlockDelta'', json_obj [(''delta'', json_obj delta)])]"

definition start_frame :: "(string \<times> json) list \<Rightarrow> json" where
  "start_frame start = json_obj [(''contentBlockStart'', json_obj [(''start'', json_obj start)])]"

definition unsupported_image :: "string \<Rightarrow> map_error" where
  "unsupported_image media_type = MapInvalid (''converse image format is not supported: '' @ media_type)"

fun converse_encode ::
  "(ir_stream_event \<Rightarrow> string) \<Rightarrow> (string \<Rightarrow> json option) \<Rightarrow> (json \<Rightarrow> string) \<Rightarrow> ir_stream_event \<Rightarrow> map_error + json" where
  "converse_encode debug parse to_str (TextDelta text) = Inr (delta_frame [(''text'', JString text)])"
| "converse_encode debug parse to_str (RefusalDelta text) = Inr (delta_frame [(''text'', JString text)])"
| "converse_encode debug parse to_str (AudioTranscriptDelta text) = Inr (delta_frame [(''text'', JString text)])"
| "converse_encode debug parse to_str (ReasoningDelta text) =
     Inr (delta_frame [(''reasoningContent'', json_obj [(''text'', JString text)])])"
| "converse_encode debug parse to_str (ReasoningSignature sig) =
     Inr (delta_frame [(''reasoningContent'', json_obj [(''signature'', JString sig)])])"
| "converse_encode debug parse to_str (ToolCallStart id' name _ _) =
     Inr (start_frame [(''toolUse'', json_obj [(''toolUseId'', JString id'), (''name'', JString name)])])"
| "converse_encode debug parse to_str (CustomToolCallStart id' name _) =
     Inr (start_frame [(''toolUse'', json_obj [(''toolUseId'', JString id'), (''name'', JString name)])])"
| "converse_encode debug parse to_str (AnnotationAdded ann) =
     Inr (delta_frame [(''citation'', converse_citation_from_annotation ann)])"
| "converse_encode debug parse to_str (ImageDelta media_type d) =
     (case converse_image_format media_type of
        None \<Rightarrow> Inl (unsupported_image media_type)
      | Some format \<Rightarrow>
          Inr (start_frame [(''image'', json_obj [(''format'', JString format),
                 (''source'', json_obj [(''bytes'', JString d)])])]))"
| "converse_encode debug parse to_str (AudioDelta d) =
     Inr (start_frame [(''audio'', json_obj [(''format'', JString ''mp3''),
            (''source'', json_obj [(''bytes'', JString d)])])])"
| "converse_encode debug parse to_str (Logprobs _ _) = Inr (delta_frame [(''text'', JString [])])"
| "converse_encode debug parse to_str (Created _) = Inr (delta_frame [(''text'', JString [])])"
| "converse_encode debug parse to_str (Metadata _) = Inr (delta_frame [(''text'', JString [])])"
| "converse_encode debug parse to_str (Moderation _ _) = Inr (delta_frame [(''text'', JString [])])"
| "converse_encode debug parse to_str (SearchEntryPoint _) = Inr (json_obj [])"
| "converse_encode debug parse to_str (ServiceTier tier) =
     Inr (json_obj [(''metadata'', json_obj (case converse_service_tier tier of
            None \<Rightarrow> [] | Some (mapped, _) \<Rightarrow> [(''serviceTier'', json_obj [(''type'', JString mapped)])]))])"
| "converse_encode debug parse to_str (ToolCallArgDelta delta _) =
     Inr (delta_frame [(''toolUse'', json_obj [(''input'', JString delta)])])"
| "converse_encode debug parse to_str (CustomToolCallInputDelta delta _) =
     Inr (delta_frame [(''toolUse'',
            json_obj [(''input'', JString (to_str (response_custom_tool_input parse delta)))])])"
| "converse_encode debug parse to_str ToolCallEnd = Inr (json_obj [(''contentBlockStop'', json_obj [])])"
| "converse_encode debug parse to_str (FinishReason reason _) =
     Inr (json_obj [(''messageStop'', json_obj [(''stopReason'', JString (converse_finish_reason reason))])])"
| "converse_encode debug parse to_str (Usage p c cr cw _ _ _ _) =
     Inr (json_obj [(''metadata'', json_obj [(''usage'', encode_converse_usage p c cr cw)])])"
| "converse_encode debug parse to_str Done =
     Inr (json_obj [(''messageStop'', json_obj [(''stopReason'', JString ''end_turn'')])])"
| "converse_encode debug parse to_str ev = Inl (MapInvalid (''converse stream cannot encode '' @ debug ev))"


section \<open>Complete bodies\<close>

record converse_tool =
  ct_id :: string
  ct_name :: string
  ct_args :: string
  ct_custom :: bool

definition converse_tool_default :: converse_tool where
  "converse_tool_default = \<lparr>ct_id = [], ct_name = [], ct_args = [], ct_custom = False\<rparr>"

definition tool_named :: "converse_tool \<Rightarrow> bool" where
  "tool_named t = (ct_id t \<noteq> [] \<or> ct_name t \<noteq> [])"

type_synonym open_tools = "(u32 \<times> converse_tool) list"

definition note_converse_tool ::
  "u32 \<Rightarrow> string \<Rightarrow> string \<Rightarrow> bool \<Rightarrow> open_tools \<times> open_tools \<Rightarrow> open_tools \<times> open_tools" where
  "note_converse_tool index id' name custom od =
     (let (open_ts, done_ts) =
        (case map_of (fst od) index of
           Some existing \<Rightarrow>
             if id' \<noteq> [] \<and> ct_id existing \<noteq> [] \<and> ct_id existing \<noteq> id'
             then (bt_remove index (fst od), snd od @ [(index, existing)]) else od
         | None \<Rightarrow> od);
          slot = unwrap_or (map_of open_ts index) converse_tool_default;
          slot = (if ct_id slot = [] then slot\<lparr>ct_id := id'\<rparr> else slot);
          slot = (if ct_name slot = [] then slot\<lparr>ct_name := name\<rparr> else slot)
      in (bt_insert index (slot\<lparr>ct_custom := custom\<rparr>) open_ts, done_ts))"

definition converse_tool_use :: "(string \<Rightarrow> json option) \<Rightarrow> converse_tool \<Rightarrow> json" where
  "converse_tool_use parse t =
     (let input = (if ct_custom t then response_custom_tool_input parse (ct_args t)
                   else unwrap_or (parse (ct_args t)) (JString (ct_args t)))
      in json_obj [(''toolUse'', json_obj [(''toolUseId'', JString (ct_id t)), (''name'', JString (ct_name t)),
           (''input'', input)])])"

record complete_state =
  cc_text :: string
  cc_content :: "json list"
  cc_open :: open_tools
  cc_done :: open_tools
  cc_citations :: "json list"
  cc_reasoning :: string
  cc_signature :: "string option"
  cc_redacted :: "string list"
  cc_audio :: string
  cc_stop :: string
  cc_usage :: "(u32 \<times> u32 \<times> u32 \<times> u32) option"
  cc_tier :: "string option"
  cc_pass :: "(string \<times> json) list"

definition complete_init :: complete_state where
  "complete_init = \<lparr>cc_text = [], cc_content = [], cc_open = [], cc_done = [], cc_citations = [], cc_reasoning = [],
     cc_signature = None, cc_redacted = [], cc_audio = [], cc_stop = ''end_turn'', cc_usage = None, cc_tier = None,
     cc_pass = []\<rparr>"

definition flush_text :: "string \<Rightarrow> json list \<Rightarrow> json list" where
  "flush_text text content = (if text = [] then content else content @ [json_obj [(''text'', JString text)]])"

definition cc_flush :: "complete_state \<Rightarrow> complete_state" where
  "cc_flush st = st\<lparr>cc_content := flush_text (cc_text st) (cc_content st), cc_text := []\<rparr>"

definition converse_block_key :: "string \<Rightarrow> string option" where
  "converse_block_key ity =
     (if ity = ''converse_guard_content'' then Some ''guardContent''
      else if ity = ''converse_document'' then Some ''document''
      else if ity = ''converse_video'' then Some ''video''
      else if ity = ''converse_image'' then Some ''image''
      else if ity = ''converse_audio'' then Some ''audio''
      else None)"

definition cc_note :: "u32 \<Rightarrow> string \<Rightarrow> string \<Rightarrow> bool \<Rightarrow> complete_state \<Rightarrow> complete_state" where
  "cc_note index id' name custom st =
     (let st = cc_flush st;
          (open_ts, done_ts) = note_converse_tool index id' name custom (cc_open st, cc_done st)
      in st\<lparr>cc_open := open_ts, cc_done := done_ts\<rparr>)"

definition cc_arg :: "u32 \<Rightarrow> string \<Rightarrow> complete_state \<Rightarrow> complete_state" where
  "cc_arg index delta st =
     (let slot = unwrap_or (map_of (cc_open st) index) converse_tool_default
      in st\<lparr>cc_open := bt_insert index (slot\<lparr>ct_args := ct_args slot @ delta\<rparr>) (cc_open st)\<rparr>)"

definition cc_protocol :: "string \<Rightarrow> json \<Rightarrow> complete_state \<Rightarrow> complete_state" where
  "cc_protocol ity p st =
     (if ity = ''converse_redacted_content'' then
        (case ofilter (\<lambda>s. s \<noteq> []) (as_str p) of
           None \<Rightarrow> st | Some blob \<Rightarrow> st\<lparr>cc_redacted := cc_redacted st @ [blob]\<rparr>)
      else if ity = ''converse_citation'' \<and> is_object p then st\<lparr>cc_citations := cc_citations st @ [p]\<rparr>
      else if is_object p \<and> converse_block_key ity \<noteq> None then
        (let st = cc_flush st
         in st\<lparr>cc_content := cc_content st @ [json_obj [(unwrap_or (converse_block_key ity) [], p)]]\<rparr>)
      else if converse_passthrough ity \<and> \<not> is_null p then st\<lparr>cc_pass := cc_pass st @ [(ity, p)]\<rparr>
      else st)"

fun complete_step :: "ir_stream_event \<Rightarrow> complete_state \<Rightarrow> map_error + complete_state" where
  "complete_step (TextDelta d) st = Inr (st\<lparr>cc_text := cc_text st @ d\<rparr>)"
| "complete_step (AudioTranscriptDelta d) st = Inr (st\<lparr>cc_text := cc_text st @ d\<rparr>)"
| "complete_step (RefusalDelta d) st = Inr (st\<lparr>cc_text := cc_text st @ d\<rparr>)"
| "complete_step (ReasoningDelta d) st = Inr (st\<lparr>cc_reasoning := cc_reasoning st @ d\<rparr>)"
| "complete_step (ReasoningSignature s) st = Inr (st\<lparr>cc_signature := Some s\<rparr>)"
| "complete_step (AudioDelta d) st = Inr (st\<lparr>cc_audio := cc_audio st @ d\<rparr>)"
| "complete_step (ImageDelta media_type d) st =
     (case converse_image_format media_type of
        None \<Rightarrow> Inl (unsupported_image media_type)
      | Some format \<Rightarrow>
          (let st = cc_flush st
           in Inr (st\<lparr>cc_content := cc_content st @ [json_obj [(''image'', json_obj [(''format'', JString format),
                      (''source'', json_obj [(''bytes'', JString d)])])]]\<rparr>)))"
| "complete_step (AnnotationAdded ann) st =
     Inr (st\<lparr>cc_citations := cc_citations st @ [converse_citation_from_annotation ann]\<rparr>)"
| "complete_step (ToolCallStart id' name _ index) st = Inr (cc_note index id' name False st)"
| "complete_step (CustomToolCallStart id' name index) st = Inr (cc_note index id' name True st)"
| "complete_step (ToolCallArgDelta d index) st = Inr (cc_arg index d st)"
| "complete_step (CustomToolCallInputDelta d index) st = Inr (cc_arg index d st)"
| "complete_step (FinishReason reason _) st = Inr (st\<lparr>cc_stop := converse_finish_reason reason\<rparr>)"
| "complete_step (ServiceTier tier) st =
     Inr (case converse_service_tier tier of None \<Rightarrow> st | Some (mapped, _) \<Rightarrow> st\<lparr>cc_tier := Some mapped\<rparr>)"
| "complete_step (Usage p c cr cw _ _ _ _) st = Inr (st\<lparr>cc_usage := Some (p, c, cr, cw)\<rparr>)"
| "complete_step (Protocol ity p) st = Inr (cc_protocol ity p st)"
| "complete_step _ st = Inr st"

fun complete_steps :: "ir_stream_event list \<Rightarrow> complete_state \<Rightarrow> map_error + complete_state" where
  "complete_steps [] st = Inr st"
| "complete_steps (ev # evs) st =
     (case complete_step ev st of Inl e \<Rightarrow> Inl e | Inr st' \<Rightarrow> complete_steps evs st')"

definition reasoning_prefix :: "complete_state \<Rightarrow> json list" where
  "reasoning_prefix st =
     map (\<lambda>blob. json_obj [(''reasoningContent'', json_obj [(''redactedContent'', JString blob)])]) (cc_redacted st)
     @ (if cc_reasoning st \<noteq> [] \<or> is_some_and (cc_signature st) (\<lambda>s. s \<noteq> []) then
          [json_obj [(''reasoningContent'', json_obj [(''reasoningText'',
              set_opt ''signature'' (map_option JString (ofilter (\<lambda>s. s \<noteq> []) (cc_signature st)))
                (json_obj [(''text'', JString (cc_reasoning st))]))])]]
        else [])
     @ (if cc_audio st \<noteq> [] then
          [json_obj [(''audio'', json_obj [(''format'', JString ''mp3''),
              (''source'', json_obj [(''bytes'', JString (cc_audio st))])])]]
        else [])"

definition citations_block :: "json list \<Rightarrow> json list \<Rightarrow> json" where
  "citations_block run citations =
     json_obj [(''citationsContent'', json_obj [(''content'', JArray run), (''citations'', JArray citations)])]"

text \<open>The first run of text blocks takes the citations; later runs stay as they are.\<close>

definition flush_run :: "json list \<Rightarrow> json list \<times> json list \<times> bool \<Rightarrow> json list \<times> json list \<times> bool" where
  "flush_run citations krc =
     (case krc of (kept, run, cited) \<Rightarrow>
        if run = [] then (kept, run, cited)
        else if \<not> cited then (kept @ [citations_block run citations], [], True)
        else (kept @ run, [], cited))"

definition cite_step :: "json list \<Rightarrow> json list \<times> json list \<times> bool \<Rightarrow> json \<Rightarrow> json list \<times> json list \<times> bool" where
  "cite_step citations krc block =
     (if jget block ''text'' \<noteq> None then (case krc of (kept, run, cited) \<Rightarrow> (kept, run @ [block], cited))
      else (case flush_run citations krc of (kept, run, cited) \<Rightarrow> (kept @ [block], run, cited)))"

definition place_citations :: "json list \<Rightarrow> json list \<Rightarrow> json list" where
  "place_citations citations content =
     (case flush_run citations (foldl (cite_step citations) ([], [], False) content) of
        (kept, run, cited) \<Rightarrow> if cited then kept else kept @ [citations_block [] citations])"

definition complete_body :: "(string \<Rightarrow> json option) \<Rightarrow> complete_state \<Rightarrow> json" where
  "complete_body parse st =
     (let content = reasoning_prefix st @ cc_content st;
          content = (if cc_citations st = [] then flush_text (cc_text st) content
                     else place_citations (cc_citations st) (flush_text (cc_text st) content));
          tools = filter (\<lambda>(_, t). tool_named t) (cc_done st @ cc_open st);
          content = content @ map (\<lambda>(_, t). converse_tool_use parse t) tools;
          stop = (if tools \<noteq> [] \<and> cc_stop st = ''end_turn'' then ''tool_use'' else cc_stop st);
          body = json_obj [(''output'', json_obj [(''message'', json_obj [(''role'', JString ''assistant''),
                    (''content'', JArray content)])]), (''stopReason'', JString stop)];
          body = set_opt ''serviceTier'' (map_option (\<lambda>t. json_obj [(''type'', JString t)]) (cc_tier st)) body;
          body = set_opt ''usage''
                   (map_option (\<lambda>(i, out, cr, cw). encode_converse_usage i out cr cw) (cc_usage st)) body
      in foldl (\<lambda>b (k, v). jinsert k v b) body (cc_pass st))"

definition converse_encode_complete ::
  "(string \<Rightarrow> json option) \<Rightarrow> ir_stream_event list \<Rightarrow> map_error + json" where
  "converse_encode_complete parse evs =
     (case complete_steps evs complete_init of Inl e \<Rightarrow> Inl e | Inr st \<Rightarrow> Inr (complete_body parse st))"

definition citations_content_text :: "json \<Rightarrow> string" where
  "citations_content_text block =
     (case Option.bind (pointer block [''citationsContent'', ''content'']) as_array of
        None \<Rightarrow> []
      | Some parts \<Rightarrow> concat (map (\<lambda>part. unwrap_or (Option.bind (jget part ''text'') as_str) []) parts))"

definition converse_block_text :: "json \<Rightarrow> string" where
  "converse_block_text block =
     (let sibling = unwrap_or (Option.bind (jget block ''text'') as_str) [];
          generated = citations_content_text block
      in if sibling = [] then generated
         else if generated = [] \<or> sibling = generated then sibling
         else sibling @ generated)"

definition media_or_protocol :: "string \<Rightarrow> (json \<Rightarrow> ir_stream_event option) \<Rightarrow> json option \<Rightarrow> ir_stream_event list" where
  "media_or_protocol ity f v =
     (case v of
        None \<Rightarrow> []
      | Some w \<Rightarrow> (case f w of Some ev \<Rightarrow> [ev] | None \<Rightarrow> if is_object w then [Protocol ity w] else []))"

definition converse_block_events :: "(json \<Rightarrow> string) \<Rightarrow> json \<Rightarrow> u32 \<Rightarrow> ir_stream_event list \<times> u32" where
  "converse_block_events to_str block tool_ix =
     (let pre =
        text_events (converse_block_text block)
        @ opt_event ReasoningDelta (nonempty_str_opt (pointer block [''reasoningContent'', ''reasoningText'', ''text'']))
        @ opt_event ReasoningSignature
            (nonempty_str_opt (pointer block [''reasoningContent'', ''reasoningText'', ''signature'']))
        @ opt_event (\<lambda>blob. Protocol ''converse_redacted_content'' (JString blob))
            (nonempty_str_opt (pointer block [''reasoningContent'', ''redactedContent'']))
        @ media_or_protocol ''converse_audio'' audio_delta_from_block (jget block ''audio'')
        @ media_or_protocol ''converse_image'' image_delta_from_converse (jget block ''image'')
        @ opt_event (Protocol ''converse_guard_content'') (ofilter is_object (jget block ''guardContent''))
        @ opt_event (Protocol ''converse_document'') (ofilter is_object (jget block ''document''))
        @ opt_event (Protocol ''converse_video'') (ofilter is_object (jget block ''video''))
        @ (case Option.bind (pointer block [''citationsContent'', ''citations'']) as_array of
             None \<Rightarrow> []
           | Some citations \<Rightarrow>
               concat (map (\<lambda>citation. media_or_protocol ''converse_citation''
                   (\<lambda>c. map_option AnnotationAdded (annotation_from_converse_citation c)) (Some citation)) citations))
      in case ofilter converse_tool_visible (jget block ''toolUse'') of
           None \<Rightarrow> (pre, tool_ix)
         | Some tool \<Rightarrow>
             (pre @ [ToolCallStart (unwrap_or (Option.bind (jget tool ''toolUseId'') as_str) [])
                       (unwrap_or (Option.bind (jget tool ''name'') as_str) []) None tool_ix,
                     ToolCallArgDelta (case jget tool ''input'' of None \<Rightarrow> ''{}'' | Some v \<Rightarrow> to_str v) tool_ix,
                     ToolCallEnd],
              saturating_add tool_ix 1))"

fun converse_blocks_events :: "(json \<Rightarrow> string) \<Rightarrow> json list \<Rightarrow> u32 \<Rightarrow> ir_stream_event list" where
  "converse_blocks_events to_str [] i = []"
| "converse_blocks_events to_str (block # blocks) i =
     (case converse_block_events to_str block i of
        (out, i') \<Rightarrow> out @ converse_blocks_events to_str blocks i')"

definition converse_decode_complete :: "(json \<Rightarrow> string) \<Rightarrow> json \<Rightarrow> map_error + ir_stream_event list" where
  "converse_decode_complete to_str v =
     (case complete_exception_detail v of
        Some d \<Rightarrow> Inl (MapInvalid d)
      | None \<Rightarrow>
          Inr (converse_blocks_events to_str
                 (unwrap_or (Option.bind (pointer v [''output'', ''message'', ''content'']) as_array) []) 0
               @ opt_event (\<lambda>r. FinishReason r None) (Option.bind (jget v ''stopReason'') as_str)
               @ opt_event ServiceTier (service_tier_from v)
               @ opt_event usage_from_converse (jget v ''usage'')
               @ passthrough_events v
               @ [Done]))"


section \<open>Reading back stream frames\<close>

lemma lower_formats:
  "to_ascii_lowercase ''png'' = ''png''" "to_ascii_lowercase ''jpeg'' = ''jpeg''"
  "to_ascii_lowercase ''gif'' = ''gif''" "to_ascii_lowercase ''webp'' = ''webp''"
  "to_ascii_lowercase ''image/png'' = ''image/png''" "to_ascii_lowercase ''image/jpeg'' = ''image/jpeg''"
  "to_ascii_lowercase ''image/gif'' = ''image/gif''" "to_ascii_lowercase ''image/webp'' = ''image/webp''"
  by (simp_all add: to_ascii_lowercase_def ascii_lower_def byte_val_def)

text \<open>The events with a slot on a Converse frame. The writer leaves the block index out, so a call's
  events keep index 0 only.\<close>

fun converse_keeps :: "ir_stream_event \<Rightarrow> bool" where
  "converse_keeps (TextDelta _) = True"
| "converse_keeps (ReasoningDelta _) = True"
| "converse_keeps (ReasoningSignature _) = True"
| "converse_keeps (ToolCallStart _ _ sig i) = (sig = None \<and> i = 0)"
| "converse_keeps (ToolCallArgDelta _ i) = (i = 0)"
| "converse_keeps (AudioDelta d) = (d \<noteq> [])"
| "converse_keeps (ImageDelta mt d) =
     (d \<noteq> [] \<and> mt \<in> {''image/png'', ''image/jpeg'', ''image/gif'', ''image/webp''})"
| "converse_keeps (AnnotationAdded ann) =
     (case (annotation_title ann, annotation_url ann) of
        (Some title, Some url) \<Rightarrow> ann = plain_citation title url | _ \<Rightarrow> False)"
| "converse_keeps (FinishReason r vendor) = (vendor = None \<and> converse_finish_reason r = r)"
| "converse_keeps (Usage p c cr cw rs au cau geo) = (rs = 0 \<and> au = 0 \<and> cau = 0 \<and> geo = None)"
| "converse_keeps _ = False"

lemma no_exception:
  "list_all (\<lambda>k. jget v k = None) [''stopReason'', ''output'', ''__type'', ''message''] \<Longrightarrow>
     converse_stream_frame v \<Longrightarrow> complete_exception_detail v = None"
  by (simp add: complete_exception_detail_def converse_has_completion_def trimmed_field_def)

lemma ucast_u64_from [simp]: "ucast (u64_from n) = (n :: u32)"
  using u32_try_from_u64_from [of n] by (simp add: u32_try_from_def split: if_splits)

lemma converse_usage_round_trip: "usage_from_converse (encode_converse_usage p c cr cw) = Usage p c cr cw 0 0 0 None"
  by (auto simp: usage_from_converse_def encode_converse_usage_def usage_u32_def Let_def insert_if_def jget_jinsert_obj
      word_greater_zero_iff)

lemma converse_annotation_round_trip:
  assumes "converse_keeps (AnnotationAdded ann)"
  shows "annotation_from_converse_citation (converse_citation_from_annotation ann) = Some ann"
proof -
  obtain title url where t: "annotation_title ann = Some title" "annotation_url ann = Some url"
      "ann = plain_citation title url"
    using assms by (auto split: option.splits)
  then have "title \<noteq> []" "url \<noteq> []"
    by (auto simp: annotation_title_def annotation_url_def nonempty_str_opt_def ofilter_def
        split: option.splits if_splits)
  with t show ?thesis
    by (simp add: converse_citation_from_annotation_def annotation_from_converse_citation_def set_opt_def
        jget_jinsert_obj url_citation_def plain_citation_def json_obj_def)
qed

lemmas converse_frame_defs = delta_frame_def start_frame_def converse_decode_def converse_delta_event_def
  no_exception converse_stream_frame_def content_block_index_def check_index_def

lemma converse_keeps_reads_back:
  assumes "converse_keeps ev"
  shows "case converse_encode debug parse to_str ev of
           Inl e \<Rightarrow> False | Inr v \<Rightarrow> converse_decode v = Inr (Some ev)"
proof (cases ev)
  case (AnnotationAdded ann)
  then show ?thesis
    using assms converse_annotation_round_trip [of ann] by (simp add: converse_frame_defs)
next
  case (ImageDelta mt d)
  then have "d \<noteq> []" "mt = ''image/png'' \<or> mt = ''image/jpeg'' \<or> mt = ''image/gif'' \<or> mt = ''image/webp''"
    using assms by auto
  then show ?thesis
    by (elim disjE) (simp_all add: ImageDelta converse_frame_defs converse_image_format_def lower_formats
        image_delta_from_converse_def converse_image_media_type_def)
next
  case (Usage p c cr cw rs au cau geo)
  then show ?thesis
    using assms converse_usage_round_trip [of p c cr cw] by (simp add: converse_frame_defs)
qed (use assms in \<open>auto simp: converse_frame_defs audio_delta_from_block_def\<close>)

text \<open>C37. A stream event with a slot on the Converse wire survives the trip through a frame: decoding what
  \<open>encode\<close> wrote returns exactly that event.
\<close>

theorem converse_encode_decode:
  assumes "converse_keeps ev"
  shows "case converse_encode debug parse to_str ev of
           Inl e \<Rightarrow> False | Inr v \<Rightarrow> converse_decode v = Inr (Some ev)"
  using assms by (rule converse_keeps_reads_back)

theorem converse_encode_decode_witness:
  "converse_decode (json_obj [(''messageStop'', json_obj [(''stopReason'', JString ''tool_use'')])])
     = Inr (Some (FinishReason ''tool_use'' None))"
  using converse_encode_decode [of "FinishReason ''tool_use'' None" "\<lambda>_. []" "\<lambda>_. None" "\<lambda>_. []"]
  by (simp add: converse_finish_reason_def)


section \<open>Complete bodies keep every argument byte\<close>

text \<open>The argument bytes that belong to an index: sent, and collected so far.\<close>

definition call_bytes :: "u32 \<Rightarrow> ir_stream_event list \<Rightarrow> string" where
  "call_bytes i evs =
     concat (map (\<lambda>ev. case ev of
         ToolCallArgDelta d j \<Rightarrow> if j = i then d else []
       | CustomToolCallInputDelta d j \<Rightarrow> if j = i then d else []
       | _ \<Rightarrow> []) evs)"

definition tools_bytes :: "u32 \<Rightarrow> open_tools \<Rightarrow> string" where
  "tools_bytes i ts = concat (map (\<lambda>(j, t). if j = i then ct_args t else []) ts)"

definition collected :: "u32 \<Rightarrow> complete_state \<Rightarrow> string" where
  "collected i st = tools_bytes i (cc_done st) @ tools_bytes i (cc_open st)"

lemma tools_bytes_simps [simp]:
  "tools_bytes i [] = []" "tools_bytes i (xs @ ys) = tools_bytes i xs @ tools_bytes i ys"
  "tools_bytes i ((j, t) # ts) = (if j = i then ct_args t else []) @ tools_bytes i ts"
  by (simp_all add: tools_bytes_def)

lemma tools_bytes_absent: "i \<notin> fst ` set ts \<Longrightarrow> tools_bytes i ts = []"
  by (induction ts) auto

lemma tools_bytes_map_of:
  "bt_wf ts \<Longrightarrow> tools_bytes i ts = (case map_of ts i of None \<Rightarrow> [] | Some t \<Rightarrow> ct_args t)"
proof (induction ts)
  case (Cons p ts)
  obtain j t where p: "p = (j, t)" by force
  have "i = j \<Longrightarrow> tools_bytes i ts = []" using Cons.prems p by (intro tools_bytes_absent) auto
  with Cons p show ?case by auto
qed simp

lemma note_bytes:
  assumes wf: "bt_wf open_ts" and noted: "note_converse_tool index id' name custom (open_ts, done_ts) = (o', d')"
  shows "bt_wf o'" "tools_bytes i d' @ tools_bytes i o' = tools_bytes i done_ts @ tools_bytes i open_ts"
proof -
  show "bt_wf o'"
    using noted wf by (auto simp: note_converse_tool_def Let_def split: option.splits if_splits)
  then show "tools_bytes i d' @ tools_bytes i o' = tools_bytes i done_ts @ tools_bytes i open_ts"
    using noted wf
    by (cases "map_of open_ts index"; cases "index = i")
      (auto simp: note_converse_tool_def Let_def tools_bytes_map_of map_of_bt_remove converse_tool_default_def
        split: if_splits option.splits)
qed

lemma complete_step_bytes:
  assumes "bt_wf (cc_open st)" "complete_step ev st = Inr st'"
  shows "bt_wf (cc_open st') \<and> collected i st' = collected i st @ call_bytes i [ev]"
proof -
  have noted: "bt_wf (cc_open (cc_note index id' name custom st)) \<and>
      collected i (cc_note index id' name custom st) = collected i st" for index id' name custom
  proof -
    obtain o' d' where n: "note_converse_tool index id' name custom (cc_open st, cc_done st) = (o', d')" by force
    show ?thesis
      using note_bytes(1) [OF assms(1) n] note_bytes(2) [OF assms(1) n, of i] by (simp add: cc_note_def cc_flush_def Let_def n collected_def)
  qed
  have arg: "bt_wf (cc_open (cc_arg index d st)) \<and>
      collected i (cc_arg index d st) = collected i st @ (if index = i then d else [])" for index d
    using assms(1)
    by (cases "index = i"; cases "map_of (cc_open st) index")
      (auto simp: cc_arg_def Let_def collected_def tools_bytes_map_of converse_tool_default_def split: option.splits)
  have proto: "cc_open (cc_protocol ity p st) = cc_open st \<and> cc_done (cc_protocol ity p st) = cc_done st" for ity p
    by (auto simp: cc_protocol_def cc_flush_def Let_def split: option.splits)
  show ?thesis
    using assms noted arg proto
    by (cases ev)
      (auto simp: collected_def call_bytes_def cc_flush_def Let_def split: option.splits prod.splits)
qed

text \<open>Collecting a stream into a complete Converse body loses no argument byte: for every call index the
  arguments of the finished and the open calls together are the fragments sent for that index, custom
  input included, concatenated in order.
\<close>

theorem converse_complete_keeps_arguments:
  "complete_steps evs complete_init = Inr st \<Longrightarrow> collected i st = call_bytes i evs"
proof -
  have "bt_wf (cc_open s) \<Longrightarrow> complete_steps evs s = Inr st \<Longrightarrow> collected i st = collected i s @ call_bytes i evs" for s
  proof (induction evs arbitrary: s)
    case Nil
    then show ?case by (simp add: call_bytes_def)
  next
    case (Cons ev evs)
    from Cons.prems obtain s' where s': "complete_step ev s = Inr s'" "complete_steps evs s' = Inr st"
      by (auto split: sum.splits)
    have "bt_wf (cc_open s')" "collected i s' = collected i s @ call_bytes i [ev]"
      using complete_step_bytes [OF Cons.prems(1) s'(1), of i] by auto
    with Cons.IH [OF _ s'(2)] show ?case by (simp add: call_bytes_def)
  qed
  from this [of complete_init] show "complete_steps evs complete_init = Inr st \<Longrightarrow> collected i st = call_bytes i evs"
    by (simp add: complete_init_def collected_def)
qed

theorem converse_complete_keeps_arguments_witness:
  "\<exists>st. complete_steps [ToolCallStart ''a'' ''f'' None 0, ToolCallStart ''b'' ''g'' None 1,
       ToolCallArgDelta ''{'' 0, ToolCallArgDelta ''[]'' 1, ToolCallArgDelta ''}'' 0] complete_init = Inr st
     \<and> collected 0 st = ''{}''"
proof -
  let ?evs = "[ToolCallStart ''a'' ''f'' None 0, ToolCallStart ''b'' ''g'' None 1,
       ToolCallArgDelta ''{'' 0, ToolCallArgDelta ''[]'' 1, ToolCallArgDelta ''}'' 0]"
  obtain st where st: "complete_steps ?evs complete_init = Inr st" by simp
  show ?thesis
    using converse_complete_keeps_arguments [OF st, of 0] st by (simp add: call_bytes_def)
qed

text \<open>Converse counts are read modulo \<open>2 ^ 32\<close>: a reported count keeps its low 32 bits, where the readers
  of the other wires drop a count that does not fit.
\<close>

theorem converse_usage_wraps:
  "unat (usage_u32 (json_obj [(key, json_u64 n)]) key) = unat n mod 2 ^ 32
   \<and> u32_field (json_obj [(key, json_u64 n)]) key = (if unat n < 2 ^ 32 then Some (ucast n) else None)"
  by (simp add: usage_u32_def u32_field_def u32_try_from_def unsigned_ucast_eq take_bit_nat_def)

end
