(* ===== verification/Wm_Stream_Responses.thy ===== *)
theory Wm_Stream_Responses
  imports Wm_Stream_Converse
begin

text \<open>
  \<open>stream/responses.rs\<close>: OpenAI Responses frames to stream events and back. \<open>responses_decode\<close> is the
  singular decoder, \<open>responses_decode_all\<close> keeps every event of a frame, \<open>decode_terminal_events\<close> fans a
  terminal frame out. The helpers of \<open>stream/complete.rs\<close> these call (creation time, tier, metadata, the
  gateway error) are here too. \<open>to_str\<close> is \<open>serde_json\<close>'s printer.
\<close>

section \<open>Helpers of \<open>stream/complete.rs\<close>\<close>

definition string_metadata :: "json option \<Rightarrow> (string \<times> string) list option" where
  "string_metadata v =
     (case Option.bind v as_object of
        None \<Rightarrow> None
      | Some obj \<Rightarrow>
          (let m = foldl (\<lambda>m (k, w). case as_str w of None \<Rightarrow> m | Some s \<Rightarrow> bt_insert k s m) [] obj
           in if m = [] then None else Some m))"

definition created_event :: "json \<Rightarrow> ir_stream_event option" where
  "created_event v =
     map_option Created (Option.bind (or_else (jget v ''created_at'') (pointer v [''response'', ''created_at''])) as_i64)"

definition metadata_event :: "json \<Rightarrow> ir_stream_event option" where
  "metadata_event v =
     map_option Metadata (string_metadata (or_else (jget v ''metadata'') (pointer v [''response'', ''metadata''])))"

definition service_tier_event :: "json \<Rightarrow> ir_stream_event option" where
  "service_tier_event v =
     map_option ServiceTier
       (nonempty_str_opt (or_else (jget v ''service_tier'') (pointer v [''response'', ''service_tier''])))"

definition plain_error_detail :: "json \<Rightarrow> string option" where
  "plain_error_detail v =
     or_else (json_string_error v) (Option.bind (ofilter is_object (jget v ''error'')) error_object_detail)"

definition responses_gateway_error :: "json \<Rightarrow> string option" where
  "responses_gateway_error v =
     (if Option.bind (jget v ''status'') as_str \<noteq> None then None
      else if Option.bind (jget v ''object'') as_str = Some ''response'' then None
      else if starts_with ''response.'' (unwrap_or (Option.bind (jget v ''type'') as_str) []) then None
      else if list_ex (\<lambda>key. nonempty_array (jget v key)) [''output'', ''content'', ''choices'', ''candidates''] then None
      else plain_error_detail v)"


section \<open>Failures\<close>

definition useful_error :: "json \<Rightarrow> bool" where
  "useful_error err =
     (is_object err \<and>
      (is_some_and (Option.bind (jget err ''message'') as_str) (\<lambda>s. trim s \<noteq> [])
       \<or> (case jget err ''code'' of
            Some (JString text) \<Rightarrow> trim text \<noteq> [] | Some (JNumber _) \<Rightarrow> True | _ \<Rightarrow> False)))"

definition failure_object :: "json \<Rightarrow> json option" where
  "failure_object v =
     or_else (ofilter useful_error (pointer v [''response'', ''error'']))
       (ofilter useful_error (pointer v [''response'', ''last_error'']))"

definition last_error_code :: "json \<Rightarrow> string option" where
  "last_error_code err =
     (case jget err ''code'' of
        None \<Rightarrow> None
      | Some code \<Rightarrow>
          (case as_str code of
             Some text \<Rightarrow> (let text = trim text in if text = [] then None else Some text)
           | None \<Rightarrow> map_option show_int (as_i64 code)))"

definition failure_detail :: "json \<Rightarrow> string option" where
  "failure_detail v =
     (case failure_object v of
        None \<Rightarrow> None
      | Some err \<Rightarrow>
          (case (last_error_code err, trimmed_field err ''message'') of
             (Some code, Some message) \<Rightarrow> Some (code @ '': '' @ message)
           | (None, Some message) \<Rightarrow> Some message
           | (Some code, None) \<Rightarrow> Some code
           | (None, None) \<Rightarrow> None))"

definition reject_bare_responses_error :: "json \<Rightarrow> map_error + unit" where
  "reject_bare_responses_error v =
     (if responses_has_visible_output v then Inr ()
      else case or_else (json_string_error v)
                  (or_else (Option.bind (ofilter is_object (jget v ''error'')) error_object_detail) (failure_detail v)) of
             Some d \<Rightarrow> Inl (MapInvalid d) | None \<Rightarrow> Inr ())"


section \<open>Pieces\<close>

definition output_index :: "json \<Rightarrow> u32" where
  "output_index v = unwrap_or (Option.bind (Option.bind (jget v ''output_index'') as_u64) u32_try_from) 0"

definition frame_item_type :: "json \<Rightarrow> string option" where
  "frame_item_type v = Option.bind (Option.bind (jget v ''item'') (\<lambda>item. jget item ''type'')) as_str"

definition frame_item :: "json \<Rightarrow> json" where
  "frame_item v = unwrap_or (jget v ''item'') v"

definition nonempty_delta :: "json \<Rightarrow> (string \<Rightarrow> ir_stream_event) \<Rightarrow> map_error + ir_stream_event option" where
  "nonempty_delta v wrap = Inr (map_option wrap (ofilter (\<lambda>s. s \<noteq> []) (str_field v ''delta'')))"

definition check_responses_indexes :: "json \<Rightarrow> map_error + unit" where
  "check_responses_indexes v =
     (case check_index v ''output_index'' MAX_TOOL_CALL_INDEX ''output'' of
        Inl e \<Rightarrow> Inl e
      | Inr _ \<Rightarrow> check_index v ''content_index'' MAX_TOOL_CALL_INDEX ''content'')"

definition logprobs_array :: "json \<Rightarrow> json option" where
  "logprobs_array v =
     map_option JArray (ofilter (\<lambda>a. a \<noteq> []) (Option.bind (jget v ''logprobs'') as_array))"

definition nonempty_field :: "json \<Rightarrow> string \<Rightarrow> string option" where
  "nonempty_field v k = ofilter (\<lambda>s. s \<noteq> []) (str_field v k)"

definition audio_events_from_output_part :: "json \<Rightarrow> ir_stream_event list" where
  "audio_events_from_output_part part =
     (if Option.bind (jget part ''type'') as_str \<in> {Some ''output_audio'', Some ''audio''} then
        opt_event AudioDelta (nonempty_field part ''data'')
        @ opt_event AudioTranscriptDelta (nonempty_field part ''transcript'')
      else [])"

definition image_delta_from_output_image :: "json \<Rightarrow> ir_stream_event option" where
  "image_delta_from_output_image part =
     (if Option.bind (jget part ''type'') as_str \<noteq> Some ''output_image'' then None
      else case Option.bind (Option.bind (Option.bind (jget part ''image_url'') as_str) (strip_prefix ''data:''))
                  (split_once_str '';base64,'') of
             None \<Rightarrow> None
           | Some (media_type, d) \<Rightarrow>
               if d = [] \<or> \<not> starts_with ''image/'' (to_ascii_lowercase media_type) then None
               else Some (ImageDelta media_type d))"

definition part_events :: "json \<Rightarrow> ir_stream_event list" where
  "part_events part =
     (let ty = Option.bind (jget part ''type'') as_str
      in (if ty = Some ''output_text'' \<or> ty = Some ''text'' then opt_event TextDelta (nonempty_field part ''text'') else [])
         @ (if ty = Some ''refusal'' then
              opt_event RefusalDelta
                (ofilter (\<lambda>s. s \<noteq> []) (or_else (str_field part ''refusal'') (str_field part ''text'')))
            else [])
         @ (case image_delta_from_output_image part of
              Some ev \<Rightarrow> [ev]
            | None \<Rightarrow> if ty = Some ''output_image'' then [Protocol ''output_image'' part] else [])
         @ audio_events_from_output_part part)"

definition content_part_events :: "json \<Rightarrow> ir_stream_event list" where
  "content_part_events v = part_events (unwrap_or (jget v ''part'') v)"

definition named_event :: "string \<Rightarrow> string option \<Rightarrow> ir_stream_event list" where
  "named_event ity s = opt_event (\<lambda>t. Protocol ity (JString t)) s"

definition message_item_identity_events :: "json \<Rightarrow> ir_stream_event list" where
  "message_item_identity_events item =
     named_event ''responses_message_id'' (nonempty_field item ''id'')
     @ named_event ''responses_message_status'' (nonempty_field item ''status'')
     @ named_event ''responses_message_phase'' (nonempty_field item ''phase'')
     @ opt_event (Protocol ''responses_message_agent'')
         (ofilter (\<lambda>agent. nonempty_str agent ''agent_name'') (jget item ''agent''))"

definition message_content_events :: "json \<Rightarrow> ir_stream_event list" where
  "message_content_events item =
     message_item_identity_events item
     @ (case Option.bind (jget item ''content'') as_array of
          None \<Rightarrow> [] | Some content \<Rightarrow> concat (map part_events content))"

definition tool_item_id_event :: "json \<Rightarrow> u32 \<Rightarrow> ir_stream_event option" where
  "tool_item_id_event item index =
     (case (nonempty_field item ''id'', nonempty_field item ''call_id'') of
        (Some item_id, Some call_id) \<Rightarrow>
          if item_id = call_id then None
          else Some (Protocol ''responses_tool_item_id'' (json_obj [(''index'', json_u32 index), (''id'', JString item_id)]))
      | _ \<Rightarrow> None)"

definition tool_item_caller_event :: "json \<Rightarrow> u32 \<Rightarrow> ir_stream_event option" where
  "tool_item_caller_event item index =
     map_option (\<lambda>caller. Protocol ''responses_tool_caller'' (json_obj [(''index'', json_u32 index), (''caller'', caller)]))
       (ofilter (\<lambda>caller. nonempty_str caller ''type'') (jget item ''caller''))"

definition tool_item_created_by_event :: "json \<Rightarrow> u32 \<Rightarrow> ir_stream_event option" where
  "tool_item_created_by_event item index =
     map_option (\<lambda>s. Protocol ''responses_tool_created_by'' (json_obj [(''index'', json_u32 index), (''created_by'', JString s)]))
       (nonempty_field item ''created_by'')"

definition tool_item_namespace_event :: "json \<Rightarrow> u32 \<Rightarrow> ir_stream_event option" where
  "tool_item_namespace_event item index =
     map_option (\<lambda>s. Protocol ''responses_tool_namespace'' (json_obj [(''index'', json_u32 index), (''namespace'', JString s)]))
       (nonempty_field item ''namespace'')"

definition tool_item_status_event :: "json \<Rightarrow> u32 \<Rightarrow> ir_stream_event option" where
  "tool_item_status_event item index =
     map_option (\<lambda>s. Protocol ''responses_tool_status'' (json_obj [(''index'', json_u32 index), (''status'', JString s)]))
       (nonempty_field item ''status'')"

definition tool_item_events :: "json \<Rightarrow> u32 \<Rightarrow> ir_stream_event list" where
  "tool_item_events item index =
     opt_event id (tool_item_id_event item index) @ opt_event id (tool_item_caller_event item index)
     @ opt_event id (tool_item_created_by_event item index) @ opt_event id (tool_item_namespace_event item index)
     @ opt_event id (tool_item_status_event item index)"

definition reasoning_part_kept :: "json \<Rightarrow> bool" where
  "reasoning_part_kept part =
     (Option.bind (jget part ''type'') as_str = Some ''reasoning_text'' \<and> nonempty_field part ''text'' \<noteq> None)"

definition reasoning_item_identity_events :: "json \<Rightarrow> ir_stream_event list" where
  "reasoning_item_identity_events item =
     (if Option.bind (jget item ''type'') as_str \<noteq> Some ''reasoning'' then []
      else named_event ''responses_reasoning_id'' (nonempty_field item ''id'')
        @ named_event ''responses_reasoning_status'' (nonempty_field item ''status'')
        @ (case Option.bind (jget item ''content'') as_array of
             None \<Rightarrow> []
           | Some parts \<Rightarrow>
               (let kept = filter reasoning_part_kept parts
                in if kept = [] then [] else [Protocol ''responses_reasoning_content'' (JArray kept)])))"

definition replay_output_item :: "json \<Rightarrow> ir_stream_event list" where
  "replay_output_item item =
     (let ty = unwrap_or (Option.bind (jget item ''type'') as_str) [];
          encrypted = nonempty_str item ''encrypted_content'';
          decomposed = (ty \<in> {''message'', ''function_call'', ''custom_tool_call'', ''reasoning'', ''output_audio''})
      in if encrypted \<or> (ty \<noteq> [] \<and> \<not> decomposed)
         then [Protocol (if ty = [] then ''reasoning'' else ty) item] else [])"

definition is_reasoning_content :: "ir_stream_event \<Rightarrow> bool" where
  "is_reasoning_content ev = (case ev of Protocol ity _ \<Rightarrow> ity = ''responses_reasoning_content'' | _ \<Rightarrow> False)"

definition responses_terminal_keeps_output :: "json \<Rightarrow> bool" where
  "responses_terminal_keeps_output v =
     (case or_else (Option.bind (jget v ''output'') as_array) (Option.bind (pointer v [''response'', ''output'']) as_array) of
        None \<Rightarrow> False
      | Some items \<Rightarrow>
          list_ex (\<lambda>item. replay_output_item item \<noteq> []
                     \<or> list_ex is_reasoning_content (reasoning_item_identity_events item)) items)"

definition response_slot_events :: "json \<Rightarrow> ir_stream_event list" where
  "response_slot_events v =
     named_event ''responses_id''
       (ofilter (\<lambda>s. trim s \<noteq> []) (Option.bind (or_else (pointer v [''response'', ''id'']) (jget v ''id'')) as_str))
     @ named_event ''responses_previous_id''
         (ofilter (\<lambda>s. trim s \<noteq> [])
            (Option.bind (or_else (pointer v [''response'', ''previous_response_id'']) (jget v ''previous_response_id'')) as_str))
     @ opt_event id (created_event v)
     @ opt_event id (service_tier_event v)
     @ opt_event id (metadata_event v)
     @ opt_event id (moderation_event v)"

definition decode_incomplete_reason :: "json \<Rightarrow> string \<Rightarrow> string" where
  "decode_incomplete_reason v fallback =
     (let r = Option.bind (pointer v [''response'', ''incomplete_details'', ''reason'']) as_str
      in if r = Some ''content_filter'' then ''content_filter''
         else if r = Some ''max_output_tokens'' then ''length''
         else fallback)"

definition incomplete_details_reason :: "string \<Rightarrow> string option" where
  "incomplete_details_reason reason =
     (if reason = ''content_filter'' then Some ''content_filter''
      else if reason = ''length'' \<or> reason = ''max_tokens'' then Some ''max_output_tokens''
      else None)"

definition terminal_finish_reason :: "string \<Rightarrow> json \<Rightarrow> string option" where
  "terminal_finish_reason name v =
     (case Option.bind (pointer v [''response'', ''status'']) as_str of
        Some s \<Rightarrow>
          if s = ''completed'' then Some ''stop''
          else if s = ''incomplete'' then Some (decode_incomplete_reason v ''length'')
          else if s = ''failed'' then Some ''failed''
          else if s \<noteq> [] then Some s
          else None
      | None \<Rightarrow>
          if name = ''response.incomplete'' then Some (decode_incomplete_reason v ''incomplete'')
          else if name = ''response.completed'' \<and> is_some_and (pointer v [''response'', ''usage'']) is_object then Some ''stop''
          else None)"

definition terminal_item_events :: "json \<Rightarrow> ir_stream_event list" where
  "terminal_item_events item =
     (let replay = replay_output_item item
      in (if replay = [] then reasoning_item_identity_events item else []) @ replay)"

definition decode_terminal_events :: "string \<Rightarrow> json \<Rightarrow> ir_stream_event list option" where
  "decode_terminal_events name v =
     (if name \<notin> {''response.completed'', ''response.incomplete'', ''response.failed''} then None
      else
        (let items = unwrap_or (Option.bind (pointer v [''response'', ''output'']) as_array) [];
             slots = response_slot_events v;
             out = concat (map terminal_item_events items)
                   @ opt_event (\<lambda>r. FinishReason r None) (terminal_finish_reason name v)
                   @ opt_event from_responses (ofilter is_object (pointer v [''response'', ''usage'']))
                   @ slots
         in if length out \<ge> 2 \<or> slots \<noteq> [] then Some out else None))"


section \<open>Decoding\<close>

definition decode_reasoning_item :: "string \<Rightarrow> json \<Rightarrow> ir_stream_event" where
  "decode_reasoning_item name v =
     (let item = frame_item v
      in case nonempty_field item ''signature'' of
           Some signature \<Rightarrow> ReasoningSignature signature
         | None \<Rightarrow> (case nonempty_field item ''text'' of Some text \<Rightarrow> ReasoningDelta text | None \<Rightarrow> protocol name v))"

definition responses_part_limit :: map_error where
  "responses_part_limit = MapInvalid (''decode_stream_event cannot represent a Responses content part with more ''
     @ ''than one event; use decode_stream_events'')"

definition responses_message_limit :: map_error where
  "responses_message_limit = MapInvalid (''decode_stream_event cannot represent every event in this Responses ''
     @ ''message; use decode_stream_events'')"

definition responses_item_limit :: map_error where
  "responses_item_limit = MapInvalid (''decode_stream_event cannot represent every event in this Responses ''
     @ ''item; use decode_stream_events'')"

definition first_or :: "ir_stream_event list \<Rightarrow> ir_stream_event \<Rightarrow> ir_stream_event" where
  "first_or evs d = (case evs of [] \<Rightarrow> d | ev # _ \<Rightarrow> ev)"

definition replay_frame :: "string \<Rightarrow> json \<Rightarrow> map_error + ir_stream_event option" where
  "replay_frame name v =
     (let replay = replay_output_item (frame_item v)
      in if length replay > 1 then Inl responses_item_limit else Inr (Some (first_or replay (protocol name v))))"

fun is_container :: "json \<Rightarrow> bool" where
  "is_container (JObject _) = True"
| "is_container (JArray _) = True"
| "is_container _ = False"

definition call_start_id :: "json \<Rightarrow> string" where
  "call_start_id item = unwrap_or (or_else (str_field item ''call_id'') (str_field item ''id'')) []"

definition responses_decode_added :: "(json \<Rightarrow> string) \<Rightarrow> string \<Rightarrow> json \<Rightarrow> map_error + ir_stream_event option" where
  "responses_decode_added to_str name v =
     (let item = frame_item v;
          ty = frame_item_type v
      in if ty = Some ''function_call'' then
           (if is_some_and (jget item ''arguments'') is_container then Inl singular_tool_limit
            else case json_text_field to_str item ''arguments'' of
                   Inl e \<Rightarrow> Inl e
                 | Inr _ \<Rightarrow> Inr (Some (ToolCallStart (call_start_id item) (unwrap_or (str_field item ''name'') []) None
                                       (output_index v))))
         else if ty = Some ''custom_tool_call'' then
           (if is_some_and (jget item ''input'') is_container then Inl singular_tool_limit
            else case json_text_field to_str item ''input'' of
                   Inl e \<Rightarrow> Inl e
                 | Inr _ \<Rightarrow> Inr (Some (CustomToolCallStart (call_start_id item) (unwrap_or (str_field item ''name'') [])
                                       (output_index v))))
         else if ty = Some ''reasoning'' then Inr (Some (decode_reasoning_item name v))
         else if ty = Some ''message'' then
           (let part_count = (case Option.bind (jget item ''content'') as_array of None \<Rightarrow> 0 | Some xs \<Rightarrow> length xs);
                events = message_content_events item
            in if part_count > 1 \<or> length events > 1 then Inl responses_message_limit
               else Inr (Some (first_or events (protocol name v))))
         else replay_frame name v)"

text \<open>A terminal arm: first the error that a frame without output may carry.\<close>

definition after_reject ::
  "json \<Rightarrow> (map_error + ir_stream_event option) \<Rightarrow> map_error + ir_stream_event option" where
  "after_reject v r = (case reject_bare_responses_error v of Inl e \<Rightarrow> Inl e | Inr _ \<Rightarrow> r)"

definition responses_decode_completed :: "json \<Rightarrow> map_error + ir_stream_event option" where
  "responses_decode_completed v =
     (if Option.bind (pointer v [''response'', ''status'']) as_str \<in> {Some ''cancelled'', Some ''canceled''}
      then Inr (Some (FinishReason ''cancelled'' None))
      else case pointer v [''response'', ''usage''] of
             Some usage \<Rightarrow> Inr (Some (from_responses usage)) | None \<Rightarrow> Inr (Some Done))"

definition responses_decode_failed :: "json \<Rightarrow> map_error + ir_stream_event option" where
  "responses_decode_failed v =
     (if responses_has_visible_output v \<and> \<not> responses_terminal_keeps_output v \<and> failure_detail v \<noteq> None
      then Inl (MapInvalid (unwrap_or (failure_detail v) []))
      else Inr (Some (FinishReason ''failed'' None)))"

definition responses_error_frame :: "json \<Rightarrow> string" where
  "responses_error_frame v =
     (case (nonempty_field v ''code'', nonempty_field v ''message'') of
        (Some code, Some message) \<Rightarrow> code @ '': '' @ message
      | (None, Some message) \<Rightarrow> message
      | (Some code, None) \<Rightarrow> code
      | (None, None) \<Rightarrow> ''vendor error'')"

definition responses_done_names :: "string set" where
  "responses_done_names =
     {''response.output_text.done'', ''response.content_part.done'', ''response.function_call_arguments.done'',
      ''response.refusal.done'', ''response.audio.done'', ''response.audio.transcript.done'',
      ''response.reasoning_summary_part.added'', ''response.reasoning_summary_part.done'',
      ''response.reasoning_summary_text.done'', ''response.reasoning_text.done'',
      ''response.custom_tool_call_input.done''}"

definition responses_decode_named :: "(json \<Rightarrow> string) \<Rightarrow> string \<Rightarrow> json \<Rightarrow> map_error + ir_stream_event option" where
  "responses_decode_named to_str name v =
     (if name = ''response.output_text.delta'' then
        Inr (or_else (map_option TextDelta (nonempty_field v ''delta''))
               (map_option (\<lambda>content. Logprobs content None) (logprobs_array v)))
      else if name \<in> {''response.reasoning_summary_text.delta'', ''response.reasoning.delta'', ''response.reasoning_text.delta''}
      then nonempty_delta v ReasoningDelta
      else if name = ''response.refusal.delta'' then nonempty_delta v RefusalDelta
      else if name = ''response.function_call_arguments.delta'' then
        Inr (Some (ToolCallArgDelta (unwrap_or (str_field v ''delta'') []) (output_index v)))
      else if name = ''response.output_text.annotation.added'' then
        Inr (Some (case ofilter is_object (jget v ''annotation'') of
                     Some annotation \<Rightarrow> AnnotationAdded annotation | None \<Rightarrow> protocol name v))
      else if name = ''response.audio.delta'' then nonempty_delta v AudioDelta
      else if name = ''response.audio.transcript.delta'' then nonempty_delta v AudioTranscriptDelta
      else if name = ''response.custom_tool_call_input.delta'' then
        Inr (Some (CustomToolCallInputDelta (unwrap_or (str_field v ''delta'') []) (output_index v)))
      else if name = ''response.content_part.added'' then
        (let events = content_part_events v
         in if length events > 1 then Inl responses_part_limit
            else Inr (case events of [] \<Rightarrow> None | ev # _ \<Rightarrow> Some ev))
      else if name = ''response.output_item.added'' then responses_decode_added to_str name v
      else if name = ''response.output_item.done'' then
        (if frame_item_type v \<in> {Some ''function_call'', Some ''custom_tool_call''} then Inr (Some ToolCallEnd)
         else replay_frame name v)
      else if name = ''response.completed'' then after_reject v (responses_decode_completed v)
      else if name = ''response.failed'' then after_reject v (responses_decode_failed v)
      else if name = ''response.incomplete'' then
        after_reject v (Inr (Some (FinishReason (decode_incomplete_reason v ''incomplete'') None)))
      else if name \<in> responses_done_names then after_reject v (Inr None)
      else if name = ''error'' then Inl (MapInvalid (responses_error_frame v))
      else after_reject v (Inr (Some (protocol name v))))"

definition responses_decode :: "(json \<Rightarrow> string) \<Rightarrow> string \<Rightarrow> json \<Rightarrow> map_error + ir_stream_event option" where
  "responses_decode to_str name v =
     (case check_responses_indexes v of Inl e \<Rightarrow> Inl e | Inr _ \<Rightarrow> responses_decode_named to_str name v)"

definition added_item_events :: "(json \<Rightarrow> string) \<Rightarrow> json \<Rightarrow> map_error + ir_stream_event list" where
  "added_item_events to_str v =
     (let item = frame_item v;
          index = output_index v;
          ty = frame_item_type v
      in if ty = Some ''function_call'' then
           (case json_text_field to_str item ''arguments'' of
              Inl e \<Rightarrow> Inl e
            | Inr args \<Rightarrow>
                Inr (tool_item_events item index
                     @ [ToolCallStart (call_start_id item) (unwrap_or (str_field item ''name'') []) None index]
                     @ opt_event (\<lambda>d. ToolCallArgDelta d index) args))
         else if ty = Some ''custom_tool_call'' then
           (case json_text_field to_str item ''input'' of
              Inl e \<Rightarrow> Inl e
            | Inr args \<Rightarrow>
                Inr (tool_item_events item index
                     @ [CustomToolCallStart (call_start_id item) (unwrap_or (str_field item ''name'') []) index]
                     @ opt_event (\<lambda>d. CustomToolCallInputDelta d index) args))
         else if ty = Some ''message'' then Inr (message_content_events item)
         else if ty = Some ''reasoning'' then
           Inr ((case nonempty_field item ''signature'' of
                   Some signature \<Rightarrow> [ReasoningSignature signature]
                 | None \<Rightarrow> opt_event ReasoningDelta (nonempty_field item ''text''))
                @ terminal_item_events item)
         else Inr (replay_output_item item))"

definition responses_decode_all :: "(json \<Rightarrow> string) \<Rightarrow> string \<Rightarrow> json \<Rightarrow> map_error + ir_stream_event list" where
  "responses_decode_all to_str name v =
     (case check_responses_indexes v of
        Inl e \<Rightarrow> Inl e
      | Inr _ \<Rightarrow>
          if name = ''response.created'' then Inr (response_slot_events v)
          else if name = ''response.output_item.added'' then added_item_events to_str v
          else if name = ''response.content_part.added'' then Inr (content_part_events v)
          else if name \<noteq> ''response.output_text.delta'' then Inr []
          else Inr (opt_event TextDelta (nonempty_field v ''delta'')
                    @ opt_event (\<lambda>content. Logprobs content None) (logprobs_array v)))"


section \<open>Sidecar fields of a tool item\<close>

record tool_extra =
  tx_status :: "string option"
  tx_namespace :: "string option"
  tx_created_by :: "string option"
  tx_caller :: "json option"
  tx_item_id :: "string option"

definition tool_extra_default :: tool_extra where
  "tool_extra_default =
     \<lparr>tx_status = None, tx_namespace = None, tx_created_by = None, tx_caller = None, tx_item_id = None\<rparr>"

definition tool_extra_is_empty :: "tool_extra \<Rightarrow> bool" where
  "tool_extra_is_empty x =
     (tx_status x = None \<and> tx_namespace x = None \<and> tx_created_by x = None \<and> tx_caller x = None \<and> tx_item_id x = None)"

definition tool_extra_merge :: "tool_extra \<Rightarrow> tool_extra \<Rightarrow> tool_extra" where
  "tool_extra_merge self other =
     \<lparr>tx_status = or_else (tx_status other) (tx_status self),
      tx_namespace = or_else (tx_namespace other) (tx_namespace self),
      tx_created_by = or_else (tx_created_by other) (tx_created_by self),
      tx_caller = or_else (tx_caller other) (tx_caller self),
      tx_item_id = or_else (tx_item_id other) (tx_item_id self)\<rparr>"

definition tool_extra_write_item :: "tool_extra \<Rightarrow> json \<Rightarrow> json" where
  "tool_extra_write_item x item =
     (let str = (\<lambda>v. map_option JString (ofilter (\<lambda>s. s \<noteq> []) v));
          item = set_opt ''id'' (str (tx_item_id x)) item;
          item = set_opt ''status'' (str (tx_status x)) item;
          item = set_opt ''namespace'' (str (tx_namespace x)) item;
          item = set_opt ''created_by'' (str (tx_created_by x)) item
      in set_opt ''caller'' (tx_caller x) item)"

definition tool_extra_from_protocol :: "string \<Rightarrow> json \<Rightarrow> (u32 \<times> tool_extra) option" where
  "tool_extra_from_protocol ity p =
     (case u32_field p ''index'' of
        None \<Rightarrow> None
      | Some index \<Rightarrow>
          (let d = tool_extra_default;
               extra =
                 (if ity = ''responses_tool_status'' then Some (d\<lparr>tx_status := nonempty_str_opt (jget p ''status'')\<rparr>)
                  else if ity = ''responses_tool_namespace'' then
                    Some (d\<lparr>tx_namespace := nonempty_str_opt (jget p ''namespace'')\<rparr>)
                  else if ity = ''responses_tool_created_by'' then
                    Some (d\<lparr>tx_created_by := nonempty_str_opt (jget p ''created_by'')\<rparr>)
                  else if ity = ''responses_tool_item_id'' then Some (d\<lparr>tx_item_id := nonempty_str_opt (jget p ''id'')\<rparr>)
                  else if ity = ''responses_tool_caller'' then
                    Some (d\<lparr>tx_caller := ofilter (\<lambda>c. nonempty_str c ''type'') (jget p ''caller'')\<rparr>)
                  else None)
           in case extra of
                None \<Rightarrow> None
              | Some x \<Rightarrow> if tool_extra_is_empty x then None else Some (index, x)))"


section \<open>Encoding\<close>

definition annotation_without_segment_text :: "json \<Rightarrow> json" where
  "annotation_without_segment_text annotation = jremove ''segment_text'' annotation"

definition responses_frame :: "string \<Rightarrow> (string \<times> json) list \<Rightarrow> string \<times> json" where
  "responses_frame name fs = (name, json_obj ((''type'', JString name) # fs))"

definition delta_frame_at :: "string \<Rightarrow> u32 \<Rightarrow> string \<Rightarrow> string \<times> json" where
  "delta_frame_at name index d = responses_frame name [(''output_index'', json_u32 index), (''delta'', JString d)]"

definition added_frame :: "u32 \<Rightarrow> (string \<times> json) list \<Rightarrow> string \<times> json" where
  "added_frame index item =
     responses_frame ''response.output_item.added'' [(''output_index'', json_u32 index), (''item'', json_obj item)]"

definition response_frame :: "string \<Rightarrow> json \<Rightarrow> string \<times> json" where
  "response_frame name response = responses_frame name [(''response'', response)]"

definition finish_frame_name :: "string \<Rightarrow> string \<times> string" where
  "finish_frame_name reason =
     (if reason = ''failed'' then (''response.failed'', ''failed'')
      else if reason \<in> {''incomplete'', ''length'', ''max_tokens'', ''content_filter''} then (''response.incomplete'', ''incomplete'')
      else if reason = ''stop'' then (''response.completed'', ''completed'')
      else (''response.completed'', reason))"

definition in_progress :: "(string \<times> json) list \<Rightarrow> string \<times> json" where
  "in_progress fs = response_frame ''response.created'' (json_obj (fs @ [(''status'', JString ''in_progress'')]))"

fun responses_encode_value :: "ir_stream_event \<Rightarrow> (string \<times> json) option" where
  "responses_encode_value (TextDelta text) = Some (delta_frame_at ''response.output_text.delta'' 0 text)"
| "responses_encode_value (Logprobs content refusal) =
     (let merged = merged_logprob_items content refusal;
          fr = delta_frame_at ''response.output_text.delta'' 0 []
      in Some (fst fr, insert_if (merged \<noteq> []) ''logprobs'' (JArray merged) (snd fr)))"
| "responses_encode_value (RefusalDelta text) = Some (delta_frame_at ''response.refusal.delta'' 0 text)"
| "responses_encode_value (ReasoningDelta text) =
     Some (added_frame 0 [(''type'', JString ''reasoning''), (''text'', JString text)])"
| "responses_encode_value (ReasoningSignature sig) =
     Some (added_frame 0 [(''type'', JString ''reasoning''), (''signature'', JString sig)])"
| "responses_encode_value (ToolCallStart id' name _ index) =
     Some (added_frame index [(''type'', JString ''function_call''), (''id'', JString id'), (''call_id'', JString id'),
        (''name'', JString name), (''arguments'', JString [])])"
| "responses_encode_value (AnnotationAdded ann) =
     Some (responses_frame ''response.output_text.annotation.added'' [(''output_index'', json_u32 0),
        (''content_index'', json_u32 0), (''annotation_index'', json_u32 0),
        (''annotation'', annotation_without_segment_text ann)])"
| "responses_encode_value (AudioDelta d) = Some (responses_frame ''response.audio.delta'' [(''delta'', JString d)])"
| "responses_encode_value (ImageDelta media_type d) =
     Some (added_frame 0 [(''type'', JString ''message''), (''role'', JString ''assistant''),
        (''content'', JArray [json_obj [(''type'', JString ''output_image''),
           (''image_url'', JString (''data:'' @ media_type @ '';base64,'' @ d))]])])"
| "responses_encode_value (AudioTranscriptDelta text) =
     Some (responses_frame ''response.audio.transcript.delta'' [(''delta'', JString text)])"
| "responses_encode_value (CustomToolCallStart id' name index) =
     Some (added_frame index [(''type'', JString ''custom_tool_call''), (''id'', JString id'), (''call_id'', JString id'),
        (''name'', JString name), (''input'', JString [])])"
| "responses_encode_value (CustomToolCallInputDelta d index) =
     Some (delta_frame_at ''response.custom_tool_call_input.delta'' index d)"
| "responses_encode_value (ToolCallArgDelta d index) =
     Some (delta_frame_at ''response.function_call_arguments.delta'' index d)"
| "responses_encode_value ToolCallEnd =
     Some (responses_frame ''response.output_item.done'' [(''output_index'', json_u32 0),
        (''item'', json_obj [(''type'', JString ''function_call'')])])"
| "responses_encode_value (Usage p c cr cw rs _ _ _) = Some (''response.completed'', encode_responses p c cr cw rs)"
| "responses_encode_value (FinishReason reason _) =
     (let (name, status) = finish_frame_name reason
      in Some (response_frame name (set_opt ''incomplete_details''
           (map_option (\<lambda>d. json_obj [(''reason'', JString d)]) (incomplete_details_reason reason))
           (json_obj [(''status'', JString status)]))))"
| "responses_encode_value (Created unix) = Some (in_progress [(''created_at'', json_i64 unix)])"
| "responses_encode_value (ServiceTier tier) = Some (in_progress [(''service_tier'', JString tier)])"
| "responses_encode_value (Metadata metadata) =
     Some (in_progress [(''metadata'', JObject (map (\<lambda>(k, s). (k, JString s)) metadata))])"
| "responses_encode_value (Moderation input output) =
     Some (response_frame ''response.completed''
        (set_opt ''moderation'' (responses_moderation_value input output) (json_obj [(''status'', JString ''completed'')])))"
| "responses_encode_value Done =
     Some (response_frame ''response.completed'' (json_obj [(''status'', JString ''completed'')]))"
| "responses_encode_value (Diagnostics _) = Some (in_progress [])"
| "responses_encode_value (Container _) = Some (in_progress [])"
| "responses_encode_value (ContextManagement _) = Some (in_progress [])"
| "responses_encode_value (StopSequence _) = Some (in_progress [])"
| "responses_encode_value (SearchEntryPoint _) = Some (in_progress [])"
| "responses_encode_value (Protocol _ _) = None"
| "responses_encode_value (Unknown _ _) = None"

definition responses_encode :: "(json \<Rightarrow> string) \<Rightarrow> ir_stream_event \<Rightarrow> map_error + raw_sse" where
  "responses_encode to_str ev =
     (case responses_encode_value ev of
        None \<Rightarrow> Inl (MapInvalid ''protocol/unknown events are encoded at the stream root'')
      | Some (name, d) \<Rightarrow> Inr \<lparr>event = Some name, data = to_str d\<rparr>)"


section \<open>Reading back what was written\<close>

text \<open>What the two decoders make of a frame, as the stream root combines them: the terminal walk, then the
  plural decoder, then the singular event.\<close>

definition responses_events :: "(json \<Rightarrow> string) \<Rightarrow> string \<Rightarrow> json \<Rightarrow> map_error + ir_stream_event list" where
  "responses_events to_str name v =
     (case responses_decode to_str name v of
        Inl e \<Rightarrow> Inl e
      | Inr first \<Rightarrow>
          (case decode_terminal_events name v of
             Some evs \<Rightarrow> Inr evs
           | None \<Rightarrow>
               (case responses_decode_all to_str name v of
                  Inl e \<Rightarrow> Inl e
                | Inr evs \<Rightarrow> if evs \<noteq> [] then Inr evs
                            else Inr (case first of None \<Rightarrow> [] | Some ev \<Rightarrow> [ev]))))"

fun responses_keeps :: "ir_stream_event \<Rightarrow> bool" where
  "responses_keeps (TextDelta t) = (t \<noteq> [])"
| "responses_keeps (RefusalDelta t) = (t \<noteq> [])"
| "responses_keeps (ReasoningDelta t) = (t \<noteq> [])"
| "responses_keeps (ReasoningSignature t) = (t \<noteq> [])"
| "responses_keeps (AudioDelta t) = (t \<noteq> [])"
| "responses_keeps (AudioTranscriptDelta t) = (t \<noteq> [])"
| "responses_keeps (ToolCallStart _ _ sig i) = (sig = None \<and> i \<le> MAX_TOOL_CALL_INDEX)"
| "responses_keeps (ToolCallArgDelta _ i) = (i \<le> MAX_TOOL_CALL_INDEX)"
| "responses_keeps (CustomToolCallStart _ _ i) = (i \<le> MAX_TOOL_CALL_INDEX)"
| "responses_keeps (CustomToolCallInputDelta _ i) = (i \<le> MAX_TOOL_CALL_INDEX)"
| "responses_keeps ToolCallEnd = True"
| "responses_keeps (ImageDelta mt d) =
     (d \<noteq> [] \<and> CHR '';'' \<notin> set mt \<and> starts_with ''image/'' (to_ascii_lowercase mt))"
| "responses_keeps (AnnotationAdded ann) = (is_object ann \<and> jget ann ''segment_text'' = None)"
| "responses_keeps (Logprobs content refusal) =
     (refusal = None \<and> (case content of JArray xs \<Rightarrow> xs \<noteq> [] | _ \<Rightarrow> False))"
| "responses_keeps (Created unix) = (- (2 ^ 63) \<le> unix \<and> unix < 2 ^ 63)"
| "responses_keeps (ServiceTier t) = (t \<noteq> [])"
| "responses_keeps Done = True"
| "responses_keeps (FinishReason r vendor) =
     (vendor = None \<and> r \<in> {''failed'', ''incomplete'', ''length'', ''content_filter'', ''cancelled''})"
| "responses_keeps _ = False"

lemma check_index_absent [simp]: "map_of (rev kvs) key = None \<Longrightarrow> check_index (json_obj kvs) key cap kind = Inr ()"
  by (simp add: check_index_def)

lemma no_reject:
  "list_all (\<lambda>k. jget v k = None) [''error''] \<Longrightarrow> pointer v [''response'', ''error''] = None \<Longrightarrow>
     pointer v [''response'', ''last_error''] = None \<Longrightarrow> reject_bare_responses_error v = Inr ()"
  by (simp add: reject_bare_responses_error_def json_string_error_def failure_detail_def failure_object_def)

lemma failure_detail_none:
  "pointer v [''response'', ''error''] = None \<Longrightarrow> pointer v [''response'', ''last_error''] = None \<Longrightarrow>
     failure_detail v = None"
  by (simp add: failure_detail_def failure_object_def)

lemma as_i64_json: "- (2 ^ 63) \<le> i \<Longrightarrow> i < 2 ^ 63 \<Longrightarrow> as_i64 (json_i64 i) = Some i"
proof (cases "i < 0")
  case False
  assume "i < 2 ^ 63"
  then have "unat (of_int i :: u64) = nat i"
    using False by (simp add: unsigned_of_int take_bit_int_eq_self)
  then show ?thesis using False \<open>i < 2 ^ 63\<close> by (simp add: json_i64_def)
qed (simp add: json_i64_def)

lemma jremove_absent: "map_of m k = None \<Longrightarrow> bt_remove k m = m"
  by (induction k m rule: bt_remove.induct) (auto split: if_splits)

lemma without_segment [simp]:
  "is_object ann \<Longrightarrow> jget ann ''segment_text'' = None \<Longrightarrow> annotation_without_segment_text ann = ann"
  by (cases ann) (simp_all add: annotation_without_segment_text_def jremove_absent)

lemmas responses_read_defs = responses_events_def responses_decode_def responses_decode_named_def
  responses_decode_all_def decode_terminal_events_def check_responses_indexes_def responses_frame_def
  delta_frame_at_def added_frame_def response_frame_def in_progress_def nonempty_field_def nonempty_delta_def
  output_index_def frame_item_def frame_item_type_def added_item_events_def responses_decode_added_def
  tool_item_events_def tool_item_id_event_def tool_item_caller_event_def tool_item_created_by_event_def
  tool_item_namespace_event_def tool_item_status_event_def call_start_id_def json_text_field_def

definition responses_reads_back :: "(json \<Rightarrow> string) \<Rightarrow> ir_stream_event \<Rightarrow> bool" where
  "responses_reads_back to_str ev =
     (case responses_encode_value ev of None \<Rightarrow> False | Some (name, v) \<Rightarrow> responses_events to_str name v = Inr [ev])"

lemma responses_back_text:
  "t \<noteq> [] \<Longrightarrow> responses_reads_back to_str (TextDelta t)"
  "t \<noteq> [] \<Longrightarrow> responses_reads_back to_str (RefusalDelta t)"
  "t \<noteq> [] \<Longrightarrow> responses_reads_back to_str (AudioDelta t)"
  "t \<noteq> [] \<Longrightarrow> responses_reads_back to_str (AudioTranscriptDelta t)"
  by (simp_all add: responses_reads_back_def responses_read_defs logprobs_array_def)

lemma responses_back_reasoning:
  "t \<noteq> [] \<Longrightarrow> responses_reads_back to_str (ReasoningDelta t)"
  "t \<noteq> [] \<Longrightarrow> responses_reads_back to_str (ReasoningSignature t)"
  by (simp_all add: responses_reads_back_def responses_read_defs decode_reasoning_item_def terminal_item_events_def
      replay_output_item_def nonempty_str_def reasoning_item_identity_events_def named_event_def)

lemma responses_back_tool:
  "i \<le> MAX_TOOL_CALL_INDEX \<Longrightarrow> responses_reads_back to_str (ToolCallStart id' name None i)"
  "i \<le> MAX_TOOL_CALL_INDEX \<Longrightarrow> responses_reads_back to_str (ToolCallArgDelta d i)"
  "i \<le> MAX_TOOL_CALL_INDEX \<Longrightarrow> responses_reads_back to_str (CustomToolCallStart id' name i)"
  "i \<le> MAX_TOOL_CALL_INDEX \<Longrightarrow> responses_reads_back to_str (CustomToolCallInputDelta d i)"
  "responses_reads_back to_str ToolCallEnd"
  by (simp_all add: responses_reads_back_def responses_read_defs)

lemma responses_back_image:
  assumes "d \<noteq> []" "CHR '';'' \<notin> set mt" "starts_with ''image/'' (to_ascii_lowercase mt)"
  shows "responses_reads_back to_str (ImageDelta mt d)"
proof -
  have sp: "split_once_str '';base64,'' (mt @ CHR '';'' # CHR ''b'' # CHR ''a'' # CHR ''s'' # CHR ''e'' # CHR ''6'' # CHR ''4'' # CHR '','' # d)
      = Some (mt, d)"
    using split_once_str_fresh [of "CHR '';''" mt "''base64,''" d] assms(2) by simp
  show ?thesis
    using assms
    by (simp add: responses_reads_back_def responses_read_defs message_content_events_def sp
        message_item_identity_events_def named_event_def part_events_def image_delta_from_output_image_def
        audio_events_from_output_part_def first_or_def)
qed

lemma responses_back_misc:
  "is_object ann \<Longrightarrow> jget ann ''segment_text'' = None \<Longrightarrow> responses_reads_back to_str (AnnotationAdded ann)"
  "xs \<noteq> [] \<Longrightarrow> responses_reads_back to_str (Logprobs (JArray xs) None)"
  by (simp_all add: responses_reads_back_def responses_read_defs merged_logprob_items_def insert_if_def
      logprobs_array_def Let_def jinsert_json_obj)

lemma responses_back_slots:
  "- (2 ^ 63) \<le> i \<Longrightarrow> i < 2 ^ 63 \<Longrightarrow> responses_reads_back to_str (Created i)"
  "t \<noteq> [] \<Longrightarrow> responses_reads_back to_str (ServiceTier t)"
  "responses_reads_back to_str Done"
  by (simp_all add: responses_reads_back_def responses_read_defs after_reject_def no_reject response_slot_events_def
      named_event_def created_event_def service_tier_event_def metadata_event_def string_metadata_def
      moderation_event_def as_i64_json responses_done_names_def responses_decode_completed_def
      terminal_finish_reason_def)

lemma responses_back_finish:
  "r \<in> {''failed'', ''incomplete'', ''length'', ''content_filter'', ''cancelled''} \<Longrightarrow>
     responses_reads_back to_str (FinishReason r None)"
  by (elim insertE emptyE)
    (simp_all add: responses_reads_back_def responses_read_defs after_reject_def no_reject response_slot_events_def
      named_event_def created_event_def service_tier_event_def metadata_event_def string_metadata_def
      moderation_event_def responses_done_names_def responses_decode_completed_def responses_decode_failed_def
      terminal_finish_reason_def finish_frame_name_def incomplete_details_reason_def set_opt_def
      decode_incomplete_reason_def jinsert_json_obj failure_detail_none)

lemma responses_keeps_reads_back: "responses_keeps ev \<Longrightarrow> responses_reads_back to_str ev"
proof (cases ev)
  case (Logprobs content refusal)
  then show "responses_keeps ev \<Longrightarrow> ?thesis" by (cases content) (auto simp: responses_back_misc)
qed (use responses_back_finish in \<open>auto simp: responses_back_text responses_back_reasoning responses_back_tool
      responses_back_image responses_back_misc responses_back_slots\<close>)

text \<open>C33. A stream event with a slot on the Responses wire survives the trip through a frame: the decoders,
  combined the way the stream root combines them, return exactly that event.
\<close>

theorem responses_encode_decode:
  assumes "responses_keeps ev"
  shows "case responses_encode_value ev of
           None \<Rightarrow> False | Some (name, v) \<Rightarrow> responses_events to_str name v = Inr [ev]"
  using responses_keeps_reads_back [OF assms] by (simp add: responses_reads_back_def)

theorem responses_encode_decode_witness:
  "responses_events (\<lambda>_. []) ''response.function_call_arguments.delta''
     (snd (delta_frame_at ''response.function_call_arguments.delta'' 4 ''{}'')) = Inr [ToolCallArgDelta ''{}'' 4]"
  using responses_encode_decode [of "ToolCallArgDelta ''{}'' 4" "\<lambda>_. []"]
  by (simp add: MAX_TOOL_CALL_INDEX_def delta_frame_at_def responses_frame_def)

text \<open>
  A terminal walk without a \<open>response.status\<close>: a \<open>response.failed\<close> frame that carries an id keeps the id and
  loses the failure, which the singular decoder reports.
\<close>

lemma responses_failed_without_status:
  assumes "trim i \<noteq> []"
  shows "responses_decode to_str ''response.failed'' (json_obj [(''response'', json_obj [(''id'', JString i)])])
           = Inr (Some (FinishReason ''failed'' None))
    \<and> responses_events to_str ''response.failed'' (json_obj [(''response'', json_obj [(''id'', JString i)])])
           = Inr [Protocol ''responses_id'' (JString i)]"
  using assms
  by (simp add: responses_read_defs after_reject_def no_reject response_slot_events_def
      named_event_def created_event_def service_tier_event_def metadata_event_def string_metadata_def
      moderation_event_def responses_decode_failed_def terminal_finish_reason_def failure_detail_none)

end
