(* ===== verification/Wm_Stream.thy ===== *)
theory Wm_Stream
  imports Wm_Stream_Responses Wm_Sse Wm_Eventstream
begin

text \<open>
  The root of the stream module (\<open>stream/mod.rs\<close>): the name of a frame, the policy for names the profile does
  not list, the singular and the plural decoder over all wires, the terminal-frame test, the encoder of one
  event and the frame reader of an upstream connection. \<open>parse\<close> and \<open>to_str\<close> are \<open>serde_json\<close>'s parser and
  printer; \<open>debug\<close> is the derived \<open>Debug\<close> text of an event, which appears in one error message.
\<close>

section \<open>Frame names and unknown frames\<close>

definition converse_frame_names :: "string list" where
  "converse_frame_names =
     [''contentBlockDelta'', ''contentBlockStart'', ''contentBlockStop'', ''messageStop'', ''metadata'', ''messageStart'']"

definition frame_event_name :: "(string \<Rightarrow> json option) \<Rightarrow> wire \<Rightarrow> raw_sse \<Rightarrow> string" where
  "frame_event_name parse w raw =
     (case ofilter (\<lambda>s. s \<noteq> []) (event raw) of
        Some ev \<Rightarrow> ev
      | None \<Rightarrow>
          (let trimmed = trim (data raw)
           in if trimmed = ''[DONE]'' then ''[DONE]''
              else if w = ChatCompletions \<or> w = Gemini then ''chunk''
              else if w = Converse then
                (case parse trimmed of
                   None \<Rightarrow> ''contentBlockDelta''
                 | Some v \<Rightarrow> unwrap_or (List.find (\<lambda>name. jget v name \<noteq> None) converse_frame_names) ''contentBlockDelta'')
              else unwrap_or (Option.bind (parse trimmed) (\<lambda>v. Option.bind (jget v ''type'') as_str)) ''chunk''))"

fun responses_payload_value_present :: "json \<Rightarrow> bool" where
  "responses_payload_value_present (JString text) = (trim text \<noteq> [])"
| "responses_payload_value_present (JArray items) = list_ex responses_payload_value_present items"
| "responses_payload_value_present (JObject m) = list_ex (\<lambda>(k, v). responses_payload_value_present v) m"
| "responses_payload_value_present _ = False"

definition unknown_payload_keys :: "string list" where
  "unknown_payload_keys =
     [''delta'', ''arguments'', ''code'', ''command'', ''text'', ''input'', ''refusal'', ''partial_image_b64'', ''output'']"

definition responses_unknown_carries_payload :: "(string \<Rightarrow> json option) \<Rightarrow> string \<Rightarrow> bool" where
  "responses_unknown_carries_payload parse d =
     (case parse d of
        None \<Rightarrow> True
      | Some v \<Rightarrow>
          (case as_object v of
             None \<Rightarrow> is_some_and (as_str v) (\<lambda>text. trim text \<noteq> [])
           | Some obj \<Rightarrow>
               list_ex (\<lambda>key. is_some_and (map_of obj key) responses_payload_value_present) unknown_payload_keys))"

definition responses_bare_error :: "(string \<Rightarrow> json option) \<Rightarrow> string \<Rightarrow> string option" where
  "responses_bare_error parse d =
     Option.bind (parse d) (\<lambda>v.
       or_else (responses_gateway_error v)
         (or_else (json_string_error v)
           (or_else (Option.bind (ofilter is_object (jget v ''error'')) error_object_detail) (failure_detail v))))"

definition unknown_detail :: "string \<Rightarrow> string" where
  "unknown_detail name =
     ''unknown stream event `'' @ name @ ''` (stream_unknown_policy = hard-error|passthrough, or add `''
     @ name @ ''` to stream_events)''"

definition unknown_event ::
  "(string \<Rightarrow> json option) \<Rightarrow> wire \<Rightarrow> dialect \<Rightarrow> string \<Rightarrow> string \<Rightarrow> map_error + ir_stream_event option" where
  "unknown_event parse w d name txt =
     (case (if w = Responses \<and> \<not> responses_unknown_carries_payload parse txt
            then responses_bare_error parse txt else None) of
        Some msg \<Rightarrow> Inl (MapInvalid msg)
      | None \<Rightarrow>
          (case stream_unknown_policy d of
             HardError \<Rightarrow>
               if w = Responses \<and> \<not> responses_unknown_carries_payload parse txt then Inr None
               else Inl (MapHardError name (unknown_detail name))
           | Passthrough \<Rightarrow> Inr (Some (Unknown name (unwrap_or (parse txt) (JString txt))))))"


section \<open>One event from one frame\<close>

definition decode_stream_event ::
  "(string \<Rightarrow> json option) \<Rightarrow> (json \<Rightarrow> string) \<Rightarrow> wire \<Rightarrow> raw_sse \<Rightarrow> dialect \<Rightarrow> map_error + ir_stream_event option" where
  "decode_stream_event parse to_str w raw d =
     (if event raw = None \<and> trim (data raw) = [] then Inr None
      else
        let name = frame_event_name parse w raw
        in if name \<notin> set (stream_events d) then unknown_event parse w d name (data raw)
           else if name = ''[DONE]'' \<or> trim (data raw) = ''[DONE]'' then Inr (Some Done)
           else case parse (data raw) of
                  None \<Rightarrow> Inl MapJson
                | Some v \<Rightarrow>
                    (case w of
                       ChatCompletions \<Rightarrow> chat_decode to_str v
                     | Messages \<Rightarrow> messages_decode name v
                     | Responses \<Rightarrow> responses_decode to_str name v
                     | Gemini \<Rightarrow> gemini_decode v
                     | Converse \<Rightarrow> converse_decode v))"


section \<open>Every event of one frame\<close>

text \<open>An error that asks for the plural decoder: the frame is one the singular decoder cannot return whole.\<close>

definition singular_limit :: "map_error + 'a \<Rightarrow> bool" where
  "singular_limit first =
     (case first of Inl (MapInvalid msg) \<Rightarrow> contains_str ''decode_stream_events'' msg | _ \<Rightarrow> False)"

definition is_ok :: "'e + 'a \<Rightarrow> bool" where
  "is_ok r = (case r of Inl _ \<Rightarrow> False | Inr _ \<Rightarrow> True)"

definition chat_named_frame :: "map_error + ir_stream_event option \<Rightarrow> bool" where
  "chat_named_frame first =
     (case first of
        Inr (Some (Unknown _ _)) \<Rightarrow> False
      | Inr _ \<Rightarrow> True
      | Inl _ \<Rightarrow> singular_limit first)"

definition is_protocol :: "ir_stream_event \<Rightarrow> bool" where
  "is_protocol ev = (case ev of Protocol _ _ \<Rightarrow> True | _ \<Rightarrow> False)"

fun expand_chat_loop :: "(json \<Rightarrow> string) \<Rightarrow> json list \<Rightarrow> json \<Rightarrow> map_error + ir_stream_event list" where
  "expand_chat_loop to_str [] v = Inr []"
| "expand_chat_loop to_str (call # calls) v =
     (case expand_tool_call to_str call v of
        Inl e \<Rightarrow> Inl e
      | Inr expanded \<Rightarrow>
          (case expand_chat_loop to_str calls v of
             Inl e \<Rightarrow> Inl e
           | Inr rest \<Rightarrow>
               Inr ((if list_all is_protocol expanded then []
                     else filter (\<lambda>ev. \<not> is_protocol ev) expanded) @ rest)))"

definition expand_chat_tool_call ::
  "(json \<Rightarrow> string) \<Rightarrow> ir_stream_event \<Rightarrow> json \<Rightarrow> map_error + ir_stream_event list option" where
  "expand_chat_tool_call to_str first v =
     (if \<not> is_protocol first then Inr None
      else case Option.bind (pointer v [''choices'', ''0'', ''delta'', ''tool_calls'']) as_array of
             None \<Rightarrow> Inr None
           | Some calls \<Rightarrow>
               (case expand_chat_loop to_str calls v of
                  Inl e \<Rightarrow> Inl e
                | Inr out \<Rightarrow> Inr (if out = [] then None else Some out)))"

definition expand_responses_function_call :: "ir_stream_event \<Rightarrow> json \<Rightarrow> ir_stream_event list option" where
  "expand_responses_function_call first v =
     (case first of
        ToolCallStart id' name sig i \<Rightarrow>
          (case nonempty_str_opt (pointer v [''item'', ''arguments'']) of
             None \<Rightarrow> None
           | Some args \<Rightarrow> Some [ToolCallStart id' name sig i, ToolCallArgDelta args i])
      | _ \<Rightarrow> None)"

definition expand_complete_tool_call ::
  "(string \<Rightarrow> json option) \<Rightarrow> (json \<Rightarrow> string) \<Rightarrow> wire \<Rightarrow> ir_stream_event \<Rightarrow> raw_sse
     \<Rightarrow> map_error + ir_stream_event list option" where
  "expand_complete_tool_call parse to_str w first raw =
     (case parse (data raw) of
        None \<Rightarrow> Inr None
      | Some v \<Rightarrow>
          (case w of
             ChatCompletions \<Rightarrow> expand_chat_tool_call to_str first v
           | Gemini \<Rightarrow> Inr (expand_gemini_function_call to_str first v)
           | Responses \<Rightarrow> Inr (expand_responses_function_call first v)
           | Messages \<Rightarrow> Inr None
           | Converse \<Rightarrow> Inr None))"

text \<open>The early returns of the Chat and of the Responses branch: \<open>None\<close> where control falls through.\<close>

definition chat_branch ::
  "(string \<Rightarrow> json option) \<Rightarrow> (json \<Rightarrow> string) \<Rightarrow> raw_sse \<Rightarrow> map_error + ir_stream_event option
     \<Rightarrow> (map_error + ir_stream_event list) option" where
  "chat_branch parse to_str raw first =
     (case parse (data raw) of
        None \<Rightarrow> None
      | Some v \<Rightarrow>
          (case chat_decode_all to_str v of
             Inl e \<Rightarrow> if chat_named_frame first then Some (Inl e) else None
           | Inr evs \<Rightarrow>
               if evs \<noteq> [] \<and> (is_ok first \<or> singular_limit first) then
                 (case evs of
                    [Protocol t p] \<Rightarrow>
                      (case expand_complete_tool_call parse to_str ChatCompletions (Protocol t p) raw of
                         Inl e \<Rightarrow> Some (Inl e)
                       | Inr (Some expanded) \<Rightarrow> Some (Inr expanded)
                       | Inr None \<Rightarrow> None)
                  | _ \<Rightarrow> Some (Inr evs))
               else None))"

definition responses_branch ::
  "(string \<Rightarrow> json option) \<Rightarrow> (json \<Rightarrow> string) \<Rightarrow> raw_sse \<Rightarrow> map_error + ir_stream_event option
     \<Rightarrow> (map_error + ir_stream_event list) option" where
  "responses_branch parse to_str raw first =
     (case parse (data raw) of
        None \<Rightarrow> None
      | Some v \<Rightarrow>
          (let name = frame_event_name parse Responses raw
           in case (decode_terminal_events name v, is_ok first) of
                (Some evs, True) \<Rightarrow> Some (Inr evs)
              | _ \<Rightarrow>
                  (case responses_decode_all to_str name v of
                     Inl e \<Rightarrow> Some (Inl e)
                   | Inr evs \<Rightarrow>
                       if evs \<noteq> [] \<and> (is_ok first \<or> singular_limit first) then Some (Inr evs) else None)))"

text \<open>The side events of a Messages \<open>message_start\<close> or \<open>message_delta\<close> around the event the singular decoder
  found.\<close>

definition messages_usage_object :: "string \<Rightarrow> json \<Rightarrow> json option" where
  "messages_usage_object name v =
     ofilter is_object
       (if name = ''message_start'' then pointer v [''message'', ''usage'']
        else if name = ''message_delta'' then jget v ''usage'' else None)"

definition is_usage_ev :: "ir_stream_event \<Rightarrow> bool" where
  "is_usage_ev ev = (case ev of Usage _ _ _ _ _ _ _ _ \<Rightarrow> True | _ \<Rightarrow> False)"

definition is_finish_ev :: "ir_stream_event \<Rightarrow> bool" where
  "is_finish_ev ev = (case ev of FinishReason _ _ \<Rightarrow> True | _ \<Rightarrow> False)"

definition is_refusal_ev :: "ir_stream_event \<Rightarrow> bool" where
  "is_refusal_ev ev = (case ev of RefusalDelta _ \<Rightarrow> True | _ \<Rightarrow> False)"

definition nonblank_str :: "json option \<Rightarrow> string option" where
  "nonblank_str v = ofilter (\<lambda>text. trim text \<noteq> []) (Option.bind v as_str)"

definition messages_fan_out :: "string \<Rightarrow> json \<Rightarrow> ir_stream_event \<Rightarrow> ir_stream_event list" where
  "messages_fan_out name v first =
     (let usage = messages_usage_object name v;
          start = (name = ''message_start'');
          delta = (name = ''message_delta'');
          stop = is_finish_ev first;
          closing = (is_usage_ev first \<or> is_finish_ev first);
          container = (if start then pointer v [''message'', ''container''] else if delta then jget v ''container'' else None)
      in (if start \<and> is_usage_ev first
          then opt_event (\<lambda>i. Protocol ''messages_id'' (JString i)) (nonblank_str (pointer v [''message'', ''id''])) else [])
         @ opt_event ServiceTier (Option.bind usage service_tier_from_usage)
         @ (if delta \<and> \<not> is_refusal_ev first then opt_event RefusalDelta (stop_details_explanation v) else [])
         @ (if closing then opt_event Container (ofilter is_object container) else [])
         @ (if delta \<and> stop
            then opt_event StopSequence (nonblank_str (pointer v [''delta'', ''stop_sequence''])) else [])
         @ (if delta \<and> closing
            then opt_event ContextManagement (ofilter is_object (jget v ''context_management'')) else [])
         @ (if delta \<and> closing
            then opt_event Diagnostics (ofilter is_object (pointer v [''diagnostics'', ''cache_miss_reason''])) else [])
         @ [first]
         @ (case usage of None \<Rightarrow> [] | Some u \<Rightarrow> messages_web_search_events u @ messages_cache_creation_events u)
         @ (if delta \<and> stop then opt_event from_anthropic usage else []))"

definition decode_rest ::
  "(string \<Rightarrow> json option) \<Rightarrow> (json \<Rightarrow> string) \<Rightarrow> wire \<Rightarrow> raw_sse \<Rightarrow> ir_stream_event option
     \<Rightarrow> map_error + ir_stream_event list" where
  "decode_rest parse to_str w raw first =
     (case first of
        None \<Rightarrow> Inr []
      | Some ev \<Rightarrow>
          (case expand_complete_tool_call parse to_str w ev raw of
             Inl e \<Rightarrow> Inl e
           | Inr (Some expanded) \<Rightarrow> Inr expanded
           | Inr None \<Rightarrow>
               (case (if w = Messages then parse (data raw) else None) of
                  Some v \<Rightarrow> Inr (messages_fan_out (frame_event_name parse w raw) v ev)
                | None \<Rightarrow> Inr [ev])))"

definition decode_stream_events_seq ::
  "(string \<Rightarrow> json option) \<Rightarrow> (json \<Rightarrow> string) \<Rightarrow> wire \<Rightarrow> raw_sse \<Rightarrow> dialect \<Rightarrow> nat
     \<Rightarrow> (map_error + ir_stream_event list) \<times> nat" where
  "decode_stream_events_seq parse to_str w raw d seq =
     (let first = decode_stream_event parse to_str w raw d
      in case (if w = ChatCompletions then chat_branch parse to_str raw first
               else if w = Responses then responses_branch parse to_str raw first else None) of
           Some r \<Rightarrow> (r, seq)
         | None \<Rightarrow>
             (case first of
                Inl e \<Rightarrow> (Inl e, seq)
              | Inr first \<Rightarrow>
                  (case (if w = Converse then map_option decode_metadata_events (parse (data raw)) else None) of
                     Some (a # b # evs) \<Rightarrow> (Inr (a # b # evs), seq)
                   | _ \<Rightarrow>
                       (case (if w = Gemini then map_option (\<lambda>v. fan_out_gemini_parts to_str v seq) (parse (data raw)) else None) of
                          Some (Some evs, seq') \<Rightarrow> (Inr evs, seq')
                        | Some (None, seq') \<Rightarrow> (decode_rest parse to_str w raw first, seq')
                        | None \<Rightarrow> (decode_rest parse to_str w raw first, seq)))))"

record stream_decoder =
  gemini_call_seq :: nat

definition decoder_new :: stream_decoder where
  "decoder_new = \<lparr>gemini_call_seq = 0\<rparr>"

definition decoder_decode ::
  "(string \<Rightarrow> json option) \<Rightarrow> (json \<Rightarrow> string) \<Rightarrow> wire \<Rightarrow> raw_sse \<Rightarrow> dialect \<Rightarrow> stream_decoder
     \<Rightarrow> (map_error + ir_stream_event list) \<times> stream_decoder" where
  "decoder_decode parse to_str w raw d s =
     (let (r, seq) = decode_stream_events_seq parse to_str w raw d (gemini_call_seq s)
      in (r, \<lparr>gemini_call_seq = seq\<rparr>))"

definition decode_stream_events ::
  "(string \<Rightarrow> json option) \<Rightarrow> (json \<Rightarrow> string) \<Rightarrow> wire \<Rightarrow> raw_sse \<Rightarrow> dialect \<Rightarrow> map_error + ir_stream_event list" where
  "decode_stream_events parse to_str w raw d = fst (decode_stream_events_seq parse to_str w raw d 0)"

section \<open>Terminal frames\<close>

definition nonempty_at :: "json \<Rightarrow> string list \<Rightarrow> bool" where
  "nonempty_at v path = is_some_and (Option.bind (pointer v path) as_str) (\<lambda>s. s \<noteq> [])"

definition chat_frame_is_terminal :: "(string \<Rightarrow> json option) \<Rightarrow> raw_sse \<Rightarrow> bool" where
  "chat_frame_is_terminal parse raw =
     (event raw = Some ''[DONE]'' \<or> trim (data raw) = ''[DONE]''
      \<or> (case parse (data raw) of
           None \<Rightarrow> False
         | Some v \<Rightarrow>
             is_some_and (Option.bind (pointer v [''choices'']) as_array)
               (list_ex (\<lambda>choice. is_some_and (Option.bind (jget choice ''finish_reason'') as_str) (\<lambda>s. s \<noteq> [])))))"

definition messages_frame_is_terminal :: "(string \<Rightarrow> json option) \<Rightarrow> raw_sse \<Rightarrow> bool" where
  "messages_frame_is_terminal parse raw =
     (let name = frame_event_name parse Messages raw
      in if name = ''message_stop'' then True
         else if name \<noteq> ''message_delta'' then False
         else case parse (data raw) of None \<Rightarrow> False | Some v \<Rightarrow> nonempty_at v [''delta'', ''stop_reason''])"

definition converse_frame_is_terminal :: "(string \<Rightarrow> json option) \<Rightarrow> raw_sse \<Rightarrow> bool" where
  "converse_frame_is_terminal parse raw =
     (case parse (data raw) of
        None \<Rightarrow> False | Some v \<Rightarrow> Option.bind (pointer v [''messageStop'', ''stopReason'']) as_str \<noteq> None)"

definition responses_frame_is_terminal :: "(string \<Rightarrow> json option) \<Rightarrow> raw_sse \<Rightarrow> bool" where
  "responses_frame_is_terminal parse raw =
     (frame_event_name parse Responses raw \<in> {''response.completed'', ''response.incomplete'', ''response.failed''})"

definition gemini_frame_is_terminal :: "(string \<Rightarrow> json option) \<Rightarrow> raw_sse \<Rightarrow> bool" where
  "gemini_frame_is_terminal parse raw =
     (case parse (data raw) of
        None \<Rightarrow> False
      | Some v \<Rightarrow> nonempty_at v [''candidates'', ''0'', ''finishReason'']
                  \<or> nonempty_at v [''promptFeedback'', ''blockReason''])"

fun frame_is_terminal :: "(string \<Rightarrow> json option) \<Rightarrow> wire \<Rightarrow> raw_sse \<Rightarrow> bool" where
  "frame_is_terminal parse ChatCompletions raw = chat_frame_is_terminal parse raw"
| "frame_is_terminal parse Messages raw = messages_frame_is_terminal parse raw"
| "frame_is_terminal parse Responses raw = responses_frame_is_terminal parse raw"
| "frame_is_terminal parse Gemini raw = gemini_frame_is_terminal parse raw"
| "frame_is_terminal parse Converse raw = converse_frame_is_terminal parse raw"

definition stream_has_terminal :: "(string \<Rightarrow> json option) \<Rightarrow> wire \<Rightarrow> raw_sse list \<Rightarrow> bool" where
  "stream_has_terminal parse w frames = list_ex (frame_is_terminal parse w) frames"


section \<open>Encoding one event\<close>

definition messages_stream_event :: "string \<Rightarrow> bool" where
  "messages_stream_event t =
     (t \<in> {''message_start'', ''content_block_start'', ''content_block_delta'', ''content_block_stop'',
           ''message_delta'', ''message_stop'', ''ping''})"

definition messages_protocol_reemits :: "string \<Rightarrow> bool" where
  "messages_protocol_reemits t =
     (t \<in> {''message_start'', ''content_block_start'', ''content_block_delta'', ''content_block_stop'',
           ''message_delta'', ''message_stop'', ''ping''})"

definition messages_content_block_type :: "string \<Rightarrow> bool" where
  "messages_content_block_type t =
     (t \<in> {''redacted_thinking'', ''server_tool_use'', ''web_search_tool_result'', ''web_fetch_tool_result'',
           ''code_execution_tool_result'', ''mcp_tool_use'', ''mcp_tool_result'',
           ''bash_code_execution_tool_result'', ''text_editor_code_execution_tool_result'', ''search_result'',
           ''document'', ''container_upload'', ''tool_result'', ''thinking'', ''image''})"

definition responses_output_item :: "string \<Rightarrow> json \<Rightarrow> bool" where
  "responses_output_item t p =
     (if t = ''chunk'' \<or> t = ''output_image'' then False
      else if CHR ''.'' \<in> set t \<or> messages_stream_event t then False
      else if messages_content_block_type t then False
      else Option.bind (jget p ''type'') as_str = Some t)"

definition responses_hosted_item_type :: "string \<Rightarrow> bool" where
  "responses_hosted_item_type t =
     (ends_with ''_call'' t \<or> ends_with ''_call_output'' t
      \<or> t \<in> {''reasoning'', ''mcp_list_tools'', ''mcp_approval_request'', ''mcp_approval_response'',
             ''item_reference'', ''program'', ''compaction''})"

definition responses_slot_names :: "string set" where
  "responses_slot_names =
     {''responses_id'', ''responses_previous_id'', ''responses_message_id'', ''responses_message_status'',
      ''responses_message_phase'', ''responses_message_agent'', ''responses_reasoning_id'',
      ''responses_reasoning_status'', ''responses_reasoning_content'', ''responses_tool_status'',
      ''responses_tool_namespace'', ''responses_tool_created_by'', ''responses_tool_caller'',
      ''responses_tool_item_id''}"

definition gemini_slot_names :: "string set" where
  "gemini_slot_names =
     {''gemini_response_id'', ''gemini_safety_ratings'', ''gemini_url_context'', ''gemini_citation_metadata'',
      ''gemini_code_part'', ''gemini_prompt_safety'', ''gemini_block_reason_message'', ''gemini_traffic_type'',
      ''gemini_tool_use_prompt_tokens'', ''gemini_avg_logprobs'', ''gemini_candidate_tokens'',
      ''gemini_prompt_token_details'', ''gemini_candidate_token_details''}"

fun event_has_slot :: "wire \<Rightarrow> ir_stream_event \<Rightarrow> bool" where
  "event_has_slot w (Protocol t p) =
     ((w = Messages \<and> (messages_protocol_reemits t
        \<or> t \<in> {''messages_id'', ''messages_web_search_requests'', ''messages_web_fetch_requests'',
               ''messages_cache_creation'', ''messages_citation''}))
      \<or> (w = Responses \<and> (t \<in> responses_slot_names \<or> responses_output_item t p))
      \<or> (w = ChatCompletions \<and> t \<in> {''system_fingerprint'', ''chat_completion_id'', ''chat_audio_id'',
           ''chat_audio_expires'', ''chat_accepted_prediction_tokens'', ''chat_rejected_prediction_tokens''})
      \<or> (w = Gemini \<and> t \<in> gemini_slot_names)
      \<or> (w = Converse \<and> t \<in> {''additionalModelResponseFields'', ''metrics'', ''trace'', ''performanceConfig'',
           ''converse_frame'', ''converse_citation'', ''converse_redacted_content''}))"
| "event_has_slot w (Unknown _ _) = (w = Messages \<or> w = Responses)"
| "event_has_slot w _ = True"

definition sse_event_field :: "string \<Rightarrow> string option" where
  "sse_event_field name = (if name = [] \<or> name = ''chunk'' \<or> name = ''[DONE]'' then None else Some name)"

definition encode_named :: "(json \<Rightarrow> string) \<Rightarrow> string \<Rightarrow> json \<Rightarrow> raw_sse" where
  "encode_named to_str name v =
     \<lparr>event = sse_event_field name, data = (case v of JString s \<Rightarrow> s | _ \<Rightarrow> to_str v)\<rparr>"

definition responses_output_item_frame :: "(json \<Rightarrow> string) \<Rightarrow> json \<Rightarrow> raw_sse" where
  "responses_output_item_frame to_str p =
     \<lparr>event = Some ''response.output_item.done'',
      data = to_str (json_obj [(''type'', JString ''response.output_item.done''),
        (''output_index'', json_u64 (unwrap_or (Option.bind (jget p ''output_index'') as_u64) 0)),
        (''item'', jremove ''output_index'' p)])\<rparr>"

definition encode_stream_event ::
  "(ir_stream_event \<Rightarrow> string) \<Rightarrow> (string \<Rightarrow> json option) \<Rightarrow> (json \<Rightarrow> string) \<Rightarrow> wire \<Rightarrow> ir_stream_event
     \<Rightarrow> map_error + raw_sse" where
  "encode_stream_event debug parse to_str w ev =
     (case ev of
        Unknown name v \<Rightarrow> Inr (encode_named to_str name v)
      | Protocol t p \<Rightarrow>
          if w = Responses \<and> responses_output_item t p then Inr (responses_output_item_frame to_str p)
          else if w = ChatCompletions \<and> t \<in> {''system_fingerprint'', ''chat_audio_id'', ''chat_audio_expires''} then
            chat_encode to_str ev
          else if w = Converse \<and> t = ''converse_frame'' then Inr \<lparr>event = None, data = to_str p\<rparr>
          else if w = Converse \<and> t = ''converse_citation'' then
            Inr \<lparr>event = None, data = to_str (json_obj [(''contentBlockDelta'',
                   json_obj [(''contentBlockIndex'', json_u64 0), (''delta'', json_obj [(''citation'', p)])])])\<rparr>
          else Inr (encode_named to_str t p)
      | _ \<Rightarrow>
          (case w of
             ChatCompletions \<Rightarrow> chat_encode to_str ev
           | Messages \<Rightarrow> messages_encode parse to_str ev
           | Responses \<Rightarrow> responses_encode to_str ev
           | Gemini \<Rightarrow> gemini_encode parse to_str ev
           | Converse \<Rightarrow>
               (case converse_encode debug parse to_str ev of
                  Inl e \<Rightarrow> Inl e | Inr v \<Rightarrow> Inr \<lparr>event = None, data = to_str v\<rparr>)))"

definition wrapped_error_code :: "json \<Rightarrow> string option" where
  "wrapped_error_code err =
     (let code = (\<lambda>key. ofilter (\<lambda>text. \<not> (key = ''type'' \<and> text = ''error''))
                          (nonempty_str_opt (jget err key)))
      in or_else (code ''type'') (or_else (code ''code'') (code ''status'')))"

definition sse_wrapped_error_message :: "(string \<Rightarrow> json option) \<Rightarrow> string \<Rightarrow> string option" where
  "sse_wrapped_error_message parse txt =
     (case parse txt of
        None \<Rightarrow> None
      | Some v \<Rightarrow>
          if json_has_completion v \<or> choice_visible v then None
          else case ofilter (\<lambda>t. t \<noteq> []) (map_option trim (Option.bind (jget v ''error'') as_str)) of
                 Some t \<Rightarrow> Some t
               | None \<Rightarrow>
                   (case (case ofilter is_object (jget v ''error'') of
                            Some err \<Rightarrow> Some err
                          | None \<Rightarrow> if Option.bind (jget v ''type'') as_str = Some ''error'' then Some v else None) of
                      None \<Rightarrow> None
                    | Some err \<Rightarrow>
                        (case (wrapped_error_code err, nonempty_str_opt (jget err ''message'')) of
                           (Some code, Some message) \<Rightarrow> Some (code @ '': '' @ message)
                         | (None, Some message) \<Rightarrow> Some message
                         | _ \<Rightarrow> Some txt)))"


section \<open>The frame reader of an upstream connection\<close>

datatype upstream_frames = SseFrames sse_reader | EventFrames es_reader

definition for_wire :: "wire \<Rightarrow> upstream_frames" where
  "for_wire w = (if w = Converse then EventFrames es_new else SseFrames sse_new)"

text \<open>A successful \<open>feed\<close> returns the frames and, after them, an Event Stream exception if the bytes ended in
  one.\<close>

fun frames_feed ::
  "(bytes \<Rightarrow> json option) \<Rightarrow> (json \<Rightarrow> string) \<Rightarrow> bytes \<Rightarrow> upstream_frames
     \<Rightarrow> (string + raw_sse list \<times> string option) \<times> upstream_frames" where
  "frames_feed parse to_str bs (SseFrames r) =
     (case sse_feed bs r of
        (Inl e, r') \<Rightarrow> (Inl e, SseFrames r') | (Inr frames, r') \<Rightarrow> (Inr (frames, None), SseFrames r'))"
| "frames_feed parse to_str bs (EventFrames r) =
     (case es_feed parse to_str bs r of (res, r') \<Rightarrow> (res, EventFrames r'))"

fun frames_has_open_frame :: "upstream_frames \<Rightarrow> bool" where
  "frames_has_open_frame (SseFrames r) = has_open_frame r"
| "frames_has_open_frame (EventFrames _) = False"

fun frames_pending_wire_bytes :: "upstream_frames \<Rightarrow> bytes" where
  "frames_pending_wire_bytes (SseFrames r) = pending_wire_bytes r"
| "frames_pending_wire_bytes (EventFrames _) = []"

fun frames_drain :: "upstream_frames \<Rightarrow> raw_sse option \<times> upstream_frames" where
  "frames_drain (SseFrames r) = (case sse_drain r of (f, r') \<Rightarrow> (f, SseFrames r'))"
| "frames_drain (EventFrames r) = (case es_drain r of (f, r') \<Rightarrow> (f, EventFrames r'))"

fun frames_finish :: "upstream_frames \<Rightarrow> (string + raw_sse option) \<times> upstream_frames" where
  "frames_finish (SseFrames r) = (case sse_finish r of (f, r') \<Rightarrow> (f, SseFrames r'))"
| "frames_finish (EventFrames r) = (case es_finish r of (f, r') \<Rightarrow> (f, EventFrames r'))"

end
