(* ===== verification/Wm_Stream_Codec.thy ===== *)
theory Wm_Stream_Codec
  imports Wm_Stream
begin

text \<open>
  The stream root as a codec: what \<open>encode_stream_event\<close> writes, \<open>StreamDecoder::decode\<close> reads back, on every
  wire. The locale \<open>stream_codec\<close> is the contract between the two, \<open>stream_bridge\<close> the contract of a gateway
  that reads one wire and writes another.
\<close>

section \<open>The contract\<close>

fun write_all :: "('ev \<Rightarrow> 'e + 'raw) \<Rightarrow> 'ev list \<Rightarrow> 'e + 'raw list" where
  "write_all wr [] = Inr []"
| "write_all wr (ev # evs) =
     (case wr ev of
        Inl e \<Rightarrow> Inl e
      | Inr raw \<Rightarrow> (case write_all wr evs of Inl e \<Rightarrow> Inl e | Inr raws \<Rightarrow> Inr (raw # raws)))"

fun read_all :: "('raw \<Rightarrow> 's \<Rightarrow> ('e + 'ev list) \<times> 's) \<Rightarrow> 'raw list \<Rightarrow> 's \<Rightarrow> ('e + 'ev list) \<times> 's" where
  "read_all rd [] s = (Inr [], s)"
| "read_all rd (raw # raws) s =
     (case rd raw s of
        (Inl e, s') \<Rightarrow> (Inl e, s')
      | (Inr evs, s') \<Rightarrow>
          (case read_all rd raws s' of
             (Inl e, s'') \<Rightarrow> (Inl e, s'') | (Inr evs', s'') \<Rightarrow> (Inr (evs @ evs'), s'')))"

fun keeps_all :: "('s \<Rightarrow> 'ev \<Rightarrow> bool) \<Rightarrow> ('ev \<Rightarrow> 's \<Rightarrow> 's) \<Rightarrow> 's \<Rightarrow> 'ev list \<Rightarrow> bool" where
  "keeps_all keeps after s [] = True"
| "keeps_all keeps after s (ev # evs) = (keeps s ev \<and> keeps_all keeps after (after ev s) evs)"

locale stream_codec =
  fixes wr :: "'ev \<Rightarrow> 'e + 'raw"
    and rd :: "'raw \<Rightarrow> 's \<Rightarrow> ('e + 'ev list) \<times> 's"
    and keeps :: "'s \<Rightarrow> 'ev \<Rightarrow> bool"
    and after :: "'ev \<Rightarrow> 's \<Rightarrow> 's"
  assumes reads_back: "keeps s ev \<Longrightarrow> \<exists>raw. wr ev = Inr raw \<and> rd raw s = (Inr [ev], after ev s)"
begin

lemma stream_reads_back:
  "keeps_all keeps after s evs \<Longrightarrow>
     \<exists>raws. write_all wr evs = Inr raws \<and> read_all rd raws s = (Inr evs, fold after evs s)"
proof (induction evs arbitrary: s)
  case (Cons ev evs)
  then obtain raw raws where "wr ev = Inr raw" "rd raw s = (Inr [ev], after ev s)"
      "write_all wr evs = Inr raws" "read_all rd raws (after ev s) = (Inr evs, fold after evs (after ev s))"
    using reads_back [of s ev] Cons.IH [of "after ev s"] Cons.prems by fastforce
  then show ?case by simp
qed simp

end

text \<open>A gateway: frames of the first wire become events, the events frames of the second. What both wires
  keep crosses the gateway unchanged.\<close>

locale stream_bridge =
  src: stream_codec wr1 rd1 keeps1 after1 + dst: stream_codec wr2 rd2 keeps2 after2
  for wr1 :: "'ev \<Rightarrow> 'e + 'raw" and rd1 :: "'raw \<Rightarrow> 's \<Rightarrow> ('e + 'ev list) \<times> 's"
    and keeps1 :: "'s \<Rightarrow> 'ev \<Rightarrow> bool" and after1 :: "'ev \<Rightarrow> 's \<Rightarrow> 's"
    and wr2 :: "'ev \<Rightarrow> 'e + 'raw" and rd2 :: "'raw \<Rightarrow> 's \<Rightarrow> ('e + 'ev list) \<times> 's"
    and keeps2 :: "'s \<Rightarrow> 'ev \<Rightarrow> bool" and after2 :: "'ev \<Rightarrow> 's \<Rightarrow> 's"
begin

lemma crosses:
  assumes "keeps_all keeps1 after1 s evs" "keeps_all keeps2 after2 t evs"
  shows "\<exists>raws raws'. write_all wr1 evs = Inr raws
    \<and> read_all rd1 raws s = (Inr evs, fold after1 evs s)
    \<and> write_all wr2 evs = Inr raws' \<and> read_all rd2 raws' t = (Inr evs, fold after2 evs t)"
  using src.stream_reads_back [OF assms(1)] dst.stream_reads_back [OF assms(2)] by blast

end


section \<open>What the wires wr\<close>

text \<open>The name and the JSON value of the frame an event becomes.\<close>

fun written ::
  "(ir_stream_event \<Rightarrow> string) \<Rightarrow> (string \<Rightarrow> json option) \<Rightarrow> (json \<Rightarrow> string) \<Rightarrow> wire \<Rightarrow> ir_stream_event
     \<Rightarrow> (string option \<times> json) option" where
  "written debug parse to_str ChatCompletions ev = map_option (Pair None) (chat_encode_value ev)"
| "written debug parse to_str Messages ev = map_option (map_prod Some id) (messages_encode_value parse to_str ev)"
| "written debug parse to_str Responses ev = map_option (map_prod Some id) (responses_encode_value ev)"
| "written debug parse to_str Gemini ev = map_option (Pair None) (gemini_encode_value parse ev)"
| "written debug parse to_str Converse ev =
     (case converse_encode debug parse to_str ev of Inl e \<Rightarrow> None | Inr v \<Rightarrow> Some (None, v))"

text \<open>What the decoder needs of \<open>serde_json\<close> at the value written: printing an object gives text that starts
  with a brace and has no white space around it, and parsing the text gives the value back.\<close>

definition printed_ok :: "(string \<Rightarrow> json option) \<Rightarrow> (json \<Rightarrow> string) \<Rightarrow> json \<Rightarrow> bool" where
  "printed_ok parse to_str v =
     (parse (to_str v) = Some v \<and> trim (to_str v) = to_str v \<and> starts_with ''{'' (to_str v))"

fun wire_keeps :: "wire \<Rightarrow> nat \<Rightarrow> ir_stream_event \<Rightarrow> bool" where
  "wire_keeps ChatCompletions seq ev = chat_keeps ev"
| "wire_keeps Messages seq ev = messages_keeps ev"
| "wire_keeps Responses seq ev = responses_keeps ev"
| "wire_keeps Gemini seq ev = gemini_keeps seq ev"
| "wire_keeps Converse seq ev = converse_keeps ev"

definition root_keeps ::
  "(ir_stream_event \<Rightarrow> string) \<Rightarrow> (string \<Rightarrow> json option) \<Rightarrow> (json \<Rightarrow> string) \<Rightarrow> wire \<Rightarrow> dialect \<Rightarrow> stream_decoder
     \<Rightarrow> ir_stream_event \<Rightarrow> bool" where
  "root_keeps debug parse to_str w d s ev =
     (wire_keeps w (gemini_call_seq s) ev
      \<and> set (default_stream_events w) \<subseteq> set (stream_events d)
      \<and> (case written debug parse to_str w ev of None \<Rightarrow> False | Some (n, v) \<Rightarrow> printed_ok parse to_str v))"

text \<open>The call counter after an event: Gemini numbers the calls of a stream.\<close>

definition after_event :: "wire \<Rightarrow> ir_stream_event \<Rightarrow> stream_decoder \<Rightarrow> stream_decoder" where
  "after_event w ev s =
     (case ev of
        ToolCallStart _ _ _ _ \<Rightarrow> (if w = Gemini then \<lparr>gemini_call_seq = Suc (gemini_call_seq s)\<rparr> else s) | _ \<Rightarrow> s)"

lemma keeps_not_raw: "wire_keeps w seq ev \<Longrightarrow> \<not> is_protocol ev \<and> (\<forall>n v. ev \<noteq> Unknown n v)"
  by (cases w; cases ev) (auto simp: is_protocol_def)

lemma keeps_done: "wire_keeps w seq Done \<Longrightarrow> w = Messages \<or> w = Responses"
  by (cases w) auto

lemma encode_written:
  assumes "root_keeps debug parse to_str w d s ev"
  shows "\<exists>n v. written debug parse to_str w ev = Some (n, v)
     \<and> encode_stream_event debug parse to_str w ev = Inr \<lparr>event = n, data = to_str v\<rparr>"
proof -
  have k: "wire_keeps w (gemini_call_seq s) ev" and "written debug parse to_str w ev \<noteq> None"
    using assms by (auto simp: root_keeps_def split: option.splits)
  then obtain n v where w1: "written debug parse to_str w ev = Some (n, v)" by auto
  have "encode_stream_event debug parse to_str w ev =
      (case w of
         ChatCompletions \<Rightarrow> chat_encode to_str ev
       | Messages \<Rightarrow> messages_encode parse to_str ev
       | Responses \<Rightarrow> responses_encode to_str ev
       | Gemini \<Rightarrow> gemini_encode parse to_str ev
       | Converse \<Rightarrow>
           (case converse_encode debug parse to_str ev of
              Inl e \<Rightarrow> Inl e | Inr v \<Rightarrow> Inr \<lparr>event = None, data = to_str v\<rparr>))"
    using keeps_not_raw [OF k] by (cases ev) (auto simp: encode_stream_event_def is_protocol_def)
  then have "encode_stream_event debug parse to_str w ev = Inr \<lparr>event = n, data = to_str v\<rparr>"
    using w1 keeps_done [of w "gemini_call_seq s"] k
    by (cases w; cases "ev = Done")
      (auto simp: chat_encode_def messages_encode_def responses_encode_def gemini_encode_def
        split: sum.splits prod.splits)
  with w1 show ?thesis by blast
qed

lemma printed_nonblank: "printed_ok parse to_str v \<Longrightarrow> to_str v \<noteq> [] \<and> to_str v \<noteq> ''[DONE]''"
  by (auto simp: printed_ok_def starts_with_iff)

text \<open>The singular decoder on a frame whose name the profile lists.\<close>

lemma decode_listed:
  assumes "printed_ok parse to_str v" "frame_event_name parse w \<lparr>event = n, data = to_str v\<rparr> = name"
    "name \<in> set (stream_events d)" "name \<noteq> ''[DONE]''"
  shows "decode_stream_event parse to_str w \<lparr>event = n, data = to_str v\<rparr> d =
     (case w of
        ChatCompletions \<Rightarrow> chat_decode to_str v
      | Messages \<Rightarrow> messages_decode name v
      | Responses \<Rightarrow> responses_decode to_str name v
      | Gemini \<Rightarrow> gemini_decode v
      | Converse \<Rightarrow> converse_decode v)"
  using assms printed_nonblank [OF assms(1)]
  by (cases w) (simp_all add: decode_stream_event_def printed_ok_def)


section \<open>One lemma per wire\<close>

lemma chat_is_ok:
  assumes "chat_keeps ev" "chat_encode_value ev = Some v"
  shows "is_ok (chat_decode to_str v)"
proof (cases "chat_singular ev")
  case True
  then show ?thesis
    using chat_keeps_reads_back [OF assms(1), of to_str] assms(2) by (simp add: chat_reads_back_def is_ok_def)
next
  case False
  with assms show ?thesis
    by (cases ev)
      (auto simp: chat_choice_def decode_choice chat_piece_defs chat_decode_choice_def chat_call_defs
        chat_decode_rest_def is_ok_def)
qed

lemma root_chat:
  assumes "root_keeps debug parse to_str ChatCompletions d s ev"
    "written debug parse to_str ChatCompletions ev = Some (n, v)"
  shows "decode_stream_events_seq parse to_str ChatCompletions \<lparr>event = n, data = to_str v\<rparr> d seq = (Inr [ev], seq)"
proof -
  have k: "chat_keeps ev" and e: "chat_encode_value ev = Some v" and n: "n = None"
    and p: "printed_ok parse to_str v" and d: "''chunk'' \<in> set (stream_events d)"
    using assms by (auto simp: root_keeps_def)
  let ?raw = "\<lparr>event = n, data = to_str v\<rparr>"
  have "frame_event_name parse ChatCompletions ?raw = ''chunk''"
    using p printed_nonblank [OF p] by (simp add: frame_event_name_def n printed_ok_def)
  then have "decode_stream_event parse to_str ChatCompletions ?raw d = chat_decode to_str v"
    using decode_listed [OF p _ d] by simp
  moreover have "chat_decode_all to_str v = Inr [ev]"
    using chat_keeps_reads_back [OF k, of to_str] e by (simp add: chat_reads_back_def)
  moreover have "\<not> is_protocol ev" using keeps_not_raw [of ChatCompletions 0] k by simp
  ultimately show ?thesis
    using p chat_is_ok [OF k e, of to_str]
    by (cases ev) (auto simp: decode_stream_events_seq_def chat_branch_def printed_ok_def is_protocol_def)
qed

lemma responses_start_reads: "responses_keeps (ToolCallStart id' name sig i) \<Longrightarrow>
    responses_encode_value (ToolCallStart id' name sig i) = Some (nm, v) \<Longrightarrow>
    responses_decode_all to_str nm v \<noteq> Inr []"
  by (auto simp: responses_read_defs)

lemma responses_written_name:
  "responses_keeps ev \<Longrightarrow> responses_encode_value ev = Some (name, v) \<Longrightarrow>
     name \<in> set (default_stream_events Responses)"
  by (cases ev) (auto simp: responses_frame_def delta_frame_at_def added_frame_def response_frame_def in_progress_def
      finish_frame_name_def Let_def split: if_splits)

lemma responses_branch_events:
  assumes "responses_events to_str name v = Inr [ev]" "frame_event_name parse Responses raw = name"
    "parse (data raw) = Some v" "\<And>id' nm sig i. ev = ToolCallStart id' nm sig i \<Longrightarrow> responses_decode_all to_str name v \<noteq> Inr []"
    "decode_stream_event parse to_str Responses raw d = responses_decode to_str name v"
  shows "decode_stream_events_seq parse to_str Responses raw d seq = (Inr [ev], seq)"
proof -
  obtain first where first: "responses_decode to_str name v = Inr first"
    using assms(1) by (auto simp: responses_events_def split: sum.splits)
  have rest: "decode_rest parse to_str Responses raw (Some ev) = Inr [ev]"
    if "responses_decode_all to_str name v = Inr []"
    using that assms(3,4)
    by (cases ev) (auto simp: decode_rest_def expand_complete_tool_call_def expand_responses_function_call_def)
  show ?thesis
    using assms(1,2,3,5) first rest
    by (auto simp: decode_stream_events_seq_def responses_branch_def responses_events_def is_ok_def
        split: option.splits sum.splits if_splits)
qed

lemma root_responses:
  assumes "root_keeps debug parse to_str Responses d s ev" "written debug parse to_str Responses ev = Some (n, v)"
  shows "decode_stream_events_seq parse to_str Responses \<lparr>event = n, data = to_str v\<rparr> d seq = (Inr [ev], seq)"
proof -
  obtain name where k: "responses_keeps ev" and e: "responses_encode_value ev = Some (name, v)" and n: "n = Some name"
    and p: "printed_ok parse to_str v" and d: "set (default_stream_events Responses) \<subseteq> set (stream_events d)"
    using assms by (auto simp: root_keeps_def simp del: default_stream_events.simps)
  let ?raw = "\<lparr>event = n, data = to_str v\<rparr>"
  note name = responses_written_name [OF k e]
  have nm: "frame_event_name parse Responses ?raw = name" "name \<noteq> ''[DONE]''"
    using name by (auto simp: frame_event_name_def n)
  have "decode_stream_event parse to_str Responses ?raw d = responses_decode to_str name v"
    using decode_listed [OF p nm(1) _ nm(2)] d name by auto
  moreover have "responses_events to_str name v = Inr [ev]"
    using responses_keeps_reads_back [OF k, of to_str] e by (simp add: responses_reads_back_def)
  moreover have "responses_decode_all to_str name v \<noteq> Inr []" if "ev = ToolCallStart id' nm sig i" for id' nm sig i
    using responses_start_reads k e that by blast
  ultimately show ?thesis
    using responses_branch_events [OF _ nm(1)] p by (simp add: printed_ok_def)
qed

lemma messages_written_name:
  "messages_keeps ev \<Longrightarrow> messages_encode_value parse to_str ev = Some (name, v) \<Longrightarrow>
     name \<in> set (default_stream_events Messages) \<and> name \<noteq> ''message_start''"
  by (cases ev) (auto simp: block_delta_def block_start_def message_delta_def)

lemma anthropic_no_side_events:
  "messages_web_search_events (anthropic_usage_body p c cr cw rs geo) = []"
  "messages_cache_creation_events (anthropic_usage_body p c cr cw rs geo) = []"
  "service_tier_from_usage (anthropic_usage_body p c cr cw rs geo) = None"
  by (auto simp: anthropic_usage_body_def messages_web_search_events_def messages_cache_creation_events_def
      service_tier_from_usage_def Let_def insert_if_def jget_jinsert_obj positive_def split: option.splits)

lemma messages_fan_out_single:
  assumes "messages_keeps ev" "messages_encode_value parse to_str ev = Some (name, v)"
  shows "messages_fan_out name v ev = [ev]"
proof (cases ev)
  case (Usage p c cr cw rs au cau geo)
  have "is_object (anthropic_usage_body p c cr cw rs geo)"
    by (simp add: anthropic_usage_body_def Let_def insert_if_def split: option.splits)
  with assms show ?thesis
    by (auto simp: Usage messages_fan_out_def messages_usage_object_def Let_def is_usage_ev_def is_finish_ev_def
        is_refusal_ev_def encode_anthropic_def anthropic_no_side_events stop_details_explanation_def)
qed (use assms in \<open>auto simp: messages_fan_out_def messages_usage_object_def Let_def is_usage_ev_def is_finish_ev_def
        is_refusal_ev_def block_delta_def block_start_def message_delta_def nonblank_str_def
        stop_details_explanation_def\<close>)

lemma root_messages:
  assumes "root_keeps debug parse to_str Messages d s ev" "written debug parse to_str Messages ev = Some (n, v)"
  shows "decode_stream_events_seq parse to_str Messages \<lparr>event = n, data = to_str v\<rparr> d seq = (Inr [ev], seq)"
proof -
  obtain name where k: "messages_keeps ev" and e: "messages_encode_value parse to_str ev = Some (name, v)"
    and n: "n = Some name" and p: "printed_ok parse to_str v"
    and d: "set (default_stream_events Messages) \<subseteq> set (stream_events d)"
    using assms by (auto simp: root_keeps_def simp del: default_stream_events.simps)
  let ?raw = "\<lparr>event = n, data = to_str v\<rparr>"
  note name = messages_written_name [OF k e]
  have nm: "frame_event_name parse Messages ?raw = name" "name \<noteq> ''[DONE]''"
    using name by (auto simp: frame_event_name_def n)
  have "decode_stream_event parse to_str Messages ?raw d = messages_decode name v"
    using decode_listed [OF p nm(1) _ nm(2)] d name by auto
  moreover have "messages_decode name v = Inr (Some ev)"
    using messages_keeps_reads_back [OF k, of parse to_str] e by simp
  ultimately show ?thesis
    using messages_fan_out_single [OF k e] nm(1) p
    by (simp add: decode_stream_events_seq_def decode_rest_def expand_complete_tool_call_def printed_ok_def)
qed

lemma gemini_no_error:
  "gemini_keeps seq ev \<Longrightarrow> gemini_encode_value parse ev = Some v \<Longrightarrow> jget v ''error'' = None"
  by (cases ev) (auto simp: gemini_part_chunk_def encode_gemini_def Let_def)

lemma gemini_is_ok: "jget v ''error'' = None \<Longrightarrow> is_ok (gemini_decode v)"
  by (simp add: gemini_decode_def gemini_error_detail_def json_string_error_def is_ok_def Let_def split: option.splits)

lemma root_gemini:
  assumes "root_keeps debug parse to_str Gemini d s ev" "written debug parse to_str Gemini ev = Some (n, v)"
  shows "decode_stream_events_seq parse to_str Gemini \<lparr>event = n, data = to_str v\<rparr> d (gemini_call_seq s) =
    (Inr [ev], gemini_call_seq (after_event Gemini ev s))"
proof -
  have k: "gemini_keeps (gemini_call_seq s) ev" and e: "gemini_encode_value parse ev = Some v" and n: "n = None"
    and p: "printed_ok parse to_str v" and d: "''chunk'' \<in> set (stream_events d)"
    using assms by (auto simp: root_keeps_def)
  let ?raw = "\<lparr>event = n, data = to_str v\<rparr>"
  have "frame_event_name parse Gemini ?raw = ''chunk''"
    using p printed_nonblank [OF p] by (simp add: frame_event_name_def n printed_ok_def)
  then have "decode_stream_event parse to_str Gemini ?raw d = gemini_decode v"
    using decode_listed [OF p _ d] by simp
  moreover have "fan_out_gemini_parts to_str v (gemini_call_seq s) = (Some [ev], gemini_call_seq (after_event Gemini ev s))"
    using gemini_keeps_reads_back [OF k, of to_str parse] e by (cases ev) (simp_all add: after_event_def)
  ultimately show ?thesis
    using p gemini_is_ok [OF gemini_no_error [OF k e]]
    by (auto simp: decode_stream_events_seq_def printed_ok_def is_ok_def split: sum.splits)
qed

lemma one_key_frame_events:
  "k = ''contentBlockDelta'' \<or> k = ''contentBlockStart'' \<or> k = ''messageStop'' \<Longrightarrow>
     decode_metadata_events (json_obj [(k, x)]) = []"
  by (elim disjE)
    (simp_all add: decode_metadata_events_def service_tier_from_def passthrough_events_def metadata_keys_def)

lemma usage_frame_events:
  "decode_metadata_events (json_obj [(''metadata'', json_obj [(''usage'', u)])]) = [usage_from_converse u]"
  by (simp add: decode_metadata_events_def service_tier_from_def passthrough_events_def metadata_keys_def)

lemma converse_one_metadata_event:
  "converse_keeps ev \<Longrightarrow> converse_encode debug parse to_str ev = Inr v \<Longrightarrow> length (decode_metadata_events v) < 2"
  by (cases ev) (auto simp: delta_frame_def start_frame_def one_key_frame_events usage_frame_events
      split: option.splits)

lemma converse_name:
  "frame_event_name parse Converse \<lparr>event = None, data = t\<rparr> \<noteq> ''[DONE]'' \<Longrightarrow>
     frame_event_name parse Converse \<lparr>event = None, data = t\<rparr> \<in> set (default_stream_events Converse)"
  by (auto simp: frame_event_name_def converse_frame_names_def Let_def unwrap_or_def split: option.splits if_splits)

lemma root_converse:
  assumes "root_keeps debug parse to_str Converse d s ev" "written debug parse to_str Converse ev = Some (n, v)"
  shows "decode_stream_events_seq parse to_str Converse \<lparr>event = n, data = to_str v\<rparr> d seq = (Inr [ev], seq)"
proof -
  have k: "converse_keeps ev" and e: "converse_encode debug parse to_str ev = Inr v" and n: "n = None"
    and p: "printed_ok parse to_str v" and d: "set (default_stream_events Converse) \<subseteq> set (stream_events d)"
    using assms by (auto simp: root_keeps_def simp del: default_stream_events.simps split: sum.splits)
  let ?raw = "\<lparr>event = n, data = to_str v\<rparr>"
  have nm: "frame_event_name parse Converse ?raw \<noteq> ''[DONE]''"
    using p printed_nonblank [OF p]
    by (auto simp: frame_event_name_def n printed_ok_def converse_frame_names_def unwrap_or_def
        split: option.splits if_splits)
  have "decode_stream_event parse to_str Converse ?raw d = converse_decode v"
    using decode_listed [OF p refl _ nm] converse_name [of parse "to_str v"] d nm by (auto simp: n)
  moreover have "converse_decode v = Inr (Some ev)"
    using converse_keeps_reads_back [OF k, of debug parse to_str] e by simp
  ultimately show ?thesis
    using p converse_one_metadata_event [OF k e]
    by (auto simp: decode_stream_events_seq_def decode_rest_def expand_complete_tool_call_def printed_ok_def
        split: list.splits)
qed

lemma root_reads_back:
  assumes "root_keeps debug parse to_str w d s ev"
  shows "\<exists>raw. encode_stream_event debug parse to_str w ev = Inr raw
    \<and> decoder_decode parse to_str w raw d s = (Inr [ev], after_event w ev s)"
proof -
  obtain n v where w1: "written debug parse to_str w ev = Some (n, v)"
      and enc: "encode_stream_event debug parse to_str w ev = Inr \<lparr>event = n, data = to_str v\<rparr>"
    using encode_written [OF assms] by blast
  have "decode_stream_events_seq parse to_str w \<lparr>event = n, data = to_str v\<rparr> d (gemini_call_seq s)
      = (Inr [ev], gemini_call_seq (after_event w ev s))"
    using assms w1 root_chat root_messages root_responses root_gemini root_converse
    by (cases w; cases ev) (auto simp: after_event_def simp del: written.simps)
  then show ?thesis
    using enc by (simp add: decoder_decode_def)
qed

interpretation root: stream_codec "encode_stream_event debug parse to_str w"
  "\<lambda>raw s. decoder_decode parse to_str w raw d s" "root_keeps debug parse to_str w d" "after_event w"
  for debug parse to_str w d
  by unfold_locales (rule root_reads_back)

interpretation gateway: stream_bridge
  "encode_stream_event debug parse to_str w" "\<lambda>raw s. decoder_decode parse to_str w raw d s"
  "root_keeps debug parse to_str w d" "after_event w"
  "encode_stream_event debug parse to_str w'" "\<lambda>raw s. decoder_decode parse to_str w' raw d' s"
  "root_keeps debug parse to_str w' d'" "after_event w'"
  for debug parse to_str w d w' d'
  by unfold_locales


section \<open>Upstream frames as an incremental reader\<close>

text \<open>\<open>UpstreamFrames::feed\<close> as the client and the proxy use it: an exception after the frames ends the stream.\<close>

definition upstream_feed ::
  "(bytes \<Rightarrow> json option) \<Rightarrow> (json \<Rightarrow> string) \<Rightarrow> bytes \<Rightarrow> upstream_frames \<Rightarrow> (string + raw_sse list) \<times> upstream_frames" where
  "upstream_feed parse to_str bs u =
     (case frames_feed parse to_str bs u of
        (Inr (fs, None), u') \<Rightarrow> (Inr fs, u')
      | (Inr (fs, Some e), u') \<Rightarrow> (Inl e, u')
      | (Inl e, u') \<Rightarrow> (Inl e, u'))"

fun upstream_inv :: "(bytes \<Rightarrow> json option) \<Rightarrow> upstream_frames \<Rightarrow> bool" where
  "upstream_inv parse (SseFrames r) = sse_buf_ok r"
| "upstream_inv parse (EventFrames r) = es_inv parse r"

lemma upstream_feed_sse:
  "upstream_feed parse to_str bs (SseFrames r) = (Inr fs, u) \<longleftrightarrow> (\<exists>r'. sse_feed bs r = (Inr fs, r') \<and> u = SseFrames r')"
  by (auto simp: upstream_feed_def split: prod.splits sum.splits)

lemma upstream_feed_es:
  "upstream_feed parse to_str bs (EventFrames r) = (Inr fs, u) \<longleftrightarrow>
     (\<exists>r'. es_feed_frames parse to_str bs r = (Inr fs, r') \<and> u = EventFrames r')"
  by (auto simp: upstream_feed_def es_feed_frames_def split: prod.splits sum.splits option.splits)

interpretation upstream: chunked_reader "upstream_feed parse to_str" "upstream_inv parse" for parse to_str
proof
  fix u
  assume "upstream_inv parse u"
  then show "upstream_feed parse to_str [] u = (Inr [], u)"
    using sse.feed_nil es.feed_nil by (cases u) (auto simp: upstream_feed_sse upstream_feed_es)
next
  fix u bs fs u'
  assume "upstream_inv parse u" "upstream_feed parse to_str bs u = (Inr fs, u')"
  then show "upstream_inv parse u'"
    using sse.feed_inv es.feed_inv by (cases u) (fastforce simp: upstream_feed_sse upstream_feed_es)+
next
  fix u a b fs u'
  assume inv: "upstream_inv parse u" and feed: "upstream_feed parse to_str (a @ b) u = (Inr fs, u')"
  show "\<exists>fs1 fs2 u1. upstream_feed parse to_str a u = (Inr fs1, u1)
      \<and> upstream_feed parse to_str b u1 = (Inr fs2, u') \<and> fs = fs1 @ fs2"
  proof (cases u)
    case (SseFrames r)
    then obtain r' where "sse_feed (a @ b) r = (Inr fs, r')" "u' = SseFrames r'" "sse_buf_ok r"
      using feed inv by (auto simp: upstream_feed_sse)
    then show ?thesis
      using sse.feed_split [of r a b fs r'] unfolding SseFrames by (metis upstream_feed_sse)
  next
    case (EventFrames r)
    then obtain r' where "es_feed_frames parse to_str (a @ b) r = (Inr fs, r')" "u' = EventFrames r'" "es_inv parse r"
      using feed inv by (auto simp: upstream_feed_es)
    then show ?thesis
      using es.feed_split [of parse r to_str a b fs r'] unfolding EventFrames by (metis upstream_feed_es)
  qed
qed

lemma upstream_inv_new: "upstream_inv parse (for_wire w)"
  by (simp add: for_wire_def)

lemma frames_arrive:
  assumes "list_all frame_ok raws" "concat cs = concat (map format_sse raws)"
  shows "feed_all (upstream_feed parse to_str) cs (SseFrames sse_new) = (Inr raws, SseFrames sse_new)"
  using upstream.feed_all_concat [of parse "SseFrames sse_new" to_str cs raws "SseFrames sse_new"]
    sse_frames_read_back [OF assms(1)] assms(2)
  by (simp add: upstream_feed_sse)


section \<open>Properties\<close>

text \<open>C4. A gateway keeps the meaning of a stream. Events that both wires can carry, in any order and number,
  become frames of the first wire, are read back as the same events by one \<open>StreamDecoder\<close>, become frames of
  the second wire and are read back as the same events again. The hypothesis on the printer and the parser is
  that of \<open>printed_ok\<close> at the values written.
\<close>

theorem gateway_keeps_stream:
  assumes "keeps_all (root_keeps debug parse to_str w d) (after_event w) s evs"
    "keeps_all (root_keeps debug parse to_str w' d') (after_event w') t evs"
  shows "\<exists>raws raws'. write_all (encode_stream_event debug parse to_str w) evs = Inr raws
    \<and> read_all (\<lambda>raw. decoder_decode parse to_str w raw d) raws s = (Inr evs, fold (after_event w) evs s)
    \<and> write_all (encode_stream_event debug parse to_str w') evs = Inr raws'
    \<and> read_all (\<lambda>raw. decoder_decode parse to_str w' raw d') raws' t = (Inr evs, fold (after_event w') evs t)"
  using assms by (rule gateway.crosses)

text \<open>A printer and a parser that agree on the Chat chunk and the Messages frame of one text delta.\<close>

definition hi_chat :: json where
  "hi_chat = chat_choice [(''content'', JString ''hi'')]"

definition hi_messages :: json where
  "hi_messages = snd (block_delta 0 [(''type'', JString ''text_delta''), (''text'', JString ''hi'')])"

definition hi_print :: "json \<Rightarrow> string" where
  "hi_print v = (if v = hi_chat then ''{chat}'' else ''{messages}'')"

definition hi_parse :: "string \<Rightarrow> json option" where
  "hi_parse t = (if t = ''{chat}'' then Some hi_chat else if t = ''{messages}'' then Some hi_messages else None)"

definition listed :: "wire \<Rightarrow> dialect" where
  "listed w = \<lparr>stream_events = default_stream_events w, stream_unknown_policy = HardError\<rparr>"

lemma hi_differs: "hi_chat \<noteq> hi_messages"
proof
  assume "hi_chat = hi_messages"
  then have "jget hi_chat ''type'' = jget hi_messages ''type''" by simp
  then show False by (simp add: hi_chat_def hi_messages_def chat_choice_def block_delta_def)
qed

lemma hi_trim: "trim ''{chat}'' = ''{chat}''" "trim ''{messages}'' = ''{messages}''"
  using trim_printable(1) [of "CHR ''{''" "CHR ''}''" "''chat''"] trim_printable(1) [of "CHR ''{''" "CHR ''}''" "''messages''"]
  by (simp_all add: byte_val_def)

lemma hi_printed: "printed_ok hi_parse hi_print hi_chat" "printed_ok hi_parse hi_print hi_messages"
  using hi_differs by (auto simp: printed_ok_def hi_parse_def hi_print_def starts_with_iff hi_trim)

lemma hi_kept:
  "root_keeps debug hi_parse hi_print ChatCompletions (listed ChatCompletions) s (TextDelta ''hi'')"
  "root_keeps debug hi_parse hi_print Messages (listed Messages) s (TextDelta ''hi'')"
  using hi_printed by (simp_all add: root_keeps_def listed_def hi_chat_def hi_messages_def block_delta_def)

theorem gateway_keeps_stream_witness:
  "\<exists>raws raws'. write_all (encode_stream_event (\<lambda>_. []) hi_parse hi_print ChatCompletions) [TextDelta ''hi''] = Inr raws
    \<and> read_all (\<lambda>raw. decoder_decode hi_parse hi_print ChatCompletions raw (listed ChatCompletions)) raws decoder_new
        = (Inr [TextDelta ''hi''], decoder_new)
    \<and> write_all (encode_stream_event (\<lambda>_. []) hi_parse hi_print Messages) [TextDelta ''hi''] = Inr raws'
    \<and> read_all (\<lambda>raw. decoder_decode hi_parse hi_print Messages raw (listed Messages)) raws' decoder_new
        = (Inr [TextDelta ''hi''], decoder_new)"
  using gateway_keeps_stream [of "\<lambda>_. []" hi_parse hi_print ChatCompletions "listed ChatCompletions" decoder_new
      "[TextDelta ''hi'']" Messages "listed Messages" decoder_new] hi_kept [of "\<lambda>_. []" decoder_new]
  by (simp add: after_event_def)

text \<open>C10. From events to bytes and back. Frames of a text wire, written by \<open>encode_stream_event\<close> and formatted as
  Server-Sent Events, arrive through \<open>UpstreamFrames\<close> and \<open>StreamDecoder\<close> as exactly the events that were sent,
  however the transport cuts the bytes.
\<close>

theorem stream_survives_transport:
  assumes "keeps_all (root_keeps debug parse to_str w d) (after_event w) decoder_new evs" "w \<noteq> Converse"
    "write_all (encode_stream_event debug parse to_str w) evs = Inr raws"
    "list_all frame_ok raws" "concat cs = concat (map format_sse raws)"
  shows "\<exists>u s. feed_all (upstream_feed parse to_str) cs (for_wire w) = (Inr raws, u)
    \<and> read_all (\<lambda>raw. decoder_decode parse to_str w raw d) raws decoder_new = (Inr evs, s)
    \<and> frames_finish u = (Inr None, u)"
proof -
  have "feed_all (upstream_feed parse to_str) cs (for_wire w) = (Inr raws, SseFrames sse_new)"
    using frames_arrive [OF assms(4,5)] assms(2) by (simp add: for_wire_def)
  moreover have "frames_finish (SseFrames sse_new) = (Inr None, SseFrames sse_new)"
    by (simp add: sse_finish_def sse_new_def take_frame_def)
  ultimately show ?thesis
    using root.stream_reads_back [OF assms(1)] assms(3) by fastforce
qed

theorem stream_survives_transport_witness:
  "\<exists>u s. feed_all (upstream_feed hi_parse hi_print) [''data: {ch'', ''at}'' @ [NL], [NL]] (for_wire ChatCompletions)
      = (Inr [\<lparr>event = None, data = ''{chat}''\<rparr>], u)
    \<and> read_all (\<lambda>raw. decoder_decode hi_parse hi_print ChatCompletions raw (listed ChatCompletions))
        [\<lparr>event = None, data = ''{chat}''\<rparr>] decoder_new = (Inr [TextDelta ''hi''], s)
    \<and> frames_finish u = (Inr None, u)"
proof (rule stream_survives_transport [where debug = "\<lambda>_. []"])
  let ?raw = "\<lparr>event = None, data = ''{chat}''\<rparr>"
  show "keeps_all (root_keeps (\<lambda>_. []) hi_parse hi_print ChatCompletions (listed ChatCompletions))
      (after_event ChatCompletions) decoder_new [TextDelta ''hi'']"
    using hi_kept by simp
  show "write_all (encode_stream_event (\<lambda>_. []) hi_parse hi_print ChatCompletions) [TextDelta ''hi''] = Inr [?raw]"
    using hi_chat_def by (simp add: encode_stream_event_def chat_encode_def hi_print_def)
  show "list_all frame_ok [?raw]"
    by (simp add: frame_ok_def clean_line_def split_char.simps MAX_SSE_PENDING_def utf8_eval)
  show "concat [''data: {ch'', ''at}'' @ [NL], [NL]] = concat (map format_sse [?raw])"
    by (simp add: format_sse_def split_char.simps)
qed simp

end
