(* ===== verification/Wm_Stream_Policy.thy ===== *)
theory Wm_Stream_Policy
  imports Wm_Stream
begin

text \<open>
  What the stream root promises about frames it was not told of and about the frames that end a stream:
  \<open>stream_unknown_policy\<close> and \<open>frame_is_terminal\<close> (\<open>stream/mod.rs\<close>).
\<close>

section \<open>Unknown frames\<close>

lemma blank_frame: "event raw = None \<Longrightarrow> trim (data raw) = [] \<Longrightarrow> decode_stream_event parse to_str w raw d = Inr None"
  by (simp add: decode_stream_event_def)

lemma unlisted_event:
  assumes "frame_event_name parse w raw \<notin> set (stream_events d)" "event raw \<noteq> None \<or> trim (data raw) \<noteq> []"
  shows "decode_stream_event parse to_str w raw d = unknown_event parse w d (frame_event_name parse w raw) (data raw)"
  using assms by (auto simp: decode_stream_event_def)

lemma hard_error_first:
  assumes "unknown_event parse w d name txt = Inr x" "stream_unknown_policy d = HardError"
  shows "w = Responses \<and> \<not> responses_unknown_carries_payload parse txt"
  using assms by (auto simp: unknown_event_def split: option.splits if_splits)

lemma hard_error_shape:
  assumes "unknown_event parse w d name txt = Inl e" "w \<noteq> Responses"
  shows "e = MapHardError name (unknown_detail name)"
  using assms by (auto simp: unknown_event_def split: option.splits stream_unknown_policy.splits if_splits)

text \<open>A hard error of the singular decoder is never undone by the plural one.\<close>

lemma hard_error_kept:
  assumes "decode_stream_event parse to_str w raw d = Inl (MapHardError p q)"
  shows "\<exists>e. decode_stream_events_seq parse to_str w raw d seq = (Inl e, seq) \<and> (w \<noteq> Responses \<longrightarrow> e = MapHardError p q)"
  using assms
  by (auto simp: decode_stream_events_seq_def chat_branch_def responses_branch_def chat_named_frame_def singular_limit_def
      is_ok_def Let_def split: option.splits sum.splits)

lemma unknown_hard_error:
  assumes "frame_event_name parse w raw \<notin> set (stream_events d)" "event raw \<noteq> None \<or> trim (data raw) \<noteq> []"
    "stream_unknown_policy d = HardError" "w \<noteq> Responses \<or> responses_unknown_carries_payload parse (data raw)"
  shows "decode_stream_event parse to_str w raw d =
    Inl (MapHardError (frame_event_name parse w raw) (unknown_detail (frame_event_name parse w raw)))"
  using assms by (auto simp: unlisted_event unknown_event_def)



text \<open>Under \<open>passthrough\<close> the plural decoder does not follow the policy on the Chat wire: a chunk under a name the
  profile does not list is decoded like a listed one.\<close>

lemma passthrough_chat_frame_decoded:
  assumes "parse txt = Some (chat_choice [(''content'', JString t)])" "t \<noteq> []"
  shows "decode_stream_event parse to_str ChatCompletions \<lparr>event = Some ''vendor.note'', data = txt\<rparr>
       \<lparr>stream_events = [''chunk''], stream_unknown_policy = Passthrough\<rparr>
     = Inr (Some (Unknown ''vendor.note'' (chat_choice [(''content'', JString t)])))
   \<and> decode_stream_events parse to_str ChatCompletions \<lparr>event = Some ''vendor.note'', data = txt\<rparr>
       \<lparr>stream_events = [''chunk''], stream_unknown_policy = Passthrough\<rparr>
     = Inr [TextDelta t]"
  using assms chat_keeps_reads_back [of "TextDelta t" to_str]
  by (simp add: decode_stream_event_def unknown_event_def frame_event_name_def decode_stream_events_def
      decode_stream_events_seq_def chat_branch_def is_ok_def chat_reads_back_def)


section \<open>Frames that end a stream\<close>

definition ends_stream :: "ir_stream_event \<Rightarrow> bool" where
  "ends_stream ev = (is_finish_ev ev \<or> ev = Done)"

lemma messages_fan_out_keeps: "ev \<in> set (messages_fan_out name v ev)"
  by (simp add: messages_fan_out_def Let_def)

lemma messages_first_ends:
  assumes "messages_frame_is_terminal parse raw" "frame_event_name parse Messages raw \<in> set (stream_events d)"
    "event raw \<noteq> None \<or> trim (data raw) \<noteq> []" "decode_stream_event parse to_str Messages raw d = Inr first"
  shows "\<exists>ev. first = Some ev \<and> ends_stream ev"
proof -
  let ?name = "frame_event_name parse Messages raw"
  consider "trim (data raw) = ''[DONE]''" | "?name = ''message_stop''" "trim (data raw) \<noteq> ''[DONE]''"
    | v where "?name = ''message_delta''" "parse (data raw) = Some v" "nonempty_at v [''delta'', ''stop_reason'']"
        "trim (data raw) \<noteq> ''[DONE]''"
    using assms(1) by (auto simp: messages_frame_is_terminal_def Let_def split: if_splits option.splits)
  then show ?thesis
  proof cases
    case 3
    then obtain r where "Option.bind (pointer v [''delta'', ''stop_reason'']) as_str = Some r"
      by (auto simp: nonempty_at_def is_some_and_def simp del: pointer.simps split: option.splits)
    with 3 assms show ?thesis
      by (auto simp: decode_stream_event_def messages_decode_def messages_decode_message_delta_def ends_stream_def
          is_finish_ev_def simp del: pointer.simps)
  qed (use assms in \<open>auto simp: decode_stream_event_def messages_decode_def ends_stream_def Let_def split: option.splits\<close>)
qed

lemma messages_events_end:
  assumes "messages_frame_is_terminal parse raw" "frame_event_name parse Messages raw \<in> set (stream_events d)"
    "event raw \<noteq> None \<or> trim (data raw) \<noteq> []"
    "decode_stream_events_seq parse to_str Messages raw d seq = (Inr evs, seq')"
  shows "\<exists>ev \<in> set evs. ends_stream ev"
proof -
  obtain first where first: "decode_stream_event parse to_str Messages raw d = Inr first"
    using assms(4) by (auto simp: decode_stream_events_seq_def Let_def split: sum.splits)
  then obtain ev where "first = Some ev" "ends_stream ev"
    using messages_first_ends [OF assms(1-3) first] by blast
  with first assms(4) show ?thesis
    using messages_fan_out_keeps
    by (auto simp: decode_stream_events_seq_def decode_rest_def expand_complete_tool_call_def split: option.splits)
qed

lemma nonempty_at_str: "nonempty_at v path \<longleftrightarrow> (\<exists>r. nonempty_str_opt (pointer v path) = Some r)"
  by (auto simp: nonempty_at_def nonempty_str_opt_def is_some_and_ofilter simp del: pointer.simps)

lemma gemini_tail_ends:
  assumes "nonempty_at v [''candidates'', ''0'', ''finishReason''] \<or> nonempty_at v [''promptFeedback'', ''blockReason'']"
  shows "\<exists>ev \<in> set (gemini_tail_events v). ends_stream ev"
proof (cases "nonempty_str_opt (pointer v [''candidates'', ''0'', ''finishReason''])")
  case (Some r)
  then have "FinishReason (gemini_map_finish r (gemini_value_has_function_call v)) (Some r) \<in> set (gemini_tail_events v)"
    by (simp add: gemini_tail_events_def del: pointer.simps)
  then show ?thesis by (rule bexI [rotated]) (simp add: ends_stream_def is_finish_ev_def)
next
  case None
  then obtain r where "nonempty_str_opt (pointer v [''promptFeedback'', ''blockReason'']) = Some r"
    using assms by (auto simp: nonempty_at_str simp del: pointer.simps)
  with None have "FinishReason (map_block r) (Some r) \<in> set (gemini_tail_events v)"
    by (simp add: gemini_tail_events_def del: pointer.simps)
  then show ?thesis by (rule bexI [rotated]) (simp add: ends_stream_def is_finish_ev_def)
qed

lemma fan_out_has_tail:
  assumes "ev \<in> set (gemini_tail_events v)"
  shows "\<exists>out seq'. fan_out_gemini_parts to_str v seq = (Some out, seq') \<and> ev \<in> set out"
proof -
  obtain parts sq where "(case Option.bind (pointer v [''candidates'', ''0'', ''content'', ''parts'']) as_array of
      None \<Rightarrow> ([], seq) | Some parts \<Rightarrow> gemini_parts_events to_str parts seq) = (parts, sq)"
    by fastforce
  with assms show ?thesis
    by (auto simp: fan_out_gemini_parts_def Let_def simp del: pointer.simps)
qed

lemma gemini_events_end:
  assumes "gemini_frame_is_terminal parse raw"
    "decode_stream_events_seq parse to_str Gemini raw d seq = (Inr evs, seq')"
  shows "\<exists>ev \<in> set evs. ends_stream ev"
proof -
  obtain v where v: "parse (data raw) = Some v"
      "nonempty_at v [''candidates'', ''0'', ''finishReason''] \<or> nonempty_at v [''promptFeedback'', ''blockReason'']"
    using assms(1) by (auto simp: gemini_frame_is_terminal_def split: option.splits)
  obtain ev where ev: "ev \<in> set (gemini_tail_events v)" "ends_stream ev"
    using gemini_tail_ends [OF v(2)] by blast
  obtain out seq'' where "fan_out_gemini_parts to_str v seq = (Some out, seq'')" "ev \<in> set out"
    using fan_out_has_tail [OF ev(1)] by blast
  with assms(2) v(1) ev(2) show ?thesis
    by (auto simp: decode_stream_events_seq_def Let_def split: sum.splits)
qed


lemma trim_braces: "trim ''{}'' = ''{}''"
  using trim_printable(1) [of "CHR ''{''" "CHR ''}''" "[]"] by (simp add: byte_val_def)


end
