(* ===== verification/Wm_Encoder_Messages.thy ===== *)
theory Wm_Encoder_Messages
  imports Wm_Stream
begin

text \<open>
  The stateful encoder of one output stream, \<open>StreamEncoder\<close> (\<open>stream/encoder.rs\<close>), for the Messages wire: it turns
  stream events into content blocks that open, grow and close one at a time, holds the starts of parallel tool
  calls back while another call is open, defers text that arrives inside a call, and writes the terminal frames.
  The state has the fields this wire reads or writes. Emitted frames are kept as name and JSON value; \<open>render\<close>
  prints them.
\<close>

section \<open>State\<close>

datatype block_kind = TextBlock | ThinkingBlock | ToolBlock | CustomToolBlock

type_synonym held_tool = "u32 \<times> string \<times> string \<times> string"

record encoder =
  e_model :: string
  e_started :: bool
  e_finished :: bool
  e_next_block :: u32
  e_open :: "(u32 \<times> block_kind) option"
  e_finish :: "string option"
  e_usage :: "(u32 \<times> u32 \<times> u32 \<times> u32 \<times> u32 \<times> u32 \<times> u32) option"
  e_usage_inference_geo :: "string option"
  e_used_tool :: "u32 set"
  e_next_tool :: u32
  e_tool_slots :: "u32 \<Rightarrow> u32 list option"
  e_tool_got_arg :: "u32 set"
  e_last_tool :: "u32 \<Rightarrow> u32 option"
  e_tool_ids :: "u32 \<Rightarrow> string option"
  e_messages_id :: "string option"
  e_web_search_requests :: "u32 option"
  e_web_fetch_requests :: "u32 option"
  e_cache_creation :: "json option"
  e_container :: "json option"
  e_container_written :: bool
  e_context_management :: "json option"
  e_cache_miss :: "json option"
  e_service_tier :: "string option"
  e_stop_sequence :: "string option"
  e_refusal :: string
  e_held_tools :: "(u32 \<times> held_tool) list"
  e_deferred :: "ir_stream_event list"
  e_closed_tools :: "u32 set"
  e_custom_args :: "u32 \<Rightarrow> string option"

definition encoder_new :: encoder where
  "encoder_new =
     \<lparr>e_model = [], e_started = False, e_finished = False, e_next_block = 0, e_open = None, e_finish = None,
      e_usage = None, e_usage_inference_geo = None, e_used_tool = {}, e_next_tool = 0, e_tool_slots = (\<lambda>_. None),
      e_tool_got_arg = {}, e_last_tool = (\<lambda>_. None), e_tool_ids = (\<lambda>_. None), e_messages_id = None,
      e_web_search_requests = None, e_web_fetch_requests = None, e_cache_creation = None, e_container = None,
      e_container_written = False, e_context_management = None, e_cache_miss = None, e_service_tier = None,
      e_stop_sequence = None, e_refusal = [], e_held_tools = [], e_deferred = [], e_closed_tools = {},
      e_custom_args = (\<lambda>_. None)\<rparr>"

definition with_model :: "string \<Rightarrow> 'z encoder_scheme \<Rightarrow> 'z encoder_scheme" where
  "with_model model s = s\<lparr>e_model := model\<rparr>"

datatype out_frame = Named string json | Plain raw_sse

fun render :: "(json \<Rightarrow> string) \<Rightarrow> out_frame \<Rightarrow> raw_sse" where
  "render to_str (Named name v) = \<lparr>event = Some name, data = to_str v\<rparr>"
| "render to_str (Plain raw) = raw"


section \<open>Frames\<close>

definition start_block_frame :: "u32 \<Rightarrow> json \<Rightarrow> out_frame" where
  "start_block_frame i block =
     Named ''content_block_start'' (json_obj [(''type'', JString ''content_block_start''), (''index'', json_u32 i),
       (''content_block'', block)])"

definition delta_block_frame :: "u32 \<Rightarrow> (string \<times> json) list \<Rightarrow> out_frame" where
  "delta_block_frame i delta =
     Named ''content_block_delta'' (json_obj [(''type'', JString ''content_block_delta''), (''index'', json_u32 i),
       (''delta'', json_obj delta)])"

definition stop_block_frame :: "u32 \<Rightarrow> out_frame" where
  "stop_block_frame i =
     Named ''content_block_stop'' (json_obj [(''type'', JString ''content_block_stop''), (''index'', json_u32 i)])"

definition tool_start_frame :: "u32 \<Rightarrow> string \<Rightarrow> string \<Rightarrow> out_frame" where
  "tool_start_frame enc id' name =
     start_block_frame enc (json_obj [(''type'', JString ''tool_use''), (''id'', JString id'), (''name'', JString name),
       (''input'', json_obj [])])"

definition tool_arg_frame :: "u32 \<Rightarrow> string \<Rightarrow> out_frame" where
  "tool_arg_frame enc delta =
     delta_block_frame enc [(''type'', JString ''input_json_delta''), (''partial_json'', JString delta)]"

definition messages_start_frame :: "encoder \<Rightarrow> out_frame" where
  "messages_start_frame s =
     (let usage = json_obj [(''input_tokens'', json_u32 0), (''output_tokens'', json_u32 0)];
          usage = (case Option.bind (e_service_tier s) usage_service_tier_to_messages of
                     None \<Rightarrow> usage | Some mapped \<Rightarrow> jinsert ''service_tier'' (JString mapped) usage);
          message = json_obj [(''id'', JString (unwrap_or (e_messages_id s) ''msg_wiremux'')),
             (''type'', JString ''message''), (''role'', JString ''assistant''), (''content'', JArray []),
             (''stop_reason'', JNull), (''stop_sequence'', JNull), (''usage'', usage)];
          message = insert_if (e_model s \<noteq> []) ''model'' (JString (e_model s)) message;
          message = (case e_container s of None \<Rightarrow> message | Some c \<Rightarrow> jinsert ''container'' c message)
      in Named ''message_start'' (json_obj [(''type'', JString ''message_start''), (''message'', message)]))"


section \<open>Tool slots\<close>

text \<open>\<open>u32::saturating_add(1)\<close>; the arm of \<open>alloc_tool\<close> for wires whose tool calls are content blocks.\<close>

definition record_slot :: "u32 \<Rightarrow> u32 \<Rightarrow> 'z encoder_scheme \<Rightarrow> 'z encoder_scheme" where
  "record_slot ir_index enc s =
     (let slots = unwrap_or (e_tool_slots s ir_index) [];
          slots = (if slots \<noteq> [] \<and> last slots \<in> e_tool_got_arg s then [] else slots) @ [enc]
      in s\<lparr>e_used_tool := insert enc (e_used_tool s),
           e_next_tool := max (e_next_tool s) (saturating_add enc 1),
           e_tool_slots := (e_tool_slots s)(ir_index \<mapsto> slots),
           e_last_tool := (e_last_tool s)(ir_index \<mapsto> enc)\<rparr>)"

definition alloc_tool :: "u32 \<Rightarrow> 'z encoder_scheme \<Rightarrow> u32 \<times> 'z encoder_scheme" where
  "alloc_tool ir_index s =
     (let enc = e_next_block s in (enc, record_slot ir_index enc (s\<lparr>e_next_block := saturating_add enc 1\<rparr>)))"

text \<open>The slot an argument fragment goes to, when its index has one.\<close>

definition known_slot :: "u32 \<Rightarrow> 'z encoder_scheme \<Rightarrow> (u32 \<times> 'z encoder_scheme) option" where
  "known_slot ir_index s =
     (let slots = unwrap_or (e_tool_slots s ir_index) []
      in case (case slots of front # _ \<Rightarrow> Some front | [] \<Rightarrow> e_last_tool s ir_index) of
           None \<Rightarrow> None
         | Some enc \<Rightarrow>
             Some (enc, s\<lparr>e_tool_got_arg := insert enc (e_tool_got_arg s),
                          e_tool_slots := (e_tool_slots s)(ir_index \<mapsto> (if length slots > 1 then tl slots else slots))\<rparr>))"

definition tool_enc :: "u32 \<Rightarrow> 'z encoder_scheme \<Rightarrow> u32 \<times> 'z encoder_scheme" where
  "tool_enc ir_index s = (case known_slot ir_index s of None \<Rightarrow> alloc_tool ir_index s | Some r \<Rightarrow> r)"

definition note_custom_slot :: "u32 \<Rightarrow> bool \<Rightarrow> 'z encoder_scheme \<Rightarrow> 'z encoder_scheme" where
  "note_custom_slot enc custom s =
     (if custom then s\<lparr>e_custom_args := (e_custom_args s)(enc \<mapsto> unwrap_or (e_custom_args s enc) [])\<rparr> else s)"

definition push_custom :: "u32 \<Rightarrow> string \<Rightarrow> 'z encoder_scheme \<Rightarrow> 'z encoder_scheme" where
  "push_custom enc delta s =
     s\<lparr>e_custom_args := (e_custom_args s)(enc \<mapsto> unwrap_or (e_custom_args s enc) [] @ delta)\<rparr>"

definition take_custom_json ::
  "(string \<Rightarrow> json option) \<Rightarrow> (json \<Rightarrow> string) \<Rightarrow> u32 \<Rightarrow> 'z encoder_scheme
     \<Rightarrow> string option \<times> 'z encoder_scheme" where
  "take_custom_json parse to_str enc s =
     (case e_custom_args s enc of
        None \<Rightarrow> (None, s)
      | Some args \<Rightarrow>
          (let s = s\<lparr>e_custom_args := (e_custom_args s)(enc := None)\<rparr>
           in if args = [] then (None, s) else (Some (to_str (response_custom_tool_input parse args)), s)))"


section \<open>Blocks\<close>

fun flush_loop ::
  "(string \<Rightarrow> json option) \<Rightarrow> (json \<Rightarrow> string) \<Rightarrow> held_tool list \<Rightarrow> encoder \<Rightarrow> out_frame list \<times> encoder" where
  "flush_loop parse to_str [] s = ([], s)"
| "flush_loop parse to_str ((enc, id', name, args) # held) s =
     (let s = s\<lparr>e_closed_tools := insert enc (e_closed_tools s)\<rparr>;
          (text, s) = take_custom_json parse to_str enc s;
          arg = (case text of
                   Some text \<Rightarrow> [tool_arg_frame enc text]
                 | None \<Rightarrow> if args \<noteq> [] then [tool_arg_frame enc args] else []);
          (rest, s) = flush_loop parse to_str held s
      in (tool_start_frame enc id' name # arg @ stop_block_frame enc # rest, s))"

definition flush_held_tools ::
  "(string \<Rightarrow> json option) \<Rightarrow> (json \<Rightarrow> string) \<Rightarrow> encoder \<Rightarrow> out_frame list \<times> encoder" where
  "flush_held_tools parse to_str s =
     flush_loop parse to_str (sort_key fst (map snd (e_held_tools s))) (s\<lparr>e_held_tools := []\<rparr>)"

definition close_open ::
  "(string \<Rightarrow> json option) \<Rightarrow> (json \<Rightarrow> string) \<Rightarrow> encoder \<Rightarrow> out_frame list \<times> encoder" where
  "close_open parse to_str s =
     (case e_open s of
        None \<Rightarrow> flush_held_tools parse to_str s
      | Some (index, kind) \<Rightarrow>
          (let s = s\<lparr>e_open := None, e_closed_tools := insert index (e_closed_tools s)\<rparr>;
               (text, s) = (if kind = ToolBlock then take_custom_json parse to_str index s else (None, s));
               (held, s) = flush_held_tools parse to_str s
           in ((case text of Some t \<Rightarrow> [tool_arg_frame index t] | None \<Rightarrow> []) @ stop_block_frame index # held, s)))"

definition empty_block :: "block_kind \<Rightarrow> json" where
  "empty_block kind =
     (case kind of
        TextBlock \<Rightarrow> json_obj [(''type'', JString ''text''), (''text'', JString [])]
      | ThinkingBlock \<Rightarrow> json_obj [(''type'', JString ''thinking''), (''thinking'', JString [])]
      | _ \<Rightarrow> json_obj [(''type'', JString ''tool_use''), (''id'', JString []), (''name'', JString []),
               (''input'', json_obj [])])"

definition ensure_block ::
  "(string \<Rightarrow> json option) \<Rightarrow> (json \<Rightarrow> string) \<Rightarrow> block_kind \<Rightarrow> encoder \<Rightarrow> out_frame list \<times> encoder" where
  "ensure_block parse to_str kind s =
     (if is_some_and (e_open s) (\<lambda>(_, k). k = kind) then ([], s)
      else
        let (out, s) = close_open parse to_str s;
            index = e_next_block s
        in (out @ [start_block_frame index (empty_block kind)],
            s\<lparr>e_next_block := saturating_add index 1, e_open := Some (index, kind)\<rparr>))"

definition open_index :: "encoder \<Rightarrow> u32" where
  "open_index s = (case e_open s of Some (i, _) \<Rightarrow> i | None \<Rightarrow> 0)"

definition tool_block_open :: "encoder \<Rightarrow> bool" where
  "tool_block_open s = (is_some_and (e_open s) (\<lambda>(_, k). k = ToolBlock) \<or> e_held_tools s \<noteq> [])"

text \<open>A delta on the block of the given kind, opened first if need be; \<open>emit_text\<close> is the case of a text
  delta.\<close>

definition emit_delta ::
  "(string \<Rightarrow> json option) \<Rightarrow> (json \<Rightarrow> string) \<Rightarrow> block_kind \<Rightarrow> (string \<times> json) list \<Rightarrow> encoder
     \<Rightarrow> out_frame list \<times> encoder" where
  "emit_delta parse to_str kind delta s =
     (let (out, s) = ensure_block parse to_str kind s in (out @ [delta_block_frame (open_index s) delta], s))"

definition emit_text ::
  "(string \<Rightarrow> json option) \<Rightarrow> (json \<Rightarrow> string) \<Rightarrow> string \<Rightarrow> encoder \<Rightarrow> out_frame list \<times> encoder" where
  "emit_text parse to_str text = emit_delta parse to_str TextBlock [(''type'', JString ''text_delta''), (''text'', JString text)]"

text \<open>The arms that wait while a tool block is open.\<close>

definition defer_or ::
  "ir_stream_event \<Rightarrow> (encoder \<Rightarrow> out_frame list \<times> encoder) \<Rightarrow> encoder \<Rightarrow> out_frame list \<times> encoder" where
  "defer_or ev emit s =
     (if tool_block_open s then ([], s\<lparr>e_deferred := e_deferred s @ [ev]\<rparr>) else emit s)"


section \<open>Events\<close>

definition custom_tool_as_function :: "ir_stream_event \<Rightarrow> ir_stream_event" where
  "custom_tool_as_function ev =
     (case ev of
        CustomToolCallStart id' name index \<Rightarrow> ToolCallStart id' name None index
      | CustomToolCallInputDelta delta index \<Rightarrow> ToolCallArgDelta delta index
      | _ \<Rightarrow> ev)"

definition is_custom :: "ir_stream_event \<Rightarrow> bool" where
  "is_custom ev =
     (case ev of CustomToolCallStart _ _ _ \<Rightarrow> True | CustomToolCallInputDelta _ _ \<Rightarrow> True | _ \<Rightarrow> False)"

text \<open>The fields an event sets before anything is written.\<close>

definition note_fields :: "ir_stream_event \<Rightarrow> encoder \<Rightarrow> encoder" where
  "note_fields ev s =
     (case ev of
        ServiceTier tier \<Rightarrow> s\<lparr>e_service_tier := Some tier\<rparr>
      | StopSequence text \<Rightarrow> s\<lparr>e_stop_sequence := Some text\<rparr>
      | Container v \<Rightarrow> s\<lparr>e_container := Some v\<rparr>
      | ContextManagement v \<Rightarrow> s\<lparr>e_context_management := Some v\<rparr>
      | Diagnostics v \<Rightarrow> s\<lparr>e_cache_miss := Some v\<rparr>
      | _ \<Rightarrow> s)"

definition waits_for_start :: "ir_stream_event \<Rightarrow> bool" where
  "waits_for_start ev =
     (case ev of ServiceTier _ \<Rightarrow> True | StopSequence _ \<Rightarrow> True | Container _ \<Rightarrow> True | ContextManagement _ \<Rightarrow> True
      | Diagnostics _ \<Rightarrow> True | _ \<Rightarrow> False)"

definition start_message :: "encoder \<Rightarrow> out_frame list \<times> encoder" where
  "start_message s =
     (if e_started s then ([], s)
      else ([messages_start_frame (s\<lparr>e_started := True\<rparr>)],
            s\<lparr>e_started := True, e_container_written := (e_container s \<noteq> None)\<rparr>))"

text \<open>A fresh tool block in place of the one that is open.\<close>

definition open_tool ::
  "u32 \<Rightarrow> string \<Rightarrow> string \<Rightarrow> encoder \<Rightarrow> out_frame list \<times> encoder" where
  "open_tool enc id' name s =
     ([tool_start_frame enc id' name],
      s\<lparr>e_tool_ids := (e_tool_ids s)(enc \<mapsto> id'), e_open := Some (enc, ToolBlock)\<rparr>)"

definition push_tool_start ::
  "(string \<Rightarrow> json option) \<Rightarrow> (json \<Rightarrow> string) \<Rightarrow> bool \<Rightarrow> string \<Rightarrow> string \<Rightarrow> u32 \<Rightarrow> encoder
     \<Rightarrow> out_frame list \<times> encoder" where
  "push_tool_start parse to_str custom id' name index s =
     (let open_enc = Option.bind (e_open s) (\<lambda>(enc, kind). if kind = ToolBlock then Some enc else None);
          same_open = is_some_and open_enc (\<lambda>enc. e_last_tool s index = Some enc);
          open_id = unwrap_or (Option.bind open_enc (e_tool_ids s)) []
      in if same_open \<and> (id' = [] \<or> open_id = id') then
           ([], case open_enc of Some enc \<Rightarrow> note_custom_slot enc custom s | None \<Rightarrow> s)
         else if same_open then
           (let (out, s) = close_open parse to_str s;
                s = s\<lparr>e_tool_slots := (e_tool_slots s)(index := None)\<rparr>;
                (enc, s) = alloc_tool index s;
                s = note_custom_slot enc custom s;
                (start, s) = open_tool enc id' name s
            in (out @ start, s))
         else
           (case map_of (e_held_tools s) index of
              Some (enc, h_id, h_name, h_args) \<Rightarrow>
                (let h = (enc, if h_id = [] then id' else h_id, if h_name = [] then name else h_name, h_args)
                 in ([], note_custom_slot enc custom (s\<lparr>e_held_tools := bt_insert index h (e_held_tools s)\<rparr>)))
            | None \<Rightarrow>
                (let (enc, s) = alloc_tool index s;
                     other_tool_open = is_some_and (e_open s) (\<lambda>(open_enc, kind). kind = ToolBlock \<and> open_enc \<noteq> enc);
                     s = note_custom_slot enc custom s
                 in if other_tool_open then
                      ([], s\<lparr>e_held_tools := bt_insert index (enc, id', name, []) (e_held_tools s)\<rparr>)
                    else
                      (let (out, s) = close_open parse to_str s;
                           (start, s) = open_tool enc id' name s
                       in (out @ start, s)))))"

definition push_tool_arg ::
  "(string \<Rightarrow> json option) \<Rightarrow> (json \<Rightarrow> string) \<Rightarrow> bool \<Rightarrow> string \<Rightarrow> u32 \<Rightarrow> encoder \<Rightarrow> out_frame list \<times> encoder" where
  "push_tool_arg parse to_str custom delta index s =
     (let (enc, s) = tool_enc index s
      in if e_open s = Some (enc, ToolBlock) \<and> (custom \<or> e_custom_args s enc \<noteq> None) then ([], push_custom enc delta s)
         else
           (case map_of (e_held_tools s) index of
              Some (held_enc, h_id, h_name, h_args) \<Rightarrow>
                if custom \<or> e_custom_args s held_enc \<noteq> None then ([], push_custom held_enc delta s)
                else ([], s\<lparr>e_held_tools := bt_insert index (held_enc, h_id, h_name, h_args @ delta) (e_held_tools s)\<rparr>)
            | None \<Rightarrow>
                if enc \<notin> e_closed_tools s then
                  ([tool_arg_frame enc
                      (if custom \<or> e_custom_args s enc \<noteq> None then to_str (response_custom_tool_input parse delta)
                       else delta)], s)
                else ([], s)))"

definition image_block :: "string \<Rightarrow> string \<Rightarrow> json" where
  "image_block media_type d =
     json_obj [(''type'', JString ''image''), (''source'', json_obj [(''type'', JString ''base64''),
       (''media_type'', JString media_type), (''data'', JString d)])]"

type_synonym written = "(map_error + out_frame list) \<times> encoder"

definition wrote :: "out_frame list \<times> encoder \<Rightarrow> written" where
  "wrote = (\<lambda>(out, s). (Inr out, s))"

definition encode_raw ::
  "(ir_stream_event \<Rightarrow> string) \<Rightarrow> (string \<Rightarrow> json option) \<Rightarrow> (json \<Rightarrow> string) \<Rightarrow> ir_stream_event
     \<Rightarrow> map_error + out_frame list" where
  "encode_raw debug parse to_str ev =
     (case encode_stream_event debug parse to_str Messages ev of Inl e \<Rightarrow> Inl e | Inr raw \<Rightarrow> Inr [Plain raw])"

fun messages_arm ::
  "(ir_stream_event \<Rightarrow> string) \<Rightarrow> (string \<Rightarrow> json option) \<Rightarrow> (json \<Rightarrow> string) \<Rightarrow> bool \<Rightarrow> ir_stream_event \<Rightarrow> encoder
     \<Rightarrow> (map_error + out_frame list) \<times> encoder" where
  "messages_arm debug parse to_str custom (StopSequence _) s = (Inr [], s)"
| "messages_arm debug parse to_str custom (TextDelta text) s = wrote (defer_or (TextDelta text) (emit_text parse to_str text) s)"
| "messages_arm debug parse to_str custom (ReasoningDelta text) s =
     wrote (defer_or (ReasoningDelta text) (emit_delta parse to_str ThinkingBlock
       [(''type'', JString ''thinking_delta''), (''thinking'', JString text)]) s)"
| "messages_arm debug parse to_str custom (ReasoningSignature signature) s =
     wrote (defer_or (ReasoningSignature signature) (emit_delta parse to_str ThinkingBlock
       [(''type'', JString ''signature_delta''), (''signature'', JString signature)]) s)"
| "messages_arm debug parse to_str custom (ToolCallStart id' name _ index) s =
     wrote (push_tool_start parse to_str custom id' name index s)"
| "messages_arm debug parse to_str custom (ToolCallArgDelta delta index) s =
     wrote (push_tool_arg parse to_str custom delta index s)"
| "messages_arm debug parse to_str custom ToolCallEnd s = (Inr [], s)"
| "messages_arm debug parse to_str custom (FinishReason reason _) s = (Inr [], s\<lparr>e_finish := Some reason\<rparr>)"
| "messages_arm debug parse to_str custom (RefusalDelta text) s = (Inr [], s\<lparr>e_refusal := e_refusal s @ text\<rparr>)"
| "messages_arm debug parse to_str custom (ImageDelta media_type d) s =
     (let (out, s) = close_open parse to_str s;
          index = e_next_block s
      in (Inr (out @ [start_block_frame index (image_block media_type d), stop_block_frame index]),
              s\<lparr>e_next_block := saturating_add index 1\<rparr>))"
| "messages_arm debug parse to_str custom (AudioDelta _) s = (Inr [], s)"
| "messages_arm debug parse to_str custom (Logprobs _ _) s = (Inr [], s)"
| "messages_arm debug parse to_str custom (Created _) s = (Inr [], s)"
| "messages_arm debug parse to_str custom (ServiceTier _) s = (Inr [], s)"
| "messages_arm debug parse to_str custom (Metadata _) s = (Inr [], s)"
| "messages_arm debug parse to_str custom (Moderation _ _) s = (Inr [], s)"
| "messages_arm debug parse to_str custom (Diagnostics _) s = (Inr [], s)"
| "messages_arm debug parse to_str custom (Container _) s = (Inr [], s)"
| "messages_arm debug parse to_str custom (ContextManagement _) s = (Inr [], s)"
| "messages_arm debug parse to_str custom (AudioTranscriptDelta text) s =
     wrote (defer_or (AudioTranscriptDelta text) (emit_text parse to_str text) s)"
| "messages_arm debug parse to_str custom (AnnotationAdded ann) s =
     wrote (defer_or (AnnotationAdded ann) (emit_delta parse to_str TextBlock
       [(''type'', JString ''citations_delta''), (''citation'', citation_from_annotation ann)]) s)"
| "messages_arm debug parse to_str custom (Usage p c cr cw r a ca geo) s =
     (Inr [], s\<lparr>e_usage_inference_geo := geo, e_usage := Some (p, c, cr, cw, r, a, ca)\<rparr>)"
| "messages_arm debug parse to_str custom ev s =
     (encode_raw debug parse to_str ev, s)"

definition push_messages ::
  "(ir_stream_event \<Rightarrow> string) \<Rightarrow> (string \<Rightarrow> json option) \<Rightarrow> (json \<Rightarrow> string) \<Rightarrow> ir_stream_event \<Rightarrow> encoder
     \<Rightarrow> written" where
  "push_messages debug parse to_str ev s =
     (let custom = is_custom ev;
          ev = custom_tool_as_function ev;
          s = note_fields ev s
      in if \<not> e_started s \<and> waits_for_start ev then (Inr [], s)
         else
           let (out, s) = start_message s;
               (res, s) = messages_arm debug parse to_str custom ev s
           in (case res of Inl e \<Rightarrow> Inl e | Inr frames \<Rightarrow> Inr (out @ frames), s))"

fun push_deferred ::
  "(ir_stream_event \<Rightarrow> string) \<Rightarrow> (string \<Rightarrow> json option) \<Rightarrow> (json \<Rightarrow> string) \<Rightarrow> ir_stream_event list \<Rightarrow> encoder
     \<Rightarrow> out_frame list \<times> encoder" where
  "push_deferred debug parse to_str [] s = ([], s)"
| "push_deferred debug parse to_str (ev # evs) s =
     (let (res, s) = push_messages debug parse to_str ev s;
          (rest, s) = push_deferred debug parse to_str evs s
      in ((case res of Inr frames \<Rightarrow> frames | Inl _ \<Rightarrow> []) @ rest, s))"

definition stop_reason_of :: "encoder \<Rightarrow> string" where
  "stop_reason_of s =
     (let mapped = map_option encode_stop_reason (e_finish s)
      in if e_refusal s \<noteq> [] \<and> (mapped = None \<or> mapped = Some ''content_filter'') then ''refusal''
         else if e_used_tool s \<noteq> {} \<and> (mapped = None \<or> mapped = Some ''end_turn'') then ''tool_use''
         else unwrap_or mapped ''end_turn'')"

definition finish_usage :: "encoder \<Rightarrow> json option" where
  "finish_usage s =
     Option.bind (e_usage s) (\<lambda>(p, c, cr, cw, r, _, _).
       map_option (\<lambda>u. insert_messages_cache_creation (e_cache_creation s)
           (insert_messages_server_tool_counts (e_web_search_requests s) (e_web_fetch_requests s) u))
         (jget (encode_anthropic p c cr cw r (e_usage_inference_geo s)) ''usage''))"

definition insert_some :: "string \<Rightarrow> json option \<Rightarrow> json \<Rightarrow> json" where
  "insert_some k v u = (case v of None \<Rightarrow> u | Some v \<Rightarrow> jinsert k v u)"

definition message_delta_frame :: "encoder \<Rightarrow> out_frame" where
  "message_delta_frame s =
     (let delta = json_obj [(''stop_reason'', JString (stop_reason_of s)),
            (''stop_sequence'', case e_stop_sequence s of None \<Rightarrow> JNull | Some t \<Rightarrow> JString t)];
          delta = insert_if (e_refusal s \<noteq> []) ''stop_details''
            (json_obj [(''type'', JString ''refusal''), (''explanation'', JString (e_refusal s))]) delta;
          d = json_obj [(''type'', JString ''message_delta''), (''delta'', delta)];
          d = insert_some ''usage'' (finish_usage s) d;
          d = insert_some ''container'' (if e_container_written s then None else e_container s) d;
          d = insert_some ''context_management'' (e_context_management s) d;
          d = insert_some ''diagnostics'' (map_option (\<lambda>r. json_obj [(''cache_miss_reason'', r)]) (e_cache_miss s)) d
      in Named ''message_delta'' d)"

definition message_stop_frame :: out_frame where
  "message_stop_frame = Named ''message_stop'' (json_obj [(''type'', JString ''message_stop'')])"

definition finish_messages ::
  "(ir_stream_event \<Rightarrow> string) \<Rightarrow> (string \<Rightarrow> json option) \<Rightarrow> (json \<Rightarrow> string) \<Rightarrow> encoder \<Rightarrow> out_frame list \<times> encoder" where
  "finish_messages debug parse to_str s =
     (let (out1, s) = start_message s;
          (out2, s) = close_open parse to_str s;
          (out3, s) = push_deferred debug parse to_str (e_deferred s) (s\<lparr>e_deferred := []\<rparr>);
          (out4, s) = close_open parse to_str s
      in (out1 @ out2 @ out3 @ out4 @ [message_delta_frame s, message_stop_frame],
          (if e_usage s = None then s else s\<lparr>e_web_search_requests := None, e_web_fetch_requests := None\<rparr>)
            \<lparr>e_refusal := []\<rparr>))"

definition encoder_finish ::
  "(ir_stream_event \<Rightarrow> string) \<Rightarrow> (string \<Rightarrow> json option) \<Rightarrow> (json \<Rightarrow> string) \<Rightarrow> encoder \<Rightarrow> written" where
  "encoder_finish debug parse to_str s =
     (if e_finished s then (Inr [], s) else wrote (finish_messages debug parse to_str (s\<lparr>e_finished := True\<rparr>)))"

text \<open>The side items of the other wires, and the ones this wire keeps for its own frames.\<close>

definition silent_item :: "string \<Rightarrow> json \<Rightarrow> bool" where
  "silent_item ity p \<longleftrightarrow>
     ity \<in> set [''chat_accepted_prediction_tokens'', ''chat_rejected_prediction_tokens'', ''messages_id'',
       ''messages_web_search_requests'', ''messages_web_fetch_requests'', ''messages_cache_creation'',
       ''responses_id'', ''responses_previous_id'', ''responses_message_id'', ''responses_message_status'',
       ''responses_message_phase'', ''responses_message_agent'', ''responses_reasoning_id'',
       ''responses_reasoning_status'', ''responses_reasoning_content'', ''gemini_response_id'',
       ''gemini_url_context'', ''gemini_citation_metadata'', ''gemini_code_part'', ''gemini_safety_ratings'',
       ''gemini_prompt_safety'', ''gemini_block_reason_message'', ''gemini_traffic_type'',
       ''gemini_tool_use_prompt_tokens'', ''gemini_avg_logprobs'', ''gemini_candidate_tokens'',
       ''gemini_prompt_token_details'', ''gemini_candidate_token_details'', ''converse_frame'',
       ''converse_citation'', ''converse_redacted_content'', ''converse_guard_content'', ''converse_document'',
       ''converse_video'', ''converse_image'', ''converse_audio'']
     \<or> tool_extra_from_protocol ity p \<noteq> None"

definition note_item :: "string \<Rightarrow> json \<Rightarrow> encoder \<Rightarrow> encoder" where
  "note_item ity p s =
     (if ity = ''messages_id'' then
        (case ofilter (\<lambda>t. trim t \<noteq> []) (as_str p) of None \<Rightarrow> s | Some t \<Rightarrow> s\<lparr>e_messages_id := Some t\<rparr>)
      else if ity = ''messages_web_search_requests'' then
        (case Option.bind (as_u64 p) u32_try_from of None \<Rightarrow> s | Some n \<Rightarrow> s\<lparr>e_web_search_requests := Some n\<rparr>)
      else if ity = ''messages_web_fetch_requests'' then
        (case Option.bind (as_u64 p) u32_try_from of None \<Rightarrow> s | Some n \<Rightarrow> s\<lparr>e_web_fetch_requests := Some n\<rparr>)
      else if ity = ''messages_cache_creation'' \<and> is_object p then s\<lparr>e_cache_creation := Some p\<rparr>
      else s)"

definition push_citation ::
  "(string \<Rightarrow> json option) \<Rightarrow> (json \<Rightarrow> string) \<Rightarrow> json \<Rightarrow> encoder \<Rightarrow> out_frame list \<times> encoder" where
  "push_citation parse to_str p s =
     (if is_object p then
        emit_delta parse to_str TextBlock [(''type'', JString ''citations_delta''), (''citation'', p)] s
      else ([], s))"

fun push_open ::
  "(ir_stream_event \<Rightarrow> string) \<Rightarrow> (string \<Rightarrow> json option) \<Rightarrow> (json \<Rightarrow> string) \<Rightarrow> ir_stream_event \<Rightarrow> encoder
     \<Rightarrow> written" where
  "push_open debug parse to_str (Protocol ity p) s =
     (if ity = ''messages_citation'' then wrote (push_citation parse to_str p s)
      else if silent_item ity p then (Inr [], note_item ity p s)
      else (encode_raw debug parse to_str (Protocol ity p), s))"
| "push_open debug parse to_str (Unknown name v) s = (encode_raw debug parse to_str (Unknown name v), s)"
| "push_open debug parse to_str Done s = encoder_finish debug parse to_str s"
| "push_open debug parse to_str (SearchEntryPoint _) s = (Inr [], s)"
| "push_open debug parse to_str ev s = push_messages debug parse to_str ev s"

definition encoder_push ::
  "(ir_stream_event \<Rightarrow> string) \<Rightarrow> (string \<Rightarrow> json option) \<Rightarrow> (json \<Rightarrow> string) \<Rightarrow> ir_stream_event \<Rightarrow> encoder
     \<Rightarrow> written" where
  "encoder_push debug parse to_str ev s =
     (if e_finished s then (Inr [], s) else push_open debug parse to_str ev s)"


section \<open>Lemmas the encoders share\<close>

lemma bt_insert_nonempty [simp]: "bt_insert k v m \<noteq> []"
  by (induction k v m rule: bt_insert.induct) auto

end
