(* ===== verification/Wm_Encoder_Protocol.thy ===== *)
theory Wm_Encoder_Protocol
  imports Wm_Encoder_Messages "HOL-Library.Multiset"
begin

text \<open>
  The block protocol of the Messages wire as a step relation on phases, and the invariant under which the operations
  of Wm_Encoder_Messages follow it: \<open>blocks_inv\<close> (the calls held back have the indexes after the open block, without a gap),
  \<open>calls_inv\<close> (a slot of a call is closed, open or held) and the budget of block indexes. \<open>writes\<close> is what one
  operation does on a started message, \<open>says\<close> what one event does.
\<close>

section \<open>Ordered maps as multisets\<close>

lemma mset_bt_insert:
  "k \<notin> fst ` set m \<Longrightarrow> mset (bt_insert k v m) = add_mset (k, v) (mset m)"
  by (induction k v m rule: bt_insert.induct) auto
lemma mset_bt_replace:
  "bt_wf m \<Longrightarrow> map_of m k = Some v \<Longrightarrow> g (k, v') = g (k, v) \<Longrightarrow> mset (map g (bt_insert k v' m)) = mset (map g m)"
  by (induction k v' m rule: bt_insert.induct) (fastforce dest: map_of_SomeD)+

section \<open>The block protocol\<close>

datatype phase = Fresh | Between nat | Inside nat | Closing | Ended

inductive mstep :: "phase \<Rightarrow> out_frame \<Rightarrow> phase \<Rightarrow> bool" where
  message_start: "mstep Fresh (Named ''message_start'' v) (Between 0)"
| block_start: "mstep (Between (unat i)) (start_block_frame i b) (Inside (unat i))"
| block_delta: "mstep (Inside (unat i)) (delta_block_frame i d) (Inside (unat i))"
| block_stop: "mstep (Inside (unat i)) (stop_block_frame i) (Between (Suc (unat i)))"
| message_delta: "mstep (Between n) (Named ''message_delta'' v) Closing"
| message_stop: "mstep Closing message_stop_frame Ended"
| forwarded: "mstep p (Plain raw) p"

inductive mruns :: "phase \<Rightarrow> out_frame list \<Rightarrow> phase \<Rightarrow> bool" where
  mruns_nil: "mruns p [] p"
| mruns_cons: "mstep p f q \<Longrightarrow> mruns q fs r \<Longrightarrow> mruns p (f # fs) r"

inductive_simps mruns_Nil [simp]: "mruns p [] q"

lemma mruns_append: "mruns p fs q \<Longrightarrow> mruns q gs r \<Longrightarrow> mruns p (fs @ gs) r"
  by (induction rule: mruns.induct) (auto intro: mruns.intros)

lemma mruns_one: "mstep p f q \<Longrightarrow> mruns p [f] q"
  by (auto intro: mruns.intros)

lemma mruns_snoc: "mruns p fs q \<Longrightarrow> mstep q f r \<Longrightarrow> mruns p (fs @ [f]) r"
  by (rule mruns_append [OF _ mruns_one])

lemma tool_steps:
  "mstep (Between (unat i)) (tool_start_frame i x y) (Inside (unat i))"
  "mstep (Inside (unat i)) (tool_arg_frame i d) (Inside (unat i))"
  by (simp_all add: tool_start_frame_def tool_arg_frame_def mstep.intros)

lemmas block_runs = tool_steps [THEN mruns_cons] block_start [THEN mruns_cons] block_delta [THEN mruns_cons]
  block_stop [THEN mruns_cons]

lemma take_custom_state:
  "\<exists>ca. snd (take_custom_json parse to_str enc s) = s\<lparr>e_custom_args := ca\<rparr>"
proof (cases "e_custom_args s enc")
  case None
  then show ?thesis by (intro exI [of _ "e_custom_args s"]) (simp add: take_custom_json_def)
qed (auto simp: take_custom_json_def Let_def)

lemma flush_loop_state:
  "\<exists>ca. snd (flush_loop parse to_str hs s)
     = s\<lparr>e_closed_tools := e_closed_tools s \<union> fst ` set hs, e_custom_args := ca\<rparr>"
proof (induction hs arbitrary: s)
  case Nil
  show ?case by (intro exI [of _ "e_custom_args s"]) simp
next
  case (Cons h hs)
  obtain enc i n a where h: "h = (enc, i, n, a)" by (cases h) auto
  let ?s = "s\<lparr>e_closed_tools := insert enc (e_closed_tools s)\<rparr>"
  obtain ca where 1: "snd (take_custom_json parse to_str enc ?s) = ?s\<lparr>e_custom_args := ca\<rparr>"
    using take_custom_state by blast
  show ?case
    using Cons.IH [of "?s\<lparr>e_custom_args := ca\<rparr>"] by (auto simp: h Let_def case_prod_beta' 1)
qed

lemma flush_loop_runs:
  assumes "map (\<lambda>h. unat (fst h)) hs = [m..<k]" "m \<le> k"
  shows "mruns (Between m) (fst (flush_loop parse to_str hs s)) (Between k)"
  using assms
proof (induction hs arbitrary: m s)
  case (Cons h hs)
  obtain enc i n a where h: "h = (enc, i, n, a)" by (cases h) auto
  have "m < k" using Cons.prems by (cases "m < k") auto
  then have m: "m = unat enc" and hs: "map (\<lambda>h. unat (fst h)) hs = [Suc m..<k]"
    using Cons.prems by (auto simp: h upt_conv_Cons)
  show ?case
    using Cons.IH [OF hs] \<open>m < k\<close>
    by (auto simp: h Let_def case_prod_beta' m split: option.splits
        intro!: block_runs)
qed (simp split: if_splits add: upt_rec)


lemma flush_held_state:
  "\<exists>ca. snd (flush_held_tools parse to_str s)
     = s\<lparr>e_held_tools := [], e_closed_tools := e_closed_tools s \<union> (fst \<circ> snd) ` set (e_held_tools s),
         e_custom_args := ca\<rparr>"
  using flush_loop_state [of parse to_str "sort_key fst (map snd (e_held_tools s))" "s\<lparr>e_held_tools := []\<rparr>"]
  by (simp add: flush_held_tools_def image_comp)


section \<open>The blocks of a state\<close>

definition held_encs :: "encoder \<Rightarrow> nat multiset" where
  "held_encs s = mset (map (\<lambda>h. unat (fst (snd h))) (e_held_tools s))"

definition blocks_inv :: "encoder \<Rightarrow> bool" where
  "blocks_inv s =
     (bt_wf (e_held_tools s)
      \<and> (case e_open s of
           None \<Rightarrow> e_held_tools s = []
         | Some (i, k) \<Rightarrow> unat i < unat (e_next_block s)
             \<and> held_encs s = mset [Suc (unat i)..<unat (e_next_block s)]
             \<and> (e_held_tools s \<noteq> [] \<longrightarrow> k = ToolBlock)))"

definition block_phase :: "encoder \<Rightarrow> phase" where
  "block_phase s = (case e_open s of None \<Rightarrow> Between (unat (e_next_block s)) | Some (i, _) \<Rightarrow> Inside (unat i))"

definition closed_by :: "encoder \<Rightarrow> u32 set" where
  "closed_by s =
     e_closed_tools s \<union> (case e_open s of None \<Rightarrow> {} | Some (i, _) \<Rightarrow> {i}) \<union> (fst \<circ> snd) ` set (e_held_tools s)"

lemma flush_held_runs:
  assumes "held_encs s = mset [m..<k]" "m \<le> k"
  shows "mruns (Between m) (fst (flush_held_tools parse to_str s)) (Between k)"
proof -
  let ?hs = "map snd (e_held_tools s)"
  have "map (\<lambda>h. unat (fst h)) (sort_key fst ?hs) = sort [m..<k]"
  proof (rule sym, rule properties_for_sort)
    show "mset (map (\<lambda>h. unat (fst h)) (sort_key fst ?hs)) = mset [m..<k]"
      using assms(1) by (simp add: held_encs_def image_mset.compositionality comp_def)
    have "sorted (map fst (sort_key fst ?hs))" by simp
    then show "sorted (map (\<lambda>h. unat (fst h)) (sort_key fst ?hs))"
      by (simp add: sorted_map word_le_nat_alt)
  qed
  then show ?thesis
    using flush_loop_runs [of "sort_key fst ?hs" m k] assms(2) by (simp add: flush_held_tools_def sorted_sort_id)
qed

lemma close_open_Some:
  assumes "e_open s = Some (i, k)"
  shows "close_open parse to_str s =
     (let s = s\<lparr>e_open := None, e_closed_tools := insert i (e_closed_tools s)\<rparr>;
          (txt, s) = (if k = ToolBlock then take_custom_json parse to_str i s else (None, s));
          (out, s) = flush_held_tools parse to_str s
      in ((case txt of Some t \<Rightarrow> [tool_arg_frame i t] | None \<Rightarrow> []) @ stop_block_frame i # out, s))"
  by (simp only: close_open_def assms option.case prod.case)

lemma close_open_state:
  "\<exists>ca. snd (close_open parse to_str s)
     = s\<lparr>e_open := None, e_held_tools := [], e_closed_tools := closed_by s, e_custom_args := ca\<rparr>"
proof (cases "e_open s")
  case None
  then have "s = s\<lparr>e_open := None\<rparr>" by (intro encoder.equality) simp_all
  then obtain t where t: "t = s" "t = s\<lparr>e_open := None\<rparr>" by blast
  have "close_open parse to_str s = flush_held_tools parse to_str t" using None t(1) by (simp add: close_open_def)
  moreover have "closed_by s = e_closed_tools t \<union> (fst \<circ> snd) ` set (e_held_tools t)"
    using None t(1) by (simp add: closed_by_def)
  ultimately show ?thesis
    using flush_held_state [of parse to_str t] by (auto simp: t(2))
next
  case (Some b)
  obtain i k where b: "b = (i, k)" by (cases b)
  let ?s = "s\<lparr>e_open := None, e_closed_tools := insert i (e_closed_tools s)\<rparr>"
  let ?t = "snd (if k = ToolBlock then take_custom_json parse to_str i ?s else (None, ?s))"
  obtain ca where t: "?t = ?s\<lparr>e_custom_args := ca\<rparr>"
  proof (cases "k = ToolBlock")
    case True then show ?thesis using take_custom_state that by fastforce
  next
    case False then show ?thesis by (intro that [of "e_custom_args s"]) simp
  qed
  show ?thesis
    using flush_held_state [of parse to_str ?t] Some
    by (auto simp: close_open_Some b Let_def case_prod_beta' t closed_by_def split del: if_split)
qed

lemma close_open_runs:
  assumes "blocks_inv s"
  shows "mruns (block_phase s) (fst (close_open parse to_str s)) (Between (unat (e_next_block s)))"
proof (cases "e_open s")
  case None
  then show ?thesis
    using assms by (simp add: blocks_inv_def close_open_def flush_held_tools_def block_phase_def)
next
  case (Some b)
  obtain i k where b: "b = (i, k)" by (cases b)
  let ?s = "s\<lparr>e_open := None, e_closed_tools := insert i (e_closed_tools s)\<rparr>"
  let ?t = "if k = ToolBlock then take_custom_json parse to_str i ?s else (None, ?s)"
  have "e_held_tools (snd ?t) = e_held_tools s"
    using take_custom_state [of parse to_str i ?s] by auto
  then have "held_encs (snd ?t) = mset [Suc (unat i)..<unat (e_next_block s)]" "Suc (unat i) \<le> unat (e_next_block s)"
    using assms Some by (auto simp: blocks_inv_def held_encs_def b)
  note flush = flush_held_runs [OF this, of parse to_str]
  have "mruns (Inside (unat i)) ((case fst ?t of Some x \<Rightarrow> [tool_arg_frame i x] | None \<Rightarrow> []) @ [stop_block_frame i])
     (Between (Suc (unat i)))"
    by (auto split: option.splits intro!: block_runs)
  from mruns_append [OF this flush] show ?thesis
    using Some by (simp add: close_open_Some b Let_def case_prod_beta' block_phase_def split del: if_split)
qed


section \<open>The calls of a state\<close>

definition slot_of :: "u32 \<Rightarrow> u32 \<Rightarrow> encoder \<Rightarrow> bool" where
  "slot_of idx enc s \<longleftrightarrow> enc \<in> set (unwrap_or (e_tool_slots s idx) []) \<or> e_last_tool s idx = Some enc"

definition calls_inv :: "encoder \<Rightarrow> bool" where
  "calls_inv s =
     (\<forall>idx enc. slot_of idx enc s \<longrightarrow>
        enc \<in> e_closed_tools s \<or> e_open s = Some (enc, ToolBlock) \<or> (\<exists>h. map_of (e_held_tools s) idx = Some (enc, h)))"

fun can_wait :: "ir_stream_event \<Rightarrow> bool" where
  "can_wait (TextDelta _) = True"
| "can_wait (ReasoningDelta _) = True"
| "can_wait (ReasoningSignature _) = True"
| "can_wait (AudioTranscriptDelta _) = True"
| "can_wait (AnnotationAdded _) = True"
| "can_wait _ = False"

definition encoder_inv :: "u32 set \<Rightarrow> encoder \<Rightarrow> bool" where
  "encoder_inv calls s \<longleftrightarrow>
     blocks_inv s \<and> calls_inv s \<and> calls \<union> fst ` set (e_held_tools s) \<subseteq> dom (e_last_tool s) \<and> list_all can_wait (e_deferred s)"

definition blocks_due :: "encoder \<Rightarrow> nat" where
  "blocks_due s = unat (e_next_block s) + length (e_deferred s)"

definition writes :: "u32 set \<Rightarrow> encoder \<Rightarrow> out_frame list \<times> encoder \<Rightarrow> bool" where
  "writes calls s = (\<lambda>(fs, s').
     mruns (block_phase s) fs (block_phase s') \<and> encoder_inv calls s' \<and> blocks_due s' \<le> Suc (blocks_due s)
     \<and> e_started s' = e_started s \<and> e_finished s' = e_finished s)"

lemmas encoder_inv_defs = encoder_inv_def blocks_inv_def calls_inv_def slot_of_def held_encs_def

lemma unat_next [simp]: "unat i < 2 ^ 32 - 1 \<Longrightarrow> unat (saturating_add i (1::u32)) = Suc (unat i)"
  by (simp add: unat_saturating_add)

lemma close_open_all:
  assumes "encoder_inv calls s"
  obtains fs ca where
    "close_open parse to_str s =
       (fs, s\<lparr>e_open := None, e_held_tools := [], e_closed_tools := closed_by s, e_custom_args := ca\<rparr>)"
    "mruns (block_phase s) fs (Between (unat (e_next_block s)))"
    "\<And>idx enc. slot_of idx enc s \<Longrightarrow> enc \<in> closed_by s"
proof -
  obtain ca where ca: "snd (close_open parse to_str s)
      = s\<lparr>e_open := None, e_held_tools := [], e_closed_tools := closed_by s, e_custom_args := ca\<rparr>"
    using close_open_state by blast
  have "enc \<in> closed_by s" if "slot_of idx enc s" for idx enc
    using assms that by (force simp: encoder_inv_def calls_inv_def closed_by_def dest!: map_of_SomeD)
  with ca show ?thesis
    using that [of "fst (close_open parse to_str s)" ca] close_open_runs [of s parse to_str] assms
    by (metis encoder_inv_def prod.collapse)
qed

lemma ensure_block_writes:
  assumes inv: "encoder_inv calls s" and room: "unat (e_next_block s) < 2 ^ 32 - 1" and kind: "kind \<noteq> ToolBlock"
  shows "writes calls s (ensure_block parse to_str kind s)
    \<and> (\<exists>i. e_open (snd (ensure_block parse to_str kind s)) = Some (i, kind))"
proof (cases "is_some_and (e_open s) (\<lambda>(_, k). k = kind)")
  case True
  then show ?thesis
    using inv by (auto simp: ensure_block_def writes_def is_some_and_def split: option.splits)
next
  case False
  obtain fs ca where c: "close_open parse to_str s =
       (fs, s\<lparr>e_open := None, e_held_tools := [], e_closed_tools := closed_by s, e_custom_args := ca\<rparr>)"
      and r: "mruns (block_phase s) fs (Between (unat (e_next_block s)))"
      and d: "\<And>idx enc. slot_of idx enc s \<Longrightarrow> enc \<in> closed_by s"
    using close_open_all [OF inv] by metis
  have "mruns (block_phase s) (fs @ [start_block_frame (e_next_block s) (empty_block kind)])
     (Inside (unat (e_next_block s)))"
    by (rule mruns_snoc [OF r block_start])
  then show ?thesis
    using False inv d room
    by (auto simp: ensure_block_def c Let_def writes_def block_phase_def encoder_inv_defs blocks_due_def)
qed


lemma emit_delta_writes:
  assumes "encoder_inv calls s" "unat (e_next_block s) < 2 ^ 32 - 1" "kind \<noteq> ToolBlock"
  shows "writes calls s (emit_delta parse to_str kind d s)"
proof -
  obtain fs s' where e: "ensure_block parse to_str kind s = (fs, s')" by fastforce
  obtain i where "e_open s' = Some (i, kind)" "writes calls s (fs, s')"
    using ensure_block_writes [OF assms, of parse to_str] by (auto simp: e)
  then show ?thesis
    by (auto simp: emit_delta_def e writes_def block_phase_def open_index_def intro: mruns_snoc block_delta)
qed

lemma blocks_cong:
  assumes "e_open s' = e_open s" "e_next_block s' = e_next_block s" "e_held_tools s' = e_held_tools s"
  shows "blocks_inv s' = blocks_inv s" "block_phase s' = block_phase s"
  using assms by (cases "e_open s"; auto simp: blocks_inv_def held_encs_def block_phase_def)+

lemma silent_writes:
  assumes "encoder_inv calls s"
  shows "writes calls s ([], s)"
  using assms by (simp add: writes_def)

lemma defer_or_writes:
  assumes "encoder_inv calls s" "can_wait ev" "\<not> tool_block_open s \<Longrightarrow> writes calls s (emit s)"
  shows "writes calls s (defer_or ev emit s)"
  using assms by (auto simp: defer_or_def writes_def encoder_inv_def calls_inv_def slot_of_def blocks_due_def
      blocks_cong [of "s\<lparr>e_deferred := e_deferred s @ [ev]\<rparr>" s])

lemma note_custom_same [simp]:
  "e_open (note_custom_slot enc c s) = e_open s"
  "e_next_block (note_custom_slot enc c s) = e_next_block s"
  "e_held_tools (note_custom_slot enc c s) = e_held_tools s"
  "e_closed_tools (note_custom_slot enc c s) = e_closed_tools s"
  "e_last_tool (note_custom_slot enc c s) = e_last_tool s"
  "e_tool_slots (note_custom_slot enc c s) = e_tool_slots s"
  "e_deferred (note_custom_slot enc c s) = e_deferred s"
  "e_started (note_custom_slot enc c s) = e_started s"
  "e_finished (note_custom_slot enc c s) = e_finished s"
  by (simp_all add: note_custom_slot_def)

lemma push_custom_same [simp]:
  "e_open (push_custom enc d s) = e_open s"
  "e_next_block (push_custom enc d s) = e_next_block s"
  "e_held_tools (push_custom enc d s) = e_held_tools s"
  "e_closed_tools (push_custom enc d s) = e_closed_tools s"
  "e_last_tool (push_custom enc d s) = e_last_tool s"
  "e_tool_slots (push_custom enc d s) = e_tool_slots s"
  "e_deferred (push_custom enc d s) = e_deferred s"
  "e_started (push_custom enc d s) = e_started s"
  "e_finished (push_custom enc d s) = e_finished s"
  by (simp_all add: push_custom_def)

definition same_blocks :: "encoder \<Rightarrow> encoder \<Rightarrow> bool" where
  "same_blocks s s' \<longleftrightarrow> e_open s' = e_open s \<and> e_next_block s' = e_next_block s
     \<and> e_held_tools s' = e_held_tools s \<and> e_closed_tools s' = e_closed_tools s \<and> e_last_tool s' = e_last_tool s
     \<and> (\<forall>idx. set (unwrap_or (e_tool_slots s' idx) []) \<subseteq> set (unwrap_or (e_tool_slots s idx) []))
     \<and> e_deferred s' = e_deferred s
     \<and> e_started s' = e_started s \<and> e_finished s' = e_finished s"

lemma same_blocks_writes:
  assumes "same_blocks s s'" "encoder_inv calls s"
  shows "writes calls s ([], s')"
proof -
  have "slot_of idx enc s" if "slot_of idx enc s'" for idx enc
    using assms(1) that by (auto simp: same_blocks_def slot_of_def)
  then have "calls_inv s'" using assms by (simp add: same_blocks_def encoder_inv_def calls_inv_def)
  moreover have "blocks_inv s'" "block_phase s' = block_phase s"
    using assms blocks_cong [of s' s] by (simp_all add: same_blocks_def encoder_inv_def)
  ultimately show ?thesis
    using assms by (simp add: writes_def same_blocks_def encoder_inv_def blocks_due_def)
qed

lemma alloc_tool_fields:
  assumes "alloc_tool idx s = (enc, s')"
  shows "enc = e_next_block s" "e_next_block s' = saturating_add enc 1" "e_open s' = e_open s"
    "e_held_tools s' = e_held_tools s" "e_closed_tools s' = e_closed_tools s" "e_deferred s' = e_deferred s"
    "e_last_tool s' = (e_last_tool s)(idx \<mapsto> enc)" "e_started s' = e_started s" "e_finished s' = e_finished s"
    "slot_of j e s' \<Longrightarrow> slot_of j e s \<or> (j = idx \<and> e = enc)"
  using assms by (auto simp: alloc_tool_def record_slot_def Let_def slot_of_def split: if_splits)

text \<open>A tool block opened where no block was.\<close>

lemma open_tool_writes:
  assumes alloc: "alloc_tool idx s = (enc, s')" and free: "e_open s = None" "e_held_tools s = []"
    and inv: "\<And>j e. slot_of j e s \<Longrightarrow> e \<in> e_closed_tools s" "calls \<subseteq> dom (e_last_tool s)" "list_all can_wait (e_deferred s)"
    and room: "unat (e_next_block s) < 2 ^ 32 - 1"
  shows "writes (insert idx calls) s (open_tool enc id' name (note_custom_slot enc c s'))"
proof -
  note f = alloc_tool_fields [OF alloc]
  have "calls_inv (snd (open_tool enc id' name (note_custom_slot enc c s')))"
    using f(10) inv(1) f(5) by (fastforce simp: calls_inv_def open_tool_def slot_of_def)
  then show ?thesis
    using inv(2,3) room free f(1-9)
    by (auto simp: open_tool_def writes_def encoder_inv_def blocks_inv_def held_encs_def block_phase_def
        blocks_due_def tool_steps mruns_one)
qed


lemma writes_append:
  assumes "mruns (block_phase s) fs (block_phase t)" "writes calls t r"
    "blocks_due t \<le> blocks_due s" "e_started t = e_started s" "e_finished t = e_finished s"
  shows "writes calls s (fs @ fst r, snd r)"
  using assms by (auto simp: writes_def intro: mruns_append)

text \<open>A tool block opened after every open block is closed.\<close>

lemma reopen_tool_writes:
  assumes inv: "encoder_inv calls s" and room: "unat (e_next_block s) < 2 ^ 32 - 1"
    and close: "close_open parse to_str s = (fs, t)"
    and slots: "t' = t\<lparr>e_tool_slots := sl\<rparr>" "\<And>j. set (unwrap_or (sl j) []) \<subseteq> set (unwrap_or (e_tool_slots s j) [])"
    and alloc: "alloc_tool idx t' = (enc, u)"
  shows "writes (insert idx calls) s
     (fs @ fst (open_tool enc id' name (note_custom_slot enc c u)), snd (open_tool enc id' name (note_custom_slot enc c u)))"
proof -
  obtain fs' ca where c: "close_open parse to_str s =
       (fs', s\<lparr>e_open := None, e_held_tools := [], e_closed_tools := closed_by s, e_custom_args := ca\<rparr>)"
      and r': "mruns (block_phase s) fs' (Between (unat (e_next_block s)))"
      and d: "\<And>idx enc. slot_of idx enc s \<Longrightarrow> enc \<in> closed_by s"
    using close_open_all [OF inv] by metis
  have t: "t = s\<lparr>e_open := None, e_held_tools := [], e_closed_tools := closed_by s, e_custom_args := ca\<rparr>"
    and r: "mruns (block_phase s) fs (Between (unat (e_next_block s)))"
    using c r' close by simp_all
  have "e \<in> e_closed_tools t'" if "slot_of j e t'" for j e
    using d [of j e] slots that by (auto simp: t slot_of_def)
  then have "writes (insert idx calls) t' (open_tool enc id' name (note_custom_slot enc c u))"
    using inv room by (intro open_tool_writes [OF alloc]) (auto simp: slots(1) t encoder_inv_def)
  then show ?thesis
    using r by (intro writes_append [of s fs t']) (simp_all add: slots(1) t block_phase_def blocks_due_def)
qed

text \<open>A tool call held back behind the block that is open.\<close>

lemma hold_tool_writes:
  assumes inv: "encoder_inv calls s" and room: "unat (e_next_block s) < 2 ^ 32 - 1"
    and open': "e_open s = Some (i, ToolBlock)" and new: "map_of (e_held_tools s) idx = None"
    and alloc: "alloc_tool idx s = (enc, u)"
  shows "writes (insert idx calls) s
     ([], (note_custom_slot enc c u)\<lparr>e_held_tools := bt_insert idx (enc, id', name, a) (e_held_tools (note_custom_slot enc c u))\<rparr>)"
    (is "writes _ _ ([], ?t)")
proof -
  note f = alloc_tool_fields [OF alloc]
  have "idx \<notin> fst ` set (e_held_tools s)" using new by (simp add: map_of_eq_None_iff)
  then have "held_encs ?t = add_mset (unat enc) (held_encs s)"
    by (simp add: held_encs_def f(4) mset_bt_insert)
  moreover have "slot_of j e s \<or> (j = idx \<and> e = enc)" if "slot_of j e ?t" for j e
    using f(10) [of j e] that by (simp add: slot_of_def)
  ultimately have "blocks_inv ?t" "calls_inv ?t"
  proof -
    assume held: "held_encs ?t = add_mset (unat enc) (held_encs s)"
      and slot: "\<And>j e. slot_of j e ?t \<Longrightarrow> slot_of j e s \<or> (j = idx \<and> e = enc)"
    show "blocks_inv ?t"
      using inv open' room f(1-4) held by (auto simp: encoder_inv_def blocks_inv_def)
    show "calls_inv ?t"
      unfolding calls_inv_def
    proof (intro allI impI)
      fix j e
      assume "slot_of j e ?t"
      from slot [OF this] consider (old) "slot_of j e s" | (new) "j = idx" "e = enc" by blast
      then show "e \<in> e_closed_tools ?t \<or> e_open ?t = Some (e, ToolBlock) \<or> (\<exists>h. map_of (e_held_tools ?t) j = Some (e, h))"
      proof cases
        case old
        then have "e \<in> e_closed_tools s \<or> e_open s = Some (e, ToolBlock) \<or> (\<exists>h. map_of (e_held_tools s) j = Some (e, h))"
          using inv by (simp add: encoder_inv_def calls_inv_def)
        then show ?thesis using new f(3,4,5) by auto
      qed simp
    qed
  qed
  then show ?thesis
    using inv f open' room by (auto simp: writes_def encoder_inv_def blocks_due_def block_phase_def)
qed


lemma merge_held_writes:
  assumes inv: "encoder_inv calls s" and h: "map_of (e_held_tools s) idx = Some (enc, h)" and t: "same_blocks s t"
  shows "writes (insert idx calls) s ([], t\<lparr>e_held_tools := bt_insert idx (enc, h') (e_held_tools s)\<rparr>)"
    (is "writes _ _ ([], ?t)")
proof -
  have t': "e_open t = e_open s" "e_next_block t = e_next_block s" "e_last_tool t = e_last_tool s"
    "e_deferred t = e_deferred s" "e_started t = e_started s" "e_finished t = e_finished s"
    "e_closed_tools t = e_closed_tools s" "e_held_tools t = e_held_tools s"
    using t by (simp_all add: same_blocks_def)
  have wf: "bt_wf (e_held_tools s)" using inv by (simp add: encoder_inv_def blocks_inv_def)
  have encs: "held_encs ?t = held_encs s"
    using mset_bt_replace [OF wf h, of "\<lambda>x. unat (fst (snd x))" "(enc, h')"] by (simp add: held_encs_def)
  have ne: "e_held_tools s \<noteq> []" using h by auto
  have blocks: "blocks_inv ?t"
    using inv wf encs ne by (auto simp: encoder_inv_def blocks_inv_def t' split: option.splits)
  have slot: "slot_of j e s" if "slot_of j e ?t" for j e
    using t that by (auto simp: same_blocks_def slot_of_def)
  have "calls_inv ?t"
    unfolding calls_inv_def
  proof (intro allI impI)
    fix j e
    assume "slot_of j e ?t"
    then have "e \<in> e_closed_tools s \<or> e_open s = Some (e, ToolBlock) \<or> (\<exists>h. map_of (e_held_tools s) j = Some (e, h))"
      using slot inv by (simp add: encoder_inv_def calls_inv_def)
    then show "e \<in> e_closed_tools ?t \<or> e_open ?t = Some (e, ToolBlock) \<or> (\<exists>h. map_of (e_held_tools ?t) j = Some (e, h))"
      using h by (cases h') (auto simp: t')
  qed
  moreover have "block_phase ?t = block_phase s"
    by (cases "e_open s") (auto simp: block_phase_def t')
  ultimately show ?thesis
    using inv blocks map_of_SomeD [OF h] by (force simp: writes_def encoder_inv_def blocks_due_def t')
qed

lemma same_blocks_note [simp]: "same_blocks s (note_custom_slot enc c s)" "same_blocks s (push_custom enc d s)"
  "same_blocks s s"
  by (simp_all add: same_blocks_def)

lemma held_started:
  assumes "encoder_inv calls s" "idx \<in> calls"
  shows "idx \<in> dom (e_last_tool s)"
  using assms by (auto simp: encoder_inv_def)

lemma writes_mono: "writes calls s r \<Longrightarrow> calls' \<subseteq> calls \<Longrightarrow> writes calls' s r"
  by (auto simp: writes_def encoder_inv_def)

lemma tool_enc_known:
  assumes inv: "encoder_inv calls s" and idx: "idx \<in> calls" and t: "tool_enc idx s = (enc, t)"
  shows "same_blocks s t" "slot_of idx enc s"
proof -
  obtain last_enc where l: "e_last_tool s idx = Some last_enc" using held_started [OF inv idx] by auto
  show "same_blocks s t" "slot_of idx enc s"
    using t l by (auto simp: tool_enc_def known_slot_def Let_def same_blocks_def slot_of_def neq_Nil_conv
        split: list.splits if_splits)
qed

lemma push_tool_arg_writes:
  assumes inv: "encoder_inv calls s" and idx: "idx \<in> calls"
  shows "writes calls s (push_tool_arg parse to_str c d idx s)"
proof -
  obtain enc t where t: "tool_enc idx s = (enc, t)" by fastforce
  note k = tool_enc_known [OF inv idx t]
  have f: "e_open t = e_open s" "e_held_tools t = e_held_tools s" "e_closed_tools t = e_closed_tools s"
    using k(1) by (simp_all add: same_blocks_def)
  have tt: "writes calls s ([], t)" by (rule same_blocks_writes [OF k(1) inv])
  have custom: "writes calls s ([], push_custom e d t)" for e
    by (rule same_blocks_writes [OF _ inv]) (use k(1) in \<open>simp add: same_blocks_def\<close>)
  have merge: "writes calls s ([], t\<lparr>e_held_tools := bt_insert idx (he, h') (e_held_tools s)\<rparr>)"
    if "map_of (e_held_tools s) idx = Some (he, h)" for he h h'
    using merge_held_writes [OF inv that k(1)] idx by (simp add: insert_absorb)
  have delta: "writes calls s ([tool_arg_frame enc x], t)"
    if "map_of (e_held_tools s) idx = None" "enc \<notin> e_closed_tools s" for x
  proof -
    have "e_open s = Some (enc, ToolBlock)"
      using inv k(2) that unfolding encoder_inv_def calls_inv_def by (metis option.distinct(1))
    then show ?thesis
      using tt f(1) by (simp add: writes_def block_phase_def mruns_one tool_steps)
  qed
  show ?thesis
    using tt custom merge delta
    by (auto simp: push_tool_arg_def t f split: option.splits)
qed

text \<open>A tool block opened after the text or thinking block before it.\<close>

lemma open_after_plain_writes:
  assumes inv: "encoder_inv calls s" and room: "unat (e_next_block s) < 2 ^ 32 - 1"
    and plain: "Option.bind (e_open s) (\<lambda>(enc, kind). if kind = ToolBlock then Some enc else None) = None"
    and a: "alloc_tool idx s = (enc, u)" and c: "close_open parse to_str (note_custom_slot enc c u) = (fs, v)"
  shows "writes (insert idx calls) s (fs @ fst (open_tool enc id' name v), snd (open_tool enc id' name v))"
proof -
  note f = alloc_tool_fields [OF a]
  let ?u = "note_custom_slot enc c u"
  have held: "e_held_tools ?u = []"
    using inv plain f(4) by (auto simp: encoder_inv_def blocks_inv_def split: option.splits if_splits)
  obtain ca where v: "v = ?u\<lparr>e_open := None, e_held_tools := [], e_closed_tools := closed_by ?u, e_custom_args := ca\<rparr>"
    using close_open_state [of parse to_str ?u] c by auto
  have run: "mruns (block_phase s) fs (Between (unat enc))"
  proof (cases "e_open s")
    case None
    then show ?thesis
      using c held f(1,3) by (auto simp: close_open_def flush_held_tools_def block_phase_def)
  next
    case (Some b)
    obtain i k where b: "b = (i, k)" "k \<noteq> ToolBlock" using plain Some by (cases b) (auto split: if_splits)
    have "mset [Suc (unat i)..<unat enc] = {#}" "unat i < unat enc"
      using inv held f(1,4) Some b by (auto simp: encoder_inv_def blocks_inv_def held_encs_def)
    then have "unat enc = Suc (unat i)" by (simp add: mset_set_empty_iff)
    moreover have "fs = [stop_block_frame i]"
      using c held f(3) Some b by (simp add: close_open_Some flush_held_tools_def)
    ultimately show ?thesis
      using Some b by (simp add: block_phase_def mruns_one block_stop)
  qed
  have slot: "e \<in> closed_by ?u \<or> e = enc" if "slot_of j e ?u" for j e
    using f(10) [of j e] that inv plain held f(3,4,5)
    by (fastforce simp: encoder_inv_def calls_inv_def closed_by_def slot_of_def)
  have calls: "calls_inv (snd (open_tool enc id' name v))"
    using slot by (fastforce simp: calls_inv_def open_tool_def v slot_of_def)
  show ?thesis
    using inv calls room run held f(1,2,6,7,8,9)
    by (auto simp: open_tool_def v writes_def encoder_inv_def blocks_inv_def held_encs_def block_phase_def blocks_due_def
        intro!: mruns_snoc [OF _ tool_steps(1)])
qed

lemma push_tool_start_writes:
  assumes inv: "encoder_inv calls s" and room: "unat (e_next_block s) < 2 ^ 32 - 1"
  shows "writes (insert idx calls) s (push_tool_start parse to_str c id' name idx s)"
proof -
  let ?open = "Option.bind (e_open s) (\<lambda>(enc, kind). if kind = ToolBlock then Some enc else None)"
  let ?same = "is_some_and ?open (\<lambda>enc. e_last_tool s idx = Some enc)"
  have noted: "writes (insert idx calls) s ([], note_custom_slot e c s)" if "idx \<in> dom (e_last_tool s)" for e
    by (rule same_blocks_writes) (use inv that in \<open>auto simp: encoder_inv_def\<close>)
  consider (same) "?same" "id' = [] \<or> unwrap_or (Option.bind ?open (e_tool_ids s)) [] = id'"
    | (replace) "?same" "\<not> (id' = [] \<or> unwrap_or (Option.bind ?open (e_tool_ids s)) [] = id')"
    | (merge) h where "\<not> ?same" "map_of (e_held_tools s) idx = Some h"
    | (fresh) "\<not> ?same" "map_of (e_held_tools s) idx = None" by fastforce
  then show ?thesis
  proof cases
    case same
    then obtain e where "?open = Some e" "e_last_tool s idx = Some e" by (auto simp: is_some_and_def split: option.splits)
    then show ?thesis using same noted by (auto simp: push_tool_start_def Let_def)
  next
    case replace
    obtain fs t where c: "close_open parse to_str s = (fs, t)" by fastforce
    have s: "e_tool_slots t = e_tool_slots s" using close_open_state [of parse to_str s] c by auto
    obtain enc u where a: "alloc_tool idx (t\<lparr>e_tool_slots := (e_tool_slots s)(idx := None)\<rparr>) = (enc, u)" by fastforce
    obtain gs v where o: "open_tool enc id' name (note_custom_slot enc c u) = (gs, v)" by fastforce
    have "writes (insert idx calls) s (fs @ gs, v)"
      using reopen_tool_writes [OF inv room c refl _ a, of id' name c] by (simp add: unwrap_or_def o)
    then show ?thesis
      using replace by (auto simp: push_tool_start_def Let_def c s a o)
  next
    case merge
    obtain enc hi hn ha where h: "h = (enc, hi, hn, ha)" by (cases h) auto
    let ?h = "(if hi = [] then id' else hi, if hn = [] then name else hn, ha)"
    have "note_custom_slot enc c (s\<lparr>e_held_tools := bt_insert idx (enc, ?h) (e_held_tools s)\<rparr>)
        = (note_custom_slot enc c s)\<lparr>e_held_tools := bt_insert idx (enc, ?h) (e_held_tools s)\<rparr>"
      by (simp add: note_custom_slot_def)
    then show ?thesis
      using merge merge_held_writes [OF inv merge(2) [unfolded h] same_blocks_note(1) [of s enc c], of ?h]
      by (auto simp: push_tool_start_def Let_def h)
  next
    case fresh
    obtain enc u where a: "alloc_tool idx s = (enc, u)" by fastforce
    show ?thesis
    proof (cases "?open")
      case (Some i)
      then have op: "e_open s = Some (i, ToolBlock)" by (auto simp: bind_eq_Some_conv split: if_splits)
      then have "i \<noteq> enc" using inv alloc_tool_fields(1) [OF a] by (auto simp: encoder_inv_def blocks_inv_def)
      then show ?thesis
        using fresh op hold_tool_writes [OF inv room op fresh(2) a, where c = c and id' = id' and name = name and a = "[]"]
        by (auto simp: push_tool_start_def Let_def a alloc_tool_fields(3) [OF a] is_some_and_def)
    next
      case None
      then have "\<not> is_some_and (e_open s) (\<lambda>(open_enc, kind). kind = ToolBlock \<and> open_enc \<noteq> enc)"
        by (auto simp: is_some_and_def split: option.splits)
      moreover obtain fs v where c: "close_open parse to_str (note_custom_slot enc c u) = (fs, v)" by fastforce
      moreover obtain gs w where o: "open_tool enc id' name v = (gs, w)" by fastforce
      moreover have "writes (insert idx calls) s (fs @ gs, w)"
        using open_after_plain_writes [OF inv room None a c, of id' name] by (simp add: o)
      ultimately show ?thesis
        using None fresh by (simp add: push_tool_start_def Let_def a alloc_tool_fields(3) [OF a])
    qed
  qed
qed


section \<open>Events\<close>

fun call_started :: "ir_stream_event \<Rightarrow> u32 set" where
  "call_started (ToolCallStart _ _ _ i) = {i}"
| "call_started (CustomToolCallStart _ _ i) = {i}"
| "call_started _ = {}"

fun call_continued :: "ir_stream_event \<Rightarrow> u32 set" where
  "call_continued (ToolCallArgDelta _ i) = {i}"
| "call_continued (CustomToolCallInputDelta _ i) = {i}"
| "call_continued _ = {}"

fun side_event :: "ir_stream_event \<Rightarrow> bool" where
  "side_event (Protocol _ _) = True"
| "side_event (Unknown _ _) = True"
| "side_event Done = True"
| "side_event (SearchEntryPoint _) = True"
| "side_event _ = False"

lemma field_writes:
  assumes "encoder_inv calls s" "e_open t = e_open s" "e_next_block t = e_next_block s"
    "e_held_tools t = e_held_tools s" "e_closed_tools t = e_closed_tools s" "e_last_tool t = e_last_tool s"
    "e_tool_slots t = e_tool_slots s" "e_deferred t = e_deferred s" "e_started t = e_started s"
    "e_finished t = e_finished s"
  shows "writes calls s ([], t)"
  using assms by (intro same_blocks_writes) (simp_all add: same_blocks_def)

lemma image_writes:
  assumes inv: "encoder_inv calls s" and room: "unat (e_next_block s) < 2 ^ 32 - 1"
    and c: "close_open parse to_str s = (fs, t)"
  shows "writes calls s (fs @ [start_block_frame (e_next_block t) b, stop_block_frame (e_next_block t)],
     t\<lparr>e_next_block := saturating_add (e_next_block t) 1\<rparr>)"
proof -
  obtain fs' ca where c': "close_open parse to_str s =
       (fs', s\<lparr>e_open := None, e_held_tools := [], e_closed_tools := closed_by s, e_custom_args := ca\<rparr>)"
      and r: "mruns (block_phase s) fs' (Between (unat (e_next_block s)))"
      and d: "\<And>idx enc. slot_of idx enc s \<Longrightarrow> enc \<in> closed_by s"
    using close_open_all [OF inv] by metis
  have t: "fs' = fs" "t = s\<lparr>e_open := None, e_held_tools := [], e_closed_tools := closed_by s, e_custom_args := ca\<rparr>"
    using c c' by simp_all
  have "mruns (Between (unat i)) [start_block_frame i b, stop_block_frame i] (Between (Suc (unat i)))" for i
    by (auto intro!: block_runs)
  from mruns_append [OF r [unfolded t(1)] this] show ?thesis
    using inv room d
    by (auto simp: t(2) writes_def encoder_inv_defs block_phase_def blocks_due_def)
qed

lemma messages_arm_writes:
  assumes inv: "encoder_inv calls s" and room: "unat (e_next_block s) < 2 ^ 32 - 1"
    and ev: "\<not> side_event ev" "\<not> is_custom ev" "call_continued ev \<subseteq> calls"
  shows "\<exists>r. messages_arm debug parse to_str c ev s = wrote r \<and> writes (calls \<union> call_started ev) s r"
proof -
  have silent: "\<exists>fs u. (Inr [], t) = wrote (fs, u) \<and> writes calls s (fs, u)" if "writes calls s ([], t)" for t
    using that by (simp add: wrote_def)
  have wait: "\<exists>r. wrote (defer_or ev (emit_delta parse to_str k d) s) = wrote r \<and> writes calls s r"
    if "can_wait ev" "k \<noteq> ToolBlock" for k d
    by (rule exI, rule conjI, rule refl, rule defer_or_writes [OF inv that(1)], rule emit_delta_writes [OF inv room that(2)])
  show ?thesis
  proof (cases ev)
    case (ImageDelta m d)
    obtain fs t where c: "close_open parse to_str s = (fs, t)" by fastforce
    show ?thesis using image_writes [OF inv room c, of "image_block m d"]
      by (intro exI [of _ "(fs @ [start_block_frame (e_next_block t) (image_block m d), stop_block_frame (e_next_block t)],
         t\<lparr>e_next_block := saturating_add (e_next_block t) 1\<rparr>)"]) (simp add: ImageDelta c wrote_def Let_def)
  next
    case (ToolCallStart i nm g idx)
    then show ?thesis using push_tool_start_writes [OF inv room, of idx] by fastforce
  next
    case (ToolCallArgDelta d idx)
    then show ?thesis using push_tool_arg_writes [OF inv, of idx] ev(3) by fastforce
  next
    case (TextDelta x)
    then show ?thesis using wait [of TextBlock] by (simp add: emit_text_def)
  next
    case (ReasoningDelta x)
    then show ?thesis using wait [of ThinkingBlock] by (simp add: emit_text_def)
  next
    case (ReasoningSignature x)
    then show ?thesis using wait [of ThinkingBlock] by (simp add: emit_text_def)
  next
    case (AudioTranscriptDelta x)
    then show ?thesis using wait [of TextBlock] by (simp add: emit_text_def)
  next
    case (AnnotationAdded x)
    then show ?thesis using wait [of TextBlock] by (simp add: emit_text_def)
  qed (use ev inv in \<open>auto simp: is_custom_def intro!: silent field_writes\<close>)
qed


section \<open>Messages\<close>

definition message_phase :: "encoder \<Rightarrow> phase" where
  "message_phase s = (if e_started s then block_phase s else Fresh)"

definition message_inv :: "u32 set \<Rightarrow> encoder \<Rightarrow> bool" where
  "message_inv calls s \<longleftrightarrow> encoder_inv calls s \<and> (\<not> e_started s \<longrightarrow> block_phase s = Between 0)"

definition says :: "u32 set \<Rightarrow> encoder \<Rightarrow> written \<Rightarrow> bool" where
  "says calls s = (\<lambda>(res, s').
     (\<exists>fs. res = Inr fs \<and> mruns (message_phase s) fs (message_phase s')) \<and> message_inv calls s'
     \<and> blocks_due s' \<le> Suc (blocks_due s) \<and> e_finished s' = e_finished s \<and> (e_started s \<longrightarrow> e_started s'))"

lemma note_fields_same:
  "same_blocks s (note_fields ev s)"
  by (cases ev) (simp_all add: note_fields_def same_blocks_def)

lemma custom_tool_as_function_keeps:
  "\<not> is_custom (custom_tool_as_function ev)"
  "call_continued (custom_tool_as_function ev) = call_continued ev"
  "call_started (custom_tool_as_function ev) = call_started ev"
  "side_event (custom_tool_as_function ev) = side_event ev"
  "waits_for_start (custom_tool_as_function ev) = waits_for_start ev"
  by (cases ev; simp add: custom_tool_as_function_def is_custom_def waits_for_start_def)+

lemma same_blocks_message:
  assumes "same_blocks s t" "message_inv calls s"
  shows "message_inv calls t" "message_phase t = message_phase s" "blocks_due t = blocks_due s"
    "e_next_block t = e_next_block s" "e_started t = e_started s" "e_finished t = e_finished s"
proof -
  have f: "e_open t = e_open s" "e_next_block t = e_next_block s" "e_held_tools t = e_held_tools s"
    "e_started t = e_started s" "e_finished t = e_finished s" "e_deferred t = e_deferred s"
    using assms(1) by (simp_all add: same_blocks_def)
  have "encoder_inv calls t"
    using same_blocks_writes [OF assms(1)] assms(2) by (simp add: message_inv_def writes_def)
  then show "message_inv calls t" "message_phase t = message_phase s" "blocks_due t = blocks_due s"
    "e_next_block t = e_next_block s" "e_started t = e_started s" "e_finished t = e_finished s"
    using assms(2) f blocks_cong(2) [of t s] by (simp_all add: message_inv_def message_phase_def blocks_due_def)
qed

lemma start_message_runs:
  assumes "message_inv calls s" "start_message s = (fs, t)"
  shows "mruns (message_phase s) fs (message_phase t)" "message_inv calls t" "e_started t" "e_finished t = e_finished s"
    "blocks_due t = blocks_due s" "e_next_block t = e_next_block s"
proof -
  have f: "e_open t = e_open s" "e_next_block t = e_next_block s" "e_held_tools t = e_held_tools s"
    "e_finished t = e_finished s" "e_deferred t = e_deferred s" "e_started t"
    "e_closed_tools t = e_closed_tools s" "e_tool_slots t = e_tool_slots s" "e_last_tool t = e_last_tool s"
    using assms(2) by (auto simp: start_message_def split: if_splits)
  have fs: "e_started s \<and> fs = [] \<or> \<not> e_started s \<and> (\<exists>v. fs = [Named ''message_start'' v])"
    using assms(2) by (auto simp: start_message_def messages_start_frame_def Let_def split: if_splits)
  note cong = blocks_cong [OF f(1-3)]
  show "message_inv calls t"
    using assms(1) f cong by (simp add: message_inv_def encoder_inv_def calls_inv_def slot_of_def)
  show "mruns (message_phase s) fs (message_phase t)"
    using fs assms(1) f cong
    by (auto simp: message_phase_def message_inv_def intro: mruns_one message_start)
  show "e_started t" "e_finished t = e_finished s" "blocks_due t = blocks_due s" "e_next_block t = e_next_block s"
    using f by (simp_all add: blocks_due_def)
qed

lemma push_messages_says:
  assumes inv: "message_inv calls s" and room: "unat (e_next_block s) < 2 ^ 32 - 1"
    and ev: "\<not> side_event ev" "call_continued ev \<subseteq> calls"
  shows "says (calls \<union> call_started ev) s (push_messages debug parse to_str ev s)
    \<and> (\<not> waits_for_start ev \<longrightarrow> e_started (snd (push_messages debug parse to_str ev s)))"
proof -
  let ?ev = "custom_tool_as_function ev"
  let ?n = "note_fields ?ev s"
  note k = custom_tool_as_function_keeps [of ev]
  note n = same_blocks_message [OF note_fields_same inv, of ?ev]
  show ?thesis
  proof (cases "\<not> e_started ?n \<and> waits_for_start ?ev")
    case True
    moreover from True have "call_started ev = {}"
      by (cases ev) (auto simp: waits_for_start_def custom_tool_as_function_def)
    ultimately show ?thesis
      using n k(5) by (simp add: push_messages_def Let_def says_def)
  next
    case False
    obtain fs t where st: "start_message ?n = (fs, t)" by fastforce
    note m = start_message_runs [OF n(1) st, unfolded n]
    have "encoder_inv calls t" "unat (e_next_block t) < 2 ^ 32 - 1" "call_continued ?ev \<subseteq> calls" "\<not> side_event ?ev"
      using m room ev k by (simp_all add: message_inv_def)
    then obtain gs u where a: "messages_arm debug parse to_str (is_custom ev) ?ev t = (Inr gs, u)"
        and w: "writes (calls \<union> call_started ev) t (gs, u)"
      using messages_arm_writes [of calls t ?ev debug parse to_str "is_custom ev"] k by (auto simp: wrote_def)
    have "push_messages debug parse to_str ev s = (Inr (fs @ gs), u)"
      unfolding push_messages_def Let_def by (simp only: False st a if_False prod.case sum.case)
    moreover have "mruns (message_phase t) gs (message_phase u)"
      using w m(3,4) by (simp add: writes_def message_phase_def)
    moreover have "message_inv (calls \<union> call_started ev) u" "e_started u" "e_finished u = e_finished s"
        "blocks_due u \<le> Suc (blocks_due s)"
      using w m(3,4,5) by (simp_all add: writes_def message_inv_def)
    ultimately show ?thesis
      using mruns_append [OF m(1)] by (simp add: says_def)
  qed
qed

lemma push_deferred_runs:
  assumes "message_inv calls s" "e_started s" "list_all can_wait evs" "blocks_due s + length evs < 2 ^ 32"
    "push_deferred debug parse to_str evs s = (fs, t)"
  shows "mruns (block_phase s) fs (block_phase t) \<and> message_inv calls t \<and> e_started t
    \<and> e_finished t = e_finished s"
  using assms
proof (induction evs arbitrary: s fs t)
  case (Cons ev evs)
  have ev: "\<not> side_event ev" "call_continued ev = {}" "call_started ev = {}"
    using Cons.prems(3) by (cases ev; simp)+
  obtain res u where p: "push_messages debug parse to_str ev s = (res, u)" by fastforce
  obtain gs v where d: "push_deferred debug parse to_str evs u = (gs, v)" by fastforce
  have "unat (e_next_block s) < 2 ^ 32 - 1"
    using Cons.prems(4) by (simp add: blocks_due_def)
  then have "says calls s (res, u)"
    using push_messages_says [OF Cons.prems(1), of ev debug parse to_str] ev by (simp add: p)
  then obtain hs where u: "res = Inr hs" "mruns (block_phase s) hs (block_phase u)" "message_inv calls u"
      "e_started u" "e_finished u = e_finished s" "blocks_due u \<le> Suc (blocks_due s)"
    using Cons.prems(2) by (auto simp: says_def message_phase_def)
  show ?case
    using Cons.IH [OF u(3,4) _ _ d] Cons.prems(3,4,5) u
    by (auto simp: p d intro: mruns_append)
qed simp

lemma close_open_message:
  assumes "message_inv calls s" "close_open parse to_str s = (fs, t)"
  shows "mruns (block_phase s) fs (Between (unat (e_next_block t)))" "message_inv calls t"
    "e_open t = None" "e_started t = e_started s" "e_finished t = e_finished s" "blocks_due t = blocks_due s"
    "e_deferred t = e_deferred s"
proof -
  have inv: "encoder_inv calls s" using assms(1) by (simp add: message_inv_def)
  obtain fs' ca where c': "close_open parse to_str s =
       (fs', s\<lparr>e_open := None, e_held_tools := [], e_closed_tools := closed_by s, e_custom_args := ca\<rparr>)"
      and r: "mruns (block_phase s) fs' (Between (unat (e_next_block s)))"
      and d: "\<And>idx enc. slot_of idx enc s \<Longrightarrow> enc \<in> closed_by s"
    using close_open_all [OF inv] by metis
  have t: "fs' = fs" "t = s\<lparr>e_open := None, e_held_tools := [], e_closed_tools := closed_by s, e_custom_args := ca\<rparr>"
    using assms(2) c' by simp_all
  show "mruns (block_phase s) fs (Between (unat (e_next_block t)))" using r by (simp add: t)
  have "block_phase s = Between 0 \<Longrightarrow> block_phase t = Between 0"
    by (cases "e_open s") (auto simp: block_phase_def t)
  moreover have "encoder_inv calls t"
    using inv d by (auto simp: t(2) encoder_inv_defs)
  ultimately show "message_inv calls t" using assms(1) by (simp add: message_inv_def t(2))
  show "e_open t = None" "e_started t = e_started s" "e_finished t = e_finished s" "blocks_due t = blocks_due s"
    "e_deferred t = e_deferred s"
    by (simp_all add: t(2) blocks_due_def)
qed

lemma finish_messages_runs:
  assumes "message_inv calls s" "blocks_due s < 2 ^ 32" "finish_messages debug parse to_str s = (fs, t)"
  shows "mruns (message_phase s) fs Ended" "e_finished t = e_finished s"
proof -
  obtain f1 s1 where 1: "start_message s = (f1, s1)" by fastforce
  obtain f2 s2 where 2: "close_open parse to_str s1 = (f2, s2)" by fastforce
  obtain f3 s3 where 3: "push_deferred debug parse to_str (e_deferred s2) (s2\<lparr>e_deferred := []\<rparr>) = (f3, s3)" by fastforce
  obtain f4 s4 where 4: "close_open parse to_str s3 = (f4, s4)" by fastforce
  have fs: "fs = f1 @ f2 @ f3 @ f4 @ [message_delta_frame s4, message_stop_frame]" "e_finished t = e_finished s4"
    using assms(3) by (auto simp: finish_messages_def Let_def 1 2 3 4 split: if_splits)
  note a = start_message_runs [OF assms(1) 1]
  note b = close_open_message [OF a(2) 2]
  let ?s2 = "s2\<lparr>e_deferred := []\<rparr>"
  have inv2: "message_inv calls ?s2" "e_started ?s2" "list_all can_wait (e_deferred s2)"
      "blocks_due ?s2 + length (e_deferred s2) < 2 ^ 32"
    using b a(3,5) assms(2)
    by (auto simp: message_inv_def encoder_inv_defs blocks_due_def block_phase_def)
  note c = push_deferred_runs [OF inv2 3]
  note d = close_open_message [OF conjunct1 [OF conjunct2 [OF c]] 4]
  have run2: "mruns (message_phase s1) f2 (block_phase ?s2)"
    using b(1,3) a(3) by (simp add: message_phase_def block_phase_def)
  have last': "mruns (Between n) [message_delta_frame s4, message_stop_frame] Ended" for n
    by (auto simp: message_delta_frame_def Let_def intro!: mruns.intros mstep.message_delta mstep.message_stop)
  show "mruns (message_phase s) fs Ended"
    unfolding fs using a(1) run2 conjunct1 [OF c] d(1) last' by (blast intro: mruns_append)
  show "e_finished t = e_finished s"
    using fs(2) d(5) c b(5) a(4) by simp
qed

end
