(* ===== verification/Wm_Encoder_Stream.thy ===== *)
theory Wm_Encoder_Stream
  imports Wm_Encoder_Protocol
begin

text \<open>
  Whole streams through an encoder: every event pushed, then \<open>finish\<close>. The interface is the locale
  \<open>protocol_encoder\<close>, interpreted on the Messages encoder; the second part follows the text of a stream through
  the blocks and the events that wait.
\<close>

section \<open>Sessions\<close>

fun push_all :: "('e \<Rightarrow> 's \<Rightarrow> ('err + 'f list) \<times> 's) \<Rightarrow> 'e list \<Rightarrow> 's \<Rightarrow> ('err + 'f list) \<times> 's" where
  "push_all push [] s = (Inr [], s)"
| "push_all push (ev # evs) s =
     (case push ev s of
        (Inl e, s) \<Rightarrow> (Inl e, s)
      | (Inr fs, s) \<Rightarrow> (case push_all push evs s of (Inl e, s) \<Rightarrow> (Inl e, s) | (Inr gs, s) \<Rightarrow> (Inr (fs @ gs), s)))"

definition whole_stream ::
  "('e \<Rightarrow> 's \<Rightarrow> ('err + 'f list) \<times> 's) \<Rightarrow> ('s \<Rightarrow> ('err + 'f list) \<times> 's) \<Rightarrow> 'e list \<Rightarrow> 's \<Rightarrow> 'err + 'f list" where
  "whole_stream push finish evs s =
     (case push_all push evs s of
        (Inl e, s) \<Rightarrow> Inl e
      | (Inr fs, s) \<Rightarrow> (case finish s of (Inl e, s) \<Rightarrow> Inl e | (Inr gs, s) \<Rightarrow> Inr (fs @ gs)))"

fun all_allowed :: "('c \<Rightarrow> 'e \<Rightarrow> bool) \<Rightarrow> ('e \<Rightarrow> 'c \<Rightarrow> 'c) \<Rightarrow> 'c \<Rightarrow> 'e list \<Rightarrow> bool" where
  "all_allowed allowed seen c [] = True"
| "all_allowed allowed seen c (ev # evs) = (allowed c ev \<and> all_allowed allowed seen (seen ev c) evs)"

text \<open>An encoder follows a protocol when each push of an event that may come next writes frames the protocol
  allows from the phase it is in, and the end of the stream takes it to the last phase.\<close>

locale protocol_encoder =
  fixes push :: "'e \<Rightarrow> 's \<Rightarrow> ('err + 'f list) \<times> 's"
    and finish :: "'s \<Rightarrow> ('err + 'f list) \<times> 's"
    and runs :: "'p \<Rightarrow> 'f list \<Rightarrow> 'p \<Rightarrow> bool"
    and phase_of :: "'s \<Rightarrow> 'p"
    and ended :: 'p
    and rel :: "'c \<Rightarrow> 's \<Rightarrow> bool"
    and allowed :: "'c \<Rightarrow> 'e \<Rightarrow> bool"
    and seen :: "'e \<Rightarrow> 'c \<Rightarrow> 'c"
  assumes runs_nil: "runs p [] p"
    and runs_append: "runs p fs q \<Longrightarrow> runs q gs r \<Longrightarrow> runs p (fs @ gs) r"
    and push_follows: "rel c s \<Longrightarrow> allowed c ev \<Longrightarrow>
       \<exists>fs s'. push ev s = (Inr fs, s') \<and> runs (phase_of s) fs (phase_of s') \<and> rel (seen ev c) s'"
    and finish_follows: "rel c s \<Longrightarrow> \<exists>fs s'. finish s = (Inr fs, s') \<and> runs (phase_of s) fs ended"
begin

lemma push_all_follows:
  assumes "rel c s" "all_allowed allowed seen c evs"
  shows "\<exists>fs s' c'. push_all push evs s = (Inr fs, s') \<and> runs (phase_of s) fs (phase_of s') \<and> rel c' s'"
  using assms
proof (induction evs arbitrary: c s)
  case Nil
  then show ?case using runs_nil by auto
next
  case (Cons ev evs)
  obtain fs t where p: "push ev s = (Inr fs, t)" "runs (phase_of s) fs (phase_of t)" "rel (seen ev c) t"
    using push_follows [OF Cons.prems(1), of ev] Cons.prems(2) by auto
  from Cons.IH [OF p(3)] Cons.prems(2) show ?case
    using p(1) runs_append [OF p(2)] by fastforce
qed

lemma stream_follows:
  assumes "rel c s" "all_allowed allowed seen c evs"
  shows "\<exists>fs. whole_stream push finish evs s = Inr fs \<and> runs (phase_of s) fs ended"
proof -
  obtain fs t c' where p: "push_all push evs s = (Inr fs, t)" "runs (phase_of s) fs (phase_of t)" "rel c' t"
    using push_all_follows [OF assms] by blast
  then show ?thesis
    using finish_follows [OF p(3)] runs_append [OF p(2)] by (fastforce simp: whole_stream_def)
qed

end

section \<open>Conversations\<close>

text \<open>What may come next: an argument fragment follows the start of its call, and a citation the start of the
  message. The record counts the events.\<close>

record progress =
  pr_events :: nat
  pr_started :: bool
  pr_calls :: "u32 set"

definition fresh_progress :: progress where
  "fresh_progress = \<lparr>pr_events = 0, pr_started = False, pr_calls = {}\<rparr>"

definition writes_nothing_yet :: "ir_stream_event \<Rightarrow> bool" where
  "writes_nothing_yet ev \<longleftrightarrow> (side_event ev \<and> ev \<noteq> Done) \<or> waits_for_start ev"

definition may_come :: "progress \<Rightarrow> ir_stream_event \<Rightarrow> bool" where
  "may_come c ev \<longleftrightarrow>
     pr_events c < 2 ^ 32 - 1 \<and> call_continued ev \<subseteq> pr_calls c
     \<and> (case ev of Protocol ity _ \<Rightarrow> ity = ''messages_citation'' \<longrightarrow> pr_started c | _ \<Rightarrow> True)"

definition came :: "ir_stream_event \<Rightarrow> progress \<Rightarrow> progress" where
  "came ev c = \<lparr>pr_events = Suc (pr_events c), pr_started = (pr_started c \<or> \<not> writes_nothing_yet ev),
     pr_calls = pr_calls c \<union> call_started ev\<rparr>"

definition stream_phase :: "encoder \<Rightarrow> phase" where
  "stream_phase s = (if e_finished s then Ended else message_phase s)"

definition stream_rel :: "progress \<Rightarrow> encoder \<Rightarrow> bool" where
  "stream_rel c s \<longleftrightarrow>
     e_finished s \<or> (message_inv (pr_calls c) s \<and> blocks_due s \<le> pr_events c \<and> pr_events c < 2 ^ 32
       \<and> (pr_started c \<longrightarrow> e_started s))"

lemma encoder_finish_follows:
  assumes "stream_rel c s"
  shows "\<exists>fs s'. encoder_finish debug parse to_str s = (Inr fs, s') \<and> mruns (stream_phase s) fs Ended \<and> e_finished s'"
proof (cases "e_finished s")
  case True
  then show ?thesis by (auto simp: encoder_finish_def stream_phase_def intro: mruns_nil)
next
  case False
  let ?s = "s\<lparr>e_finished := True\<rparr>"
  obtain fs t where f: "finish_messages debug parse to_str ?s = (fs, t)" by fastforce
  have b: "block_phase ?s = block_phase s" "blocks_inv ?s = blocks_inv s" using blocks_cong [of ?s s] by simp_all
  have "message_inv (pr_calls c) ?s" "blocks_due ?s < 2 ^ 32"
    using assms False b
    by (simp_all add: stream_rel_def message_inv_def encoder_inv_def calls_inv_def slot_of_def blocks_due_def)
  from finish_messages_runs [OF this f] show ?thesis
    using False f b by (simp add: encoder_finish_def wrote_def stream_phase_def message_phase_def split: if_splits)
qed

lemma note_item_same: "same_blocks s (note_item ity p s)"
  by (auto simp: note_item_def same_blocks_def split: option.splits)

lemma citation_says:
  assumes "message_inv calls s" "e_started s" "unat (e_next_block s) < 2 ^ 32 - 1"
  shows "says calls s (wrote (push_citation parse to_str p s))"
proof -
  have inv: "encoder_inv calls s" using assms(1) by (simp add: message_inv_def)
  have "writes calls s (push_citation parse to_str p s)"
    using emit_delta_writes [OF inv assms(3)] silent_writes [OF inv] by (simp add: push_citation_def)
  then show ?thesis
    using assms(2) by (auto simp: writes_def says_def wrote_def message_phase_def message_inv_def split: prod.splits)
qed

lemma push_open_says:
  assumes inv: "message_inv calls s" and room: "unat (e_next_block s) < 2 ^ 32 - 1" and ev: "ev \<noteq> Done"
    and calls: "call_continued ev \<subseteq> calls"
    and citation: "\<And>p. ev = Protocol ''messages_citation'' p \<Longrightarrow> e_started s"
  shows "says (calls \<union> call_started ev) s (push_open debug parse to_str ev s)
    \<and> (\<not> writes_nothing_yet ev \<longrightarrow> e_started (snd (push_open debug parse to_str ev s)))"
proof (cases "side_event ev")
  case False
  then have "push_open debug parse to_str ev s = push_messages debug parse to_str ev s" by (cases ev) simp_all
  then show ?thesis
    using push_messages_says [OF inv room False calls] False by (simp add: writes_nothing_yet_def)
next
  case True
  have quiet: "says calls s (Inr [], t)" if "same_blocks s t" for t
    using same_blocks_message [OF that inv] by (simp add: says_def)
  have raw: "says calls s (encode_raw debug parse to_str e, s)" if "\<And>x. encode_stream_event debug parse to_str Messages e \<noteq> Inl x" for e
    using that inv by (auto simp: encode_raw_def says_def intro: mruns_one forwarded split: sum.splits)
  have "says calls s (push_open debug parse to_str ev s)"
  proof (cases ev)
    case (Protocol ity p)
    show ?thesis
      using citation_says [OF inv citation room] quiet [OF note_item_same] raw [of ev]
      by (auto simp: Protocol encode_stream_event_def)
  next
    case (Unknown n v)
    then show ?thesis using raw [of ev] by (simp add: encode_stream_event_def)
  qed (use True ev quiet in auto)
  then show ?thesis using True ev by (cases ev) (simp_all add: writes_nothing_yet_def)
qed

lemma encoder_push_follows:
  assumes rel: "stream_rel c s" and may: "may_come c ev"
  shows "\<exists>fs s'. encoder_push debug parse to_str ev s = (Inr fs, s') \<and> mruns (stream_phase s) fs (stream_phase s')
    \<and> stream_rel (came ev c) s'"
proof (cases "e_finished s")
  case True
  then show ?thesis by (simp add: encoder_push_def stream_rel_def)
next
  case False
  note inv = rel [unfolded stream_rel_def]
  show ?thesis
  proof (cases "ev = Done")
    case True
    then show ?thesis
      using encoder_finish_follows [OF rel, of debug parse to_str] False
      by (auto simp: encoder_push_def stream_phase_def stream_rel_def)
  next
    case ev: False
    have "unat (e_next_block s) < 2 ^ 32 - 1"
      using inv False may by (auto simp: blocks_due_def may_come_def)
    then have says: "says (pr_calls c \<union> call_started ev) s (push_open debug parse to_str ev s)
        \<and> (\<not> writes_nothing_yet ev \<longrightarrow> e_started (snd (push_open debug parse to_str ev s)))"
      using inv False may ev by (intro push_open_says) (auto simp: may_come_def)
    then obtain fs t where p: "push_open debug parse to_str ev s = (Inr fs, t)" by (auto simp: says_def)
    then have "mruns (message_phase s) fs (message_phase t)" "message_inv (pr_calls c \<union> call_started ev) t"
        "blocks_due t \<le> Suc (blocks_due s)" "\<not> e_finished t" "e_started s \<longrightarrow> e_started t"
        "\<not> writes_nothing_yet ev \<longrightarrow> e_started t"
      using says False by (auto simp: says_def)
    then have "mruns (stream_phase s) fs (stream_phase t)" "stream_rel (came ev c) t"
      using False inv may by (auto simp: stream_phase_def stream_rel_def came_def may_come_def)
    then show ?thesis
      using False p by (simp add: encoder_push_def)
  qed
qed

interpretation messages_stream: protocol_encoder
  "encoder_push debug parse to_str" "encoder_finish debug parse to_str" mruns stream_phase Ended stream_rel may_come came
  for debug parse to_str
proof unfold_locales
  show "\<exists>fs s'. encoder_finish debug parse to_str s = (Inr fs, s') \<and> mruns (stream_phase s) fs Ended"
    if "stream_rel c s" for c s
    using encoder_finish_follows [OF that] by blast
qed (auto intro: mruns_nil mruns_append encoder_push_follows)




section \<open>Text\<close>

fun frame_text :: "out_frame \<Rightarrow> string list" where
  "frame_text (Named name v) =
     (if name = ''content_block_delta'' then
        (case jget v ''delta'' of
           Some d \<Rightarrow> if str_field d ''type'' = Some ''text_delta'' then (case str_field d ''text'' of Some t \<Rightarrow> [t] | None \<Rightarrow> []) else []
         | None \<Rightarrow> [])
      else [])"
| "frame_text (Plain _) = []"

definition frames_text :: "out_frame list \<Rightarrow> string list" where
  "frames_text fs = concat (map frame_text fs)"

fun event_text :: "ir_stream_event \<Rightarrow> string list" where
  "event_text (TextDelta t) = [t]"
| "event_text (AudioTranscriptDelta t) = [t]"
| "event_text _ = []"

definition events_text :: "ir_stream_event list \<Rightarrow> string list" where
  "events_text evs = concat (map event_text evs)"

lemma frames_text_simps [simp]:
  "frames_text [] = []" "frames_text (f # fs) = frame_text f @ frames_text fs"
  "frames_text (fs @ gs) = frames_text fs @ frames_text gs"
  by (simp_all add: frames_text_def)

lemma events_text_simps [simp]:
  "events_text [] = []" "events_text (f # fs) = event_text f @ events_text fs"
  "events_text (fs @ gs) = events_text fs @ events_text gs"
  by (simp_all add: events_text_def)

lemma frame_text_built [simp]:
  "frame_text (start_block_frame i b) = []" "frame_text (stop_block_frame i) = []"
  "frame_text (tool_start_frame i x y) = []" "frame_text (tool_arg_frame i d) = []"
  "frame_text (messages_start_frame s) = []" "frame_text (message_delta_frame s) = []"
  "frame_text message_stop_frame = []"
  "frame_text (delta_block_frame i [(''type'', JString ty), (k, v)]) =
     (if ty = ''text_delta'' \<and> k = ''text'' then (case as_str v of Some t \<Rightarrow> [t] | None \<Rightarrow> []) else [])"
  by (auto simp: start_block_frame_def stop_block_frame_def tool_start_frame_def tool_arg_frame_def messages_start_frame_def
      message_delta_frame_def message_stop_frame_def delta_block_frame_def Let_def split: option.splits)

lemma flush_loop_text [simp]: "frames_text (fst (flush_loop parse to_str hs s)) = []"
  by (induction hs arbitrary: s) (auto simp: Let_def case_prod_beta' split: option.splits)

lemma close_open_text [simp]: "frames_text (fst (close_open parse to_str s)) = []"
  by (cases "e_open s")
    (auto simp: close_open_def flush_held_tools_def Let_def case_prod_beta' split: option.splits)

lemma close_open_fields:
  "e_deferred (snd (close_open parse to_str s)) = e_deferred s" "e_open (snd (close_open parse to_str s)) = None"
  "e_held_tools (snd (close_open parse to_str s)) = []"
  "e_finished (snd (close_open parse to_str s)) = e_finished s"
  using close_open_state [of parse to_str s] by auto

lemma ensure_block_text:
  assumes "kind \<noteq> ToolBlock" "\<not> tool_block_open s"
  shows "frames_text (fst (ensure_block parse to_str kind s)) = []"
    "e_deferred (snd (ensure_block parse to_str kind s)) = e_deferred s"
    "\<not> tool_block_open (snd (ensure_block parse to_str kind s))"
    "e_finished (snd (ensure_block parse to_str kind s)) = e_finished s"
  using assms close_open_fields [of parse to_str s]
  by (auto simp: ensure_block_def Let_def case_prod_beta' tool_block_open_def is_some_and_def)

lemma alloc_tool_open: "alloc_tool idx s = (enc, t) \<Longrightarrow> tool_block_open t = tool_block_open s"
  by (simp add: tool_block_open_def alloc_tool_fields)

text \<open>What a push says: the texts it writes, with those that still wait, are the ones that waited and its own.\<close>

definition waiting :: "encoder \<Rightarrow> bool" where
  "waiting s \<longleftrightarrow> list_all can_wait (e_deferred s) \<and> (e_deferred s \<noteq> [] \<longrightarrow> tool_block_open s)"

definition speaks :: "string list \<Rightarrow> encoder \<Rightarrow> out_frame list \<times> encoder \<Rightarrow> bool" where
  "speaks ts s = (\<lambda>(fs, s').
     frames_text fs @ events_text (e_deferred s') = events_text (e_deferred s) @ ts \<and> waiting s'
     \<and> e_finished s' = e_finished s)"

lemma emit_delta_speaks:
  assumes "kind \<noteq> ToolBlock" "\<not> tool_block_open s" "waiting s"
  shows "speaks (frame_text (delta_block_frame (open_index (snd (ensure_block parse to_str kind s))) d)) s
     (emit_delta parse to_str kind d s)"
  using assms ensure_block_text [of kind s parse to_str]
  by (auto simp: emit_delta_def Let_def case_prod_beta' speaks_def waiting_def)

lemma defer_or_speaks:
  assumes "waiting s" "can_wait ev" "\<not> tool_block_open s \<Longrightarrow> speaks (event_text ev) s (emit s)"
  shows "speaks (event_text ev) s (defer_or ev emit s)"
  using assms by (auto simp: defer_or_def speaks_def waiting_def tool_block_open_def)

lemma note_custom_open [simp]: "tool_block_open (note_custom_slot enc c s) = tool_block_open s"
  by (simp add: tool_block_open_def)

lemma open_tool_speaks:
  assumes "waiting s" "e_deferred t = e_deferred s" "e_finished t = e_finished s" "frames_text fs = []"
  shows "speaks [] s (fs @ fst (open_tool enc id' name t), snd (open_tool enc id' name t))"
  using assms by (simp add: speaks_def open_tool_def tool_block_open_def is_some_and_def waiting_def)

lemma quiet_speaks:
  assumes "waiting s" "e_deferred t = e_deferred s" "e_finished t = e_finished s" "e_deferred s \<noteq> [] \<longrightarrow> tool_block_open t"
  shows "speaks [] s ([], t)"
  using assms by (simp add: speaks_def waiting_def)

lemma push_tool_start_speaks:
  assumes "waiting s"
  shows "speaks [] s (push_tool_start parse to_str c id' name idx s)"
proof -
  let ?open = "Option.bind (e_open s) (\<lambda>(enc, kind). if kind = ToolBlock then Some enc else None)"
  let ?same = "is_some_and ?open (\<lambda>enc. e_last_tool s idx = Some enc)"
  obtain f1 t1 where c1: "close_open parse to_str s = (f1, t1)" by fastforce
  obtain e1 u1 where a1: "alloc_tool idx (t1\<lparr>e_tool_slots := (e_tool_slots t1)(idx := None)\<rparr>) = (e1, u1)" by fastforce
  obtain e2 u2 where a2: "alloc_tool idx s = (e2, u2)" by fastforce
  obtain f2 t2 where c2: "close_open parse to_str (note_custom_slot e2 c u2) = (f2, t2)" by fastforce
  obtain g1 v1 where o1: "open_tool e1 id' name (note_custom_slot e1 c u1) = (g1, v1)" by fastforce
  obtain g2 v2 where o2: "open_tool e2 id' name t2 = (g2, v2)" by fastforce
  have s1: "speaks [] s (f1 @ g1, v1)"
    using open_tool_speaks [of s "note_custom_slot e1 c u1" f1 e1 id' name] close_open_fields [of parse to_str s]
      close_open_text [of parse to_str s] alloc_tool_fields(6,9) [OF a1] assms by (simp add: c1 o1)
  have s2: "speaks [] s (f2 @ g2, v2)"
    using open_tool_speaks [of s t2 f2 e2 id' name] close_open_fields [of parse to_str "note_custom_slot e2 c u2"]
      close_open_text [of parse to_str "note_custom_slot e2 c u2"] alloc_tool_fields(6,9) [OF a2] assms by (simp add: c2 o2)
  have s3: "speaks [] s ([], note_custom_slot e c s)" "speaks [] s ([], s)" for e
    using assms by (simp_all add: quiet_speaks waiting_def)
  have s4: "speaks [] s ([], t\<lparr>e_held_tools := bt_insert idx h m\<rparr>)" if "e_deferred t = e_deferred s" "e_finished t = e_finished s" for t h m
    using that assms by (intro quiet_speaks) (simp_all add: tool_block_open_def)
  have s5: "speaks [] s ([], note_custom_slot e c (s\<lparr>e_held_tools := bt_insert idx h m\<rparr>))" for e h m
    using assms by (intro quiet_speaks) (simp_all add: tool_block_open_def)
  note s6 = s4 [of "note_custom_slot e2 c u2"]
  consider (same) "?same" "id' = [] \<or> unwrap_or (Option.bind ?open (e_tool_ids s)) [] = id'"
    | (replace) "?same" "\<not> (id' = [] \<or> unwrap_or (Option.bind ?open (e_tool_ids s)) [] = id')"
    | (merge) h where "\<not> ?same" "map_of (e_held_tools s) idx = Some h"
    | (fresh) "\<not> ?same" "map_of (e_held_tools s) idx = None" by fastforce
  then show ?thesis
  proof cases
    case same
    then show ?thesis using s3 by (auto simp: push_tool_start_def Let_def split: option.splits)
  next
    case replace
    then show ?thesis using s1 by (simp add: push_tool_start_def Let_def c1 a1 o1)
  next
    case merge
    then show ?thesis using s5 by (cases h) (simp add: push_tool_start_def Let_def)
  next
    case fresh
    then show ?thesis using s2 s6 alloc_tool_fields(6,9) [OF a2]
      by (simp add: push_tool_start_def Let_def a2 c2 o2)
  qed
qed

lemma tool_enc_fields:
  assumes "tool_enc idx (s :: encoder) = (enc, t)"
  shows "e_open t = e_open s" "e_held_tools t = e_held_tools s" "e_deferred t = e_deferred s"
    "e_finished t = e_finished s"
  using assms alloc_tool_fields(3,4,6,9) [of idx s]
  by (auto simp: tool_enc_def known_slot_def Let_def split: option.splits list.splits)

lemma push_tool_arg_speaks:
  assumes "waiting s"
  shows "speaks [] s (push_tool_arg parse to_str c d idx s)"
proof -
  obtain enc t where t: "tool_enc idx s = (enc, t)" by fastforce
  note f = tool_enc_fields [OF t]
  have q: "speaks [] s ([], u)" if "e_open u = e_open s" "e_held_tools u = [] \<Longrightarrow> e_held_tools s = []"
      "e_deferred u = e_deferred s" "e_finished u = e_finished s" for u
    using assms that by (intro quiet_speaks) (auto simp: waiting_def tool_block_open_def)
  have "speaks [] s ([], push_custom e d t)" "speaks [] s ([], t)"
    "speaks [] s ([], t\<lparr>e_held_tools := bt_insert idx h (e_held_tools t)\<rparr>)" for e h
    using f by (auto intro!: q)
  moreover from this(2) have "speaks [] s ([tool_arg_frame enc x], t)" for x
    by (simp add: speaks_def)
  ultimately show ?thesis
    by (auto simp: push_tool_arg_def t f(1,3) split: option.splits)
qed

definition closes_call :: "ir_stream_event \<Rightarrow> bool" where
  "closes_call ev = (case ev of ImageDelta _ _ \<Rightarrow> True | Protocol ity _ \<Rightarrow> ity = ''messages_citation'' | _ \<Rightarrow> False)"

lemma messages_arm_speaks:
  assumes w: "waiting s" and ev: "\<not> side_event ev" "\<not> is_custom ev" "\<not> closes_call ev"
  shows "\<exists>fs t. messages_arm debug parse to_str c ev s = (Inr fs, t) \<and> speaks (event_text ev) s (fs, t)"
proof -
  have silent: "speaks [] s ([], t)" if "e_deferred t = e_deferred s" "tool_block_open t = tool_block_open s"
      "e_finished t = e_finished s" for t
    using w that by (simp add: quiet_speaks waiting_def)
  have wait: "\<exists>fs t. wrote (defer_or ev (emit_delta parse to_str k d) s) = (Inr fs, t) \<and> speaks (event_text ev) s (fs, t)"
    if "can_wait ev" "k \<noteq> ToolBlock" "\<And>i. frame_text (delta_block_frame i d) = event_text ev" for k d
  proof -
    have "speaks (event_text ev) s (defer_or ev (emit_delta parse to_str k d) s)"
      using defer_or_speaks [OF w that(1), of "emit_delta parse to_str k d"]
        emit_delta_speaks [OF that(2) _ w, where d = d and parse = parse and to_str = to_str] by (simp add: that(3))
    then show ?thesis by (cases "defer_or ev (emit_delta parse to_str k d) s") (simp add: wrote_def)
  qed
  have pair: "\<exists>fs t. wrote r = (Inr fs, t) \<and> speaks [] s (fs, t)" if "speaks [] s r" for r
    using that by (cases r) (simp add: wrote_def)
  show ?thesis
  proof (cases ev)
    case (ToolCallStart i nm g idx)
    then show ?thesis using pair [OF push_tool_start_speaks [OF w]] by simp
  next
    case (ToolCallArgDelta d idx)
    then show ?thesis using pair [OF push_tool_arg_speaks [OF w]] by simp
  next
    case (TextDelta x)
    then show ?thesis using wait [of TextBlock] by (simp add: emit_text_def)
  next
    case (ReasoningDelta x)
    then show ?thesis using wait [of ThinkingBlock] by simp
  next
    case (ReasoningSignature x)
    then show ?thesis using wait [of ThinkingBlock] by simp
  next
    case (AudioTranscriptDelta x)
    then show ?thesis using wait [of TextBlock] by (simp add: emit_text_def)
  next
    case (AnnotationAdded x)
    then show ?thesis using wait [of TextBlock] by simp
  qed (use ev in \<open>auto simp: is_custom_def closes_call_def tool_block_open_def intro!: silent\<close>)
qed

lemma push_messages_speaks:
  assumes w: "waiting s" and ev: "\<not> side_event ev" "\<not> closes_call ev"
  shows "\<exists>fs t. push_messages debug parse to_str ev s = (Inr fs, t) \<and> speaks (event_text ev) s (fs, t)"
proof -
  let ?ev = "custom_tool_as_function ev"
  let ?n = "note_fields ?ev s"
  note k = custom_tool_as_function_keeps [of ev]
  have ev': "event_text ?ev = event_text ev" "closes_call ?ev = closes_call ev"
    by (cases ev; simp add: custom_tool_as_function_def closes_call_def)+
  have n: "e_deferred ?n = e_deferred s" "tool_block_open ?n = tool_block_open s" "e_finished ?n = e_finished s"
    using note_fields_same [of s ?ev] by (simp_all add: same_blocks_def tool_block_open_def)
  show ?thesis
  proof (cases "\<not> e_started ?n \<and> waits_for_start ?ev")
    case True
    moreover have "event_text ev = []"
      using True by (cases ev) (auto simp: waits_for_start_def custom_tool_as_function_def)
    ultimately show ?thesis
      using w n by (simp add: push_messages_def Let_def speaks_def waiting_def)
  next
    case False
    obtain fs t where st: "start_message ?n = (fs, t)" by fastforce
    have t: "frames_text fs = []" "e_deferred t = e_deferred s" "tool_block_open t = tool_block_open s"
        "e_finished t = e_finished s"
      using st n by (auto simp: start_message_def tool_block_open_def split: if_splits)
    then have "waiting t" using w by (simp add: waiting_def)
    then obtain gs u where a: "messages_arm debug parse to_str (is_custom ev) ?ev t = (Inr gs, u)"
        "speaks (event_text ev) t (gs, u)"
      using messages_arm_speaks [of t ?ev debug parse to_str "is_custom ev"] ev ev' k by auto
    have "push_messages debug parse to_str ev s = (Inr (fs @ gs), u)"
      unfolding push_messages_def Let_def by (simp only: False st a if_False prod.case sum.case)
    then show ?thesis using a(2) t by (simp add: speaks_def)
  qed
qed

lemma emit_delta_stays:
  assumes "kind \<noteq> ToolBlock" "\<not> tool_block_open s"
  shows "\<not> tool_block_open (snd (emit_delta parse to_str kind d s))"
  using ensure_block_text(3) [OF assms, of parse to_str] by (simp add: emit_delta_def Let_def case_prod_beta')

lemma start_message_open [simp]: "tool_block_open (snd (start_message s)) = tool_block_open s"
  by (simp add: start_message_def tool_block_open_def)

lemma push_waiting_stays:
  assumes "can_wait ev" "\<not> tool_block_open s"
  shows "\<not> tool_block_open (snd (push_messages debug parse to_str ev s))"
  using assms emit_delta_stays [of _ "snd (start_message s)" parse to_str]
  by (cases ev) (simp_all add: push_messages_def Let_def case_prod_beta' custom_tool_as_function_def note_fields_def
      waits_for_start_def defer_or_def wrote_def emit_text_def)

lemma push_deferred_text:
  assumes "list_all can_wait evs" "\<not> tool_block_open s" "e_deferred s = []"
  shows "frames_text (fst (push_deferred debug parse to_str evs s)) = events_text evs
    \<and> e_finished (snd (push_deferred debug parse to_str evs s)) = e_finished s"
  using assms
proof (induction evs arbitrary: s)
  case (Cons ev evs)
  have ev: "\<not> side_event ev" "\<not> closes_call ev"
    using Cons.prems(1) by (cases ev; simp add: closes_call_def)+
  have "waiting s" using Cons.prems(3) by (simp add: waiting_def)
  from push_messages_speaks [OF this ev, of debug parse to_str] obtain fs t
    where p: "push_messages debug parse to_str ev s = (Inr fs, t)" and sp: "speaks (event_text ev) s (fs, t)" by blast
  have "\<not> tool_block_open t"
    using push_waiting_stays [of ev s debug parse to_str] Cons.prems p by simp
  then have "e_deferred t = []" "frames_text fs = event_text ev" "e_finished t = e_finished s"
    using sp Cons.prems(3) by (auto simp: speaks_def waiting_def)
  with Cons.IH [of t] \<open>\<not> tool_block_open t\<close> Cons.prems(1) show ?case
    by (simp add: p case_prod_beta' Let_def)
qed simp

lemma finish_messages_text:
  assumes "list_all can_wait (e_deferred s)"
  shows "frames_text (fst (finish_messages debug parse to_str s)) = events_text (e_deferred s)
    \<and> e_finished (snd (finish_messages debug parse to_str s)) = e_finished s"
proof -
  obtain f1 s1 where 1: "start_message s = (f1, s1)" by fastforce
  obtain f2 s2 where 2: "close_open parse to_str s1 = (f2, s2)" by fastforce
  obtain f3 s3 where 3: "push_deferred debug parse to_str (e_deferred s2) (s2\<lparr>e_deferred := []\<rparr>) = (f3, s3)" by fastforce
  obtain f4 s4 where 4: "close_open parse to_str s3 = (f4, s4)" by fastforce
  have d: "e_deferred s2 = e_deferred s" "\<not> tool_block_open (s2\<lparr>e_deferred := []\<rparr>)"
    using close_open_fields [of parse to_str s1] 1
    by (auto simp: 2 start_message_def tool_block_open_def is_some_and_def split: if_splits)
  have "frames_text f1 = []" "frames_text f2 = []" "frames_text f4 = []"
    using 1 close_open_text [of parse to_str s1] close_open_text [of parse to_str s3]
    by (auto simp: 2 4 start_message_def split: if_splits)
  moreover have "frames_text f3 = events_text (e_deferred s) \<and> e_finished s3 = e_finished s2"
    using push_deferred_text [of "e_deferred s2" "s2\<lparr>e_deferred := []\<rparr>" debug parse to_str, unfolded 3] assms d by simp
  moreover have "e_finished s2 = e_finished s" "e_finished s4 = e_finished s3"
    using 1 close_open_fields(4) [of parse to_str s1] close_open_fields(4) [of parse to_str s3]
    by (auto simp: 2 4 start_message_def split: if_splits)
  ultimately show ?thesis by (simp add: finish_messages_def Let_def 1 2 3 4)
qed

lemma push_open_speaks:
  assumes w: "waiting s" and ev: "ev \<noteq> Done" "\<not> closes_call ev"
  shows "\<exists>fs t. push_open debug parse to_str ev s = (Inr fs, t) \<and> speaks (event_text ev) s (fs, t)"
proof (cases "side_event ev")
  case False
  then have "push_open debug parse to_str ev s = push_messages debug parse to_str ev s" by (cases ev) simp_all
  then show ?thesis using push_messages_speaks [OF w False ev(2)] by simp
next
  case True
  have quiet: "speaks [] s ([], t)" if "same_blocks s t" for t
    using w that by (intro quiet_speaks) (simp_all add: same_blocks_def tool_block_open_def waiting_def)
  have "frames_text [Plain raw] = []" for raw by simp
  then have raw: "speaks [] s ([Plain raw], s)" for raw
    using w by (simp add: speaks_def)
  show ?thesis
  proof (cases ev)
    case (Protocol ity p)
    then show ?thesis
      using quiet [OF note_item_same] raw ev(2) by (simp add: closes_call_def encode_raw_def encode_stream_event_def)
  next
    case (Unknown n v)
    then show ?thesis using raw by (simp add: encode_raw_def encode_stream_event_def)
  qed (use True ev quiet in auto)
qed

lemma push_all_finished: "e_finished s \<Longrightarrow> push_all (encoder_push debug parse to_str) evs s = (Inr [], s)"
  by (induction evs) (simp_all add: encoder_push_def)

lemma whole_stream_text:
  assumes "waiting s" "\<not> e_finished s" "\<forall>ev \<in> set (takeWhile (\<lambda>ev. ev \<noteq> Done) evs). \<not> closes_call ev"
  shows "\<exists>fs. whole_stream (encoder_push debug parse to_str) (encoder_finish debug parse to_str) evs s = Inr fs
    \<and> frames_text fs = events_text (e_deferred s) @ events_text (takeWhile (\<lambda>ev. ev \<noteq> Done) evs)"
  using assms
proof (induction evs arbitrary: s)
  case Nil
  let ?s = "s\<lparr>e_finished := True\<rparr>"
  show ?case
    using Nil.prems finish_messages_text [of ?s debug parse to_str]
    by (simp add: whole_stream_def encoder_finish_def wrote_def case_prod_beta' waiting_def)
next
  case (Cons ev evs)
  show ?case
  proof (cases "ev = Done")
    case True
    let ?s = "s\<lparr>e_finished := True\<rparr>"
    obtain fs t where f: "finish_messages debug parse to_str ?s = (fs, t)" by fastforce
    note said = finish_messages_text [of ?s debug parse to_str, unfolded f]
    have "e_finished t" using said Cons.prems(1) by (simp add: waiting_def)
    then have "whole_stream (encoder_push debug parse to_str) (encoder_finish debug parse to_str) (ev # evs) s = Inr fs"
      using True Cons.prems(2) f
      by (simp add: whole_stream_def encoder_push_def encoder_finish_def wrote_def push_all_finished)
    then show ?thesis
      using said Cons.prems(1) True by (simp add: waiting_def)
  next
    case False
    have cl: "\<not> closes_call ev" using Cons.prems(3) False by simp
    from push_open_speaks [OF Cons.prems(1) False cl, of debug parse to_str] obtain fs t
      where p: "push_open debug parse to_str ev s = (Inr fs, t)" and sp: "speaks (event_text ev) s (fs, t)" by blast
    have t: "waiting t" "\<not> e_finished t" using sp Cons.prems(2) by (auto simp: speaks_def)
    obtain gs where "whole_stream (encoder_push debug parse to_str) (encoder_finish debug parse to_str) evs t = Inr gs"
        "frames_text gs = events_text (e_deferred t) @ events_text (takeWhile (\<lambda>ev. ev \<noteq> Done) evs)"
      using Cons.IH [OF t] Cons.prems(3) False by auto
    moreover have "whole_stream (encoder_push debug parse to_str) (encoder_finish debug parse to_str) (ev # evs) s = Inr (fs @ gs)"
      using calculation(1) Cons.prems(2)
      by (auto simp: whole_stream_def encoder_push_def p split: prod.splits sum.splits)
    ultimately show ?thesis using sp False by (simp add: speaks_def)
  qed
qed



text \<open>The image is what the condition is about: it closes the call but leaves the text that waited where it is, so
  later text overtakes it.\<close>

lemma text_overtakes:
  "frames_text (projr (whole_stream (encoder_push debug parse to_str) (encoder_finish debug parse to_str)
      [ToolCallStart ''c'' ''f'' None 0, TextDelta ''a'', ImageDelta ''image/png'' ''x'', TextDelta ''b''] encoder_new))
    = [''b'', ''a'']"
  by (simp add: whole_stream_def encoder_push_def encoder_finish_def encoder_new_def push_messages_def Let_def
    is_custom_def custom_tool_as_function_def note_fields_def waits_for_start_def start_message_def wrote_def
    push_tool_start_def alloc_tool_def record_slot_def open_tool_def note_custom_slot_def close_open_def flush_held_tools_def
    defer_or_def tool_block_open_def is_some_and_def emit_text_def emit_delta_def ensure_block_def
    finish_messages_def take_custom_json_def unwrap_or_def open_index_def)

text \<open>A citation that opens a stream opens its block before the message.\<close>

lemma early_citation:
  assumes "is_object p"
  shows "\<exists>fs s. encoder_push debug parse to_str (Protocol ''messages_citation'' p) encoder_new = (Inr fs, s)
    \<and> \<not> mruns Fresh fs q"
  using assms
  by (auto simp: encoder_push_def encoder_new_def push_citation_def emit_delta_def ensure_block_def wrote_def
    close_open_def flush_held_tools_def Let_def is_some_and_def start_block_frame_def elim!: mruns.cases mstep.cases)

end
