(* ===== verification/Wm_Encoder_Chat.thy ===== *)
theory Wm_Encoder_Chat
  imports Wm_Encoder_Messages
begin

text \<open>
  \<open>StreamEncoder\<close> (\<open>stream/encoder.rs\<close>) for the Chat Completions wire: tool calls get dense indexes of their own,
  the finish reason and the usage wait for the end of the stream, and every chunk is stamped with the id, the
  clock and the model of the response. The record extends the state of Wm_Encoder_Messages by the fields this wire
  reads. The search for a free index is a loop over \<open>u32\<close> with a saturating step, so it is partial here:
  \<open>None\<close> means it does not end.
\<close>

section \<open>State\<close>

record chat_encoder = encoder +
  c_saw_custom_tool :: bool
  c_created_at :: "int option"
  c_completion_id :: "string option"
  c_accepted_prediction :: "u32 option"
  c_rejected_prediction :: "u32 option"

definition chat_encoder_new :: chat_encoder where
  "chat_encoder_new =
     encoder.extend encoder_new
       \<lparr>c_saw_custom_tool = False, c_created_at = None, c_completion_id = None, c_accepted_prediction = None,
        c_rejected_prediction = None\<rparr>"

type_synonym raw_written = "map_error + raw_sse list"


section \<open>Indexes\<close>

text \<open>\<open>while self.used_tool.contains(&n)\<close>, and the Chat arm of \<open>alloc_tool\<close> and \<open>tool_enc\<close>.\<close>

partial_function (option) free_index :: "u32 set \<Rightarrow> u32 \<Rightarrow> u32 option" where
  "free_index used n = (if n \<in> used then free_index used (saturating_add n 1) else Some n)"

definition alloc_chat_tool :: "u32 \<Rightarrow> 'z encoder_scheme \<Rightarrow> (u32 \<times> 'z encoder_scheme) option" where
  "alloc_chat_tool ir_index s =
     map_option (\<lambda>enc. (enc, record_slot ir_index enc s)) (free_index (e_used_tool s) (e_next_tool s))"

definition chat_tool_enc :: "u32 \<Rightarrow> 'z encoder_scheme \<Rightarrow> (u32 \<times> 'z encoder_scheme) option" where
  "chat_tool_enc ir_index s = (case known_slot ir_index s of None \<Rightarrow> alloc_chat_tool ir_index s | Some r \<Rightarrow> Some r)"


section \<open>Chunks\<close>

definition chunk :: "(json \<Rightarrow> string) \<Rightarrow> json \<Rightarrow> raw_sse" where
  "chunk to_str v = \<lparr>event = None, data = to_str v\<rparr>"

definition attach_chat_dest_model ::
  "(string \<Rightarrow> json option) \<Rightarrow> (json \<Rightarrow> string) \<Rightarrow> chat_encoder \<Rightarrow> raw_sse \<Rightarrow> raw_sse" where
  "attach_chat_dest_model parse to_str s frame =
     (if trim (data frame) = ''[DONE]'' then frame
      else case parse (data frame) of
             Some (JObject obj) \<Rightarrow>
               (let v = jinsert ''id'' (JString (unwrap_or (c_completion_id s) ''chatcmpl-wiremux'')) (JObject obj);
                    v = jinsert ''object'' (JString ''chat.completion.chunk'') v;
                    v = jinsert ''created'' (json_i64 (unwrap_or (c_created_at s) 1700000000)) v;
                    v = insert_if (e_model s \<noteq> []) ''model'' (JString (e_model s)) v
                in frame\<lparr>data := to_str v\<rparr>)
           | _ \<Rightarrow> frame)"

definition role_chunk :: json where
  "role_chunk = chat_choice [(''role'', JString ''assistant'')]"

definition call_start_chunk :: "u32 \<Rightarrow> string \<Rightarrow> string \<Rightarrow> json" where
  "call_start_chunk enc id' name =
     chat_choice [(''tool_calls'', JArray [json_obj [(''index'', json_u32 enc), (''id'', JString id'),
       (''type'', JString ''function''), (''function'', json_obj [(''name'', JString name), (''arguments'', JString [])])]])]"

definition call_args_chunk :: "u32 \<Rightarrow> string \<Rightarrow> json" where
  "call_args_chunk enc delta =
     chat_choice [(''tool_calls'', JArray [json_obj [(''index'', json_u32 enc),
       (''function'', json_obj [(''arguments'', JString delta)])]])]"

definition finish_chunk :: "string \<Rightarrow> json" where
  "finish_chunk reason =
     json_obj [(''choices'', JArray [json_obj [(''index'', json_u32 0), (''delta'', json_obj []),
       (''finish_reason'', JString reason)]])]"

definition usage_chunk :: "chat_encoder \<Rightarrow> (u32 \<times> u32 \<times> u32 \<times> u32 \<times> u32 \<times> u32 \<times> u32) \<Rightarrow> json" where
  "usage_chunk s = (\<lambda>(p, c, cr, cw, r, audio, completion_audio).
     (let encoded = encode_chat p c cr cw r audio completion_audio
      in case jget encoded ''usage'' of
           None \<Rightarrow> encoded
         | Some u \<Rightarrow>
             jinsert ''usage'' (insert_chat_prediction_tokens (c_accepted_prediction s) (c_rejected_prediction s) u) encoded))"


section \<open>Events\<close>

definition chat_started :: "(json \<Rightarrow> string) \<Rightarrow> chat_encoder \<Rightarrow> raw_sse list \<times> chat_encoder" where
  "chat_started to_str s = (if e_started s then ([], s) else ([chunk to_str role_chunk], s\<lparr>e_started := True\<rparr>))"

fun chat_arm ::
  "(ir_stream_event \<Rightarrow> string) \<Rightarrow> (string \<Rightarrow> json option) \<Rightarrow> (json \<Rightarrow> string) \<Rightarrow> ir_stream_event \<Rightarrow> chat_encoder
     \<Rightarrow> (raw_written \<times> chat_encoder) option" where
  "chat_arm debug parse to_str (ToolCallStart id' name _ index) s =
     (case alloc_chat_tool index s of
        None \<Rightarrow> None | Some (enc, s) \<Rightarrow> Some (Inr [chunk to_str (call_start_chunk enc id' name)], s))"
| "chat_arm debug parse to_str (ToolCallArgDelta delta index) s =
     (case chat_tool_enc index s of
        None \<Rightarrow> None | Some (enc, s) \<Rightarrow> Some (Inr [chunk to_str (call_args_chunk enc delta)], s))"
| "chat_arm debug parse to_str (FinishReason reason _) s = Some (Inr [], s\<lparr>e_finish := Some reason\<rparr>)"
| "chat_arm debug parse to_str (Usage p c cr cw r a ca _) s = Some (Inr [], s\<lparr>e_usage := Some (p, c, cr, cw, r, a, ca)\<rparr>)"
| "chat_arm debug parse to_str ToolCallEnd s = Some (Inr [], s)"
| "chat_arm debug parse to_str ev s =
     (let s = (if is_custom ev then s\<lparr>c_saw_custom_tool := True\<rparr> else s)
      in Some (case encode_stream_event debug parse to_str ChatCompletions ev of Inl e \<Rightarrow> Inl e | Inr raw \<Rightarrow> Inr [raw], s))"

definition push_chat ::
  "(ir_stream_event \<Rightarrow> string) \<Rightarrow> (string \<Rightarrow> json option) \<Rightarrow> (json \<Rightarrow> string) \<Rightarrow> ir_stream_event \<Rightarrow> chat_encoder
     \<Rightarrow> (raw_written \<times> chat_encoder) option" where
  "push_chat debug parse to_str ev s =
     (let s = (case ev of Created unix \<Rightarrow> s\<lparr>c_created_at := Some unix\<rparr> | _ \<Rightarrow> s);
          (out, s) = chat_started to_str s
      in case chat_arm debug parse to_str ev s of
           None \<Rightarrow> None
         | Some (Inl e, s) \<Rightarrow> Some (Inl e, s)
         | Some (Inr frames, s) \<Rightarrow> Some (Inr (map (attach_chat_dest_model parse to_str s) (out @ frames)), s))"

definition finish_chat ::
  "(string \<Rightarrow> json option) \<Rightarrow> (json \<Rightarrow> string) \<Rightarrow> chat_encoder \<Rightarrow> raw_sse list \<times> chat_encoder" where
  "finish_chat parse to_str s =
     (let saw_tool = (e_used_tool s \<noteq> {} \<or> c_saw_custom_tool s);
          finish = (case e_finish s of
                      None \<Rightarrow> [] | Some reason \<Rightarrow> [chunk to_str (finish_chunk (finish_after_tool reason saw_tool))]);
          usage = (case e_usage s of None \<Rightarrow> [] | Some u \<Rightarrow> [chunk to_str (usage_chunk s u)]);
          s = (if e_usage s = None then s else s\<lparr>c_accepted_prediction := None, c_rejected_prediction := None\<rparr>)
      in (map (attach_chat_dest_model parse to_str s) (finish @ usage @ [\<lparr>event = None, data = ''[DONE]''\<rparr>]),
          s\<lparr>e_finish := None, e_usage := None\<rparr>))"

definition chat_finish ::
  "(string \<Rightarrow> json option) \<Rightarrow> (json \<Rightarrow> string) \<Rightarrow> chat_encoder \<Rightarrow> raw_written \<times> chat_encoder" where
  "chat_finish parse to_str s =
     (if e_finished s then (Inr [], s)
      else let (out, s) = finish_chat parse to_str (s\<lparr>e_finished := True\<rparr>) in (Inr out, s))"

text \<open>\<open>push\<close> on this wire: the side items it keeps, those it drops, and the events that go to \<open>push_chat\<close>.\<close>

definition note_chat_item :: "string \<Rightarrow> json \<Rightarrow> chat_encoder \<Rightarrow> chat_encoder" where
  "note_chat_item ity p s =
     (if ity = ''chat_completion_id'' then
        (case ofilter (\<lambda>t. trim t \<noteq> []) (as_str p) of None \<Rightarrow> s | Some t \<Rightarrow> s\<lparr>c_completion_id := Some t\<rparr>)
      else if ity = ''chat_accepted_prediction_tokens'' then
        (case Option.bind (as_u64 p) u32_try_from of None \<Rightarrow> s | Some n \<Rightarrow> s\<lparr>c_accepted_prediction := Some n\<rparr>)
      else if ity = ''chat_rejected_prediction_tokens'' then
        (case Option.bind (as_u64 p) u32_try_from of None \<Rightarrow> s | Some n \<Rightarrow> s\<lparr>c_rejected_prediction := Some n\<rparr>)
      else s)"

definition raw_frame ::
  "(ir_stream_event \<Rightarrow> string) \<Rightarrow> (string \<Rightarrow> json option) \<Rightarrow> (json \<Rightarrow> string) \<Rightarrow> wire \<Rightarrow> ir_stream_event \<Rightarrow> raw_written" where
  "raw_frame debug parse to_str w ev =
     (case encode_stream_event debug parse to_str w ev of Inl e \<Rightarrow> Inl e | Inr raw \<Rightarrow> Inr [raw])"

fun chat_push_open ::
  "(ir_stream_event \<Rightarrow> string) \<Rightarrow> (string \<Rightarrow> json option) \<Rightarrow> (json \<Rightarrow> string) \<Rightarrow> ir_stream_event \<Rightarrow> chat_encoder
     \<Rightarrow> (raw_written \<times> chat_encoder) option" where
  "chat_push_open debug parse to_str (Protocol ity p) s =
     (if ity = ''chat_completion_id'' \<or> ity = ''messages_citation'' \<or> silent_item ity p then
        Some (Inr [], note_chat_item ity p s)
      else Some (raw_frame debug parse to_str ChatCompletions (Protocol ity p), s))"
| "chat_push_open debug parse to_str (Unknown name v) s =
     Some (raw_frame debug parse to_str ChatCompletions (Unknown name v), s)"
| "chat_push_open debug parse to_str Done s = Some (chat_finish parse to_str s)"
| "chat_push_open debug parse to_str (Diagnostics _) s = Some (Inr [], s)"
| "chat_push_open debug parse to_str (Container _) s = Some (Inr [], s)"
| "chat_push_open debug parse to_str (ContextManagement _) s = Some (Inr [], s)"
| "chat_push_open debug parse to_str (StopSequence _) s = Some (Inr [], s)"
| "chat_push_open debug parse to_str (SearchEntryPoint _) s = Some (Inr [], s)"
| "chat_push_open debug parse to_str ev s = push_chat debug parse to_str ev s"

definition chat_push ::
  "(ir_stream_event \<Rightarrow> string) \<Rightarrow> (string \<Rightarrow> json option) \<Rightarrow> (json \<Rightarrow> string) \<Rightarrow> ir_stream_event \<Rightarrow> chat_encoder
     \<Rightarrow> (raw_written \<times> chat_encoder) option" where
  "chat_push debug parse to_str ev s =
     (if e_finished s then Some (Inr [], s) else chat_push_open debug parse to_str ev s)"


section \<open>Every push returns\<close>

text \<open>A whole stream: \<open>None\<close> when a push does not return.\<close>

fun chat_run ::
  "(ir_stream_event \<Rightarrow> string) \<Rightarrow> (string \<Rightarrow> json option) \<Rightarrow> (json \<Rightarrow> string) \<Rightarrow> ir_stream_event list \<Rightarrow> chat_encoder
     \<Rightarrow> (raw_written list \<times> chat_encoder) option" where
  "chat_run debug parse to_str [] s = (let (fs, s) = chat_finish parse to_str s in Some ([fs], s))"
| "chat_run debug parse to_str (ev # evs) s =
     (case chat_push debug parse to_str ev s of
        None \<Rightarrow> None
      | Some (fs, s) \<Rightarrow>
          (case chat_run debug parse to_str evs s of None \<Rightarrow> None | Some (rest, s) \<Rightarrow> Some (fs # rest, s)))"

definition used_below :: "nat \<Rightarrow> 'z encoder_scheme \<Rightarrow> bool" where
  "used_below n s \<longleftrightarrow> unat (e_next_tool s) \<le> n \<and> (\<forall>u \<in> e_used_tool s. u < e_next_tool s)"

lemma free_index_next: "n \<notin> used \<Longrightarrow> free_index used n = Some n"
  by (subst free_index.simps) simp

lemma alloc_chat_fresh:
  assumes "used_below n s"
  shows "alloc_chat_tool idx s = Some (e_next_tool s, record_slot idx (e_next_tool s) s)"
  using assms free_index_next [of "e_next_tool s" "e_used_tool s"] by (auto simp: alloc_chat_tool_def used_below_def)

lemma record_slot_fields [simp]:
  "e_next_tool (record_slot idx enc s) = max (e_next_tool s) (saturating_add enc 1)"
  "e_used_tool (record_slot idx enc s) = insert enc (e_used_tool s)"
  "e_tool_slots (record_slot idx enc s) = (e_tool_slots s)(idx \<mapsto>
     (let slots = unwrap_or (e_tool_slots s idx) []
      in (if slots \<noteq> [] \<and> last slots \<in> e_tool_got_arg s then [] else slots) @ [enc]))"
  "e_last_tool (record_slot idx enc s) = (e_last_tool s)(idx \<mapsto> enc)"
  "e_tool_got_arg (record_slot idx enc s) = e_tool_got_arg s"
  "e_finished (record_slot idx enc s) = e_finished s" "e_started (record_slot idx enc s) = e_started s"
  "e_next_block (record_slot idx enc s) = e_next_block s"
  by (simp_all add: record_slot_def Let_def)

lemma word_less_succ: "unat a < 2 ^ 32 - 1 \<Longrightarrow> a < saturating_add a (1::u32)"
  by (simp add: word_less_nat_alt unat_saturating_add)

lemma record_slot_below:
  assumes "used_below n s" "n < 2 ^ 32 - 1"
  shows "used_below (Suc n) (record_slot idx (e_next_tool s) s)"
proof -
  let ?n = "e_next_tool s"
  have n: "unat (saturating_add ?n 1) = Suc (unat ?n)" "?n < saturating_add ?n 1"
    using assms word_less_succ [of ?n] by (simp_all add: used_below_def unat_saturating_add)
  then have "max ?n (saturating_add ?n 1) = saturating_add ?n 1" by (simp add: max_absorb2 less_imp_le)
  then show ?thesis using assms n by (auto simp: used_below_def intro: order.strict_trans)
qed

lemma known_slot_below: "known_slot idx s = Some (enc, t) \<Longrightarrow> used_below n t = used_below n s"
  by (auto simp: known_slot_def Let_def used_below_def split: option.splits list.splits)

lemma chat_arm_returns:
  assumes "used_below n s" "n < 2 ^ 32 - 1"
  shows "\<exists>r t. chat_arm debug parse to_str ev s = Some (r, t) \<and> used_below (Suc n) t"
proof -
  have keep: "used_below (Suc n) t" if "e_next_tool t = e_next_tool s" "e_used_tool t = e_used_tool s" for t :: chat_encoder
    using assms that by (simp add: used_below_def)
  show ?thesis
  proof (cases ev)
    case (ToolCallStart i nm g idx)
    then show ?thesis by (simp add: alloc_chat_fresh [OF assms(1)] record_slot_below [OF assms])
  next
    case (ToolCallArgDelta d idx)
    show ?thesis
    proof (cases "known_slot idx s")
      case None
      then show ?thesis
        by (simp add: ToolCallArgDelta chat_tool_enc_def alloc_chat_fresh [OF assms(1)] record_slot_below [OF assms])
    next
      case (Some r)
      obtain enc t where r: "r = (enc, t)" by (cases r)
      then have "used_below (Suc n) t"
        using known_slot_below [of idx s enc t] Some assms by (simp add: used_below_def)
      then show ?thesis by (simp add: ToolCallArgDelta chat_tool_enc_def Some r)
    qed
  qed (auto simp: Let_def intro!: keep)
qed

lemma chat_finish_fields:
  "e_next_tool (snd (chat_finish parse to_str s)) = e_next_tool s"
  "e_used_tool (snd (chat_finish parse to_str s)) = e_used_tool s"
  by (simp_all add: chat_finish_def finish_chat_def Let_def)

lemma push_chat_returns:
  assumes "used_below n s" "n < 2 ^ 32 - 1"
  shows "\<exists>r t. push_chat debug parse to_str ev s = Some (r, t) \<and> used_below (Suc n) t"
proof -
  let ?s = "case ev of Created unix \<Rightarrow> s\<lparr>c_created_at := Some unix\<rparr> | _ \<Rightarrow> s"
  obtain out t where t: "chat_started to_str ?s = (out, t)" by fastforce
  have "used_below n t"
    using t assms(1) by (auto simp: chat_started_def used_below_def split: if_splits ir_stream_event.splits)
  then obtain r u where a: "chat_arm debug parse to_str ev t = Some (r, u)" "used_below (Suc n) u"
    using chat_arm_returns [OF _ assms(2)] by blast
  then show ?thesis
    unfolding push_chat_def Let_def t prod.case a(1) by (cases r) simp_all
qed

lemma chat_push_returns:
  assumes "used_below n s" "n < 2 ^ 32 - 1"
  shows "\<exists>r t. chat_push debug parse to_str ev s = Some (r, t) \<and> used_below (Suc n) t"
proof -
  have keep: "used_below (Suc n) t" if "e_next_tool t = e_next_tool s" "e_used_tool t = e_used_tool s" for t :: chat_encoder
    using assms that by (simp add: used_below_def)
  have item: "used_below (Suc n) (note_chat_item ity p s)" for ity p
    by (rule keep) (simp_all add: note_chat_item_def split: option.split)
  have fin: "used_below (Suc n) (snd (chat_finish parse to_str s))"
    by (intro keep chat_finish_fields)
  show ?thesis
  proof (cases "e_finished s")
    case True
    then show ?thesis using keep [of s] by (simp add: chat_push_def)
  next
    case open': False
    show ?thesis
    proof (cases ev)
      case (Protocol ity p)
      then show ?thesis using open' item keep [of s] by (simp add: chat_push_def)
    next
      case Done
      then show ?thesis using open' fin by (cases "chat_finish parse to_str s") (simp add: chat_push_def)
    qed (use open' push_chat_returns [OF assms] keep [of s] in \<open>simp_all add: chat_push_def\<close>)
  qed
qed


lemma chat_run_returns:
  assumes "used_below n s" "n + length evs < 2 ^ 32"
  shows "chat_run debug parse to_str evs s \<noteq> None"
  using assms
proof (induction evs arbitrary: n s)
  case Nil
  then show ?case by (simp add: case_prod_beta' Let_def)
next
  case (Cons ev evs)
  obtain r t where p: "chat_push debug parse to_str ev s = Some (r, t)" "used_below (Suc n) t"
    using chat_push_returns [OF Cons.prems(1)] Cons.prems(2) by fastforce
  show ?case
    using Cons.IH [OF p(2)] Cons.prems(2) by (auto simp: p(1) split: option.splits)
qed

lemma chat_new_below: "used_below 0 (with_model model chat_encoder_new)"
  by (simp add: used_below_def with_model_def chat_encoder_new_def encoder_new_def encoder.defs)


section \<open>Calls are numbered in the order they start\<close>

text \<open>The states of a stream in which no index starts twice and a fragment follows the start of its call; the list
  holds the indexes of the calls in the order they started.\<close>

fun in_order :: "u32 list \<Rightarrow> ir_stream_event \<Rightarrow> bool" where
  "in_order starts (ToolCallStart _ _ _ i) = (i \<notin> set starts \<and> length starts < 2 ^ 32 - 1)"
| "in_order starts (ToolCallArgDelta _ i) = (i \<in> set starts)"
| "in_order starts _ = True"

fun starts_of :: "ir_stream_event \<Rightarrow> u32 list" where
  "starts_of (ToolCallStart _ _ _ i) = [i]"
| "starts_of _ = []"

inductive chat_reach ::
  "(ir_stream_event \<Rightarrow> string) \<Rightarrow> (string \<Rightarrow> json option) \<Rightarrow> (json \<Rightarrow> string) \<Rightarrow> u32 list \<Rightarrow> chat_encoder \<Rightarrow> bool"
  for debug parse to_str where
  new: "chat_reach debug parse to_str [] (with_model model chat_encoder_new)"
| push: "chat_reach debug parse to_str starts s \<Longrightarrow> \<not> e_finished s \<Longrightarrow> in_order starts ev \<Longrightarrow>
    chat_push debug parse to_str ev s = Some (r, t) \<Longrightarrow> chat_reach debug parse to_str (starts @ starts_of ev) t"

definition numbered :: "u32 list \<Rightarrow> 'z encoder_scheme \<Rightarrow> bool" where
  "numbered starts s \<longleftrightarrow>
     distinct starts \<and> length starts < 2 ^ 32
     \<and> unat (e_next_tool s) = length starts \<and> e_used_tool s = word_of_nat ` {..<length starts}
     \<and> (\<forall>j < length starts. e_tool_slots s (starts ! j) = Some [word_of_nat j]
          \<and> e_last_tool s (starts ! j) = Some (word_of_nat j))
     \<and> (\<forall>i. i \<notin> set starts \<longrightarrow> unwrap_or (e_tool_slots s i) [] = [] \<and> e_last_tool s i = None)"

definition same_slots :: "'z encoder_scheme \<Rightarrow> 'z encoder_scheme \<Rightarrow> bool" where
  "same_slots s t \<longleftrightarrow> e_next_tool t = e_next_tool s \<and> e_used_tool t = e_used_tool s \<and> e_tool_slots t = e_tool_slots s
     \<and> e_last_tool t = e_last_tool s"

lemma same_slots_numbered: "same_slots s t \<Longrightarrow> numbered starts t = numbered starts s"
  by (simp add: same_slots_def numbered_def)

lemma numbered_alloc:
  assumes "numbered starts s" "i \<notin> set starts" "length starts < 2 ^ 32 - 1"
  shows "alloc_chat_tool i s = Some (word_of_nat (length starts), record_slot i (word_of_nat (length starts)) s)"
    and "numbered (starts @ [i]) (record_slot i (word_of_nat (length starts)) s)"
proof -
  let ?n = "length starts"
  have nx: "e_next_tool s = word_of_nat ?n"  using assms(1) unfolding numbered_def by (metis of_nat_unat ucast_id)
  have neq: "word_of_nat ?n \<noteq> (word_of_nat j :: u32)"
    if "j < ?n" for j
    using that assms(3) by (simp add: word_of_nat_eq_iff take_bit_nat_eq_self)
  have "e_used_tool s = word_of_nat ` {..<?n}" using assms(1) by (simp add: numbered_def)
  with neq have "e_next_tool s \<notin> e_used_tool s" by (auto simp: nx)
  then show "alloc_chat_tool i s = Some (word_of_nat ?n, record_slot i (word_of_nat ?n) s)"
    by (simp add: alloc_chat_tool_def free_index_next nx)
  have u: "unat (word_of_nat ?n :: u32) = ?n" using assms(3) by (simp add: unsigned_of_nat take_bit_nat_eq_self)
  then have "unat (saturating_add (word_of_nat ?n) (1::u32)) = Suc ?n" using assms(3) by (simp add: unat_saturating_add)
  moreover have "(word_of_nat ?n :: u32) < saturating_add (word_of_nat ?n) 1"
    using assms(3) u by (intro word_less_succ) simp
  ultimately have m: "unat (max (e_next_tool s) (saturating_add (word_of_nat ?n) 1)) = Suc ?n"
    by (simp add: nx max_absorb2 less_imp_le)
  show "numbered (starts @ [i]) (record_slot i (word_of_nat ?n) s)"
    using assms m by (auto simp: numbered_def nth_append lessThan_Suc Let_def less_Suc_eq)
qed

lemma numbered_known:
  assumes "numbered starts s" "i \<in> set starts"
  obtains j t where "j < length starts" "starts ! j = i" "known_slot i s = Some (word_of_nat j, t)" "same_slots s t"
proof -
  obtain j where j: "j < length starts" "starts ! j = i" using assms(2) by (auto simp: in_set_conv_nth)
  then have "e_tool_slots s i = Some [word_of_nat j]" using assms(1) by (auto simp: numbered_def)
  then show ?thesis
    using j by (intro that [of j "s\<lparr>e_tool_got_arg := insert (word_of_nat j) (e_tool_got_arg s),
      e_tool_slots := (e_tool_slots s)(i \<mapsto> [word_of_nat j])\<rparr>"])
      (simp_all add: known_slot_def same_slots_def fun_upd_idem)
qed

lemma chat_started_slots: "chat_started to_str s = (out, t) \<Longrightarrow> same_slots s t \<and> e_finished t = e_finished s"
  by (auto simp: chat_started_def same_slots_def split: if_splits)

lemma note_item_slots: "same_slots s (note_chat_item ity p s)"
  by (simp add: note_chat_item_def same_slots_def split: option.split)

lemma chat_arm_numbered:
  assumes "numbered starts s" "in_order starts ev" "chat_arm debug parse to_str ev s = Some (r, t)"
  shows "numbered (starts @ starts_of ev) t"
proof (cases ev)
  case (ToolCallStart nm x g i)
  then show ?thesis using assms numbered_alloc [OF assms(1), of i] by auto
next
  case (ToolCallArgDelta d i)
  then have "i \<in> set starts" using assms(2) by simp
  from numbered_known [OF assms(1) this] obtain j u where "known_slot i s = Some (word_of_nat j, u)" "same_slots s u" .
  then have "numbered starts t"
    using assms(1,3) same_slots_numbered [of s u] by (auto simp: ToolCallArgDelta chat_tool_enc_def)
  then show ?thesis by (simp add: ToolCallArgDelta)
qed (use assms(1,3) same_slots_numbered [of s t starts] in \<open>force simp: Let_def same_slots_def split: if_splits\<close>)+

lemma push_chat_numbered:
  assumes "numbered starts s" "in_order starts ev" "push_chat debug parse to_str ev s = Some (r, t)"
  shows "numbered (starts @ starts_of ev) t"
proof -
  let ?s = "case ev of Created unix \<Rightarrow> s\<lparr>c_created_at := Some unix\<rparr> | _ \<Rightarrow> s"
  obtain out u where u: "chat_started to_str ?s = (out, u)" by fastforce
  have "same_slots s ?s" by (simp add: same_slots_def split: ir_stream_event.splits)
  then have "same_slots s u" using chat_started_slots [OF u] by (simp add: same_slots_def)
  then have n: "numbered starts u" using assms(1) same_slots_numbered by blast
  obtain q v where a: "chat_arm debug parse to_str ev u = Some (q, v)"
    using assms(3) unfolding push_chat_def Let_def u prod.case by (cases "chat_arm debug parse to_str ev u") auto
  then have "v = t"
    using assms(3) unfolding push_chat_def Let_def u prod.case by (cases q) simp_all
  then show ?thesis using chat_arm_numbered [OF n assms(2) a] by simp
qed

lemma chat_push_numbered:
  assumes "numbered starts s" "in_order starts ev" "chat_push debug parse to_str ev s = Some (r, t)"
    and open': "\<not> e_finished s"
  shows "numbered (starts @ starts_of ev) t"
proof -
  have "same_slots s (snd (chat_finish parse to_str s))"
    by (simp add: chat_finish_def finish_chat_def Let_def same_slots_def)
  then have fin: "numbered starts (snd (chat_finish parse to_str s))" using assms(1) same_slots_numbered by blast
  show ?thesis
  proof (cases ev)
    case (Protocol ity p)
    then show ?thesis
      using assms open' same_slots_numbered [OF note_item_slots [of s ity p], of starts]
      by (auto simp: chat_push_def split: if_splits)
  next
    case Done
    then show ?thesis using assms(3) open' fin by (simp add: chat_push_def)
  qed (use assms open' push_chat_numbered [OF assms(1,2)] in \<open>auto simp: chat_push_def\<close>)
qed

lemma chat_reach_numbered: "chat_reach debug parse to_str starts s \<Longrightarrow> numbered starts s"
proof (induction rule: chat_reach.induct)
  case (new model)
  then show ?case
    by (simp add: numbered_def with_model_def chat_encoder_new_def encoder_new_def encoder.defs)
next
  case (push starts s ev r t)
  then show ?case using chat_push_numbered by blast
qed

definition role_frames :: "(json \<Rightarrow> string) \<Rightarrow> chat_encoder \<Rightarrow> raw_sse list" where
  "role_frames to_str s = (if e_started s then [] else [chunk to_str role_chunk])"

lemma attach_cong:
  assumes "c_completion_id t = c_completion_id s" "c_created_at t = c_created_at s" "e_model t = e_model s"
  shows "attach_chat_dest_model parse to_str t = attach_chat_dest_model parse to_str s"
  using assms by (simp add: attach_chat_dest_model_def fun_eq_iff Let_def split: option.split json.split)

text \<open>C13. Function calls on the Chat wire are numbered densely in the order they start, whatever their indexes were. In
  every state of a stream that starts no index twice and sends fragments only to started calls: the next call
  gets the number of calls before it, a fragment carries the number of its own call, and each is written as
  exactly one chunk (after the role chunk when it is the first).\<close>

theorem chat_calls_numbered:
  assumes "chat_reach debug parse to_str starts s" "\<not> e_finished s"
  shows "(i \<notin> set starts \<and> length starts < 2 ^ 32 - 1 \<longrightarrow>
      (\<exists>t. chat_push debug parse to_str (ToolCallStart id' name sig i) s =
         Some (Inr (map (attach_chat_dest_model parse to_str s)
           (role_frames to_str s @ [chunk to_str (call_start_chunk (word_of_nat (length starts)) id' name)])), t)))
    \<and> (j < length starts \<longrightarrow>
      (\<exists>t. chat_push debug parse to_str (ToolCallArgDelta delta (starts ! j)) s =
         Some (Inr (map (attach_chat_dest_model parse to_str s)
           (role_frames to_str s @ [chunk to_str (call_args_chunk (word_of_nat j) delta)])), t)))"
proof -
  have n: "numbered starts s" by (rule chat_reach_numbered [OF assms(1)])
  obtain out u where u: "chat_started to_str s = (out, u)" by fastforce
  have slots: "same_slots s u" and out: "out = role_frames to_str s"
    using chat_started_slots [OF u] u by (auto simp: chat_started_def role_frames_def split: if_splits)
  have nu: "numbered starts u" using n same_slots_numbered [OF slots] by simp
  have head: "c_completion_id u = c_completion_id s" "c_created_at u = c_created_at s" "e_model u = e_model s"
    using u by (auto simp: chat_started_def split: if_splits)
  have attach: "attach_chat_dest_model parse to_str t = attach_chat_dest_model parse to_str s"
    if "c_completion_id t = c_completion_id u" "c_created_at t = c_created_at u" "e_model t = e_model u" for t
    using that head by (intro attach_cong) simp_all
  have push: "push_chat debug parse to_str ev s = Some (Inr (map (attach_chat_dest_model parse to_str t) (role_frames to_str s @ fs)), t)"
    if "chat_arm debug parse to_str ev u = Some (Inr fs, t)" "\<forall>x. ev \<noteq> Created x" for ev fs t
  proof -
    have ev: "(case ev of Created unix \<Rightarrow> s\<lparr>c_created_at := Some unix\<rparr> | _ \<Rightarrow> s) = s"
      using that(2) by (cases ev) simp_all
    show ?thesis unfolding push_chat_def Let_def ev u prod.case that(1) by (simp add: out)
  qed
  have start: "i \<notin> set starts \<and> length starts < 2 ^ 32 - 1 \<longrightarrow>
      (\<exists>t. chat_push debug parse to_str (ToolCallStart id' name sig i) s =
         Some (Inr (map (attach_chat_dest_model parse to_str s)
           (role_frames to_str s @ [chunk to_str (call_start_chunk (word_of_nat (length starts)) id' name)])), t))"
  proof
    assume i: "i \<notin> set starts \<and> length starts < 2 ^ 32 - 1"
    let ?t = "record_slot i (word_of_nat (length starts)) u"
    have "attach_chat_dest_model parse to_str ?t = attach_chat_dest_model parse to_str s"
      by (rule attach) (simp_all add: record_slot_def Let_def)
    moreover have "chat_arm debug parse to_str (ToolCallStart id' name sig i) u =
        Some (Inr [chunk to_str (call_start_chunk (word_of_nat (length starts)) id' name)], ?t)"
      using numbered_alloc(1) [OF nu] i by simp
    ultimately show "\<exists>t. chat_push debug parse to_str (ToolCallStart id' name sig i) s =
         Some (Inr (map (attach_chat_dest_model parse to_str s)
           (role_frames to_str s @ [chunk to_str (call_start_chunk (word_of_nat (length starts)) id' name)])), t)"
      using push assms(2) by (simp add: chat_push_def)
  qed
  have args: "j < length starts \<longrightarrow>
      (\<exists>t. chat_push debug parse to_str (ToolCallArgDelta delta (starts ! j)) s =
         Some (Inr (map (attach_chat_dest_model parse to_str s)
           (role_frames to_str s @ [chunk to_str (call_args_chunk (word_of_nat j) delta)])), t))"
  proof
    assume j: "j < length starts"
    have k: "e_tool_slots u (starts ! j) = Some [word_of_nat j]" using nu j by (simp add: numbered_def)
    let ?t = "u\<lparr>e_tool_got_arg := insert (word_of_nat j) (e_tool_got_arg u),
      e_tool_slots := (e_tool_slots u)(starts ! j \<mapsto> [word_of_nat j])\<rparr>"
    have "attach_chat_dest_model parse to_str ?t = attach_chat_dest_model parse to_str s"
      by (rule attach) simp_all
    moreover have "chat_arm debug parse to_str (ToolCallArgDelta delta (starts ! j)) u =
        Some (Inr [chunk to_str (call_args_chunk (word_of_nat j) delta)], ?t)"
      using k by (simp add: chat_tool_enc_def known_slot_def)
    ultimately show "\<exists>t. chat_push debug parse to_str (ToolCallArgDelta delta (starts ! j)) s =
         Some (Inr (map (attach_chat_dest_model parse to_str s)
           (role_frames to_str s @ [chunk to_str (call_args_chunk (word_of_nat j) delta)])), t)"
      using push assms(2) by (simp add: chat_push_def)
  qed
  show ?thesis using start args by (rule conjI)
qed

theorem chat_calls_numbered_witness:
  "\<exists>s t. chat_reach (\<lambda>_. []) (\<lambda>_. None) (\<lambda>_. []) [7] s
     \<and> chat_push (\<lambda>_. []) (\<lambda>_. None) (\<lambda>_. []) (ToolCallArgDelta ''{}'' 7) s =
         Some (Inr [chunk (\<lambda>_. []) (call_args_chunk 0 ''{}'')], t)"
proof -
  let ?new = "with_model ''m'' chat_encoder_new"
  let ?s = "record_slot 7 0 (?new\<lparr>e_started := True\<rparr>)"
  have p: "chat_push (\<lambda>_. []) (\<lambda>_. None) (\<lambda>_. []) (ToolCallStart ''c'' ''f'' None 7) ?new =
      Some (Inr [chunk (\<lambda>_. []) role_chunk, chunk (\<lambda>_. []) (call_start_chunk 0 ''c'' ''f'')], ?s)"
    by (simp add: chat_push_def push_chat_def chat_started_def alloc_chat_tool_def free_index_next with_model_def
        chat_encoder_new_def encoder_new_def encoder.defs attach_chat_dest_model_def chunk_def record_slot_def)
  have "chat_reach (\<lambda>_. []) (\<lambda>_. None) (\<lambda>_. []) ([] @ starts_of (ToolCallStart ''c'' ''f'' None 7)) ?s"
    by (rule chat_reach.push [OF chat_reach.new _ _ p])
      (simp_all add: with_model_def chat_encoder_new_def encoder_new_def encoder.defs)
  then have r: "chat_reach (\<lambda>_. []) (\<lambda>_. None) (\<lambda>_. []) [7] ?s" by simp
  have "\<not> e_finished ?s"
    by (simp add: with_model_def chat_encoder_new_def encoder_new_def encoder.defs)
  from chat_calls_numbered [OF r this, where j = 0 and delta = "''{}''"] have
    "\<exists>t. chat_push (\<lambda>_. []) (\<lambda>_. None) (\<lambda>_. []) (ToolCallArgDelta ''{}'' 7) ?s =
       Some (Inr (map (attach_chat_dest_model (\<lambda>_. None) (\<lambda>_. []) ?s)
         (role_frames (\<lambda>_. []) ?s @ [chunk (\<lambda>_. []) (call_args_chunk 0 ''{}'')])), t)" by simp
  then show ?thesis
    using r by (auto simp: role_frames_def attach_chat_dest_model_def chunk_def)
qed

text \<open>C14. Encoding a Chat stream terminates. The search for a free tool index is a loop over \<open>u32\<close> with a
  saturating step, which does not end once every index is taken; with fewer than \<open>2^32\<close> events of any kind, in
  any order, every push returns and so does the end of the stream.\<close>

theorem chat_stream_returns:
  assumes "length evs < 2 ^ 32"
  shows "\<exists>rs s. chat_run debug parse to_str evs (with_model model chat_encoder_new) = Some (rs, s)"
  using chat_run_returns [OF chat_new_below, of evs debug parse to_str model] assms by auto

theorem chat_stream_returns_witness:
  "\<exists>rs s. chat_run (\<lambda>_. []) (\<lambda>_. None) (\<lambda>_. []) [ToolCallArgDelta ''x'' 3, ToolCallStart ''c'' ''f'' None 3, Done]
     (with_model ''m'' chat_encoder_new) = Some (rs, s)"
  using chat_stream_returns [of "[ToolCallArgDelta ''x'' 3, ToolCallStart ''c'' ''f'' None 3, Done]" "\<lambda>_. []"
      "\<lambda>_. None" "\<lambda>_. []" "''m''"] by simp

text \<open>Custom calls keep the index they came with while function calls are numbered, so the two can meet on one index.\<close>

lemma custom_index_collides:
  shows "\<exists>s t r. chat_push debug (\<lambda>_. None) to_str (CustomToolCallStart a g 0) chat_encoder_new = Some (r, s)
    \<and> (\<exists>raw. r = Inr [chunk to_str role_chunk, raw] \<and> encode_stream_event debug (\<lambda>_. None) to_str ChatCompletions (CustomToolCallStart a g 0) = Inr raw)
    \<and> chat_push debug (\<lambda>_. None) to_str (ToolCallStart b f None 1) s = Some (Inr [chunk to_str (call_start_chunk 0 b f)], t)"
  by (simp add: chat_push_def push_chat_def chat_started_def alloc_chat_tool_def free_index_next chat_encoder_new_def
      encoder_new_def encoder.defs attach_chat_dest_model_def chunk_def encode_stream_event_def chat_encode_def is_custom_def record_slot_def)

end
