(* ===== verification/Wm_Encoder_Gemini.thy ===== *)
theory Wm_Encoder_Gemini
  imports Wm_Encoder_Messages
begin

text \<open>
  \<open>StreamEncoder\<close> (\<open>stream/encoder.rs\<close>) for the Gemini wire: a function call is one JSON part, so its fragments are
  buffered until it closes, and frames of other events wait behind an open call. Frames are stamped with the
  metadata of the response. The record extends the state of Wm_Encoder_Messages by the fields this wire reads.
\<close>

section \<open>State\<close>

record gemini_call =
  gh_id :: string
  gh_name :: string
  gh_args :: string
  gh_signature :: "string option"
  gh_custom :: bool

record gemini_encoder = encoder +
  g_response_id :: "string option"
  g_safety_ratings :: "json option"
  g_prompt_safety :: "json option"
  g_block_reason_message :: "string option"
  g_traffic_type :: "string option"
  g_tool_use_prompt_tokens :: "u32 option"
  g_avg_logprobs :: "json option"
  g_candidate_tokens :: "u32 option"
  g_prompt_token_details :: "json option"
  g_candidate_token_details :: "json option"
  g_url_context :: "json option"
  g_citation_metadata :: "json option"
  g_open_calls :: "(u32 \<times> gemini_call) list"
  g_deferred :: "raw_sse list"

definition gemini_encoder_new :: gemini_encoder where
  "gemini_encoder_new =
     encoder.extend encoder_new
       \<lparr>g_response_id = None, g_safety_ratings = None, g_prompt_safety = None, g_block_reason_message = None,
        g_traffic_type = None, g_tool_use_prompt_tokens = None, g_avg_logprobs = None, g_candidate_tokens = None,
        g_prompt_token_details = None, g_candidate_token_details = None, g_url_context = None,
        g_citation_metadata = None, g_open_calls = [], g_deferred = []\<rparr>"

type_synonym gemini_written = "(map_error + raw_sse list) \<times> gemini_encoder"


section \<open>Stamping a frame\<close>

definition attach_dest_model_key ::
  "(string \<Rightarrow> json option) \<Rightarrow> (json \<Rightarrow> string) \<Rightarrow> string \<Rightarrow> string \<Rightarrow> raw_sse \<Rightarrow> raw_sse" where
  "attach_dest_model_key parse to_str model key frame =
     (if model = [] \<or> trim (data frame) = ''[DONE]'' then frame
      else case parse (data frame) of
             Some (JObject obj) \<Rightarrow> frame\<lparr>data := to_str (jinsert key (JString model) (JObject obj))\<rparr>
           | _ \<Rightarrow> frame)"

text \<open>\<open>value.pointer_mut("/candidates/0").and_then(as_object_mut)\<close> followed by \<open>insert\<close>, and \<open>get_mut\<close> followed by a
  change of the value.\<close>

definition update_key :: "string \<Rightarrow> (json \<Rightarrow> json) \<Rightarrow> json \<Rightarrow> json" where
  "update_key k f v = (case jget v k of None \<Rightarrow> v | Some w \<Rightarrow> jinsert k (f w) v)"

definition update_first_candidate :: "(json \<Rightarrow> json) \<Rightarrow> json \<Rightarrow> json" where
  "update_first_candidate f v =
     update_key ''candidates''
       (\<lambda>c. case c of
              JArray (first # rest) \<Rightarrow> JArray (f first # rest)
            | JObject m \<Rightarrow> update_key ''0'' f (JObject m)
            | _ \<Rightarrow> c) v"

definition has_finish :: "json \<Rightarrow> bool" where
  "has_finish v = (pointer v [''candidates'', ''0'', ''finishReason''] \<noteq> None)"

definition candidate_field :: "string \<Rightarrow> json option \<Rightarrow> json \<Rightarrow> json" where
  "candidate_field key field v =
     (case field of
        Some x \<Rightarrow> if has_finish v then update_first_candidate (jinsert key x) v else v
      | None \<Rightarrow> v)"

definition prompt_feedback :: "gemini_encoder \<Rightarrow> json \<Rightarrow> json" where
  "prompt_feedback s v =
     (if (g_prompt_safety s \<noteq> None \<or> g_block_reason_message s \<noteq> None) \<and> has_finish v \<and> is_object v then
        (let feedback = unwrap_or (jget v ''promptFeedback'') (json_obj []);
             feedback = set_opt ''safetyRatings'' (g_prompt_safety s) feedback;
             feedback = set_opt ''blockReasonMessage'' (map_option JString (g_block_reason_message s)) feedback
         in jinsert ''promptFeedback'' feedback v)
      else v)"

definition usage_metadata :: "gemini_encoder \<Rightarrow> json \<Rightarrow> json" where
  "usage_metadata s v =
     update_key ''usageMetadata''
       (\<lambda>u. let u = (case g_traffic_type s of None \<Rightarrow> u | Some k \<Rightarrow> insert_gemini_traffic_type (Some k) u);
                u = (case g_tool_use_prompt_tokens s of None \<Rightarrow> u | Some n \<Rightarrow> insert_gemini_tool_use_prompt_tokens (Some n) u);
                u = insert_gemini_modality_details ''promptTokensDetails'' (g_prompt_token_details s) u
            in insert_gemini_modality_details ''candidatesTokensDetails'' (g_candidate_token_details s) u) v"

definition nothing_to_attach :: "gemini_encoder \<Rightarrow> bool" where
  "nothing_to_attach s \<longleftrightarrow>
     g_response_id s = None \<and> g_safety_ratings s = None \<and> g_url_context s = None \<and> g_citation_metadata s = None
     \<and> g_prompt_safety s = None \<and> g_block_reason_message s = None \<and> g_traffic_type s = None
     \<and> g_tool_use_prompt_tokens s = None \<and> g_avg_logprobs s = None \<and> g_candidate_tokens s = None
     \<and> g_prompt_token_details s = None \<and> g_candidate_token_details s = None"

definition attach_dest_model ::
  "(string \<Rightarrow> json option) \<Rightarrow> (json \<Rightarrow> string) \<Rightarrow> gemini_encoder \<Rightarrow> raw_sse \<Rightarrow> raw_sse" where
  "attach_dest_model parse to_str s frame =
     (let frame = attach_dest_model_key parse to_str (e_model s) ''modelVersion'' frame
      in if trim (data frame) = ''[DONE]'' \<or> nothing_to_attach s then frame
         else case parse (data frame) of
                None \<Rightarrow> frame
              | Some v \<Rightarrow>
                  (let v = set_opt ''responseId'' (map_option JString (g_response_id s)) v;
                       v = candidate_field ''safetyRatings'' (g_safety_ratings s) v;
                       v = candidate_field ''urlContextMetadata'' (g_url_context s) v;
                       v = candidate_field ''citationMetadata'' (g_citation_metadata s) v;
                       v = prompt_feedback s v;
                       v = usage_metadata s v;
                       v = candidate_field ''avgLogprobs'' (g_avg_logprobs s) v;
                       v = candidate_field ''tokenCount'' (map_option json_u32 (ofilter (\<lambda>n. n > 0) (g_candidate_tokens s))) v
                   in frame\<lparr>data := to_str v\<rparr>))"


section \<open>Function calls\<close>

definition gemini_call_frame ::
  "(string \<Rightarrow> json option) \<Rightarrow> (json \<Rightarrow> string) \<Rightarrow> gemini_encoder \<Rightarrow> gemini_call \<Rightarrow> raw_sse option" where
  "gemini_call_frame parse to_str s call =
     (if gh_name call = [] then None
      else
        let parsed = (if gh_custom call then response_custom_tool_input parse (gh_args call)
                      else if gh_args call = [] then json_obj []
                      else unwrap_or (parse (gh_args call)) (json_obj []));
            fc = json_obj [(''name'', JString (gh_name call)), (''args'', parsed)];
            fc = insert_if (gh_id call \<noteq> []) ''id'' (JString (gh_id call)) fc;
            part = json_obj [(''functionCall'', fc)];
            part = set_opt ''thoughtSignature'' (map_option JString (ofilter (\<lambda>g. g \<noteq> []) (gh_signature call))) part;
            v = json_obj [(''candidates'', JArray [json_obj [(''content'',
                  json_obj [(''role'', JString ''model''), (''parts'', JArray [part])])]])]
        in Some (attach_dest_model parse to_str s \<lparr>event = None, data = to_str v\<rparr>))"

definition hold_gemini_start ::
  "(string \<Rightarrow> json option) \<Rightarrow> (json \<Rightarrow> string) \<Rightarrow> u32 \<Rightarrow> string \<Rightarrow> string \<Rightarrow> string option \<Rightarrow> bool \<Rightarrow> gemini_encoder
     \<Rightarrow> raw_sse list \<times> gemini_encoder" where
  "hold_gemini_start parse to_str index id' name sig custom s =
     (let prev = map_of (g_open_calls s) index;
          new = \<lparr>gh_id = id', gh_name = name, gh_args = [], gh_signature = sig, gh_custom = custom\<rparr>
      in case prev of
           Some p \<Rightarrow>
             if gh_id p = [] \<and> gh_name p = [] then
               ([], s\<lparr>g_open_calls := bt_insert index (p\<lparr>gh_id := id', gh_name := name, gh_custom := (gh_custom p \<or> custom),
                       gh_signature := (if sig \<noteq> None then sig else gh_signature p)\<rparr>) (g_open_calls s)\<rparr>)
             else
               (case gemini_call_frame parse to_str s p of None \<Rightarrow> [] | Some f \<Rightarrow> [f],
                s\<lparr>g_open_calls := bt_insert index new (bt_remove index (g_open_calls s))\<rparr>)
         | None \<Rightarrow> ([], s\<lparr>g_open_calls := bt_insert index new (g_open_calls s)\<rparr>))"

definition append_gemini_args :: "u32 \<Rightarrow> string \<Rightarrow> bool \<Rightarrow> gemini_encoder \<Rightarrow> gemini_encoder" where
  "append_gemini_args index delta custom s =
     (let call = (case map_of (g_open_calls s) index of
                    Some c \<Rightarrow> c\<lparr>gh_args := gh_args c @ delta, gh_custom := (gh_custom c \<or> custom)\<rparr>
                  | None \<Rightarrow> \<lparr>gh_id = [], gh_name = [], gh_args = delta, gh_signature = None, gh_custom = custom\<rparr>)
      in s\<lparr>g_open_calls := bt_insert index call (g_open_calls s)\<rparr>)"

definition flush_gemini_calls ::
  "(string \<Rightarrow> json option) \<Rightarrow> (json \<Rightarrow> string) \<Rightarrow> gemini_encoder \<Rightarrow> raw_sse list \<times> gemini_encoder" where
  "flush_gemini_calls parse to_str s =
     (let s' = s\<lparr>g_open_calls := []\<rparr>
      in (List.map_filter (\<lambda>(i, call). gemini_call_frame parse to_str s' call) (g_open_calls s) @ g_deferred s,
          s'\<lparr>g_deferred := []\<rparr>))"


section \<open>Events\<close>

fun push_gemini ::
  "(ir_stream_event \<Rightarrow> string) \<Rightarrow> (string \<Rightarrow> json option) \<Rightarrow> (json \<Rightarrow> string) \<Rightarrow> ir_stream_event \<Rightarrow> gemini_encoder
     \<Rightarrow> gemini_written" where
  "push_gemini debug parse to_str (ToolCallStart id' name sig index) s =
     (let (out, s) = hold_gemini_start parse to_str index id' name sig False s in (Inr out, s))"
| "push_gemini debug parse to_str (CustomToolCallStart id' name index) s =
     (let (out, s) = hold_gemini_start parse to_str index id' name None True s in (Inr out, s))"
| "push_gemini debug parse to_str (ToolCallArgDelta delta index) s = (Inr [], append_gemini_args index delta False s)"
| "push_gemini debug parse to_str (CustomToolCallInputDelta delta index) s = (Inr [], append_gemini_args index delta True s)"
| "push_gemini debug parse to_str ToolCallEnd s =
     (let (out, s) = flush_gemini_calls parse to_str s in (Inr out, s))"
| "push_gemini debug parse to_str (FinishReason reason vendor) s =
     (let (out, s) = flush_gemini_calls parse to_str s
      in (case encode_stream_event debug parse to_str Gemini (FinishReason reason vendor) of
            Inl e \<Rightarrow> Inl e | Inr frame \<Rightarrow> Inr (out @ [attach_dest_model parse to_str s frame]), s))"
| "push_gemini debug parse to_str ev s =
     (case encode_stream_event debug parse to_str Gemini ev of
        Inl e \<Rightarrow> (Inl e, s)
      | Inr raw \<Rightarrow>
          (let frame = attach_dest_model parse to_str s raw
           in if g_open_calls s = [] then (Inr [frame], s) else (Inr [], s\<lparr>g_deferred := g_deferred s @ [frame]\<rparr>)))"

definition gemini_finish ::
  "(ir_stream_event \<Rightarrow> string) \<Rightarrow> (string \<Rightarrow> json option) \<Rightarrow> (json \<Rightarrow> string) \<Rightarrow> gemini_encoder \<Rightarrow> gemini_written" where
  "gemini_finish debug parse to_str s =
     (if e_finished s then (Inr [], s)
      else
        let (out, s) = flush_gemini_calls parse to_str (s\<lparr>e_finished := True\<rparr>)
        in (case encode_stream_event debug parse to_str Gemini Done of Inl e \<Rightarrow> Inl e | Inr f \<Rightarrow> Inr (out @ [f]), s))"

definition nonempty_rows :: "json \<Rightarrow> json option" where
  "nonempty_rows p = (if is_some_and (as_array p) (\<lambda>items. items \<noteq> []) then Some p else None)"

definition trimmed_text :: "json \<Rightarrow> string option" where
  "trimmed_text p = ofilter (\<lambda>t. t \<noteq> []) (map_option trim (as_str p))"

definition counted :: "json \<Rightarrow> u32 option" where
  "counted p = Option.bind (as_u64 p) u32_try_from"

definition object_only :: "json \<Rightarrow> json option" where
  "object_only p = (if is_object p then Some p else None)"

definition note_gemini_text :: "string \<Rightarrow> json \<Rightarrow> gemini_encoder \<Rightarrow> gemini_encoder" where
  "note_gemini_text ity p s =
     (if ity = ''gemini_response_id'' then
        s\<lparr>g_response_id := or_else (ofilter (\<lambda>t. trim t \<noteq> []) (as_str p)) (g_response_id s)\<rparr>
      else if ity = ''gemini_block_reason_message'' then
        s\<lparr>g_block_reason_message := or_else (trimmed_text p) (g_block_reason_message s)\<rparr>
      else if ity = ''gemini_traffic_type'' then s\<lparr>g_traffic_type := or_else (trimmed_text p) (g_traffic_type s)\<rparr>
      else s)"

definition note_gemini_rows :: "string \<Rightarrow> json \<Rightarrow> gemini_encoder \<Rightarrow> gemini_encoder" where
  "note_gemini_rows ity p s =
     (if ity = ''gemini_url_context'' then s\<lparr>g_url_context := or_else (object_only p) (g_url_context s)\<rparr>
      else if ity = ''gemini_citation_metadata'' then
        s\<lparr>g_citation_metadata := or_else (object_only p) (g_citation_metadata s)\<rparr>
      else if ity = ''gemini_safety_ratings'' then s\<lparr>g_safety_ratings := or_else (nonempty_rows p) (g_safety_ratings s)\<rparr>
      else if ity = ''gemini_prompt_safety'' then s\<lparr>g_prompt_safety := or_else (nonempty_rows p) (g_prompt_safety s)\<rparr>
      else if ity = ''gemini_prompt_token_details'' then
        s\<lparr>g_prompt_token_details := or_else (nonempty_rows p) (g_prompt_token_details s)\<rparr>
      else if ity = ''gemini_candidate_token_details'' then
        s\<lparr>g_candidate_token_details := or_else (nonempty_rows p) (g_candidate_token_details s)\<rparr>
      else s)"

definition note_gemini_count :: "string \<Rightarrow> json \<Rightarrow> gemini_encoder \<Rightarrow> gemini_encoder" where
  "note_gemini_count ity p s =
     (if ity = ''gemini_tool_use_prompt_tokens'' then
        s\<lparr>g_tool_use_prompt_tokens := or_else (counted p) (g_tool_use_prompt_tokens s)\<rparr>
      else if ity = ''gemini_candidate_tokens'' then
        s\<lparr>g_candidate_tokens := or_else (ofilter (\<lambda>n. n > 0) (counted p)) (g_candidate_tokens s)\<rparr>
      else if ity = ''gemini_avg_logprobs'' then
        s\<lparr>g_avg_logprobs :=
            or_else (map_option (\<lambda>w. JNumber (Float w)) (ofilter f64_is_finite (as_f64 p))) (g_avg_logprobs s)\<rparr>
      else s)"

definition note_gemini_item :: "string \<Rightarrow> json \<Rightarrow> gemini_encoder \<Rightarrow> gemini_encoder" where
  "note_gemini_item ity p s = note_gemini_count ity p (note_gemini_rows ity p (note_gemini_text ity p s))"

definition code_part_keys :: "string list" where
  "code_part_keys =
     [''executableCode'', ''codeExecutionResult'', ''functionResponse'', ''toolCall'', ''toolResponse'', ''fileData'']"

definition push_code_part ::
  "(string \<Rightarrow> json option) \<Rightarrow> (json \<Rightarrow> string) \<Rightarrow> json \<Rightarrow> gemini_encoder \<Rightarrow> raw_sse list" where
  "push_code_part parse to_str p s =
     (if list_all (\<lambda>k. jget p k = None) code_part_keys then []
      else [attach_dest_model parse to_str s \<lparr>event = None, data = to_str (json_obj [(''candidates'',
              JArray [json_obj [(''content'', json_obj [(''role'', JString ''model''), (''parts'', JArray [p])])]])])\<rparr>])"

text \<open>\<open>push\<close> on this wire.\<close>

fun gemini_push_open ::
  "(ir_stream_event \<Rightarrow> string) \<Rightarrow> (string \<Rightarrow> json option) \<Rightarrow> (json \<Rightarrow> string)
     \<Rightarrow> ir_stream_event \<Rightarrow> gemini_encoder \<Rightarrow> gemini_written" where
  "gemini_push_open debug parse to_str (Protocol ity p) s =
     (if ity = ''gemini_code_part'' then (Inr (push_code_part parse to_str p s), s)
      else if ity = ''messages_citation'' \<or> silent_item ity p then (Inr [], note_gemini_item ity p s)
      else (case encode_stream_event debug parse to_str Gemini (Protocol ity p) of Inl e \<Rightarrow> Inl e | Inr raw \<Rightarrow> Inr [raw], s))"
| "gemini_push_open debug parse to_str (Unknown name v) s =
     (case encode_stream_event debug parse to_str Gemini (Unknown name v) of Inl e \<Rightarrow> Inl e | Inr raw \<Rightarrow> Inr [raw], s)"
| "gemini_push_open debug parse to_str Done s = gemini_finish debug parse to_str s"
| "gemini_push_open debug parse to_str (Diagnostics _) s = (Inr [], s)"
| "gemini_push_open debug parse to_str (Container _) s = (Inr [], s)"
| "gemini_push_open debug parse to_str (ContextManagement _) s = (Inr [], s)"
| "gemini_push_open debug parse to_str (StopSequence _) s = (Inr [], s)"
| "gemini_push_open debug parse to_str (AnnotationAdded ann) s =
     (if Option.bind (jget ann ''url_context'') as_bool = Some True
         \<or> Option.bind (jget ann ''citation_metadata'') as_bool = Some True then (Inr [], s)
      else push_gemini debug parse to_str (AnnotationAdded ann) s)"
| "gemini_push_open debug parse to_str ev s = push_gemini debug parse to_str ev s"

definition gemini_push ::
  "(ir_stream_event \<Rightarrow> string) \<Rightarrow> (string \<Rightarrow> json option) \<Rightarrow> (json \<Rightarrow> string)
     \<Rightarrow> ir_stream_event \<Rightarrow> gemini_encoder \<Rightarrow> gemini_written" where
  "gemini_push debug parse to_str ev s =
     (if e_finished s then (Inr [], s) else gemini_push_open debug parse to_str ev s)"


section \<open>Calls do not mix\<close>

text \<open>What one index makes of its own events, alone.\<close>

fun call_step :: "ir_stream_event \<Rightarrow> gemini_call option \<Rightarrow> gemini_call option" where
  "call_step (ToolCallStart id' name sig _) c =
     (case c of
        Some p \<Rightarrow>
          if gh_id p = [] \<and> gh_name p = [] then
            Some (p\<lparr>gh_id := id', gh_name := name, gh_signature := (if sig \<noteq> None then sig else gh_signature p)\<rparr>)
          else Some \<lparr>gh_id = id', gh_name = name, gh_args = [], gh_signature = sig, gh_custom = False\<rparr>
      | None \<Rightarrow> Some \<lparr>gh_id = id', gh_name = name, gh_args = [], gh_signature = sig, gh_custom = False\<rparr>)"
| "call_step (CustomToolCallStart id' name _) c =
     (case c of
        Some p \<Rightarrow>
          if gh_id p = [] \<and> gh_name p = [] then Some (p\<lparr>gh_id := id', gh_name := name, gh_custom := True\<rparr>)
          else Some \<lparr>gh_id = id', gh_name = name, gh_args = [], gh_signature = None, gh_custom = True\<rparr>
      | None \<Rightarrow> Some \<lparr>gh_id = id', gh_name = name, gh_args = [], gh_signature = None, gh_custom = True\<rparr>)"
| "call_step (ToolCallArgDelta d _) c =
     (case c of
        Some p \<Rightarrow> Some (p\<lparr>gh_args := gh_args p @ d\<rparr>)
      | None \<Rightarrow> Some \<lparr>gh_id = [], gh_name = [], gh_args = d, gh_signature = None, gh_custom = False\<rparr>)"
| "call_step (CustomToolCallInputDelta d _) c =
     (case c of
        Some p \<Rightarrow> Some (p\<lparr>gh_args := gh_args p @ d, gh_custom := True\<rparr>)
      | None \<Rightarrow> Some \<lparr>gh_id = [], gh_name = [], gh_args = d, gh_signature = None, gh_custom = True\<rparr>)"
| "call_step _ c = c"

fun call_index :: "ir_stream_event \<Rightarrow> u32 option" where
  "call_index (ToolCallStart _ _ _ i) = Some i"
| "call_index (CustomToolCallStart _ _ i) = Some i"
| "call_index (ToolCallArgDelta _ i) = Some i"
| "call_index (CustomToolCallInputDelta _ i) = Some i"
| "call_index _ = None"

fun flushes :: "ir_stream_event \<Rightarrow> bool" where
  "flushes ToolCallEnd = True"
| "flushes (FinishReason _ _) = True"
| "flushes Done = True"
| "flushes _ = False"

definition call_of :: "u32 \<Rightarrow> ir_stream_event list \<Rightarrow> gemini_call option" where
  "call_of i evs = fold call_step (filter (\<lambda>ev. call_index ev = Some i) evs) None"

fun gemini_pushes ::
  "(ir_stream_event \<Rightarrow> string) \<Rightarrow> (string \<Rightarrow> json option) \<Rightarrow> (json \<Rightarrow> string) \<Rightarrow> ir_stream_event list \<Rightarrow> gemini_encoder
     \<Rightarrow> raw_sse list \<times> gemini_encoder" where
  "gemini_pushes debug parse to_str [] s = ([], s)"
| "gemini_pushes debug parse to_str (ev # evs) s =
     (let (r, s) = gemini_push debug parse to_str ev s; (rest, s) = gemini_pushes debug parse to_str evs s
      in ((case r of Inr fs \<Rightarrow> fs | Inl _ \<Rightarrow> []) @ rest, s))"

lemma hold_start_calls:
  assumes "bt_wf (g_open_calls s)"
  shows "map_of (g_open_calls (snd (hold_gemini_start parse to_str i id' name sig False s))) j =
      (if j = i then call_step (ToolCallStart id' name sig i) (map_of (g_open_calls s) i) else map_of (g_open_calls s) j)"
    "map_of (g_open_calls (snd (hold_gemini_start parse to_str i id' name None True s))) j =
      (if j = i then call_step (CustomToolCallStart id' name i) (map_of (g_open_calls s) i) else map_of (g_open_calls s) j)"
    "bt_wf (g_open_calls (snd (hold_gemini_start parse to_str i id' name sig b s)))"
    "e_finished (snd (hold_gemini_start parse to_str i id' name sig b s)) = e_finished s"
  using assms
  by (auto simp: hold_gemini_start_def Let_def map_of_bt_remove split: option.splits)

lemma append_args_calls:
  assumes "bt_wf (g_open_calls s)"
  shows "map_of (g_open_calls (append_gemini_args i d False s)) j =
      (if j = i then call_step (ToolCallArgDelta d i) (map_of (g_open_calls s) i) else map_of (g_open_calls s) j)"
    "map_of (g_open_calls (append_gemini_args i d True s)) j =
      (if j = i then call_step (CustomToolCallInputDelta d i) (map_of (g_open_calls s) i) else map_of (g_open_calls s) j)"
    "bt_wf (g_open_calls (append_gemini_args i d b s))"
    "e_finished (append_gemini_args i d b s) = e_finished s"
  using assms by (auto simp: append_gemini_args_def Let_def split: option.splits)

lemma note_item_calls:
  "g_open_calls (note_gemini_item ity p s) = g_open_calls s" "g_deferred (note_gemini_item ity p s) = g_deferred s"
  "e_finished (note_gemini_item ity p s) = e_finished s"
  by (simp_all add: note_gemini_item_def note_gemini_count_def note_gemini_rows_def note_gemini_text_def)

lemma gemini_push_calls:
  assumes "bt_wf (g_open_calls s)" "\<not> e_finished s" "\<not> flushes ev"
  shows "map_of (g_open_calls (snd (gemini_push debug parse to_str ev s))) j =
      (if call_index ev = Some j then call_step ev (map_of (g_open_calls s) j) else map_of (g_open_calls s) j)
    \<and> bt_wf (g_open_calls (snd (gemini_push debug parse to_str ev s)))
    \<and> \<not> e_finished (snd (gemini_push debug parse to_str ev s))"
  using assms
  by (cases ev) (auto simp: gemini_push_def case_prod_beta' Let_def hold_start_calls append_args_calls note_item_calls
      split: sum.splits)

lemma gemini_pushes_calls:
  assumes "bt_wf (g_open_calls s)" "\<not> e_finished s" "list_all (\<lambda>ev. \<not> flushes ev) evs"
  shows "map_of (g_open_calls (snd (gemini_pushes debug parse to_str evs s))) j =
      fold call_step (filter (\<lambda>ev. call_index ev = Some j) evs) (map_of (g_open_calls s) j)
    \<and> bt_wf (g_open_calls (snd (gemini_pushes debug parse to_str evs s)))
    \<and> \<not> e_finished (snd (gemini_pushes debug parse to_str evs s))"
  using assms
proof (induction evs arbitrary: s)
  case (Cons ev evs)
  let ?t = "snd (gemini_push debug parse to_str ev s)"
  have t: "map_of (g_open_calls ?t) j =
      (if call_index ev = Some j then call_step ev (map_of (g_open_calls s) j) else map_of (g_open_calls s) j)"
    "bt_wf (g_open_calls ?t)" "\<not> e_finished ?t"
    using gemini_push_calls [OF Cons.prems(1,2), of ev] Cons.prems(3) by auto
  show ?case using Cons.IH [OF t(2,3)] Cons.prems(3) t(1) by (simp add: Let_def case_prod_beta')
qed simp


lemma bt_sorted_keys:
  assumes "bt_wf m"
  shows "m = map (\<lambda>k. (k, the (map_of m k))) (sorted_list_of_set (fst ` set m))"
proof -
  have "sorted_list_of_set (fst ` set m) = map fst m"
    using assms by (metis bt_wf_def list.set_map sorted_list_of_set.idem_if_sorted_distinct strict_sorted_iff)
  moreover have "\<forall>x \<in> set m. snd x = the (map_of m (fst x))"
    using assms by (metis bt_wf_distinct map_of_eq_Some_iff option.sel prod.collapse)
  then have "map (\<lambda>x. (fst x, the (map_of m (fst x)))) m = m"
    by (intro map_idI) (simp add: prod_eq_iff)
  then have "map (\<lambda>k. (k, the (map_of m k))) (map fst m) = m" by (simp add: comp_def)
  ultimately show ?thesis by simp
qed

text \<open>The fields that stamp a frame.\<close>

definition same_stamp :: "gemini_encoder \<Rightarrow> gemini_encoder \<Rightarrow> bool" where
  "same_stamp s t \<longleftrightarrow>
     e_model t = e_model s \<and> g_response_id t = g_response_id s \<and> g_safety_ratings t = g_safety_ratings s
    \<and> g_prompt_safety t = g_prompt_safety s \<and> g_block_reason_message t = g_block_reason_message s
    \<and> g_traffic_type t = g_traffic_type s \<and> g_tool_use_prompt_tokens t = g_tool_use_prompt_tokens s
    \<and> g_avg_logprobs t = g_avg_logprobs s \<and> g_candidate_tokens t = g_candidate_tokens s
    \<and> g_prompt_token_details t = g_prompt_token_details s \<and> g_candidate_token_details t = g_candidate_token_details s
    \<and> g_url_context t = g_url_context s \<and> g_citation_metadata t = g_citation_metadata s"

lemma same_stamp_attach:
  assumes "same_stamp s t"
  shows "attach_dest_model parse to_str t = attach_dest_model parse to_str s"
    "gemini_call_frame parse to_str t = gemini_call_frame parse to_str s"
proof -
  have "nothing_to_attach t = nothing_to_attach s" "prompt_feedback t = prompt_feedback s" "usage_metadata t = usage_metadata s"
    using assms by (auto simp: same_stamp_def nothing_to_attach_def prompt_feedback_def usage_metadata_def fun_eq_iff)
  then show "attach_dest_model parse to_str t = attach_dest_model parse to_str s"
    using assms by (simp add: same_stamp_def attach_dest_model_def fun_eq_iff Let_def split: option.split)
  then show "gemini_call_frame parse to_str t = gemini_call_frame parse to_str s"
    by (simp add: gemini_call_frame_def fun_eq_iff)
qed

lemma attach_ignores_calls [simp]:
  "gemini_call_frame parse to_str (s\<lparr>g_open_calls := x\<rparr>) = gemini_call_frame parse to_str s"
  by (rule same_stamp_attach) (simp add: same_stamp_def)

lemma map_filter_map: "List.map_filter f (map g xs) = List.map_filter (\<lambda>x. f (g x)) xs"
  by (induction xs) (simp_all add: List.map_filter_def)

lemma map_filter_cong_set: "(\<And>x. x \<in> set xs \<Longrightarrow> f x = g x) \<Longrightarrow> List.map_filter f xs = List.map_filter g xs"
  by (induction xs) (simp_all add: List.map_filter_def)

text \<open>C11. Interleaved Gemini calls do not mix. Between two flushes, the call an index has gathered is a function of
  that index's own events alone, whatever the other indexes and the text in between do, and closing writes the
  named calls as one part each, in index order, before the frames that waited behind them.\<close>

theorem gemini_calls_do_not_mix:
  assumes "list_all (\<lambda>ev. \<not> flushes ev) evs"
    and "gemini_pushes debug parse to_str evs (with_model model gemini_encoder_new) = (fs, s)"
  shows "fst (gemini_push debug parse to_str ToolCallEnd s) =
    Inr (List.map_filter (\<lambda>i. Option.bind (call_of i evs) (gemini_call_frame parse to_str s))
           (sorted_list_of_set {i. call_of i evs \<noteq> None}) @ g_deferred s)"
proof -
  let ?new = "with_model model gemini_encoder_new"
  have new: "g_open_calls ?new = []" "\<not> e_finished ?new"
    by (simp_all add: with_model_def gemini_encoder_new_def encoder_new_def encoder.defs)
  have inv: "map_of (g_open_calls s) i = call_of i evs" "bt_wf (g_open_calls s)" "\<not> e_finished s" for i
    using gemini_pushes_calls [of ?new evs debug parse to_str i] assms new by (auto simp: call_of_def)
  have keys: "fst ` set (g_open_calls s) = {i. call_of i evs \<noteq> None}"
    by (auto simp: dom_map_of_conv_image_fst [symmetric] inv(1) [symmetric])
  have "List.map_filter (\<lambda>(i, call). gemini_call_frame parse to_str s call) (g_open_calls s) =
      List.map_filter (\<lambda>i. gemini_call_frame parse to_str s (the (call_of i evs))) (sorted_list_of_set {i. call_of i evs \<noteq> None})"
    by (subst bt_sorted_keys [OF inv(2)]) (simp add: map_filter_map keys inv(1))
  also have "\<dots> = List.map_filter (\<lambda>i. Option.bind (call_of i evs) (gemini_call_frame parse to_str s))
      (sorted_list_of_set {i. call_of i evs \<noteq> None})"
    by (rule map_filter_cong_set) (auto simp: keys [symmetric])
  finally show ?thesis
    using inv(3) by (simp add: gemini_push_def flush_gemini_calls_def Let_def)
qed

section \<open>Other frames wait in order\<close>

text \<open>What an event that is not part of a call writes, or will write once the calls before it are out.\<close>

fun own_frame ::
  "(ir_stream_event \<Rightarrow> string) \<Rightarrow> (string \<Rightarrow> json option) \<Rightarrow> (json \<Rightarrow> string) \<Rightarrow> gemini_encoder \<Rightarrow> ir_stream_event
     \<Rightarrow> raw_sse list" where
  "own_frame debug parse to_str s (Protocol _ _) = []"
| "own_frame debug parse to_str s (Unknown _ _) = []"
| "own_frame debug parse to_str s (Diagnostics _) = []"
| "own_frame debug parse to_str s (Container _) = []"
| "own_frame debug parse to_str s (ContextManagement _) = []"
| "own_frame debug parse to_str s (StopSequence _) = []"
| "own_frame debug parse to_str s ToolCallEnd = []"
| "own_frame debug parse to_str s Done =
     (case encode_stream_event debug parse to_str Gemini Done of Inl _ \<Rightarrow> [] | Inr raw \<Rightarrow> [raw])"
| "own_frame debug parse to_str s ev =
     (if call_index ev \<noteq> None
         \<or> (case ev of AnnotationAdded ann \<Rightarrow> Option.bind (jget ann ''url_context'') as_bool = Some True
              \<or> Option.bind (jget ann ''citation_metadata'') as_bool = Some True | _ \<Rightarrow> False) then []
      else case encode_stream_event debug parse to_str Gemini ev of
             Inl _ \<Rightarrow> [] | Inr raw \<Rightarrow> [attach_dest_model parse to_str s raw])"

fun own_frames ::
  "(ir_stream_event \<Rightarrow> string) \<Rightarrow> (string \<Rightarrow> json option) \<Rightarrow> (json \<Rightarrow> string) \<Rightarrow> ir_stream_event list \<Rightarrow> gemini_encoder
     \<Rightarrow> raw_sse list" where
  "own_frames debug parse to_str [] s = []"
| "own_frames debug parse to_str (ev # evs) s =
     (if e_finished s then [] else own_frame debug parse to_str s ev)
       @ own_frames debug parse to_str evs (snd (gemini_push debug parse to_str ev s))"

definition is_call_frame :: "(string \<Rightarrow> json option) \<Rightarrow> (json \<Rightarrow> string) \<Rightarrow> raw_sse \<Rightarrow> bool" where
  "is_call_frame parse to_str f \<longleftrightarrow> (\<exists>s call. gemini_call_frame parse to_str s call = Some f)"

definition passes_queue :: "ir_stream_event \<Rightarrow> bool" where
  "passes_queue ev =
     (case ev of Unknown _ _ \<Rightarrow> False | Protocol ity p \<Rightarrow> ity \<noteq> ''gemini_code_part'' \<and> (ity = ''messages_citation'' \<or> silent_item ity p)
      | _ \<Rightarrow> True)"

definition queued :: "(string \<Rightarrow> json option) \<Rightarrow> (json \<Rightarrow> string) \<Rightarrow> raw_sse list \<Rightarrow> raw_sse list \<Rightarrow> gemini_encoder \<Rightarrow> bool" where
  "queued parse to_str fs own s \<longleftrightarrow>
     (\<exists>calls out. list_all (is_call_frame parse to_str) calls \<and> own = out @ g_deferred s \<and> fs \<in> shuffles calls out
        \<and> (g_open_calls s = [] \<longrightarrow> g_deferred s = []))"

lemma append_in_shuffles: "xs @ ys \<in> shuffles xs ys"
  by (induction xs) (auto simp: Cons_in_shuffles_iff)

lemma shuffles_own: "fs \<in> shuffles calls out \<Longrightarrow> fs @ xs \<in> shuffles calls (out @ xs)"
  by (induction calls out arbitrary: fs rule: shuffles.induct) (auto simp: append_in_shuffles)

lemma shuffles_calls: "fs \<in> shuffles calls out \<Longrightarrow> fs @ xs \<in> shuffles (calls @ xs) out"
  using shuffles_own [of fs out calls xs] by (simp add: shuffles_commutes)

lemma is_call_frameI: "gemini_call_frame parse to_str s call = Some f \<Longrightarrow> is_call_frame parse to_str f"
  unfolding is_call_frame_def by blast

lemma hold_start_queue:
  assumes "hold_gemini_start parse to_str i id' name sig b s = (fs, t)"
  shows "list_all (is_call_frame parse to_str) fs" "g_deferred t = g_deferred s" "g_open_calls t \<noteq> []"
    "e_finished t = e_finished s"
  using assms
  by (auto simp: hold_gemini_start_def Let_def is_call_frameI split: option.splits if_splits)

lemma gemini_encodes:
  assumes "\<not> is_protocol ev" "\<And>n v. ev \<noteq> Unknown n v"
  shows "\<exists>raw. encode_stream_event debug parse to_str Gemini ev = Inr raw"
  using assms
  by (cases ev) (auto simp: encode_stream_event_def gemini_encode_def is_protocol_def split: option.splits)

lemma queued_write:
  assumes "queued parse to_str fs own s" "g_open_calls s = []" "g_open_calls t = []" "g_deferred t = g_deferred s"
  shows "queued parse to_str (fs @ xs) (own @ xs) t"
proof -
  obtain calls out where "list_all (is_call_frame parse to_str) calls" "own = out @ g_deferred s" "fs \<in> shuffles calls out"
      "g_deferred s = []"
    using assms(1,2) by (auto simp: queued_def)
  then show ?thesis
    using assms(3,4) shuffles_own [of fs calls out xs] by (auto simp: queued_def)
qed

lemma queued_wait:
  assumes "queued parse to_str fs own s" "g_open_calls t \<noteq> []" "g_deferred t = g_deferred s @ xs"
  shows "queued parse to_str fs (own @ xs) t"
  using assms by (auto simp: queued_def)

lemma queued_calls:
  assumes "queued parse to_str fs own s" "list_all (is_call_frame parse to_str) cs" "g_deferred t = g_deferred s"
    "g_open_calls t \<noteq> []"
  shows "queued parse to_str (fs @ cs) own t"
proof -
  obtain calls out where "list_all (is_call_frame parse to_str) calls" "own = out @ g_deferred s" "fs \<in> shuffles calls out"
    using assms(1) by (auto simp: queued_def)
  then show ?thesis
    unfolding queued_def using assms(2,3,4) shuffles_calls [of fs calls out cs]
    by (intro exI [of _ "calls @ cs"] exI [of _ out]) simp
qed

lemma queued_flush:
  assumes "queued parse to_str fs own s" "flush_gemini_calls parse to_str s = (xs, t)"
  shows "queued parse to_str (fs @ xs) own t" "g_open_calls t = []" "g_deferred t = []"
    "e_finished t = e_finished s" "attach_dest_model parse to_str t = attach_dest_model parse to_str s"
proof -
  let ?cs = "List.map_filter (\<lambda>(i, call). gemini_call_frame parse to_str s call) (g_open_calls s)"
  have xs: "xs = ?cs @ g_deferred s" "t = s\<lparr>g_open_calls := [], g_deferred := []\<rparr>"
    using assms(2) by (simp_all add: flush_gemini_calls_def Let_def)
  have "list_all (is_call_frame parse to_str) ?cs"
    by (induction "g_open_calls s") (auto simp: List.map_filter_def list_all_iff is_call_frameI)
  moreover obtain calls out where q: "list_all (is_call_frame parse to_str) calls" "own = out @ g_deferred s" "fs \<in> shuffles calls out"
    using assms(1) by (auto simp: queued_def)
  ultimately show "queued parse to_str (fs @ xs) own t"
    unfolding queued_def
    using shuffles_own [OF shuffles_calls [OF q(3), of ?cs], of "g_deferred s"]
    by (intro exI [of _ "calls @ ?cs"] exI [of _ own]) (simp add: xs)
  show "g_open_calls t = []" "g_deferred t = []" "e_finished t = e_finished s" by (simp_all add: xs)
  show "attach_dest_model parse to_str t = attach_dest_model parse to_str s"
    by (rule same_stamp_attach) (simp add: same_stamp_def xs)
qed

lemma queued_same:
  assumes "queued parse to_str fs own s" "g_open_calls t = g_open_calls s" "g_deferred t = g_deferred s"
  shows "queued parse to_str fs own t"
  using assms by (simp add: queued_def)

text \<open>An event of no call, neither a side item nor an end.\<close>

lemma plain_queued:
  assumes q: "queued parse to_str fs own s"
    and raw: "encode_stream_event debug parse to_str Gemini ev = Inr raw"
    and push: "push_gemini debug parse to_str ev s =
        (case encode_stream_event debug parse to_str Gemini ev of
           Inl e \<Rightarrow> (Inl e, s)
         | Inr raw \<Rightarrow>
             (let frame = attach_dest_model parse to_str s raw
              in if g_open_calls s = [] then (Inr [frame], s) else (Inr [], s\<lparr>g_deferred := g_deferred s @ [frame]\<rparr>)))"
    and own: "own_frame debug parse to_str s ev = [attach_dest_model parse to_str s raw]"
  shows "\<exists>gs t. push_gemini debug parse to_str ev s = (Inr gs, t)
    \<and> queued parse to_str (fs @ gs) (own @ own_frame debug parse to_str s ev) t"
proof (cases "g_open_calls s = []")
  case True
  then show ?thesis using queued_write [OF q True True refl] push raw own by (simp add: Let_def)
next
  case False
  then show ?thesis
    using queued_wait [OF q, of "s\<lparr>g_deferred := g_deferred s @ [attach_dest_model parse to_str s raw]\<rparr>"]
      push raw own by (simp add: Let_def)
qed

lemma gemini_push_queued:
  assumes q: "queued parse to_str fs own s" and ev: "passes_queue ev" and open': "\<not> e_finished s"
  shows "\<exists>gs t. gemini_push_open debug parse to_str ev s = (Inr gs, t)
    \<and> queued parse to_str (fs @ gs) (own @ own_frame debug parse to_str s ev) t"
proof -
  have start: "\<exists>gs t. (case hold_gemini_start parse to_str i id' nm g b s of (out, s) \<Rightarrow> (Inr out, s)) = (Inr gs, t)
      \<and> queued parse to_str (fs @ gs) own t" for i id' nm g b
  proof -
    obtain gs t where h: "hold_gemini_start parse to_str i id' nm g b s = (gs, t)" by fastforce
    note k = hold_start_queue [OF h]
    show ?thesis using queued_calls [OF q k(1,2,3)] by (simp add: h)
  qed
  have args: "queued parse to_str fs own (append_gemini_args i d b s)" for i d b
    using queued_wait [OF q, of "append_gemini_args i d b s" "[]"] by (simp add: append_gemini_args_def)
  obtain xs u where fl: "flush_gemini_calls parse to_str s = (xs, u)" by fastforce
  note flushed = queued_flush [OF q fl]
  have raw: "\<exists>raw. encode_stream_event debug parse to_str Gemini ev = Inr raw" if "\<not> is_protocol ev" "\<And>n v. ev \<noteq> Unknown n v"
    using gemini_encodes [OF that] by blast
  show ?thesis
  proof (cases ev)
    case (Protocol ity p)
    then show ?thesis
      using ev queued_same [OF q] by (auto simp: passes_queue_def note_item_calls)
  next
    case (ToolCallStart i nm g idx)
    then show ?thesis using start by simp
  next
    case (CustomToolCallStart i nm idx)
    then show ?thesis using start by simp
  next
    case ToolCallEnd
    then show ?thesis using flushed(1) by (simp add: fl)
  next
    case (FinishReason r v)
    obtain raw where w: "encode_stream_event debug parse to_str Gemini ev = Inr raw"
      using raw by (auto simp: FinishReason is_protocol_def)
    show ?thesis
      using queued_write [OF flushed(1,2,2) refl, of "[attach_dest_model parse to_str u raw]"] w flushed(5)
      by (simp add: FinishReason fl)
  next
    case Done
    obtain raw where w: "encode_stream_event debug parse to_str Gemini ev = Inr raw"
      using raw by (auto simp: Done is_protocol_def)
    have "queued parse to_str fs own (s\<lparr>e_finished := True\<rparr>)" by (rule queued_same [OF q]) simp_all
    moreover obtain ys v where "flush_gemini_calls parse to_str (s\<lparr>e_finished := True\<rparr>) = (ys, v)" by fastforce
    moreover note queued_flush [OF calculation]
    ultimately show ?thesis
      using queued_write [of parse to_str "fs @ ys" own v v "[raw]"] w open'
      by (simp add: Done gemini_finish_def)
  next
    case (AnnotationAdded ann)
    obtain raw where w: "encode_stream_event debug parse to_str Gemini ev = Inr raw"
      using raw by (auto simp: AnnotationAdded is_protocol_def)
    show ?thesis
    proof (cases "Option.bind (jget ann ''url_context'') as_bool = Some True
        \<or> Option.bind (jget ann ''citation_metadata'') as_bool = Some True")
      case True
      then show ?thesis using q by (auto simp: AnnotationAdded)
    next
      case False
      then show ?thesis using plain_queued [OF q w] w by (simp add: AnnotationAdded)
    qed
  qed (use ev q args raw plain_queued [OF q, of debug ev] in \<open>auto simp: passes_queue_def is_protocol_def\<close>)
qed

lemma flush_fields:
  "e_finished (snd (flush_gemini_calls parse to_str s)) = e_finished s" "g_deferred (snd (flush_gemini_calls parse to_str s)) = []"
  by (simp_all add: flush_gemini_calls_def Let_def)

lemma gemini_push_open_end:
  assumes "\<not> e_finished s" "e_finished (snd (gemini_push_open debug parse to_str ev s))"
  shows "g_deferred (snd (gemini_push_open debug parse to_str ev s)) = []"
  using assms
  by (cases ev) (auto simp: case_prod_beta' Let_def note_item_calls hold_start_queue(4) [OF prod.collapse [symmetric]]
      append_gemini_args_def flush_fields gemini_finish_def split: sum.splits if_splits)

lemma gemini_pushes_queued:
  assumes "queued parse to_str fs own s" "e_finished s \<longrightarrow> g_deferred s = []" "list_all passes_queue evs"
    "gemini_pushes debug parse to_str evs s = (gs, t)"
  shows "queued parse to_str (fs @ gs) (own @ own_frames debug parse to_str evs s) t \<and> (e_finished t \<longrightarrow> g_deferred t = [])
    \<and> (e_finished s \<or> Done \<in> set evs \<longrightarrow> e_finished t)"
  using assms
proof (induction evs arbitrary: s fs own gs t)
  case (Cons ev evs)
  obtain r u where p: "gemini_push debug parse to_str ev s = (r, u)" by fastforce
  obtain hs v where rest: "gemini_pushes debug parse to_str evs u = (hs, v)" by fastforce
  have v: "v = t" "gs = (case r of Inr fs \<Rightarrow> fs | Inl _ \<Rightarrow> []) @ hs"
    using Cons.prems(4) by (simp_all add: p rest)
  show ?case
  proof (cases "e_finished s")
    case True
    then have "r = Inr []" "u = s" using p by (simp_all add: gemini_push_def)
    then show ?thesis
      using Cons.IH [OF Cons.prems(1,2) _ rest [unfolded \<open>u = s\<close>]] Cons.prems(3) v True by (simp add: p)
  next
    case False
    have p': "gemini_push_open debug parse to_str ev s = (r, u)" using p False by (simp add: gemini_push_def)
    obtain xs where r: "r = Inr xs" and q: "queued parse to_str (fs @ xs) (own @ own_frame debug parse to_str s ev) u"
      using gemini_push_queued [OF Cons.prems(1) _ False, of ev debug] Cons.prems(3) p' by auto
    have e: "e_finished u \<longrightarrow> g_deferred u = []"
      using gemini_push_open_end [OF False, of debug parse to_str ev] p' by simp
    have d: "ev = Done \<Longrightarrow> e_finished u"
      using p' False flush_fields [of parse to_str "s\<lparr>e_finished := True\<rparr>"]
      by (auto simp: gemini_finish_def case_prod_beta' Let_def)
    show ?thesis
      using Cons.IH [OF q e _ rest] Cons.prems(3) v r False d by (auto simp: p)
  qed
qed (simp add: queued_def)


text \<open>A started call collects its fragments.\<close>

lemma call_of_fragments:
  "call_of i (ToolCallStart id' name sig i # map (\<lambda>d. ToolCallArgDelta d i) ds) =
     Some \<lparr>gh_id = id', gh_name = name, gh_args = concat ds, gh_signature = sig, gh_custom = False\<rparr>"
proof -
  have "filter (\<lambda>ev. call_index ev = Some i) (map (\<lambda>d. ToolCallArgDelta d i) ds) = map (\<lambda>d. ToolCallArgDelta d i) ds"
    by (induction ds) simp_all
  moreover have "fold call_step (map (\<lambda>d. ToolCallArgDelta d i) ds) (Some c) = Some (c\<lparr>gh_args := gh_args c @ concat ds\<rparr>)" for c
    by (induction ds arbitrary: c) simp_all
  ultimately show ?thesis by (simp add: call_of_def)
qed

theorem gemini_calls_do_not_mix_witness:
  "\<exists>fs s. gemini_pushes (\<lambda>_. []) (\<lambda>_. None) (\<lambda>_. []) [ToolCallStart ''c'' ''f'' None 1, ToolCallArgDelta ''{}'' 1, TextDelta ''t'']
       (with_model ''m'' gemini_encoder_new) = (fs, s)
     \<and> fst (gemini_push (\<lambda>_. []) (\<lambda>_. None) (\<lambda>_. []) ToolCallEnd s) =
       Inr (List.map_filter (\<lambda>i. Option.bind
              (call_of i [ToolCallStart ''c'' ''f'' None 1, ToolCallArgDelta ''{}'' 1, TextDelta ''t''])
              (gemini_call_frame (\<lambda>_. None) (\<lambda>_. []) s))
            (sorted_list_of_set {i. call_of i [ToolCallStart ''c'' ''f'' None 1, ToolCallArgDelta ''{}'' 1, TextDelta ''t''] \<noteq> None})
          @ g_deferred s)"
proof -
  obtain fs s where r: "gemini_pushes (\<lambda>_. []) (\<lambda>_. None) (\<lambda>_. [])
      [ToolCallStart ''c'' ''f'' None 1, ToolCallArgDelta ''{}'' 1, TextDelta ''t''] (with_model ''m'' gemini_encoder_new) = (fs, s)"
    by fastforce
  from gemini_calls_do_not_mix [OF _ r] show ?thesis using r by (intro exI conjI) simp_all
qed


text \<open>A code part does not wait: it is written before text that came earlier and waits behind an open call.\<close>

lemma code_part_overtakes:
  assumes "jget p ''executableCode'' \<noteq> None"
  shows "\<exists>fs s raw. gemini_pushes debug (\<lambda>_. None) to_str
       [ToolCallStart ''c'' ''f'' None 0, TextDelta ''t'', Protocol ''gemini_code_part'' p] gemini_encoder_new = (fs, s)
     \<and> length fs = 1 \<and> own_frame debug (\<lambda>_. None) to_str gemini_encoder_new (TextDelta ''t'') = [raw] \<and> g_deferred s = [raw]"
  using assms
  by (simp add: gemini_push_def gemini_encoder_new_def encoder_new_def encoder.defs hold_gemini_start_def Let_def
      encode_stream_event_def gemini_encode_def attach_dest_model_def attach_dest_model_key_def nothing_to_attach_def
      push_code_part_def code_part_keys_def)

end
