(* ===== verification/Wm_Encoder_Converse.thy ===== *)
theory Wm_Encoder_Converse
  imports Wm_Encoder_Messages
begin

text \<open>
  \<open>StreamEncoder\<close> (\<open>stream/encoder.rs\<close>) for the Converse wire: content blocks with indexes, of which text and reasoning
  have no start frame, tool calls held back behind an open call until the end of the stream, and the metadata
  frame that takes the passed-through fields along. Frames are kept as JSON values; \<open>converse_render\<close> prints them.
  The record extends the state of Wm_Encoder_Messages by the fields this wire reads.
\<close>

section \<open>State\<close>

record converse_held =
  vh_id :: string
  vh_name :: string
  vh_signature :: "string option"
  vh_args :: string

record converse_encoder = encoder +
  v_passthrough :: "(string \<times> json) list"
  v_held :: "(u32 \<times> converse_held) list"

definition converse_encoder_new :: converse_encoder where
  "converse_encoder_new = encoder.extend encoder_new \<lparr>v_passthrough = [], v_held = []\<rparr>"

datatype converse_out = Block json | Forwarded raw_sse

fun converse_render :: "(json \<Rightarrow> string) \<Rightarrow> converse_out \<Rightarrow> raw_sse" where
  "converse_render to_str (Block v) = \<lparr>event = None, data = to_str v\<rparr>"
| "converse_render to_str (Forwarded raw) = raw"

type_synonym converse_written = "(map_error + converse_out list) \<times> converse_encoder"


section \<open>Frames\<close>

definition attach_block_index :: "u32 \<Rightarrow> json \<Rightarrow> json" where
  "attach_block_index index v =
     fold (\<lambda>key v. case jget v key of
             Some (JObject obj) \<Rightarrow> jinsert key (jinsert ''contentBlockIndex'' (json_u32 index) (JObject obj)) v
           | _ \<Rightarrow> v)
       [''contentBlockDelta'', ''contentBlockStart'', ''contentBlockStop''] v"

definition at_index :: "u32 \<Rightarrow> json \<Rightarrow> converse_out" where
  "at_index index v = Block (attach_block_index index v)"

definition stop_value :: json where
  "stop_value = json_obj [(''contentBlockStop'', json_obj [])]"

definition tool_input_value :: "string \<Rightarrow> json" where
  "tool_input_value text = delta_frame [(''toolUse'', json_obj [(''input'', JString text)])]"


section \<open>Blocks\<close>

definition close_converse ::
  "(string \<Rightarrow> json option) \<Rightarrow> (json \<Rightarrow> string) \<Rightarrow> converse_encoder \<Rightarrow> converse_out list \<times> converse_encoder" where
  "close_converse parse to_str s =
     (case e_open s of
        None \<Rightarrow> ([], s)
      | Some (index, _) \<Rightarrow>
          (let (text, s) = take_custom_json parse to_str index (s\<lparr>e_open := None\<rparr>)
           in ((case text of Some t \<Rightarrow> [at_index index (tool_input_value t)] | None \<Rightarrow> []) @ [at_index index stop_value], s)))"

definition ensure_converse_block ::
  "(string \<Rightarrow> json option) \<Rightarrow> (json \<Rightarrow> string) \<Rightarrow> block_kind \<Rightarrow> converse_encoder \<Rightarrow> converse_out list \<times> converse_encoder" where
  "ensure_converse_block parse to_str kind s =
     (if is_some_and (e_open s) (\<lambda>(_, k). k = kind) then ([], s)
      else
        let (out, s) = close_converse parse to_str s;
            index = e_next_block s
        in (out, s\<lparr>e_next_block := saturating_add index 1, e_open := Some (index, kind)\<rparr>))"

fun flush_converse_loop ::
  "(ir_stream_event \<Rightarrow> string) \<Rightarrow> (string \<Rightarrow> json option) \<Rightarrow> (json \<Rightarrow> string) \<Rightarrow> (u32 \<times> converse_held) list
     \<Rightarrow> converse_encoder \<Rightarrow> converse_written" where
  "flush_converse_loop debug parse to_str [] s = (Inr [], s)"
| "flush_converse_loop debug parse to_str ((enc, h) # held) s =
     (case converse_encode debug parse to_str (ToolCallStart (vh_id h) (vh_name h) (vh_signature h) enc) of
        Inl e \<Rightarrow> (Inl e, s)
      | Inr start \<Rightarrow>
          (let (text, s) = take_custom_json parse to_str enc s;
               arg = (case text of
                        Some t \<Rightarrow> [at_index enc (tool_input_value t)]
                      | None \<Rightarrow> if vh_args h \<noteq> [] then [at_index enc (tool_input_value (vh_args h))] else []);
               (rest, s) = flush_converse_loop debug parse to_str held s
           in (case rest of
                 Inl e \<Rightarrow> Inl e
               | Inr rest \<Rightarrow> Inr (at_index enc start # arg @ at_index enc stop_value # rest), s)))"

definition flush_converse_held ::
  "(ir_stream_event \<Rightarrow> string) \<Rightarrow> (string \<Rightarrow> json option) \<Rightarrow> (json \<Rightarrow> string) \<Rightarrow> converse_encoder \<Rightarrow> converse_written" where
  "flush_converse_held debug parse to_str s = flush_converse_loop debug parse to_str (v_held s) (s\<lparr>v_held := []\<rparr>)"


section \<open>Events\<close>

text \<open>A delta in the block of the given kind, opened first if need be.\<close>

definition converse_delta ::
  "(ir_stream_event \<Rightarrow> string) \<Rightarrow> (string \<Rightarrow> json option) \<Rightarrow> (json \<Rightarrow> string) \<Rightarrow> block_kind \<Rightarrow> ir_stream_event
     \<Rightarrow> converse_encoder \<Rightarrow> converse_written" where
  "converse_delta debug parse to_str kind ev s =
     (let (out, s) = ensure_converse_block parse to_str kind s;
          index = (case e_open s of Some (i, _) \<Rightarrow> i | None \<Rightarrow> 0)
      in (case converse_encode debug parse to_str ev of Inl e \<Rightarrow> Inl e | Inr v \<Rightarrow> Inr (out @ [at_index index v]), s))"

text \<open>A block that opens and closes at once.\<close>

definition converse_whole_block ::
  "(ir_stream_event \<Rightarrow> string) \<Rightarrow> (string \<Rightarrow> json option) \<Rightarrow> (json \<Rightarrow> string) \<Rightarrow> ir_stream_event \<Rightarrow> converse_encoder
     \<Rightarrow> converse_written" where
  "converse_whole_block debug parse to_str ev s =
     (case converse_encode debug parse to_str ev of
        Inl e \<Rightarrow> (Inl e, s)
      | Inr v \<Rightarrow>
          (let (out, s) = close_converse parse to_str s;
               index = e_next_block s
           in (Inr (out @ [at_index index v, at_index index stop_value]), s\<lparr>e_next_block := saturating_add index 1\<rparr>)))"

definition converse_tool_start ::
  "(ir_stream_event \<Rightarrow> string) \<Rightarrow> (string \<Rightarrow> json option) \<Rightarrow> (json \<Rightarrow> string) \<Rightarrow> bool \<Rightarrow> string \<Rightarrow> string
     \<Rightarrow> string option \<Rightarrow> u32 \<Rightarrow> converse_encoder \<Rightarrow> converse_written" where
  "converse_tool_start debug parse to_str custom id' name sig index s =
     (let (enc, s) = alloc_tool index s;
          other_open = is_some_and (e_open s) (\<lambda>(open_enc, kind). kind = ToolBlock \<and> open_enc \<noteq> enc);
          s = note_custom_slot enc custom s
      in if other_open then
           (Inr [], s\<lparr>v_held := bt_insert enc \<lparr>vh_id = id', vh_name = name, vh_signature = sig, vh_args = []\<rparr> (v_held s)\<rparr>)
         else
           (let (out, s) = close_converse parse to_str s
            in case converse_encode debug parse to_str (ToolCallStart id' name sig index) of
                 Inl e \<Rightarrow> (Inl e, s)
               | Inr v \<Rightarrow> (Inr (out @ [at_index enc v]), s\<lparr>e_open := Some (enc, ToolBlock)\<rparr>)))"

definition converse_tool_arg ::
  "(ir_stream_event \<Rightarrow> string) \<Rightarrow> (string \<Rightarrow> json option) \<Rightarrow> (json \<Rightarrow> string) \<Rightarrow> bool \<Rightarrow> string \<Rightarrow> u32
     \<Rightarrow> converse_encoder \<Rightarrow> converse_written" where
  "converse_tool_arg debug parse to_str custom delta index s =
     (let (enc, s) = tool_enc index s;
          custom = (custom \<or> e_custom_args s enc \<noteq> None)
      in case map_of (v_held s) enc of
           Some h \<Rightarrow>
             (Inr [], if custom then push_custom enc delta s
                      else s\<lparr>v_held := bt_insert enc (h\<lparr>vh_args := vh_args h @ delta\<rparr>) (v_held s)\<rparr>)
         | None \<Rightarrow>
             if custom then (Inr [], push_custom enc delta s)
             else (case converse_encode debug parse to_str (ToolCallArgDelta delta index) of
                     Inl e \<Rightarrow> Inl e | Inr v \<Rightarrow> Inr [at_index enc v], s))"

definition converse_usage ::
  "(ir_stream_event \<Rightarrow> string) \<Rightarrow> (string \<Rightarrow> json option) \<Rightarrow> (json \<Rightarrow> string) \<Rightarrow> ir_stream_event \<Rightarrow> converse_encoder
     \<Rightarrow> converse_written" where
  "converse_usage debug parse to_str ev s =
     (case converse_encode debug parse to_str ev of
        Inl e \<Rightarrow> (Inl e, s)
      | Inr frame \<Rightarrow>
          (case jget frame ''metadata'' of
             Some (JObject meta) \<Rightarrow>
               (Inr [Block (jinsert ''metadata'' (fold (\<lambda>(k, v). jinsert k v) (v_passthrough s) (JObject meta)) frame)],
                s\<lparr>v_passthrough := []\<rparr>)
           | _ \<Rightarrow> (Inr [Block frame], s)))"

definition converse_forward ::
  "(ir_stream_event \<Rightarrow> string) \<Rightarrow> (string \<Rightarrow> json option) \<Rightarrow> (json \<Rightarrow> string) \<Rightarrow> ir_stream_event \<Rightarrow> converse_encoder
     \<Rightarrow> converse_written" where
  "converse_forward debug parse to_str ev s =
     (case encode_stream_event debug parse to_str Converse ev of Inl e \<Rightarrow> Inl e | Inr raw \<Rightarrow> Inr [Forwarded raw], s)"

fun converse_arm ::
  "(ir_stream_event \<Rightarrow> string) \<Rightarrow> (string \<Rightarrow> json option) \<Rightarrow> (json \<Rightarrow> string) \<Rightarrow> bool \<Rightarrow> ir_stream_event
     \<Rightarrow> converse_encoder \<Rightarrow> converse_written" where
  "converse_arm debug parse to_str custom (TextDelta x) s = converse_delta debug parse to_str TextBlock (TextDelta x) s"
| "converse_arm debug parse to_str custom (ReasoningDelta x) s =
     converse_delta debug parse to_str ThinkingBlock (ReasoningDelta x) s"
| "converse_arm debug parse to_str custom (ReasoningSignature x) s =
     converse_delta debug parse to_str ThinkingBlock (ReasoningSignature x) s"
| "converse_arm debug parse to_str custom (ToolCallStart id' name sig index) s =
     converse_tool_start debug parse to_str custom id' name sig index s"
| "converse_arm debug parse to_str custom (ToolCallArgDelta delta index) s =
     converse_tool_arg debug parse to_str custom delta index s"
| "converse_arm debug parse to_str custom ToolCallEnd s =
     (let (out, s) = close_converse parse to_str s in (Inr out, s))"
| "converse_arm debug parse to_str custom (FinishReason reason _) s = (Inr [], s\<lparr>e_finish := Some reason\<rparr>)"
| "converse_arm debug parse to_str custom (ImageDelta m d) s = converse_whole_block debug parse to_str (ImageDelta m d) s"
| "converse_arm debug parse to_str custom (AudioDelta d) s = converse_whole_block debug parse to_str (AudioDelta d) s"
| "converse_arm debug parse to_str custom (Logprobs _ _) s = (Inr [], s)"
| "converse_arm debug parse to_str custom (Created _) s = (Inr [], s)"
| "converse_arm debug parse to_str custom (ServiceTier _) s = (Inr [], s)"
| "converse_arm debug parse to_str custom (Metadata _) s = (Inr [], s)"
| "converse_arm debug parse to_str custom (Moderation _ _) s = (Inr [], s)"
| "converse_arm debug parse to_str custom (Diagnostics _) s = (Inr [], s)"
| "converse_arm debug parse to_str custom (Container _) s = (Inr [], s)"
| "converse_arm debug parse to_str custom (ContextManagement _) s = (Inr [], s)"
| "converse_arm debug parse to_str custom (StopSequence _) s = (Inr [], s)"
| "converse_arm debug parse to_str custom (AudioTranscriptDelta x) s =
     converse_delta debug parse to_str TextBlock (AudioTranscriptDelta x) s"
| "converse_arm debug parse to_str custom (AnnotationAdded ann) s =
     converse_delta debug parse to_str TextBlock (AnnotationAdded ann) s"
| "converse_arm debug parse to_str custom (Usage p c cr cw r a ca geo) s =
     converse_usage debug parse to_str (Usage p c cr cw r a ca geo) s"
| "converse_arm debug parse to_str custom ev s = converse_forward debug parse to_str ev s"

definition push_converse ::
  "(ir_stream_event \<Rightarrow> string) \<Rightarrow> (string \<Rightarrow> json option) \<Rightarrow> (json \<Rightarrow> string) \<Rightarrow> ir_stream_event \<Rightarrow> converse_encoder
     \<Rightarrow> converse_written" where
  "push_converse debug parse to_str ev s =
     converse_arm debug parse to_str (is_custom ev) (custom_tool_as_function ev) s"

definition finish_converse ::
  "(ir_stream_event \<Rightarrow> string) \<Rightarrow> (string \<Rightarrow> json option) \<Rightarrow> (json \<Rightarrow> string) \<Rightarrow> converse_encoder \<Rightarrow> converse_written" where
  "finish_converse debug parse to_str s =
     (let (out, s) = close_converse parse to_str s;
          (held, s) = flush_converse_held debug parse to_str s
      in case held of
           Inl e \<Rightarrow> (Inl e, s)
         | Inr held \<Rightarrow>
             (let reason = unwrap_or (e_finish s) ''end_turn'';
                  s = s\<lparr>e_finish := None\<rparr>
              in (case encode_stream_event debug parse to_str Converse (FinishReason reason None) of
                    Inl e \<Rightarrow> Inl e | Inr raw \<Rightarrow> Inr (out @ held @ [Forwarded raw]), s)))"

definition converse_finish ::
  "(ir_stream_event \<Rightarrow> string) \<Rightarrow> (string \<Rightarrow> json option) \<Rightarrow> (json \<Rightarrow> string) \<Rightarrow> converse_encoder \<Rightarrow> converse_written" where
  "converse_finish debug parse to_str s =
     (if e_finished s then (Inr [], s) else finish_converse debug parse to_str (s\<lparr>e_finished := True\<rparr>))"

text \<open>\<open>push\<close> on this wire.\<close>

definition passthrough_items :: "string list" where
  "passthrough_items = [''additionalModelResponseFields'', ''metrics'', ''trace'', ''performanceConfig'']"

definition redacted_frame :: "string \<Rightarrow> json" where
  "redacted_frame blob =
     json_obj [(''contentBlockDelta'', json_obj [(''contentBlockIndex'', json_u64 0),
       (''delta'', json_obj [(''reasoningContent'', json_obj [(''redactedContent'', JString blob)])])])]"

fun converse_push_open ::
  "(ir_stream_event \<Rightarrow> string) \<Rightarrow> (string \<Rightarrow> json option) \<Rightarrow> (json \<Rightarrow> string) \<Rightarrow> ir_stream_event \<Rightarrow> converse_encoder
     \<Rightarrow> converse_written" where
  "converse_push_open debug parse to_str (Protocol ity p) s =
     (if ity \<in> set passthrough_items \<and> tool_extra_from_protocol ity p = None then
        (Inr [], s\<lparr>v_passthrough := v_passthrough s @ [(ity, p)]\<rparr>)
      else if ity = ''converse_redacted_content'' then
        (Inr (case ofilter (\<lambda>b. b \<noteq> []) (as_str p) of
                None \<Rightarrow> [] | Some blob \<Rightarrow> [Forwarded \<lparr>event = None, data = to_str (redacted_frame blob)\<rparr>]), s)
      else if ity \<noteq> ''converse_frame'' \<and> ity \<noteq> ''converse_citation'' \<and> (ity = ''messages_citation'' \<or> silent_item ity p) then
        (Inr [], s)
      else converse_forward debug parse to_str (Protocol ity p) s)"
| "converse_push_open debug parse to_str (Unknown name v) s = converse_forward debug parse to_str (Unknown name v) s"
| "converse_push_open debug parse to_str Done s = converse_finish debug parse to_str s"
| "converse_push_open debug parse to_str (Diagnostics _) s = (Inr [], s)"
| "converse_push_open debug parse to_str (Container _) s = (Inr [], s)"
| "converse_push_open debug parse to_str (ContextManagement _) s = (Inr [], s)"
| "converse_push_open debug parse to_str (StopSequence _) s = (Inr [], s)"
| "converse_push_open debug parse to_str (SearchEntryPoint _) s = (Inr [], s)"
| "converse_push_open debug parse to_str ev s = push_converse debug parse to_str ev s"

definition converse_push ::
  "(ir_stream_event \<Rightarrow> string) \<Rightarrow> (string \<Rightarrow> json option) \<Rightarrow> (json \<Rightarrow> string) \<Rightarrow> ir_stream_event \<Rightarrow> converse_encoder
     \<Rightarrow> converse_written" where
  "converse_push debug parse to_str ev s =
     (if e_finished s then (Inr [], s) else converse_push_open debug parse to_str ev s)"

end
