(* ===== verification/Wm_Encoder_Blocks.thy ===== *)
theory Wm_Encoder_Blocks
  imports Wm_Encoder_Converse Wm_Encoder_Chat Wm_Encoder_Stream
begin

text \<open>
  The block protocol of the Converse wire: every index is started once, by a start frame or by its first delta, grows
  while it is open and stops before another one starts. The encoder follows it for the events \<open>block_may_come\<close> describes;
  the lemmas at the end are the streams that leave it.
\<close>

section \<open>The block protocol\<close>

text \<open>A frame that carries one event of the given kind for a block.\<close>

definition marked :: "string \<Rightarrow> u32 \<Rightarrow> converse_out \<Rightarrow> bool" where
  "marked kind i f \<longleftrightarrow>
     (\<exists>obj. f = Block (JObject [(kind, JObject obj)]) \<and> map_of obj ''contentBlockIndex'' = Some (json_u32 i))"

text \<open>The block that is open, and the indexes that were started so far.\<close>

datatype block_phase = Blocks "u32 option" "u32 set" | Stopped

inductive bstep :: "(json \<Rightarrow> string) \<Rightarrow> block_phase \<Rightarrow> converse_out \<Rightarrow> block_phase \<Rightarrow> bool" for to_str where
  block_start: "i \<notin> D \<Longrightarrow> marked ''contentBlockStart'' i f \<Longrightarrow> bstep to_str (Blocks None D) f (Blocks (Some i) (insert i D))"
| first_delta: "i \<notin> D \<Longrightarrow> marked ''contentBlockDelta'' i f \<Longrightarrow> bstep to_str (Blocks None D) f (Blocks (Some i) (insert i D))"
| block_delta: "marked ''contentBlockDelta'' i f \<Longrightarrow> bstep to_str (Blocks (Some i) D) f (Blocks (Some i) D)"
| block_stop: "marked ''contentBlockStop'' i f \<Longrightarrow> bstep to_str (Blocks (Some i) D) f (Blocks None D)"
| metadata: "jget v ''metadata'' \<noteq> None \<Longrightarrow> bstep to_str p (Block v) p"
| forwarded: "bstep to_str p (Forwarded raw) p"
| message_stop: "bstep to_str (Blocks None D)
    (Forwarded \<lparr>event = None, data = to_str (json_obj [(''messageStop'', JObject [(''stopReason'', JString reason)])])\<rparr>) Stopped"

inductive bruns :: "(json \<Rightarrow> string) \<Rightarrow> block_phase \<Rightarrow> converse_out list \<Rightarrow> block_phase \<Rightarrow> bool" for to_str where
  bruns_nil: "bruns to_str p [] p"
| bruns_cons: "bstep to_str p f q \<Longrightarrow> bruns to_str q fs r \<Longrightarrow> bruns to_str p (f # fs) r"

inductive_simps bruns_Nil [simp]: "bruns to_str p [] q"

lemma bruns_append: "bruns to_str p fs q \<Longrightarrow> bruns to_str q gs r \<Longrightarrow> bruns to_str p (fs @ gs) r"
  by (induction rule: bruns.induct) (auto intro: bruns.intros)

lemma bruns_one: "bstep to_str p f q \<Longrightarrow> bruns to_str p [f] q"
  by (auto intro: bruns.intros)

lemma marked_at [simp]:
  "marked ''contentBlockStart'' i (at_index i (start_frame b))"
  "marked ''contentBlockDelta'' i (at_index i (delta_frame d))"
  "marked ''contentBlockDelta'' i (at_index i (tool_input_value txt))"
  "marked ''contentBlockStop'' i (at_index i stop_value)"
  by (simp_all add: marked_def at_index_def attach_block_index_def start_frame_def delta_frame_def stop_value_def
      tool_input_value_def json_obj_def)

lemmas block_runs = block_start [THEN bruns_cons] block_delta [THEN bruns_cons] block_stop [THEN bruns_cons]


section \<open>Operations\<close>

definition held_indexes :: "converse_encoder \<Rightarrow> u32 set" where
  "held_indexes s = fst ` set (v_held s)"

definition begun :: "converse_encoder \<Rightarrow> u32 set" where
  "begun s = {i. i < e_next_block s} - held_indexes s"

definition blocks_of :: "converse_encoder \<Rightarrow> block_phase" where
  "blocks_of s = (if e_finished s then Stopped else Blocks (map_option fst (e_open s)) (begun s))"

definition blocks_ok :: "converse_encoder \<Rightarrow> bool" where
  "blocks_ok s \<longleftrightarrow>
     bt_wf (v_held s) \<and> held_indexes s \<subseteq> {i. i < e_next_block s} \<and> (\<forall>i k. e_open s = Some (i, k) \<longrightarrow> i \<in> begun s)"

lemma input_then_stop:
  assumes "bruns to_str (Blocks None D) rest r"
  shows "bruns to_str (Blocks (Some i) D)
    ((case u of Some t \<Rightarrow> [at_index i (tool_input_value t)]
      | None \<Rightarrow> if a then [at_index i (tool_input_value x)] else []) @ at_index i stop_value # rest) r"
proof -
  have "bruns to_str (Blocks (Some i) D) (at_index i stop_value # rest) r"
    by (rule bruns_cons [OF block_stop assms]) simp
  then show ?thesis
    by (auto split: option.split intro: bruns_cons [OF block_delta])
qed

lemma take_custom_fields:
  "\<exists>u ca. take_custom_json parse to_str i s = (u, s\<lparr>e_custom_args := ca\<rparr>)" for s :: converse_encoder
proof (cases "e_custom_args s i")
  case None
  then show ?thesis by (intro exI [of _ None] exI [of _ "e_custom_args s"]) (simp add: take_custom_json_def)
qed (auto simp: take_custom_json_def Let_def)

lemma close_converse_runs:
  "\<exists>out ca. close_converse parse to_str s = (out, s\<lparr>e_open := None, e_custom_args := ca\<rparr>)
    \<and> bruns to_str (Blocks (map_option fst (e_open s)) D) out (Blocks None D)"
proof (cases "e_open s")
  case None
  then have "s = s\<lparr>e_open := None, e_custom_args := e_custom_args s\<rparr>" by simp
  then show ?thesis
    using None by (intro exI [of _ "[]"] exI [of _ "e_custom_args s"]) (simp add: close_converse_def)
next
  case (Some b)
  obtain i k where b: "b = (i, k)" by (cases b)
  obtain u ca where t: "take_custom_json parse to_str i (s\<lparr>e_open := None\<rparr>) = (u, s\<lparr>e_open := None, e_custom_args := ca\<rparr>)"
    using take_custom_fields [of parse to_str i "s\<lparr>e_open := None\<rparr>"] by auto
  show ?thesis
    using input_then_stop [where D = D and rest = "[]" and r = "Blocks None D" and i = i and u = u and a = False and to_str = to_str]
      Some
    by (cases u; intro exI [of _ "(case u of Some t \<Rightarrow> [at_index i (tool_input_value t)] | None \<Rightarrow> []) @ [at_index i stop_value]"]
      exI [of _ ca]; simp add: close_converse_def b t)
qed

lemma flush_converse_runs:
  assumes "distinct (map fst hs)" "fst ` set hs \<inter> D = {}"
  shows "\<exists>out ca. flush_converse_loop debug parse to_str hs s = (Inr out, s\<lparr>e_custom_args := ca\<rparr>)
    \<and> bruns to_str (Blocks None D) out (Blocks None (D \<union> fst ` set hs))"
  using assms
proof (induction hs arbitrary: s D)
  case Nil
  show ?case by (intro exI [of _ "[]"] exI [of _ "e_custom_args s"]) simp
next
  case (Cons h hs)
  obtain enc c where h: "h = (enc, c)" by (cases h)
  obtain u ca where t: "take_custom_json parse to_str enc s = (u, s\<lparr>e_custom_args := ca\<rparr>)"
    using take_custom_fields by blast
  obtain out cb where f: "flush_converse_loop debug parse to_str hs (s\<lparr>e_custom_args := ca\<rparr>) = (Inr out, s\<lparr>e_custom_args := cb\<rparr>)"
      "bruns to_str (Blocks None (insert enc D)) out (Blocks None (insert enc D \<union> fst ` set hs))"
    using Cons.IH [of "insert enc D" "s\<lparr>e_custom_args := ca\<rparr>"] Cons.prems by (auto simp: h)
  have "enc \<notin> D" using Cons.prems by (auto simp: h)
  from bruns_cons [OF block_start [OF this marked_at(1)] input_then_stop [where u = u and a = "vh_args c \<noteq> []" and x = "vh_args c" and i = enc, OF f(2)]]
  show ?case using f(1) by (intro exI conjI) (simp_all add: h t)
qed


section \<open>What may come next\<close>

text \<open>No index starts twice, and an argument fragment comes while its call is open or held back; \<open>bp_cur\<close> is the
  call whose block is open. A text, a block of its own or the end of a call closes it. The record counts the
  events.\<close>

record block_progress =
  bp_events :: nat
  bp_started :: "u32 set"
  bp_cur :: "u32 option"
  bp_waiting :: "u32 set"

definition no_blocks :: block_progress where
  "no_blocks = \<lparr>bp_events = 0, bp_started = {}, bp_cur = None, bp_waiting = {}\<rparr>"

fun block_may_come :: "block_progress \<Rightarrow> ir_stream_event \<Rightarrow> bool" where
  "block_may_come c (RefusalDelta _) = False"
| "block_may_come c (Protocol ity _) = (bp_events c < 2 ^ 32 - 1 \<and> ity \<noteq> ''converse_redacted_content'' \<and> ity \<noteq> ''converse_citation'')"
| "block_may_come c (ImageDelta m _) = (bp_events c < 2 ^ 32 - 1 \<and> converse_image_format m \<noteq> None)"
| "block_may_come c ev = (bp_events c < 2 ^ 32 - 1 \<and> call_started ev \<inter> bp_started c = {}
     \<and> call_continued ev \<subseteq> bp_waiting c \<union> set_option (bp_cur c))"

fun closes_block :: "ir_stream_event \<Rightarrow> bool" where
  "closes_block (TextDelta _) = True"
| "closes_block (ReasoningDelta _) = True"
| "closes_block (ReasoningSignature _) = True"
| "closes_block ToolCallEnd = True"
| "closes_block (ImageDelta _ _) = True"
| "closes_block (AudioDelta _) = True"
| "closes_block (AudioTranscriptDelta _) = True"
| "closes_block (AnnotationAdded _) = True"
| "closes_block _ = False"

definition block_came :: "ir_stream_event \<Rightarrow> block_progress \<Rightarrow> block_progress" where
  "block_came ev c =
     \<lparr>bp_events = Suc (bp_events c), bp_started = bp_started c \<union> call_started ev,
      bp_cur = (case ev of
          ToolCallStart _ _ _ i \<Rightarrow> (if bp_cur c = None then Some i else bp_cur c)
        | CustomToolCallStart _ _ i \<Rightarrow> (if bp_cur c = None then Some i else bp_cur c)
        | _ \<Rightarrow> if closes_block ev then None else bp_cur c),
      bp_waiting = bp_waiting c \<union> (if bp_cur c = None then {} else call_started ev)\<rparr>"

definition block_rel :: "block_progress \<Rightarrow> converse_encoder \<Rightarrow> bool" where
  "block_rel c s \<longleftrightarrow>
     blocks_ok s \<and> unat (e_next_block s) \<le> bp_events c \<and> bp_events c < 2 ^ 32
     \<and> (\<forall>i. i \<notin> bp_started c \<longrightarrow> unwrap_or (e_tool_slots s i) [] = [] \<and> e_last_tool s i = None)
     \<and> (case bp_cur c of
          None \<Rightarrow> (\<forall>i. e_open s \<noteq> Some (i, ToolBlock))
        | Some idx \<Rightarrow> (\<exists>enc. e_tool_slots s idx = Some [enc] \<and> e_open s = Some (enc, ToolBlock)))
     \<and> (\<forall>idx \<in> bp_waiting c. \<exists>enc. e_tool_slots s idx = Some [enc] \<and> enc \<in> held_indexes s)
     \<and> bp_waiting c \<union> set_option (bp_cur c) \<subseteq> bp_started c"



section \<open>One event\<close>

lemma below_succ: "unat n < 2 ^ 32 - 1 \<Longrightarrow> {i. i < saturating_add n (1::u32)} = insert n {i. i < n}"
  by (auto simp: word_less_nat_alt unat_saturating_add less_Suc_eq word_unat_eq_iff)

lemma block_opened:
  assumes "blocks_ok s" "unat (e_next_block s) < 2 ^ 32 - 1" "e_next_block t = saturating_add (e_next_block s) 1"
    "v_held t = v_held s" "e_open t = None \<or> e_open t = Some (e_next_block s, k)"
  shows "blocks_ok t" "begun t = insert (e_next_block s) (begun s)" "e_next_block s \<notin> begun s"
proof -
  show g: "begun t = insert (e_next_block s) (begun s)"
    using assms(1,3,4) below_succ [OF assms(2)] by (auto simp: begun_def held_indexes_def blocks_ok_def)
  show "blocks_ok t"
    using assms(1,3-5) g below_succ [OF assms(2)] by (auto simp: blocks_ok_def held_indexes_def)
qed (simp add: begun_def)

lemma block_rel_closed:
  assumes "block_rel c s" "bp_events c < 2 ^ 32 - 1" "blocks_ok t" "unat (e_next_block t) \<le> Suc (unat (e_next_block s))"
    "e_tool_slots t = e_tool_slots s" "e_last_tool t = e_last_tool s" "v_held t = v_held s"
    "\<And>i. e_open t \<noteq> Some (i, ToolBlock)"
    "bp_events c' = Suc (bp_events c)" "bp_started c' = bp_started c" "bp_cur c' = None" "bp_waiting c' = bp_waiting c"
  shows "block_rel c' t"
  using assms by (auto simp: block_rel_def held_indexes_def)

definition follows ::
  "(json \<Rightarrow> string) \<Rightarrow> block_progress \<Rightarrow> converse_encoder \<Rightarrow> converse_written \<Rightarrow> bool" where
  "follows to_str c s r \<longleftrightarrow>
     (\<exists>fs t. r = (Inr fs, t) \<and> bruns to_str (blocks_of s) fs (blocks_of t) \<and> block_rel c t \<and> \<not> e_finished t)"

lemma converse_delta_follows:
  assumes rel: "block_rel c s" "bp_events c < 2 ^ 32 - 1" "\<not> e_finished s" and kind: "kind \<noteq> ToolBlock"
    and enc: "converse_encode debug parse to_str ev = Inr (delta_frame d)" and ev: "closes_block ev" "call_started ev = {}"
  shows "follows to_str (block_came ev c) s (converse_delta debug parse to_str kind ev s)"
proof -
  have c': "bp_events (block_came ev c) = Suc (bp_events c)" "bp_started (block_came ev c) = bp_started c"
      "bp_cur (block_came ev c) = None" "bp_waiting (block_came ev c) = bp_waiting c"
    using ev by (cases ev; simp add: block_came_def)+
  have ok: "blocks_ok s" "unat (e_next_block s) < 2 ^ 32 - 1" using rel by (simp_all add: block_rel_def)
  show ?thesis
  proof (cases "is_some_and (e_open s) (\<lambda>(_, k). k = kind)")
    case True
    then obtain i where i: "e_open s = Some (i, kind)" by (auto simp: is_some_and_def split: option.splits)
    have "block_rel (block_came ev c) s"
      using i kind by (intro block_rel_closed [OF rel(1,2) ok(1)] c') auto
    then show ?thesis
      using True i rel(3) by (auto simp: follows_def converse_delta_def ensure_converse_block_def enc blocks_of_def
        intro!: bruns_one block_delta)
  next
    case False
    obtain out ca where o: "close_converse parse to_str s = (out, s\<lparr>e_open := None, e_custom_args := ca\<rparr>)"
        "bruns to_str (Blocks (map_option fst (e_open s)) (begun s)) out (Blocks None (begun s))"
      using close_converse_runs by blast
    let ?n = "e_next_block s"
    let ?t = "s\<lparr>e_open := Some (?n, kind), e_custom_args := ca, e_next_block := saturating_add ?n 1\<rparr>"
    have t: "blocks_ok ?t" "begun ?t = insert ?n (begun s)" "?n \<notin> begun s"
      using block_opened [OF ok, where k = kind and t = ?t] by simp_all
    have "block_rel (block_came ev c) ?t"
      using ok kind by (intro block_rel_closed [OF rel(1,2) t(1)] c') simp_all
    moreover have "bruns to_str (blocks_of s) (out @ [at_index ?n (delta_frame d)]) (blocks_of ?t)"
      using rel(3) bruns_append [OF o(2) bruns_one [OF first_delta [OF t(3) marked_at(2)]]]
      by (simp add: blocks_of_def t(2))
    ultimately show ?thesis
      using False rel(3) o(1) unfolding follows_def
      by (intro exI [of _ "out @ [at_index ?n (delta_frame d)]"] exI [of _ ?t])
        (simp add: converse_delta_def ensure_converse_block_def enc Let_def)
  qed
qed

lemma converse_whole_follows:
  assumes rel: "block_rel c s" "bp_events c < 2 ^ 32 - 1" "\<not> e_finished s"
    and enc: "converse_encode debug parse to_str ev = Inr (start_frame d)" and ev: "closes_block ev" "call_started ev = {}"
  shows "follows to_str (block_came ev c) s (converse_whole_block debug parse to_str ev s)"
proof -
  have c': "bp_events (block_came ev c) = Suc (bp_events c)" "bp_started (block_came ev c) = bp_started c"
      "bp_cur (block_came ev c) = None" "bp_waiting (block_came ev c) = bp_waiting c"
    using ev by (cases ev; simp add: block_came_def)+
  have ok: "blocks_ok s" "unat (e_next_block s) < 2 ^ 32 - 1" using rel by (simp_all add: block_rel_def)
  obtain out ca where o: "close_converse parse to_str s = (out, s\<lparr>e_open := None, e_custom_args := ca\<rparr>)"
      "bruns to_str (Blocks (map_option fst (e_open s)) (begun s)) out (Blocks None (begun s))"
    using close_converse_runs by blast
  let ?n = "e_next_block s"
  let ?t = "s\<lparr>e_open := None, e_custom_args := ca, e_next_block := saturating_add ?n 1\<rparr>"
  let ?fs = "[at_index ?n (start_frame d), at_index ?n stop_value]"
  have t: "blocks_ok ?t" "begun ?t = insert ?n (begun s)" "?n \<notin> begun s"
    using block_opened [OF ok, where t = ?t] by simp_all
  have "block_rel (block_came ev c) ?t"
    using ok by (intro block_rel_closed [OF rel(1,2) t(1)] c') simp_all
  moreover have "bruns to_str (blocks_of s) (out @ ?fs) (blocks_of ?t)"
    using rel(3) bruns_append [OF o(2) bruns_cons [OF block_start [OF t(3) marked_at(1)] bruns_one [OF block_stop [OF marked_at(4)]]]]
    by (simp add: blocks_of_def t(2))
  ultimately show ?thesis
    using rel(3) o(1) unfolding follows_def
    by (intro exI [of _ "out @ ?fs"] exI [of _ ?t]) (simp add: converse_whole_block_def enc Let_def)
qed


lemma note_custom_slot_ca: "\<exists>ca. note_custom_slot enc custom s = s\<lparr>e_custom_args := ca\<rparr>" for s :: converse_encoder
proof (cases custom)
  case False
  then show ?thesis by (intro exI [of _ "e_custom_args s"]) (simp add: note_custom_slot_def)
qed (auto simp: note_custom_slot_def)

text \<open>The state after a call took the next index as its slot.\<close>

lemma slot_taken:
  assumes "unwrap_or (e_tool_slots s idx) [] = []"
  shows "\<exists>g. note_custom_slot (e_next_block s) custom (snd (alloc_tool idx s)) = (s :: converse_encoder)
    \<lparr>e_next_block := saturating_add (e_next_block s) 1, e_used_tool := insert (e_next_block s) (e_used_tool s),
     e_next_tool := max (e_next_tool s) (saturating_add (e_next_block s) 1),
     e_tool_slots := (e_tool_slots s)(idx \<mapsto> [e_next_block s]),
     e_last_tool := (e_last_tool s)(idx \<mapsto> e_next_block s), e_custom_args := g\<rparr>"
  using assms note_custom_slot_ca [of "e_next_block s" custom "snd (alloc_tool idx s)"]
  by (auto simp: alloc_tool_def record_slot_def Let_def)

lemma converse_tool_start_eq:
  "converse_tool_start debug parse to_str custom id' name sig idx s =
     (let enc = e_next_block s; t = note_custom_slot enc custom (snd (alloc_tool idx s))
      in if is_some_and (e_open s) (\<lambda>(open_enc, kind). kind = ToolBlock \<and> open_enc \<noteq> enc) then
           (Inr [], t\<lparr>v_held := bt_insert enc \<lparr>vh_id = id', vh_name = name, vh_signature = sig, vh_args = []\<rparr> (v_held t)\<rparr>)
         else
           (Inr (fst (close_converse parse to_str t) @ [at_index enc
              (start_frame [(''toolUse'', json_obj [(''toolUseId'', JString id'), (''name'', JString name)])])]),
            (snd (close_converse parse to_str t))\<lparr>e_open := Some (enc, ToolBlock)\<rparr>))"
  by (simp add: converse_tool_start_def alloc_tool_def record_slot_def Let_def case_prod_beta)

lemma converse_tool_start_follows:
  assumes rel: "block_rel c s" "bp_events c < 2 ^ 32 - 1" "\<not> e_finished s" and idx: "idx \<notin> bp_started c"
    and c': "bp_events c' = Suc (bp_events c)" "bp_started c' = insert idx (bp_started c)"
      "bp_cur c' = (if bp_cur c = None then Some idx else bp_cur c)"
      "bp_waiting c' = bp_waiting c \<union> (if bp_cur c = None then {} else {idx})"
  shows "follows to_str c' s (converse_tool_start debug parse to_str custom id' name sig idx s)"
proof -
  let ?n = "e_next_block s"
  have ok: "blocks_ok s" "unat ?n < 2 ^ 32 - 1" using rel by (simp_all add: block_rel_def)
  have slots: "unwrap_or (e_tool_slots s idx) [] = []" using rel(1) idx by (simp add: block_rel_def)
  obtain g where a: "note_custom_slot ?n custom (snd (alloc_tool idx s)) = s
     \<lparr>e_next_block := saturating_add ?n 1, e_used_tool := insert ?n (e_used_tool s),
      e_next_tool := max (e_next_tool s) (saturating_add ?n 1), e_tool_slots := (e_tool_slots s)(idx \<mapsto> [?n]),
      e_last_tool := (e_last_tool s)(idx \<mapsto> ?n), e_custom_args := g\<rparr>" (is "_ = ?s")
    using slot_taken [OF slots, of custom] by blast
  have new: "i \<notin> bp_started c' \<longrightarrow> unwrap_or (e_tool_slots ?s i) [] = [] \<and> e_last_tool ?s i = None" for i
    using rel(1) by (auto simp: c' block_rel_def)
  show ?thesis
  proof (cases "bp_cur c")
    case (Some j)
    then obtain e where e: "e_open s = Some (e, ToolBlock)" "e_tool_slots s j = Some [e]" using rel(1) by (auto simp: block_rel_def)
    moreover have "e \<noteq> ?n" using e ok(1) by (auto simp: blocks_ok_def begun_def)
    ultimately have held: "is_some_and (e_open s) (\<lambda>(o', kind). kind = ToolBlock \<and> o' \<noteq> ?n)" by (simp add: is_some_and_def)
    let ?h = "\<lparr>vh_id = id', vh_name = name, vh_signature = sig, vh_args = []\<rparr>"
    let ?t = "?s\<lparr>v_held := bt_insert ?n ?h (v_held s)\<rparr>"
    have i: "held_indexes ?t = insert ?n (held_indexes s)" by (simp add: held_indexes_def)
    have b: "begun ?t = begun s" using below_succ [OF ok(2)] by (auto simp: begun_def i)
    have "blocks_ok ?t" using ok below_succ [OF ok(2)] by (auto simp: blocks_ok_def b) (auto simp: i)
    moreover have "\<exists>enc. e_tool_slots ?t l = Some [enc] \<and> enc \<in> held_indexes ?t" if "l \<in> bp_waiting c'" for l
      using rel(1) that idx Some by (cases "l = idx") (auto simp: block_rel_def c' i)
    moreover have "j \<noteq> idx" using rel(1) idx Some by (auto simp: block_rel_def)
    ultimately have "block_rel c' ?t"
      using rel new e Some ok(2) by (auto simp: block_rel_def c')
    moreover have "blocks_of ?t = blocks_of s" by (simp add: blocks_of_def b)
    ultimately show ?thesis
      using held rel(3) unfolding follows_def
      by (intro exI [of _ "[]"] exI [of _ ?t]) (simp add: converse_tool_start_eq a Let_def bruns_nil)
  next
    case None
    then have held: "\<not> is_some_and (e_open s) (\<lambda>(o', kind). kind = ToolBlock \<and> o' \<noteq> ?n)"
      using rel(1) by (auto simp: block_rel_def is_some_and_def split: option.splits)
    obtain out ca where o: "close_converse parse to_str ?s = (out, ?s\<lparr>e_open := None, e_custom_args := ca\<rparr>)"
        "bruns to_str (Blocks (map_option fst (e_open ?s)) (begun s)) out (Blocks None (begun s))"
      using close_converse_runs by blast
    let ?t = "?s\<lparr>e_open := None, e_custom_args := ca, e_open := Some (?n, ToolBlock)\<rparr>"
    let ?v = "start_frame [(''toolUse'', json_obj [(''toolUseId'', JString id'), (''name'', JString name)])]"
    have t: "blocks_ok ?t" "begun ?t = insert ?n (begun s)" "?n \<notin> begun s"
      using block_opened [OF ok, where k = ToolBlock and t = ?t] by simp_all
    have "blocks_of ?t = Blocks (Some ?n) (insert ?n (begun s))"
      unfolding blocks_of_def t(2) using rel(3) by simp
    note phase = this
    have "held_indexes ?t = held_indexes s" by (simp add: held_indexes_def)
    moreover have "\<exists>enc. e_tool_slots ?t l = Some [enc] \<and> enc \<in> held_indexes s" if "l \<in> bp_waiting c'" for l
      using rel(1) that idx None by (cases "l = idx") (auto simp: block_rel_def c')
    ultimately have "block_rel c' ?t"
      using rel new None ok(2) t(1) by (auto simp: block_rel_def c')
    moreover have "bruns to_str (blocks_of s) (out @ [at_index ?n ?v]) (blocks_of ?t)"
      unfolding phase
      using rel(3) bruns_append [OF o(2) bruns_one [OF block_start [OF t(3) marked_at(1)]]] by (simp add: blocks_of_def)
    ultimately show ?thesis
      using held rel(3) unfolding follows_def
      by (intro exI [of _ "out @ [at_index ?n ?v]"] exI [of _ ?t]) (simp add: converse_tool_start_eq a o(1) Let_def)
  qed
qed


lemma same_blocks_follow:
  assumes rel: "block_rel c s" "bp_events c < 2 ^ 32 - 1" "\<not> e_finished s"
    and t: "e_next_block t = e_next_block s" "e_open t = e_open s" "e_tool_slots t = e_tool_slots s"
      "e_last_tool t = e_last_tool s" "held_indexes t = held_indexes s" "bt_wf (v_held t)" "e_finished t = e_finished s"
    and c': "bp_events c' = Suc (bp_events c)" "bp_started c' = bp_started c" "bp_cur c' = bp_cur c" "bp_waiting c' = bp_waiting c"
    and fs: "bruns to_str (blocks_of s) fs (blocks_of s)"
  shows "follows to_str c' s (Inr fs, t)"
proof -
  have b: "begun t = begun s" by (simp add: begun_def t)
  then have "block_rel c' t" using rel t c' by (cases "bp_cur c") (simp_all add: block_rel_def blocks_ok_def)
  then show ?thesis using rel(3) t b fs by (simp add: follows_def blocks_of_def)
qed

lemma converse_tool_arg_follows:
  assumes rel: "block_rel c s" "bp_events c < 2 ^ 32 - 1" "\<not> e_finished s"
    and idx: "idx \<in> bp_waiting c \<union> set_option (bp_cur c)"
    and c': "bp_events c' = Suc (bp_events c)" "bp_started c' = bp_started c" "bp_cur c' = bp_cur c" "bp_waiting c' = bp_waiting c"
  shows "follows to_str c' s (converse_tool_arg debug parse to_str custom delta idx s)"
proof -
  obtain e where e: "e_tool_slots s idx = Some [e]" "e \<in> held_indexes s \<or> e_open s = Some (e, ToolBlock)"
    using rel(1) idx by (auto simp: block_rel_def)
  let ?s = "s\<lparr>e_tool_got_arg := insert e (e_tool_got_arg s), e_tool_slots := e_tool_slots s\<rparr>"
  have k: "tool_enc idx s = (e, ?s)"
    using e(1) by (simp add: tool_enc_def known_slot_def fun_upd_idem)
  have wf: "bt_wf (v_held s)" using rel(1) by (simp add: block_rel_def blocks_ok_def)
  note same = same_blocks_follow [OF rel _ _ _ _ _ _ _ c']
  show ?thesis
  proof (cases "map_of (v_held s) e")
    case (Some h)
    then have h: "insert e (fst ` set (v_held s)) = fst ` set (v_held s)" by (force dest: map_of_SomeD)
    show ?thesis
      by (simp add: converse_tool_arg_def k Some Let_def push_custom_def)
        (intro conjI impI same; simp add: wf held_indexes_def h bruns_nil)
  next
    case None
    then have o: "e_open s = Some (e, ToolBlock)" using e(2) by (auto simp: held_indexes_def map_of_eq_None_iff)
    have "bruns to_str (blocks_of s) [at_index e (delta_frame [(''toolUse'', json_obj [(''input'', JString delta)])])] (blocks_of s)"
      using o rel(3) by (simp add: blocks_of_def bruns_one [OF block_delta])
    then show ?thesis
      by (simp add: converse_tool_arg_def k None Let_def push_custom_def)
        (intro conjI impI same; simp add: wf held_indexes_def bruns_nil)
  qed
qed

lemma close_converse_follows:
  assumes rel: "block_rel c s" "bp_events c < 2 ^ 32 - 1" "\<not> e_finished s"
    and c': "bp_events c' = Suc (bp_events c)" "bp_started c' = bp_started c" "bp_cur c' = None" "bp_waiting c' = bp_waiting c"
  shows "follows to_str c' s (let (out, s) = close_converse parse to_str s in (Inr out, s))"
proof -
  obtain out ca where o: "close_converse parse to_str s = (out, s\<lparr>e_open := None, e_custom_args := ca\<rparr>)"
      "bruns to_str (Blocks (map_option fst (e_open s)) (begun s)) out (Blocks None (begun s))"
    using close_converse_runs by blast
  define t where "t = s\<lparr>e_open := None, e_custom_args := ca\<rparr>"
  have b: "begun t = begun s" by (simp add: begun_def held_indexes_def t_def)
  have "blocks_ok t" using rel(1) b by (simp add: block_rel_def blocks_ok_def held_indexes_def t_def)
  then have "block_rel c' t"
    by (intro block_rel_closed [OF rel(1,2)] c') (simp_all add: t_def)
  then show ?thesis
    using rel(3) o b by (auto simp: follows_def blocks_of_def simp flip: t_def) (simp_all add: t_def)
qed

lemma converse_usage_follows:
  assumes rel: "block_rel c s" "bp_events c < 2 ^ 32 - 1" "\<not> e_finished s"
    and c': "bp_events c' = Suc (bp_events c)" "bp_started c' = bp_started c" "bp_cur c' = bp_cur c" "bp_waiting c' = bp_waiting c"
  shows "follows to_str c' s (converse_usage debug parse to_str (Usage p q cr cw r a ca geo) s)"
proof -
  obtain m where m: "json_obj [(''usage'', encode_converse_usage p q cr cw)] = JObject m" by (simp add: json_obj_def)
  have "bruns to_str (blocks_of s) [Block (jinsert ''metadata'' v (json_obj [(''metadata'', JObject m)]))] (blocks_of s)" for v
    by (rule bruns_one [OF metadata]) (simp add: json_obj_def)
  then show ?thesis
    using rel(1)
    by (simp add: converse_usage_def m)
      (rule same_blocks_follow [OF rel _ _ _ _ _ _ _ c']; simp add: held_indexes_def block_rel_def blocks_ok_def)
qed



section \<open>Streams\<close>

lemma came_same:
  assumes "\<not> closes_block ev" "call_started ev = {}"
  shows "bp_events (block_came ev c) = Suc (bp_events c)" "bp_started (block_came ev c) = bp_started c"
    "bp_cur (block_came ev c) = bp_cur c" "bp_waiting (block_came ev c) = bp_waiting c"
  using assms by (cases ev; simp add: block_came_def)+

fun forwarded_event :: "ir_stream_event \<Rightarrow> bool" where
  "forwarded_event Done = True"
| "forwarded_event (Protocol _ _) = True"
| "forwarded_event (Unknown _ _) = True"
| "forwarded_event (SearchEntryPoint _) = True"
| "forwarded_event _ = False"

lemma converse_arm_follows:
  assumes rel: "block_rel c s" "bp_events c < 2 ^ 32 - 1" "\<not> e_finished s" and may: "block_may_come c ev"
    and ev: "\<not> is_custom ev" "\<not> forwarded_event ev"
  shows "follows to_str (block_came ev c) s (converse_arm debug parse to_str custom ev s)"
proof -
  note delta = converse_delta_follows [OF rel]
  note whole = converse_whole_follows [OF rel]
  have quiet: "follows to_str (block_came ev c) s (Inr [], t)"
    if "\<not> closes_block ev" "call_started ev = {}" "t = s \<or> (\<exists>r. t = s\<lparr>e_finish := r\<rparr>)" for t
    using rel(1) that
    by (intro same_blocks_follow [OF rel _ _ _ _ _ _ _ came_same])
      (auto simp: held_indexes_def block_rel_def blocks_ok_def bruns_nil)
  show ?thesis
  proof (cases ev)
    case (ToolCallStart i n g idx)
    show ?thesis
      unfolding ToolCallStart converse_arm.simps
      by (rule converse_tool_start_follows [OF rel]) (use may ToolCallStart in \<open>simp_all add: block_came_def\<close>)
  next
    case (ToolCallArgDelta d idx)
    show ?thesis
      unfolding ToolCallArgDelta converse_arm.simps
      by (rule converse_tool_arg_follows [OF rel]) (use may ToolCallArgDelta in \<open>simp_all add: block_came_def\<close>)
  next
    case ToolCallEnd
    then show ?thesis
      using close_converse_follows [OF rel, of "block_came ev c"] by (simp add: block_came_def)
  next
    case (Usage p q cr cw r a ca geo)
    show ?thesis
      unfolding Usage converse_arm.simps by (rule converse_usage_follows [OF rel]) (simp_all add: block_came_def)
  next
    case (ImageDelta m d)
    then obtain f where "converse_image_format m = Some f" using may by auto
    with ImageDelta show ?thesis by (simp add: whole)
  qed (use ev quiet in \<open>auto simp: delta whole is_custom_def intro: may\<close>, use may in simp)
qed


lemma push_converse_follows:
  assumes rel: "block_rel c s" "bp_events c < 2 ^ 32 - 1" "\<not> e_finished s" and may: "block_may_come c ev"
    and ev: "\<not> forwarded_event ev"
  shows "follows to_str (block_came ev c) s (push_converse debug parse to_str ev s)"
proof -
  let ?ev = "custom_tool_as_function ev"
  have "block_may_come c ?ev" "block_came ?ev c = block_came ev c" "\<not> is_custom ?ev" "\<not> forwarded_event ?ev"
    using may ev by (cases ev; simp add: custom_tool_as_function_def block_came_def is_custom_def)+
  then show ?thesis
    using converse_arm_follows [OF rel, of ?ev to_str debug parse "is_custom ev"] by (simp add: push_converse_def)
qed

lemma finish_converse_runs:
  assumes "block_rel c s" "\<not> e_finished s"
  shows "\<exists>fs t. converse_finish debug parse to_str s = (Inr fs, t) \<and> bruns to_str (blocks_of s) fs Stopped \<and> e_finished t"
proof -
  let ?s = "s\<lparr>e_finished := True\<rparr>"
  obtain out ca where o: "close_converse parse to_str ?s = (out, ?s\<lparr>e_open := None, e_custom_args := ca\<rparr>)"
      "bruns to_str (Blocks (map_option fst (e_open ?s)) (begun s)) out (Blocks None (begun s))"
    using close_converse_runs by blast
  let ?t = "?s\<lparr>e_open := None, e_custom_args := ca, v_held := []\<rparr>"
  have "distinct (map fst (v_held s))" "fst ` set (v_held s) \<inter> begun s = {}"
    using assms(1) by (auto simp: block_rel_def blocks_ok_def bt_wf_distinct begun_def held_indexes_def)
  from flush_converse_runs [OF this, where s = ?t and debug = debug and parse = parse and to_str = to_str]
  obtain held cb where f: "flush_converse_loop debug parse to_str (v_held s) ?t = (Inr held, ?t\<lparr>e_custom_args := cb\<rparr>)"
      "bruns to_str (Blocks None (begun s)) held (Blocks None (begun s \<union> fst ` set (v_held s)))" by blast
  define reason where "reason = converse_finish_reason (unwrap_or (e_finish s) ''end_turn'')"
  define raw :: raw_sse where
    "raw = \<lparr>event = None, data = to_str (json_obj [(''messageStop'', JObject [(''stopReason'', JString reason)])])\<rparr>"
  have "bruns to_str (blocks_of s) (out @ held @ [Forwarded raw]) Stopped"
    using assms(2) bruns_append [OF o(2) bruns_append [OF f(2) bruns_one [OF message_stop]]]
    by (simp add: blocks_of_def raw_def)
  moreover have "encode_stream_event debug parse to_str Converse (FinishReason (unwrap_or (e_finish s) ''end_turn'') None) = Inr raw"
    by (simp add: encode_stream_event_def raw_def reason_def json_obj_def)
  ultimately show ?thesis
    using assms(2) o(1) f(1) by (simp add: converse_finish_def finish_converse_def flush_converse_held_def Let_def)
qed

definition blocks_stream_rel :: "block_progress \<Rightarrow> converse_encoder \<Rightarrow> bool" where
  "blocks_stream_rel c s \<longleftrightarrow> e_finished s \<or> block_rel c s"

lemma converse_push_open_follows:
  assumes rel: "block_rel c s" "bp_events c < 2 ^ 32 - 1" "\<not> e_finished s" and may: "block_may_come c ev"
    and ev: "ev \<noteq> Done"
  shows "follows to_str (block_came ev c) s (converse_push_open debug parse to_str ev s)"
proof -
  have side: "follows to_str (block_came ev c) s (Inr fs, t)"
    if "\<not> closes_block ev" "call_started ev = {}" "t = s \<or> (\<exists>r. t = s\<lparr>v_passthrough := r\<rparr>)" "fs = [] \<or> (\<exists>raw. fs = [Forwarded raw])"
    for t fs
    using rel(1) that
    by (intro same_blocks_follow [OF rel _ _ _ _ _ _ _ came_same])
      (auto simp: held_indexes_def block_rel_def blocks_ok_def bruns_nil intro: bruns_one [OF forwarded])
  have quiet: "follows to_str (block_came ev c) s (Inr [], s)" if "\<not> closes_block ev" "call_started ev = {}"
    by (rule side) (use that in simp_all)
  show ?thesis
  proof (cases "forwarded_event ev")
    case True
    show ?thesis
    proof (cases ev)
      case (Protocol ity p)
      have "converse_forward debug parse to_str (Protocol ity p) s = (Inr fs, t) \<Longrightarrow>
          t = s \<and> (\<exists>raw. fs = [Forwarded raw])" for fs t
        by (auto simp: converse_forward_def encode_stream_event_def split: if_splits)
      moreover have "\<exists>fs t. converse_forward debug parse to_str (Protocol ity p) s = (Inr fs, t)"
        by (simp add: converse_forward_def encode_stream_event_def)
      ultimately obtain raw where f: "converse_forward debug parse to_str (Protocol ity p) s = (Inr [Forwarded raw], s)"
        by blast
      have "follows to_str (block_came ev c) s (Inr [], s\<lparr>v_passthrough := v_passthrough s @ [(ity, p)]\<rparr>)"
          "follows to_str (block_came ev c) s (Inr [], s)" "follows to_str (block_came ev c) s (Inr [Forwarded raw], s)"
        by (rule side; auto simp: Protocol)+
      moreover have "ity \<noteq> ''converse_redacted_content''" using may by (simp add: Protocol)
      ultimately show ?thesis
        unfolding Protocol converse_push_open.simps f by simp
    next
      case (Unknown n v)
      have "follows to_str (block_came ev c) s (Inr [Forwarded (encode_named to_str n v)], s)"
        by (rule side) (simp_all add: Unknown)
      then show ?thesis by (simp add: Unknown converse_forward_def encode_stream_event_def)
    next
      case (SearchEntryPoint x)
      then show ?thesis using quiet by simp
    qed (use True ev in simp_all)
  next
    case False
    note push = push_converse_follows [OF rel may False, of to_str debug parse]
    show ?thesis using False push quiet by (cases ev) simp_all
  qed
qed

lemma converse_push_follows:
  assumes rel: "blocks_stream_rel c s" and may: "block_may_come c ev"
  shows "\<exists>fs s'. converse_push debug parse to_str ev s = (Inr fs, s') \<and> bruns to_str (blocks_of s) fs (blocks_of s')
    \<and> blocks_stream_rel (block_came ev c) s'"
proof (cases "e_finished s")
  case True
  then show ?thesis by (simp add: converse_push_def blocks_stream_rel_def)
next
  case False
  have c: "block_rel c s" "bp_events c < 2 ^ 32 - 1"
    using rel False may by (cases ev; simp add: blocks_stream_rel_def)+
  show ?thesis
  proof (cases "ev = Done")
    case True
    then show ?thesis
      using finish_converse_runs [OF c(1) False, of debug parse to_str] False
      by (auto simp: converse_push_def blocks_of_def blocks_stream_rel_def)
  next
    case ev: False
    show ?thesis
      using converse_push_open_follows [OF c False may ev, of to_str debug parse] False
      by (auto simp: follows_def converse_push_def blocks_stream_rel_def)
  qed
qed

lemma converse_finish_follows:
  assumes "blocks_stream_rel c s"
  shows "\<exists>fs s'. converse_finish debug parse to_str s = (Inr fs, s') \<and> bruns to_str (blocks_of s) fs Stopped"
  using assms finish_converse_runs [of c s debug parse to_str]
  by (cases "e_finished s") (auto simp: blocks_stream_rel_def converse_finish_def blocks_of_def)

interpretation converse_stream: protocol_encoder
  "converse_push debug parse to_str" "converse_finish debug parse to_str" "bruns to_str" blocks_of Stopped
  blocks_stream_rel block_may_come block_came
  for debug parse to_str
proof unfold_locales
  show "\<exists>fs s'. converse_finish debug parse to_str s = (Inr fs, s') \<and> bruns to_str (blocks_of s) fs Stopped"
    if "blocks_stream_rel c s" for c s
    using converse_finish_follows [OF that] .
qed (auto intro: bruns_nil bruns_append converse_push_follows)



text \<open>Text between two fragments of a call closes its block, and the second fragment is written to it all the same.\<close>

lemma late_fragment_reopens:
  "\<exists>a b c. projr (whole_stream (converse_push debug parse to_str) (converse_finish debug parse to_str)
      [ToolCallStart ''c'' ''f'' None 0, TextDelta ''a'', ToolCallArgDelta ''{}'' 0] converse_encoder_new)
    = [a, at_index 0 stop_value, b, at_index 0 (tool_input_value ''{}''), at_index 1 stop_value, c]"
  by (simp add: whole_stream_def converse_push_def converse_finish_def finish_converse_def flush_converse_held_def
    converse_encoder_new_def encoder_new_def encoder.defs push_converse_def converse_tool_start_def converse_tool_arg_def
    converse_delta_def ensure_converse_block_def close_converse_def take_custom_json_def alloc_tool_def tool_enc_def
    known_slot_def record_slot_def note_custom_slot_def custom_tool_as_function_def is_custom_def is_some_and_def
    Let_def unwrap_or_def saturating_add_def encode_stream_event_def tool_input_value_def)

text \<open>A refusal fragment names no block.\<close>

lemma refusal_names_no_block:
  "fst (converse_push debug parse to_str (RefusalDelta x) converse_encoder_new)
    = Inr [Forwarded \<lparr>event = None, data = to_str (delta_frame [(''text'', JString x)])\<rparr>]"
  by (simp add: converse_push_def converse_encoder_new_def encoder_new_def encoder.defs push_converse_def
    custom_tool_as_function_def is_custom_def converse_forward_def encode_stream_event_def)

end
