(* ===== verification/Wm_Encoder_Responses.thy ===== *)
theory Wm_Encoder_Responses
  imports Wm_Encoder_Messages
begin

text \<open>
  \<open>StreamEncoder\<close> (\<open>stream/encoder.rs\<close>) for the Responses wire: output items that are added, grow and are done one
  at a time, function calls held back behind an open call until the end of the stream, the parts of a message, the
  extras of calls that may arrive before their call, and the terminal response. The record extends the state of
  Wm_Encoder_Messages by the fields this wire reads.
\<close>

section \<open>State\<close>

record responses_encoder = encoder +
  r_created_at :: "int option"
  r_metadata :: "(string \<times> string) list option"
  r_moderation :: "(json option \<times> json option) option"
  r_id :: "string option"
  r_previous_id :: "string option"
  r_message_id :: "string option"
  r_message_status :: "string option"
  r_message_phase :: "string option"
  r_message_agent :: "json option"
  r_reasoning_id :: "string option"
  r_reasoning_status :: "string option"
  r_reasoning_content :: "json option"
  r_tool_items :: "u32 \<Rightarrow> (string \<times> string \<times> string) option"
  r_tool_pending :: "u32 \<Rightarrow> tool_extra option"
  r_tool_extra :: "u32 \<Rightarrow> tool_extra option"
  r_text_items :: "u32 \<Rightarrow> string option"
  r_message_parts :: "u32 \<Rightarrow> json list option"
  r_text_annotations :: "u32 \<Rightarrow> json list option"
  r_text_logprobs :: "u32 \<Rightarrow> json list option"
  r_refusal_items :: "u32 \<Rightarrow> string option"
  r_reasoning_items :: "u32 \<Rightarrow> string option"
  r_held :: "(u32 \<times> unit) list"

definition responses_encoder_new :: responses_encoder where
  "responses_encoder_new =
     encoder.extend encoder_new
       \<lparr>r_created_at = None, r_metadata = None, r_moderation = None, r_id = None, r_previous_id = None,
        r_message_id = None, r_message_status = None, r_message_phase = None, r_message_agent = None,
        r_reasoning_id = None, r_reasoning_status = None, r_reasoning_content = None,
        r_tool_items = (\<lambda>_. None), r_tool_pending = (\<lambda>_. None), r_tool_extra = (\<lambda>_. None),
        r_text_items = (\<lambda>_. None), r_message_parts = (\<lambda>_. None), r_text_annotations = (\<lambda>_. None),
        r_text_logprobs = (\<lambda>_. None), r_refusal_items = (\<lambda>_. None), r_reasoning_items = (\<lambda>_. None),
        r_held = []\<rparr>"

type_synonym responses_written = "(map_error + out_frame list) \<times> responses_encoder"

text \<open>\<open>entry(i).or_default()\<close> followed by \<open>push_str\<close> or \<open>extend\<close>.\<close>

definition append_at :: "u32 \<Rightarrow> 'a list \<Rightarrow> (u32 \<Rightarrow> 'a list option) \<Rightarrow> u32 \<Rightarrow> 'a list option" where
  "append_at i xs m = m(i \<mapsto> unwrap_or (m i) [] @ xs)"


section \<open>Frames\<close>

definition named_frame :: "string \<Rightarrow> (string \<times> json) list \<Rightarrow> out_frame" where
  "named_frame name fs = Named name (json_obj ((''type'', JString name) # fs))"

definition at_output :: "string \<Rightarrow> u32 \<Rightarrow> (string \<times> json) list \<Rightarrow> out_frame" where
  "at_output name i fs = named_frame name ((''output_index'', json_u32 i) # fs)"

definition item_added :: "u32 \<Rightarrow> json \<Rightarrow> out_frame" where
  "item_added i item = at_output ''response.output_item.added'' i [(''item'', item)]"

definition item_done :: "u32 \<Rightarrow> json \<Rightarrow> out_frame" where
  "item_done i item = at_output ''response.output_item.done'' i [(''item'', item)]"

definition output_text :: "string \<Rightarrow> json" where
  "output_text t = json_obj [(''type'', JString ''output_text''), (''text'', JString t)]"

definition call_item :: "string \<Rightarrow> string \<Rightarrow> string \<Rightarrow> string \<Rightarrow> string \<Rightarrow> json" where
  "call_item kind id' name key args =
     json_obj [(''type'', JString kind), (''id'', JString id'), (''call_id'', JString id'), (''name'', JString name),
       (key, JString args)]"

definition function_item :: "string \<Rightarrow> string \<Rightarrow> string \<Rightarrow> json" where
  "function_item id' name args = call_item ''function_call'' id' name ''arguments'' args"

definition custom_item :: "string \<Rightarrow> string \<Rightarrow> string \<Rightarrow> json" where
  "custom_item id' name input = call_item ''custom_tool_call'' id' name ''input'' input"

definition set_string :: "string \<Rightarrow> string option \<Rightarrow> json \<Rightarrow> json" where
  "set_string k v j = set_opt k (map_option JString v) j"

definition metadata_value :: "(string \<times> string) list \<Rightarrow> json" where
  "metadata_value m = JObject (map (\<lambda>(k, v). (k, JString v)) m)"

definition created_response :: "responses_encoder \<Rightarrow> json" where
  "created_response s =
     (let v = json_obj [(''id'', JString (unwrap_or (r_id s) ''resp_wiremux'')), (''status'', JString ''in_progress'')];
          v = set_string ''previous_response_id'' (r_previous_id s) v;
          v = insert_if (e_model s \<noteq> []) ''model'' (JString (e_model s)) v;
          v = set_opt ''created_at'' (map_option json_i64 (r_created_at s)) v;
          v = set_string ''service_tier'' (e_service_tier s) v
      in set_opt ''metadata'' (map_option metadata_value (r_metadata s)) v)"


section \<open>Extras of calls\<close>

definition merge_extra :: "u32 \<Rightarrow> tool_extra \<Rightarrow> (u32 \<Rightarrow> tool_extra option) \<Rightarrow> u32 \<Rightarrow> tool_extra option" where
  "merge_extra i x m = m(i \<mapsto> tool_extra_merge (unwrap_or (m i) tool_extra_default) x)"

definition note_tool_extra :: "u32 \<Rightarrow> tool_extra \<Rightarrow> responses_encoder \<Rightarrow> responses_encoder" where
  "note_tool_extra index x s =
     (case e_last_tool s index of
        Some enc \<Rightarrow> s\<lparr>r_tool_extra := merge_extra enc x (r_tool_extra s)\<rparr>
      | None \<Rightarrow> s\<lparr>r_tool_pending := merge_extra index x (r_tool_pending s)\<rparr>)"

definition take_pending_tool_extra :: "u32 \<Rightarrow> u32 \<Rightarrow> responses_encoder \<Rightarrow> responses_encoder" where
  "take_pending_tool_extra index enc s =
     (case r_tool_pending s index of
        None \<Rightarrow> s
      | Some x \<Rightarrow> s\<lparr>r_tool_pending := (r_tool_pending s)(index := None),
                    r_tool_extra := merge_extra enc x (r_tool_extra s)\<rparr>)"

text \<open>\<open>tool_items.remove(&enc)\<close> with the extras of the call written into its item.\<close>

definition take_call ::
  "(string \<Rightarrow> string \<Rightarrow> string \<Rightarrow> json) \<Rightarrow> json \<Rightarrow> u32 \<Rightarrow> responses_encoder \<Rightarrow> json \<times> responses_encoder" where
  "take_call item nothing enc s =
     (case r_tool_items s enc of
        None \<Rightarrow> (nothing, s)
      | Some (id', name, args) \<Rightarrow>
          (let s = s\<lparr>r_tool_items := (r_tool_items s)(enc := None)\<rparr>;
               v = item id' name args
           in case r_tool_extra s enc of
                None \<Rightarrow> (v, s)
              | Some x \<Rightarrow> (tool_extra_write_item x v, s\<lparr>r_tool_extra := (r_tool_extra s)(enc := None)\<rparr>)))"


section \<open>Items\<close>

definition set_rows :: "json list \<Rightarrow> json list \<Rightarrow> json \<Rightarrow> json" where
  "set_rows annotations logprobs part =
     insert_if (logprobs \<noteq> []) ''logprobs'' (JArray logprobs)
       (insert_if (annotations \<noteq> []) ''annotations'' (JArray annotations) part)"

definition is_text_part :: "json \<Rightarrow> bool" where
  "is_text_part part \<longleftrightarrow> str_field part ''type'' = Some ''output_text''"

text \<open>The rows go to the first text part, or to an empty one of their own.\<close>

fun attach_rows :: "json list \<Rightarrow> json list \<Rightarrow> json list \<Rightarrow> json list" where
  "attach_rows annotations logprobs [] = [set_rows annotations logprobs (output_text [])]"
| "attach_rows annotations logprobs (part # parts) =
     (if is_text_part part then set_rows annotations logprobs part # parts
      else part # attach_rows annotations logprobs parts)"

definition message_content :: "json list \<Rightarrow> string \<Rightarrow> json list \<Rightarrow> json list \<Rightarrow> string \<Rightarrow> json list" where
  "message_content parts text annotations logprobs refusal =
     (let content = parts @ (if text = [] then [] else [output_text text]);
          content = (if annotations \<noteq> [] \<or> logprobs \<noteq> [] then attach_rows annotations logprobs content else content);
          content = content @ (if refusal = [] then []
            else [json_obj [(''type'', JString ''refusal''), (''refusal'', JString refusal)]])
      in if content = [] then [output_text []] else content)"

definition text_done :: "u32 \<Rightarrow> nat \<times> json \<Rightarrow> out_frame list" where
  "text_done index = (\<lambda>(n, part).
     (let text = unwrap_or (str_field part ''text'') []
      in if \<not> is_text_part part \<or> \<not> n < 2 ^ 32 \<or> (text = [] \<and> jget part ''logprobs'' = None) then []
         else [Named ''response.output_text.done'' (set_opt ''logprobs'' (jget part ''logprobs'')
            (json_obj [(''type'', JString ''response.output_text.done''), (''output_index'', json_u32 index),
               (''content_index'', json_u32 (of_nat n)), (''text'', JString text)]))]))"

definition message_item :: "responses_encoder \<Rightarrow> json list \<Rightarrow> json" where
  "message_item s content =
     set_opt ''agent'' (r_message_agent s)
       (set_string ''phase'' (r_message_phase s)
         (set_string ''status'' (r_message_status s)
           (set_string ''id'' (r_message_id s)
             (json_obj [(''type'', JString ''message''), (''role'', JString ''assistant''), (''content'', JArray content)]))))"

definition close_message :: "u32 \<Rightarrow> responses_encoder \<Rightarrow> out_frame list \<times> responses_encoder" where
  "close_message index s =
     (let content = message_content (unwrap_or (r_message_parts s index) []) (unwrap_or (r_text_items s index) [])
            (unwrap_or (r_text_annotations s index) []) (unwrap_or (r_text_logprobs s index) [])
            (unwrap_or (r_refusal_items s index) [])
      in (concat (map (text_done index) (enumerate 0 content)) @ [item_done index (message_item s content)],
          s\<lparr>r_message_parts := (r_message_parts s)(index := None), r_text_items := (r_text_items s)(index := None),
            r_text_annotations := (r_text_annotations s)(index := None),
            r_text_logprobs := (r_text_logprobs s)(index := None),
            r_refusal_items := (r_refusal_items s)(index := None), r_message_agent := None\<rparr>))"

definition reasoning_item :: "responses_encoder \<Rightarrow> string \<Rightarrow> json" where
  "reasoning_item s text =
     (let item = set_string ''status'' (r_reasoning_status s)
            (set_string ''id'' (r_reasoning_id s) (json_obj [(''type'', JString ''reasoning'')]));
          has_identity = (jget item ''id'' \<noteq> None \<or> jget item ''status'' \<noteq> None \<or> r_reasoning_content s \<noteq> None);
          item = insert_if (text \<noteq> [] \<or> \<not> has_identity) ''summary''
            (JArray [json_obj [(''type'', JString ''summary_text''), (''text'', JString text)]]) item
      in set_opt ''content'' (r_reasoning_content s) item)"

definition close_item :: "responses_encoder \<Rightarrow> out_frame list \<times> responses_encoder" where
  "close_item s =
     (case e_open s of
        None \<Rightarrow> ([], s)
      | Some (index, kind) \<Rightarrow>
          (let s = s\<lparr>e_open := None\<rparr>
           in case kind of
                TextBlock \<Rightarrow> close_message index s
              | ThinkingBlock \<Rightarrow>
                  ([item_done index (reasoning_item s (unwrap_or (r_reasoning_items s index) []))],
                   s\<lparr>r_reasoning_items := (r_reasoning_items s)(index := None), r_reasoning_id := None,
                     r_reasoning_status := None, r_reasoning_content := None\<rparr>)
              | ToolBlock \<Rightarrow>
                  (let (item, s) = take_call function_item (json_obj [(''type'', JString ''function_call'')]) index s
                   in ([item_done index item], s))
              | CustomToolBlock \<Rightarrow>
                  (let (item, s) = take_call custom_item (json_obj [(''type'', JString ''custom_tool_call'')]) index s
                   in ([item_done index item], s))))"

definition empty_item :: "block_kind \<Rightarrow> json" where
  "empty_item kind =
     (case kind of
        TextBlock \<Rightarrow> json_obj [(''type'', JString ''message''), (''role'', JString ''assistant''), (''content'', JArray [])]
      | ThinkingBlock \<Rightarrow> json_obj [(''type'', JString ''reasoning'')]
      | ToolBlock \<Rightarrow> json_obj [(''type'', JString ''function_call'')]
      | CustomToolBlock \<Rightarrow> json_obj [(''type'', JString ''custom_tool_call'')])"

definition ensure_item :: "block_kind \<Rightarrow> responses_encoder \<Rightarrow> out_frame list \<times> responses_encoder" where
  "ensure_item kind s =
     (if is_some_and (e_open s) (\<lambda>(_, k). k = kind) then ([], s)
      else
        let (out, s) = close_item s;
            index = e_next_block s
        in (out @ [item_added index (empty_item kind)],
            s\<lparr>e_next_block := saturating_add index 1, e_open := Some (index, kind)\<rparr>))"


section \<open>Events\<close>

text \<open>The item of the given kind that is open, after it was opened if need be, and a frame on it.\<close>

definition item_index :: "responses_encoder \<Rightarrow> u32" where
  "item_index s = (case e_open s of Some (i, _) \<Rightarrow> i | None \<Rightarrow> 0)"

definition on_item ::
  "block_kind \<Rightarrow> (u32 \<Rightarrow> responses_encoder \<Rightarrow> out_frame \<times> responses_encoder) \<Rightarrow> responses_encoder \<Rightarrow> responses_written" where
  "on_item kind emit s =
     (let (out, s) = ensure_item kind s; (frame, s) = emit (item_index s) s in (Inr (out @ [frame]), s))"

definition delta_at :: "string \<Rightarrow> u32 \<Rightarrow> string \<Rightarrow> out_frame" where
  "delta_at name i d = at_output name i [(''delta'', JString d)]"

definition u32_of_len :: "nat \<Rightarrow> u32" where
  "u32_of_len n = (if n < 2 ^ 32 then of_nat n else 0)"

definition output_text_index :: "u32 \<Rightarrow> responses_encoder \<Rightarrow> u32" where
  "output_text_index i s =
     (case r_message_parts s i of
        None \<Rightarrow> 0
      | Some parts \<Rightarrow>
          (let before = takeWhile (\<lambda>p. \<not> is_text_part p) parts
           in if length before < length parts then u32_of_len (length before)
              else if unwrap_or (r_text_items s i) [] \<noteq> [] then u32_of_len (length parts)
              else 0))"

definition emit_annotation :: "json \<Rightarrow> u32 \<Rightarrow> responses_encoder \<Rightarrow> out_frame \<times> responses_encoder" where
  "emit_annotation annotation i s =
     (let ann = annotation_without_segment_text annotation;
          s = s\<lparr>r_text_annotations := append_at i [ann] (r_text_annotations s)\<rparr>;
          n = length (unwrap_or (r_text_annotations s i) []) - 1
      in (at_output ''response.output_text.annotation.added'' i
            [(''content_index'', json_u32 (output_text_index i s)), (''annotation_index'', json_u32 (u32_of_len n)),
             (''annotation'', ann)], s))"

definition emit_image :: "string \<Rightarrow> string \<Rightarrow> u32 \<Rightarrow> responses_encoder \<Rightarrow> out_frame \<times> responses_encoder" where
  "emit_image media_type d i s =
     (let prior = unwrap_or (r_text_items s i) [];
          parts = unwrap_or (r_message_parts s i) [] @ (if prior = [] then [] else [output_text prior]);
          part = json_obj [(''type'', JString ''output_image''),
            (''image_url'', JString (''data:'' @ media_type @ '';base64,'' @ d))]
      in (at_output ''response.content_part.added'' i
            [(''content_index'', json_u64 (of_nat (length parts))), (''part'', part)],
          s\<lparr>r_text_items := (r_text_items s)(i := None), r_message_parts := (r_message_parts s)(i \<mapsto> parts @ [part])\<rparr>))"

definition emit_logprobs :: "json \<Rightarrow> json option \<Rightarrow> u32 \<Rightarrow> responses_encoder \<Rightarrow> out_frame \<times> responses_encoder" where
  "emit_logprobs content refusal i s =
     (let merged = merged_logprob_items content refusal
      in if merged = [] then (delta_at ''response.output_text.delta'' i [], s)
         else (at_output ''response.output_text.delta'' i [(''delta'', JString []), (''logprobs'', JArray merged)],
               s\<lparr>r_text_logprobs := append_at i merged (r_text_logprobs s)\<rparr>))"

definition responses_tool_start :: "string \<Rightarrow> string \<Rightarrow> u32 \<Rightarrow> responses_encoder \<Rightarrow> out_frame list \<times> responses_encoder" where
  "responses_tool_start id' name index s =
     (let (enc, s) = alloc_tool index s;
          other_open = is_some_and (e_open s) (\<lambda>(open_enc, kind).
            (kind = ToolBlock \<or> kind = CustomToolBlock) \<and> open_enc \<noteq> enc);
          s = s\<lparr>e_tool_ids := (e_tool_ids s)(enc \<mapsto> id'), r_tool_items := (r_tool_items s)(enc \<mapsto> (id', name, []))\<rparr>;
          s = take_pending_tool_extra index enc s
      in if other_open then ([], s\<lparr>r_held := bt_insert enc () (r_held s)\<rparr>)
         else
           let (out, s) = close_item s
           in (out @ [item_added enc (function_item id' name [])], s\<lparr>e_open := Some (enc, ToolBlock)\<rparr>))"

definition responses_custom_start :: "string \<Rightarrow> string \<Rightarrow> u32 \<Rightarrow> responses_encoder \<Rightarrow> out_frame list \<times> responses_encoder" where
  "responses_custom_start id' name index s =
     (let (enc, s) = alloc_tool index s;
          (out, s) = close_item s;
          s = s\<lparr>r_tool_items := (r_tool_items s)(enc \<mapsto> (id', name, []))\<rparr>;
          s = take_pending_tool_extra index enc s
      in (out @ [item_added enc (custom_item id' name [])], s\<lparr>e_open := Some (enc, CustomToolBlock)\<rparr>))"

definition append_call :: "u32 \<Rightarrow> string \<Rightarrow> responses_encoder \<Rightarrow> responses_encoder" where
  "append_call enc d s =
     (case r_tool_items s enc of
        None \<Rightarrow> s
      | Some (id', name, args) \<Rightarrow> s\<lparr>r_tool_items := (r_tool_items s)(enc \<mapsto> (id', name, args @ d))\<rparr>)"

definition call_delta :: "string \<Rightarrow> u32 \<Rightarrow> string \<Rightarrow> string \<Rightarrow> out_frame" where
  "call_delta name enc item_id d = at_output name enc [(''item_id'', JString item_id), (''delta'', JString d)]"

definition responses_custom_input :: "string \<Rightarrow> u32 \<Rightarrow> responses_encoder \<Rightarrow> out_frame list \<times> responses_encoder" where
  "responses_custom_input d index s =
     (let (enc, s) = tool_enc index s;
          s = append_call enc d s;
          item_id = (case r_tool_items s enc of Some (id', _, _) \<Rightarrow> id' | None \<Rightarrow> [])
      in ([call_delta ''response.custom_tool_call_input.delta'' enc item_id d], s))"

definition responses_tool_arg :: "string \<Rightarrow> u32 \<Rightarrow> responses_encoder \<Rightarrow> out_frame list \<times> responses_encoder" where
  "responses_tool_arg d index s =
     (let (enc, s) = tool_enc index s;
          s = append_call enc d s
      in (if map_of (r_held s) enc = None then
            [call_delta ''response.function_call_arguments.delta'' enc (unwrap_or (e_tool_ids s enc) []) d]
          else [], s))"

definition encode_plain ::
  "(ir_stream_event \<Rightarrow> string) \<Rightarrow> (string \<Rightarrow> json option) \<Rightarrow> (json \<Rightarrow> string) \<Rightarrow> ir_stream_event
     \<Rightarrow> map_error + out_frame list" where
  "encode_plain debug parse to_str ev =
     (case encode_stream_event debug parse to_str Responses ev of Inl e \<Rightarrow> Inl e | Inr raw \<Rightarrow> Inr [Plain raw])"

fun responses_arm ::
  "(ir_stream_event \<Rightarrow> string) \<Rightarrow> (string \<Rightarrow> json option) \<Rightarrow> (json \<Rightarrow> string) \<Rightarrow> ir_stream_event \<Rightarrow> responses_encoder
     \<Rightarrow> responses_written" where
  "responses_arm debug parse to_str (Created _) s = (Inr [], s)"
| "responses_arm debug parse to_str (ServiceTier _) s = (Inr [], s)"
| "responses_arm debug parse to_str (Metadata _) s = (Inr [], s)"
| "responses_arm debug parse to_str (Moderation _ _) s = (Inr [], s)"
| "responses_arm debug parse to_str (Diagnostics _) s = (Inr [], s)"
| "responses_arm debug parse to_str (Container _) s = (Inr [], s)"
| "responses_arm debug parse to_str (ContextManagement _) s = (Inr [], s)"
| "responses_arm debug parse to_str (StopSequence _) s = (Inr [], s)"
| "responses_arm debug parse to_str (TextDelta t) s =
     on_item TextBlock (\<lambda>i s. (delta_at ''response.output_text.delta'' i t, s\<lparr>r_text_items := append_at i t (r_text_items s)\<rparr>)) s"
| "responses_arm debug parse to_str (RefusalDelta t) s =
     on_item TextBlock (\<lambda>i s. (delta_at ''response.refusal.delta'' i t, s\<lparr>r_refusal_items := append_at i t (r_refusal_items s)\<rparr>)) s"
| "responses_arm debug parse to_str (ReasoningDelta t) s =
     on_item ThinkingBlock (\<lambda>i s. (delta_at ''response.reasoning_summary_text.delta'' i t,
       s\<lparr>r_reasoning_items := append_at i t (r_reasoning_items s)\<rparr>)) s"
| "responses_arm debug parse to_str (ReasoningSignature sig) s =
     on_item ThinkingBlock (\<lambda>i s. (item_added i
       (json_obj [(''type'', JString ''reasoning''), (''signature'', JString sig)]), s)) s"
| "responses_arm debug parse to_str (ToolCallStart id' name _ index) s =
     (let (out, s) = responses_tool_start id' name index s in (Inr out, s))"
| "responses_arm debug parse to_str (AnnotationAdded ann) s = on_item TextBlock (emit_annotation ann) s"
| "responses_arm debug parse to_str (AudioDelta d) s = (Inr [named_frame ''response.audio.delta'' [(''delta'', JString d)]], s)"
| "responses_arm debug parse to_str (ImageDelta m d) s = on_item TextBlock (emit_image m d) s"
| "responses_arm debug parse to_str (Logprobs content refusal) s = on_item TextBlock (emit_logprobs content refusal) s"
| "responses_arm debug parse to_str (AudioTranscriptDelta t) s =
     (Inr [named_frame ''response.audio.transcript.delta'' [(''delta'', JString t)]], s)"
| "responses_arm debug parse to_str (CustomToolCallStart id' name index) s =
     (let (out, s) = responses_custom_start id' name index s in (Inr out, s))"
| "responses_arm debug parse to_str (CustomToolCallInputDelta d index) s =
     (let (out, s) = responses_custom_input d index s in (Inr out, s))"
| "responses_arm debug parse to_str (ToolCallArgDelta d index) s =
     (let (out, s) = responses_tool_arg d index s in (Inr out, s))"
| "responses_arm debug parse to_str ToolCallEnd s = (let (out, s) = close_item s in (Inr out, s))"
| "responses_arm debug parse to_str (FinishReason reason _) s = (Inr [], s\<lparr>e_finish := Some reason\<rparr>)"
| "responses_arm debug parse to_str (Usage p c cr cw r a ca _) s = (Inr [], s\<lparr>e_usage := Some (p, c, cr, cw, r, a, ca)\<rparr>)"
| "responses_arm debug parse to_str ev s = (encode_plain debug parse to_str ev, s)"

definition note_response :: "ir_stream_event \<Rightarrow> responses_encoder \<Rightarrow> responses_encoder" where
  "note_response ev s =
     (case ev of
        Created unix \<Rightarrow> s\<lparr>r_created_at := Some unix\<rparr>
      | ServiceTier tier \<Rightarrow> s\<lparr>e_service_tier := Some tier\<rparr>
      | Metadata m \<Rightarrow> s\<lparr>r_metadata := Some m\<rparr>
      | Moderation input output \<Rightarrow> s\<lparr>r_moderation := Some (input, output)\<rparr>
      | _ \<Rightarrow> s)"

definition before_created :: "ir_stream_event \<Rightarrow> bool" where
  "before_created ev =
     (case ev of Created _ \<Rightarrow> True | ServiceTier _ \<Rightarrow> True | Metadata _ \<Rightarrow> True | Moderation _ _ \<Rightarrow> True | _ \<Rightarrow> False)"

definition start_response :: "ir_stream_event \<Rightarrow> responses_encoder \<Rightarrow> out_frame list \<times> responses_encoder" where
  "start_response ev s =
     (if e_started s \<or> before_created ev then ([], s)
      else ([named_frame ''response.created'' [(''response'', created_response s)]], s\<lparr>e_started := True\<rparr>))"

definition push_responses ::
  "(ir_stream_event \<Rightarrow> string) \<Rightarrow> (string \<Rightarrow> json option) \<Rightarrow> (json \<Rightarrow> string) \<Rightarrow> ir_stream_event \<Rightarrow> responses_encoder
     \<Rightarrow> responses_written" where
  "push_responses debug parse to_str ev s =
     (let (out, s) = start_response ev (note_response ev s);
          (res, s) = responses_arm debug parse to_str ev s
      in (case res of Inl e \<Rightarrow> Inl e | Inr frames \<Rightarrow> Inr (out @ frames), s))"


section \<open>The end of the stream\<close>

fun flush_responses_loop :: "(u32 \<times> unit) list \<Rightarrow> responses_encoder \<Rightarrow> out_frame list \<times> responses_encoder" where
  "flush_responses_loop [] s = ([], s)"
| "flush_responses_loop ((enc, _) # held) s =
     (case r_tool_items s enc of
        None \<Rightarrow> flush_responses_loop held s
      | Some (id', name, args) \<Rightarrow>
          (let (item, s) = take_call function_item JNull enc s;
               (rest, s) = flush_responses_loop held s
           in (item_added enc (function_item id' name [])
                 # (if args = [] then [] else [call_delta ''response.function_call_arguments.delta'' enc id' args])
                 @ item_done enc item # rest, s)))"

definition flush_responses_held :: "responses_encoder \<Rightarrow> out_frame list \<times> responses_encoder" where
  "flush_responses_held s = flush_responses_loop (r_held s) (s\<lparr>r_held := []\<rparr>)"

definition terminal_event :: "string \<Rightarrow> string \<times> string" where
  "terminal_event reason =
     (if reason = ''failed'' then (''response.failed'', ''failed'')
      else if reason \<in> {''incomplete'', ''length'', ''max_tokens'', ''content_filter''} then (''response.incomplete'', ''incomplete'')
      else (''response.completed'', ''completed''))"

definition terminal_response :: "responses_encoder \<Rightarrow> json" where
  "terminal_response s =
     (let reason = unwrap_or (e_finish s) ''stop'';
          v = json_obj [(''id'', JString (unwrap_or (r_id s) ''resp_wiremux'')), (''object'', JString ''response''),
             (''status'', JString (snd (terminal_event reason)))];
          v = set_string ''previous_response_id'' (r_previous_id s) v;
          v = set_opt ''incomplete_details'' (map_option (\<lambda>d. json_obj [(''reason'', JString d)]) (incomplete_details_reason reason)) v;
          v = insert_if (e_model s \<noteq> []) ''model'' (JString (e_model s)) v;
          v = set_opt ''usage'' (Option.bind (e_usage s) (\<lambda>(p, c, cr, cw, r, _, _).
                pointer (encode_responses p c cr cw r) [''response'', ''usage''])) v;
          v = set_opt ''moderation'' (Option.bind (r_moderation s) (\<lambda>(input, output). responses_moderation_value input output)) v
      in set_opt ''metadata'' (map_option metadata_value (r_metadata s)) v)"

definition finish_responses :: "responses_encoder \<Rightarrow> out_frame list \<times> responses_encoder" where
  "finish_responses s =
     (let (out, s) = close_item s;
          (held, s) = flush_responses_held s
      in (out @ held @ [named_frame (fst (terminal_event (unwrap_or (e_finish s) ''stop''))) [(''response'', terminal_response s)]], s))"

definition responses_finish :: "responses_encoder \<Rightarrow> responses_written" where
  "responses_finish s =
     (if e_finished s then (Inr [], s) else (let (out, s) = finish_responses (s\<lparr>e_finished := True\<rparr>) in (Inr out, s)))"


section \<open>Side items\<close>

definition reasoning_names :: "string list" where
  "reasoning_names = [''responses_reasoning_id'', ''responses_reasoning_status'', ''responses_reasoning_content'']"

definition note_reasoning :: "string \<Rightarrow> json \<Rightarrow> responses_encoder \<Rightarrow> responses_encoder" where
  "note_reasoning ity p s =
     (let text = ofilter (\<lambda>t. t \<noteq> []) (as_str p)
      in if ity = ''responses_reasoning_id'' then (if text = None then s else s\<lparr>r_reasoning_id := text\<rparr>)
         else if ity = ''responses_reasoning_status'' then (if text = None then s else s\<lparr>r_reasoning_status := text\<rparr>)
         else if is_some_and (as_array p) (\<lambda>parts. parts \<noteq> []) then s\<lparr>r_reasoning_content := Some p\<rparr>
         else s)"

definition push_reasoning :: "string \<Rightarrow> json \<Rightarrow> responses_encoder \<Rightarrow> out_frame list \<times> responses_encoder" where
  "push_reasoning ity p s =
     (let s = note_reasoning ity p s
      in if r_reasoning_id s \<noteq> None \<or> r_reasoning_status s \<noteq> None \<or> r_reasoning_content s \<noteq> None
         then ensure_item ThinkingBlock s else ([], s))"

definition note_responses_item :: "string \<Rightarrow> json \<Rightarrow> responses_encoder \<Rightarrow> responses_encoder" where
  "note_responses_item ity p s =
     (let text = ofilter (\<lambda>t. trim t \<noteq> []) (as_str p)
      in if ity = ''responses_id'' then (if text = None then s else s\<lparr>r_id := text\<rparr>)
         else if ity = ''responses_previous_id'' then (if text = None then s else s\<lparr>r_previous_id := text\<rparr>)
         else if ity = ''responses_message_id'' then (if text = None then s else s\<lparr>r_message_id := text\<rparr>)
         else if ity = ''responses_message_status'' then (if text = None then s else s\<lparr>r_message_status := text\<rparr>)
         else if ity = ''responses_message_phase'' then (if text = None then s else s\<lparr>r_message_phase := text\<rparr>)
         else if ity = ''responses_message_agent'' then
           (if is_some_and (str_field p ''agent_name'') (\<lambda>n. n \<noteq> []) then s\<lparr>r_message_agent := Some p\<rparr> else s)
         else (case tool_extra_from_protocol ity p of None \<Rightarrow> s | Some (index, x) \<Rightarrow> note_tool_extra index x s))"

fun responses_push_open ::
  "(ir_stream_event \<Rightarrow> string) \<Rightarrow> (string \<Rightarrow> json option) \<Rightarrow> (json \<Rightarrow> string) \<Rightarrow> ir_stream_event \<Rightarrow> responses_encoder
     \<Rightarrow> responses_written" where
  "responses_push_open debug parse to_str (Protocol ity p) s =
     (if ity \<in> set reasoning_names then (let (out, s) = push_reasoning ity p s in (Inr out, s))
      else if ity = ''messages_citation'' \<or> silent_item ity p then (Inr [], note_responses_item ity p s)
      else (encode_plain debug parse to_str (Protocol ity p), s))"
| "responses_push_open debug parse to_str (Unknown name v) s = (encode_plain debug parse to_str (Unknown name v), s)"
| "responses_push_open debug parse to_str Done s = responses_finish s"
| "responses_push_open debug parse to_str (Diagnostics _) s = (Inr [], s)"
| "responses_push_open debug parse to_str (Container _) s = (Inr [], s)"
| "responses_push_open debug parse to_str (ContextManagement _) s = (Inr [], s)"
| "responses_push_open debug parse to_str (StopSequence _) s = (Inr [], s)"
| "responses_push_open debug parse to_str (SearchEntryPoint _) s = (Inr [], s)"
| "responses_push_open debug parse to_str ev s = push_responses debug parse to_str ev s"

definition responses_push ::
  "(ir_stream_event \<Rightarrow> string) \<Rightarrow> (string \<Rightarrow> json option) \<Rightarrow> (json \<Rightarrow> string) \<Rightarrow> ir_stream_event \<Rightarrow> responses_encoder
     \<Rightarrow> responses_written" where
  "responses_push debug parse to_str ev s =
     (if e_finished s then (Inr [], s) else responses_push_open debug parse to_str ev s)"

end
