(* ===== verification/Wm_Encoder_Items.thy ===== *)
theory Wm_Encoder_Items
  imports Wm_Encoder_Responses Wm_Encoder_Blocks
begin

text \<open>
  The item protocol of the Responses wire: every output index is added once, grows while it is open and is done once,
  and the item that is done says exactly what its deltas said. The encoder follows it for the events
  \<open>item_may_come\<close> describes.
\<close>

section \<open>The item protocol\<close>

text \<open>What an item says: its text or arguments, and its refusal.\<close>

definition parts_text :: "json list \<Rightarrow> string" where
  "parts_text parts = concat (map (\<lambda>p. if is_text_part p then unwrap_or (str_field p ''text'') [] else []) parts)"

definition is_refusal_part :: "json \<Rightarrow> bool" where
  "is_refusal_part part \<longleftrightarrow> str_field part ''type'' = Some ''refusal''"

definition parts_refusal :: "json list \<Rightarrow> string" where
  "parts_refusal parts = concat (map (\<lambda>p. if is_refusal_part p then unwrap_or (str_field p ''refusal'') [] else []) parts)"

definition item_says :: "json \<Rightarrow> string \<times> string" where
  "item_says item =
     (let parts = (\<lambda>k. unwrap_or (Option.bind (jget item k) as_array) []);
          says = (\<lambda>k. unwrap_or (str_field item k) []);
          kind = says ''type''
      in if kind = ''message'' then (parts_text (parts ''content''), parts_refusal (parts ''content''))
         else if kind = ''reasoning'' then (concat (map (\<lambda>p. unwrap_or (str_field p ''text'') []) (parts ''summary'')), [])
         else if kind = ''function_call'' then (says ''arguments'', [])
         else (says ''input'', []))"

text \<open>The item that is open with what its deltas said so far, and the indexes that were added.\<close>

datatype item_phase = NotCreated | Items "(u32 \<times> string \<times> string) option" "u32 set" | Answered

definition framed :: "string \<Rightarrow> u32 \<Rightarrow> out_frame \<Rightarrow> json \<Rightarrow> bool" where
  "framed name i f v \<longleftrightarrow> f = Named name v \<and> jget v ''output_index'' = Some (json_u32 i)"

definition growing :: "string list" where
  "growing = [''response.output_text.delta'', ''response.reasoning_summary_text.delta'',
     ''response.function_call_arguments.delta'', ''response.custom_tool_call_input.delta'']"

definition remarks :: "string list" where
  "remarks = [''response.content_part.added'', ''response.output_text.annotation.added'', ''response.output_text.done'']"

inductive rstep :: "item_phase \<Rightarrow> out_frame \<Rightarrow> item_phase \<Rightarrow> bool" where
  created: "rstep NotCreated (Named ''response.created'' v) (Items None {})"
| added: "i \<notin> D \<Longrightarrow> framed ''response.output_item.added'' i f v \<Longrightarrow> rstep (Items None D) f (Items (Some (i, [], [])) (insert i D))"
| signed: "framed ''response.output_item.added'' i f v \<Longrightarrow> jget v ''item'' = Some item \<Longrightarrow> jget item ''signature'' \<noteq> None \<Longrightarrow>
    rstep (Items (Some (i, a, r)) D) f (Items (Some (i, a, r)) D)"
| grown: "name \<in> set growing \<Longrightarrow> framed name i f v \<Longrightarrow> str_field v ''delta'' = Some d \<Longrightarrow>
    rstep (Items (Some (i, a, r)) D) f (Items (Some (i, a @ d, r)) D)"
| refused: "framed ''response.refusal.delta'' i f v \<Longrightarrow> str_field v ''delta'' = Some d \<Longrightarrow>
    rstep (Items (Some (i, a, r)) D) f (Items (Some (i, a, r @ d)) D)"
| remark: "name \<in> set remarks \<Longrightarrow> framed name i f v \<Longrightarrow> rstep (Items (Some (i, a, r)) D) f (Items (Some (i, a, r)) D)"
| done': "framed ''response.output_item.done'' i f v \<Longrightarrow> jget v ''item'' = Some item \<Longrightarrow> item_says item = (a, r) \<Longrightarrow>
    rstep (Items (Some (i, a, r)) D) f (Items None D)"
| audio: "name = ''response.audio.delta'' \<or> name = ''response.audio.transcript.delta'' \<Longrightarrow> rstep p (Named name v) p"
| passed: "rstep p (Plain raw) p"
| answered: "name \<in> {''response.completed'', ''response.incomplete'', ''response.failed''} \<Longrightarrow> p = NotCreated \<or> p = Items None D \<Longrightarrow>
    rstep p (Named name v) Answered"

inductive rruns :: "item_phase \<Rightarrow> out_frame list \<Rightarrow> item_phase \<Rightarrow> bool" where
  rruns_nil: "rruns p [] p"
| rruns_cons: "rstep p f q \<Longrightarrow> rruns q fs r \<Longrightarrow> rruns p (f # fs) r"

inductive_simps rruns_Nil [simp]: "rruns p [] q"

lemma rruns_append: "rruns p fs q \<Longrightarrow> rruns q gs r \<Longrightarrow> rruns p (fs @ gs) r"
  by (induction rule: rruns.induct) (auto intro: rruns.intros)

lemma rruns_one: "rstep p f q \<Longrightarrow> rruns p [f] q"
  by (auto intro: rruns.intros)

lemma framed_at:
  assumes "''output_index'' \<notin> fst ` set fs"
  shows "framed name i (at_output name i fs) (json_obj ((''type'', JString name) # (''output_index'', json_u32 i) # fs))"
proof -
  have "map_of (rev fs) ''output_index'' = None" using assms by (simp add: map_of_eq_None_iff)
  then show ?thesis by (simp add: framed_def at_output_def named_frame_def map_add_def)
qed

lemmas frame_defs = delta_at_def call_delta_def item_added_def item_done_def

lemma added_step: "i \<notin> D \<Longrightarrow> rstep (Items None D) (item_added i item) (Items (Some (i, [], [])) (insert i D))"
  by (rule added [where v = "json_obj [(''type'', JString ''response.output_item.added''), (''output_index'', json_u32 i), (''item'', item)]"])
    (simp_all add: frame_defs framed_at)

lemma done_step: "item_says item = (a, r) \<Longrightarrow> rstep (Items (Some (i, a, r)) D) (item_done i item) (Items None D)"
  by (rule done' [where v = "json_obj [(''type'', JString ''response.output_item.done''), (''output_index'', json_u32 i), (''item'', item)]"])
    (simp_all add: frame_defs framed_at)

lemma done_says: "x = (i, item_says item) \<Longrightarrow> rruns (Items (Some x) D) [item_done i item] (Items None D)"
  by (cases "item_says item") (simp add: rruns_one done_step)

lemma delta_step: "name \<in> set growing \<Longrightarrow> rstep (Items (Some (i, a, r)) D) (delta_at name i d) (Items (Some (i, a @ d, r)) D)"
  by (rule grown [where name = name and v = "json_obj [(''type'', JString name), (''output_index'', json_u32 i), (''delta'', JString d)]"])
    (simp_all add: frame_defs framed_at str_field_def)

lemma call_delta_step:
  "name \<in> set growing \<Longrightarrow> rstep (Items (Some (i, a, r)) D) (call_delta name i item_id d) (Items (Some (i, a @ d, r)) D)"
  by (rule grown [where name = name and v = "json_obj [(''type'', JString name), (''output_index'', json_u32 i), (''item_id'', JString item_id), (''delta'', JString d)]"])
    (simp_all add: frame_defs framed_at str_field_def)

lemma remark_step:
  "name \<in> set remarks \<Longrightarrow> ''output_index'' \<notin> fst ` set fs \<Longrightarrow>
    rstep (Items (Some (i, a, r)) D) (at_output name i fs) (Items (Some (i, a, r)) D)"
  by (rule remark [where name = name and v = "json_obj ((''type'', JString name) # (''output_index'', json_u32 i) # fs)"]) (simp_all add: framed_at)


section \<open>What items say\<close>

declare is_object_set_opt [simp]

lemma tool_extra_keeps:
  assumes "is_object j" "k \<in> {''type'', ''arguments'', ''input''}"
  shows "str_field (tool_extra_write_item x j) k = str_field j k"
  using assms by (auto simp: tool_extra_write_item_def Let_def str_field_set_opt)

lemma parts_text_simps [simp]:
  "parts_text [] = []" "parts_text (xs @ ys) = parts_text xs @ parts_text ys"
  "parts_text (p # ps) = (if is_text_part p then unwrap_or (str_field p ''text'') [] else []) @ parts_text ps"
  by (simp_all add: parts_text_def)

lemma parts_refusal_simps [simp]:
  "parts_refusal [] = []" "parts_refusal (xs @ ys) = parts_refusal xs @ parts_refusal ys"
  "parts_refusal (p # ps) = (if is_refusal_part p then unwrap_or (str_field p ''refusal'') [] else []) @ parts_refusal ps"
  by (simp_all add: parts_refusal_def)

lemma output_text_part [simp]:
  "is_text_part (output_text t)" "str_field (output_text t) ''text'' = Some t" "\<not> is_refusal_part (output_text t)"
  "is_object (output_text t)"
  by (simp_all add: is_text_part_def is_refusal_part_def output_text_def str_field_def)

lemma set_rows_part:
  assumes "is_object p"
  shows "is_text_part (set_rows a l p) = is_text_part p" "is_refusal_part (set_rows a l p) = is_refusal_part p"
    "str_field (set_rows a l p) ''text'' = str_field p ''text''" "str_field (set_rows a l p) ''refusal'' = str_field p ''refusal''"
  using assms by (simp_all add: set_rows_def insert_if_def is_text_part_def is_refusal_part_def str_field_def jget_jinsert_obj)

lemma attach_rows_says:
  assumes "list_all is_object parts"
  shows "parts_text (attach_rows a l parts) = parts_text parts" "parts_refusal (attach_rows a l parts) = parts_refusal parts"
  using assms by (induction parts; simp add: set_rows_part unwrap_or_def)+

definition part_ok :: "json \<Rightarrow> bool" where
  "part_ok p \<longleftrightarrow> is_object p \<and> \<not> is_refusal_part p"

lemma parts_ok_refusal: "list_all part_ok parts \<Longrightarrow> parts_refusal parts = []"
  by (induction parts) (simp_all add: part_ok_def)

lemma message_content_says:
  assumes "list_all part_ok parts"
  shows "parts_text (message_content parts txt' a l refusal) = parts_text parts @ txt'"
    "parts_refusal (message_content parts txt' a l refusal) = refusal"
proof -
  let ?c = "parts @ (if txt' = [] then [] else [output_text txt'])"
  let ?d = "if a \<noteq> [] \<or> l \<noteq> [] then attach_rows a l ?c else ?c"
  have "list_all is_object ?c" using assms by (auto simp: list_all_iff part_ok_def)
  then have d: "parts_text ?d = parts_text parts @ txt'" "parts_refusal ?d = []"
    using parts_ok_refusal [OF assms] by (simp_all add: attach_rows_says unwrap_or_def)
  have r: "is_refusal_part (json_obj [(''type'', JString ''refusal''), (''refusal'', JString refusal)])"
    "\<not> is_text_part (json_obj [(''type'', JString ''refusal''), (''refusal'', JString refusal)])"
    "str_field (json_obj [(''type'', JString ''refusal''), (''refusal'', JString refusal)]) ''refusal'' = Some refusal"
    by (simp_all add: is_refusal_part_def is_text_part_def str_field_def)
  define e where "e = ?d @ (if refusal = [] then []
    else [json_obj [(''type'', JString ''refusal''), (''refusal'', JString refusal)]])"
  have "parts_text e = parts_text parts @ txt'" "parts_refusal e = refusal"
    using d r by (simp_all add: e_def unwrap_or_def)
  moreover have "message_content parts txt' a l refusal = (if e = [] then [output_text []] else e)"
    by (simp only: message_content_def Let_def e_def)
  ultimately show "parts_text (message_content parts txt' a l refusal) = parts_text parts @ txt'"
    "parts_refusal (message_content parts txt' a l refusal) = refusal"
    by (auto simp: unwrap_or_def)
qed

lemma message_item_says: "item_says (message_item s content) = (parts_text content, parts_refusal content)"
  by (simp add: message_item_def set_string_def item_says_def Let_def str_field_set_opt jget_set_opt str_field_def unwrap_or_def)

lemma reasoning_item_says: "item_says (reasoning_item s t) = (t, [])"
  by (simp add: reasoning_item_def set_string_def item_says_def Let_def str_field_set_opt jget_set_opt insert_if_def
      str_field_def jget_jinsert_obj unwrap_or_def)

lemma call_item_says:
  "item_says (function_item i n a) = (a, [])" "item_says (custom_item i n a) = (a, [])"
  by (simp_all add: item_says_def Let_def function_item_def custom_item_def call_item_def str_field_def unwrap_or_def)

lemma written_item_says:
  "item_says (tool_extra_write_item x (function_item i n a)) = (a, [])"
  "item_says (tool_extra_write_item x (custom_item i n a)) = (a, [])"
  using call_item_says [of i n a]
  by (simp_all add: item_says_def Let_def tool_extra_keeps function_item_def custom_item_def call_item_def)



section \<open>Operations\<close>

definition held_calls :: "responses_encoder \<Rightarrow> u32 set" where
  "held_calls s = fst ` set (r_held s)"

definition added_items :: "responses_encoder \<Rightarrow> u32 set" where
  "added_items s = {i. i < e_next_block s} - held_calls s"

text \<open>What the open item said so far.\<close>

definition said :: "responses_encoder \<Rightarrow> u32 \<times> block_kind \<Rightarrow> u32 \<times> string \<times> string" where
  "said s = (\<lambda>(i, k). (i,
     case k of
       TextBlock \<Rightarrow> (parts_text (unwrap_or (r_message_parts s i) []) @ unwrap_or (r_text_items s i) [],
                    unwrap_or (r_refusal_items s i) [])
     | ThinkingBlock \<Rightarrow> (unwrap_or (r_reasoning_items s i) [], [])
     | _ \<Rightarrow> (case r_tool_items s i of Some (_, _, args) \<Rightarrow> args | None \<Rightarrow> [], [])))"

definition item_state :: "responses_encoder \<Rightarrow> item_phase" where
  "item_state s = Items (map_option (said s) (e_open s)) (added_items s)"

text \<open>Indexes that were never allocated have no parts, and the parts are objects without a refusal.\<close>

definition items_ok :: "responses_encoder \<Rightarrow> bool" where
  "items_ok s \<longleftrightarrow>
     bt_wf (r_held s) \<and> held_calls s \<subseteq> {i. i < e_next_block s} \<and> (\<forall>i k. e_open s = Some (i, k) \<longrightarrow> i \<in> added_items s)
     \<and> (\<forall>i. \<not> i < e_next_block s \<longrightarrow> r_message_parts s i = None \<and> r_text_items s i = None
          \<and> r_refusal_items s i = None \<and> r_reasoning_items s i = None)
     \<and> (\<forall>i. list_all part_ok (unwrap_or (r_message_parts s i) []))"

text \<open>What closing an item leaves alone.\<close>

definition closed_from :: "responses_encoder \<Rightarrow> responses_encoder \<Rightarrow> bool" where
  "closed_from s t \<longleftrightarrow>
     e_open t = None \<and> e_next_block t = e_next_block s \<and> r_held t = r_held s \<and> e_tool_slots t = e_tool_slots s
     \<and> e_last_tool t = e_last_tool s \<and> e_started t = e_started s \<and> e_finished t = e_finished s
     \<and> e_tool_ids t = e_tool_ids s \<and> e_finish t = e_finish s"

lemma text_done_runs:
  "rruns (Items (Some (i, a, r)) D) (concat (map (text_done i) xs)) (Items (Some (i, a, r)) D)"
proof (induction xs)
  case (Cons x xs)
  obtain n part where x: "x = (n, part)" by (cases x)
  let ?v = "set_opt ''logprobs'' (jget part ''logprobs'')
    (json_obj [(''type'', JString ''response.output_text.done''), (''output_index'', json_u32 i),
       (''content_index'', json_u32 (of_nat n)), (''text'', JString (unwrap_or (str_field part ''text'') []))])"
  have "rstep (Items (Some (i, a, r)) D) (Named ''response.output_text.done'' ?v) (Items (Some (i, a, r)) D)"
    by (rule remark [where name = "''response.output_text.done''" and v = ?v])
      (simp_all add: remarks_def framed_def jget_set_opt)
  then show ?case
    using Cons by (auto simp: text_done_def x Let_def intro: rruns_cons)
qed simp

lemma take_call_says:
  assumes "item = function_item \<and> nothing = json_obj [(''type'', JString ''function_call'')]
    \<or> item = custom_item \<and> nothing = json_obj [(''type'', JString ''custom_tool_call'')]"
  shows "item_says (fst (take_call item nothing i s)) = (case r_tool_items s i of Some (_, _, args) \<Rightarrow> args | None \<Rightarrow> [], [])"
proof -
  have "item_says (json_obj [(''type'', JString ''function_call'')]) = ([], [])"
    "item_says (json_obj [(''type'', JString ''custom_tool_call'')]) = ([], [])"
    by (simp_all add: item_says_def Let_def str_field_def unwrap_or_def)
  then show ?thesis
    using assms by (auto simp: take_call_def call_item_says written_item_says Let_def split: option.split)
qed

lemma take_call_state:
  "\<exists>ti tx. snd (take_call item nothing i s) = s\<lparr>r_tool_items := ti, r_tool_extra := tx\<rparr> \<and> (\<forall>j. j \<noteq> i \<longrightarrow> ti j = r_tool_items s j)"
proof (cases "r_tool_items s i")
  case None
  then show ?thesis by (intro exI [of _ "r_tool_items s"] exI [of _ "r_tool_extra s"]) (simp add: take_call_def)
next
  case (Some c)
  obtain x n a where c: "c = (x, n, a)" by (cases c)
  show ?thesis
  proof (cases "r_tool_extra s i")
    case None
    then show ?thesis
      using Some by (intro exI [of _ "(r_tool_items s)(i := None)"] exI [of _ "r_tool_extra s"]) (simp add: take_call_def c)
  next
    case e: (Some e)
    then show ?thesis
      using Some by (intro exI [of _ "(r_tool_items s)(i := None)"] exI [of _ "(r_tool_extra s)(i := None)"])
        (simp add: take_call_def c)
  qed
qed

lemma close_item_runs:
  assumes ok: "items_ok s"
  shows "\<exists>out t. close_item s = (out, t) \<and> rruns (Items (map_option (said s) (e_open s)) D) out (Items None D) \<and> closed_from s t
    \<and> items_ok t \<and> (\<forall>i. (\<forall>k. e_open s \<noteq> Some (i, k)) \<longrightarrow> r_tool_items t i = r_tool_items s i)"
proof (cases "e_open s")
  case None
  then show ?thesis
    using ok by (simp add: close_item_def item_state_def closed_from_def)
next
  case (Some b)
  obtain i k where b: "b = (i, k)" by (cases b)
  have p: "list_all part_ok (unwrap_or (r_message_parts s i) [])" using ok by (simp add: items_ok_def)
  have call: "\<exists>out t. (let (v, s) = take_call item nothing i (s\<lparr>e_open := None\<rparr>) in ([item_done i v], s)) = (out, t)
      \<and> rruns (Items (Some (said s (i, k))) D) out (Items None D) \<and> closed_from s t
      \<and> items_ok t \<and> (\<forall>j. j \<noteq> i \<longrightarrow> r_tool_items t j = r_tool_items s j)"
    if k: "k = ToolBlock \<or> k = CustomToolBlock"
      and item: "item = function_item \<and> nothing = json_obj [(''type'', JString ''function_call'')]
        \<or> item = custom_item \<and> nothing = json_obj [(''type'', JString ''custom_tool_call'')]" for item nothing
  proof -
    let ?s = "s\<lparr>e_open := None\<rparr>"
    obtain v t where t: "take_call item nothing i ?s = (v, t)" by (cases "take_call item nothing i ?s")
    obtain ti tx where tt: "t = ?s\<lparr>r_tool_items := ti, r_tool_extra := tx\<rparr>" "\<forall>j. j \<noteq> i \<longrightarrow> ti j = r_tool_items s j"
      using take_call_state [of item nothing i ?s] by (auto simp: t)
    have "item_says v = (case r_tool_items s i of Some (_, _, args) \<Rightarrow> args | None \<Rightarrow> [], [])"
      using take_call_says [OF item, of i ?s] by (simp add: t)
    then have "rruns (Items (Some (said s (i, k))) D) [item_done i v] (Items None D)"
      using k by (intro done_says) (auto simp: said_def)
    moreover have "items_ok t" "closed_from s t"
      using ok by (simp_all add: items_ok_def tt(1) closed_from_def held_calls_def)
    ultimately show ?thesis using tt by (intro exI [of _ "[item_done i v]"] exI [of _ t]) (simp add: t)
  qed
  show ?thesis
  proof (cases k)
    case TextBlock
    let ?t = "snd (close_message i (s\<lparr>e_open := None\<rparr>))"
    have "items_ok ?t" "closed_from s ?t" "r_tool_items ?t = r_tool_items s"
      using ok by (simp_all add: close_message_def Let_def items_ok_def closed_from_def held_calls_def unwrap_or_def)
    moreover have "rruns (Items (map_option (said s) (e_open s)) D) (fst (close_message i (s\<lparr>e_open := None\<rparr>))) (Items None D)"
      using Some by (auto simp: close_message_def Let_def item_state_def b said_def TextBlock
        message_item_says message_content_says [OF p] intro!: rruns_append [OF text_done_runs done_says])
    ultimately show ?thesis
      using Some TextBlock by (intro exI [of _ "fst (close_message i (s\<lparr>e_open := None\<rparr>))"] exI [of _ ?t]) (simp add: close_item_def b Let_def)
  next
    case ThinkingBlock
    let ?t = "snd (close_item s)"
    have "items_ok ?t" "closed_from s ?t" "r_tool_items ?t = r_tool_items s"
      using ok Some by (simp_all add: close_item_def Let_def b ThinkingBlock items_ok_def closed_from_def held_calls_def)
    moreover have "rruns (Items (map_option (said s) (e_open s)) D) (fst (close_item s)) (Items None D)"
      using Some by (auto simp: close_item_def Let_def b item_state_def said_def ThinkingBlock reasoning_item_says
        intro!: done_says)
    ultimately show ?thesis by (intro exI [of _ "fst (close_item s)"] exI [of _ ?t]) simp
  next
    case ToolBlock
    then show ?thesis
      using Some call [of function_item "json_obj [(''type'', JString ''function_call'')]"]
      by (auto simp: close_item_def Let_def b item_state_def)
  next
    case CustomToolBlock
    then show ?thesis
      using Some call [of custom_item "json_obj [(''type'', JString ''custom_tool_call'')]"]
      by (auto simp: close_item_def Let_def b item_state_def)
  qed
qed



section \<open>What may come next\<close>

text \<open>As on the Converse wire, with the kinds of item this wire has: a call of a custom tool always opens its item, and
  an identity of a reasoning item comes after the response was created.\<close>

record item_progress =
  ip_events :: nat
  ip_created :: bool
  ip_started :: "u32 set"
  ip_cur :: "u32 option"
  ip_waiting :: "u32 set"

definition no_items :: item_progress where
  "no_items = \<lparr>ip_events = 0, ip_created = False, ip_started = {}, ip_cur = None, ip_waiting = {}\<rparr>"

definition names_reasoning :: "string \<Rightarrow> json \<Rightarrow> bool" where
  "names_reasoning ity p \<longleftrightarrow>
     (if ity = ''responses_reasoning_content'' then is_some_and (as_array p) (\<lambda>parts. parts \<noteq> [])
      else is_some_and (as_str p) (\<lambda>t. t \<noteq> []))"

fun item_may_come :: "item_progress \<Rightarrow> ir_stream_event \<Rightarrow> bool" where
  "item_may_come c (Protocol ity p) =
     (ip_events c < 2 ^ 32 - 1 \<and> (ity \<in> set reasoning_names \<longrightarrow> ip_created c \<and> names_reasoning ity p))"
| "item_may_come c (CustomToolCallInputDelta _ idx) = (ip_events c < 2 ^ 32 - 1 \<and> ip_cur c = Some idx)"
| "item_may_come c ev = (ip_events c < 2 ^ 32 - 1 \<and> call_started ev \<inter> ip_started c = {}
     \<and> call_continued ev \<subseteq> ip_waiting c \<union> set_option (ip_cur c))"

fun closes_item :: "ir_stream_event \<Rightarrow> bool" where
  "closes_item (TextDelta _) = True"
| "closes_item (RefusalDelta _) = True"
| "closes_item (ReasoningDelta _) = True"
| "closes_item (ReasoningSignature _) = True"
| "closes_item ToolCallEnd = True"
| "closes_item (ImageDelta _ _) = True"
| "closes_item (Logprobs _ _) = True"
| "closes_item (AnnotationAdded _) = True"
| "closes_item (Protocol ity _) = (ity \<in> set reasoning_names)"
| "closes_item _ = False"

fun side_of_response :: "ir_stream_event \<Rightarrow> bool" where
  "side_of_response Done = True"
| "side_of_response (Protocol _ _) = True"
| "side_of_response (Unknown _ _) = True"
| "side_of_response (SearchEntryPoint _) = True"
| "side_of_response (Diagnostics _) = True"
| "side_of_response (Container _) = True"
| "side_of_response (ContextManagement _) = True"
| "side_of_response (StopSequence _) = True"
| "side_of_response _ = False"

definition item_came :: "ir_stream_event \<Rightarrow> item_progress \<Rightarrow> item_progress" where
  "item_came ev c =
     \<lparr>ip_events = Suc (ip_events c), ip_created = (ip_created c \<or> \<not> (side_of_response ev \<or> before_created ev)),
      ip_started = ip_started c \<union> call_started ev,
      ip_cur = (case ev of
          ToolCallStart _ _ _ i \<Rightarrow> (if ip_cur c = None then Some i else ip_cur c)
        | CustomToolCallStart _ _ i \<Rightarrow> Some i
        | _ \<Rightarrow> if closes_item ev then None else ip_cur c),
      ip_waiting = ip_waiting c \<union> (case ev of ToolCallStart _ _ _ i \<Rightarrow> (if ip_cur c = None then {} else {i}) | _ \<Rightarrow> {})\<rparr>"

definition call_kind :: "block_kind \<Rightarrow> bool" where
  "call_kind k \<longleftrightarrow> k = ToolBlock \<or> k = CustomToolBlock"

definition call_open :: "u32 \<Rightarrow> responses_encoder \<Rightarrow> bool" where
  "call_open idx s \<longleftrightarrow>
     (\<exists>enc k. e_tool_slots s idx = Some [enc] \<and> e_open s = Some (enc, k) \<and> call_kind k \<and> r_tool_items s enc \<noteq> None)"

definition item_rel :: "item_progress \<Rightarrow> responses_encoder \<Rightarrow> bool" where
  "item_rel c s \<longleftrightarrow>
     items_ok s \<and> unat (e_next_block s) \<le> ip_events c \<and> ip_events c < 2 ^ 32
     \<and> (\<forall>i. i \<notin> ip_started c \<longrightarrow> unwrap_or (e_tool_slots s i) [] = [] \<and> e_last_tool s i = None)
     \<and> (case ip_cur c of None \<Rightarrow> (\<forall>i k. e_open s = Some (i, k) \<longrightarrow> \<not> call_kind k) | Some idx \<Rightarrow> call_open idx s)
     \<and> (\<forall>idx \<in> ip_waiting c. \<exists>enc. e_tool_slots s idx = Some [enc] \<and> enc \<in> held_calls s)
     \<and> ip_waiting c \<union> set_option (ip_cur c) \<subseteq> ip_started c
     \<and> (ip_created c \<longrightarrow> e_started s) \<and> (\<not> e_started s \<longrightarrow> e_open s = None \<and> e_next_block s = 0)"

definition ifollows :: "item_progress \<Rightarrow> responses_encoder \<Rightarrow> responses_written \<Rightarrow> bool" where
  "ifollows c s r \<longleftrightarrow>
     (\<exists>fs t. r = (Inr fs, t) \<and> rruns (item_state s) fs (item_state t) \<and> item_rel c t \<and> \<not> e_finished t \<and> e_started t)"

definition same_calls :: "responses_encoder \<Rightarrow> responses_encoder \<Rightarrow> bool" where
  "same_calls s t \<longleftrightarrow>
     e_next_block t = e_next_block s \<and> e_open t = e_open s \<and> r_held t = r_held s \<and> e_tool_slots t = e_tool_slots s
     \<and> e_last_tool t = e_last_tool s \<and> e_started t = e_started s \<and> e_finished t = e_finished s"

lemma item_rel_closed:
  assumes "item_rel c s" "ip_events c < 2 ^ 32 - 1" "items_ok t" "unat (e_next_block t) \<le> Suc (unat (e_next_block s))"
    "e_tool_slots t = e_tool_slots s" "e_last_tool t = e_last_tool s" "r_held t = r_held s" "e_started t"
    "\<And>i k. e_open t = Some (i, k) \<Longrightarrow> \<not> call_kind k"
    "ip_events c' = Suc (ip_events c)" "ip_started c' = ip_started c" "ip_cur c' = None" "ip_waiting c' = ip_waiting c"
  shows "item_rel c' t"
  using assms by (auto simp: item_rel_def held_calls_def)

lemma ensure_item_runs:
  assumes ok: "items_ok s" "unat (e_next_block s) < 2 ^ 32 - 1" and kind: "\<not> call_kind kind"
  shows "\<exists>out t i. ensure_item kind s = (out, t) \<and> rruns (item_state s) out (item_state t) \<and> items_ok t
    \<and> e_open t = Some (i, kind) \<and> unat (e_next_block t) \<le> Suc (unat (e_next_block s)) \<and> r_held t = r_held s
    \<and> e_tool_slots t = e_tool_slots s \<and> e_last_tool t = e_last_tool s \<and> e_started t = e_started s \<and> e_finished t = e_finished s"
proof (cases "is_some_and (e_open s) (\<lambda>(_, k). k = kind)")
  case True
  then obtain i where "e_open s = Some (i, kind)" by (auto simp: is_some_and_def split: option.splits)
  then show ?thesis using True ok by (simp add: ensure_item_def)
next
  case False
  obtain out u where o: "close_item s = (out, u)" "rruns (item_state s) out (Items None (added_items s))" "closed_from s u"
      "items_ok u"
    using close_item_runs [OF ok(1), of "added_items s"] by (auto simp: item_state_def)
  let ?n = "e_next_block s"
  have u: "e_next_block u = ?n" "r_held u = r_held s" using o(3) by (simp_all add: closed_from_def)
  define t where "t = u\<lparr>e_next_block := saturating_add ?n 1, e_open := Some (?n, kind)\<rparr>"
  note below = below_succ [OF ok(2)]
  have a: "added_items t = insert ?n (added_items s)" "?n \<notin> added_items s"
    using ok(1) u below by (auto simp: added_items_def held_calls_def t_def items_ok_def)
  have clean: "\<not> i < saturating_add ?n 1 \<Longrightarrow> \<not> i < ?n" for i using below by auto
  have "items_ok t"
    using o(4) a(1) clean u below by (auto simp: items_ok_def held_calls_def t_def)
  moreover have opened: "e_open t = Some (?n, kind)" by (simp add: t_def)
  moreover have "said t (?n, kind) = (?n, [], [])"
    using o(4) kind u by (cases kind) (simp_all add: said_def items_ok_def t_def call_kind_def unwrap_or_def)
  then have "rruns (item_state s) (out @ [item_added ?n (empty_item kind)]) (item_state t)"
    using rruns_append [OF o(2) rruns_one [OF added_step [OF a(2)]]] by (simp add: item_state_def a(1) opened)
  moreover have "ensure_item kind s = (out @ [item_added ?n (empty_item kind)], t)"
    using False o(1) u by (simp add: ensure_item_def t_def Let_def)
  moreover have "unat (e_next_block t) \<le> Suc (unat ?n) \<and> r_held t = r_held s \<and> e_tool_slots t = e_tool_slots s
      \<and> e_last_tool t = e_last_tool s \<and> e_started t = e_started s \<and> e_finished t = e_finished s"
    using o(3) ok(2) by (simp add: t_def closed_from_def)
  ultimately show ?thesis
    by (intro exI [of _ "out @ [item_added ?n (empty_item kind)]"] exI [of _ t] exI [of _ ?n]) blast
qed


definition emits :: "block_kind \<Rightarrow> (u32 \<Rightarrow> responses_encoder \<Rightarrow> out_frame \<times> responses_encoder) \<Rightarrow> bool" where
  "emits kind emit \<longleftrightarrow>
     (\<forall>i u. items_ok u \<and> e_open u = Some (i, kind) \<longrightarrow>
        rstep (item_state u) (fst (emit i u)) (item_state (snd (emit i u))) \<and> items_ok (snd (emit i u))
        \<and> same_calls u (snd (emit i u)))"

lemma on_item_follows:
  assumes rel: "item_rel c s" "ip_events c < 2 ^ 32 - 1" "\<not> e_finished s" "e_started s" and kind: "\<not> call_kind kind"
    and emit: "emits kind emit"
    and c': "ip_events c' = Suc (ip_events c)" "ip_started c' = ip_started c" "ip_cur c' = None" "ip_waiting c' = ip_waiting c"
  shows "ifollows c' s (on_item kind emit s)"
proof -
  have ok: "items_ok s" "unat (e_next_block s) < 2 ^ 32 - 1" using rel by (simp_all add: item_rel_def)
  obtain out u i where u: "ensure_item kind s = (out, u)" "rruns (item_state s) out (item_state u)" "items_ok u"
      "e_open u = Some (i, kind)" "unat (e_next_block u) \<le> Suc (unat (e_next_block s))" "r_held u = r_held s"
      "e_tool_slots u = e_tool_slots s" "e_last_tool u = e_last_tool s" "e_started u = e_started s" "e_finished u = e_finished s"
    using ensure_item_runs [OF ok kind] by metis
  obtain f t where t: "emit i u = (f, t)" by (cases "emit i u")
  then have e: "rstep (item_state u) f (item_state t)" "items_ok t" "same_calls u t"
    using emit u(3,4) by (auto simp: emits_def dest!: spec [of _ i] spec [of _ u])
  have "item_rel c' t"
    by (rule item_rel_closed [OF rel(1,2) e(2) _ _ _ _ _ _ c']) (use e(3) u kind rel(4) in \<open>auto simp: same_calls_def\<close>)
  moreover have "on_item kind emit s = (Inr (out @ [f]), t)"
    by (simp add: on_item_def u(1,4) t item_index_def)
  ultimately show ?thesis
    using rruns_append [OF u(2) rruns_one [OF e(1)]] e(3) u(9,10) rel(3,4)
    by (auto simp: ifollows_def same_calls_def)
qed

lemma kept_calls:
  assumes "items_ok u" "e_open u = Some (i, k)"
  shows "i \<in> added_items u" "i < e_next_block u"
  using assms by (auto simp: items_ok_def added_items_def)

lemma emits_text:
  "emits TextBlock (\<lambda>i s. (delta_at ''response.output_text.delta'' i t, s\<lparr>r_text_items := append_at i t (r_text_items s)\<rparr>))"
  "emits TextBlock (\<lambda>i s. (delta_at ''response.refusal.delta'' i t, s\<lparr>r_refusal_items := append_at i t (r_refusal_items s)\<rparr>))"
  "emits ThinkingBlock (\<lambda>i s. (delta_at ''response.reasoning_summary_text.delta'' i t,
     s\<lparr>r_reasoning_items := append_at i t (r_reasoning_items s)\<rparr>))"
proof -
  have r: "rstep (Items (Some (i, a, r)) D) (delta_at ''response.refusal.delta'' i t) (Items (Some (i, a, r @ t)) D)" for i a r D
    by (rule refused [where v = "json_obj [(''type'', JString ''response.refusal.delta''), (''output_index'', json_u32 i), (''delta'', JString t)]"])
      (simp_all add: frame_defs framed_at str_field_def)
  have g: "''response.output_text.delta'' \<in> set growing" "''response.reasoning_summary_text.delta'' \<in> set growing"
    by (simp_all add: growing_def)
  note defs = emits_def same_calls_def item_state_def said_def append_at_def added_items_def held_calls_def unwrap_or_def
  show "emits TextBlock (\<lambda>i s. (delta_at ''response.output_text.delta'' i t, s\<lparr>r_text_items := append_at i t (r_text_items s)\<rparr>))"
    using delta_step [OF g(1), of _ _ _ _ t]
    by (auto simp: defs items_ok_def simp flip: append_assoc dest: kept_calls)
  show "emits TextBlock (\<lambda>i s. (delta_at ''response.refusal.delta'' i t, s\<lparr>r_refusal_items := append_at i t (r_refusal_items s)\<rparr>))"
    using r by (auto simp: defs items_ok_def dest: kept_calls)
  show "emits ThinkingBlock (\<lambda>i s. (delta_at ''response.reasoning_summary_text.delta'' i t,
     s\<lparr>r_reasoning_items := append_at i t (r_reasoning_items s)\<rparr>))"
    using delta_step [OF g(2), of _ _ _ _ t] by (auto simp: defs items_ok_def dest: kept_calls)
qed


lemma emits_signature:
  "emits ThinkingBlock (\<lambda>i s. (item_added i (json_obj [(''type'', JString ''reasoning''), (''signature'', JString sig)]), s))"
proof -
  have "rstep (Items (Some (i, a, r)) D) (item_added i (json_obj [(''type'', JString ''reasoning''), (''signature'', JString sig)]))
      (Items (Some (i, a, r)) D)" for i a r D
    by (rule signed [where item = "json_obj [(''type'', JString ''reasoning''), (''signature'', JString sig)]" and v = "json_obj [(''type'', JString ''response.output_item.added''), (''output_index'', json_u32 i),
          (''item'', json_obj [(''type'', JString ''reasoning''), (''signature'', JString sig)])]"])
      (simp_all add: frame_defs framed_at)
  then show ?thesis by (simp add: emits_def same_calls_def item_state_def said_def)
qed

text \<open>An emitter that leaves what was said as it is.\<close>

lemma emits_remark:
  assumes "\<And>i u a r D. rstep (Items (Some (i, a, r)) D) (fst (emit i u)) (Items (Some (i, a, r)) D)"
    and "\<And>i u. items_ok u \<Longrightarrow> e_open u = Some (i, k) \<Longrightarrow>
      items_ok (snd (emit i u)) \<and> same_calls u (snd (emit i u)) \<and> said (snd (emit i u)) (i, k) = said u (i, k)"
  shows "emits k emit"
  unfolding emits_def
proof (intro allI impI)
  fix i u
  assume u: "items_ok u \<and> e_open u = Some (i, k)"
  then have s: "items_ok (snd (emit i u))" "same_calls u (snd (emit i u))" "said (snd (emit i u)) (i, k) = said u (i, k)"
    using assms(2) [of u i] by simp_all
  obtain a r where x: "said u (i, k) = (i, a, r)" by (cases "said u (i, k)") (simp add: said_def)
  have "item_state u = Items (Some (i, a, r)) (added_items u)" "item_state (snd (emit i u)) = item_state u"
    using u s by (simp_all add: item_state_def x same_calls_def added_items_def held_calls_def)
  then show "rstep (item_state u) (fst (emit i u)) (item_state (snd (emit i u))) \<and> items_ok (snd (emit i u))
      \<and> same_calls u (snd (emit i u))"
    using s assms(1) by simp
qed

lemma no_text_step:
  assumes "''output_index'' \<notin> fst ` set fs" "map_of (rev fs) ''delta'' = Some (JString [])"
  shows "rstep (Items (Some (i, a, r)) D) (at_output ''response.output_text.delta'' i fs) (Items (Some (i, a, r)) D)"
proof -
  have "rstep (Items (Some (i, a, r)) D) (at_output ''response.output_text.delta'' i fs) (Items (Some (i, a @ [], r)) D)"
    using assms(2) by (intro grown [OF _ framed_at [OF assms(1)]]) (simp_all add: growing_def str_field_def map_add_def)
  then show ?thesis by simp
qed

lemma emits_annotation: "emits TextBlock (emit_annotation ann)"
proof (rule emits_remark)
  show "rstep (Items (Some (i, a, r)) D) (fst (emit_annotation ann i u)) (Items (Some (i, a, r)) D)" for i u a r D
    by (simp add: emit_annotation_def Let_def remark_step remarks_def)
  show "items_ok (snd (emit_annotation ann i u)) \<and> same_calls u (snd (emit_annotation ann i u))
      \<and> said (snd (emit_annotation ann i u)) (i, TextBlock) = said u (i, TextBlock)" if "items_ok u" for i u
    using that by (simp add: emit_annotation_def Let_def items_ok_def same_calls_def said_def held_calls_def added_items_def)
qed

lemma emits_logprobs: "emits TextBlock (emit_logprobs content refusal)"
proof (rule emits_remark)
  show "rstep (Items (Some (i, a, r)) D) (fst (emit_logprobs content refusal i u)) (Items (Some (i, a, r)) D)" for i u a r D
    by (simp add: emit_logprobs_def Let_def delta_at_def no_text_step)
  show "items_ok (snd (emit_logprobs content refusal i u)) \<and> same_calls u (snd (emit_logprobs content refusal i u))
      \<and> said (snd (emit_logprobs content refusal i u)) (i, TextBlock) = said u (i, TextBlock)" if "items_ok u" for i u
    using that by (simp add: emit_logprobs_def Let_def items_ok_def same_calls_def said_def held_calls_def added_items_def)
qed

lemma emits_image: "emits TextBlock (emit_image m d)"
proof (rule emits_remark)
  let ?image = "json_obj [(''type'', JString ''output_image''), (''image_url'', JString (''data:'' @ m @ '';base64,'' @ d))]"
  have p: "part_ok ?image" "\<not> is_text_part ?image" "part_ok (output_text t)" for t
    by (simp_all add: part_ok_def is_refusal_part_def is_text_part_def str_field_def output_text_def)
  show "rstep (Items (Some (i, a, r)) D) (fst (emit_image m d i u)) (Items (Some (i, a, r)) D)" for i u a r D
    by (simp add: emit_image_def Let_def remark_step remarks_def)
  show "items_ok (snd (emit_image m d i u)) \<and> same_calls u (snd (emit_image m d i u))
      \<and> said (snd (emit_image m d i u)) (i, TextBlock) = said u (i, TextBlock)"
    if "items_ok u" "e_open u = Some (i, TextBlock)" for i u
  proof -
    define parts where "parts = unwrap_or (r_message_parts u i) [] @ (if unwrap_or (r_text_items u i) [] = [] then []
      else [output_text (unwrap_or (r_text_items u i) [])])"
    have parts: "list_all part_ok parts"
      "parts_text parts = parts_text (unwrap_or (r_message_parts u i) []) @ unwrap_or (r_text_items u i) []"
      using that p by (simp_all add: parts_def items_ok_def unwrap_or_def)
    have "snd (emit_image m d i u) = u\<lparr>r_text_items := (r_text_items u)(i := None),
        r_message_parts := (r_message_parts u)(i \<mapsto> parts @ [?image])\<rparr>"
      by (simp add: emit_image_def Let_def parts_def)
    then show ?thesis
      using that parts p kept_calls [OF that]
      by (auto simp: items_ok_def same_calls_def said_def held_calls_def added_items_def unwrap_or_def)
  qed
qed


section \<open>Calls\<close>

definition slot_given :: "responses_encoder \<Rightarrow> u32 \<Rightarrow> responses_encoder \<Rightarrow> bool" where
  "slot_given s idx t \<longleftrightarrow>
     e_next_block t = saturating_add (e_next_block s) 1 \<and> e_open t = e_open s \<and> r_held t = r_held s
     \<and> e_tool_slots t = (e_tool_slots s)(idx \<mapsto> [e_next_block s]) \<and> e_last_tool t = (e_last_tool s)(idx \<mapsto> e_next_block s)
     \<and> e_started t = e_started s \<and> e_finished t = e_finished s \<and> r_message_parts t = r_message_parts s
     \<and> r_text_items t = r_text_items s \<and> r_refusal_items t = r_refusal_items s \<and> r_reasoning_items t = r_reasoning_items s
     \<and> (\<forall>i. i \<noteq> e_next_block s \<longrightarrow> r_tool_items t i = r_tool_items s i)"

lemma take_pending_fields:
  "\<exists>tp tx. take_pending_tool_extra index enc s = s\<lparr>r_tool_pending := tp, r_tool_extra := tx\<rparr>"
proof (cases "r_tool_pending s index")
  case None
  then show ?thesis
    by (intro exI [of _ "r_tool_pending s"] exI [of _ "r_tool_extra s"]) (simp add: take_pending_tool_extra_def)
qed (auto simp: take_pending_tool_extra_def)

lemma alloc_slot_given:
  assumes "unwrap_or (e_tool_slots s idx) [] = []"
  shows "fst (alloc_tool idx s) = e_next_block s" "slot_given s idx (snd (alloc_tool idx s))"
  using assms by (simp_all add: alloc_tool_def record_slot_def Let_def slot_given_def)

lemma slot_given_keeps:
  assumes "slot_given s idx t" "items_ok s" "unat (e_next_block s) < 2 ^ 32 - 1"
  shows "items_ok t" "added_items t = insert (e_next_block s) (added_items s)" "e_next_block s \<notin> added_items s"
    "map_option (said t) (e_open t) = map_option (said s) (e_open s)"
proof -
  note below = below_succ [OF assms(3)]
  have clean: "\<not> i < saturating_add (e_next_block s) 1 \<Longrightarrow> \<not> i < e_next_block s" for i using below by auto
  show a: "added_items t = insert (e_next_block s) (added_items s)"
    using assms(1,2) below by (auto simp: added_items_def held_calls_def slot_given_def items_ok_def)
  show "items_ok t"
    using assms(1,2) a clean below by (auto simp: items_ok_def slot_given_def held_calls_def)
  show "e_next_block s \<notin> added_items s" by (simp add: added_items_def)
  then have "i \<noteq> e_next_block s" if "e_open s = Some (i, k)" for i k
    using assms(2) that by (auto simp: items_ok_def)
  then show "map_option (said t) (e_open t) = map_option (said s) (e_open s)"
    using assms(1) by (cases "e_open s") (auto simp: slot_given_def said_def split: prod.splits block_kind.splits)
qed

lemma start_held:
  assumes "item_rel c s" "ip_events c < 2 ^ 32 - 1" "\<not> e_finished s" "e_started s" "idx \<notin> ip_started c"
    and t: "slot_given s idx t" and open': "ip_cur c = Some j"
    and c': "ip_events c' = Suc (ip_events c)" "ip_started c' = insert idx (ip_started c)" "ip_cur c' = Some j"
      "ip_waiting c' = insert idx (ip_waiting c)"
  shows "ifollows c' s (Inr [], t\<lparr>r_held := bt_insert (e_next_block s) () (r_held s)\<rparr>)"
proof -
  let ?n = "e_next_block s"
  let ?t = "t\<lparr>r_held := bt_insert ?n () (r_held s)\<rparr>"
  have ok: "items_ok s" "unat ?n < 2 ^ 32 - 1" using assms(1,2) by (simp_all add: item_rel_def)
  note kept = slot_given_keeps [OF t ok]
  have h: "held_calls ?t = insert ?n (held_calls s)" by (simp add: held_calls_def)
  have a: "added_items ?t = added_items s"
    using kept(2,3) t by (auto simp: added_items_def held_calls_def slot_given_def)
  have tf: "e_next_block t = saturating_add ?n 1" "e_open t = e_open s" using t by (simp_all add: slot_given_def)
  have "items_ok ?t"
    unfolding items_ok_def a h
  proof (intro conjI)
    show "bt_wf (r_held ?t)" "\<forall>i k. e_open ?t = Some (i, k) \<longrightarrow> i \<in> added_items s" using ok(1) tf by (auto simp: items_ok_def)
    show "insert ?n (held_calls s) \<subseteq> {i. i < e_next_block ?t}"
      using ok(1) tf below_succ [OF ok(2)] by (auto simp: items_ok_def)
  qed (use kept(1) in \<open>simp_all add: items_ok_def\<close>)
  moreover have "\<exists>enc. e_tool_slots ?t l = Some [enc] \<and> enc \<in> held_calls ?t" if "l \<in> ip_waiting c'" for l
    using assms(1,5) that t by (cases "l = idx") (auto simp: item_rel_def c' h slot_given_def)
  moreover have "call_open j ?t"
  proof -
    have "call_open j s" using assms(1) open' by (simp add: item_rel_def)
    then obtain enc k where e: "e_tool_slots s j = Some [enc]" "e_open s = Some (enc, k)" "call_kind k" "r_tool_items s enc \<noteq> None"
      unfolding call_open_def by blast
    have "j \<noteq> idx" using assms(1,5) open' by (auto simp: item_rel_def)
    moreover have "enc \<noteq> ?n" using ok(1) e(2) by (auto simp: items_ok_def added_items_def)
    ultimately show ?thesis using e t by (simp add: call_open_def slot_given_def)
  qed
  ultimately have "item_rel c' ?t"
    using assms(1-4) t ok(2) open' by (auto simp: item_rel_def c' slot_given_def)
  moreover have "said ?t = said t" by (simp add: said_def fun_eq_iff split: block_kind.split)
  then have "item_state ?t = item_state s" using kept(4) a by (simp add: item_state_def)
  ultimately show ?thesis
    using assms(3,4) t by (auto simp: ifollows_def slot_given_def intro: rruns_nil)
qed


lemma start_opens:
  assumes "item_rel c s" "ip_events c < 2 ^ 32 - 1" "\<not> e_finished s" "e_started s" "idx \<notin> ip_started c"
    and t: "slot_given s idx t"
    and out: "rruns (Items (map_option (said s) (e_open s)) (added_items s)) out (Items None (added_items s))"
    and u: "items_ok u" "e_next_block u = e_next_block t" "r_held u = r_held t" "e_tool_slots u = e_tool_slots t"
      "e_last_tool u = e_last_tool t" "e_started u = e_started t" "e_finished u = e_finished t" "added_items u = added_items t"
      "e_open u = Some (e_next_block s, k)" "r_tool_items u (e_next_block s) = Some (x, y, [])" and k: "call_kind k"
    and c': "ip_events c' = Suc (ip_events c)" "ip_started c' = insert idx (ip_started c)" "ip_cur c' = Some idx"
      "ip_waiting c' = ip_waiting c"
  shows "ifollows c' s (Inr (out @ [item_added (e_next_block s) item]), u)"
proof -
  let ?n = "e_next_block s"
  have ok: "items_ok s" "unat ?n < 2 ^ 32 - 1" using assms(1,2) by (simp_all add: item_rel_def)
  note kept = slot_given_keeps [OF t ok]
  have "call_open idx u" using t u k by (simp add: call_open_def slot_given_def)
  moreover have "\<exists>enc. e_tool_slots u l = Some [enc] \<and> enc \<in> held_calls u" if "l \<in> ip_waiting c'" for l
  proof -
    have "l \<noteq> idx" using assms(1,5) that by (auto simp: item_rel_def c')
    then show ?thesis using assms(1) that t u by (auto simp: item_rel_def c' held_calls_def slot_given_def)
  qed
  ultimately have "item_rel c' u"
    using assms(1-4) t u ok(2) by (auto simp: item_rel_def c' slot_given_def)
  moreover have "said u (?n, k) = (?n, [], [])" using k u by (auto simp: said_def call_kind_def)
  then have "rruns (item_state s) (out @ [item_added ?n item]) (item_state u)"
    using rruns_append [OF out rruns_one [OF added_step [OF kept(3)]]] u(8,9) kept(2) by (simp add: item_state_def)
  ultimately show ?thesis
    using assms(3,4) t u by (auto simp: ifollows_def slot_given_def)
qed

lemma responses_tool_start_follows:
  assumes rel: "item_rel c s" "ip_events c < 2 ^ 32 - 1" "\<not> e_finished s" "e_started s" and idx: "idx \<notin> ip_started c"
    and c': "ip_events c' = Suc (ip_events c)" "ip_started c' = insert idx (ip_started c)"
      "ip_cur c' = (if ip_cur c = None then Some idx else ip_cur c)"
      "ip_waiting c' = ip_waiting c \<union> (if ip_cur c = None then {} else {idx})"
  shows "ifollows c' s (let (out, s) = responses_tool_start id' name idx s in (Inr out, s))"
proof -
  let ?n = "e_next_block s"
  have ok: "items_ok s" "unat ?n < 2 ^ 32 - 1" using rel by (simp_all add: item_rel_def)
  have fresh: "unwrap_or (e_tool_slots s idx) [] = []" using rel(1) idx by (simp add: item_rel_def)
  obtain a where a: "alloc_tool idx s = (?n, a)" "slot_given s idx a"
    using alloc_slot_given [OF fresh] by (metis prod.collapse)
  define t where "t = take_pending_tool_extra idx ?n
    (a\<lparr>e_tool_ids := (e_tool_ids a)(?n \<mapsto> id'), r_tool_items := (r_tool_items a)(?n \<mapsto> (id', name, []))\<rparr>)"
  obtain tp tx where "t = a\<lparr>e_tool_ids := (e_tool_ids a)(?n \<mapsto> id'), r_tool_items := (r_tool_items a)(?n \<mapsto> (id', name, [])),
      r_tool_pending := tp, r_tool_extra := tx\<rparr>"
    unfolding t_def using take_pending_fields by metis
  then have t: "slot_given s idx t" "r_tool_items t ?n = Some (id', name, [])" using a(2) by (simp_all add: slot_given_def)
  have n: "?n \<noteq> i" if "e_open s = Some (i, k)" for i k using ok(1) that by (auto simp: items_ok_def added_items_def)
  have start: "responses_tool_start id' name idx s =
      (if is_some_and (e_open s) (\<lambda>(open_enc, kind). (kind = ToolBlock \<or> kind = CustomToolBlock) \<and> open_enc \<noteq> ?n)
       then ([], t\<lparr>r_held := bt_insert ?n () (r_held t)\<rparr>)
       else (fst (close_item t) @ [item_added ?n (function_item id' name [])],
             (snd (close_item t))\<lparr>e_open := Some (?n, ToolBlock)\<rparr>))"
    using a by (simp add: responses_tool_start_def t_def Let_def case_prod_beta slot_given_def)
  show ?thesis
  proof (cases "ip_cur c")
    case (Some j)
    then have "call_open j s" using rel(1) by (simp add: item_rel_def)
    then obtain e k where "e_open s = Some (e, k)" "call_kind k" by (auto simp: call_open_def)
    then have "responses_tool_start id' name idx s = ([], t\<lparr>r_held := bt_insert ?n () (r_held s)\<rparr>)"
      using n t(1) by (auto simp: start is_some_and_def call_kind_def slot_given_def)
    then show ?thesis
      using start_held [OF rel idx t(1) Some, of c'] c' Some by simp
  next
    case None
    then have "\<not> is_some_and (e_open s) (\<lambda>(open_enc, kind). (kind = ToolBlock \<or> kind = CustomToolBlock) \<and> open_enc \<noteq> ?n)"
      using rel(1) by (auto simp: item_rel_def is_some_and_def call_kind_def split: option.splits)
    note st = start [simplified if_not_P [OF this]]
    note kept = slot_given_keeps [OF t(1) ok]
    obtain out u where u: "close_item t = (out, u)" "rruns (Items (map_option (said t) (e_open t)) (added_items s)) out (Items None (added_items s))"
        "closed_from t u" "items_ok u" "\<forall>i. (\<forall>k. e_open t \<noteq> Some (i, k)) \<longrightarrow> r_tool_items u i = r_tool_items t i"
      using close_item_runs [OF kept(1), of "added_items s"] by blast
    let ?u = "u\<lparr>e_open := Some (?n, ToolBlock)\<rparr>"
    have "added_items u = added_items t" using u(3) by (simp add: added_items_def held_calls_def closed_from_def)
    moreover have "added_items ?u = added_items u" by (simp add: added_items_def held_calls_def)
    moreover have "items_ok ?u"
      using u(4) kept(2) calculation by (auto simp: items_ok_def held_calls_def)
    moreover have "\<forall>k. e_open t \<noteq> Some (?n, k)" using n t(1) unfolding slot_given_def by metis
    with u(5) t(2) have "r_tool_items ?u ?n = Some (id', name, [])" by simp
    ultimately show ?thesis
      using start_opens [OF rel idx t(1), where out = out and u = ?u and k = ToolBlock and c' = c']
        u(2,3) kept(4) None c' by (simp add: st u(1) closed_from_def call_kind_def)
  qed
qed


lemma responses_custom_start_follows:
  assumes rel: "item_rel c s" "ip_events c < 2 ^ 32 - 1" "\<not> e_finished s" "e_started s" and idx: "idx \<notin> ip_started c"
    and c': "ip_events c' = Suc (ip_events c)" "ip_started c' = insert idx (ip_started c)" "ip_cur c' = Some idx"
      "ip_waiting c' = ip_waiting c"
  shows "ifollows c' s (let (out, s) = responses_custom_start id' name idx s in (Inr out, s))"
proof -
  let ?n = "e_next_block s"
  have ok: "items_ok s" "unat ?n < 2 ^ 32 - 1" using rel by (simp_all add: item_rel_def)
  have fresh: "unwrap_or (e_tool_slots s idx) [] = []" using rel(1) idx by (simp add: item_rel_def)
  obtain t where t: "alloc_tool idx s = (?n, t)" "slot_given s idx t"
    using alloc_slot_given [OF fresh] by (metis prod.collapse)
  note kept = slot_given_keeps [OF t(2) ok]
  obtain out u where u: "close_item t = (out, u)" "rruns (Items (map_option (said t) (e_open t)) (added_items s)) out (Items None (added_items s))"
      "closed_from t u" "items_ok u"
    using close_item_runs [OF kept(1), of "added_items s"] by blast
  let ?v = "u\<lparr>r_tool_items := (r_tool_items u)(?n \<mapsto> (id', name, []))\<rparr>"
  obtain tp tx where w: "take_pending_tool_extra idx ?n ?v = ?v\<lparr>r_tool_pending := tp, r_tool_extra := tx\<rparr>"
    using take_pending_fields by metis
  define w where "w = ?v\<lparr>r_tool_pending := tp, r_tool_extra := tx, e_open := Some (?n, CustomToolBlock)\<rparr>"
  have a: "added_items w = added_items t"
    using u(3) by (simp add: added_items_def held_calls_def closed_from_def w_def)
  have "items_ok w"
    using u(4) kept(2) a by (auto simp: items_ok_def held_calls_def w_def)
  then have "ifollows c' s (Inr (out @ [item_added ?n (custom_item id' name [])]), w)"
    using u(2,3) kept(4) a
    by (intro start_opens [OF rel idx t(2), where k = CustomToolBlock])
      (simp_all add: c' closed_from_def call_kind_def, simp_all add: w_def)
  then show ?thesis by (simp add: responses_custom_start_def t(1) u(1) w w_def)
qed

lemma items_kept_follow:
  assumes rel: "item_rel c s" "ip_events c < 2 ^ 32 - 1" "\<not> e_finished s" "e_started s"
    and t: "items_ok t" "same_calls s t" "\<And>i. r_tool_items s i \<noteq> None \<Longrightarrow> r_tool_items t i \<noteq> None"
    and fs: "rruns (item_state s) fs (item_state t)"
    and c': "ip_events c' = Suc (ip_events c)" "ip_started c' = ip_started c" "ip_cur c' = ip_cur c" "ip_waiting c' = ip_waiting c"
  shows "ifollows c' s (Inr fs, t)"
proof -
  have co: "call_open j t" if "call_open j s" for j
    using that t(2,3) unfolding call_open_def same_calls_def by metis
  have "case ip_cur c' of None \<Rightarrow> (\<forall>i k. e_open t = Some (i, k) \<longrightarrow> \<not> call_kind k) | Some idx \<Rightarrow> call_open idx t"
    using rel(1) co t(2) by (cases "ip_cur c") (simp_all add: item_rel_def same_calls_def c'(3))
  then have "item_rel c' t"
    using rel t(1,2) by (simp add: item_rel_def same_calls_def held_calls_def c')
  then show ?thesis using rel(3,4) t(2) fs by (simp add: ifollows_def same_calls_def)
qed

lemma fragment_follows:
  assumes rel: "item_rel c s" "ip_events c < 2 ^ 32 - 1" "\<not> e_finished s" "e_started s"
    and idx: "idx \<in> ip_waiting c \<union> set_option (ip_cur c)" and name: "name \<in> set growing"
    and c': "ip_events c' = Suc (ip_events c)" "ip_started c' = ip_started c" "ip_cur c' = ip_cur c" "ip_waiting c' = ip_waiting c"
  shows "\<exists>e t. tool_enc idx s = (e, t) \<and> r_held t = r_held s
    \<and> ifollows c' s (Inr (if map_of (r_held s) e = None then [call_delta name e item_id d] else []), append_call e d t)
    \<and> (ip_cur c = Some idx \<longrightarrow> map_of (r_held s) e = None)"
proof -
  have ok: "items_ok s" using rel by (simp add: item_rel_def)
  have cur: "ip_cur c = Some idx \<Longrightarrow> call_open idx s" using rel(1) by (simp add: item_rel_def)
  have "\<exists>e. e_tool_slots s idx = Some [e] \<and> (e \<in> held_calls s \<or> call_open idx s)"
  proof (cases "idx \<in> ip_waiting c")
    case True
    then show ?thesis using rel(1) by (auto simp: item_rel_def)
  next
    case False
    then have "call_open idx s" using idx cur by (cases "ip_cur c") auto
    then show ?thesis by (auto simp: call_open_def)
  qed
  then obtain e where e: "e_tool_slots s idx = Some [e]" "e \<in> held_calls s \<or> call_open idx s" by blast
  define t where "t = s\<lparr>e_tool_got_arg := insert e (e_tool_got_arg s), e_tool_slots := e_tool_slots s\<rparr>"
  have k: "tool_enc idx s = (e, t)" using e(1) by (simp add: tool_enc_def known_slot_def fun_upd_idem t_def)
  have t: "same_calls s (append_call e d t)" "r_tool_items t = r_tool_items s"
    by (simp_all add: t_def append_call_def same_calls_def split: option.split)
  have okt: "items_ok (append_call e d t)"
    using ok by (simp add: t_def append_call_def items_ok_def held_calls_def added_items_def split: option.split)
  have some: "r_tool_items (append_call e d t) i \<noteq> None" if "r_tool_items s i \<noteq> None" for i
    using that by (auto simp: append_call_def t(2) split: option.split)
  have a: "added_items (append_call e d t) = added_items s"
    using t(1) by (simp add: added_items_def held_calls_def same_calls_def)
  have other: "said (append_call e d t) (i, k) = said s (i, k)" if "i \<noteq> e" for i k
    using that by (simp add: said_def append_call_def t_def split: option.split block_kind.split)
  note follow = items_kept_follow [OF rel okt t(1) some _ c']
  show ?thesis
  proof (cases "map_of (r_held s) e")
    case (Some u)
    then have h: "e \<in> held_calls s" by (force simp: held_calls_def dest: map_of_SomeD)
    then have n: "i \<noteq> e" if "e_open s = Some (i, k)" for i k using ok that by (auto simp: items_ok_def added_items_def)
    then have "item_state (append_call e d t) = item_state s"
      using t(1) other by (cases "e_open s") (auto simp: item_state_def a same_calls_def)
    moreover have "ip_cur c \<noteq> Some idx" using n cur e(1) by (auto simp: call_open_def)
    ultimately show ?thesis using Some follow by (simp add: k rruns_nil t_def)
  next
    case None
    then have "e \<notin> held_calls s" by (auto simp: held_calls_def map_of_eq_None_iff)
    then have "call_open idx s" using e(2) by blast
    then obtain kd x y args where o: "e_open s = Some (e, kd)" "call_kind kd" "r_tool_items s e = Some (x, y, args)"
      using e(1) by (auto simp: call_open_def)
    have "said (append_call e d t) (e, kd) = (e, args @ d, [])" "said s (e, kd) = (e, args, [])"
      using o by (auto simp: said_def call_kind_def append_call_def t(2))
    moreover have "e_open (append_call e d t) = Some (e, kd)" using t(1) o(1) by (simp add: same_calls_def)
    ultimately have "item_state s = Items (Some (e, args, [])) (added_items s)"
      "item_state (append_call e d t) = Items (Some (e, args @ d, [])) (added_items s)"
      using o(1) by (simp_all add: item_state_def a)
    then have "rruns (item_state s) [call_delta name e item_id d] (item_state (append_call e d t))"
      using call_delta_step [OF name] by (simp add: rruns_one)
    then show ?thesis using None follow by (simp add: k t_def)
  qed
qed


lemma append_call_fields [simp]: "r_held (append_call e d t) = r_held t" "e_tool_ids (append_call e d t) = e_tool_ids t"
  by (simp_all add: append_call_def split: option.split)

lemma responses_tool_arg_follows:
  assumes "item_rel c s" "ip_events c < 2 ^ 32 - 1" "\<not> e_finished s" "e_started s"
    and "idx \<in> ip_waiting c \<union> set_option (ip_cur c)"
    and "ip_events c' = Suc (ip_events c)" "ip_started c' = ip_started c" "ip_cur c' = ip_cur c" "ip_waiting c' = ip_waiting c"
  shows "ifollows c' s (let (out, s) = responses_tool_arg d idx s in (Inr out, s))"
proof -
  let ?id = "unwrap_or (e_tool_ids (snd (tool_enc idx s)) (fst (tool_enc idx s))) []"
  have "''response.function_call_arguments.delta'' \<in> set growing" by (simp add: growing_def)
  from fragment_follows [OF assms(1-5) this assms(6-9), of ?id d] show ?thesis
    by (auto simp: responses_tool_arg_def Let_def)
qed

lemma responses_custom_input_follows:
  assumes "item_rel c s" "ip_events c < 2 ^ 32 - 1" "\<not> e_finished s" "e_started s" and cur: "ip_cur c = Some idx"
    and "ip_events c' = Suc (ip_events c)" "ip_started c' = ip_started c" "ip_cur c' = ip_cur c" "ip_waiting c' = ip_waiting c"
  shows "ifollows c' s (let (out, s) = responses_custom_input d idx s in (Inr out, s))"
proof -
  let ?s = "append_call (fst (tool_enc idx s)) d (snd (tool_enc idx s))"
  let ?id = "case r_tool_items ?s (fst (tool_enc idx s)) of Some (id', _, _) \<Rightarrow> id' | None \<Rightarrow> []"
  have idx: "idx \<in> ip_waiting c \<union> set_option (ip_cur c)" by (simp add: cur)
  have "''response.custom_tool_call_input.delta'' \<in> set growing" by (simp add: growing_def)
  from fragment_follows [OF assms(1-4) idx this assms(6-9), of ?id d] show ?thesis
    by (auto simp: responses_custom_input_def Let_def cur)
qed

lemma close_item_follows:
  assumes rel: "item_rel c s" "ip_events c < 2 ^ 32 - 1" "\<not> e_finished s" "e_started s"
    and c': "ip_events c' = Suc (ip_events c)" "ip_started c' = ip_started c" "ip_cur c' = None" "ip_waiting c' = ip_waiting c"
  shows "ifollows c' s (let (out, s) = close_item s in (Inr out, s))"
proof -
  have ok: "items_ok s" using rel by (simp add: item_rel_def)
  obtain out t where t: "close_item s = (out, t)"
      "rruns (Items (map_option (said s) (e_open s)) (added_items s)) out (Items None (added_items s))" "closed_from s t" "items_ok t"
    using close_item_runs [OF ok] by blast
  have "item_rel c' t"
    by (rule item_rel_closed [OF rel(1,2) t(4) _ _ _ _ _ _ c']) (use t(3) rel(4) in \<open>auto simp: closed_from_def\<close>)
  moreover have "added_items t = added_items s" using t(3) by (simp add: added_items_def held_calls_def closed_from_def)
  ultimately show ?thesis
    using t rel(3,4) by (auto simp: ifollows_def item_state_def closed_from_def)
qed

lemma item_came_same:
  assumes "\<not> closes_item ev" "call_started ev = {}"
  shows "ip_events (item_came ev c) = Suc (ip_events c)" "ip_started (item_came ev c) = ip_started c"
    "ip_cur (item_came ev c) = ip_cur c" "ip_waiting (item_came ev c) = ip_waiting c"
  using assms by (cases ev; simp add: item_came_def)+

lemma item_came_closes:
  assumes "closes_item ev"
  shows "ip_events (item_came ev c) = Suc (ip_events c)" "ip_started (item_came ev c) = ip_started c"
    "ip_cur (item_came ev c) = None" "ip_waiting (item_came ev c) = ip_waiting c"
  using assms by (cases ev; simp add: item_came_def)+

lemma no_call_kind [simp]: "\<not> call_kind TextBlock" "\<not> call_kind ThinkingBlock"
  by (simp_all add: call_kind_def)

lemma items_cong:
  assumes "e_open t = e_open s" "e_next_block t = e_next_block s" "r_held t = r_held s" "r_message_parts t = r_message_parts s"
    "r_text_items t = r_text_items s" "r_refusal_items t = r_refusal_items s" "r_reasoning_items t = r_reasoning_items s"
    "r_tool_items t = r_tool_items s"
  shows "item_state t = item_state s" "items_ok t = items_ok s"
proof -
  have "said t = said s" using assms by (simp add: said_def fun_eq_iff split: block_kind.split)
  then show "item_state t = item_state s" using assms by (simp add: item_state_def added_items_def held_calls_def)
  show "items_ok t = items_ok s" using assms by (simp add: items_ok_def added_items_def held_calls_def)
qed

lemma quiet_follows:
  assumes rel: "item_rel c s" "ip_events c < 2 ^ 32 - 1" "\<not> e_finished s" "e_started s"
    and ev: "\<not> closes_item ev" "call_started ev = {}"
    and t: "same_calls s t" "items_ok t" "r_tool_items t = r_tool_items s" "item_state t = item_state s"
    and fs: "rruns (item_state s) fs (item_state s)"
  shows "ifollows (item_came ev c) s (Inr fs, t)"
  using t fs by (intro items_kept_follow [OF rel _ _ _ _ item_came_same [OF ev]]) simp_all

lemma responses_arm_follows:
  assumes rel: "item_rel c s" "ip_events c < 2 ^ 32 - 1" "\<not> e_finished s" "e_started s" and may: "item_may_come c ev"
    and ev: "\<not> side_of_response ev"
  shows "ifollows (item_came ev c) s (responses_arm debug parse to_str ev s)"
proof -
  note on = on_item_follows [OF rel _ _ item_came_closes]
  have ok: "items_ok s" using rel by (simp add: item_rel_def)
  have quiet: "ifollows (item_came e c) s (Inr fs, s)" if "\<not> closes_item e" "call_started e = {}" "rruns (item_state s) fs (item_state s)" for e fs
    using ok that by (intro quiet_follows [OF rel]) (simp_all add: same_calls_def)
  have sets: "ifollows (item_came e c) s (Inr [], t)"
    if "\<not> closes_item e" "call_started e = {}" "t = s\<lparr>e_finish := x\<rparr> \<or> t = s\<lparr>e_usage := y\<rparr>" for e t x y
  proof -
    have "item_state t = item_state s" "items_ok t = items_ok s" by (rule items_cong; use that(3) in auto)+
    then show ?thesis using ok that by (intro quiet_follows [OF rel]) (auto simp: same_calls_def rruns_nil)
  qed
  show ?thesis
  proof (cases ev)
    case (ToolCallStart i n g idx)
    show ?thesis
      unfolding ToolCallStart responses_arm.simps
      by (rule responses_tool_start_follows [OF rel]) (use may ToolCallStart in \<open>simp_all add: item_came_def\<close>)
  next
    case (CustomToolCallStart i n idx)
    show ?thesis
      unfolding CustomToolCallStart responses_arm.simps
      by (rule responses_custom_start_follows [OF rel]) (use may CustomToolCallStart in \<open>simp_all add: item_came_def\<close>)
  next
    case (ToolCallArgDelta d idx)
    show ?thesis
      unfolding ToolCallArgDelta responses_arm.simps
      by (rule responses_tool_arg_follows [OF rel]) (use may ToolCallArgDelta in \<open>simp_all add: item_came_def\<close>)
  next
    case (CustomToolCallInputDelta d idx)
    show ?thesis
      unfolding CustomToolCallInputDelta responses_arm.simps
      by (rule responses_custom_input_follows [OF rel]) (use may CustomToolCallInputDelta in \<open>simp_all add: item_came_def\<close>)
  next
    case ToolCallEnd
    show ?thesis
      unfolding ToolCallEnd responses_arm.simps by (rule close_item_follows [OF rel]) (simp_all add: item_came_def)
  next
    case (FinishReason x y)
    show ?thesis unfolding FinishReason responses_arm.simps
      by (rule sets [where x = "Some x"]) simp_all
  next
    case (Usage p q cr cw r a ca geo)
    show ?thesis unfolding Usage responses_arm.simps
      by (rule sets [where y = "Some (p, q, cr, cw, r, a, ca)"]) simp_all
  next
    case (AudioDelta x)
    show ?thesis unfolding AudioDelta responses_arm.simps
      by (rule quiet) (simp_all add: named_frame_def rruns_one [OF audio])
  next
    case (AudioTranscriptDelta x)
    show ?thesis unfolding AudioTranscriptDelta responses_arm.simps
      by (rule quiet) (simp_all add: named_frame_def rruns_one [OF audio])
  qed (use ev in \<open>simp_all add: on emits_text emits_signature emits_annotation emits_image emits_logprobs quiet rruns_nil\<close>)
qed



section \<open>Streams\<close>

lemma item_rel_cong:
  assumes "same_calls s t" "items_ok t = items_ok s" "r_tool_items t = r_tool_items s"
  shows "item_rel c t = item_rel c s"
  using assms by (cases "ip_cur c") (simp_all add: item_rel_def same_calls_def call_open_def held_calls_def)

lemma item_rel_came:
  assumes "item_rel c s" "ip_events c < 2 ^ 32 - 1" "\<not> closes_item ev" "call_started ev = {}"
    "ip_created (item_came ev c) \<Longrightarrow> e_started s"
  shows "item_rel (item_came ev c) s"
  using assms item_came_same [OF assms(3,4), of c] by (simp add: item_rel_def)

definition answer_phase :: "responses_encoder \<Rightarrow> item_phase" where
  "answer_phase s = (if e_finished s then Answered else if e_started s then item_state s else NotCreated)"

definition sfollows :: "item_progress \<Rightarrow> responses_encoder \<Rightarrow> responses_written \<Rightarrow> bool" where
  "sfollows c s r \<longleftrightarrow>
     (\<exists>fs t. r = (Inr fs, t) \<and> rruns (answer_phase s) fs (answer_phase t) \<and> item_rel c t \<and> \<not> e_finished t)"

lemma ifollows_sfollows: "e_started s \<Longrightarrow> \<not> e_finished s \<Longrightarrow> ifollows c s r \<Longrightarrow> sfollows c s r"
  unfolding ifollows_def sfollows_def answer_phase_def by metis

lemma note_response_same:
  "same_calls s (note_response ev s)" "items_ok (note_response ev s) = items_ok s"
  "r_tool_items (note_response ev s) = r_tool_items s" "item_state (note_response ev s) = item_state s"
proof -
  show "items_ok (note_response ev s) = items_ok s" "item_state (note_response ev s) = item_state s"
    by (rule items_cong; simp add: note_response_def split: ir_stream_event.split)+
qed (simp_all add: note_response_def same_calls_def split: ir_stream_event.split)

lemma push_responses_follows:
  assumes rel: "item_rel c s" "ip_events c < 2 ^ 32 - 1" "\<not> e_finished s" and may: "item_may_come c ev"
    and ev: "\<not> side_of_response ev"
  shows "sfollows (item_came ev c) s (push_responses debug parse to_str ev s)"
proof -
  let ?n = "note_response ev s"
  note same = note_response_same [where s = s and ev = ev]
  have n: "item_rel c ?n" using rel(1) item_rel_cong [OF same(1-3)] by simp
  show ?thesis
  proof (cases "before_created ev")
    case True
    then have e: "\<not> closes_item ev" "call_started ev = {}" "responses_arm debug parse to_str ev ?n = (Inr [], ?n)"
      "ip_created (item_came ev c) = ip_created c"
      by (cases ev; simp add: before_created_def item_came_def)+
    have "item_rel (item_came ev c) ?n"
      using n by (rule item_rel_came [OF _ rel(2) e(1,2)]) (use n e(4) in \<open>simp add: item_rel_def\<close>)
    moreover have "answer_phase ?n = answer_phase s"
      using same by (simp add: answer_phase_def same_calls_def)
    ultimately show ?thesis
      using True e(3) rel(3) same(1)
      by (auto simp: sfollows_def push_responses_def start_response_def same_calls_def intro: rruns_nil)
  next
    case False
    obtain out t where st: "start_response ev ?n = (out, t)" by fastforce
    have t: "e_started t" "\<not> e_finished t" "item_rel c t" "rruns (answer_phase s) out (item_state t)"
    proof -
      let ?t = "?n\<lparr>e_started := True\<rparr>"
      have i: "items_ok ?t = items_ok ?n" "item_state ?t = item_state ?n" by (rule items_cong; simp)+
      have "item_rel c ?t"
        using n i(1) by (cases "ip_cur c") (simp_all add: item_rel_def call_open_def held_calls_def)
      moreover have "rruns NotCreated [named_frame ''response.created'' fs] (item_state ?t)" if "\<not> e_started s" for fs
      proof -
        have "e_open ?n = None" "e_next_block ?n = 0" using n that same(1) by (auto simp: item_rel_def same_calls_def)
        then have "item_state ?t = Items None {}" by (simp add: item_state_def added_items_def held_calls_def)
        then show ?thesis by (simp add: named_frame_def rruns_one [OF created])
      qed
      ultimately show "e_started t" "\<not> e_finished t" "item_rel c t" "rruns (answer_phase s) out (item_state t)"
        using st False n same rel(3)
        by (auto simp: start_response_def same_calls_def answer_phase_def rruns_nil split: if_splits)
    qed
    have "ifollows (item_came ev c) t (responses_arm debug parse to_str ev t)"
      by (rule responses_arm_follows [OF t(3) rel(2) t(2,1) may ev])
    then obtain fs u where a: "responses_arm debug parse to_str ev t = (Inr fs, u)" "rruns (item_state t) fs (item_state u)"
      "item_rel (item_came ev c) u" "\<not> e_finished u" "e_started u" by (auto simp: ifollows_def)
    then show ?thesis
      using rruns_append [OF t(4) a(2)] by (auto simp: sfollows_def push_responses_def st answer_phase_def)
  qed
qed

lemma push_reasoning_follows:
  assumes rel: "item_rel c s" "ip_events c < 2 ^ 32 - 1" "\<not> e_finished s" and may: "item_may_come c (Protocol ity p)"
    and ity: "ity \<in> set reasoning_names"
  shows "sfollows (item_came (Protocol ity p) c) s (let (out, s) = push_reasoning ity p s in (Inr out, s))"
proof -
  let ?n = "note_reasoning ity p s"
  have st: "e_started s" and names: "names_reasoning ity p" using rel(1) may ity by (auto simp: item_rel_def)
  have f: "e_open ?n = e_open s" "e_next_block ?n = e_next_block s" "r_held ?n = r_held s"
      "r_message_parts ?n = r_message_parts s" "r_text_items ?n = r_text_items s" "r_refusal_items ?n = r_refusal_items s"
      "r_reasoning_items ?n = r_reasoning_items s" "r_tool_items ?n = r_tool_items s" "same_calls s ?n"
    by (simp_all add: note_reasoning_def Let_def same_calls_def)
  have i: "item_state ?n = item_state s" "items_ok ?n = items_ok s" by (rule items_cong; simp add: f)+
  have n: "item_rel c ?n" using rel(1) item_rel_cong [OF f(9) i(2) f(8)] by simp
  have some: "r_reasoning_id ?n \<noteq> None \<or> r_reasoning_status ?n \<noteq> None \<or> r_reasoning_content ?n \<noteq> None"
    using ity names by (auto simp: note_reasoning_def Let_def reasoning_names_def names_reasoning_def is_some_and_def
        ofilter_def split: option.splits if_splits)
  have ok: "items_ok ?n" "unat (e_next_block ?n) < 2 ^ 32 - 1" using n rel(2) by (simp_all add: item_rel_def)
  obtain out t j where t: "ensure_item ThinkingBlock ?n = (out, t)" "rruns (item_state ?n) out (item_state t)" "items_ok t"
      "e_open t = Some (j, ThinkingBlock)" "unat (e_next_block t) \<le> Suc (unat (e_next_block ?n))" "r_held t = r_held ?n"
      "e_tool_slots t = e_tool_slots ?n" "e_last_tool t = e_last_tool ?n" "e_started t = e_started ?n" "e_finished t = e_finished ?n"
    using ensure_item_runs [OF ok no_call_kind(2)] by metis
  have s': "e_started ?n" "\<not> e_finished ?n" using f(9) st rel(3) by (simp_all add: same_calls_def)
  have c: "closes_item (Protocol ity p)" using ity by simp
  have "item_rel (item_came (Protocol ity p) c) t"
    by (rule item_rel_closed [OF n rel(2) t(3) _ _ _ _ _ _ item_came_closes [OF c]]) (use t s' in auto)
  then show ?thesis
    using t i(1) s' st rel(3) some
    by (auto simp: sfollows_def push_reasoning_def Let_def answer_phase_def)
qed


lemma flush_responses_runs:
  assumes "distinct (map fst hs)" "fst ` set hs \<inter> D = {}"
  shows "\<exists>out t D'. flush_responses_loop hs s = (out, t) \<and> rruns (Items None D) out (Items None D') \<and> e_finished t = e_finished s"
  using assms
proof (induction hs arbitrary: s D)
  case Nil
  show ?case by (auto intro: rruns_nil)
next
  case (Cons h hs)
  obtain enc where h: "h = (enc, ())" by (cases h) auto
  show ?case
  proof (cases "r_tool_items s enc")
    case None
    then show ?thesis using Cons.IH [of D s] Cons.prems by (simp add: h)
  next
    case (Some c)
    obtain id' name args where c: "c = (id', name, args)" by (cases c)
    obtain v u where u: "take_call function_item JNull enc s = (v, u)" by (cases "take_call function_item JNull enc s")
    have v: "item_says v = (args, [])"
      using u Some by (auto simp: take_call_def c Let_def call_item_says written_item_says split: option.splits)
    have fin: "e_finished u = e_finished s"
      using take_call_state [of function_item JNull enc s] by (auto simp: u)
    obtain out t D' where f: "flush_responses_loop hs u = (out, t)" "rruns (Items None (insert enc D)) out (Items None D')"
        "e_finished t = e_finished u"
      using Cons.IH [of "insert enc D" u] Cons.prems by (auto simp: h)
    have "''response.function_call_arguments.delta'' \<in> set growing" by (simp add: growing_def)
    note delta = call_delta_step [OF this, where i = enc and a = "[]" and r = "[]" and D = "insert enc D" and item_id = id' and d = args]
    have "rruns (Items (Some (enc, [], [])) (insert enc D))
        (if args = [] then [] else [call_delta ''response.function_call_arguments.delta'' enc id' args])
        (Items (Some (enc, args, [])) (insert enc D))"
      using delta by (simp add: rruns_nil rruns_one)
    from rruns_append [OF this rruns_cons [OF done_step [OF v] f(2)]]
    have "rruns (Items (Some (enc, [], [])) (insert enc D))
        ((if args = [] then [] else [call_delta ''response.function_call_arguments.delta'' enc id' args]) @ item_done enc v # out)
        (Items None D')" .
    moreover have "enc \<notin> D" using Cons.prems by (auto simp: h)
    ultimately have "rruns (Items None D) (item_added enc (function_item id' name [])
        # (if args = [] then [] else [call_delta ''response.function_call_arguments.delta'' enc id' args]) @ item_done enc v # out)
        (Items None D')"
      using rruns_cons [OF added_step] by blast
    then show ?thesis
      using Some f(1,3) fin
      by (intro exI [of _ "item_added enc (function_item id' name [])
        # (if args = [] then [] else [call_delta ''response.function_call_arguments.delta'' enc id' args]) @ item_done enc v # out"]
        exI [of _ t] exI [of _ D']) (simp add: h c u)
  qed
qed

lemma responses_finish_runs:
  assumes rel: "item_rel c s" and fin: "\<not> e_finished s"
  shows "\<exists>fs t. responses_finish s = (Inr fs, t) \<and> rruns (answer_phase s) fs Answered \<and> e_finished t"
proof -
  let ?s = "s\<lparr>e_finished := True\<rparr>"
  have i: "item_state ?s = item_state s" "items_ok ?s = items_ok s" by (rule items_cong; simp)+
  have ok: "items_ok ?s" using rel i by (simp add: item_rel_def)
  obtain out t where t: "close_item ?s = (out, t)"
      "rruns (Items (map_option (said ?s) (e_open ?s)) (added_items s)) out (Items None (added_items s))" "closed_from ?s t" "items_ok t"
    using close_item_runs [OF ok] by blast
  have h: "r_held t = r_held s" "e_finished t" using t(3) by (simp_all add: closed_from_def)
  have "distinct (map fst (r_held t))" "fst ` set (r_held t) \<inter> added_items s = {}"
    using t(4) h by (auto simp: items_ok_def bt_wf_distinct added_items_def held_calls_def)
  from flush_responses_runs [OF this, of "t\<lparr>r_held := []\<rparr>"] obtain held u D'
    where u: "flush_responses_held t = (held, u)" "rruns (Items None (added_items s)) held (Items None D')" "e_finished u"
    using h by (auto simp: flush_responses_held_def)
  let ?final = "named_frame (fst (terminal_event (unwrap_or (e_finish u) ''stop''))) [(''response'', terminal_response u)]"
  have name: "fst (terminal_event r) \<in> {''response.completed'', ''response.incomplete'', ''response.failed''}" for r
    by (simp add: terminal_event_def)
  have finish: "responses_finish s = (Inr (out @ held @ [?final]), u)"
    using fin t(1) u(1) by (simp add: responses_finish_def finish_responses_def Let_def)
  show ?thesis
  proof (cases "e_started s")
    case True
    have "rruns (item_state ?s) (out @ held @ [?final]) Answered"
      using rruns_append [OF t(2) rruns_append [OF u(2) rruns_one [OF answered [OF name]]]] i(1)
      by (simp add: item_state_def named_frame_def)
    then show ?thesis using finish True fin u(3) i(1) by (simp add: answer_phase_def)
  next
    case False
    then have n: "e_open s = None" "e_next_block s = 0" using rel by (simp_all add: item_rel_def)
    then have "r_held s = []" using ok by (simp add: items_ok_def held_calls_def)
    then have "out = []" "held = []"
      using t(1) u(1) n h by (auto simp: close_item_def flush_responses_held_def)
    then show ?thesis
      using finish False fin u(3) by (simp add: answer_phase_def named_frame_def rruns_one [OF answered [OF name]])
  qed
qed

definition items_stream_rel :: "item_progress \<Rightarrow> responses_encoder \<Rightarrow> bool" where
  "items_stream_rel c s \<longleftrightarrow> e_finished s \<or> item_rel c s"

lemma note_responses_item_same:
  "same_calls s (note_responses_item ity p s)" "items_ok (note_responses_item ity p s) = items_ok s"
  "r_tool_items (note_responses_item ity p s) = r_tool_items s" "item_state (note_responses_item ity p s) = item_state s"
proof -
  show "items_ok (note_responses_item ity p s) = items_ok s" "item_state (note_responses_item ity p s) = item_state s"
    by (rule items_cong; simp add: note_responses_item_def note_tool_extra_def Let_def split: option.split)+
qed (simp_all add: note_responses_item_def note_tool_extra_def Let_def same_calls_def split: option.split)

lemma responses_push_open_follows:
  assumes rel: "item_rel c s" "ip_events c < 2 ^ 32 - 1" "\<not> e_finished s" and may: "item_may_come c ev"
    and ev: "ev \<noteq> Done"
  shows "sfollows (item_came ev c) s (responses_push_open debug parse to_str ev s)"
proof (cases "side_of_response ev")
  case False
  then have "responses_push_open debug parse to_str ev s = push_responses debug parse to_str ev s" by (cases ev) simp_all
  then show ?thesis using push_responses_follows [OF rel may False] by simp
next
  case True
  have side: "sfollows (item_came ev c) s (Inr fs, t)"
    if "\<not> closes_item ev" "same_calls s t" "items_ok t = items_ok s" "r_tool_items t = r_tool_items s" "item_state t = item_state s"
      "fs = [] \<or> (\<exists>raw. fs = [Plain raw])" for t fs
  proof -
    have e: "call_started ev = {}" "ip_created (item_came ev c) = ip_created c"
      using True by (cases ev; simp add: item_came_def before_created_def)+
    have t: "item_rel c t" using rel(1) item_rel_cong [OF that(2-4)] by simp
    have "item_rel (item_came ev c) t"
      using t by (rule item_rel_came [OF _ rel(2) that(1) e(1)]) (use t e(2) in \<open>simp add: item_rel_def\<close>)
    moreover have "answer_phase t = answer_phase s" using that by (simp add: answer_phase_def same_calls_def)
    ultimately show ?thesis
      using that(2,6) rel(3) by (auto simp: sfollows_def same_calls_def rruns_nil rruns_one [OF passed])
  qed
  have quiet: "sfollows (item_came ev c) s (Inr [], s)" if "\<not> closes_item ev"
    by (rule side [OF that]) (simp_all add: same_calls_def)
  show ?thesis
  proof (cases ev)
    case (Protocol ity p)
    show ?thesis
    proof (cases "ity \<in> set reasoning_names")
      case True
      then show ?thesis
        unfolding Protocol responses_push_open.simps using push_reasoning_follows [OF rel may [unfolded Protocol] True] by simp
    next
      case False
      have "\<exists>raw. encode_stream_event debug parse to_str Responses (Protocol ity p) = Inr raw"
        by (simp add: encode_stream_event_def)
      then obtain raw where raw: "encode_stream_event debug parse to_str Responses (Protocol ity p) = Inr raw" ..
      have "sfollows (item_came ev c) s (Inr [Plain raw], s)" "sfollows (item_came ev c) s (Inr [], note_responses_item ity p s)"
        by (rule side; use False Protocol note_responses_item_same [where s = s and ity = ity and p = p] in \<open>simp add: same_calls_def\<close>)+
      then show ?thesis
        using False unfolding Protocol responses_push_open.simps by (simp add: encode_plain_def raw)
    qed
  next
    case (Unknown n v)
    have "sfollows (item_came ev c) s (Inr [Plain (encode_named to_str n v)], s)"
      by (rule side) (simp_all add: Unknown same_calls_def)
    then show ?thesis by (simp add: Unknown encode_plain_def encode_stream_event_def)
  qed (use True ev quiet in simp_all)
qed


lemma responses_push_follows:
  assumes rel: "items_stream_rel c s" and may: "item_may_come c ev"
  shows "\<exists>fs s'. responses_push debug parse to_str ev s = (Inr fs, s') \<and> rruns (answer_phase s) fs (answer_phase s')
    \<and> items_stream_rel (item_came ev c) s'"
proof (cases "e_finished s")
  case True
  then show ?thesis by (simp add: responses_push_def items_stream_rel_def)
next
  case False
  have c: "item_rel c s" "ip_events c < 2 ^ 32 - 1"
    using rel False may by (cases ev; simp add: items_stream_rel_def)+
  show ?thesis
  proof (cases "ev = Done")
    case True
    obtain fs t where f: "responses_finish s = (Inr fs, t)" "rruns (answer_phase s) fs Answered" "e_finished t"
      using responses_finish_runs [OF c(1) False] by blast
    show ?thesis
      using True False f
      by (intro exI [of _ fs] exI [of _ t]) (simp add: responses_push_def items_stream_rel_def, simp add: answer_phase_def)
  next
    case ev: False
    obtain fs t where "responses_push_open debug parse to_str ev s = (Inr fs, t)"
      "rruns (answer_phase s) fs (answer_phase t)" "item_rel (item_came ev c) t"
      using responses_push_open_follows [OF c False may ev, of debug parse to_str] unfolding sfollows_def by blast
    then show ?thesis using False by (simp add: responses_push_def items_stream_rel_def)
  qed
qed

lemma responses_finish_follows:
  assumes "items_stream_rel c s"
  shows "\<exists>fs s'. responses_finish s = (Inr fs, s') \<and> rruns (answer_phase s) fs Answered"
proof (cases "e_finished s")
  case True
  then show ?thesis by (simp add: responses_finish_def answer_phase_def)
next
  case False
  then show ?thesis using assms responses_finish_runs [of c s] by (auto simp: items_stream_rel_def)
qed

interpretation responses_stream: protocol_encoder
  "responses_push debug parse to_str" responses_finish rruns answer_phase Answered items_stream_rel item_may_come item_came
  for debug parse to_str
proof unfold_locales
  show "\<exists>fs s'. responses_finish s = (Inr fs, s') \<and> rruns (answer_phase s) fs Answered" if "items_stream_rel c s" for c s
    using responses_finish_follows [OF that] .
qed (auto intro: rruns_nil rruns_append responses_push_follows)



text \<open>An identity that comes first adds its item before the response is created.\<close>

lemma early_reasoning_identity:
  "\<exists>v. projr (fst (push_all (responses_push debug parse to_str)
      [Protocol ''responses_reasoning_id'' (JString ''r''), ReasoningDelta ''t''] responses_encoder_new))
    = [item_added 0 (json_obj [(''type'', JString ''reasoning'')]), Named ''response.created'' v,
       delta_at ''response.reasoning_summary_text.delta'' 0 ''t'']"
  by (simp add: responses_push_def push_reasoning_def note_reasoning_def reasoning_names_def ofilter_def
    responses_encoder_new_def encoder_new_def encoder.defs ensure_item_def close_item_def empty_item_def is_some_and_def
    push_responses_def note_response_def start_response_def before_created_def on_item_def item_index_def Let_def named_frame_def)

text \<open>A fragment that comes after other output closed its call is written on the item that is done, and is missing
  from it.\<close>

lemma late_fragment_missing:
  "\<exists>a b c d. projr (fst (push_all (responses_push debug parse to_str)
      [ToolCallStart ''c'' ''f'' None 0, TextDelta ''a'', ToolCallArgDelta ''{}'' 0] responses_encoder_new))
    = [a, b, item_done 0 (function_item ''c'' ''f'' []), c, d,
       call_delta ''response.function_call_arguments.delta'' 0 ''c'' ''{}'']"
  by (simp add: responses_push_def responses_encoder_new_def encoder_new_def encoder.defs ensure_item_def close_item_def
    is_some_and_def push_responses_def note_response_def start_response_def before_created_def on_item_def item_index_def
    Let_def responses_tool_start_def responses_tool_arg_def alloc_tool_def record_slot_def tool_enc_def known_slot_def
    take_pending_tool_extra_def take_call_def append_call_def unwrap_or_def saturating_add_def)

end
