(* ===== verification/Wm_Complete_Encode.thy ===== *)
theory Wm_Complete_Encode
  imports Wm_Stream Wm_Stream_Codec
begin

text \<open>
  The encoders of \<open>stream/complete.rs\<close>: a list of events collected into one (non-streaming) client body. Every
  encoder is a loop that collects into local variables, here the fields of a record that extends
  \<open>body_state\<close>, and a body built from what was collected. The tool calls are kept apart per index by the three
  \<open>indexed_tool\<close> functions the four encoders share.
\<close>

section \<open>Tool calls per index\<close>

record indexed_tool =
  it_id :: string
  it_name :: string
  it_args :: string
  it_custom :: bool
  it_signature :: "string option"

type_synonym tool_slots = "(u32 \<times> indexed_tool) list"

definition blank_indexed_tool :: indexed_tool where
  "blank_indexed_tool = \<lparr>it_id = [], it_name = [], it_args = [], it_custom = False, it_signature = None\<rparr>"

definition indexed_tool_start ::
  "u32 \<Rightarrow> string \<Rightarrow> string \<Rightarrow> bool \<Rightarrow> string option \<Rightarrow> tool_slots \<times> tool_slots \<Rightarrow> tool_slots \<times> tool_slots" where
  "indexed_tool_start index id' name custom sig od =
     (let (open_ts, done_ts) =
        (case map_of (fst od) index of
           Some existing \<Rightarrow>
             if id' \<noteq> [] \<and> it_id existing \<noteq> [] \<and> it_id existing \<noteq> id'
             then (bt_remove index (fst od), snd od @ [(index, existing)]) else od
         | None \<Rightarrow> od);
          slot = unwrap_or (map_of open_ts index) blank_indexed_tool;
          slot = (if it_id slot = [] then slot\<lparr>it_id := id'\<rparr> else slot);
          slot = (if it_name slot = [] then slot\<lparr>it_name := name\<rparr> else slot);
          slot = (if it_signature slot = None then slot\<lparr>it_signature := sig\<rparr> else slot)
      in (bt_insert index (slot\<lparr>it_custom := custom\<rparr>) open_ts, done_ts))"

definition indexed_tool_delta :: "u32 \<Rightarrow> string \<Rightarrow> tool_slots \<Rightarrow> tool_slots" where
  "indexed_tool_delta index d open_ts =
     (let slot = unwrap_or (map_of open_ts index) blank_indexed_tool
      in bt_insert index (slot\<lparr>it_args := it_args slot @ d\<rparr>) open_ts)"

definition indexed_tool_finish :: "tool_slots \<Rightarrow> tool_slots \<Rightarrow> tool_slots" where
  "indexed_tool_finish done_ts open_ts = done_ts @ open_ts"


section \<open>What the four loops have in common\<close>

record body_state =
  b_text :: string
  b_refusal :: string
  b_reasoning :: string
  b_signature :: "string option"
  b_finish :: "string option"
  b_open :: tool_slots
  b_done :: tool_slots

definition b_start ::
  "u32 \<Rightarrow> string \<Rightarrow> string \<Rightarrow> bool \<Rightarrow> string option \<Rightarrow> 'a body_state_scheme \<Rightarrow> 'a body_state_scheme" where
  "b_start index id' name custom sig s =
     (let (open_ts, done_ts) = indexed_tool_start index id' name custom sig (b_open s, b_done s)
      in s\<lparr>b_open := open_ts, b_done := done_ts\<rparr>)"

definition b_arg :: "u32 \<Rightarrow> string \<Rightarrow> 'a body_state_scheme \<Rightarrow> 'a body_state_scheme" where
  "b_arg index d s = s\<lparr>b_open := indexed_tool_delta index d (b_open s)\<rparr>"

definition b_tools :: "'a body_state_scheme \<Rightarrow> tool_slots" where
  "b_tools s = indexed_tool_finish (b_done s) (b_open s)"

text \<open>\<open>if !text.is_empty() \<dots>\<close>, \<open>if !items.is_empty() \<dots>\<close>: the value of a field that is only written when there
  is something to write.\<close>

definition text_slot :: "string \<Rightarrow> json option" where
  "text_slot s = (if s = [] then None else Some (JString s))"

definition array_slot :: "json list \<Rightarrow> json option" where
  "array_slot xs = (if xs = [] then None else Some (JArray xs))"

text \<open>\<open>payload.as_str().filter(|text| !text.trim().is_empty())\<close>, and a text that replaces a field only when it is
  there.\<close>

definition solid_text :: "json \<Rightarrow> string option" where
  "solid_text p = ofilter (\<lambda>t. trim t \<noteq> []) (as_str p)"

definition payload_u32 :: "json \<Rightarrow> u32 option" where
  "payload_u32 p = Option.bind (as_u64 p) u32_try_from"

text \<open>A text run ends where a part of another kind begins.\<close>

definition flushed :: "(string \<Rightarrow> json) \<Rightarrow> string \<Rightarrow> json list \<Rightarrow> json list" where
  "flushed part text parts = (if text = [] then parts else parts @ [part text])"

definition extend_logprobs_content :: "json list \<Rightarrow> json \<Rightarrow> json list" where
  "extend_logprobs_content dst content = push_logprob_items dst content"

definition metadata_object :: "(string \<times> string) list \<Rightarrow> json" where
  "metadata_object m = JObject (map (\<lambda>(k, w). (k, JString w)) m)"


section \<open>Chat Completions bodies\<close>

record chat_body = body_state +
  cb_annotations :: "json list"
  cb_audio_data :: string
  cb_audio_transcript :: string
  cb_audio_id :: "string option"
  cb_audio_expires :: "json option"
  cb_accepted :: "u32 option"
  cb_rejected :: "u32 option"
  cb_images :: "json list"
  cb_logprobs :: "json list"
  cb_logprobs_refusal :: "json list"
  cb_created :: "int option"
  cb_tier :: "string option"
  cb_fingerprint :: "string option"
  cb_id :: "string option"
  cb_metadata :: "(string \<times> string) list option"
  cb_moderation :: "(json option \<times> json option) option"
  cb_usage :: "(u32 \<times> u32 \<times> u32 \<times> u32 \<times> u32 \<times> u32 \<times> u32) option"

definition chat_body_init :: chat_body where
  "chat_body_init =
     \<lparr>b_text = [], b_refusal = [], b_reasoning = [], b_signature = None, b_finish = None, b_open = [], b_done = [],
      cb_annotations = [], cb_audio_data = [], cb_audio_transcript = [], cb_audio_id = None, cb_audio_expires = None,
      cb_accepted = None, cb_rejected = None, cb_images = [], cb_logprobs = [], cb_logprobs_refusal = [],
      cb_created = None, cb_tier = None, cb_fingerprint = None, cb_id = None, cb_metadata = None,
      cb_moderation = None, cb_usage = None\<rparr>"

definition chat_text_part :: "string \<Rightarrow> json" where
  "chat_text_part text = json_obj [(''type'', JString ''text''), (''text'', JString text)]"

definition chat_body_protocol :: "string \<Rightarrow> json \<Rightarrow> chat_body \<Rightarrow> chat_body" where
  "chat_body_protocol ity p s =
     (case solid_text p of
        Some text \<Rightarrow>
          if ity = ''system_fingerprint'' then s\<lparr>cb_fingerprint := Some text\<rparr>
          else if ity = ''chat_completion_id'' then s\<lparr>cb_id := Some text\<rparr>
          else if ity = ''chat_audio_id'' then s\<lparr>cb_audio_id := Some text\<rparr>
          else s
      | None \<Rightarrow>
          if ity = ''chat_audio_expires'' \<and> is_number p then s\<lparr>cb_audio_expires := Some p\<rparr>
          else if ity = ''chat_accepted_prediction_tokens'' then s\<lparr>cb_accepted := payload_u32 p\<rparr>
          else if ity = ''chat_rejected_prediction_tokens'' then s\<lparr>cb_rejected := payload_u32 p\<rparr>
          else s)"

fun chat_body_step :: "ir_stream_event \<Rightarrow> chat_body \<Rightarrow> chat_body" where
  "chat_body_step (TextDelta d) s = s\<lparr>b_text := b_text s @ d\<rparr>"
| "chat_body_step (RefusalDelta d) s = s\<lparr>b_refusal := b_refusal s @ d\<rparr>"
| "chat_body_step (ReasoningDelta d) s = s\<lparr>b_reasoning := b_reasoning s @ d\<rparr>"
| "chat_body_step (ReasoningSignature sig) s = s\<lparr>b_signature := Some sig\<rparr>"
| "chat_body_step (AnnotationAdded a) s = s\<lparr>cb_annotations := cb_annotations s @ [annotation_to_chat a]\<rparr>"
| "chat_body_step (AudioDelta d) s = s\<lparr>cb_audio_data := cb_audio_data s @ d\<rparr>"
| "chat_body_step (ImageDelta media_type d) s =
     s\<lparr>cb_images := flushed chat_text_part (b_text s) (cb_images s) @ [chat_image_url_part media_type d], b_text := []\<rparr>"
| "chat_body_step (AudioTranscriptDelta d) s = s\<lparr>cb_audio_transcript := cb_audio_transcript s @ d\<rparr>"
| "chat_body_step (Logprobs content refusal) s =
     s\<lparr>cb_logprobs := extend_logprobs_content (cb_logprobs s) content,
       cb_logprobs_refusal := (case refusal of None \<Rightarrow> cb_logprobs_refusal s
                                 | Some r \<Rightarrow> extend_logprobs_content (cb_logprobs_refusal s) r)\<rparr>"
| "chat_body_step (Created unix) s = s\<lparr>cb_created := Some unix\<rparr>"
| "chat_body_step (ServiceTier tier) s = s\<lparr>cb_tier := Some tier\<rparr>"
| "chat_body_step (Protocol ity p) s = chat_body_protocol ity p s"
| "chat_body_step (Metadata m) s = s\<lparr>cb_metadata := Some m\<rparr>"
| "chat_body_step (Moderation i out) s = s\<lparr>cb_moderation := Some (i, out)\<rparr>"
| "chat_body_step (FinishReason reason _) s = s\<lparr>b_finish := Some reason\<rparr>"
| "chat_body_step (Usage p c cr cw rs au cau _) s = s\<lparr>cb_usage := Some (p, c, cr, cw, rs, au, cau)\<rparr>"
| "chat_body_step (ToolCallStart id' name _ index) s = b_start index id' name False None s"
| "chat_body_step (CustomToolCallStart id' name index) s = b_start index id' name True None s"
| "chat_body_step (ToolCallArgDelta d index) s = b_arg index d s"
| "chat_body_step (CustomToolCallInputDelta d index) s = b_arg index d s"
| "chat_body_step _ s = s"

definition chat_collect :: "ir_stream_event list \<Rightarrow> chat_body" where
  "chat_collect evs = fold chat_body_step evs chat_body_init"

definition chat_tool_call_value :: "indexed_tool \<Rightarrow> json" where
  "chat_tool_call_value t =
     (if it_custom t then
        json_obj [(''id'', JString (it_id t)), (''type'', JString ''custom''),
                  (''custom'', json_obj [(''name'', JString (it_name t)), (''input'', JString (it_args t))])]
      else
        json_obj [(''id'', JString (it_id t)), (''type'', JString ''function''),
                  (''function'', json_obj [(''name'', JString (it_name t)), (''arguments'', JString (it_args t))])])"

definition chat_message_content :: "string \<Rightarrow> string \<Rightarrow> json list \<Rightarrow> bool \<Rightarrow> json" where
  "chat_message_content text refusal images no_tools =
     (if images = [] then
        (if text = [] \<and> (refusal \<noteq> [] \<or> \<not> no_tools) then JNull else JString text)
      else JArray (flushed chat_text_part text images))"

definition chat_audio_value :: "chat_body \<Rightarrow> json option" where
  "chat_audio_value s =
     (if cb_audio_data s = [] \<and> cb_audio_transcript s = [] \<and> cb_audio_id s = None \<and> cb_audio_expires s = None
      then None
      else Some (set_opt ''transcript'' (text_slot (cb_audio_transcript s))
             (set_opt ''data'' (text_slot (cb_audio_data s))
               (set_opt ''expires_at'' (cb_audio_expires s)
                 (set_opt ''id'' (map_option JString (cb_audio_id s)) (JObject []))))))"

definition chat_message_value :: "chat_body \<Rightarrow> json" where
  "chat_message_value s =
     (let calls = map (\<lambda>(_, t). chat_tool_call_value t) (b_tools s)
      in set_opt ''audio'' (chat_audio_value s)
           (set_opt ''annotations'' (array_slot (cb_annotations s))
             (set_opt ''reasoning_signature'' (map_option JString (b_signature s))
               (set_opt ''reasoning_content'' (text_slot (b_reasoning s))
                 (set_opt ''refusal'' (text_slot (b_refusal s))
                   (set_opt ''tool_calls'' (array_slot calls)
                     (jinsert ''content'' (chat_message_content (b_text s) (b_refusal s) (cb_images s) (calls = []))
                       (json_obj [(''role'', JString ''assistant'')]))))))))"

definition chat_finish_value :: "chat_body \<Rightarrow> string option" where
  "chat_finish_value s =
     (let saw_tool = (b_tools s \<noteq> [])
      in case b_finish s of
           Some reason \<Rightarrow> Some (finish_after_tool reason saw_tool)
         | None \<Rightarrow> if saw_tool then Some ''tool_calls'' else None)"

definition chat_logprobs_object :: "chat_body \<Rightarrow> json option" where
  "chat_logprobs_object s =
     (if cb_logprobs s = [] \<and> cb_logprobs_refusal s = [] then None
      else Some (set_opt ''refusal'' (array_slot (cb_logprobs_refusal s))
                  (set_opt ''content'' (array_slot (cb_logprobs s)) (JObject []))))"

definition chat_choice_value :: "chat_body \<Rightarrow> json" where
  "chat_choice_value s =
     set_opt ''finish_reason'' (map_option JString (chat_finish_value s))
       (set_opt ''logprobs'' (chat_logprobs_object s)
         (json_obj [(''index'', json_u32 0), (''message'', chat_message_value s)]))"

definition chat_usage_value :: "chat_body \<Rightarrow> json option" where
  "chat_usage_value s =
     (case cb_usage s of
        None \<Rightarrow> None
      | Some (p, c, cr, cw, rs, au, cau) \<Rightarrow>
          map_option (insert_chat_prediction_tokens (cb_accepted s) (cb_rejected s))
            (jget (encode_chat p c cr cw rs au cau) ''usage''))"

definition chat_body_value :: "string \<Rightarrow> chat_body \<Rightarrow> json" where
  "chat_body_value model s =
     set_opt ''usage'' (chat_usage_value s)
       (set_opt ''moderation'' (Option.bind (cb_moderation s) (\<lambda>(i, out). chat_moderation_value i out))
         (set_opt ''metadata'' (map_option metadata_object (ofilter (\<lambda>m. m \<noteq> []) (cb_metadata s)))
           (set_opt ''system_fingerprint'' (map_option JString (cb_fingerprint s))
             (set_opt ''service_tier'' (map_option JString (cb_tier s))
               (set_opt ''created'' (map_option json_i64 (cb_created s))
                 (set_opt ''model'' (text_slot model)
                   (json_obj [(''id'', JString (unwrap_or (cb_id s) ''chatcmpl-wiremux'')),
                              (''object'', JString ''chat.completion''),
                              (''choices'', JArray [chat_choice_value s])])))))))"

definition encode_chat_complete :: "ir_stream_event list \<Rightarrow> string \<Rightarrow> json" where
  "encode_chat_complete evs model = chat_body_value model (chat_collect evs)"


section \<open>Messages bodies\<close>

record messages_body = body_state +
  mb_id :: "string option"
  mb_web_search :: "u32 option"
  mb_web_fetch :: "u32 option"
  mb_cache_creation :: "json option"
  mb_usage :: "(u32 \<times> u32 \<times> u32 \<times> u32 \<times> u32 \<times> u32 \<times> string option) option"
  mb_tier :: "string option"
  mb_diagnostics :: "json option"
  mb_container :: "json option"
  mb_context :: "json option"
  mb_stop_sequence :: "string option"
  mb_citations :: "json list"
  mb_images :: "json list"

definition messages_body_init :: messages_body where
  "messages_body_init =
     \<lparr>b_text = [], b_refusal = [], b_reasoning = [], b_signature = None, b_finish = None, b_open = [], b_done = [],
      mb_id = None, mb_web_search = None, mb_web_fetch = None, mb_cache_creation = None, mb_usage = None,
      mb_tier = None, mb_diagnostics = None, mb_container = None, mb_context = None, mb_stop_sequence = None,
      mb_citations = [], mb_images = []\<rparr>"

definition messages_image_value :: "string \<Rightarrow> string \<Rightarrow> json" where
  "messages_image_value media_type d =
     json_obj [(''type'', JString ''image''),
       (''source'', json_obj [(''type'', JString ''base64''), (''media_type'', JString media_type), (''data'', JString d)])]"

definition messages_content_block :: "string \<Rightarrow> json \<Rightarrow> bool" where
  "messages_content_block ity p =
     (if ity = ''chunk'' \<or> ity = ''output_image'' then False
      else if responses_hosted_item_type ity then False
      else Option.bind (jget p ''type'') as_str = Some ity)"

definition messages_body_protocol :: "string \<Rightarrow> json \<Rightarrow> messages_body \<Rightarrow> messages_body" where
  "messages_body_protocol ity p s =
     (if ity = ''messages_citation'' \<and> is_object p then s\<lparr>mb_citations := mb_citations s @ [p]\<rparr>
      else if messages_content_block ity p then
        s\<lparr>mb_images := flushed chat_text_part (b_text s) (mb_images s) @ [p], b_text := []\<rparr>
      else if ity = ''messages_id'' then
        (case solid_text p of None \<Rightarrow> s | Some text \<Rightarrow> s\<lparr>mb_id := Some text\<rparr>)
      else if ity = ''messages_web_search_requests'' then s\<lparr>mb_web_search := payload_u32 p\<rparr>
      else if ity = ''messages_web_fetch_requests'' then s\<lparr>mb_web_fetch := payload_u32 p\<rparr>
      else if ity = ''messages_cache_creation'' \<and> is_object p then s\<lparr>mb_cache_creation := Some p\<rparr>
      else s)"

fun messages_body_step :: "ir_stream_event \<Rightarrow> messages_body \<Rightarrow> messages_body" where
  "messages_body_step (TextDelta d) s = s\<lparr>b_text := b_text s @ d\<rparr>"
| "messages_body_step (AudioTranscriptDelta d) s = s\<lparr>b_text := b_text s @ d\<rparr>"
| "messages_body_step (RefusalDelta d) s = s\<lparr>b_refusal := b_refusal s @ d\<rparr>"
| "messages_body_step (AnnotationAdded a) s = s\<lparr>mb_citations := mb_citations s @ [citation_from_annotation a]\<rparr>"
| "messages_body_step (ImageDelta media_type d) s =
     s\<lparr>mb_images := flushed chat_text_part (b_text s) (mb_images s) @ [messages_image_value media_type d], b_text := []\<rparr>"
| "messages_body_step (ReasoningDelta d) s = s\<lparr>b_reasoning := b_reasoning s @ d\<rparr>"
| "messages_body_step (ReasoningSignature sig) s = s\<lparr>b_signature := Some sig\<rparr>"
| "messages_body_step (ServiceTier tier) s = s\<lparr>mb_tier := Some tier\<rparr>"
| "messages_body_step (Diagnostics r) s = s\<lparr>mb_diagnostics := Some r\<rparr>"
| "messages_body_step (Container v) s = s\<lparr>mb_container := Some v\<rparr>"
| "messages_body_step (ContextManagement v) s = s\<lparr>mb_context := Some v\<rparr>"
| "messages_body_step (StopSequence text) s = s\<lparr>mb_stop_sequence := Some text\<rparr>"
| "messages_body_step (FinishReason reason _) s = s\<lparr>b_finish := Some (encode_stop_reason reason)\<rparr>"
| "messages_body_step (Usage p c cr cw rs au _ geo) s = s\<lparr>mb_usage := Some (p, c, cr, cw, rs, au, geo)\<rparr>"
| "messages_body_step (ToolCallStart id' name _ index) s = b_start index id' name False None s"
| "messages_body_step (CustomToolCallStart id' name index) s = b_start index id' name True None s"
| "messages_body_step (ToolCallArgDelta d index) s = b_arg index d s"
| "messages_body_step (CustomToolCallInputDelta d index) s = b_arg index d s"
| "messages_body_step (Protocol ity p) s = messages_body_protocol ity p s"
| "messages_body_step _ s = s"

definition messages_collect :: "ir_stream_event list \<Rightarrow> messages_body" where
  "messages_collect evs = fold messages_body_step evs messages_body_init"

definition messages_tool_use_value :: "(string \<Rightarrow> json option) \<Rightarrow> indexed_tool \<Rightarrow> json" where
  "messages_tool_use_value parse t =
     json_obj [(''type'', JString ''tool_use''), (''id'', JString (it_id t)), (''name'', JString (it_name t)),
       (''input'', if it_custom t then response_custom_tool_input parse (it_args t)
                 else unwrap_or (parse (it_args t)) (JObject []))]"

definition messages_thinking :: "messages_body \<Rightarrow> json list" where
  "messages_thinking s =
     (if b_reasoning s = [] \<and> b_signature s = None then []
      else [set_opt ''signature'' (map_option JString (b_signature s))
              (json_obj [(''type'', JString ''thinking''), (''thinking'', JString (b_reasoning s))])])"

text \<open>\<open>iter_mut().find(\<dots>)\<close>: the first block of the type is changed in place, or a new one is pushed.\<close>

fun change_first :: "(json \<Rightarrow> bool) \<Rightarrow> (json \<Rightarrow> json) \<Rightarrow> json list \<Rightarrow> json list option" where
  "change_first p f [] = None"
| "change_first p f (x # xs) = (if p x then Some (f x # xs) else map_option ((#) x) (change_first p f xs))"

definition has_type :: "string \<Rightarrow> json \<Rightarrow> bool" where
  "has_type t v = (Option.bind (jget v ''type'') as_str = Some t)"

definition messages_cited :: "json list \<Rightarrow> json list \<Rightarrow> json list" where
  "messages_cited citations blocks =
     (if citations = [] then blocks
      else unwrap_or (change_first (has_type ''text'') (jinsert ''citations'' (JArray citations)) blocks)
             (blocks @ [json_obj [(''type'', JString ''text''), (''text'', JString []), (''citations'', JArray citations)]]))"

definition messages_content_value :: "(string \<Rightarrow> json option) \<Rightarrow> messages_body \<Rightarrow> json list" where
  "messages_content_value parse s =
     messages_thinking s @ messages_cited (mb_citations s) (flushed chat_text_part (b_text s) (mb_images s))
     @ map (\<lambda>(_, t). messages_tool_use_value parse t) (b_tools s)"

definition messages_usage_value :: "messages_body \<Rightarrow> json option" where
  "messages_usage_value s =
     (case mb_usage s of
        None \<Rightarrow> None
      | Some (p, c, cr, cw, rs, _, geo) \<Rightarrow>
          map_option (\<lambda>u. insert_messages_cache_creation (mb_cache_creation s)
                            (insert_messages_server_tool_counts (mb_web_search s) (mb_web_fetch s) u))
            (jget (encode_anthropic p c cr cw rs geo) ''usage''))"

text \<open>A refusal writes its details, and the stop reason where no other was given.\<close>

definition messages_stop_value :: "messages_body \<Rightarrow> json \<Rightarrow> json" where
  "messages_stop_value s out =
     (let out = set_opt ''stop_reason'' (map_option JString (b_finish s)) out
      in if b_refusal s = [] then out
         else
           (let out = jinsert ''stop_details''
                  (json_obj [(''type'', JString ''refusal''), (''explanation'', JString (b_refusal s))]) out
            in if (case b_finish s of None \<Rightarrow> True | Some r \<Rightarrow> r = ''content_filter'')
               then jinsert ''stop_reason'' (JString ''refusal'') out else out))"

definition messages_tier_value :: "string option \<Rightarrow> json \<Rightarrow> json" where
  "messages_tier_value tier out =
     (case Option.bind tier usage_service_tier_to_messages of
        None \<Rightarrow> out
      | Some mapped \<Rightarrow>
          (let u = unwrap_or (ofilter is_object (jget out ''usage''))
                     (json_obj [(''input_tokens'', json_u32 0), (''output_tokens'', json_u32 0)])
           in jinsert ''usage'' (jinsert ''service_tier'' (JString mapped) u) out))"

definition messages_body_value :: "(string \<Rightarrow> json option) \<Rightarrow> string \<Rightarrow> messages_body \<Rightarrow> json" where
  "messages_body_value parse model s =
     (let out = json_obj [(''id'', JString (unwrap_or (mb_id s) ''msg_wiremux'')), (''type'', JString ''message''),
                          (''role'', JString ''assistant''), (''content'', JArray (messages_content_value parse s))];
          out = set_opt ''model'' (text_slot model) out;
          out = messages_stop_value s out;
          out = set_opt ''usage'' (messages_usage_value s) out;
          out = messages_tier_value (mb_tier s) out;
          out = set_opt ''diagnostics''
                  (map_option (\<lambda>r. json_obj [(''cache_miss_reason'', r)]) (mb_diagnostics s)) out;
          out = set_opt ''container'' (mb_container s) out;
          out = set_opt ''context_management'' (mb_context s) out
      in set_opt ''stop_sequence'' (map_option JString (mb_stop_sequence s)) out)"

definition encode_messages_complete ::
  "(string \<Rightarrow> json option) \<Rightarrow> ir_stream_event list \<Rightarrow> string \<Rightarrow> json" where
  "encode_messages_complete parse evs model = messages_body_value parse model (messages_collect evs)"


section \<open>Responses bodies\<close>

record responses_body = body_state +
  rb_id :: "string option"
  rb_previous_id :: "string option"
  rb_message_id :: "string option"
  rb_message_status :: "string option"
  rb_message_phase :: "string option"
  rb_message_agent :: "json option"
  rb_reasoning_id :: "string option"
  rb_reasoning_status :: "string option"
  rb_reasoning_content :: "json option"
  rb_usage :: "(u32 \<times> u32 \<times> u32 \<times> u32 \<times> u32 \<times> u32) option"
  rb_annotations :: "json list"
  rb_audio_data :: string
  rb_audio_transcript :: string
  rb_images :: "json list"
  rb_logprobs :: "json list"
  rb_created :: "int option"
  rb_tier :: "string option"
  rb_metadata :: "(string \<times> string) list option"
  rb_moderation :: "(json option \<times> json option) option"
  rb_extras :: "(u32 \<times> tool_extra) list"
  rb_replay :: "json list"
  rb_saw_reasoning :: bool

definition responses_body_init :: responses_body where
  "responses_body_init =
     \<lparr>b_text = [], b_refusal = [], b_reasoning = [], b_signature = None, b_finish = None, b_open = [], b_done = [],
      rb_id = None, rb_previous_id = None, rb_message_id = None, rb_message_status = None, rb_message_phase = None,
      rb_message_agent = None, rb_reasoning_id = None, rb_reasoning_status = None, rb_reasoning_content = None,
      rb_usage = None, rb_annotations = [], rb_audio_data = [], rb_audio_transcript = [], rb_images = [],
      rb_logprobs = [], rb_created = None, rb_tier = None, rb_metadata = None, rb_moderation = None,
      rb_extras = [], rb_replay = [], rb_saw_reasoning = False\<rparr>"

definition output_text_part :: "string \<Rightarrow> json" where
  "output_text_part text = json_obj [(''type'', JString ''output_text''), (''text'', JString text)]"

definition output_image_part :: "string \<Rightarrow> string \<Rightarrow> json" where
  "output_image_part media_type d =
     json_obj [(''type'', JString ''output_image''), (''image_url'', JString (''data:'' @ media_type @ '';base64,'' @ d))]"

text \<open>The identity notes of the message and of the reasoning item.\<close>

definition responses_body_note :: "string \<Rightarrow> json \<Rightarrow> responses_body \<Rightarrow> responses_body" where
  "responses_body_note ity p s =
     (let some_text = (\<lambda>old. or_else (ofilter (\<lambda>t. t \<noteq> []) (as_str p)) old)
      in if ity = ''responses_id'' then s\<lparr>rb_id := or_else (solid_text p) (rb_id s)\<rparr>
         else if ity = ''responses_previous_id'' then s\<lparr>rb_previous_id := or_else (solid_text p) (rb_previous_id s)\<rparr>
         else if ity = ''responses_message_id'' then s\<lparr>rb_message_id := or_else (solid_text p) (rb_message_id s)\<rparr>
         else if ity = ''responses_message_status'' then
           s\<lparr>rb_message_status := or_else (solid_text p) (rb_message_status s)\<rparr>
         else if ity = ''responses_message_phase'' then
           s\<lparr>rb_message_phase := or_else (solid_text p) (rb_message_phase s)\<rparr>
         else if ity = ''responses_message_agent'' \<and> nonempty_str p ''agent_name'' then s\<lparr>rb_message_agent := Some p\<rparr>
         else if ity = ''responses_reasoning_id'' then s\<lparr>rb_reasoning_id := some_text (rb_reasoning_id s)\<rparr>
         else if ity = ''responses_reasoning_status'' then s\<lparr>rb_reasoning_status := some_text (rb_reasoning_status s)\<rparr>
         else if ity = ''responses_reasoning_content'' then
           (if nonempty_array (Some p) then s\<lparr>rb_reasoning_content := Some p\<rparr> else s)
         else if responses_output_item ity p then
           s\<lparr>rb_saw_reasoning := (rb_saw_reasoning s \<or> ity = ''reasoning''), rb_replay := rb_replay s @ [p]\<rparr>
         else s)"

definition responses_body_protocol :: "string \<Rightarrow> json \<Rightarrow> responses_body \<Rightarrow> responses_body" where
  "responses_body_protocol ity p s =
     (case tool_extra_from_protocol ity p of
        Some (index, extra) \<Rightarrow>
          s\<lparr>rb_extras := bt_insert index
                (tool_extra_merge (unwrap_or (map_of (rb_extras s) index) tool_extra_default) extra) (rb_extras s)\<rparr>
      | None \<Rightarrow> responses_body_note ity p s)"

fun responses_body_step :: "ir_stream_event \<Rightarrow> responses_body \<Rightarrow> responses_body" where
  "responses_body_step (TextDelta d) s = s\<lparr>b_text := b_text s @ d\<rparr>"
| "responses_body_step (RefusalDelta d) s = s\<lparr>b_refusal := b_refusal s @ d\<rparr>"
| "responses_body_step (ReasoningDelta d) s = s\<lparr>b_reasoning := b_reasoning s @ d\<rparr>"
| "responses_body_step (ReasoningSignature sig) s = s\<lparr>b_signature := Some sig\<rparr>"
| "responses_body_step (AnnotationAdded a) s =
     s\<lparr>rb_annotations := rb_annotations s @ [annotation_without_segment_text a]\<rparr>"
| "responses_body_step (AudioDelta d) s = s\<lparr>rb_audio_data := rb_audio_data s @ d\<rparr>"
| "responses_body_step (ImageDelta media_type d) s =
     s\<lparr>rb_images := flushed output_text_part (b_text s) (rb_images s) @ [output_image_part media_type d], b_text := []\<rparr>"
| "responses_body_step (AudioTranscriptDelta d) s = s\<lparr>rb_audio_transcript := rb_audio_transcript s @ d\<rparr>"
| "responses_body_step (Logprobs content refusal) s =
     s\<lparr>rb_logprobs := (let l = extend_logprobs_content (rb_logprobs s) content
                       in case refusal of None \<Rightarrow> l | Some r \<Rightarrow> extend_logprobs_content l r)\<rparr>"
| "responses_body_step (Created unix) s = s\<lparr>rb_created := Some unix\<rparr>"
| "responses_body_step (ServiceTier tier) s = s\<lparr>rb_tier := Some tier\<rparr>"
| "responses_body_step (Metadata m) s = s\<lparr>rb_metadata := Some m\<rparr>"
| "responses_body_step (Moderation i out) s = s\<lparr>rb_moderation := Some (i, out)\<rparr>"
| "responses_body_step (FinishReason reason _) s = s\<lparr>b_finish := Some reason\<rparr>"
| "responses_body_step (Usage p c cr cw rs au _ _) s = s\<lparr>rb_usage := Some (p, c, cr, cw, rs, au)\<rparr>"
| "responses_body_step (ToolCallStart id' name _ index) s = b_start index id' name False None s"
| "responses_body_step (CustomToolCallStart id' name index) s = b_start index id' name True None s"
| "responses_body_step (ToolCallArgDelta d index) s = b_arg index d s"
| "responses_body_step (CustomToolCallInputDelta d index) s = b_arg index d s"
| "responses_body_step (Protocol ity p) s = responses_body_protocol ity p s"
| "responses_body_step _ s = s"

definition responses_collect :: "ir_stream_event list \<Rightarrow> responses_body" where
  "responses_collect evs = fold responses_body_step evs responses_body_init"

definition responses_tool_call_value :: "indexed_tool \<Rightarrow> tool_extra \<Rightarrow> json" where
  "responses_tool_call_value t extra =
     tool_extra_write_item extra
       (if it_custom t then
          json_obj [(''type'', JString ''custom_tool_call''), (''id'', JString (it_id t)),
                    (''call_id'', JString (it_id t)), (''name'', JString (it_name t)), (''input'', JString (it_args t))]
        else
          json_obj [(''type'', JString ''function_call''), (''id'', JString (it_id t)),
                    (''call_id'', JString (it_id t)), (''name'', JString (it_name t)), (''arguments'', JString (it_args t))])"

text \<open>The side fields of an index go to the first call of that index and are taken out of the map.\<close>

fun responses_tool_items :: "tool_slots \<Rightarrow> (u32 \<times> tool_extra) list \<Rightarrow> json list" where
  "responses_tool_items [] extras = []"
| "responses_tool_items ((index, t) # ts) extras =
     responses_tool_call_value t (unwrap_or (map_of extras index) tool_extra_default)
     # responses_tool_items ts (bt_remove index extras)"

definition responses_reasoning_value :: "responses_body \<Rightarrow> json list" where
  "responses_reasoning_value s =
     (if rb_saw_reasoning s
         \<or> (b_reasoning s = [] \<and> b_signature s = None \<and> rb_reasoning_id s = None \<and> rb_reasoning_status s = None
            \<and> rb_reasoning_content s = None) then []
      else [set_opt ''signature'' (map_option JString (b_signature s))
              (set_opt ''content'' (rb_reasoning_content s)
                (set_opt ''summary''
                   (if b_reasoning s = [] then None
                    else Some (JArray [json_obj [(''type'', JString ''summary_text''), (''text'', JString (b_reasoning s))]]))
                  (set_opt ''status'' (map_option JString (rb_reasoning_status s))
                    (set_opt ''id'' (map_option JString (rb_reasoning_id s))
                      (json_obj [(''type'', JString ''reasoning'')])))))])"

definition marked_text :: "json list \<Rightarrow> json list \<Rightarrow> json \<Rightarrow> json" where
  "marked_text annotations logprobs part =
     set_opt ''logprobs'' (array_slot logprobs) (set_opt ''annotations'' (array_slot annotations) part)"

definition responses_marked :: "json list \<Rightarrow> json list \<Rightarrow> json list \<Rightarrow> json list" where
  "responses_marked annotations logprobs parts =
     (if annotations = [] \<and> logprobs = [] then parts
      else unwrap_or (change_first (has_type ''output_text'') (marked_text annotations logprobs) parts)
             (parts @ [marked_text annotations logprobs (output_text_part [])]))"

definition responses_message_value :: "responses_body \<Rightarrow> json list" where
  "responses_message_value s =
     (if b_text s = [] \<and> b_refusal s = [] \<and> rb_annotations s = [] \<and> rb_logprobs s = [] \<and> rb_images s = [] then []
      else
        (let content = responses_marked (rb_annotations s) (rb_logprobs s)
                         (flushed output_text_part (b_text s) (rb_images s));
             content = content @ (if b_refusal s = [] then []
               else [json_obj [(''type'', JString ''refusal''), (''refusal'', JString (b_refusal s))]])
         in [set_opt ''agent'' (rb_message_agent s)
               (set_opt ''phase'' (map_option JString (rb_message_phase s))
                 (set_opt ''status'' (map_option JString (rb_message_status s))
                   (set_opt ''id'' (map_option JString (rb_message_id s))
                     (json_obj [(''type'', JString ''message''), (''role'', JString ''assistant''),
                                (''content'', JArray content)]))))]))"

definition responses_audio_value :: "responses_body \<Rightarrow> json list" where
  "responses_audio_value s =
     (if rb_audio_data s = [] \<and> rb_audio_transcript s = [] then []
      else [set_opt ''transcript'' (text_slot (rb_audio_transcript s))
              (set_opt ''data'' (text_slot (rb_audio_data s)) (json_obj [(''type'', JString ''output_audio'')]))])"

definition responses_complete_status :: "string \<Rightarrow> string" where
  "responses_complete_status reason =
     (if reason = ''failed'' then ''failed''
      else if reason \<in> {''incomplete'', ''length'', ''max_tokens'', ''content_filter''} then ''incomplete''
      else ''completed'')"

definition responses_usage_value :: "responses_body \<Rightarrow> json option" where
  "responses_usage_value s =
     (case rb_usage s of
        None \<Rightarrow> None
      | Some (p, c, cr, cw, rs, _) \<Rightarrow> pointer (encode_responses p c cr cw rs) [''response'', ''usage''])"

definition responses_output_value :: "responses_body \<Rightarrow> json list" where
  "responses_output_value s =
     rb_replay s @ responses_reasoning_value s @ responses_message_value s @ responses_audio_value s
     @ responses_tool_items (b_tools s) (rb_extras s)"

definition responses_body_value :: "string \<Rightarrow> responses_body \<Rightarrow> json" where
  "responses_body_value model s =
     (let out = json_obj [(''id'', JString (unwrap_or (rb_id s) ''resp_wiremux'')), (''object'', JString ''response''),
                (''status'', JString (case b_finish s of None \<Rightarrow> ''completed'' | Some r \<Rightarrow> responses_complete_status r)),
                (''output'', JArray (responses_output_value s))];
          out = set_opt ''previous_response_id'' (map_option JString (rb_previous_id s)) out;
          out = set_opt ''incomplete_details''
                  (map_option (\<lambda>r. json_obj [(''reason'', JString r)]) (Option.bind (b_finish s) incomplete_details_reason)) out;
          out = set_opt ''model'' (text_slot model) out;
          out = set_opt ''created_at'' (map_option json_i64 (rb_created s)) out;
          out = set_opt ''service_tier'' (map_option JString (rb_tier s)) out;
          out = set_opt ''metadata'' (map_option metadata_object (ofilter (\<lambda>m. m \<noteq> []) (rb_metadata s))) out;
          out = set_opt ''moderation'' (Option.bind (rb_moderation s) (\<lambda>(i, out). responses_moderation_value i out)) out;
          out = set_opt ''output_text'' (text_slot (b_text s)) out
      in set_opt ''usage'' (responses_usage_value s) out)"

definition encode_responses_complete :: "ir_stream_event list \<Rightarrow> string \<Rightarrow> json" where
  "encode_responses_complete evs model = responses_body_value model (responses_collect evs)"

end
