(* ===== verification/Wm_Complete_Decode.thy ===== *)
theory Wm_Complete_Decode
  imports Wm_Stream Wm_Stream_Codec
begin

text \<open>
  The decoders of \<open>stream/complete.rs\<close>: a whole (non-streaming) vendor body read as the events its stream would
  have carried. The JSON printer and parser are the parameters \<open>to_str\<close> and \<open>parse\<close>, as in the stream decoders.
\<close>

section \<open>Chat Completions bodies\<close>

definition complete_chat_tool_call :: "(json \<Rightarrow> string) \<Rightarrow> json \<Rightarrow> map_error + ir_stream_event list" where
  "complete_chat_tool_call to_str call =
     (let ty = Option.bind (jget call ''type'') as_str
      in if ty = Some ''custom'' then
           (let custom = unwrap_or (jget call ''custom'') call;
                id' = unwrap_or (str_field call ''id'') [];
                name = unwrap_or (str_field custom ''name'') []
            in case json_text_field to_str custom ''input'' of
                 Inl e \<Rightarrow> Inl e
               | Inr input \<Rightarrow>
                   (let index = tool_call_index call
                    in Inr ([CustomToolCallStart id' name index]
                            @ opt_event (\<lambda>d. CustomToolCallInputDelta d index) input @ [ToolCallEnd])))
         else if ty \<noteq> None \<and> ty \<noteq> Some ''function'' then Inr [Protocol ''chunk'' call]
         else
           (let func = unwrap_or (jget call ''function'') call;
                id' = unwrap_or (str_field call ''id'') [];
                name = unwrap_or (str_field func ''name'') []
            in case json_text_field to_str func ''arguments'' of
                 Inl e \<Rightarrow> Inl e
               | Inr args \<Rightarrow>
                   (let index = tool_call_index call
                    in Inr ([ToolCallStart id' name None index]
                            @ opt_event (\<lambda>d. ToolCallArgDelta d index) args @ [ToolCallEnd]))))"

fun complete_chat_calls :: "(json \<Rightarrow> string) \<Rightarrow> json list \<Rightarrow> map_error + ir_stream_event list" where
  "complete_chat_calls to_str [] = Inr []"
| "complete_chat_calls to_str (call # calls) =
     (case check_index call ''index'' MAX_TOOL_CALL_INDEX ''tool call'' of
        Inl e \<Rightarrow> Inl e
      | Inr _ \<Rightarrow>
          (case complete_chat_tool_call to_str call of
             Inl e \<Rightarrow> Inl e
           | Inr out \<Rightarrow>
               (case complete_chat_calls to_str calls of Inl e \<Rightarrow> Inl e | Inr out' \<Rightarrow> Inr (out @ out'))))"

text \<open>The leaves of one \<open>message\<close> before its tool calls, in the order the code pushes them.\<close>

definition chat_message_leaves :: "json \<Rightarrow> ir_stream_event list" where
  "chat_message_leaves msg =
     opt_event ReasoningDelta (reasoning_of (Some msg))
     @ opt_event ReasoningSignature (nonempty_str_opt (jget msg ''reasoning_signature''))
     @ (case jget msg ''content'' of None \<Rightarrow> [] | Some content \<Rightarrow> content_events content)
     @ opt_event RefusalDelta (nonempty_str_opt (jget msg ''refusal''))
     @ (case Option.bind (jget msg ''annotations'') as_array of
          None \<Rightarrow> []
        | Some anns \<Rightarrow> map (\<lambda>ann. AnnotationAdded (annotation_from_chat ann)) (filter is_object anns))
     @ audio_events (Some msg)"

definition chat_message_calls :: "(json \<Rightarrow> string) \<Rightarrow> json \<Rightarrow> map_error + ir_stream_event list" where
  "chat_message_calls to_str msg =
     (case Option.bind (jget msg ''tool_calls'') as_array of
        Some calls \<Rightarrow> complete_chat_calls to_str calls
      | None \<Rightarrow>
          (case ofilter is_object (jget msg ''function_call'') of
             Some fc \<Rightarrow> complete_chat_tool_call to_str fc
           | None \<Rightarrow> Inr []))"

definition chat_choice_events :: "(json \<Rightarrow> string) \<Rightarrow> json \<Rightarrow> map_error + ir_stream_event list" where
  "chat_choice_events to_str choice =
     (case (case jget choice ''message'' of
              None \<Rightarrow> Inr []
            | Some msg \<Rightarrow>
                (case chat_message_calls to_str msg of
                   Inl e \<Rightarrow> Inl e | Inr calls \<Rightarrow> Inr (chat_message_leaves msg @ calls))) of
        Inl e \<Rightarrow> Inl e
      | Inr leaves \<Rightarrow>
          Inr (leaves @ opt_event id (chat_logprobs_event choice) @ opt_event id (finish_of choice)))"

text \<open>What stands beside the choices: tier, fingerprint, id, creation time, metadata and moderation.\<close>

definition chat_body_slots :: "json \<Rightarrow> ir_stream_event list" where
  "chat_body_slots v =
     opt_event ServiceTier (nonempty_str_opt (jget v ''service_tier''))
     @ opt_event id (system_fingerprint_event v)
     @ opt_event id (completion_id_event v)
     @ opt_event Created (Option.bind (jget v ''created'') as_i64)
     @ opt_event Metadata (string_metadata (jget v ''metadata''))
     @ opt_event id (moderation_event v)"

definition decode_chat_complete :: "(json \<Rightarrow> string) \<Rightarrow> json \<Rightarrow> map_error + ir_stream_event list" where
  "decode_chat_complete to_str v =
     (case (if json_has_completion v then None else plain_error_detail v) of
        Some d \<Rightarrow> Inl (MapInvalid d)
      | None \<Rightarrow>
          (case (case first_choice v of None \<Rightarrow> Inr [] | Some choice \<Rightarrow> chat_choice_events to_str choice) of
             Inl e \<Rightarrow> Inl e
           | Inr choice_evs \<Rightarrow> Inr (chat_body_slots v @ choice_evs @ usage_events v)))"


section \<open>Messages bodies\<close>

definition citation_events :: "json \<Rightarrow> ir_stream_event list" where
  "citation_events citation =
     (case annotation_from_messages_citation citation of
        Some annotation \<Rightarrow> [AnnotationAdded annotation]
      | None \<Rightarrow>
          if is_object citation \<and> Option.bind (jget citation ''type'') as_str \<noteq> None
          then [Protocol ''messages_citation'' citation] else [])"

text \<open>One content block: its events and the index of the next tool call.\<close>

definition messages_block_events :: "(json \<Rightarrow> string) \<Rightarrow> json \<Rightarrow> u32 \<Rightarrow> ir_stream_event list \<times> u32" where
  "messages_block_events to_str block i =
     (case Option.bind (jget block ''type'') as_str of
        None \<Rightarrow> ([], i)
      | Some ty \<Rightarrow>
          if ty = ''text'' then
            (opt_event TextDelta (nonempty_field block ''text'')
             @ (case Option.bind (jget block ''citations'') as_array of
                  None \<Rightarrow> [] | Some citations \<Rightarrow> concat (map citation_events citations)), i)
          else if ty = ''thinking'' then
            (opt_event ReasoningDelta (nonempty_field block ''thinking'')
             @ opt_event ReasoningSignature (nonempty_field block ''signature''), i)
          else if ty = ''image'' then
            ((case image_delta_from_block block of
                Some ev \<Rightarrow> [ev]
              | None \<Rightarrow> if messages_block_has_payload block then [Protocol ''image'' block] else []), i)
          else if ty = ''tool_use'' then
            (if messages_tool_block_visible block then
               ([ToolCallStart (unwrap_or (str_field block ''id'') []) (unwrap_or (str_field block ''name'') []) None i]
                @ opt_event (\<lambda>input. ToolCallArgDelta (to_str input) i)
                    (ofilter (\<lambda>w. \<not> is_null w) (jget block ''input''))
                @ [ToolCallEnd], saturating_add i 1)
             else ([], i))
          else ((if messages_block_has_payload block then [Protocol ty block] else []), i))"

fun messages_blocks_events :: "(json \<Rightarrow> string) \<Rightarrow> json list \<Rightarrow> u32 \<Rightarrow> ir_stream_event list" where
  "messages_blocks_events to_str [] i = []"
| "messages_blocks_events to_str (block # blocks) i =
     (case messages_block_events to_str block i of
        (out, i') \<Rightarrow> out @ messages_blocks_events to_str blocks i')"

definition messages_body_usage :: "json \<Rightarrow> ir_stream_event list" where
  "messages_body_usage v =
     (case usage_object v of
        None \<Rightarrow> []
      | Some usage \<Rightarrow>
          opt_event ServiceTier (service_tier_from_usage usage) @ [from_anthropic usage]
          @ messages_web_search_events usage @ messages_cache_creation_events usage)"

definition messages_body_slots :: "json \<Rightarrow> ir_stream_event list" where
  "messages_body_slots v =
     opt_event RefusalDelta (nonempty_str_opt (pointer v [''stop_details'', ''explanation'']))
     @ opt_event StopSequence (nonempty_str_opt (jget v ''stop_sequence''))
     @ opt_event (\<lambda>reason. FinishReason (map_stop_reason reason) None) (Option.bind (jget v ''stop_reason'') as_str)
     @ opt_event Diagnostics (ofilter is_object (pointer v [''diagnostics'', ''cache_miss_reason'']))
     @ opt_event Container (ofilter is_object (jget v ''container''))
     @ opt_event ContextManagement (ofilter is_object (jget v ''context_management''))
     @ messages_body_usage v
     @ opt_event (\<lambda>i. Protocol ''messages_id'' (JString i)) (nonblank_str (jget v ''id''))"

definition decode_messages_complete :: "(json \<Rightarrow> string) \<Rightarrow> json \<Rightarrow> map_error + ir_stream_event list" where
  "decode_messages_complete to_str v =
     (let out = messages_blocks_events to_str (unwrap_or (Option.bind (jget v ''content'') as_array) []) 0
      in case (if out = [] then plain_error_detail v else None) of
           Some d \<Rightarrow> Inl (MapInvalid d)
         | None \<Rightarrow> Inr (out @ messages_body_slots v))"


section \<open>Responses bodies\<close>

definition responses_surface_error :: "json \<Rightarrow> string option" where
  "responses_surface_error v =
     or_else (plain_error_detail v) (Option.bind (ofilter is_object (jget v ''last_error'')) error_object_detail)"

definition push_output_audio_events :: "json \<Rightarrow> ir_stream_event list" where
  "push_output_audio_events v =
     opt_event AudioDelta (nonempty_field v ''data'') @ opt_event AudioTranscriptDelta (nonempty_field v ''transcript'')"

definition output_part_events :: "json \<Rightarrow> ir_stream_event list" where
  "output_part_events part =
     (let ty = Option.bind (jget part ''type'') as_str
      in if ty = Some ''output_text'' \<or> ty = Some ''text'' then
           opt_event TextDelta (nonempty_field part ''text'')
           @ (case Option.bind (jget part ''annotations'') as_array of
                None \<Rightarrow> [] | Some anns \<Rightarrow> map AnnotationAdded (filter is_object anns))
           @ opt_event (\<lambda>content. Logprobs content None) (logprobs_array part)
         else if ty = Some ''refusal'' then
           opt_event RefusalDelta (ofilter (\<lambda>s. s \<noteq> []) (or_else (str_field part ''refusal'') (str_field part ''text'')))
         else if ty = Some ''output_audio'' \<or> ty = Some ''audio'' then push_output_audio_events part
         else if ty = Some ''output_image'' then
           [unwrap_or (image_delta_from_output_image part) (Protocol ''output_image'' part)]
         else [])"

definition summary_part_events :: "json \<Rightarrow> ir_stream_event list" where
  "summary_part_events part =
     (let ty = Option.bind (jget part ''type'') as_str
      in if ty = Some ''summary_text'' \<or> ty = Some ''text''
         then opt_event ReasoningDelta (nonempty_field part ''text'') else [])"

text \<open>One output item: an error of its argument field, or its events and the index of the next tool call.\<close>

definition output_item_events ::
  "(json \<Rightarrow> string) \<Rightarrow> json \<Rightarrow> u32 \<Rightarrow> map_error + ir_stream_event list \<times> u32" where
  "output_item_events to_str item i =
     (let ty = Option.bind (jget item ''type'') as_str;
          call_id = unwrap_or (or_else (str_field item ''call_id'') (str_field item ''id'')) [];
          name = unwrap_or (str_field item ''name'') []
      in if ty = Some ''message'' then
           Inr (message_item_identity_events item
                @ (case Option.bind (jget item ''content'') as_array of
                     None \<Rightarrow> [] | Some content \<Rightarrow> concat (map output_part_events content)), i)
         else if ty = Some ''output_audio'' then Inr (push_output_audio_events item, i)
         else if ty = Some ''function_call'' then
           (case json_text_field to_str item ''arguments'' of
              Inl e \<Rightarrow> Inl e
            | Inr args \<Rightarrow>
                Inr (tool_item_events item i @ [ToolCallStart call_id name None i]
                     @ opt_event (\<lambda>d. ToolCallArgDelta d i) args @ [ToolCallEnd], saturating_add i 1))
         else if ty = Some ''custom_tool_call'' then
           (case json_text_field to_str item ''input'' of
              Inl e \<Rightarrow> Inl e
            | Inr input \<Rightarrow>
                Inr (tool_item_events item i @ [CustomToolCallStart call_id name i]
                     @ opt_event (\<lambda>d. CustomToolCallInputDelta d i) input @ [ToolCallEnd], saturating_add i 1))
         else if ty = Some ''reasoning'' then
           Inr (reasoning_item_identity_events item
                @ (case Option.bind (jget item ''summary'') as_array of
                     None \<Rightarrow> [] | Some parts \<Rightarrow> concat (map summary_part_events parts)), i)
         else Inr ([], i))"

fun output_items_events :: "(json \<Rightarrow> string) \<Rightarrow> json list \<Rightarrow> u32 \<Rightarrow> map_error + ir_stream_event list" where
  "output_items_events to_str [] i = Inr []"
| "output_items_events to_str (item # items) i =
     (case output_item_events to_str item i of
        Inl e \<Rightarrow> Inl e
      | Inr (out, i') \<Rightarrow>
          (case output_items_events to_str items i' of Inl e \<Rightarrow> Inl e | Inr out' \<Rightarrow> Inr (out @ out')))"

definition complete_responses_output_events :: "(json \<Rightarrow> string) \<Rightarrow> json \<Rightarrow> map_error + ir_stream_event list" where
  "complete_responses_output_events to_str v =
     (case or_else (Option.bind (jget v ''output'') as_array) (Option.bind (pointer v [''response'', ''output'']) as_array) of
        None \<Rightarrow> Inr []
      | Some items \<Rightarrow> output_items_events to_str items 0)"

text \<open>The body as the terminal frame its stream would have ended with.\<close>

definition responses_body_frame :: "(json \<Rightarrow> string) \<Rightarrow> json \<Rightarrow> raw_sse" where
  "responses_body_frame to_str v =
     (let name = unwrap_or (Option.bind (jget v ''type'') as_str) []
      in if name = ''response.completed'' \<or> name = ''response.incomplete''
         then \<lparr>event = Some name, data = to_str v\<rparr>
         else
           (let status = unwrap_or (Option.bind (jget v ''status'') as_str) [];
                ev = (if status = ''incomplete'' then ''response.incomplete''
                      else if status = ''failed'' then ''response.failed'' else ''response.completed'')
            in \<lparr>event = Some ev, data = to_str (json_obj [(''type'', JString ev), (''response'', v)])\<rparr>))"

text \<open>The point the body's output is spliced in at: before the first finish, usage or end event.\<close>

definition closing_event :: "ir_stream_event \<Rightarrow> bool" where
  "closing_event ev = (is_finish_ev ev \<or> is_usage_ev ev \<or> ev = Done)"

definition decode_responses_complete ::
  "(string \<Rightarrow> json option) \<Rightarrow> (json \<Rightarrow> string) \<Rightarrow> dialect \<Rightarrow> json \<Rightarrow> map_error + ir_stream_event list" where
  "decode_responses_complete parse to_str d v =
     (case or_else (responses_gateway_error v)
             (if responses_has_visible_output v then None else responses_surface_error v) of
        Some msg \<Rightarrow> Inl (MapInvalid msg)
      | None \<Rightarrow>
          (case decode_stream_events parse to_str Responses (responses_body_frame to_str v) d of
             Inl e \<Rightarrow> Inl e
           | Inr events \<Rightarrow>
               (case complete_responses_output_events to_str v of
                  Inl e \<Rightarrow> Inl e
                | Inr extra \<Rightarrow>
                    if extra = [] then Inr events
                    else Inr (takeWhile (\<lambda>ev. \<not> closing_event ev) events @ extra
                              @ dropWhile (\<lambda>ev. \<not> closing_event ev) events
                              @ opt_event id (created_event v) @ opt_event id (service_tier_event v)
                              @ opt_event id (metadata_event v) @ opt_event id (moderation_event v)))))"


section \<open>Gemini bodies and the dispatch\<close>

definition decode_gemini_complete ::
  "(string \<Rightarrow> json option) \<Rightarrow> (json \<Rightarrow> string) \<Rightarrow> dialect \<Rightarrow> json \<Rightarrow> map_error + ir_stream_event list" where
  "decode_gemini_complete parse to_str d v =
     (case (if \<not> json_has_completion v \<and> json_string_error v \<noteq> None then plain_error_detail v else None) of
        Some msg \<Rightarrow> Inl (MapInvalid msg)
      | None \<Rightarrow> decode_stream_events parse to_str Gemini \<lparr>event = None, data = to_str v\<rparr> d)"

fun decode_response_value ::
  "(string \<Rightarrow> json option) \<Rightarrow> (json \<Rightarrow> string) \<Rightarrow> dialect \<Rightarrow> wire \<Rightarrow> json \<Rightarrow> map_error + ir_stream_event list" where
  "decode_response_value parse to_str d ChatCompletions v = decode_chat_complete to_str v"
| "decode_response_value parse to_str d Messages v = decode_messages_complete to_str v"
| "decode_response_value parse to_str d Responses v = decode_responses_complete parse to_str d v"
| "decode_response_value parse to_str d Gemini v = decode_gemini_complete parse to_str d v"
| "decode_response_value parse to_str d Converse v = converse_decode_complete to_str v"

definition record_preserved_gemini_finish :: "json \<Rightarrow> ir_stream_event list \<Rightarrow> loss_report \<Rightarrow> loss_report" where
  "record_preserved_gemini_finish v events report =
     (case nonempty_str_opt (pointer v [''candidates'', ''0'', ''finishReason'']) of
        None \<Rightarrow> report
      | Some vendor \<Rightarrow>
          if eq_ignore_ascii_case vendor ''stop'' then report
          else if list_ex (\<lambda>ev. case ev of FinishReason reason _ \<Rightarrow> reason = vendor | _ \<Rightarrow> False) events
               then loss_record ''candidates[0].finishReason'' LossPreserve vendor report
               else report)"

definition decode_response_with_loss ::
  "(string \<Rightarrow> json option) \<Rightarrow> (json \<Rightarrow> string) \<Rightarrow> dialect \<Rightarrow> wire \<Rightarrow> string
     \<Rightarrow> map_error + ir_stream_event list \<times> loss_report" where
  "decode_response_with_loss parse to_str d w body =
     (case parse body of
        None \<Rightarrow> Inl MapJson
      | Some v \<Rightarrow>
          (case decode_response_value parse to_str d w v of
             Inl e \<Rightarrow> Inl e
           | Inr events \<Rightarrow>
               Inr (events, if w = Gemini then record_preserved_gemini_finish v events [] else [])))"

definition decode_response ::
  "(string \<Rightarrow> json option) \<Rightarrow> (json \<Rightarrow> string) \<Rightarrow> dialect \<Rightarrow> wire \<Rightarrow> string \<Rightarrow> map_error + ir_stream_event list" where
  "decode_response parse to_str d w body = map_sum id fst (decode_response_with_loss parse to_str d w body)"

end
