(* ===== verification/Wm_Complete_Gemini.thy ===== *)
theory Wm_Complete_Gemini
  imports Wm_Complete_Encode Wm_Complete_Decode
begin

text \<open>
  The Gemini encoder of complete bodies (\<open>encode_gemini_complete\<close>, \<open>stream/complete.rs\<close>) and the dispatch over the
  five wires (\<open>encode_response_with_model\<close>). Converse bodies are in \<open>Wm_Stream_Converse\<close>.
\<close>

record gemini_body = body_state +
  gb_usage :: "(u32 \<times> u32 \<times> u32 \<times> u32 \<times> u32 \<times> u32) option"
  gb_chunks :: "json list"
  gb_supports :: "json list"
  gb_search :: "string option"
  gb_media :: "json list"
  gb_logprobs :: "json list"
  gb_tier :: "string option"
  gb_id :: "string option"
  gb_safety :: "json option"
  gb_prompt_safety :: "json option"
  gb_block_message :: "string option"
  gb_traffic_type :: "string option"
  gb_tool_use_tokens :: "u32 option"
  gb_avg_logprobs :: "64 word option"
  gb_candidate_tokens :: "u32 option"
  gb_prompt_details :: "json option"
  gb_candidate_details :: "json option"
  gb_url_context :: "json option"
  gb_citations :: "json option"
  gb_code_parts :: "json list"

definition gemini_body_init :: gemini_body where
  "gemini_body_init =
     \<lparr>b_text = [], b_refusal = [], b_reasoning = [], b_signature = None, b_finish = None, b_open = [], b_done = [],
      gb_usage = None, gb_chunks = [], gb_supports = [], gb_search = None, gb_media = [], gb_logprobs = [],
      gb_tier = None, gb_id = None, gb_safety = None, gb_prompt_safety = None, gb_block_message = None,
      gb_traffic_type = None, gb_tool_use_tokens = None, gb_avg_logprobs = None, gb_candidate_tokens = None,
      gb_prompt_details = None, gb_candidate_details = None, gb_url_context = None, gb_citations = None,
      gb_code_parts = []\<rparr>"

definition gemini_text_part :: "string \<Rightarrow> json" where
  "gemini_text_part text = json_obj [(''text'', JString text)]"

definition gemini_media_part :: "string \<Rightarrow> string \<Rightarrow> json" where
  "gemini_media_part media_type d =
     json_obj [(''inlineData'', json_obj [(''mimeType'', JString media_type), (''data'', JString d)])]"

text \<open>Annotations the decoder read out of the URL context or of the citation metadata are not written again.\<close>

definition grounded :: "json \<Rightarrow> bool" where
  "grounded a =
     (Option.bind (jget a ''url_context'') as_bool \<noteq> Some True
      \<and> Option.bind (jget a ''citation_metadata'') as_bool \<noteq> Some True)"

text \<open>\<open>payload.as_str().map(str::trim).filter(|t| !t.is_empty())\<close>: replaces the field even when there is nothing.\<close>

definition trimmed_payload :: "json \<Rightarrow> string option" where
  "trimmed_payload p = ofilter (\<lambda>t. t \<noteq> []) (map_option trim (as_str p))"

definition gemini_code_keys :: "string list" where
  "gemini_code_keys =
     [''executableCode'', ''codeExecutionResult'', ''functionResponse'', ''toolCall'', ''toolResponse'', ''fileData'']"

definition gemini_body_rows :: "string \<Rightarrow> json \<Rightarrow> gemini_body \<Rightarrow> gemini_body" where
  "gemini_body_rows ity p s =
     (if ity = ''gemini_safety_ratings'' \<and> nonempty_array (Some p) then s\<lparr>gb_safety := Some p\<rparr>
      else if ity = ''gemini_prompt_safety'' \<and> nonempty_array (Some p) then s\<lparr>gb_prompt_safety := Some p\<rparr>
      else if ity = ''gemini_prompt_token_details'' \<and> as_array p \<noteq> None then s\<lparr>gb_prompt_details := Some p\<rparr>
      else if ity = ''gemini_candidate_token_details'' \<and> as_array p \<noteq> None then s\<lparr>gb_candidate_details := Some p\<rparr>
      else if ity = ''gemini_url_context'' \<and> is_object p then s\<lparr>gb_url_context := Some p\<rparr>
      else if ity = ''gemini_citation_metadata'' \<and> is_object p then s\<lparr>gb_citations := Some p\<rparr>
      else if ity = ''gemini_code_part'' \<and> list_ex (\<lambda>k. jget p k \<noteq> None) gemini_code_keys
           then s\<lparr>gb_code_parts := gb_code_parts s @ [p]\<rparr>
      else s)"

definition gemini_body_protocol :: "string \<Rightarrow> json \<Rightarrow> gemini_body \<Rightarrow> gemini_body" where
  "gemini_body_protocol ity p s =
     (if ity = ''gemini_response_id'' then s\<lparr>gb_id := or_else (solid_text p) (gb_id s)\<rparr>
      else if ity = ''gemini_block_reason_message'' then s\<lparr>gb_block_message := trimmed_payload p\<rparr>
      else if ity = ''gemini_traffic_type'' then s\<lparr>gb_traffic_type := trimmed_payload p\<rparr>
      else if ity = ''gemini_tool_use_prompt_tokens'' then s\<lparr>gb_tool_use_tokens := payload_u32 p\<rparr>
      else if ity = ''gemini_avg_logprobs'' then s\<lparr>gb_avg_logprobs := ofilter f64_is_finite (as_f64 p)\<rparr>
      else if ity = ''gemini_candidate_tokens'' then s\<lparr>gb_candidate_tokens := payload_u32 p\<rparr>
      else gemini_body_rows ity p s)"

fun gemini_body_step :: "ir_stream_event \<Rightarrow> gemini_body \<Rightarrow> gemini_body" where
  "gemini_body_step (TextDelta d) s = s\<lparr>b_text := b_text s @ d\<rparr>"
| "gemini_body_step (AudioTranscriptDelta d) s = s\<lparr>b_text := b_text s @ d\<rparr>"
| "gemini_body_step (RefusalDelta d) s = s\<lparr>b_refusal := b_refusal s @ d\<rparr>"
| "gemini_body_step (AnnotationAdded a) s =
     (if grounded a then
        s\<lparr>gb_chunks := gb_chunks s @ [grounding_chunk_from_annotation a],
          gb_supports := gb_supports s @ [grounding_support_from_annotation a (length (gb_chunks s))]\<rparr>
      else s)"
| "gemini_body_step (SearchEntryPoint html) s = s\<lparr>gb_search := Some html\<rparr>"
| "gemini_body_step (AudioDelta d) s =
     s\<lparr>gb_media := flushed gemini_text_part (b_text s) (gb_media s) @ [gemini_media_part ''audio/mpeg'' d], b_text := []\<rparr>"
| "gemini_body_step (ImageDelta media_type d) s =
     s\<lparr>gb_media := flushed gemini_text_part (b_text s) (gb_media s) @ [gemini_media_part media_type d], b_text := []\<rparr>"
| "gemini_body_step (Logprobs content refusal) s =
     s\<lparr>gb_logprobs := (let l = extend_logprobs_content (gb_logprobs s) content
                       in case refusal of None \<Rightarrow> l | Some r \<Rightarrow> extend_logprobs_content l r)\<rparr>"
| "gemini_body_step (ReasoningDelta d) s = s\<lparr>b_reasoning := b_reasoning s @ d\<rparr>"
| "gemini_body_step (ReasoningSignature sig) s = s\<lparr>b_signature := Some sig\<rparr>"
| "gemini_body_step (FinishReason reason vendor) s = s\<lparr>b_finish := Some (finish_token reason vendor)\<rparr>"
| "gemini_body_step (Usage p c cr cw rs au cau _) s = s\<lparr>gb_usage := Some (p, c, cr, rs, au, cau)\<rparr>"
| "gemini_body_step (ToolCallStart id' name sig index) s =
     b_start index id' name False (ofilter (\<lambda>t. t \<noteq> []) sig) s"
| "gemini_body_step (CustomToolCallStart id' name index) s = b_start index id' name True None s"
| "gemini_body_step (ToolCallArgDelta d index) s = b_arg index d s"
| "gemini_body_step (CustomToolCallInputDelta d index) s = b_arg index d s"
| "gemini_body_step (ServiceTier tier) s =
     (case gemini_service_tier tier of None \<Rightarrow> s | Some (mapped, _) \<Rightarrow> s\<lparr>gb_tier := Some mapped\<rparr>)"
| "gemini_body_step (Protocol ity p) s = gemini_body_protocol ity p s"
| "gemini_body_step _ s = s"

definition gemini_collect :: "ir_stream_event list \<Rightarrow> gemini_body" where
  "gemini_collect evs = fold gemini_body_step evs gemini_body_init"

text \<open>A call with no name has no Gemini part.\<close>

definition gemini_function_call_value :: "(string \<Rightarrow> json option) \<Rightarrow> indexed_tool \<Rightarrow> json option" where
  "gemini_function_call_value parse t =
     (if it_name t = [] then None
      else
        (let parsed = (if it_custom t then response_custom_tool_input parse (it_args t)
                       else unwrap_or (parse (it_args t)) (JObject []));
             call = set_opt ''id'' (text_slot (it_id t))
                      (json_obj [(''name'', JString (it_name t)), (''args'', parsed)])
         in Some (set_opt ''thoughtSignature'' (map_option JString (ofilter (\<lambda>t. t \<noteq> []) (it_signature t)))
                    (json_obj [(''functionCall'', call)]))))"

definition gemini_thought_value :: "gemini_body \<Rightarrow> json list" where
  "gemini_thought_value s =
     (if b_reasoning s = [] \<and> b_signature s = None then []
      else [set_opt ''thoughtSignature'' (map_option JString (b_signature s))
              (json_obj [(''text'', JString (b_reasoning s)), (''thought'', JBool True)])])"

definition gemini_parts_value :: "(string \<Rightarrow> json option) \<Rightarrow> gemini_body \<Rightarrow> json list" where
  "gemini_parts_value parse s =
     gemini_thought_value s @ flushed gemini_text_part (b_text s) (gb_media s) @ gb_code_parts s
     @ List.map_filter (\<lambda>(_, t). gemini_function_call_value parse t) (b_tools s)"

definition gemini_grounding_value :: "gemini_body \<Rightarrow> json option" where
  "gemini_grounding_value s =
     (if gb_chunks s = [] \<and> gb_search s = None then None
      else Some (set_opt ''searchEntryPoint''
                   (map_option (\<lambda>html. json_obj [(''renderedContent'', JString html)]) (gb_search s))
                   (if gb_chunks s = [] then JObject []
                    else json_obj [(''groundingChunks'', JArray (gb_chunks s)),
                                   (''groundingSupports'', JArray (gb_supports s))])))"

definition gemini_candidate_value :: "(string \<Rightarrow> json option) \<Rightarrow> gemini_body \<Rightarrow> json" where
  "gemini_candidate_value parse s =
     (let c = json_obj [(''content'', json_obj [(''role'', JString ''model''),
                (''parts'', JArray (gemini_parts_value parse s))])];
          c = set_opt ''finishReason'' (map_option JString (b_finish s)) c;
          c = set_opt ''avgLogprobs'' (map_option (\<lambda>w. JNumber (Float w)) (gb_avg_logprobs s)) c;
          c = set_opt ''tokenCount'' (map_option json_u32 (positive (gb_candidate_tokens s))) c;
          c = set_opt ''safetyRatings'' (gb_safety s) c;
          c = set_opt ''urlContextMetadata'' (gb_url_context s) c;
          c = set_opt ''citationMetadata'' (gb_citations s) c;
          c = set_opt ''finishMessage'' (text_slot (b_refusal s)) c;
          c = set_opt ''groundingMetadata'' (gemini_grounding_value s) c
      in set_opt ''logprobsResult''
           (if gb_logprobs s = [] then None else Some (logprobs_to_result (JArray (gb_logprobs s)))) c)"

definition gemini_feedback_value :: "gemini_body \<Rightarrow> json \<Rightarrow> json" where
  "gemini_feedback_value s out =
     (let out = set_opt ''promptFeedback''
            (map_option (\<lambda>r. json_obj [(''safetyRatings'', r)]) (gb_prompt_safety s)) out
      in case gb_block_message s of
           None \<Rightarrow> out
         | Some msg \<Rightarrow>
             jinsert ''promptFeedback''
               (jinsert ''blockReasonMessage'' (JString msg)
                  (unwrap_or (ofilter is_object (jget out ''promptFeedback'')) (JObject []))) out)"

definition gemini_usage_value :: "gemini_body \<Rightarrow> json option" where
  "gemini_usage_value s =
     (case gb_usage s of
        None \<Rightarrow> None
      | Some (p, c, cr, rs, au, cau) \<Rightarrow>
          map_option (\<lambda>meta.
              insert_gemini_modality_details ''candidatesTokensDetails'' (gb_candidate_details s)
                (insert_gemini_modality_details ''promptTokensDetails'' (gb_prompt_details s)
                  (insert_gemini_tool_use_prompt_tokens (gb_tool_use_tokens s)
                    (insert_gemini_traffic_type (gb_traffic_type s) meta))))
            (jget (encode_gemini p c cr rs au cau) ''usageMetadata''))"

definition gemini_tier_value :: "string option \<Rightarrow> json \<Rightarrow> json" where
  "gemini_tier_value tier out =
     (case tier of
        None \<Rightarrow> out
      | Some t \<Rightarrow>
          jinsert ''usageMetadata''
            (jinsert ''serviceTier'' (JString t)
               (unwrap_or (ofilter is_object (jget out ''usageMetadata'')) (JObject []))) out)"

definition gemini_body_value :: "(string \<Rightarrow> json option) \<Rightarrow> string \<Rightarrow> gemini_body \<Rightarrow> json" where
  "gemini_body_value parse model s =
     (let out = json_obj [(''candidates'', JArray [gemini_candidate_value parse s]),
                          (''responseId'', JString (unwrap_or (gb_id s) ''gemini-wiremux''))];
          out = set_opt ''modelVersion'' (text_slot model) out;
          out = gemini_feedback_value s out;
          out = set_opt ''usageMetadata'' (gemini_usage_value s) out
      in gemini_tier_value (gb_tier s) out)"

definition encode_gemini_complete ::
  "(string \<Rightarrow> json option) \<Rightarrow> ir_stream_event list \<Rightarrow> string \<Rightarrow> json" where
  "encode_gemini_complete parse evs model = gemini_body_value parse model (gemini_collect evs)"


section \<open>The dispatch\<close>

fun encode_response_with_model ::
  "(string \<Rightarrow> json option) \<Rightarrow> wire \<Rightarrow> ir_stream_event list \<Rightarrow> string \<Rightarrow> map_error + json" where
  "encode_response_with_model parse ChatCompletions evs model = Inr (encode_chat_complete evs model)"
| "encode_response_with_model parse Messages evs model = Inr (encode_messages_complete parse evs model)"
| "encode_response_with_model parse Gemini evs model = Inr (encode_gemini_complete parse evs model)"
| "encode_response_with_model parse Responses evs model = Inr (encode_responses_complete evs model)"
| "encode_response_with_model parse Converse evs model = converse_encode_complete parse evs"

definition encode_response ::
  "(string \<Rightarrow> json option) \<Rightarrow> wire \<Rightarrow> ir_stream_event list \<Rightarrow> map_error + json" where
  "encode_response parse w evs = encode_response_with_model parse w evs []"

end
