(* ===== verification/Wm_Complete.thy ===== *)
theory Wm_Complete
  imports Wm_Complete_Gemini
begin

section \<open>What an event list says\<close>

fun ev_text :: "ir_stream_event \<Rightarrow> string" where
  "ev_text (TextDelta d) = d"
| "ev_text _ = []"

fun ev_refusal :: "ir_stream_event \<Rightarrow> string" where
  "ev_refusal (RefusalDelta d) = d"
| "ev_refusal _ = []"

fun ev_reasoning :: "ir_stream_event \<Rightarrow> string" where
  "ev_reasoning (ReasoningDelta d) = d"
| "ev_reasoning _ = []"

definition texts :: "ir_stream_event list \<Rightarrow> string" where
  "texts evs = concat (map ev_text evs)"

definition refusals :: "ir_stream_event list \<Rightarrow> string" where
  "refusals evs = concat (map ev_refusal evs)"

definition reasonings :: "ir_stream_event list \<Rightarrow> string" where
  "reasonings evs = concat (map ev_reasoning evs)"

definition all_said :: "ir_stream_event list \<Rightarrow> string \<times> string \<times> string" where
  "all_said evs = (texts evs, refusals evs, reasonings evs)"

lemma said_simps [simp]:
  "texts [] = []" "texts (e # es) = ev_text e @ texts es" "texts (xs @ ys) = texts xs @ texts ys"
  "refusals [] = []" "refusals (e # es) = ev_refusal e @ refusals es" "refusals (xs @ ys) = refusals xs @ refusals ys"
  "reasonings [] = []" "reasonings (e # es) = ev_reasoning e @ reasonings es"
  "reasonings (xs @ ys) = reasonings xs @ reasonings ys"
  by (simp_all add: texts_def refusals_def reasonings_def)

text \<open>Events that say nothing of the three.\<close>

definition mute :: "ir_stream_event \<Rightarrow> bool" where
  "mute e = (ev_text e = [] \<and> ev_refusal e = [] \<and> ev_reasoning e = [])"

lemma mute_simps [simp]:
  "mute (Protocol t x)" "mute (AnnotationAdded x)" "mute (ServiceTier t)" "mute (Created i)" "mute (Metadata m)"
  "mute (Moderation y z)" "mute (Logprobs x y)" "mute (FinishReason s v)" "mute (AudioDelta d)"
  "mute (AudioTranscriptDelta d)" "mute (ImageDelta s n)" "mute ToolCallEnd" "mute (ToolCallStart s n v j)"
  "mute (ToolCallArgDelta d j)" "mute (CustomToolCallStart s n j)" "mute (CustomToolCallInputDelta d j)"
  "mute (Usage p c cr cw rs au cau geo)" "mute (ReasoningSignature s)" "mute (Diagnostics x)" "mute (Container x)"
  "mute (ContextManagement x)" "mute (StopSequence s)" "mute (SearchEntryPoint s)" "mute Done" "mute (Unknown s x)"
  by (simp_all add: mute_def)

lemma mute_says [simp]:
  assumes "list_all mute evs"
  shows "texts evs = []" "refusals evs = []" "reasonings evs = []"
  using assms by (induction evs) (auto simp: mute_def)

lemma opt_event_mute: "(\<And>x. mute (f x)) \<Longrightarrow> list_all mute (opt_event f x)"
  by (cases x) (simp_all add: opt_event_def)

lemma opt_event_id_mute: "(\<And>e. x = Some e \<Longrightarrow> mute e) \<Longrightarrow> list_all mute (opt_event id x)"
  by (cases x) (simp_all add: opt_event_def)

section \<open>Reading fields back\<close>

declare is_object_set_opt [simp]

lemma nonempty_str_text_slot [simp]: "nonempty_str_opt (text_slot t) = (if t = [] then None else Some t)"
  by (simp add: nonempty_str_opt_def text_slot_def ofilter_def)

lemma text_slot_simps [simp]: "text_slot t = None \<longleftrightarrow> t = []" "text_slot [] = None" "array_slot [] = None"
  by (simp_all add: text_slot_def array_slot_def)

lemma array_slot_simps [simp]: "array_slot xs = None \<longleftrightarrow> xs = []"
  "Option.bind (array_slot xs) as_array = (if xs = [] then None else Some xs)"
  by (simp_all add: array_slot_def)

lemma opt_event_text:
  "texts (opt_event TextDelta x) = unwrap_or x []" "refusals (opt_event TextDelta x) = []"
  "reasonings (opt_event TextDelta x) = []"
  "texts (opt_event RefusalDelta x) = []" "refusals (opt_event RefusalDelta x) = unwrap_or x []"
  "reasonings (opt_event RefusalDelta x) = []"
  "texts (opt_event ReasoningDelta x) = []" "refusals (opt_event ReasoningDelta x) = []"
  "reasonings (opt_event ReasoningDelta x) = unwrap_or x []"
  by (cases x; simp add: opt_event_def unwrap_or_def)+

section \<open>Chat bodies\<close>

definition piece :: "json \<Rightarrow> string" where
  "piece part = (case as_str part of Some s \<Rightarrow> s | None \<Rightarrow> unwrap_or (part_text part) [])"

lemma texts_text_events [simp]:
  "texts (text_events t) = t" "refusals (text_events t) = []" "reasonings (text_events t) = []"
  by (simp_all add: text_events_def)

lemma image_event_mute: "image_event_from_part p = Some e \<Longrightarrow> mute e"
  by (auto simp: image_event_from_part_def Let_def split: if_splits option.splits prod.splits)

lemma image_part_mute: "mute (unwrap_or (image_event_from_part p) (protocol ''image_url'' p))"
  using image_event_mute [of p] by (auto simp: unwrap_or_def protocol_def split: option.splits)

lemma content_loop_said:
  "texts (content_loop parts t) = t @ concat (map piece parts)"
  "refusals (content_loop parts t) = []" "reasonings (content_loop parts t) = []"
proof -
  have a: "\<And>p. Option.bind (jget p ''type'') as_str = Some ''image_url'' \<Longrightarrow> part_text p = None"
    by (simp add: part_text_def Let_def)
  note m = image_part_mute [unfolded mute_def]
  show "texts (content_loop parts t) = t @ concat (map piece parts)"
    by (induction parts arbitrary: t) (auto simp: piece_def a m unwrap_or_def [of None] split: option.splits)
  show "refusals (content_loop parts t) = []" "reasonings (content_loop parts t) = []"
    by (induction parts arbitrary: t; simp add: m split: option.splits)+
qed

lemma content_events_said:
  "texts (content_events c) =
     (case c of JString s \<Rightarrow> s | JArray parts \<Rightarrow> concat (map piece parts) | _ \<Rightarrow> [])"
  "refusals (content_events c) = []" "reasonings (content_events c) = []"
  by (cases c; simp add: content_events_def ofilter_def content_loop_said)+

lemma piece_parts [simp]:
  "piece (chat_text_part t) = t" "piece (chat_image_url_part m d) = []"
  by (simp_all add: piece_def chat_text_part_def chat_image_url_part_def part_text_def json_obj_def unwrap_or_def)

lemma flushed_piece: "concat (map piece (flushed chat_text_part t xs)) = concat (map piece xs) @ t"
  by (simp add: flushed_def)


subsection \<open>Tool calls\<close>

fun is_call_event :: "ir_stream_event \<Rightarrow> bool" where
  "is_call_event (ToolCallStart _ _ _ _) = True"
| "is_call_event (ToolCallArgDelta _ _) = True"
| "is_call_event ToolCallEnd = True"
| "is_call_event (CustomToolCallStart _ _ _) = True"
| "is_call_event (CustomToolCallInputDelta _ _) = True"
| "is_call_event _ = False"

text \<open>The calls an event list makes, each with the arguments of its own index (the \<open>indexed_tool\<close> functions run
  over the events alone).\<close>

fun tool_step :: "ir_stream_event \<Rightarrow> tool_slots \<times> tool_slots \<Rightarrow> tool_slots \<times> tool_slots" where
  "tool_step (ToolCallStart id' name _ index) od = indexed_tool_start index id' name False None od"
| "tool_step (CustomToolCallStart id' name index) od = indexed_tool_start index id' name True None od"
| "tool_step (ToolCallArgDelta d index) od = (indexed_tool_delta index d (fst od), snd od)"
| "tool_step (CustomToolCallInputDelta d index) od = (indexed_tool_delta index d (fst od), snd od)"
| "tool_step _ od = od"

definition calls_of :: "ir_stream_event list \<Rightarrow> tool_slots" where
  "calls_of evs = (let (open_ts, done_ts) = fold tool_step evs ([], []) in indexed_tool_finish done_ts open_ts)"

text \<open>One call as the events a reader gets.\<close>

definition call_events :: "u32 \<Rightarrow> indexed_tool \<Rightarrow> ir_stream_event list" where
  "call_events i t =
     (if it_custom t then
        [CustomToolCallStart (it_id t) (it_name t) i]
        @ (if it_args t = [] then [] else [CustomToolCallInputDelta (it_args t) i]) @ [ToolCallEnd]
      else
        [ToolCallStart (it_id t) (it_name t) None i]
        @ (if it_args t = [] then [] else [ToolCallArgDelta (it_args t) i]) @ [ToolCallEnd])"

lemma call_events_said [simp]:
  "list_all is_call_event (call_events i t)" "list_all mute (call_events i t)"
  by (simp_all add: call_events_def)

text \<open>What the loop of every encoder does with the tool events, and what it leaves alone.\<close>

lemma b_start_frame [simp]:
  "b_text (b_start i id' n c g s) = b_text s" "b_refusal (b_start i id' n c g s) = b_refusal s"
  "b_reasoning (b_start i id' n c g s) = b_reasoning s"
  "(b_open (b_start i id' n c g s), b_done (b_start i id' n c g s)) = indexed_tool_start i id' n c g (b_open s, b_done s)"
  "body_state.more (b_start i id' n c g s) = body_state.more s"
  by (simp_all add: b_start_def split: prod.split)

lemma b_arg_frame [simp]:
  "b_text (b_arg i d s) = b_text s" "b_refusal (b_arg i d s) = b_refusal s" "b_reasoning (b_arg i d s) = b_reasoning s"
  "b_open (b_arg i d s) = indexed_tool_delta i d (b_open s)" "b_done (b_arg i d s) = b_done s"
  "body_state.more (b_arg i d s) = body_state.more s"
  by (simp_all add: b_arg_def)

subsection \<open>The chat loop\<close>

definition chat_text_of :: "chat_body \<Rightarrow> string" where
  "chat_text_of s = concat (map piece (cb_images s)) @ b_text s"

lemma cb_images_frame [simp]:
  "cb_images (b_start i id' n c g s) = cb_images s" "cb_images (b_arg i d s) = cb_images s"
  by (simp_all add: b_start_def b_arg_def split: prod.split)

lemma chat_body_protocol_frame [simp]:
  "b_text (chat_body_protocol t p s) = b_text s" "b_refusal (chat_body_protocol t p s) = b_refusal s"
  "b_reasoning (chat_body_protocol t p s) = b_reasoning s" "cb_images (chat_body_protocol t p s) = cb_images s"
  "b_open (chat_body_protocol t p s) = b_open s" "b_done (chat_body_protocol t p s) = b_done s"
  by (simp_all add: chat_body_protocol_def split: option.split)

lemma chat_body_step_says:
  "chat_text_of (chat_body_step e s) = chat_text_of s @ ev_text e"
  "b_refusal (chat_body_step e s) = b_refusal s @ ev_refusal e"
  "b_reasoning (chat_body_step e s) = b_reasoning s @ ev_reasoning e"
  "(b_open (chat_body_step e s), b_done (chat_body_step e s)) = tool_step e (b_open s, b_done s)"
  by (cases e; simp add: chat_text_of_def flushed_piece)+

lemma chat_fold_says:
  "chat_text_of (fold chat_body_step evs s) = chat_text_of s @ texts evs"
  "b_refusal (fold chat_body_step evs s) = b_refusal s @ refusals evs"
  "b_reasoning (fold chat_body_step evs s) = b_reasoning s @ reasonings evs"
  "(b_open (fold chat_body_step evs s), b_done (fold chat_body_step evs s)) = fold tool_step evs (b_open s, b_done s)"
  by (induction evs arbitrary: s) (simp_all add: chat_body_step_says)

lemma chat_collect_says:
  "chat_text_of (chat_collect evs) = texts evs" "b_refusal (chat_collect evs) = refusals evs"
  "b_reasoning (chat_collect evs) = reasonings evs" "b_tools (chat_collect evs) = calls_of evs"
proof -
  show "chat_text_of (chat_collect evs) = texts evs" "b_refusal (chat_collect evs) = refusals evs"
    "b_reasoning (chat_collect evs) = reasonings evs"
    by (simp_all add: chat_collect_def chat_fold_says) (simp_all add: chat_body_init_def chat_text_of_def)
  have "(b_open (chat_collect evs), b_done (chat_collect evs)) = fold tool_step evs ([], [])"
    using chat_fold_says(4) [of evs chat_body_init] by (simp add: chat_collect_def chat_body_init_def)
  from this [symmetric] show "b_tools (chat_collect evs) = calls_of evs"
    by (simp add: b_tools_def calls_of_def)
qed


subsection \<open>The chat body read back\<close>

lemma chat_body_fields:
  "jget (chat_body_value m s) ''choices'' = Some (JArray [chat_choice_value s])"
  "jget (chat_body_value m s) ''error'' = None"
  "jget (chat_choice_value s) ''message'' = Some (chat_message_value s)"
  by (simp_all add: chat_body_value_def chat_choice_value_def jget_set_opt_same)

lemma chat_message_fields:
  "jget (chat_message_value s) ''content'' =
     Some (chat_message_content (b_text s) (b_refusal s) (cb_images s) (b_tools s = []))"
  "jget (chat_message_value s) ''tool_calls'' = array_slot (map (\<lambda>(_, t). chat_tool_call_value t) (b_tools s))"
  "jget (chat_message_value s) ''function_call'' = None"
  "jget (chat_message_value s) ''refusal'' = text_slot (b_refusal s)"
  "jget (chat_message_value s) ''reasoning_content'' = text_slot (b_reasoning s)"
  "jget (chat_message_value s) ''reasoning'' = None"
  by (simp_all add: chat_message_value_def Let_def jget_set_opt_same jget_jinsert_obj)

lemma chat_body_no_error: "plain_error_detail (chat_body_value m s) = None"
  by (simp add: plain_error_detail_def json_string_error_def chat_body_fields ofilter_def)

lemma chat_message_content_said:
  "texts (content_events (chat_message_content t r images b)) = concat (map piece images) @ t"
  by (simp add: chat_message_content_def content_events_said flushed_piece)

lemma audio_events_mute: "list_all mute (audio_events d)"
  by (auto simp: audio_events_def audio_identity_events_def opt_event_mute split: option.split)

lemma chat_message_leaves_said:
  "texts (chat_message_leaves (chat_message_value s)) = chat_text_of s"
  "refusals (chat_message_leaves (chat_message_value s)) = b_refusal s"
  "reasonings (chat_message_leaves (chat_message_value s)) = b_reasoning s"
proof -
  let ?m = "chat_message_value s"
  have a: "list_all mute (case Option.bind (jget ?m ''annotations'') as_array of None \<Rightarrow> []
       | Some anns \<Rightarrow> map (\<lambda>ann. AnnotationAdded (annotation_from_chat ann)) (filter is_object anns))"
    by (auto simp: list_all_iff split: option.split)
  have r: "reasoning_of (Some ?m) = (if b_reasoning s = [] then None else Some (b_reasoning s))"
    by (cases "b_reasoning s = []") (simp_all add: reasoning_of_def chat_message_fields text_slot_def nonempty_str_opt_def ofilter_def)
  note [simp] = mute_says [OF a] mute_says [OF audio_events_mute] mute_says [OF opt_event_mute [of ReasoningSignature]]
  show "texts (chat_message_leaves ?m) = chat_text_of s" "refusals (chat_message_leaves ?m) = b_refusal s"
    "reasonings (chat_message_leaves ?m) = b_reasoning s"
    by (simp_all add: chat_message_leaves_def chat_message_fields opt_event_text r content_events_said(2,3)
        chat_message_content_said chat_text_of_def unwrap_or_def)
qed

lemma chat_call_value_reads_back:
  "check_index (chat_tool_call_value t) ''index'' c k = Inr ()"
  "complete_chat_tool_call to_str (chat_tool_call_value t) = Inr (call_events 0 t)"
  by (simp_all add: chat_tool_call_value_def check_index_def complete_chat_tool_call_def json_text_field_def
      str_field_def tool_call_index_def u32_field_def unwrap_or_def Let_def call_events_def opt_event_def)

lemma chat_calls_read_back:
  "complete_chat_calls to_str (map (\<lambda>(_, t). chat_tool_call_value t) ts) = Inr (concat (map (\<lambda>(_, t). call_events 0 t) ts))"
  by (induction ts) (auto simp: chat_call_value_reads_back)

lemma chat_message_calls_value:
  "chat_message_calls to_str (chat_message_value s) = Inr (concat (map (\<lambda>(_, t). call_events 0 t) (b_tools s)))"
  by (cases "b_tools s = []") (simp_all add: chat_message_calls_def chat_message_fields chat_calls_read_back ofilter_def)


text \<open>No event outside the calls is a call event.\<close>

abbreviation callless :: "ir_stream_event list \<Rightarrow> bool" where
  "callless evs \<equiv> list_all (\<lambda>e. \<not> is_call_event e) evs"

lemma filter_callless: "callless evs \<Longrightarrow> filter is_call_event evs = []"
  by (simp add: filter_empty_conv list_all_iff)

lemma filter_calls: "list_all is_call_event evs \<Longrightarrow> filter is_call_event evs = evs"
  by (simp add: list_all_iff)

lemma opt_event_callless: "(\<And>x. \<not> is_call_event (f x)) \<Longrightarrow> callless (opt_event f x)"
  by (cases x) (simp_all add: opt_event_def)

lemma opt_event_id_callless: "(\<And>e. x = Some e \<Longrightarrow> \<not> is_call_event e) \<Longrightarrow> callless (opt_event id x)"
  by (cases x) (simp_all add: opt_event_def)

lemma image_event_callless: "image_event_from_part p = Some e \<Longrightarrow> \<not> is_call_event e"
  by (auto simp: image_event_from_part_def Let_def split: if_splits option.splits prod.splits)

lemma content_events_callless: "callless (content_events c)"
proof -
  have "callless (content_loop parts t)" for parts t
    by (induction parts arbitrary: t)
      (auto simp: text_events_def unwrap_or_def protocol_def dest: image_event_callless split: option.split)
  then show ?thesis by (cases c) (simp_all add: content_events_def ofilter_def)
qed

lemma audio_events_callless: "callless (audio_events d)"
  by (auto simp: audio_events_def audio_identity_events_def opt_event_callless split: option.split)

lemma annotations_callless: "callless (map (\<lambda>a. AnnotationAdded (f a)) anns)"
  by (induction anns) simp_all

lemma chat_message_leaves_callless: "callless (chat_message_leaves m)"
  by (auto simp: chat_message_leaves_def opt_event_callless content_events_callless audio_events_callless
      annotations_callless split: option.split)

text \<open>The slots of a body say nothing and make no call.\<close>

abbreviation silent :: "ir_stream_event list \<Rightarrow> bool" where
  "silent evs \<equiv> list_all mute evs \<and> callless evs"

lemma silent_option:
  "(\<And>x. mute (f x) \<and> \<not> is_call_event (f x)) \<Longrightarrow> silent (opt_event f x)"
  by (simp add: opt_event_mute opt_event_callless)

lemma silent_option_id:
  "(\<And>e. x = Some e \<Longrightarrow> mute e \<and> \<not> is_call_event e) \<Longrightarrow> silent (opt_event id x)"
  by (simp add: opt_event_id_mute opt_event_id_callless)

lemma silent_append: "silent xs \<Longrightarrow> silent ys \<Longrightarrow> silent (xs @ ys)"
  by simp

lemma chat_body_slots_silent: "silent (chat_body_slots v)"
  unfolding chat_body_slots_def
  by (intro silent_append silent_option silent_option_id)
    (auto simp: trimmed_protocol_def completion_id_event_def system_fingerprint_event_def moderation_event_def Let_def
      split: option.splits if_splits)

lemma chat_choice_tail_silent:
  "silent (opt_event id (chat_logprobs_event c) @ opt_event id (finish_of c))"
  by (intro silent_append silent_option_id)
    (auto simp: chat_logprobs_event_def finish_of_def Let_def split: option.splits if_splits)

lemma usage_events_silent: "silent (usage_events v)"
  by (auto simp: usage_events_def from_chat_def chat_prediction_token_events_def Let_def split: option.split)

lemma chat_body_read_back:
  "\<exists>out. decode_chat_complete to_str (encode_chat_complete evs model) = Inr out \<and> all_said out = all_said evs
     \<and> filter is_call_event out = concat (map (\<lambda>(_, t). call_events 0 t) (calls_of evs))"
proof -
  define s where "s = chat_collect evs"
  define c where "c = chat_choice_value s"
  define calls where "calls = concat (map (\<lambda>(_, t). call_events 0 t) (b_tools s))"
  define tails where "tails = opt_event id (chat_logprobs_event c) @ opt_event id (finish_of c)"
  define v where "v = chat_body_value model s"
  let ?leaves = "chat_message_leaves (chat_message_value s)"
  have d: "decode_chat_complete to_str (encode_chat_complete evs model)
      = Inr (chat_body_slots v @ (?leaves @ calls @ tails) @ usage_events v)"
    by (simp add: encode_chat_complete_def decode_chat_complete_def chat_body_no_error first_choice_def
        chat_body_fields chat_choice_events_def chat_message_calls_value calls_def tails_def c_def v_def flip: s_def)
  have calls: "list_all mute calls" "list_all is_call_event calls"
    by (auto simp: calls_def list_all_iff dest: call_events_said [unfolded list_all_iff, THEN bspec] split: prod.splits)
  have silent: "silent (chat_body_slots v)" "silent tails" "silent (usage_events v)"
    by (simp_all only: chat_body_slots_silent usage_events_silent tails_def chat_choice_tail_silent)
  note [simp] = mute_says [OF silent(1) [THEN conjunct1]] mute_says [OF silent(2) [THEN conjunct1]]
    mute_says [OF silent(3) [THEN conjunct1]] mute_says [OF calls(1)]
    filter_callless [OF silent(1) [THEN conjunct2]] filter_callless [OF silent(2) [THEN conjunct2]]
    filter_callless [OF silent(3) [THEN conjunct2]] filter_calls [OF calls(2)]
    filter_callless [OF chat_message_leaves_callless]
  show ?thesis
    unfolding d
    by (simp add: all_said_def chat_message_leaves_said)
      (simp add: calls_def s_def chat_collect_says)
qed

lemma chat_body_says:
  "\<exists>out. decode_chat_complete to_str (encode_chat_complete evs model) = Inr out \<and> all_said out = all_said evs"
  using chat_body_read_back by blast

text \<open>C19. A complete chat body always decodes, and it says what the events said: the same text, refusal and reasoning, and
  the same calls, each with its id, name and argument text.
\<close>

theorem chat_body_round_trip:
  "\<exists>out. decode_chat_complete to_str (encode_chat_complete evs model) = Inr out \<and> all_said out = all_said evs
     \<and> filter is_call_event out = concat (map (\<lambda>(_, t). call_events 0 t) (calls_of evs))"
  by (rule chat_body_read_back)

end
