(* ===== verification/Wm_Complete_Messages.thy ===== *)
theory Wm_Complete_Messages
  imports Wm_Complete
begin

text \<open>
  A complete Messages body read back. The body has a place for every text, refusal and reasoning byte and for every
  call whose arguments are JSON text; what it writes in the place of a text, thinking or call block is only what the
  events said when no raw block of those kinds is among them (\<open>messages_body_keeps\<close>).
\<close>

section \<open>The loop\<close>

definition messages_body_keeps :: "ir_stream_event \<Rightarrow> bool" where
  "messages_body_keeps ev =
     (case ev of
        AudioTranscriptDelta _ \<Rightarrow> False
      | Protocol ity p \<Rightarrow> messages_content_block ity p \<longrightarrow> ity \<notin> {''text'', ''thinking'', ''tool_use''}
      | _ \<Rightarrow> True)"

text \<open>The text of a block, and the blocks that are neither thinking nor a call.\<close>

definition block_text :: "json \<Rightarrow> string" where
  "block_text b = (if has_type ''text'' b then unwrap_or (str_field b ''text'') [] else [])"

definition plain_block :: "json \<Rightarrow> bool" where
  "plain_block b = (\<exists>ty. Option.bind (jget b ''type'') as_str = Some ty \<and> ty \<notin> {''thinking'', ''tool_use''})"

definition messages_text_of :: "messages_body \<Rightarrow> string" where
  "messages_text_of s = concat (map block_text (mb_images s)) @ b_text s"

lemma chat_text_part_block [simp]:
  "block_text (chat_text_part t) = t" "plain_block (chat_text_part t)"
  by (simp_all add: block_text_def plain_block_def has_type_def str_field_def chat_text_part_def unwrap_or_def)

lemma messages_image_block [simp]:
  "block_text (messages_image_value m d) = []" "plain_block (messages_image_value m d)"
  by (simp_all add: block_text_def plain_block_def has_type_def messages_image_value_def)

lemma flushed_blocks:
  "concat (map block_text (flushed chat_text_part t bs)) = concat (map block_text bs) @ t"
  "list_all plain_block (flushed chat_text_part t bs) = list_all plain_block bs"
  by (simp_all add: flushed_def)

lemma mb_images_frame [simp]:
  "mb_images (b_start i id' n c g s) = mb_images s" "mb_images (b_arg i d s) = mb_images s"
  by (simp_all add: b_start_def b_arg_def split: prod.split)

lemma content_block_kept:
  assumes "messages_content_block t p" "t \<notin> {''text'', ''thinking'', ''tool_use''}"
  shows "block_text p = []" "plain_block p"
  using assms by (auto simp: messages_content_block_def block_text_def plain_block_def has_type_def split: if_splits)

lemma messages_body_protocol_frame:
  assumes "messages_content_block t p \<longrightarrow> t \<notin> {''text'', ''thinking'', ''tool_use''}"
  shows "messages_text_of (messages_body_protocol t p s) = messages_text_of s"
    "b_refusal (messages_body_protocol t p s) = b_refusal s"
    "b_reasoning (messages_body_protocol t p s) = b_reasoning s"
    "b_open (messages_body_protocol t p s) = b_open s" "b_done (messages_body_protocol t p s) = b_done s"
    "list_all plain_block (mb_images (messages_body_protocol t p s)) = list_all plain_block (mb_images s)"
  using assms content_block_kept [of t p]
  by (auto simp: messages_body_protocol_def messages_text_of_def flushed_blocks split: option.split)

lemma messages_body_step_says:
  assumes "messages_body_keeps e"
  shows "messages_text_of (messages_body_step e s) = messages_text_of s @ ev_text e"
    "b_refusal (messages_body_step e s) = b_refusal s @ ev_refusal e"
    "b_reasoning (messages_body_step e s) = b_reasoning s @ ev_reasoning e"
    "(b_open (messages_body_step e s), b_done (messages_body_step e s)) = tool_step e (b_open s, b_done s)"
    "list_all plain_block (mb_images (messages_body_step e s)) = list_all plain_block (mb_images s)"
  using assms
  by (cases e; simp add: messages_body_keeps_def messages_body_protocol_frame; simp add: messages_text_of_def flushed_blocks)+

lemma messages_fold_says:
  assumes "list_all messages_body_keeps evs"
  shows "messages_text_of (fold messages_body_step evs s) = messages_text_of s @ texts evs"
    "b_refusal (fold messages_body_step evs s) = b_refusal s @ refusals evs"
    "b_reasoning (fold messages_body_step evs s) = b_reasoning s @ reasonings evs"
    "(b_open (fold messages_body_step evs s), b_done (fold messages_body_step evs s)) = fold tool_step evs (b_open s, b_done s)"
    "list_all plain_block (mb_images (fold messages_body_step evs s)) = list_all plain_block (mb_images s)"
  using assms by (induction evs arbitrary: s) (simp_all add: messages_body_step_says)

lemma messages_collect_says:
  assumes "list_all messages_body_keeps evs"
  shows "messages_text_of (messages_collect evs) = texts evs" "b_refusal (messages_collect evs) = refusals evs"
    "b_reasoning (messages_collect evs) = reasonings evs" "b_tools (messages_collect evs) = calls_of evs"
    "list_all plain_block (mb_images (messages_collect evs))"
proof -
  note f = messages_fold_says [OF assms, of messages_body_init, folded messages_collect_def]
  show "messages_text_of (messages_collect evs) = texts evs" "b_refusal (messages_collect evs) = refusals evs"
    "b_reasoning (messages_collect evs) = reasonings evs" "list_all plain_block (mb_images (messages_collect evs))"
    using f(1,2,3,5) by (simp_all add: messages_body_init_def messages_text_of_def)
  have "(b_open (messages_collect evs), b_done (messages_collect evs)) = fold tool_step evs ([], [])"
    using f(4) by (simp add: messages_body_init_def)
  from this [symmetric] show "b_tools (messages_collect evs) = calls_of evs"
    by (simp add: b_tools_def calls_of_def)
qed

section \<open>Citations keep the text\<close>

lemma change_first_keeps:
  assumes "change_first p f xs = Some ys" "\<And>x. p x \<Longrightarrow> g (f x) = g x"
  shows "map g ys = map g xs"
  using assms by (induction xs arbitrary: ys) (auto split: if_splits)

lemma has_type_object: "has_type t b \<Longrightarrow> is_object b"
  by (cases b) (auto simp: has_type_def)

lemma typed_jinsert:
  assumes "is_object b" "k \<noteq> ''type''" "k \<noteq> ''text''"
  shows "block_text (jinsert k v b) = block_text b" "plain_block (jinsert k v b) = plain_block b"
  using assms by (simp_all add: block_text_def plain_block_def has_type_def str_field_def jget_jinsert_obj)

lemma messages_cited_keeps:
  "concat (map block_text (messages_cited cs bs)) = concat (map block_text bs)"
  "list_all plain_block bs \<Longrightarrow> list_all plain_block (messages_cited cs bs)"
proof -
  let ?f = "jinsert ''citations'' (JArray cs)"
  have m: "map (\<lambda>b. (block_text b, plain_block b)) ys = map (\<lambda>b. (block_text b, plain_block b)) bs"
    if "change_first (has_type ''text'') ?f bs = Some ys" for ys
    using that by (rule change_first_keeps) (simp add: typed_jinsert has_type_object)
  have m1: "map block_text ys = map block_text bs" "map plain_block ys = map plain_block bs"
    if "change_first (has_type ''text'') ?f bs = Some ys" for ys
    using m [OF that, THEN arg_cong [of _ _ "map fst"]] m [OF that, THEN arg_cong [of _ _ "map snd"]]
    by (simp_all add: comp_def)
  have l: "list_all plain_block xs \<longleftrightarrow> list_all id (map plain_block xs)" for xs
    by (induction xs) simp_all
  let ?new = "json_obj [(''type'', JString ''text''), (''text'', JString []), (''citations'', JArray cs)]"
  have n: "block_text ?new = []" "plain_block ?new"
    by (simp_all add: block_text_def plain_block_def has_type_def str_field_def unwrap_or_def)
  show "concat (map block_text (messages_cited cs bs)) = concat (map block_text bs)"
    using m1(1) n by (auto simp: messages_cited_def unwrap_or_def split: option.split)
  show "list_all plain_block (messages_cited cs bs)" if "list_all plain_block bs"
    using that m1(2) n by (auto simp: messages_cited_def unwrap_or_def l split: option.split)
qed


section \<open>The blocks read back\<close>

lemma citation_events_silent: "silent (concat (map citation_events cs))"
proof (induction cs)
  case (Cons c cs)
  have "silent (citation_events c)"
    by (simp add: citation_events_def split: option.split)
  with Cons show ?case by simp
qed simp

lemma image_delta_mute:
  "image_delta_from_block b = Some e \<Longrightarrow> mute e \<and> \<not> is_call_event e"
  by (auto simp: image_delta_from_block_def Let_def split: option.splits if_splits)

lemma plain_block_events:
  assumes "plain_block b"
  shows "snd (messages_block_events to_str b i) = i" "texts (fst (messages_block_events to_str b i)) = block_text b"
    "refusals (fst (messages_block_events to_str b i)) = []" "reasonings (fst (messages_block_events to_str b i)) = []"
    "callless (fst (messages_block_events to_str b i))"
proof -
  obtain ty where ty: "Option.bind (jget b ''type'') as_str = Some ty" "ty \<noteq> ''thinking''" "ty \<noteq> ''tool_use''"
    using assms by (auto simp: plain_block_def)
  note [simp] = mute_says [OF citation_events_silent [THEN conjunct1]] citation_events_silent [THEN conjunct2]
  have c: "callless (opt_event TextDelta x)" for x
    by (simp add: opt_event_callless)
  have e: "ev_text e = []" "ev_refusal e = []" "ev_reasoning e = []" "\<not> is_call_event e"
    if "image_delta_from_block b = Some e" for e
    using image_delta_mute [OF that] by (simp_all add: mute_def)
  have u: "unwrap_or (nonempty_field b ''text'') [] = unwrap_or (str_field b ''text'') []"
    by (cases "str_field b ''text''") (auto simp: nonempty_field_def ofilter_def unwrap_or_def)
  show "snd (messages_block_events to_str b i) = i" "texts (fst (messages_block_events to_str b i)) = block_text b"
    "refusals (fst (messages_block_events to_str b i)) = []" "reasonings (fst (messages_block_events to_str b i)) = []"
    "callless (fst (messages_block_events to_str b i))"
    using ty by (auto simp: messages_block_events_def block_text_def has_type_def opt_event_text c e u split: option.split)
qed

lemma plain_blocks_said:
  assumes "list_all plain_block bs"
  shows "messages_blocks_events to_str (bs @ cs) i = messages_blocks_events to_str bs i @ messages_blocks_events to_str cs i
     \<and> texts (messages_blocks_events to_str bs i) = concat (map block_text bs)
     \<and> refusals (messages_blocks_events to_str bs i) = [] \<and> reasonings (messages_blocks_events to_str bs i) = []
     \<and> callless (messages_blocks_events to_str bs i)"
  using assms
proof (induction bs)
  case (Cons b bs)
  then have "plain_block b" by simp
  note p = plain_block_events [OF this, of to_str i]
  have "messages_block_events to_str b i = (fst (messages_block_events to_str b i), i)"
    using p(1) by (metis prod.collapse)
  then have "messages_blocks_events to_str (b # ds) i
      = fst (messages_block_events to_str b i) @ messages_blocks_events to_str ds i" for ds
    by (metis (no_types, lifting) case_prod_conv messages_blocks_events.simps(2))
  with Cons p show ?case by simp
qed simp

lemmas plain_blocks_events = plain_blocks_said [THEN conjunct1] plain_blocks_said [THEN conjunct2, THEN conjunct1]
  plain_blocks_said [THEN conjunct2, THEN conjunct2, THEN conjunct1]
  plain_blocks_said [THEN conjunct2, THEN conjunct2, THEN conjunct2, THEN conjunct1]
  plain_blocks_said [THEN conjunct2, THEN conjunct2, THEN conjunct2, THEN conjunct2]

subsection \<open>Calls\<close>

lemma tool_use_block:
  "\<exists>out i'. messages_block_events to_str (messages_tool_use_value parse t) i = (out, i') \<and> list_all mute out"
  by (auto simp: messages_block_events_def messages_tool_use_value_def opt_event_mute)

lemma tool_use_blocks_mute:
  "list_all mute (messages_blocks_events to_str (map (\<lambda>(_, t). messages_tool_use_value parse t) ts) i)"
proof (induction ts arbitrary: i)
  case (Cons p ts)
  obtain k t where p: "p = (k, t)" by (cases p)
  obtain out i' where "messages_block_events to_str (messages_tool_use_value parse t) i = (out, i')" "list_all mute out"
    using tool_use_block by blast
  with Cons.IH [of i'] show ?case by (simp add: p)
qed simp

text \<open>A call whose argument text is compact JSON other than \<open>null\<close> comes back with that text.\<close>

definition json_call :: "(string \<Rightarrow> json option) \<Rightarrow> (json \<Rightarrow> string) \<Rightarrow> indexed_tool \<Rightarrow> bool" where
  "json_call parse to_str t =
     (\<not> it_custom t \<and> it_args t \<noteq> [] \<and> (it_id t \<noteq> [] \<or> it_name t \<noteq> [])
      \<and> (case parse (it_args t) of None \<Rightarrow> False | Some v \<Rightarrow> \<not> is_null v \<and> to_str v = it_args t))"

text \<open>The calls numbered in the order of the body.\<close>

fun call_run :: "u32 \<Rightarrow> tool_slots \<Rightarrow> ir_stream_event list" where
  "call_run i [] = []"
| "call_run i ((_, t) # ts) = call_events i t @ call_run (saturating_add i 1) ts"

lemma numbered_calls: "list_all is_call_event (call_run i ts)" "list_all mute (call_run i ts)"
  by (induction i ts rule: call_run.induct) simp_all

lemma json_call_block:
  assumes "json_call parse to_str t"
  shows "messages_block_events to_str (messages_tool_use_value parse t) i = (call_events i t, saturating_add i 1)"
proof -
  obtain v where v: "parse (it_args t) = Some v" "\<not> is_null v" "to_str v = it_args t"
    using assms by (auto simp: json_call_def split: option.splits)
  have "messages_tool_block_visible (messages_tool_use_value parse t)"
    using assms by (auto simp: json_call_def messages_tool_block_visible_def tool_call_visible_def nonempty_str_def
        messages_tool_use_value_def)
  then show ?thesis
    using assms v by (simp add: messages_block_events_def messages_tool_use_value_def json_call_def call_events_def
        str_field_def unwrap_or_def ofilter_def opt_event_def)
qed

lemma json_calls_blocks:
  assumes "list_all (json_call parse to_str \<circ> snd) ts"
  shows "messages_blocks_events to_str (map (\<lambda>(_, t). messages_tool_use_value parse t) ts) i = call_run i ts"
  using assms by (induction ts arbitrary: i) (auto simp: json_call_block)


section \<open>The body read back\<close>

lemma stop_value_fields:
  assumes "is_object out"
  shows "is_object (messages_stop_value s out)"
    "k \<notin> {''stop_reason'', ''stop_details''} \<Longrightarrow> jget (messages_stop_value s out) k = jget out k"
    "jget out ''stop_details'' = None \<Longrightarrow> jget (messages_stop_value s out) ''stop_details'' =
       (if b_refusal s = [] then None
        else Some (json_obj [(''type'', JString ''refusal''), (''explanation'', JString (b_refusal s))]))"
  using assms by (auto simp: messages_stop_value_def Let_def jget_set_opt_same jget_jinsert_obj)

lemma tier_value_fields:
  assumes "is_object out"
  shows "is_object (messages_tier_value t out)"
    "k \<noteq> ''usage'' \<Longrightarrow> jget (messages_tier_value t out) k = jget out k"
  using assms by (auto simp: messages_tier_value_def Let_def jget_jinsert_obj split: option.split)

lemma messages_body_fields:
  "jget (messages_body_value parse m s) ''content'' = Some (JArray (messages_content_value parse s))"
  "jget (messages_body_value parse m s) ''error'' = None"
  "jget (messages_body_value parse m s) ''stop_details'' =
     (if b_refusal s = [] then None
      else Some (json_obj [(''type'', JString ''refusal''), (''explanation'', JString (b_refusal s))]))"
  by (simp_all add: messages_body_value_def Let_def jget_set_opt_same tier_value_fields stop_value_fields)

lemma messages_body_object [simp]: "is_object (messages_body_value parse m s)"
  by (simp add: messages_body_value_def Let_def tier_value_fields stop_value_fields)

lemma messages_body_no_error: "plain_error_detail (messages_body_value parse m s) = None"
  by (simp add: plain_error_detail_def json_string_error_def messages_body_fields ofilter_def)

lemma messages_thinking_events:
  "messages_blocks_events to_str (messages_thinking s @ bs) i =
     messages_blocks_events to_str (messages_thinking s) i @ messages_blocks_events to_str bs i"
  "texts (messages_blocks_events to_str (messages_thinking s) i) = []"
  "refusals (messages_blocks_events to_str (messages_thinking s) i) = []"
  "reasonings (messages_blocks_events to_str (messages_thinking s) i) = b_reasoning s"
  "callless (messages_blocks_events to_str (messages_thinking s) i)"
proof -
  define b where "b = set_opt ''signature'' (map_option JString (b_signature s))
      (json_obj [(''type'', JString ''thinking''), (''thinking'', JString (b_reasoning s))])"
  have f: "jget b ''type'' = Some (JString ''thinking'')" "jget b ''thinking'' = Some (JString (b_reasoning s))"
    by (simp_all add: b_def jget_set_opt_same)
  define out where "out = opt_event ReasoningDelta (nonempty_field b ''thinking'')
      @ opt_event ReasoningSignature (nonempty_field b ''signature'')"
  have b: "messages_block_events to_str b i = (out, i)"
    by (simp add: messages_block_events_def f out_def)
  note [simp] = mute_says [OF opt_event_mute [of ReasoningSignature]]
  have o: "texts out = []" "refusals out = []" "reasonings out = b_reasoning s" "callless out"
    by (simp_all add: out_def opt_event_text opt_event_callless nonempty_field_def str_field_def f ofilter_def
        unwrap_or_def)
  have t: "messages_thinking s = (if b_reasoning s = [] \<and> b_signature s = None then [] else [b])"
    by (simp add: messages_thinking_def b_def)
  show "messages_blocks_events to_str (messages_thinking s @ bs) i =
      messages_blocks_events to_str (messages_thinking s) i @ messages_blocks_events to_str bs i"
    "texts (messages_blocks_events to_str (messages_thinking s) i) = []"
    "refusals (messages_blocks_events to_str (messages_thinking s) i) = []"
    "reasonings (messages_blocks_events to_str (messages_thinking s) i) = b_reasoning s"
    "callless (messages_blocks_events to_str (messages_thinking s) i)"
    by (simp_all add: t b o)
qed

lemma messages_slots_said:
  "texts (messages_body_slots (messages_body_value parse m s)) = []"
  "refusals (messages_body_slots (messages_body_value parse m s)) = b_refusal s"
  "reasonings (messages_body_slots (messages_body_value parse m s)) = []"
  "callless (messages_body_slots v)"
proof -
  have u: "silent (messages_body_usage v)" for v
    by (auto simp: messages_body_usage_def from_anthropic_def messages_web_search_events_def
        messages_cache_creation_events_def opt_event_mute opt_event_callless Let_def split: option.split)
  have e: "nonempty_str_opt (pointer (messages_body_value parse m s) [''stop_details'', ''explanation''])
      = (if b_refusal s = [] then None else Some (b_refusal s))"
    by (simp add: step_pointer_object messages_body_fields nonempty_str_opt_def ofilter_def)
  note [simp] = mute_says [OF u [THEN conjunct1]] u [THEN conjunct2] mute_says [OF opt_event_mute] opt_event_callless
  show "texts (messages_body_slots (messages_body_value parse m s)) = []"
    "refusals (messages_body_slots (messages_body_value parse m s)) = b_refusal s"
    "reasonings (messages_body_slots (messages_body_value parse m s)) = []"
    "callless (messages_body_slots v)"
    by (simp_all add: messages_body_slots_def opt_event_text e [simplified] unwrap_or_def)
qed

lemma messages_body_read_back:
  assumes "list_all messages_body_keeps evs"
  shows "\<exists>out. decode_messages_complete to_str (encode_messages_complete parse evs model) = Inr out
     \<and> all_said out = all_said evs
     \<and> (list_all (json_call parse to_str \<circ> snd) (calls_of evs) \<longrightarrow> filter is_call_event out = call_run 0 (calls_of evs))"
proof -
  define s where "s = messages_collect evs"
  define v where "v = messages_body_value parse model s"
  note collected = messages_collect_says [OF assms, folded s_def]
  define plain where "plain = messages_cited (mb_citations s) (flushed chat_text_part (b_text s) (mb_images s))"
  define tools where "tools = map (\<lambda>(_, t). messages_tool_use_value parse t) (b_tools s)"
  define think where "think = messages_blocks_events to_str (messages_thinking s) 0"
  define calls where "calls = messages_blocks_events to_str tools 0"
  have pl: "list_all plain_block plain"
    unfolding plain_def by (rule messages_cited_keeps) (simp add: flushed_blocks collected)
  have plain_text: "concat (map block_text plain) = messages_text_of s"
    by (simp add: plain_def messages_cited_keeps flushed_blocks messages_text_of_def)
  have blocks: "messages_blocks_events to_str (messages_content_value parse s) 0
      = think @ messages_blocks_events to_str plain 0 @ calls"
    by (simp add: messages_content_value_def messages_thinking_events plain_blocks_events(1) [OF pl] think_def calls_def
        flip: plain_def tools_def)
  have d: "decode_messages_complete to_str (encode_messages_complete parse evs model)
      = Inr ((think @ messages_blocks_events to_str plain 0 @ calls) @ messages_body_slots v)"
    by (simp add: encode_messages_complete_def decode_messages_complete_def messages_body_fields
        messages_body_no_error Let_def blocks unwrap_or_def v_def flip: s_def)
  have calls_mute: "list_all mute calls"
    unfolding calls_def tools_def by (rule tool_use_blocks_mute)
  have calls_same: "calls = call_run 0 (b_tools s)" if "list_all (json_call parse to_str \<circ> snd) (b_tools s)"
    unfolding calls_def tools_def by (rule json_calls_blocks [OF that])
  note [simp] = plain_blocks_events(2-5) [OF pl] mute_says [OF calls_mute] messages_thinking_events(2-5) [folded think_def]
    filter_callless
  show ?thesis
    unfolding d
    by (intro exI conjI impI, rule refl)
      (auto simp: all_said_def messages_slots_said v_def plain_text collected messages_thinking_events think_def
        filter_calls numbered_calls dest: calls_same [unfolded collected])
qed

lemma messages_body_says:
  assumes "list_all messages_body_keeps evs"
  shows "\<exists>out. decode_messages_complete to_str (encode_messages_complete parse evs model) = Inr out \<and> all_said out = all_said evs"
  using messages_body_read_back [OF assms] by blast

text \<open>C18. A complete Messages body built from events it has a place for always decodes, and it says what they said; when the
  arguments of every call are compact JSON text, it makes the same calls with the same ids, names and arguments.
\<close>

theorem messages_body_round_trip:
  assumes "list_all messages_body_keeps evs"
  shows "\<exists>out. decode_messages_complete to_str (encode_messages_complete parse evs model) = Inr out
     \<and> all_said out = all_said evs
     \<and> (list_all (json_call parse to_str \<circ> snd) (calls_of evs) \<longrightarrow> filter is_call_event out = call_run 0 (calls_of evs))"
  using assms by (rule messages_body_read_back)


theorem messages_body_round_trip_witness:
  "\<exists>out. decode_messages_complete (\<lambda>_. ''{}'') (encode_messages_complete (\<lambda>_. Some (JObject []))
       [TextDelta ''hi'', ToolCallStart ''c'' ''f'' None 7, ToolCallArgDelta ''{}'' 7] []) = Inr out
     \<and> all_said out = (''hi'', [], [])
     \<and> filter is_call_event out = [ToolCallStart ''c'' ''f'' None 0, ToolCallArgDelta ''{}'' 0, ToolCallEnd]"
proof -
  let ?evs = "[TextDelta ''hi'', ToolCallStart ''c'' ''f'' None 7, ToolCallArgDelta ''{}'' 7]"
  have c: "calls_of ?evs = [(7, \<lparr>it_id = ''c'', it_name = ''f'', it_args = ''{}'', it_custom = False, it_signature = None\<rparr>)]"
    by code_simp
  have k: "list_all messages_body_keeps ?evs"
    by (simp add: messages_body_keeps_def)
  show ?thesis
    using messages_body_round_trip [OF k, of "\<lambda>_. ''{}''" "\<lambda>_. Some (JObject [])" "[]"]
    by (simp add: c json_call_def call_events_def all_said_def)
qed

end
