(* ===== verification/Wm_Complete_Responses.thy ===== *)
theory Wm_Complete_Responses
  imports Wm_Complete_Messages
begin

text \<open>
  A complete Responses body read back. The decoder first reads the body as the terminal frame of a stream
  (\<open>decode_stream_events\<close>), then splices the events of its output items in before the finish.
\<close>

section \<open>The loop\<close>

definition decomposed_items :: "string set" where
  "decomposed_items = {''message'', ''function_call'', ''custom_tool_call'', ''reasoning'', ''output_audio''}"

definition responses_body_keeps :: "ir_stream_event \<Rightarrow> bool" where
  "responses_body_keeps ev =
     (case ev of Protocol ity p \<Rightarrow> responses_output_item ity p \<longrightarrow> ity \<notin> decomposed_items | _ \<Rightarrow> True)"

definition part_says :: "json \<Rightarrow> string" where
  "part_says p = (if has_type ''output_text'' p then unwrap_or (str_field p ''text'') [] else [])"

definition content_part :: "json \<Rightarrow> bool" where
  "content_part p = (is_object p \<and> (has_type ''output_text'' p \<or> has_type ''output_image'' p))"

definition hosted_item :: "json \<Rightarrow> bool" where
  "hosted_item p = (\<exists>ty. Option.bind (jget p ''type'') as_str = Some ty \<and> ty \<notin> decomposed_items)"

definition responses_text_of :: "responses_body \<Rightarrow> string" where
  "responses_text_of s = concat (map part_says (rb_images s)) @ b_text s"

definition responses_collected_ok :: "responses_body \<Rightarrow> bool" where
  "responses_collected_ok s =
     (list_all content_part (rb_images s) \<and> list_all hosted_item (rb_replay s) \<and> \<not> rb_saw_reasoning s
      \<and> (\<forall>t. rb_id s = Some t \<longrightarrow> trim t \<noteq> []))"

lemma output_text_part_says [simp]:
  "part_says (output_text_part t) = t" "content_part (output_text_part t)"
  by (simp_all add: part_says_def content_part_def has_type_def str_field_def output_text_part_def unwrap_or_def)

lemma output_image_part_says [simp]:
  "part_says (output_image_part m d) = []" "content_part (output_image_part m d)"
  by (simp_all add: part_says_def content_part_def has_type_def output_image_part_def)

lemma flushed_parts:
  "concat (map part_says (flushed output_text_part t ps)) = concat (map part_says ps) @ t"
  "list_all content_part (flushed output_text_part t ps) = list_all content_part ps"
  by (simp_all add: flushed_def)

lemma rb_frame [simp]:
  "rb_images (b_start i id' n c g s) = rb_images s" "rb_images (b_arg i d s) = rb_images s"
  "rb_replay (b_start i id' n c g s) = rb_replay s" "rb_replay (b_arg i d s) = rb_replay s"
  "rb_saw_reasoning (b_start i id' n c g s) = rb_saw_reasoning s" "rb_saw_reasoning (b_arg i d s) = rb_saw_reasoning s"
  "rb_id (b_start i id' n c g s) = rb_id s" "rb_id (b_arg i d s) = rb_id s"
  by (simp_all add: b_start_def b_arg_def split: prod.split)

lemma output_item_hosted:
  "responses_output_item t p \<Longrightarrow> t \<notin> decomposed_items \<Longrightarrow> hosted_item p \<and> t \<noteq> ''reasoning''"
  by (auto simp: responses_output_item_def hosted_item_def decomposed_items_def split: if_splits)

lemma solid_text_trim: "solid_text p = Some t \<Longrightarrow> trim t \<noteq> []"
  by (auto simp: solid_text_def ofilter_def split: option.splits if_splits)

lemma or_else_solid: "(\<forall>t. old = Some t \<longrightarrow> trim t \<noteq> []) \<Longrightarrow> or_else (solid_text p) old = Some t \<Longrightarrow> trim t \<noteq> []"
  by (cases "solid_text p") (auto dest: solid_text_trim)

lemma responses_body_note_frame:
  "responses_text_of (responses_body_note t p s) = responses_text_of s"
  "b_refusal (responses_body_note t p s) = b_refusal s" "b_reasoning (responses_body_note t p s) = b_reasoning s"
  "b_open (responses_body_note t p s) = b_open s" "b_done (responses_body_note t p s) = b_done s"
  by (simp_all add: responses_body_note_def responses_text_of_def Let_def)

lemma responses_body_protocol_frame:
  "responses_text_of (responses_body_protocol t p s) = responses_text_of s"
  "b_refusal (responses_body_protocol t p s) = b_refusal s"
  "b_reasoning (responses_body_protocol t p s) = b_reasoning s"
  "b_open (responses_body_protocol t p s) = b_open s" "b_done (responses_body_protocol t p s) = b_done s"
  using responses_body_note_frame [of t p s]
  by (cases "tool_extra_from_protocol t p"; force simp: responses_body_protocol_def responses_text_of_def)+

lemma responses_body_note_fields:
  "rb_images (responses_body_note t p s) = rb_images s"
  "rb_id (responses_body_note t p s) = (if t = ''responses_id'' then or_else (solid_text p) (rb_id s) else rb_id s)"
  "(rb_replay (responses_body_note t p s) = rb_replay s \<and> rb_saw_reasoning (responses_body_note t p s) = rb_saw_reasoning s)
   \<or> (responses_output_item t p \<and> rb_replay (responses_body_note t p s) = rb_replay s @ [p]
      \<and> rb_saw_reasoning (responses_body_note t p s) = (rb_saw_reasoning s \<or> t = ''reasoning''))"
  by (simp_all add: responses_body_note_def Let_def)

lemma responses_body_note_ok:
  assumes "responses_output_item t p \<longrightarrow> t \<notin> decomposed_items" "responses_collected_ok s"
  shows "responses_collected_ok (responses_body_note t p s)"
proof -
  have "list_all hosted_item (rb_replay (responses_body_note t p s)) \<and> \<not> rb_saw_reasoning (responses_body_note t p s)"
    using responses_body_note_fields(3) [of t p s] assms output_item_hosted [of t p]
    by (auto simp: responses_collected_ok_def)
  moreover have "trim u \<noteq> []" if "rb_id (responses_body_note t p s) = Some u" for u
    using that assms(2) or_else_solid [of "rb_id s" p u]
    by (auto simp: responses_body_note_fields(2) responses_collected_ok_def split: if_splits)
  ultimately show ?thesis
    using assms(2) by (simp add: responses_collected_ok_def responses_body_note_fields(1))
qed

lemma responses_body_step_says:
  "responses_text_of (responses_body_step e s) = responses_text_of s @ ev_text e"
  "b_refusal (responses_body_step e s) = b_refusal s @ ev_refusal e"
  "b_reasoning (responses_body_step e s) = b_reasoning s @ ev_reasoning e"
  "(b_open (responses_body_step e s), b_done (responses_body_step e s)) = tool_step e (b_open s, b_done s)"
  by (cases e; simp add: responses_body_protocol_frame; simp add: responses_text_of_def flushed_parts)+

lemma responses_body_step_ok:
  assumes "responses_body_keeps e" "responses_collected_ok s"
  shows "responses_collected_ok (responses_body_step e s)"
proof (cases e)
  case (Protocol t p)
  then show ?thesis
    using assms responses_body_note_ok [of t p s]
    by (cases "tool_extra_from_protocol t p")
      (auto simp: responses_body_keeps_def responses_body_protocol_def responses_collected_ok_def)
qed (use assms in \<open>simp_all add: responses_collected_ok_def flushed_parts\<close>)

lemma responses_fold_says:
  "responses_text_of (fold responses_body_step evs s) = responses_text_of s @ texts evs"
  "b_refusal (fold responses_body_step evs s) = b_refusal s @ refusals evs"
  "b_reasoning (fold responses_body_step evs s) = b_reasoning s @ reasonings evs"
  "(b_open (fold responses_body_step evs s), b_done (fold responses_body_step evs s)) = fold tool_step evs (b_open s, b_done s)"
  by (induction evs arbitrary: s) (simp_all add: responses_body_step_says)

lemma responses_fold_ok:
  "list_all responses_body_keeps evs \<Longrightarrow> responses_collected_ok s \<Longrightarrow> responses_collected_ok (fold responses_body_step evs s)"
  by (induction evs arbitrary: s) (simp_all add: responses_body_step_ok)

lemma responses_collect_says:
  "responses_text_of (responses_collect evs) = texts evs" "b_refusal (responses_collect evs) = refusals evs"
  "b_reasoning (responses_collect evs) = reasonings evs" "b_tools (responses_collect evs) = calls_of evs"
  "list_all responses_body_keeps evs \<Longrightarrow> responses_collected_ok (responses_collect evs)"
proof -
  note f = responses_fold_says [of evs responses_body_init, folded responses_collect_def]
  show "responses_text_of (responses_collect evs) = texts evs" "b_refusal (responses_collect evs) = refusals evs"
    "b_reasoning (responses_collect evs) = reasonings evs"
    using f(1-3) by (simp_all add: responses_body_init_def responses_text_of_def)
  have "(b_open (responses_collect evs), b_done (responses_collect evs)) = fold tool_step evs ([], [])"
    using f(4) by (simp add: responses_body_init_def)
  from this [symmetric] show "b_tools (responses_collect evs) = calls_of evs"
    by (simp add: b_tools_def calls_of_def)
  show "responses_collected_ok (responses_collect evs)" if "list_all responses_body_keeps evs"
    unfolding responses_collect_def
    by (rule responses_fold_ok [OF that]) (simp add: responses_collected_ok_def responses_body_init_def)
qed


section \<open>The output items read back\<close>

lemma item_type: "has_type t v \<longleftrightarrow> Option.bind (jget v ''type'') as_str = Some t"
  by (simp add: has_type_def)

lemma hosted_events:
  assumes "hosted_item p"
  shows "output_item_events to_str p i = Inr ([], i)"
  using assms by (auto simp: hosted_item_def decomposed_items_def output_item_events_def Let_def)

lemma output_items_hosted:
  assumes "list_all hosted_item ps"
  shows "output_items_events to_str (ps @ qs) i = output_items_events to_str qs i"
  using assms
  by (induction ps) (auto simp: hosted_events split: sum.split)

text \<open>An item read without an error, at an unchanged call index.\<close>

lemma output_items_step:
  "output_item_events to_str v i = Inr (out, i') \<Longrightarrow> output_items_events to_str qs i' = Inr out' \<Longrightarrow>
   output_items_events to_str (v # qs) i = Inr (out @ out')"
  by simp

lemma named_event_silent: "silent (named_event t x)"
  by (simp add: named_event_def opt_event_mute opt_event_callless)

lemma reasoning_identity_silent: "silent (reasoning_item_identity_events v)"
  using named_event_silent by (auto simp: reasoning_item_identity_events_def Let_def split: option.split)

lemma message_identity_silent: "silent (message_item_identity_events v)"
  using named_event_silent by (auto simp: message_item_identity_events_def opt_event_mute opt_event_callless)

lemma output_audio_silent: "silent (push_output_audio_events v)"
  by (simp add: push_output_audio_events_def opt_event_mute opt_event_callless)

lemma tool_item_silent: "silent (tool_item_events v i)"
  unfolding tool_item_events_def
  by (intro silent_append silent_option_id)
    (auto simp: tool_item_id_event_def tool_item_caller_event_def tool_item_created_by_event_def
      tool_item_namespace_event_def tool_item_status_event_def split: option.splits prod.splits if_splits)

lemma image_output_mute:
  "image_delta_from_output_image p = Some e \<Longrightarrow> mute e \<and> \<not> is_call_event e"
  by (auto simp: image_delta_from_output_image_def split: option.splits if_splits prod.splits)

lemma annotation_added_silent: "silent (map AnnotationAdded xs)"
  by (induction xs) simp_all

lemma content_part_events:
  assumes "content_part p"
  shows "texts (output_part_events p) = part_says p" "refusals (output_part_events p) = []"
    "reasonings (output_part_events p) = []" "callless (output_part_events p)"
proof -
  have i: "mute (unwrap_or (image_delta_from_output_image p) (Protocol ''output_image'' p))"
    "\<not> is_call_event (unwrap_or (image_delta_from_output_image p) (Protocol ''output_image'' p))"
    using image_output_mute [of p] by (cases "image_delta_from_output_image p"; simp add: unwrap_or_def)+
  have a: "silent (case x of None \<Rightarrow> [] | Some anns \<Rightarrow> map AnnotationAdded (filter is_object anns))" for x
    using annotation_added_silent by (simp split: option.split)
  have u: "unwrap_or (nonempty_field p ''text'') [] = unwrap_or (str_field p ''text'') []"
    by (cases "str_field p ''text''") (auto simp: nonempty_field_def ofilter_def unwrap_or_def)
  note [simp] = mute_says [OF a [THEN conjunct1]] a [THEN conjunct2] mute_says [OF opt_event_mute]
    opt_event_callless opt_event_text i(2) i(1) [unfolded mute_def]
  show "texts (output_part_events p) = part_says p" "refusals (output_part_events p) = []"
    "reasonings (output_part_events p) = []" "callless (output_part_events p)"
    using assms by (auto simp: content_part_def output_part_events_def part_says_def has_type_def u Let_def)
qed

lemma content_parts_events:
  assumes "list_all content_part ps"
  shows "texts (concat (map output_part_events ps)) = concat (map part_says ps)"
    "refusals (concat (map output_part_events ps)) = []" "reasonings (concat (map output_part_events ps)) = []"
    "callless (concat (map output_part_events ps))"
  using assms by (induction ps) (simp_all add: content_part_events)

lemma refusal_part_events:
  "output_part_events (json_obj [(''type'', JString ''refusal''), (''refusal'', JString r)]) = opt_event RefusalDelta (if r = [] then None else Some r)"
  by (simp add: output_part_events_def str_field_def ofilter_def)

text \<open>Annotations and log probabilities are written on the first text part and leave its text alone.\<close>

lemma marked_text_keeps:
  assumes "is_object p"
  shows "part_says (marked_text as ls p) = part_says p" "content_part (marked_text as ls p) = content_part p"
  using assms
  by (simp_all add: part_says_def content_part_def has_type_def str_field_def marked_text_def jget_set_opt_same)

lemma responses_marked_keeps:
  assumes "list_all content_part ps"
  shows "list_all content_part (responses_marked as ls ps)"
    "concat (map part_says (responses_marked as ls ps)) = concat (map part_says ps)"
proof -
  let ?f = "marked_text as ls"
  have m: "map (\<lambda>p. (part_says p, content_part p)) ys = map (\<lambda>p. (part_says p, content_part p)) ps"
    if "change_first (has_type ''output_text'') ?f ps = Some ys" for ys
    using that by (rule change_first_keeps) (simp add: marked_text_keeps has_type_object)
  have m1: "map part_says ys = map part_says ps" "map content_part ys = map content_part ps"
    if "change_first (has_type ''output_text'') ?f ps = Some ys" for ys
    using m [OF that, THEN arg_cong [of _ _ "map fst"]] m [OF that, THEN arg_cong [of _ _ "map snd"]]
    by (simp_all add: comp_def)
  have l: "list_all content_part xs \<longleftrightarrow> list_all id (map content_part xs)" for xs
    by (induction xs) simp_all
  have n: "part_says (?f (output_text_part [])) = []" "content_part (?f (output_text_part []))"
    by (simp_all add: marked_text_keeps output_text_part_def) (simp_all flip: output_text_part_def)
  show "concat (map part_says (responses_marked as ls ps)) = concat (map part_says ps)"
    using m1(1) n by (auto simp: responses_marked_def unwrap_or_def split: option.split)
  show "list_all content_part (responses_marked as ls ps)"
    using assms m1(2) n by (auto simp: responses_marked_def unwrap_or_def l split: option.split)
qed


subsection \<open>One item each\<close>

lemma map_sum_append_nil [simp]: "map_sum id ((@) []) r = r"
  by (cases r) simp_all

lemma reasoning_item_events:
  assumes "\<not> rb_saw_reasoning s"
  shows "\<exists>out. (\<forall>qs i. output_items_events to_str (responses_reasoning_value s @ qs) i
             = map_sum id ((@) out) (output_items_events to_str qs i))
     \<and> all_said out = ([], [], b_reasoning s) \<and> callless out"
proof (cases "b_reasoning s = [] \<and> b_signature s = None \<and> rb_reasoning_id s = None \<and> rb_reasoning_status s = None
            \<and> rb_reasoning_content s = None")
  case True
  then show ?thesis
    by (intro exI [of _ "[]"]) (auto simp: responses_reasoning_value_def all_said_def)
next
  case False
  define item where "item = hd (responses_reasoning_value s)"
  have v: "responses_reasoning_value s = [item]"
    using False assms by (auto simp: item_def responses_reasoning_value_def)
  have f: "jget item ''type'' = Some (JString ''reasoning'')"
    "Option.bind (jget item ''summary'') as_array = (if b_reasoning s = [] then None
      else Some [json_obj [(''type'', JString ''summary_text''), (''text'', JString (b_reasoning s))]])"
    using False assms by (auto simp: item_def responses_reasoning_value_def jget_set_opt_same)
  define out where "out = reasoning_item_identity_events item @ opt_event ReasoningDelta (if b_reasoning s = [] then None else Some (b_reasoning s))"
  have e: "output_item_events to_str item i = Inr (out, i)" for i
    by (simp add: output_item_events_def f out_def summary_part_events_def nonempty_field_def str_field_def ofilter_def
        Let_def opt_event_def)
  note r = reasoning_identity_silent [of item]
  have "all_said out = ([], [], b_reasoning s)" "callless out"
    by (simp_all add: out_def all_said_def opt_event_text mute_says [OF r [THEN conjunct1]] r [THEN conjunct2]
        opt_event_callless unwrap_or_def)
  then show ?thesis
    by (intro exI [of _ out]) (auto simp: v e split: sum.split)
qed

lemma message_item_value_events:
  assumes "list_all content_part (rb_images s)"
  shows "\<exists>out. (\<forall>qs i. output_items_events to_str (responses_message_value s @ qs) i
             = map_sum id ((@) out) (output_items_events to_str qs i))
     \<and> all_said out = (responses_text_of s, b_refusal s, []) \<and> callless out"
proof (cases "b_text s = [] \<and> b_refusal s = [] \<and> rb_annotations s = [] \<and> rb_logprobs s = [] \<and> rb_images s = []")
  case True
  then show ?thesis
    by (intro exI [of _ "[]"]) (auto simp: responses_message_value_def all_said_def responses_text_of_def)
next
  case False
  define item where "item = hd (responses_message_value s)"
  define parts where "parts = responses_marked (rb_annotations s) (rb_logprobs s) (flushed output_text_part (b_text s) (rb_images s))"
  define tail where "tail = (if b_refusal s = [] then []
               else [json_obj [(''type'', JString ''refusal''), (''refusal'', JString (b_refusal s))]])"
  have v: "responses_message_value s = [item]"
    using False by (auto simp: item_def responses_message_value_def Let_def)
  have f: "jget item ''type'' = Some (JString ''message'')" "jget item ''content'' = Some (JArray (parts @ tail))"
    using False by (auto simp: item_def responses_message_value_def jget_set_opt_same Let_def parts_def tail_def)
  define out where "out = message_item_identity_events item @ concat (map output_part_events parts)
    @ concat (map output_part_events tail)"
  have e: "output_item_events to_str item i = Inr (out, i)" for i
    by (simp add: output_item_events_def f out_def Let_def)
  have p: "list_all content_part parts" "concat (map part_says parts) = responses_text_of s"
    using assms by (simp_all add: parts_def responses_marked_keeps flushed_parts responses_text_of_def)
  have t: "texts (concat (map output_part_events tail)) = []" "refusals (concat (map output_part_events tail)) = b_refusal s"
    "reasonings (concat (map output_part_events tail)) = []" "callless (concat (map output_part_events tail))"
    by (simp_all add: tail_def refusal_part_events opt_event_text opt_event_callless unwrap_or_def)
  note r = message_identity_silent [of item]
  have "all_said out = (responses_text_of s, b_refusal s, [])" "callless out"
    by (simp_all add: out_def all_said_def content_parts_events [OF p(1)] p(2) t mute_says [OF r [THEN conjunct1]] r [THEN conjunct2])
  then show ?thesis
    by (intro exI [of _ out]) (auto simp: v e split: sum.split)
qed

lemma audio_item_events:
  "\<exists>out. (\<forall>qs i. output_items_events to_str (responses_audio_value s @ qs) i
             = map_sum id ((@) out) (output_items_events to_str qs i)) \<and> silent out"
proof (cases "rb_audio_data s = [] \<and> rb_audio_transcript s = []")
  case True
  then show ?thesis
    by (intro exI [of _ "[]"]) (auto simp: responses_audio_value_def)
next
  case False
  define item where "item = hd (responses_audio_value s)"
  have v: "responses_audio_value s = [item]"
    using False by (auto simp: item_def responses_audio_value_def)
  have "jget item ''type'' = Some (JString ''output_audio'')"
    using False by (auto simp: item_def responses_audio_value_def jget_set_opt_same)
  then have e: "output_item_events to_str item i = Inr (push_output_audio_events item, i)" for i
    by (simp add: output_item_events_def)
  show ?thesis
    by (intro exI [of _ "push_output_audio_events item"]) (auto simp: v e output_audio_silent split: sum.split)
qed

lemma tool_extra_fields:
  assumes "is_object j" "k \<in> {''type'', ''call_id'', ''name'', ''arguments'', ''input''}"
  shows "jget (tool_extra_write_item x j) k = jget j k"
  using assms by (auto simp: tool_extra_write_item_def Let_def jget_set_opt_same)

lemma tool_call_item_events:
  "output_item_events to_str (responses_tool_call_value t x) i =
     Inr (tool_item_events (responses_tool_call_value t x) i @ call_events i t, saturating_add i 1)"
  by (auto simp: output_item_events_def Let_def responses_tool_call_value_def tool_extra_fields str_field_def
      json_text_field_def call_events_def opt_event_def unwrap_or_def)

lemma tool_items_events:
  "\<exists>out. output_items_events to_str (responses_tool_items ts extras) i = Inr out
     \<and> list_all mute out \<and> filter is_call_event out = call_run i ts"
proof (induction ts extras arbitrary: i rule: responses_tool_items.induct)
  case (2 index t ts extras)
  let ?x = "unwrap_or (map_of extras index) tool_extra_default"
  obtain out where out: "output_items_events to_str (responses_tool_items ts (bt_remove index extras)) (saturating_add i 1) = Inr out"
    "list_all mute out" "filter is_call_event out = call_run (saturating_add i 1) ts"
    using 2 by blast
  note s = tool_item_silent [of "responses_tool_call_value t ?x" i]
  show ?case
    by (simp add: tool_call_item_events out s [THEN conjunct1] filter_callless [OF s [THEN conjunct2]] filter_calls)
qed simp

text \<open>The whole output: every text, refusal and reasoning byte, and every call in order.\<close>

lemma output_value_events:
  assumes "responses_collected_ok s"
  shows "\<exists>out. output_items_events to_str (responses_output_value s) 0 = Inr out
     \<and> all_said out = (responses_text_of s, b_refusal s, b_reasoning s) \<and> filter is_call_event out = call_run 0 (b_tools s)"
proof -
  have ok: "list_all content_part (rb_images s)" "list_all hosted_item (rb_replay s)" "\<not> rb_saw_reasoning s"
    using assms by (simp_all add: responses_collected_ok_def)
  obtain rs where rs: "\<And>qs i. output_items_events to_str (responses_reasoning_value s @ qs) i
      = map_sum id ((@) rs) (output_items_events to_str qs i)" "all_said rs = ([], [], b_reasoning s)" "callless rs"
    using reasoning_item_events [OF ok(3)] by metis
  obtain ms where ms: "\<And>qs i. output_items_events to_str (responses_message_value s @ qs) i
      = map_sum id ((@) ms) (output_items_events to_str qs i)" "all_said ms = (responses_text_of s, b_refusal s, [])" "callless ms"
    using message_item_value_events [OF ok(1)] by metis
  obtain as where as: "\<And>qs i. output_items_events to_str (responses_audio_value s @ qs) i
      = map_sum id ((@) as) (output_items_events to_str qs i)" "silent as"
    using audio_item_events by metis
  obtain ts where ts: "output_items_events to_str (responses_tool_items (b_tools s) (rb_extras s)) 0 = Inr ts"
    "list_all mute ts" "filter is_call_event ts = call_run 0 (b_tools s)"
    using tool_items_events by metis
  have "output_items_events to_str (responses_output_value s) 0 = Inr (rs @ ms @ as @ ts)"
    by (simp add: responses_output_value_def output_items_hosted [OF ok(2)] rs(1) ms(1) as(1) ts(1))
  then show ?thesis
    using rs(2,3) ms(2,3) as(2) ts(2,3) by (simp add: all_said_def filter_callless)
qed


section \<open>The body as a terminal frame\<close>

lemma responses_body_fields:
  "jget (responses_body_value m s) ''output'' = Some (JArray (responses_output_value s))"
  "jget (responses_body_value m s) ''status'' = Some (JString (case b_finish s of None \<Rightarrow> ''completed''
      | Some r \<Rightarrow> responses_complete_status r))"
  "jget (responses_body_value m s) ''id'' = Some (JString (unwrap_or (rb_id s) ''resp_wiremux''))"
  "jget (responses_body_value m s) ''type'' = None" "jget (responses_body_value m s) ''error'' = None"
  "jget (responses_body_value m s) ''last_error'' = None" "is_object (responses_body_value m s)"
  by (simp_all add: responses_body_value_def Let_def jget_set_opt_same)

text \<open>The frame the decoder builds, and its name.\<close>

definition body_frame_name :: "responses_body \<Rightarrow> string" where
  "body_frame_name s =
     (case b_finish s of None \<Rightarrow> ''response.completed''
      | Some r \<Rightarrow> if r = ''failed'' then ''response.failed''
                  else if r \<in> {''incomplete'', ''length'', ''max_tokens'', ''content_filter''} then ''response.incomplete''
                  else ''response.completed'')"

definition body_frame_value :: "string \<Rightarrow> responses_body \<Rightarrow> json" where
  "body_frame_value m s =
     json_obj [(''type'', JString (body_frame_name s)), (''response'', responses_body_value m s)]"

lemma responses_frame_of_body:
  "responses_body_frame to_str (responses_body_value m s) =
     \<lparr>event = Some (body_frame_name s), data = to_str (body_frame_value m s)\<rparr>"
  by (auto simp: responses_body_frame_def responses_body_fields unwrap_or_def body_frame_name_def body_frame_value_def
      responses_complete_status_def Let_def split: option.split)

lemma body_frame_name_cases:
  "body_frame_name s \<in> {''response.completed'', ''response.failed'', ''response.incomplete''}"
  by (simp add: body_frame_name_def split: option.split)

lemma terminal_events_silent: "decode_terminal_events name v = Some out \<Longrightarrow> silent out"
proof -
  have r: "silent (replay_output_item j)" for j
    by (simp add: replay_output_item_def Let_def)
  have t: "silent (terminal_item_events j)" for j
    using r [of j] reasoning_identity_silent [of j] by (simp add: terminal_item_events_def Let_def)
  have m: "silent (concat (map terminal_item_events js))" for js
    using t by (induction js) simp_all
  have sl: "silent (response_slot_events v)"
    unfolding response_slot_events_def
    by (intro silent_append silent_option_id named_event_silent)
      (auto simp: created_event_def service_tier_event_def metadata_event_def moderation_event_def Let_def
        split: option.splits if_splits)
  have u: "silent (opt_event from_responses x)" for x
    by (rule silent_option) (simp add: from_responses_def Let_def)
  assume "decode_terminal_events name v = Some out"
  then show ?thesis
    using m sl u by (auto simp: decode_terminal_events_def Let_def opt_event_mute opt_event_callless split: if_splits)
qed

lemma body_slots_nonempty:
  assumes "responses_collected_ok s"
  shows "response_slot_events (body_frame_value m s) \<noteq> []"
proof -
  have "trim (unwrap_or (rb_id s) ''resp_wiremux'') \<noteq> []"
  proof (cases "rb_id s")
    case None
    have "trim ''resp_wiremux'' \<noteq> []" by code_simp
    with None show ?thesis by (simp add: unwrap_or_def)
  qed (use assms in \<open>simp add: responses_collected_ok_def unwrap_or_def\<close>)
  then show ?thesis
    by (simp add: response_slot_events_def body_frame_value_def step_pointer_object responses_body_fields ofilter_def
        named_event_def opt_event_def)
qed

lemma body_frame_accepted:
  "reject_bare_responses_error (body_frame_value m s) = Inr ()" "failure_detail (body_frame_value m s) = None"
  "check_responses_indexes (body_frame_value m s) = Inr ()"
proof -
  show f: "failure_detail (body_frame_value m s) = None"
    by (simp add: failure_detail_def failure_object_def body_frame_value_def step_pointer_object responses_body_fields
        ofilter_def)
  show "reject_bare_responses_error (body_frame_value m s) = Inr ()"
    unfolding reject_bare_responses_error_def f
    by (simp add: json_string_error_def ofilter_def body_frame_value_def)
  show "check_responses_indexes (body_frame_value m s) = Inr ()"
    by (simp add: check_responses_indexes_def check_index_def body_frame_value_def)
qed

lemma body_frame_decodes:
  assumes "responses_collected_ok s" "printed_ok parse to_str (body_frame_value m s)"
    "body_frame_name s \<in> set (stream_events d)"
  shows "\<exists>out. decode_stream_events parse to_str Responses (responses_body_frame to_str (responses_body_value m s)) d = Inr out
     \<and> silent out"
proof -
  let ?v = "body_frame_value m s" and ?n = "body_frame_name s"
  let ?raw = "\<lparr>event = Some ?n, data = to_str ?v\<rparr>"
  have n: "frame_event_name parse Responses ?raw = ?n" "?n \<noteq> ''[DONE]''"
    using body_frame_name_cases [of s] by (auto simp: frame_event_name_def ofilter_def)
  have first: "decode_stream_event parse to_str Responses ?raw d = responses_decode to_str ?n ?v"
    using decode_listed [OF assms(2) n(1) assms(3) n(2)] by simp
  have ok: "is_ok (responses_decode to_str ?n ?v)"
    using body_frame_name_cases [of s]
    by (auto simp: responses_decode_def responses_decode_named_def after_reject_def body_frame_accepted
        responses_decode_completed_def responses_decode_failed_def is_ok_def split: option.split)
  obtain out where out: "decode_terminal_events ?n ?v = Some out"
    using body_frame_name_cases [of s] body_slots_nonempty [OF assms(1), of m]
    by (auto simp: decode_terminal_events_def Let_def)
  have p: "parse (to_str ?v) = Some ?v" using assms(2) by (simp add: printed_ok_def)
  have "responses_branch parse to_str ?raw (responses_decode to_str ?n ?v) = Some (Inr out)"
    using ok by (simp add: responses_branch_def p n out)
  then show ?thesis
    using terminal_events_silent [OF out]
    by (simp add: responses_frame_of_body decode_stream_events_def decode_stream_events_seq_def first)
qed

lemma responses_body_read_back:
  assumes "list_all responses_body_keeps evs"
    and "printed_ok parse to_str (body_frame_value model (responses_collect evs))"
    and "body_frame_name (responses_collect evs) \<in> set (stream_events d)"
  shows "\<exists>out. decode_responses_complete parse to_str d (encode_responses_complete evs model) = Inr out
     \<and> all_said out = all_said evs \<and> filter is_call_event out = call_run 0 (calls_of evs)"
proof -
  define s where "s = responses_collect evs"
  define v where "v = responses_body_value model s"
  note collected = responses_collect_says(1-4) [of evs, folded s_def]
  have ok: "responses_collected_ok s" unfolding s_def by (rule responses_collect_says(5) [OF assms(1)])
  obtain out where out: "decode_stream_events parse to_str Responses (responses_body_frame to_str v) d = Inr out" "silent out"
    using body_frame_decodes [OF ok] assms(2,3) unfolding v_def s_def by blast
  obtain items where items: "output_items_events to_str (responses_output_value s) 0 = Inr items"
    "all_said items = (responses_text_of s, b_refusal s, b_reasoning s)" "filter is_call_event items = call_run 0 (b_tools s)"
    using output_value_events [OF ok] by blast
  have no_error: "responses_gateway_error v = None" "responses_surface_error v = None"
    by (simp_all add: v_def responses_gateway_error_def responses_surface_error_def plain_error_detail_def
        json_string_error_def responses_body_fields ofilter_def)
  have extra: "complete_responses_output_events to_str v = Inr items"
    by (simp add: complete_responses_output_events_def v_def responses_body_fields items)
  let ?closing = "opt_event id (created_event v) @ opt_event id (service_tier_event v)
                  @ opt_event id (metadata_event v) @ opt_event id (moderation_event v)"
  have closing: "silent ?closing"
    by (intro silent_append silent_option_id)
      (auto simp: created_event_def service_tier_event_def metadata_event_def moderation_event_def Let_def
        split: option.splits if_splits)
  have cut: "silent (takeWhile P out)" "silent (dropWhile P out)" for P
    using out(2) by (auto simp: list_all_iff dest: set_takeWhileD set_dropWhileD)
  have d: "decode_responses_complete parse to_str d (encode_responses_complete evs model)
      = (if items = [] then Inr out
         else Inr (takeWhile (\<lambda>ev. \<not> closing_event ev) out @ items
                   @ dropWhile (\<lambda>ev. \<not> closing_event ev) out @ ?closing))"
    by (simp add: encode_responses_complete_def decode_responses_complete_def no_error out(1) extra
        flip: s_def v_def)
  show ?thesis
    unfolding d
    using items(2,3) out(2) closing cut [of "\<lambda>ev. \<not> closing_event ev"]
    by (auto simp: all_said_def collected filter_callless)
qed

lemma responses_body_says:
  assumes "list_all responses_body_keeps evs"
    and "printed_ok parse to_str (body_frame_value model (responses_collect evs))"
    and "body_frame_name (responses_collect evs) \<in> set (stream_events d)"
  shows "\<exists>out. decode_responses_complete parse to_str d (encode_responses_complete evs model) = Inr out \<and> all_said out = all_said evs"
  using responses_body_read_back [OF assms] by blast

text \<open>C17. A complete Responses body always decodes, given that its terminal frame prints and parses and that the profile
  lists its name, and it says what the events said: text, refusal, reasoning and every call, with its id, name and
  argument text, numbered in order.
\<close>

theorem responses_body_round_trip:
  assumes "list_all responses_body_keeps evs"
    and "printed_ok parse to_str (body_frame_value model (responses_collect evs))"
    and "body_frame_name (responses_collect evs) \<in> set (stream_events d)"
  shows "\<exists>out. decode_responses_complete parse to_str d (encode_responses_complete evs model) = Inr out
     \<and> all_said out = all_said evs \<and> filter is_call_event out = call_run 0 (calls_of evs)"
  using assms by (rule responses_body_read_back)


theorem responses_body_round_trip_witness:
  "\<exists>out. decode_responses_complete
       (\<lambda>_. Some (body_frame_value [] (responses_collect [TextDelta ''hi'', RefusalDelta ''no''])))
       (\<lambda>_. ''{'') \<lparr>stream_events = [''response.completed''], stream_unknown_policy = HardError\<rparr>
       (encode_responses_complete [TextDelta ''hi'', RefusalDelta ''no''] []) = Inr out
     \<and> all_said out = (''hi'', ''no'', []) \<and> filter is_call_event out = []"
proof -
  let ?evs = "[TextDelta ''hi'', RefusalDelta ''no'']"
  let ?v = "body_frame_value [] (responses_collect ?evs)"
  have k: "list_all responses_body_keeps ?evs" by (simp add: responses_body_keeps_def)
  have t: "trim ''{'' = ''{''" by code_simp
  have p: "printed_ok (\<lambda>_. Some ?v) (\<lambda>_. ''{'') ?v" by (simp add: printed_ok_def t starts_with_def)
  have n: "body_frame_name (responses_collect ?evs) \<in>
      set (stream_events \<lparr>stream_events = [''response.completed''], stream_unknown_policy = HardError\<rparr>)"
    by (simp add: body_frame_name_def responses_collect_def responses_body_init_def)
  have c: "calls_of ?evs = []" by (simp add: calls_of_def indexed_tool_finish_def)
  show ?thesis
    using responses_body_round_trip [OF k p n] by (simp add: c all_said_def)
qed

end
