(* ===== verification/Wm_Complete_Relay.thy ===== *)
theory Wm_Complete_Relay
  imports Wm_Complete_Responses
begin

text \<open>
  Complete bodies that pass several wires, as in the gateway: a body of one vendor is read into events and written
  for the client's wire, which may be another gateway. One hop writes the events on a wire and reads the body back.
\<close>

section \<open>The interface of a hop\<close>

text \<open>\<open>hop w\<close> either fails or gives new events; \<open>keeps w\<close> are the events the wire has a place for; \<open>says\<close> is
  what must survive.\<close>

fun relay :: "('w \<Rightarrow> 'e \<Rightarrow> 'r + 'e) \<Rightarrow> 'w list \<Rightarrow> 'e \<Rightarrow> 'r + 'e" where
  "relay hop [] e = Inr e"
| "relay hop (w # ws) e = (case hop w e of Inl r \<Rightarrow> Inl r | Inr e' \<Rightarrow> relay hop ws e')"

fun kept_along :: "('w \<Rightarrow> 'e \<Rightarrow> 'r + 'e) \<Rightarrow> ('w \<Rightarrow> 'e \<Rightarrow> bool) \<Rightarrow> 'w list \<Rightarrow> 'e \<Rightarrow> bool" where
  "kept_along hop keeps [] e = True"
| "kept_along hop keeps (w # ws) e =
     (keeps w e \<and> (case hop w e of Inl _ \<Rightarrow> True | Inr e' \<Rightarrow> kept_along hop keeps ws e'))"

locale faithful_hops =
  fixes hop :: "'w \<Rightarrow> 'e \<Rightarrow> 'r + 'e"
    and keeps :: "'w \<Rightarrow> 'e \<Rightarrow> bool"
    and says :: "'e \<Rightarrow> 's"
  assumes hop_says: "keeps w e \<Longrightarrow> \<exists>e'. hop w e = Inr e' \<and> says e' = says e"
begin

lemma relay_says:
  "kept_along hop keeps ws e \<Longrightarrow> \<exists>e'. relay hop ws e = Inr e' \<and> says e' = says e"
proof (induction ws arbitrary: e)
  case (Cons w ws)
  obtain e1 where e1: "hop w e = Inr e1" "says e1 = says e"
    using Cons.prems hop_says [of w e] by auto
  with Cons.IH [of e1] Cons.prems show ?case by auto
qed simp

text \<open>A wire that keeps everything can be passed any number of times.\<close>

lemma relay_repeats:
  assumes "\<And>e. keeps w e"
  shows "\<exists>e'. relay hop (replicate n w) e = Inr e' \<and> says e' = says e"
proof (rule relay_says)
  show "kept_along hop keeps (replicate n w) e"
    by (induction n arbitrary: e) (simp_all add: assms split: sum.split)
qed

end

section \<open>The wires\<close>

definition body_hop ::
  "(string \<Rightarrow> json option) \<Rightarrow> (json \<Rightarrow> string) \<Rightarrow> dialect \<Rightarrow> string \<Rightarrow> wire \<Rightarrow> ir_stream_event list
     \<Rightarrow> map_error + ir_stream_event list" where
  "body_hop parse to_str d model w evs =
     (case encode_response_with_model parse w evs model of
        Inl e \<Rightarrow> Inl e | Inr v \<Rightarrow> decode_response_value parse to_str d w v)"

fun body_keeps ::
  "(string \<Rightarrow> json option) \<Rightarrow> (json \<Rightarrow> string) \<Rightarrow> dialect \<Rightarrow> string \<Rightarrow> wire \<Rightarrow> ir_stream_event list \<Rightarrow> bool" where
  "body_keeps parse to_str d model ChatCompletions evs = True"
| "body_keeps parse to_str d model Messages evs = list_all messages_body_keeps evs"
| "body_keeps parse to_str d model Responses evs =
     (list_all responses_body_keeps evs
      \<and> printed_ok parse to_str (body_frame_value model (responses_collect evs))
      \<and> body_frame_name (responses_collect evs) \<in> set (stream_events d))"
| "body_keeps parse to_str d model w evs = False"

interpretation bodies: faithful_hops "body_hop parse to_str d model" "body_keeps parse to_str d model" all_said
  for parse to_str d model
proof
  fix w evs
  assume k: "body_keeps parse to_str d model w evs"
  show "\<exists>out. body_hop parse to_str d model w evs = Inr out \<and> all_said out = all_said evs"
  proof (cases w)
    case ChatCompletions
    with chat_body_says show ?thesis by (simp add: body_hop_def)
  next
    case Messages
    with k messages_body_says show ?thesis by (simp add: body_hop_def)
  next
    case Responses
    with k responses_body_says show ?thesis by (simp add: body_hop_def)
  qed (use k in simp_all)
qed




end
