(* ===== verification/Wm_Complete_Calls.thy ===== *)
theory Wm_Complete_Calls
  imports Wm_Complete
begin

text \<open>
  The tool calls of a complete body: the \<open>indexed_tool\<close> functions keep the argument text of each index apart and lose
  none of it, however the fragments of the calls are interleaved and however often a call starts again.
\<close>

definition args_at :: "u32 \<Rightarrow> tool_slots \<Rightarrow> string" where
  "args_at i ts = concat (map (\<lambda>(j, t). if j = i then it_args t else []) ts)"

lemma args_at_simps [simp]:
  "args_at i [] = []" "args_at i (xs @ ys) = args_at i xs @ args_at i ys"
  "args_at i ((j, t) # ts) = (if j = i then it_args t else []) @ args_at i ts"
  by (simp_all add: args_at_def)

lemma args_at_absent: "i \<notin> fst ` set ts \<Longrightarrow> args_at i ts = []"
  by (induction ts) auto

lemma args_at_map_of:
  "bt_wf ts \<Longrightarrow> args_at i ts = (case map_of ts i of None \<Rightarrow> [] | Some t \<Rightarrow> it_args t)"
proof (induction ts)
  case (Cons p ts)
  obtain j t where p: "p = (j, t)" by force
  have "i = j \<Longrightarrow> args_at i ts = []" using Cons.prems p by (intro args_at_absent) auto
  with Cons p show ?case by auto
qed simp

lemma start_keeps_args:
  assumes "bt_wf (fst od)"
  shows "bt_wf (fst (indexed_tool_start index id' name custom sig od))"
    "args_at i (snd (indexed_tool_start index id' name custom sig od)) @ args_at i (fst (indexed_tool_start index id' name custom sig od))
       = args_at i (snd od) @ args_at i (fst od)"
proof -
  obtain open_ts done_ts where od: "od = (open_ts, done_ts)" by (cases od)
  obtain o' d' where n: "indexed_tool_start index id' name custom sig (open_ts, done_ts) = (o', d')" by force
  have wf: "bt_wf open_ts" using assms od by simp
  have wf': "bt_wf o'"
    using n wf by (auto simp: indexed_tool_start_def Let_def split: option.splits if_splits)
  have "args_at i d' @ args_at i o' = args_at i done_ts @ args_at i open_ts"
    using n wf wf'
    by (cases "map_of open_ts index"; cases "index = i")
      (auto simp: indexed_tool_start_def Let_def args_at_map_of map_of_bt_remove blank_indexed_tool_def
        split: if_splits option.splits)
  with wf' n od show "bt_wf (fst (indexed_tool_start index id' name custom sig od))"
    "args_at i (snd (indexed_tool_start index id' name custom sig od)) @ args_at i (fst (indexed_tool_start index id' name custom sig od))
       = args_at i (snd od) @ args_at i (fst od)"
    by simp_all
qed

lemma delta_keeps_args:
  assumes "bt_wf open_ts"
  shows "bt_wf (indexed_tool_delta index d open_ts)"
    "args_at i (indexed_tool_delta index d open_ts) = args_at i open_ts @ (if index = i then d else [])"
  using assms
  by (cases "index = i"; cases "map_of open_ts index";
      auto simp: indexed_tool_delta_def Let_def args_at_map_of blank_indexed_tool_def unwrap_or_def split: option.splits)+

lemma tool_step_args:
  assumes "bt_wf (fst od)"
  shows "bt_wf (fst (tool_step e od)) \<and>
    args_at i (snd (tool_step e od)) @ args_at i (fst (tool_step e od))
      = (args_at i (snd od) @ args_at i (fst od)) @ call_bytes i [e]"
  using assms start_keeps_args [OF assms] delta_keeps_args [OF assms]
  by (cases e) (simp_all add: call_bytes_def)

lemma fold_tool_step_args:
  assumes "bt_wf (fst od)"
  shows "args_at i (snd (fold tool_step evs od)) @ args_at i (fst (fold tool_step evs od))
      = (args_at i (snd od) @ args_at i (fst od)) @ call_bytes i evs"
  using assms
proof (induction evs arbitrary: od)
  case (Cons e evs)
  then show ?case
    using tool_step_args [OF Cons.prems, of e i] by (simp add: call_bytes_def)
qed (simp add: call_bytes_def)

text \<open>C20. However the fragments of several calls are interleaved, the calls written into a complete body carry for each
  index exactly the fragments sent for it, in order: none is lost, none lands in the call of another index, also
  when a second call takes over the index.
\<close>

theorem body_calls_keep_arguments: "args_at i (calls_of evs) = call_bytes i evs"
  using fold_tool_step_args [of "([], [])" i evs]
  by (auto simp: calls_of_def indexed_tool_finish_def split: prod.split)

end
