(* ===== verification/Wm_Complete_Types.thy ===== *)
theory Wm_Complete_Types
  imports Wm_Complete_Gemini Wm_Complete
begin

text \<open>
  The type invariant of the bodies: a complete body is a well-formed JSON value (\<open>jwf\<close>: every object, at every depth,
  is a sorted map without duplicate keys) whenever the payloads of the events it is built from are.
\<close>

named_theorems jwf_intros

lemma jwf_set_opt [jwf_intros]: "jwf j \<Longrightarrow> pred_option jwf v \<Longrightarrow> jwf (set_opt k v j)"
  by (cases v) (simp_all add: set_opt_def jwf_jinsert)

lemmas [jwf_intros] = jwf_jinsert

lemma jwf_slots [simp]:
  "pred_option jwf (text_slot t)" "pred_option jwf (array_slot xs) = list_all jwf xs"
  "pred_option jwf (map_option JString x)" "pred_option jwf (map_option json_i64 y)"
  by (cases x; cases y; auto simp: text_slot_def array_slot_def)+

lemma jwf_option: "pred_option jwf (jget v k)" if "jwf v"
  using that by (cases "jget v k") (auto dest: jwf_jget)

fun ev_jwf :: "ir_stream_event \<Rightarrow> bool" where
  "ev_jwf (AnnotationAdded a) = jwf a"
| "ev_jwf (Logprobs c r) = (jwf c \<and> pred_option jwf r)"
| "ev_jwf (Moderation x y) = (pred_option jwf x \<and> pred_option jwf y)"
| "ev_jwf (Metadata m) = bt_wf m"
| "ev_jwf (Diagnostics x) = jwf x"
| "ev_jwf (Container x) = jwf x"
| "ev_jwf (ContextManagement x) = jwf x"
| "ev_jwf (Protocol t p) = jwf p"
| "ev_jwf (Unknown t p) = jwf p"
| "ev_jwf _ = True"

section \<open>Pieces\<close>

lemma jwf_unwrap: "pred_option jwf x \<Longrightarrow> jwf y \<Longrightarrow> jwf (unwrap_or x y)"
  by (cases x) (simp_all add: unwrap_or_def)

lemma jwf_annotation_to_chat: "jwf a \<Longrightarrow> jwf (annotation_to_chat a)"
  by (simp add: annotation_to_chat_def jwf_json_obj jwf_unwrap jwf_option)

lemma jwf_parts [simp]:
  "jwf (chat_text_part t)" "jwf (chat_image_url_part m d)" "jwf (chat_tool_call_value c)"
  by (simp_all add: chat_text_part_def chat_image_url_part_def chat_tool_call_value_def jwf_json_obj)

lemma jwf_flushed: "list_all jwf (flushed chat_text_part t xs) = list_all jwf xs"
  by (simp add: flushed_def)

lemma jwf_push_logprobs: "jwf v \<Longrightarrow> list_all jwf xs \<Longrightarrow> list_all jwf (push_logprob_items xs v)"
  by (cases v) simp_all

lemma jwf_extend: "list_all jwf xs \<Longrightarrow> jwf v \<Longrightarrow> list_all jwf (extend_logprobs_content xs v)"
  by (simp add: extend_logprobs_content_def jwf_push_logprobs)

lemma jwf_metadata: "bt_wf m \<Longrightarrow> jwf (metadata_object m)"
proof -
  assume m: "bt_wf m"
  have keys: "map (fst \<circ> (\<lambda>(k, w). (k, JString w))) m = map fst m"
    by (induction m) auto
  have "bt_wf (map (\<lambda>(k, w). (k, JString w)) m)"
    using m unfolding bt_wf_def by (simp only: map_map keys)
  moreover have "list_all (\<lambda>(k, v). jwf v) (map (\<lambda>(k, w). (k, JString w)) m)"
    by (induction m) auto
  ultimately show ?thesis by (simp add: metadata_object_def)
qed

lemma jwf_moderation:
  assumes "pred_option jwf x" "pred_option jwf y" "\<And>v. jwf v \<Longrightarrow> jwf (f v)"
  shows "pred_option jwf (moderation_object x y f)"
  using assms by (cases x; cases y) (auto simp: moderation_object_def Let_def list_all_bt_insert)

lemma jwf_chat_usage: "jwf (chat_usage_body p c cr cw rs au cau)"
  by (auto simp: chat_usage_body_def insert_if_def Let_def intro!: jwf_jinsert jwf_json_obj)

lemma jwf_prediction:
  assumes "jwf u"
  shows "jwf (insert_chat_prediction_tokens a r u)"
proof (cases u)
  case (JObject m)
  have "jwf (unwrap_or (map_of m ''completion_tokens_details'') (JObject []))"
    using assms JObject jwf_option [of "JObject m" "''completion_tokens_details''"] by (intro jwf_unwrap) auto
  with assms JObject show ?thesis
    by (cases a; cases r) (auto simp: insert_chat_prediction_tokens_def Let_def intro!: list_all_bt_insert jwf_jinsert)
qed (use assms in \<open>simp_all add: insert_chat_prediction_tokens_def\<close>)

section \<open>Chat bodies\<close>

definition chat_body_wf :: "chat_body \<Rightarrow> bool" where
  "chat_body_wf s =
     (list_all jwf (cb_annotations s) \<and> list_all jwf (cb_images s) \<and> list_all jwf (cb_logprobs s)
      \<and> list_all jwf (cb_logprobs_refusal s) \<and> pred_option jwf (cb_audio_expires s)
      \<and> pred_option bt_wf (cb_metadata s)
      \<and> pred_option (\<lambda>(x, y). pred_option jwf x \<and> pred_option jwf y) (cb_moderation s))"

lemma chat_body_wf_tools [simp]:
  "chat_body_wf (b_start i id' n c g s) = chat_body_wf s" "chat_body_wf (b_arg i d s) = chat_body_wf s"
  by (simp_all add: chat_body_wf_def b_start_def b_arg_def split: prod.split)

lemma chat_body_step_wf:
  assumes "chat_body_wf s" "ev_jwf e"
  shows "chat_body_wf (chat_body_step e s)"
proof (cases e)
  case (Protocol t p)
  then show ?thesis
    using assms by (simp add: chat_body_wf_def chat_body_protocol_def split: option.split)
next
  case (Logprobs c r)
  then show ?thesis
    using assms by (cases r) (simp_all add: chat_body_wf_def jwf_extend)
qed (use assms in \<open>(simp; fail) | simp add: chat_body_wf_def jwf_annotation_to_chat jwf_flushed\<close>)+

lemma chat_collect_wf: "list_all ev_jwf evs \<Longrightarrow> chat_body_wf (chat_collect evs)"
proof -
  have "list_all ev_jwf evs \<Longrightarrow> chat_body_wf s \<Longrightarrow> chat_body_wf (fold chat_body_step evs s)" for s
    by (induction evs arbitrary: s) (simp_all add: chat_body_step_wf)
  moreover have "chat_body_wf chat_body_init" by (simp add: chat_body_wf_def chat_body_init_def)
  ultimately show "list_all ev_jwf evs \<Longrightarrow> chat_body_wf (chat_collect evs)" by (simp add: chat_collect_def)
qed

lemma jwf_chat_message: "chat_body_wf s \<Longrightarrow> jwf (chat_message_value s)"
proof -
  assume s: "chat_body_wf s"
  have "pred_option jwf (chat_audio_value s)"
    using s by (auto simp: chat_audio_value_def chat_body_wf_def intro!: jwf_intros)
  moreover have "jwf (chat_message_content t r (cb_images s) b)" for t r b
    using s by (simp add: chat_message_content_def chat_body_wf_def jwf_flushed)
  moreover have "list_all jwf (map (\<lambda>(_, t). chat_tool_call_value t) ts)" for ts
    by (induction ts) auto
  ultimately show ?thesis
    using s by (auto simp: chat_message_value_def Let_def chat_body_wf_def intro!: jwf_intros jwf_json_obj)
qed

lemma jwf_chat_choice: "chat_body_wf s \<Longrightarrow> jwf (chat_choice_value s)"
proof -
  assume s: "chat_body_wf s"
  have "pred_option jwf (chat_logprobs_object s)"
    using s by (auto simp: chat_logprobs_object_def chat_body_wf_def intro!: jwf_intros)
  with jwf_chat_message [OF s] show ?thesis
    by (auto simp: chat_choice_value_def intro!: jwf_intros jwf_json_obj)
qed

lemma jwf_chat_body: "chat_body_wf s \<Longrightarrow> jwf (chat_body_value m s)"
proof -
  assume s: "chat_body_wf s"
  have u: "pred_option jwf (chat_usage_value s)"
    by (auto simp: chat_usage_value_def encode_chat_def jwf_prediction jwf_chat_usage split: option.split)
  have md: "pred_option jwf (Option.bind (cb_moderation s) (\<lambda>(i, out). chat_moderation_value i out))"
    using s by (cases "cb_moderation s") (auto simp: chat_moderation_value_def chat_body_wf_def intro!: jwf_moderation)
  have mt: "pred_option jwf (map_option metadata_object (ofilter (\<lambda>m. m \<noteq> []) (cb_metadata s)))"
    using s by (cases "cb_metadata s") (auto simp: ofilter_def chat_body_wf_def jwf_metadata)
  show ?thesis
    using s u md mt by (auto simp: chat_body_value_def jwf_chat_choice intro!: jwf_intros jwf_json_obj)
qed


section \<open>Messages bodies\<close>

text \<open>The JSON parser gives well-formed values.\<close>

definition parser_wf :: "(string \<Rightarrow> json option) \<Rightarrow> bool" where
  "parser_wf parse = (\<forall>s. pred_option jwf (parse s))"

lemma parser_wfD: "parser_wf parse \<Longrightarrow> parse s = Some v \<Longrightarrow> jwf v"
  by (metis option.pred_inject(2) parser_wf_def)

lemma jwf_wrapped: "jwf v \<Longrightarrow> jwf (wrapped_json k v)"
  by (simp add: wrapped_json_def)

lemma jwf_custom_input: "parser_wf parse \<Longrightarrow> jwf (response_custom_tool_input parse t)"
  by (auto simp: response_custom_tool_input_def json_object_or_wrapped_def jwf_wrapped
      dest: parser_wfD split: option.split)

lemma jwf_args: "parser_wf parse \<Longrightarrow> jwf (unwrap_or (parse t) (JObject []))"
  by (rule jwf_unwrap) (simp_all add: parser_wf_def)

lemma jwf_tool_use: "parser_wf parse \<Longrightarrow> jwf (messages_tool_use_value parse t)"
  by (simp add: messages_tool_use_value_def jwf_json_obj jwf_custom_input jwf_args)

lemma jwf_citation_from: "jwf (citation_from_annotation a)"
  by (auto simp: citation_from_annotation_def Let_def jwf_json_obj intro!: jwf_intros split: option.split)

definition messages_body_wf :: "messages_body \<Rightarrow> bool" where
  "messages_body_wf s =
     (list_all jwf (mb_citations s) \<and> list_all jwf (mb_images s) \<and> pred_option jwf (mb_cache_creation s)
      \<and> pred_option jwf (mb_diagnostics s) \<and> pred_option jwf (mb_container s) \<and> pred_option jwf (mb_context s))"

lemma messages_body_wf_tools [simp]:
  "messages_body_wf (b_start i id' n c g s) = messages_body_wf s" "messages_body_wf (b_arg i d s) = messages_body_wf s"
  by (simp_all add: messages_body_wf_def b_start_def b_arg_def split: prod.split)

lemma messages_body_step_wf:
  assumes "messages_body_wf s" "ev_jwf e"
  shows "messages_body_wf (messages_body_step e s)"
proof (cases e)
  case (Protocol t p)
  then show ?thesis
    using assms by (simp add: messages_body_wf_def messages_body_protocol_def jwf_flushed split: option.split)
next
  case (ImageDelta m d)
  then show ?thesis
    using assms by (simp add: messages_body_wf_def jwf_flushed messages_image_value_def jwf_json_obj)
qed (use assms in \<open>(simp; fail) | simp add: messages_body_wf_def jwf_citation_from\<close>)+

lemma messages_collect_wf: "list_all ev_jwf evs \<Longrightarrow> messages_body_wf (messages_collect evs)"
proof -
  have "list_all ev_jwf evs \<Longrightarrow> messages_body_wf s \<Longrightarrow> messages_body_wf (fold messages_body_step evs s)" for s
    by (induction evs arbitrary: s) (simp_all add: messages_body_step_wf)
  moreover have "messages_body_wf messages_body_init" by (simp add: messages_body_wf_def messages_body_init_def)
  ultimately show "list_all ev_jwf evs \<Longrightarrow> messages_body_wf (messages_collect evs)" by (simp add: messages_collect_def)
qed

lemma jwf_change_first:
  assumes "change_first p f xs = Some ys" "list_all jwf xs" "\<And>x. jwf x \<Longrightarrow> jwf (f x)"
  shows "list_all jwf ys"
  using assms by (induction xs arbitrary: ys) (auto split: if_splits)

lemma jwf_messages_cited:
  assumes "list_all jwf cs" "list_all jwf bs"
  shows "list_all jwf (messages_cited cs bs)"
  using assms by (auto simp: messages_cited_def unwrap_or_def jwf_json_obj jwf_jinsert
      elim!: jwf_change_first split: option.split)

lemma jwf_anthropic_usage: "jwf (anthropic_usage_body p c cr cw rs geo)"
  by (auto simp: anthropic_usage_body_def insert_if_def Let_def intro!: jwf_jinsert jwf_json_obj split: option.split)

lemma jwf_tool_counts: "jwf u \<Longrightarrow> jwf (insert_messages_server_tool_counts a b u)"
  by (cases a; cases b) (auto simp: insert_messages_server_tool_counts_def Let_def intro!: jwf_jinsert list_all_bt_insert)

lemma jwf_cache_creation: "jwf u \<Longrightarrow> pred_option jwf c \<Longrightarrow> jwf (insert_messages_cache_creation c u)"
  by (cases c) (auto simp: insert_messages_cache_creation_def ofilter_def intro!: jwf_jinsert)

lemma jwf_tier: "jwf out \<Longrightarrow> jwf (messages_tier_value t out)"
  by (auto simp: messages_tier_value_def Let_def ofilter_def jwf_json_obj intro!: jwf_jinsert jwf_unwrap
      dest: jwf_jget split: option.split)

lemma jwf_stop: "jwf out \<Longrightarrow> jwf (messages_stop_value s out)"
  by (auto simp: messages_stop_value_def Let_def jwf_json_obj intro!: jwf_intros split: option.split)

lemma jwf_messages_body:
  assumes s: "messages_body_wf s" and p: "parser_wf parse"
  shows "jwf (messages_body_value parse m s)"
proof -
  have t: "list_all jwf (map (\<lambda>(_, t). messages_tool_use_value parse t) ts)" for ts
    by (induction ts) (auto simp: jwf_tool_use p)
  have th: "list_all jwf (messages_thinking s)"
    by (auto simp: messages_thinking_def jwf_json_obj intro!: jwf_intros)
  have c: "list_all jwf (messages_content_value parse s)"
    using s by (simp add: messages_content_value_def t th jwf_messages_cited jwf_flushed messages_body_wf_def)
  have u: "pred_option jwf (messages_usage_value s)"
    using s by (auto simp: messages_usage_value_def encode_anthropic_def messages_body_wf_def jwf_anthropic_usage
        intro!: jwf_cache_creation jwf_tool_counts split: option.split)
  have d: "pred_option jwf (map_option (\<lambda>r. json_obj [(''cache_miss_reason'', r)]) (mb_diagnostics s))"
    using s by (cases "mb_diagnostics s") (auto simp: messages_body_wf_def jwf_json_obj)
  show ?thesis
    using s c u d by (auto simp: messages_body_value_def Let_def messages_body_wf_def
        intro!: jwf_intros jwf_json_obj jwf_tier jwf_stop)
qed

section \<open>Responses bodies\<close>

lemma jwf_jremove: "jwf v \<Longrightarrow> jwf (jremove k v)"
proof (cases v)
  case (JObject m)
  assume w: "jwf v"
  have "list_all (\<lambda>(k, v). jwf v) (bt_remove k m)"
    using w unfolding JObject by (induction k m rule: bt_remove.induct) auto
  with w show ?thesis by (simp add: JObject)
qed simp_all

lemma jwf_output_parts [simp]: "jwf (output_text_part t)" "jwf (output_image_part m d)"
  by (simp_all add: output_text_part_def output_image_part_def jwf_json_obj)

definition extra_wf :: "tool_extra \<Rightarrow> bool" where
  "extra_wf x = pred_option jwf (tx_caller x)"

definition responses_body_wf :: "responses_body \<Rightarrow> bool" where
  "responses_body_wf s =
     (pred_option jwf (rb_message_agent s) \<and> pred_option jwf (rb_reasoning_content s)
      \<and> list_all jwf (rb_annotations s) \<and> list_all jwf (rb_images s) \<and> list_all jwf (rb_logprobs s)
      \<and> pred_option bt_wf (rb_metadata s)
      \<and> pred_option (\<lambda>(x, y). pred_option jwf x \<and> pred_option jwf y) (rb_moderation s)
      \<and> list_all (\<lambda>(i, x). extra_wf x) (rb_extras s) \<and> list_all jwf (rb_replay s))"

lemma responses_body_wf_tools [simp]:
  "responses_body_wf (b_start i id' n c g s) = responses_body_wf s"
  "responses_body_wf (b_arg i d s) = responses_body_wf s"
  by (simp_all add: responses_body_wf_def b_start_def b_arg_def split: prod.split)

lemma extra_wf_default [simp]: "extra_wf tool_extra_default"
  by (simp add: extra_wf_def tool_extra_default_def)

lemma extra_wf_merge: "extra_wf x \<Longrightarrow> extra_wf y \<Longrightarrow> extra_wf (tool_extra_merge x y)"
  by (cases "tx_caller y") (simp_all add: extra_wf_def tool_extra_merge_def)

lemma extra_wf_protocol: "tool_extra_from_protocol t p = Some (i, x) \<Longrightarrow> jwf p \<Longrightarrow> extra_wf x"
  using jwf_option [of p "''caller''"]
  by (auto simp: tool_extra_from_protocol_def Let_def extra_wf_def tool_extra_default_def ofilter_def
      split: option.splits if_splits)

lemma extras_found: "list_all (\<lambda>(i, x). extra_wf x) xs \<Longrightarrow> extra_wf (unwrap_or (map_of xs i) tool_extra_default)"
  by (induction xs) (auto simp: unwrap_or_def)

lemma list_all_bt_remove: "list_all P xs \<Longrightarrow> list_all P (bt_remove k xs)"
  by (induction k xs rule: bt_remove.induct) auto

lemma list_all_insert_value:
  "list_all (\<lambda>(k, v). P v) m \<Longrightarrow> P v \<Longrightarrow> list_all (\<lambda>(k, v). P v) (bt_insert k v m)"
  by (induction k v m rule: bt_insert.induct) auto

lemma responses_protocol_wf:
  assumes s: "responses_body_wf s" and p: "jwf p"
  shows "responses_body_wf (responses_body_protocol t p s)"
proof (cases "tool_extra_from_protocol t p")
  case None
  have "responses_body_wf (responses_body_note t p s)"
    using s p unfolding responses_body_note_def Let_def by (simp add: responses_body_wf_def)
  with None show ?thesis by (simp add: responses_body_protocol_def)
next
  case (Some ix)
  obtain i x where ix: "ix = (i, x)" by (cases ix)
  have "extra_wf x" using extra_wf_protocol Some ix p by blast
  moreover have "extra_wf (unwrap_or (map_of (rb_extras s) i) tool_extra_default)"
    using s by (auto simp: responses_body_wf_def intro: extras_found)
  ultimately show ?thesis
    using s by (simp add: responses_body_protocol_def Some ix responses_body_wf_def list_all_insert_value extra_wf_merge)
qed

lemma jwf_flushed_output: "list_all jwf (flushed output_text_part t xs) = list_all jwf xs"
  by (simp add: flushed_def)

lemma responses_body_step_wf:
  assumes "responses_body_wf s" "ev_jwf e"
  shows "responses_body_wf (responses_body_step e s)"
proof (cases e)
  case (Protocol t p)
  then show ?thesis using assms by (simp add: responses_protocol_wf)
next
  case (Logprobs c r)
  then show ?thesis using assms by (cases r) (simp_all add: responses_body_wf_def jwf_extend)
next
  case (AnnotationAdded a)
  then show ?thesis using assms by (simp add: responses_body_wf_def annotation_without_segment_text_def jwf_jremove)
qed (use assms in \<open>(simp; fail) | simp add: responses_body_wf_def jwf_flushed_output\<close>)+

lemma responses_collect_wf: "list_all ev_jwf evs \<Longrightarrow> responses_body_wf (responses_collect evs)"
proof -
  have "list_all ev_jwf evs \<Longrightarrow> responses_body_wf s \<Longrightarrow> responses_body_wf (fold responses_body_step evs s)" for s
    by (induction evs arbitrary: s) (simp_all add: responses_body_step_wf)
  moreover have "responses_body_wf responses_body_init" by (simp add: responses_body_wf_def responses_body_init_def)
  ultimately show "list_all ev_jwf evs \<Longrightarrow> responses_body_wf (responses_collect evs)" by (simp add: responses_collect_def)
qed

lemma jwf_responses_tool: "extra_wf x \<Longrightarrow> jwf (responses_tool_call_value t x)"
  by (auto simp: responses_tool_call_value_def tool_extra_write_item_def Let_def extra_wf_def
      intro!: jwf_intros jwf_json_obj)

lemma jwf_responses_tools: "list_all (\<lambda>(i, x). extra_wf x) xs \<Longrightarrow> list_all jwf (responses_tool_items ts xs)"
  by (induction ts xs rule: responses_tool_items.induct)
    (auto intro: jwf_responses_tool extras_found list_all_bt_remove)

lemma jwf_marked: "list_all jwf as \<Longrightarrow> list_all jwf ls \<Longrightarrow> jwf p \<Longrightarrow> jwf (marked_text as ls p)"
  by (auto simp: marked_text_def intro!: jwf_intros)

lemma jwf_responses_marked:
  assumes "list_all jwf as" "list_all jwf ls" "list_all jwf ps"
  shows "list_all jwf (responses_marked as ls ps)"
  using assms by (auto simp: responses_marked_def unwrap_or_def jwf_marked elim!: jwf_change_first split: option.split)

lemma jwf_responses_usage: "jwf (responses_usage_body p c cr cw rs)"
  by (auto simp: responses_usage_body_def insert_if_def Let_def intro!: jwf_jinsert jwf_json_obj)

lemma copy_keys_wf:
  assumes "jwf v" "jwf (JObject m)"
  shows "jwf (JObject (copy_keys ks v m))"
proof -
  have "jwf (JObject m) \<Longrightarrow> jwf (JObject (foldl (\<lambda>m k. case jget v k of None \<Rightarrow> m | Some w \<Rightarrow> bt_insert k w m) m ks))" for m
    by (induction ks arbitrary: m)
      (auto simp: list_all_bt_insert dest: jwf_jget [OF assms(1)] split: option.split)
  with assms(2) show ?thesis by (simp add: copy_keys_def)
qed

lemma jwf_first_result:
  assumes "jwf v" "Option.bind (jget v ''results'') as_array = Some (r # rs)"
  shows "jwf r"
proof -
  obtain w where "jget v ''results'' = Some w" "as_array w = Some (r # rs)"
    using assms(2) by (cases "jget v ''results''") auto
  with jwf_jget [OF assms(1)] have "jwf w" by blast
  with \<open>as_array w = Some (r # rs)\<close> show ?thesis by (cases w) auto
qed

lemma jwf_moderation_results:
  assumes "jwf v"
  shows "jwf (moderation_results_to_responses v)"
proof -
  define first where "first = Option.bind (Option.bind (jget v ''results'') as_array) (\<lambda>xs. case xs of [] \<Rightarrow> None | x # _ \<Rightarrow> Some x)"
  have f: "pred_option jwf first"
    using jwf_first_result [OF assms]
    by (cases "Option.bind (jget v ''results'') as_array") (auto simp: first_def split: list.split)
  define model where "model = unwrap_or (or_else (jget v ''model'') (Option.bind first (\<lambda>r. jget r ''model''))) (JString [])"
  have m: "jwf model"
    using f jwf_option [OF assms, of "''model''"]
    by (cases first; cases "jget v ''model''") (auto simp: model_def unwrap_or_def dest: jwf_jget split: option.split)
  have o: "jwf (JObject (bt_insert ''model'' model (bt_insert ''type'' (JString ''moderation_result'') [])))"
    using m by simp
  have "moderation_results_to_responses v =
      JObject (case first of None \<Rightarrow> bt_insert ''model'' model (bt_insert ''type'' (JString ''moderation_result'') [])
               | Some r \<Rightarrow> copy_keys moderation_keys r (bt_insert ''model'' model (bt_insert ''type'' (JString ''moderation_result'') [])))"
    by (simp only: moderation_results_to_responses_def Let_def first_def model_def)
  then show ?thesis using f o copy_keys_wf [OF _ o] by (cases first) simp_all
qed

lemma jwf_moderation_side: "jwf v \<Longrightarrow> jwf (to_responses_moderation_side v)"
  by (simp add: to_responses_moderation_side_def Let_def jwf_moderation_results)

lemma jwf_responses_body:
  assumes s: "responses_body_wf s"
  shows "jwf (responses_body_value m s)"
proof -
  have r: "list_all jwf (responses_reasoning_value s)"
    using s by (auto simp: responses_reasoning_value_def responses_body_wf_def jwf_json_obj intro!: jwf_intros)
  have "list_all jwf (responses_marked (rb_annotations s) (rb_logprobs s) (flushed output_text_part (b_text s) (rb_images s)))"
    using s by (simp add: jwf_responses_marked jwf_flushed_output responses_body_wf_def)
  then have ms: "list_all jwf (responses_message_value s)"
    using s by (auto simp: responses_message_value_def Let_def responses_body_wf_def jwf_json_obj intro!: jwf_intros)
  have a: "list_all jwf (responses_audio_value s)"
    by (auto simp: responses_audio_value_def jwf_json_obj intro!: jwf_intros)
  have out: "list_all jwf (responses_output_value s)"
    using s r ms a jwf_responses_tools [of "rb_extras s"] by (simp add: responses_output_value_def responses_body_wf_def)
  have u: "pred_option jwf (responses_usage_value s)"
    by (auto simp: responses_usage_value_def encode_responses_def jwf_responses_usage split: option.split)
  have md: "pred_option jwf (Option.bind (rb_moderation s) (\<lambda>(i, out). responses_moderation_value i out))"
    using s by (cases "rb_moderation s")
      (auto simp: responses_moderation_value_def responses_body_wf_def jwf_moderation_side intro!: jwf_moderation)
  have mt: "pred_option jwf (map_option metadata_object (ofilter (\<lambda>m. m \<noteq> []) (rb_metadata s)))"
    using s by (cases "rb_metadata s") (auto simp: ofilter_def responses_body_wf_def jwf_metadata)
  have d: "pred_option jwf (map_option (\<lambda>r. json_obj [(''reason'', JString r)]) x)" for x
    by (cases x) (simp_all add: jwf_json_obj)
  show ?thesis
    using out u md mt d by (auto simp: responses_body_value_def Let_def intro!: jwf_intros jwf_json_obj)
qed

section \<open>Gemini bodies\<close>

definition gemini_body_wf :: "gemini_body \<Rightarrow> bool" where
  "gemini_body_wf s =
     (list_all jwf (gb_chunks s) \<and> list_all jwf (gb_supports s) \<and> list_all jwf (gb_media s) \<and> list_all jwf (gb_logprobs s)
      \<and> pred_option jwf (gb_safety s) \<and> pred_option jwf (gb_prompt_safety s) \<and> pred_option jwf (gb_prompt_details s)
      \<and> pred_option jwf (gb_candidate_details s) \<and> pred_option jwf (gb_url_context s) \<and> pred_option jwf (gb_citations s)
      \<and> list_all jwf (gb_code_parts s))"

lemma gemini_body_wf_tools [simp]:
  "gemini_body_wf (b_start i id' n c g s) = gemini_body_wf s" "gemini_body_wf (b_arg i d s) = gemini_body_wf s"
  by (simp_all add: gemini_body_wf_def b_start_def b_arg_def split: prod.split)

lemma jwf_grounding [simp]:
  "jwf a \<Longrightarrow> jwf (grounding_support_from_annotation a i)" "jwf (grounding_chunk_from_annotation a)"
proof -
  show "jwf (grounding_chunk_from_annotation a)"
    by (auto simp: grounding_chunk_from_annotation_def intro!: jwf_intros jwf_json_obj)
  have z: "jwf (json_obj [(''startIndex'', unwrap_or (jget a ''start_index'') (json_u32 0)),
                              (''endIndex'', unwrap_or (jget a ''end_index'') (json_u32 0))])" if "jwf a"
    using that by (simp add: jwf_json_obj jwf_unwrap jwf_option)
  show "jwf (grounding_support_from_annotation a i)" if "jwf a"
    using z [OF that] by (auto simp: grounding_support_from_annotation_def Let_def intro!: jwf_intros jwf_json_obj)
qed

lemma jwf_gemini_parts [simp]: "jwf (gemini_text_part t)" "jwf (gemini_media_part m d)"
  by (simp_all add: gemini_text_part_def gemini_media_part_def jwf_json_obj)

lemma jwf_flushed_gemini: "list_all jwf (flushed gemini_text_part t xs) = list_all jwf xs"
  by (simp add: flushed_def)

lemma gemini_body_step_wf:
  assumes "gemini_body_wf s" "ev_jwf e"
  shows "gemini_body_wf (gemini_body_step e s)"
proof (cases e)
  case (Protocol t p)
  then have p: "jwf p" using assms by simp
  have "gemini_body_wf (gemini_body_rows t p s)"
    using assms(1) p unfolding gemini_body_rows_def by (simp add: gemini_body_wf_def)
  then show ?thesis
    using assms(1) unfolding Protocol gemini_body_step.simps gemini_body_protocol_def by (simp add: gemini_body_wf_def)
next
  case (Logprobs c r)
  then show ?thesis using assms by (cases r) (simp_all add: gemini_body_wf_def jwf_extend)
next
  case (ServiceTier t)
  then show ?thesis using assms by (simp add: gemini_body_wf_def split: option.split prod.split)
qed (use assms in \<open>(simp; fail) | simp add: gemini_body_wf_def jwf_flushed_gemini\<close>)+

lemma gemini_collect_wf: "list_all ev_jwf evs \<Longrightarrow> gemini_body_wf (gemini_collect evs)"
proof -
  have "list_all ev_jwf evs \<Longrightarrow> gemini_body_wf s \<Longrightarrow> gemini_body_wf (fold gemini_body_step evs s)" for s
    by (induction evs arbitrary: s) (simp_all add: gemini_body_step_wf)
  moreover have "gemini_body_wf gemini_body_init" by (simp add: gemini_body_wf_def gemini_body_init_def)
  ultimately show "list_all ev_jwf evs \<Longrightarrow> gemini_body_wf (gemini_collect evs)" by (simp add: gemini_collect_def)
qed

lemma jwf_function_call: "parser_wf parse \<Longrightarrow> pred_option jwf (gemini_function_call_value parse t)"
  by (auto simp: gemini_function_call_value_def Let_def jwf_custom_input jwf_args intro!: jwf_intros jwf_json_obj)

lemma jwf_function_calls:
  "parser_wf parse \<Longrightarrow> list_all jwf (List.map_filter (\<lambda>(_, t). gemini_function_call_value parse t) ts)"
proof (induction ts)
  case (Cons p ts)
  obtain i t where p: "p = (i, t)" by (cases p)
  show ?case
    using Cons jwf_function_call [of parse t]
    by (cases "gemini_function_call_value parse t") (simp_all add: p List.map_filter_simps)
qed (simp add: List.map_filter_simps)

lemma jwf_gemini_usage: "jwf (gemini_usage_body p c cr rs au cau)"
  by (auto simp: gemini_usage_body_def insert_if_def Let_def audio_detail_def intro!: jwf_jinsert jwf_json_obj)


lemma jwf_list_option: "jwf v \<Longrightarrow> list_all jwf (unwrap_or (Option.bind (jget v k) as_array) [])"
proof (cases "jget v k")
  case (Some w)
  assume "jwf v"
  with Some have "jwf w" by (auto dest: jwf_jget)
  then show ?thesis using Some by (cases w) (simp_all add: unwrap_or_def)
qed (simp add: unwrap_or_def)

lemma jwf_token: "jwf v \<Longrightarrow> jwf (gemini_token_from_chat v)"
  by (auto simp: gemini_token_from_chat_def jwf_json_obj jwf_option intro!: jwf_intros)

lemma jwf_logprobs_result:
  assumes "list_all jwf xs"
  shows "jwf (logprobs_to_result (JArray xs))"
proof -
  have l: "list_all jwf ys \<Longrightarrow> (\<And>y. jwf y \<Longrightarrow> jwf (f y)) \<Longrightarrow> list_all jwf (map f ys)" for f ys
    by (induction ys) auto
  have "list_all jwf (map gemini_token_from_chat xs)"
    by (rule l [OF assms jwf_token])
  moreover have "list_all jwf (map (\<lambda>item. json_obj [(''candidates'', JArray (map gemini_token_from_chat
        (unwrap_or (Option.bind (jget item ''top_logprobs'') as_array) [])))]) xs)"
    by (rule l [OF assms]) (auto intro!: jwf_json_obj l jwf_token jwf_list_option)
  ultimately show ?thesis
    by (simp add: logprobs_to_result_def unwrap_or_def jwf_json_obj)
qed

lemma jwf_tool_use_tokens: "jwf u \<Longrightarrow> jwf (insert_gemini_tool_use_prompt_tokens n u)"
  by (cases u; cases "positive n")
    (auto simp: insert_gemini_tool_use_prompt_tokens_def Let_def intro!: list_all_bt_insert split: option.split)

lemma jwf_modality: "jwf u \<Longrightarrow> pred_option jwf d \<Longrightarrow> jwf (insert_gemini_modality_details k d u)"
  by (cases d) (auto simp: insert_gemini_modality_details_def ofilter_def intro!: jwf_jinsert)

lemma jwf_traffic: "jwf u \<Longrightarrow> jwf (insert_gemini_traffic_type k u)"
  by (cases k) (auto simp: insert_gemini_traffic_type_def ofilter_def intro!: jwf_jinsert)

lemma jwf_object_or_empty: "jwf out \<Longrightarrow> jwf (unwrap_or (ofilter is_object (jget out k)) (JObject []))"
  by (auto simp: ofilter_def intro!: jwf_unwrap dest: jwf_jget split: option.split)

lemma jwf_gemini_candidate:
  assumes s: "gemini_body_wf s" and p: "parser_wf parse"
  shows "jwf (gemini_candidate_value parse s)"
proof -
  have "list_all jwf (gemini_thought_value s)"
    by (auto simp: gemini_thought_value_def jwf_json_obj intro!: jwf_intros)
  then have parts: "list_all jwf (gemini_parts_value parse s)"
    using s p by (simp add: gemini_parts_value_def jwf_flushed_gemini jwf_function_calls gemini_body_wf_def)
  have "pred_option jwf (map_option (\<lambda>html. json_obj [(''renderedContent'', JString html)]) x)" for x
    by (cases x) (simp_all add: jwf_json_obj)
  then have g: "pred_option jwf (gemini_grounding_value s)"
    using s by (auto simp: gemini_grounding_value_def gemini_body_wf_def jwf_json_obj intro!: jwf_intros)
  have l: "pred_option jwf (if gb_logprobs s = [] then None else Some (logprobs_to_result (JArray (gb_logprobs s))))"
    using s by (simp add: jwf_logprobs_result gemini_body_wf_def)
  have n: "pred_option jwf (map_option (\<lambda>w. JNumber (Float w)) x)" "pred_option jwf (map_option json_u32 y)" for x y
    by (cases x; simp) (cases y; simp)
  show ?thesis
    using s parts g l n
    by (auto simp: gemini_candidate_value_def Let_def gemini_body_wf_def jwf_json_obj intro!: jwf_intros)
qed

lemma jwf_gemini_body:
  assumes s: "gemini_body_wf s" and p: "parser_wf parse"
  shows "jwf (gemini_body_value parse m s)"
proof -
  have ps: "pred_option jwf (map_option (\<lambda>r. json_obj [(''safetyRatings'', r)]) (gb_prompt_safety s))"
    using s by (cases "gb_prompt_safety s") (simp_all add: jwf_json_obj gemini_body_wf_def)
  then have f: "jwf (gemini_feedback_value s out)" if "jwf out" for out
    using that by (auto simp: gemini_feedback_value_def Let_def
        intro!: jwf_intros jwf_object_or_empty split: option.split)
  have u: "pred_option jwf (gemini_usage_value s)"
    using s by (auto simp: gemini_usage_value_def encode_gemini_def gemini_body_wf_def
        intro!: jwf_modality jwf_tool_use_tokens jwf_traffic jwf_gemini_usage split: option.split)
  have t: "jwf (gemini_tier_value x out)" if "jwf out" for x out
    using that by (auto simp: gemini_tier_value_def intro!: jwf_jinsert jwf_object_or_empty split: option.split)
  show ?thesis
    using u jwf_gemini_candidate [OF s p]
    by (auto simp: gemini_body_value_def Let_def intro!: t f jwf_intros jwf_json_obj)
qed

section \<open>Converse bodies\<close>

definition converse_body_wf :: "complete_state \<Rightarrow> bool" where
  "converse_body_wf st =
     (list_all jwf (cc_content st) \<and> list_all jwf (cc_citations st) \<and> list_all (\<lambda>(k, v). jwf v) (cc_pass st))"

lemma jwf_flush_text: "list_all jwf xs \<Longrightarrow> list_all jwf (flush_text t xs)"
  by (simp add: flush_text_def jwf_json_obj)

lemma converse_body_wf_parts:
  "converse_body_wf st \<Longrightarrow> converse_body_wf (cc_flush st)"
  "converse_body_wf (cc_arg i d st) = converse_body_wf st"
  by (simp_all add: converse_body_wf_def cc_flush_def cc_arg_def jwf_flush_text Let_def)

lemma converse_note_wf: "converse_body_wf st \<Longrightarrow> converse_body_wf (cc_note i id' n c st)"
  using converse_body_wf_parts(1) [of st]
  by (simp add: cc_note_def Let_def converse_body_wf_def split: prod.split)

lemma converse_protocol_wf: "converse_body_wf st \<Longrightarrow> jwf p \<Longrightarrow> converse_body_wf (cc_protocol t p st)"
  using converse_body_wf_parts(1) [of st]
  by (auto simp: cc_protocol_def Let_def converse_body_wf_def jwf_json_obj split: option.split)

lemma jwf_converse_citation: "jwf (converse_citation_from_annotation a)"
  by (auto simp: converse_citation_from_annotation_def Let_def jwf_json_obj intro!: jwf_intros)

lemma complete_step_wf:
  assumes "converse_body_wf st" "ev_jwf e" "complete_step e st = Inr st'"
  shows "converse_body_wf st'"
proof (cases e)
  case (ImageDelta m d)
  then show ?thesis
    using assms converse_body_wf_parts(1) [of st]
    by (auto simp: converse_body_wf_def Let_def jwf_json_obj split: option.splits)
next
  case (ServiceTier t)
  then show ?thesis using assms by (auto simp: converse_body_wf_def split: option.splits prod.splits)
next
  case (Protocol t p)
  then show ?thesis using assms by (auto intro: converse_protocol_wf)
next
  case (ToolCallStart i n g j)
  then show ?thesis using assms by (auto intro: converse_note_wf)
next
  case (CustomToolCallStart i n j)
  then show ?thesis using assms by (auto intro: converse_note_wf)
next
  case (ToolCallArgDelta d j)
  then show ?thesis using assms converse_body_wf_parts(2) [of j d st] by auto
next
  case (CustomToolCallInputDelta d j)
  then show ?thesis using assms converse_body_wf_parts(2) [of j d st] by auto
qed (use assms in \<open>auto simp: converse_body_wf_def jwf_converse_citation\<close>)

lemma complete_steps_wf:
  "converse_body_wf st \<Longrightarrow> list_all ev_jwf evs \<Longrightarrow> complete_steps evs st = Inr st' \<Longrightarrow> converse_body_wf st'"
  by (induction evs arbitrary: st) (auto split: sum.splits dest: complete_step_wf)

lemma jwf_place_citations:
  assumes "list_all jwf cs" "list_all jwf xs"
  shows "list_all jwf (place_citations cs xs)"
proof -
  let ?ok = "\<lambda>krc. list_all jwf (fst krc) \<and> list_all jwf (fst (snd krc))"
  have b: "list_all jwf run \<Longrightarrow> jwf (citations_block run cs)" for run
    using assms(1) by (simp add: citations_block_def jwf_json_obj)
  have f: "?ok krc \<Longrightarrow> ?ok (flush_run cs krc)" for krc
    by (cases krc) (auto simp: flush_run_def b)
  have c: "?ok (cite_step cs krc x)" if "?ok krc" "jwf x" for krc x
    using f [OF that(1)] that by (cases krc; cases "flush_run cs krc") (auto simp: cite_step_def)
  have "list_all jwf ys \<Longrightarrow> ?ok krc \<Longrightarrow> ?ok (foldl (cite_step cs) krc ys)" for ys krc
    by (induction ys arbitrary: krc) (simp_all add: c)
  from f [OF this [OF assms(2), of "([], [], False)"]] show ?thesis
    by (auto simp: place_citations_def b split: prod.split)
qed

lemma jwf_converse_tool: "parser_wf parse \<Longrightarrow> jwf (converse_tool_use parse t)"
  by (auto simp: converse_tool_use_def Let_def jwf_custom_input parser_wf_def intro!: jwf_json_obj jwf_unwrap)

lemma jwf_converse_body:
  assumes st: "converse_body_wf st" and p: "parser_wf parse"
  shows "jwf (complete_body parse st)"
proof -
  have r: "list_all jwf (reasoning_prefix st)"
    by (auto simp: reasoning_prefix_def list_all_iff intro!: jwf_intros jwf_json_obj)
  have t: "list_all jwf (map (\<lambda>(_, t). converse_tool_use parse t) ts)" for ts
    by (induction ts) (auto simp: jwf_converse_tool p)
  have u: "pred_option jwf (map_option (\<lambda>(i, out, cr, cw). encode_converse_usage i out cr cw) x)" for x
    by (cases x) (auto simp: encode_converse_usage_def Let_def insert_if_def intro!: jwf_jinsert jwf_json_obj)
  have y: "pred_option jwf (map_option (\<lambda>t. json_obj [(''type'', JString t)]) x)" for x
    by (cases x) (simp_all add: jwf_json_obj)
  have fl: "list_all (\<lambda>(k, v). jwf v) kvs \<Longrightarrow> jwf b \<Longrightarrow> jwf (foldl (\<lambda>b (k, v). jinsert k v b) b kvs)" for kvs b
    by (induction kvs arbitrary: b) (auto intro: jwf_jinsert)
  show ?thesis
    using st unfolding complete_body_def Let_def
    by (intro fl jwf_intros jwf_json_obj u y)
      (auto simp: converse_body_wf_def r t jwf_flush_text jwf_place_citations intro!: jwf_json_obj)
qed

section \<open>Every wire\<close>




end
