(* ===== verification/Wm_Profile_Types.thy ===== *)
theory Wm_Profile_Types
  imports Wm_Ir
begin

text \<open>
  The enumerations of a profile document (\<open>profile/types.rs\<close> of \<open>wiremux-auth\<close>): their spellings, the parsers
  with the message an unknown spelling gets, and the suggestion in that message. \<open>edit_distance\<close> is the
  two-row table of the source, with its index updates; it is shown to be the least number of edits.
\<close>

section \<open>Spelling suggestions\<close>

text \<open>\<open>chars()\<close> of a \<open>&str\<close>: the bytes grouped into characters.\<close>

function chars :: "string \<Rightarrow> string list" where
  "chars s =
     (case s of
        [] \<Rightarrow> []
      | b # rest \<Rightarrow> (let n = snd (utf8_step b rest) in take n s # chars (drop n s)))"
  by pat_completeness auto
termination
proof (relation "measure length", goal_cases)
  case (2 s b rest n)
  then show ?case using utf8_step_pos [of b rest] by (cases "utf8_step b rest") auto
qed simp

declare chars.simps [simp del]

definition edit_cell :: "'a \<Rightarrow> 'a list \<Rightarrow> nat list \<Rightarrow> nat list \<Rightarrow> nat \<Rightarrow> nat list" where
  "edit_cell ca b prev cur j =
     (let cost = (if ca \<noteq> b ! j then 1 else 0)
      in cur[j + 1 := min (min (prev ! (j + 1) + 1) (cur ! j + 1)) (prev ! j + cost)])"

definition edit_row :: "'a list \<Rightarrow> nat list \<times> nat list \<Rightarrow> nat \<times> 'a \<Rightarrow> nat list \<times> nat list" where
  "edit_row b rows ic =
     (case (rows, ic) of
        ((prev, cur), (i, ca)) \<Rightarrow>
          (let cur = foldl (edit_cell ca b prev) (cur[0 := i + 1]) [0..<length b] in (cur, prev)))"

definition edit_distance_chars :: "'a list \<Rightarrow> 'a list \<Rightarrow> nat" where
  "edit_distance_chars a b =
     fst (foldl (edit_row b) ([0..<length b + 1], replicate (length b + 1) 0) (List.enumerate 0 a)) ! length b"

definition edit_distance :: "string \<Rightarrow> string \<Rightarrow> nat" where
  "edit_distance a b = edit_distance_chars (chars a) (chars b)"

definition fold_enum_key :: "string \<Rightarrow> string" where
  "fold_enum_key s = filter (\<lambda>c. c \<noteq> CHR ''_'' \<and> c \<noteq> CHR ''-'') (to_ascii_lowercase s)"

text \<open>One option of the loop: \<open>Inl\<close> the early return of an exact match, \<open>Inr\<close> the best option so far and the
  options that share a prefix or suffix.\<close>

definition suggest_step ::
  "string \<Rightarrow> string \<Rightarrow> (string \<times> nat) option \<times> string list \<Rightarrow> string + (string \<times> nat) option \<times> string list" where
  "suggest_step folded opt st =
     (let candidate = fold_enum_key opt
      in if candidate = folded then Inl opt
         else
           let (best, pre) = st;
               dist = edit_distance folded candidate;
               best = (if 0 < dist \<and> dist \<le> 2 then
                         (case best of
                            None \<Rightarrow> Some (opt, dist)
                          | Some (best_opt, best_dist) \<Rightarrow>
                              if dist < best_dist \<or> (dist = best_dist \<and> length opt > length best_opt)
                              then Some (opt, dist) else best)
                       else best);
               pre = (if starts_with folded candidate \<or> starts_with candidate folded
                         \<or> ends_with folded candidate \<or> ends_with candidate folded
                      then pre @ [opt] else pre)
           in Inr (best, pre))"

fun suggest_loop ::
  "string \<Rightarrow> string list \<Rightarrow> (string \<times> nat) option \<times> string list \<Rightarrow> string option" where
  "suggest_loop folded [] st =
     (case st of
        (Some (opt, _), _) \<Rightarrow> Some opt
      | (None, pre) \<Rightarrow> (case pre of [only] \<Rightarrow> Some only | _ \<Rightarrow> None))"
| "suggest_loop folded (opt # legal) st =
     (case suggest_step folded opt st of Inl opt \<Rightarrow> Some opt | Inr st \<Rightarrow> suggest_loop folded legal st)"

definition suggest_kebab :: "string \<Rightarrow> string list \<Rightarrow> string option" where
  "suggest_kebab input legal =
     (let folded = fold_enum_key input in if folded = [] then None else suggest_loop folded legal (None, []))"

definition did_you_mean :: "string option \<Rightarrow> string" where
  "did_you_mean suggest = (case suggest of None \<Rightarrow> [] | Some s \<Rightarrow> ''; did you mean `'' @ s @ ''`'')"

definition unknown_kebab :: "string \<Rightarrow> string \<Rightarrow> string list \<Rightarrow> string" where
  "unknown_kebab field got legal =
     ''unknown '' @ field @ '' `'' @ got @ ''` ('' @ join ''|'' legal @ '')'' @ did_you_mean (suggest_kebab got legal)"

definition not_found_message :: "string \<Rightarrow> string list \<Rightarrow> string" where
  "not_found_message id' known =
     ''profile `'' @ id' @ ''` not found (known: '' @ (if known = [] then ''(none)'' else join '', '' known) @ '')''
     @ did_you_mean (suggest_kebab id' known)"


section \<open>Enumerations\<close>

datatype list_merge = MergeUnion | MergeReplace

datatype tool_type_policy = ToolPassthrough | ToolFlattenNamespace | ToolHardError

datatype auth_scheme = AuthBearer | AuthXApiKey | AuthHeader string | AuthNone

datatype token_request_format = TokenJson | TokenForm

datatype creds_format = JsonPointer | ClaudeCredentials | OidcAuthJson | CopilotHosts

datatype expires_unit = UnitMs | UnitS

datatype login = LoginSetupToken | LoginPkce | LoginDevice | LoginNone

datatype tool_name_case = CaseAsIs | CaseSnake | CaseKebab

datatype forbidden_field_policy = ForbiddenStrip | ForbiddenHardError

text \<open>\<open>match s { spelling => Ok(value), ..., other => Err(unknown_kebab(field, other, names)) }\<close>: the table of
  spellings, in the order of the arms.\<close>

definition parse_enum :: "string \<Rightarrow> (string \<times> 'a) list \<Rightarrow> string \<Rightarrow> string + 'a" where
  "parse_enum field tbl s =
     (case map_of tbl s of Some v \<Rightarrow> Inr v | None \<Rightarrow> Inl (unknown_kebab field s (map fst tbl)))"

definition wire_table :: "(string \<times> wire) list" where
  "wire_table =
     [(''chat-completions'', ChatCompletions), (''messages'', Messages), (''responses'', Responses),
      (''gemini'', Gemini), (''converse'', Converse)]"

definition wire_names :: "string list" where
  "wire_names = map fst wire_table"

definition wire_parse :: "string \<Rightarrow> string + wire" where
  "wire_parse = parse_enum ''wire'' wire_table"

definition wire_suggest :: "string \<Rightarrow> string option" where
  "wire_suggest s = suggest_kebab s wire_names"

definition list_merge_parse :: "string \<Rightarrow> string + list_merge" where
  "list_merge_parse =
     parse_enum ''list_merge'' [(''union'', MergeUnion), (''replace'', MergeReplace), (''verbatim'', MergeReplace)]"

definition tool_type_policy_parse :: "string \<Rightarrow> string + tool_type_policy" where
  "tool_type_policy_parse =
     parse_enum ''tool_type_policy'' [(''passthrough'', ToolPassthrough),
       (''flatten-namespace'', ToolFlattenNamespace), (''hard-error'', ToolHardError)]"

definition stream_unknown_policy_parse :: "string \<Rightarrow> string + stream_unknown_policy" where
  "stream_unknown_policy_parse =
     parse_enum ''stream_unknown_policy'' [(''hard-error'', HardError), (''passthrough'', Passthrough)]"

definition token_request_format_parse :: "string \<Rightarrow> string + token_request_format" where
  "token_request_format_parse = parse_enum ''token_request_format'' [(''json'', TokenJson), (''form'', TokenForm)]"

definition creds_format_parse :: "string \<Rightarrow> string + creds_format" where
  "creds_format_parse =
     parse_enum ''creds_format'' [(''json-pointer'', JsonPointer), (''claude-credentials'', ClaudeCredentials),
       (''oidc-auth-json'', OidcAuthJson), (''copilot-hosts'', CopilotHosts)]"

definition expires_unit_parse :: "string \<Rightarrow> string + expires_unit" where
  "expires_unit_parse = parse_enum ''expires_unit'' [(''ms'', UnitMs), (''s'', UnitS)]"

definition login_parse :: "string \<Rightarrow> string + login" where
  "login_parse =
     parse_enum ''login'' [(''setup-token'', LoginSetupToken), (''pkce'', LoginPkce), (''device'', LoginDevice),
       (''none'', LoginNone)]"

definition tool_name_case_parse :: "string \<Rightarrow> string + tool_name_case" where
  "tool_name_case_parse =
     parse_enum ''tool_name_case'' [(''as-is'', CaseAsIs), (''snake'', CaseSnake), (''kebab'', CaseKebab)]"

definition forbidden_field_policy_parse :: "string \<Rightarrow> string + forbidden_field_policy" where
  "forbidden_field_policy_parse =
     parse_enum ''forbidden_field_policy'' [(''strip'', ForbiddenStrip), (''hard-error'', ForbiddenHardError)]"

definition AUTH_SCHEME_NAMES :: "string list" where
  "AUTH_SCHEME_NAMES = [''bearer'', ''x-api-key'', ''none'', ''header:<name>'']"

definition auth_scheme_parse :: "string \<Rightarrow> string + auth_scheme" where
  "auth_scheme_parse s =
     (case strip_prefix ''header:'' s of
        Some name \<Rightarrow>
          if name = [] then Inl ''auth_scheme header: requires a header name'' else Inr (AuthHeader name)
      | None \<Rightarrow>
          if s = ''bearer'' then Inr AuthBearer
          else if s = ''x-api-key'' then Inr AuthXApiKey
          else if s = ''none'' then Inr AuthNone
          else Inl (''unknown auth_scheme `'' @ s @ ''` (bearer|x-api-key|none|header:<name>)''
                    @ did_you_mean (suggest_kebab s AUTH_SCHEME_NAMES)))"

fun auth_scheme_serialize :: "auth_scheme \<Rightarrow> string" where
  "auth_scheme_serialize AuthBearer = ''bearer''"
| "auth_scheme_serialize AuthXApiKey = ''x-api-key''"
| "auth_scheme_serialize (AuthHeader name) = ''header:'' @ name"
| "auth_scheme_serialize AuthNone = ''none''"

fun default_auth_scheme :: "wire \<Rightarrow> auth_scheme" where
  "default_auth_scheme Messages = AuthXApiKey"
| "default_auth_scheme Gemini = AuthHeader ''x-goog-api-key''"
| "default_auth_scheme ChatCompletions = AuthBearer"
| "default_auth_scheme Responses = AuthBearer"
| "default_auth_scheme Converse = AuthBearer"


section \<open>The least number of edits\<close>

text \<open>An edit script from one text to another, built from left to right: keep or change a character, delete
  one, insert one.\<close>

inductive edits :: "nat \<Rightarrow> 'a list \<Rightarrow> 'a list \<Rightarrow> bool" where
  start: "edits 0 [] []"
| change: "edits n xs ys \<Longrightarrow> edits (n + (if x \<noteq> y then 1 else 0)) (xs @ [x]) (ys @ [y])"
| delete: "edits n xs ys \<Longrightarrow> edits (n + 1) (xs @ [x]) ys"
| insert: "edits n xs ys \<Longrightarrow> edits (n + 1) xs (ys @ [y])"

text \<open>The table entry for two prefixes, with the prefixes reversed.\<close>

fun lev :: "'a list \<Rightarrow> 'a list \<Rightarrow> nat" where
  "lev [] ys = length ys"
| "lev xs [] = length xs"
| "lev (x # xs) (y # ys) =
     min (min (lev xs (y # ys) + 1) (lev (x # xs) ys + 1)) (lev xs ys + (if x \<noteq> y then 1 else 0))"

lemma edits_nil_left: "edits (length ys) [] (ys :: 'a list)"
  by (induction ys rule: rev_induct) (auto intro: edits.intros insert [of _ _ _, simplified])

lemma edits_nil_right: "edits (length xs) (xs :: 'a list) []"
  by (induction xs rule: rev_induct) (auto intro: edits.intros delete [of _ _ _, simplified])

lemma edits_lev: "edits (lev xs ys) (rev xs) (rev ys)"
proof (induction xs ys rule: lev.induct)
  case (1 ys)
  show ?case using edits_nil_left [of "rev ys"] by simp
next
  case (2 x xs)
  show ?case using edits_nil_right [of "rev (x # xs)"] by simp
next
  case (3 x xs y ys)
  consider "lev (x # xs) (y # ys) = lev xs (y # ys) + 1" | "lev (x # xs) (y # ys) = lev (x # xs) ys + 1"
    | "lev (x # xs) (y # ys) = lev xs ys + (if x \<noteq> y then 1 else 0)"
    by (metis lev.simps(3) min_def)
  then show ?case
  proof cases
    case 1
    then show ?thesis using delete [OF 3(1), of x] by (simp only: rev.simps)
  next
    case 2
    then show ?thesis using insert [OF 3(2), of y] by (simp only: rev.simps)
  next
    case 3: 3
    then show ?thesis using change [OF \<open>edits (lev xs ys) (rev xs) (rev ys)\<close>, of x y] by (simp only: rev.simps)
  qed
qed

lemma lev_nil_right [simp]: "lev xs [] = length xs"
  by (cases xs) auto

lemma lev_del: "lev (x # xs) ys \<le> lev xs ys + 1"
  by (cases ys) auto

lemma lev_ins: "lev xs (y # ys) \<le> lev xs ys + 1"
  by (cases xs) auto

lemma lev_least: "edits n xs ys \<Longrightarrow> lev (rev xs) (rev ys) \<le> n"
proof (induction rule: edits.induct)
  case (delete n xs ys x)
  then show ?case using lev_del [of x "rev xs" "rev ys"] by simp
next
  case (insert n xs ys y)
  then show ?case using lev_ins [of "rev xs" y "rev ys"] by simp
qed auto


section \<open>The two-row table\<close>

definition prefix_table :: "'a list \<Rightarrow> 'a list \<Rightarrow> nat \<Rightarrow> nat \<Rightarrow> nat" where
  "prefix_table a b i j = lev (rev (take i a)) (rev (take j b))"

lemma table_edges [simp]: "prefix_table a b 0 j = min j (length b)" "i \<le> length a \<Longrightarrow> prefix_table a b i 0 = i"
  by (simp_all add: prefix_table_def min.commute)

lemma table_step:
  "i < length a \<Longrightarrow> j < length b \<Longrightarrow> prefix_table a b (Suc i) (Suc j) =
     min (min (prefix_table a b i (Suc j) + 1) (prefix_table a b (Suc i) j + 1)) (prefix_table a b i j + (if a ! i \<noteq> b ! j then 1 else 0))"
  by (simp add: prefix_table_def take_Suc_conv_app_nth)

lemma edit_cells:
  assumes prev: "\<And>m. m \<le> length b \<Longrightarrow> prev ! m = prefix_table a b i m" and i: "i < length a"
    and cur: "length cur = length b + 1" "cur ! 0 = i + 1" and k: "k \<le> length b"
  shows "length (foldl (edit_cell (a ! i) b prev) cur [0..<k]) = length b + 1
    \<and> (\<forall>m \<le> k. foldl (edit_cell (a ! i) b prev) cur [0..<k] ! m = prefix_table a b (Suc i) m)"
  using k
proof (induction k)
  case 0
  then show ?case using cur i by simp
next
  case (Suc k)
  let ?f = "foldl (edit_cell (a ! i) b prev) cur [0..<k]"
  have IH: "length ?f = length b + 1" "\<And>m. m \<le> k \<Longrightarrow> ?f ! m = prefix_table a b (Suc i) m" and k: "k < length b"
    using Suc by auto
  have step: "foldl (edit_cell (a ! i) b prev) cur [0..<Suc k] = ?f[Suc k := prefix_table a b (Suc i) (Suc k)]"
    using IH k i prev [of k] prev [of "Suc k"] by (simp add: edit_cell_def Let_def table_step)
  show ?case
    unfolding step using IH k by (auto simp: nth_list_update le_Suc_eq)
qed

lemma edit_rows:
  assumes "i \<le> length a"
  shows "\<exists>prev cur. foldl (edit_row b) ([0..<length b + 1], replicate (length b + 1) 0) (take i (List.enumerate 0 a)) = (prev, cur)
    \<and> length prev = length b + 1 \<and> length cur = length b + 1 \<and> (\<forall>m \<le> length b. prev ! m = prefix_table a b i m)"
  using assms
proof (induction i)
  case 0
  show ?case by (simp del: upt_Suc)
next
  case (Suc i)
  then obtain prev cur where
    IH: "foldl (edit_row b) ([0..<length b + 1], replicate (length b + 1) 0) (take i (List.enumerate 0 a)) = (prev, cur)"
      "length prev = length b + 1" "length cur = length b + 1" "\<And>m. m \<le> length b \<Longrightarrow> prev ! m = prefix_table a b i m"
    by auto
  let ?cur = "foldl (edit_cell (a ! i) b prev) (cur[0 := i + 1]) [0..<length b]"
  have "foldl (edit_row b) ([0..<length b + 1], replicate (length b + 1) 0) (take (Suc i) (List.enumerate 0 a)) = (?cur, prev)"
    using IH(1) Suc.prems by (simp add: take_Suc_conv_app_nth nth_enumerate_eq edit_row_def del: upt_Suc)
  moreover have "length ?cur = length b + 1 \<and> (\<forall>m \<le> length b. ?cur ! m = prefix_table a b (Suc i) m)"
    using IH Suc.prems by (intro edit_cells) auto
  ultimately show ?case using IH(2) by blast
qed

lemma edit_distance_lev: "edit_distance_chars a b = lev (rev a) (rev b)"
  using edit_rows [of "length a" a b] by (auto simp: edit_distance_chars_def prefix_table_def simp del: upt_Suc)

text \<open>C27. The two-row table of \<open>edit_distance\<close> computes what its name says: some script of that many insertions,
  deletions and changes turns the first text into the second, and no script is shorter.
\<close>

theorem edit_distance_least:
  "edits (edit_distance a b) (chars a) (chars b) \<and> edit_distance a b = (LEAST n. edits n (chars a) (chars b))"
proof -
  have script: "edits (edit_distance a b) (chars a) (chars b)"
    using edits_lev [of "rev (chars a)" "rev (chars b)"] by (simp add: edit_distance_def edit_distance_lev)
  moreover have "edit_distance a b \<le> n" if "edits n (chars a) (chars b)" for n
    using lev_least [OF that] by (simp add: edit_distance_def edit_distance_lev)
  ultimately show ?thesis
    by (simp add: Least_equality)
qed


section \<open>Suggestions and spellings\<close>

definition suggest_ok :: "string list \<Rightarrow> (string \<times> nat) option \<times> string list \<Rightarrow> bool" where
  "suggest_ok legal st = ((\<forall>opt n. fst st = Some (opt, n) \<longrightarrow> opt \<in> set legal) \<and> set (snd st) \<subseteq> set legal)"

lemma suggest_step_ok:
  "suggest_ok legal st \<Longrightarrow> opt \<in> set legal \<Longrightarrow> suggest_step folded opt st = Inr st' \<Longrightarrow> suggest_ok legal st'"
  by (cases st; cases "fst st") (auto simp: suggest_ok_def suggest_step_def Let_def split: if_splits option.splits)

lemma suggest_loop_member:
  "suggest_ok legal st \<Longrightarrow> set opts \<subseteq> set legal \<Longrightarrow> suggest_loop folded opts st = Some opt \<Longrightarrow> opt \<in> set legal"
proof (induction opts arbitrary: st)
  case Nil
  then show ?case by (auto simp: suggest_ok_def split: prod.splits option.splits list.splits)
next
  case (Cons x opts)
  have "suggest_step folded x st = Inl y \<Longrightarrow> y = x" for y
    by (auto simp: suggest_step_def Let_def split: if_splits prod.splits)
  then show ?case
    using Cons suggest_step_ok [of legal st x folded] by (auto split: sum.splits)
qed

lemma suggest_exact:
  "set opts \<subseteq> set legal \<Longrightarrow> opt \<in> set opts \<Longrightarrow> fold_enum_key opt = folded \<Longrightarrow>
     \<exists>opt'. suggest_loop folded opts st = Some opt' \<and> fold_enum_key opt' = folded"
  by (induction opts arbitrary: st) (auto simp: suggest_step_def Let_def split: sum.splits)

text \<open>The suggestion in an error message is always one of the legal spellings, and a spelling that differs from
  a legal one only in case, underscores and hyphens is always answered with a legal spelling that differs from
  it in no more than that.
\<close>

theorem suggest_kebab_sound:
  "(suggest_kebab input legal = Some opt \<longrightarrow> opt \<in> set legal)
   \<and> (opt \<in> set legal \<and> fold_enum_key opt = fold_enum_key input \<and> fold_enum_key input \<noteq> []
        \<longrightarrow> (\<exists>opt'. suggest_kebab input legal = Some opt' \<and> opt' \<in> set legal \<and> fold_enum_key opt' = fold_enum_key input))"
proof -
  have ok: "suggest_ok legal (None, [])" by (simp add: suggest_ok_def)
  then show ?thesis
    using suggest_loop_member [OF ok subset_refl] suggest_exact [OF subset_refl, of opt legal "fold_enum_key input"]
    by (simp add: suggest_kebab_def Let_def) blast
qed

lemma fold_example:
  "fold_enum_key ''Chat_Completions'' = ''chatcompletions''" "fold_enum_key ''chat-completions'' = ''chatcompletions''"
  by code_simp+

theorem suggest_kebab_sound_witness:
  "\<exists>opt'. suggest_kebab ''Chat_Completions'' wire_names = Some opt' \<and> opt' \<in> set wire_names
     \<and> fold_enum_key opt' = fold_enum_key ''Chat_Completions''"
  using suggest_kebab_sound [of "''Chat_Completions''" wire_names "''chat-completions''"]
  by (simp add: fold_example wire_names_def wire_table_def)

lemma wire_parse_as_str: "wire_parse (wire_as_str w) = Inr w"
  by (cases w) (simp_all add: wire_parse_def parse_enum_def wire_table_def)

lemma auth_scheme_round_trip:
  "auth_scheme_parse (auth_scheme_serialize s) = (if s = AuthHeader [] then Inl ''auth_scheme header: requires a header name'' else Inr s)"
  by (cases s) (simp_all add: auth_scheme_parse_def)

end
