(* ===== verification/Wm_Profile_Scan.thy ===== *)
theory Wm_Profile_Scan
  imports Wm_Profile_Types
begin

text \<open>
  What a profile document may contain (\<open>profile/refuse.rs\<close>), how environment references in it are replaced
  (\<open>profile/envsubst.rs\<close>), and the order in which \<open>profile/parse.rs\<close> applies the two. \<open>env\<close> is the process
  environment; \<open>url_parse\<close> is the \<open>url\<close> crate's parser, reduced to the scheme and the host the scanner reads.
\<close>

section \<open>Environment substitution\<close>

definition is_ident_start :: "char \<Rightarrow> bool" where
  "is_ident_start c = (is_ascii_alphabetic c \<or> c = CHR ''_'')"

definition is_ident_char :: "char \<Rightarrow> bool" where
  "is_ident_char c = (is_ascii_alphanumeric c \<or> c = CHR ''_'')"

definition is_ident :: "string \<Rightarrow> bool" where
  "is_ident s = (case s of [] \<Rightarrow> False | c # cs \<Rightarrow> is_ident_start c \<and> list_all is_ident_char cs)"

definition ident_prefix_len :: "string \<Rightarrow> nat" where
  "ident_prefix_len s =
     (case s of [] \<Rightarrow> 0 | c # cs \<Rightarrow> if is_ident_start c then length (takeWhile is_ident_char s) else 0)"

text \<open>\<open>{env:VAR}\<close> or \<open>${VAR}\<close> after its opening: the variable and the length of the whole reference.\<close>

definition braced_ref :: "nat \<Rightarrow> string \<Rightarrow> (string \<times> nat) option" where
  "braced_ref opening rest =
     (case split_once (CHR ''}'') rest of
        None \<Rightarrow> None
      | Some (var, _) \<Rightarrow> if is_ident var then Some (var, opening + length var + 1) else None)"

definition match_env_ref :: "string \<Rightarrow> (string \<times> nat) option" where
  "match_env_ref s =
     (case strip_prefix ''{env:'' s of
        Some rest \<Rightarrow> braced_ref 5 rest
      | None \<Rightarrow>
          (case strip_prefix ''${'' s of
             Some rest \<Rightarrow> braced_ref 2 rest
           | None \<Rightarrow>
               (case strip_prefix ''$'' s of
                  Some rest \<Rightarrow>
                    (let n = ident_prefix_len rest in if n > 0 then Some (take n rest, 1 + n) else None)
                | None \<Rightarrow> None)))"

lemma match_env_ref_bounds: "match_env_ref s = Some (var, n) \<Longrightarrow> 0 < n \<and> n \<le> length s"
proof -
  assume m: "match_env_ref s = Some (var, n)"
  have braced: "braced_ref k rest = Some (var, n) \<Longrightarrow> 0 < n \<and> n \<le> k + length rest" for k rest
    by (auto simp: braced_ref_def split_once_Some split: option.splits if_splits)
  have short: "length (takeWhile is_ident_char rest) \<le> length rest" for rest
    by (rule length_takeWhile_le)
  show ?thesis
    using m braced short
    by (fastforce simp: match_env_ref_def strip_prefix_Some ident_prefix_len_def Let_def
        split: option.splits if_splits list.splits)
qed

lemma utf8_step_width: "0 < snd (utf8_step b rest)"
  using utf8_step_pos [of b rest] by (cases "utf8_step b rest") auto

datatype subst = Keep string | Unset

text \<open>The loop over the input at \<open>i\<close>: the text so far and whether a variable was missing.\<close>

function subst_loop :: "(string \<Rightarrow> string option) \<Rightarrow> string \<Rightarrow> string \<Rightarrow> bool \<Rightarrow> subst" where
  "subst_loop env s out unset =
     (case s of
        [] \<Rightarrow> if unset then Unset else Keep out
      | b # rest \<Rightarrow>
          (case match_env_ref s of
             Some (var, n) \<Rightarrow>
               (case env var of
                  Some v \<Rightarrow>
                    if trim v \<noteq> [] then subst_loop env (drop n s) (out @ v) unset
                    else subst_loop env (drop n s) out True
                | None \<Rightarrow> subst_loop env (drop n s) out True)
           | None \<Rightarrow>
               (let n = snd (utf8_step b rest) in subst_loop env (drop n s) (out @ take n s) unset)))"
  by pat_completeness auto
termination
  by (relation "measure (\<lambda>(env, s, out, unset). length s)")
    (auto dest!: match_env_ref_bounds simp: utf8_step_width)

declare subst_loop.simps [simp del]

definition subst_string :: "(string \<Rightarrow> string option) \<Rightarrow> string \<Rightarrow> subst" where
  "subst_string env s = subst_loop env s [] False"

fun env_walk :: "(string \<Rightarrow> string option) \<Rightarrow> json \<Rightarrow> json" where
  "env_walk env (JString s) = (case subst_string env s of Keep t \<Rightarrow> JString t | Unset \<Rightarrow> JNull)"
| "env_walk env (JArray xs) = JArray (filter (\<lambda>v. \<not> is_null v) (map (env_walk env) xs))"
| "env_walk env (JObject m) =
     JObject (foldl (\<lambda>out (k, v). if is_null v then out else bt_insert k v out) [] (map (\<lambda>(k, v). (k, env_walk env v)) m))"
| "env_walk env v = v"


section \<open>Refusals\<close>

datatype profile_error =
    ProfileParse string
  | SchemaVersion u32 u32
  | MissingField string
  | ForbiddenKey string
  | Interpolation string string
  | DisallowedUrl string string
  | NativeModule string
  | NotFound string "string list"

record parsed_url =
  url_scheme :: string
  url_host :: "string option"

definition FORBIDDEN_KEYS :: "string list" where
  "FORBIDDEN_KEYS =
     [''fn'', ''function'', ''js'', ''javascript'', ''lua'', ''script'', ''command'', ''apply'', ''normalize'']"

definition forbidden_key :: "string \<Rightarrow> bool" where
  "forbidden_key k = list_ex (eq_ignore_ascii_case k) FORBIDDEN_KEYS"

definition is_hint_path :: "string \<Rightarrow> bool" where
  "is_hint_path path =
     (path \<in> {''display_name'', ''displayName'', ''oauth.setup_token_hint'', ''oauth.setupTokenHint''})"

definition is_url_field :: "string \<Rightarrow> bool" where
  "is_url_field key =
     (key \<in> {''base_url'', ''baseUrl'', ''token_url'', ''tokenUrl'', ''token_url_fallback'', ''tokenUrlFallback'',
             ''authorize_url'', ''authorizeUrl'', ''device_auth_url'', ''deviceAuthUrl'', ''redirect_uri'',
             ''redirectUri'', ''chat_path'', ''chatPath'', ''messages_path'', ''messagesPath'', ''responses_path'',
             ''responsesPath'', ''gemini_path'', ''geminiPath'', ''converse_path'', ''conversePath''})"

definition scheme_of :: "string \<Rightarrow> string option" where
  "scheme_of s =
     (case split_once (CHR '':'') s of
        None \<Rightarrow> None
      | Some (scheme, _) \<Rightarrow> if scheme = [] \<or> \<not> list_all is_ascii_alphabetic scheme then None else Some scheme)"

definition loopback_host :: "parsed_url \<Rightarrow> bool" where
  "loopback_host u =
     (case url_host u of
        None \<Rightarrow> False
      | Some host \<Rightarrow>
          (let host = unwrap_or (Option.bind (strip_prefix ''['' host) (strip_suffix '']'')) host
           in eq_ignore_ascii_case host ''localhost'' \<or> eq_ignore_ascii_case host ''localhost.''
              \<or> host = ''127.0.0.1'' \<or> host = ''::1''))"

definition is_loopback_http :: "(string \<Rightarrow> parsed_url option) \<Rightarrow> string \<Rightarrow> bool" where
  "is_loopback_http url_parse url =
     (case url_parse (trim url) of
        None \<Rightarrow> False | Some u \<Rightarrow> eq_ignore_ascii_case (url_scheme u) ''http'' \<and> loopback_host u)"

definition check_url :: "(string \<Rightarrow> parsed_url option) \<Rightarrow> string \<Rightarrow> string \<Rightarrow> profile_error + unit" where
  "check_url url_parse field raw =
     (let s = trim raw
      in case url_parse s of
           Some u \<Rightarrow>
             if eq_ignore_ascii_case (url_scheme u) ''https''
                \<or> (eq_ignore_ascii_case (url_scheme u) ''http'' \<and> loopback_host u)
             then Inr () else Inl (DisallowedUrl field raw)
         | None \<Rightarrow>
             (case scheme_of s of
                None \<Rightarrow> Inr ()
              | Some scheme \<Rightarrow>
                  (let l = to_ascii_lowercase scheme
                   in if (if l = ''https'' then True else if l = ''http'' then is_loopback_http url_parse s else False)
                      then Inr () else Inl (DisallowedUrl field raw))))"

fun has_dollar_paren :: "string \<Rightarrow> bool" where
  "has_dollar_paren (a # b # cs) =
     (if a = CHR ''$'' \<and> b = CHR ''('' then CHR '')'' \<in> set cs else has_dollar_paren (b # cs))"
| "has_dollar_paren _ = False"

definition refuse_interpolation :: "string \<Rightarrow> string \<Rightarrow> profile_error + unit" where
  "refuse_interpolation s path =
     (case (if starts_with ''!'' (trim_start s) then Some ''!''
            else if has_dollar_paren s then Some ''$(...)''
            else if CHR 0x60 \<in> set s \<and> \<not> is_hint_path path then Some ''backticks''
            else None) of
        Some trigger \<Rightarrow> Inl (Interpolation path trigger)
      | None \<Rightarrow> Inr ())"

definition is_native_module_path :: "string \<Rightarrow> bool" where
  "is_native_module_path s =
     (let path = trim (takeWhile (\<lambda>c. c \<noteq> CHR ''?'' \<and> c \<noteq> CHR ''#'') (trim s));
          l = to_ascii_lowercase path
      in ends_with ''.wasm'' l \<or> ends_with ''.dylib'' l \<or> ends_with ''.so'' l \<or> ends_with ''.dll'' l)"

definition scan_string ::
  "(string \<Rightarrow> parsed_url option) \<Rightarrow> string \<Rightarrow> string option \<Rightarrow> string \<Rightarrow> profile_error + unit" where
  "scan_string url_parse s key path =
     (if is_native_module_path s then Inl (NativeModule path)
      else case (if is_url_field (unwrap_or key []) then check_url url_parse path s else Inr ()) of
             Inl e \<Rightarrow> Inl e | Inr _ \<Rightarrow> refuse_interpolation s path)"

definition child_path :: "string \<Rightarrow> string \<Rightarrow> string" where
  "child_path path k = (if path = [] then k else path @ ''.'' @ k)"

definition item_path :: "string \<Rightarrow> nat \<Rightarrow> string" where
  "item_path path i = path @ ''['' @ show_nat i @ '']''"

text \<open>The walk, with its two loops as local recursions over the entries.\<close>

function (sequential) scan_value ::
  "(string \<Rightarrow> parsed_url option) \<Rightarrow> json \<Rightarrow> string option \<Rightarrow> string \<Rightarrow> profile_error + unit"
  and scan_entries ::
  "(string \<Rightarrow> parsed_url option) \<Rightarrow> (string \<times> json) list \<Rightarrow> string \<Rightarrow> profile_error + unit"
  and scan_items ::
  "(string \<Rightarrow> parsed_url option) \<Rightarrow> json list \<Rightarrow> nat \<Rightarrow> string option \<Rightarrow> string \<Rightarrow> profile_error + unit" where
  "scan_value url_parse (JObject m) key path = scan_entries url_parse m path"
| "scan_value url_parse (JArray xs) key path = scan_items url_parse xs 0 key path"
| "scan_value url_parse (JString s) key path = scan_string url_parse s key path"
| "scan_value url_parse _ key path = Inr ()"
| "scan_entries url_parse [] path = Inr ()"
| "scan_entries url_parse ((k, v) # m) path =
     (if forbidden_key k then Inl (ForbiddenKey k)
      else case scan_value url_parse v (Some k) (child_path path k) of
             Inl e \<Rightarrow> Inl e | Inr _ \<Rightarrow> scan_entries url_parse m path)"
| "scan_items url_parse [] i key path = Inr ()"
| "scan_items url_parse (v # xs) i key path =
     (case scan_value url_parse v key (item_path path i) of
        Inl e \<Rightarrow> Inl e | Inr _ \<Rightarrow> scan_items url_parse xs (i + 1) key path)"
  by pat_completeness auto
termination
  by (relation "measure (\<lambda>x. case x of
        Inl (_, v, _, _) \<Rightarrow> 2 * size v
      | Inr (Inl (_, m, _)) \<Rightarrow> 1 + 2 * size_list (size_prod (\<lambda>x. 0) size) m
      | Inr (Inr (_, xs, _, _, _)) \<Rightarrow> 1 + 2 * size_list size xs)") auto

definition scan :: "(string \<Rightarrow> parsed_url option) \<Rightarrow> json \<Rightarrow> profile_error + unit" where
  "scan url_parse v = scan_value url_parse v None []"

definition nested_table_hint :: "string \<Rightarrow> string option" where
  "nested_table_hint key =
     (if key = ''dialect'' then Some ''set top-level `wire` (chat-completions|messages|responses|gemini|converse)''
      else if key = ''http'' then Some ''set top-level `base_url` and `chat_path`''
      else if key = ''auth'' then Some ''set top-level `auth_scheme` and `access_env`''
      else None)"

definition refuse_nested_struct_tables :: "json \<Rightarrow> profile_error + unit" where
  "refuse_nested_struct_tables v =
     (case List.find (\<lambda>key. is_object v \<and> is_some_and (jget v key) is_object) [''dialect'', ''http'', ''auth''] of
        None \<Rightarrow> Inr ()
      | Some key \<Rightarrow> Inl (ProfileParse (''unknown table `'' @ key @ ''`; '' @ unwrap_or (nested_table_hint key) [])))"

text \<open>The checks and the substitution of \<open>parse_layer_text\<close>, up to the point where \<open>serde\<close> reads the fields:
  scan, substitute, scan again.\<close>

definition checked_document ::
  "(string \<Rightarrow> parsed_url option) \<Rightarrow> (string \<Rightarrow> string option) \<Rightarrow> json \<Rightarrow> profile_error + json" where
  "checked_document url_parse env v =
     (case scan url_parse v of
        Inl e \<Rightarrow> Inl e
      | Inr _ \<Rightarrow>
     (case refuse_nested_struct_tables v of
        Inl e \<Rightarrow> Inl e
      | Inr _ \<Rightarrow>
     (let v = env_walk env v
      in case scan url_parse v of
           Inl e \<Rightarrow> Inl e
         | Inr _ \<Rightarrow>
             (case refuse_nested_struct_tables v of Inl e \<Rightarrow> Inl e | Inr _ \<Rightarrow> Inr v))))"


section \<open>What the scan accepts\<close>

text \<open>The strings of a document with the key and the path the scanner sees them under, and its keys.\<close>

inductive string_at :: "json \<Rightarrow> string option \<Rightarrow> string \<Rightarrow> string \<Rightarrow> string option \<Rightarrow> string \<Rightarrow> bool" where
  here: "string_at (JString s) key path s key path"
| field: "(k, v) \<in> set m \<Longrightarrow> string_at v (Some k) (child_path path k) s key' path' \<Longrightarrow>
    string_at (JObject m) key path s key' path'"
| item: "i < length xs \<Longrightarrow> string_at (xs ! i) key (item_path path i) s key' path' \<Longrightarrow>
    string_at (JArray xs) key path s key' path'"

inductive key_in :: "string \<Rightarrow> json \<Rightarrow> bool" where
  here: "(k, v) \<in> set m \<Longrightarrow> key_in k (JObject m)"
| field: "(k', v) \<in> set m \<Longrightarrow> key_in k v \<Longrightarrow> key_in k (JObject m)"
| item: "v \<in> set xs \<Longrightarrow> key_in k v \<Longrightarrow> key_in k (JArray xs)"

inductive_cases string_at_StringE [elim!]: "string_at (JString t) key path s key' path'"
inductive_cases string_at_ObjectE [elim!]: "string_at (JObject m) key path s key' path'"
inductive_cases string_at_ArrayE [elim!]: "string_at (JArray xs) key path s key' path'"
inductive_simps string_at_leaf [simp]: "string_at JNull key path s key' path'" "string_at (JBool b) key path s key' path'"
  "string_at (JNumber n) key path s key' path'"
inductive_simps key_in_leaf [simp]: "key_in k JNull" "key_in k (JBool b)" "key_in k (JNumber n)" "key_in k (JString s)"
inductive_simps key_in_Object: "key_in k (JObject m)"
inductive_simps key_in_Array: "key_in k (JArray xs)"

abbreviation passes :: "(string \<Rightarrow> parsed_url option) \<Rightarrow> json \<Rightarrow> string option \<Rightarrow> string \<Rightarrow> bool" where
  "passes url_parse v key path \<equiv>
     (\<forall>k. key_in k v \<longrightarrow> \<not> forbidden_key k)
     \<and> (\<forall>s key' path'. string_at v key path s key' path' \<longrightarrow> scan_string url_parse s key' path' = Inr ())"

lemma scan_passes:
  "scan_value url_parse v key path = Inr () \<Longrightarrow> passes url_parse v key path"
  "scan_entries url_parse m path = Inr () \<Longrightarrow>
     \<forall>(k, v) \<in> set m. \<not> forbidden_key k \<and> passes url_parse v (Some k) (child_path path k)"
  "scan_items url_parse xs i key path = Inr () \<Longrightarrow>
     \<forall>j < length xs. passes url_parse (xs ! j) key (item_path path (i + j))"
proof (induction url_parse v key path and url_parse m path and url_parse xs i key path
    rule: scan_value_scan_entries_scan_items.induct)
  case (1 url_parse m key path)
  then have all: "\<forall>(k, v) \<in> set m. \<not> forbidden_key k \<and> passes url_parse v (Some k) (child_path path k)" by simp
  show ?case
  proof (intro conjI allI impI)
    fix k assume "key_in k (JObject m)"
    then show "\<not> forbidden_key k" using all by (auto simp: key_in_Object)
  next
    fix s key' path' assume "string_at (JObject m) key path s key' path'"
    then show "scan_string url_parse s key' path' = Inr ()" using all by blast
  qed
next
  case (2 url_parse xs key path)
  then have all: "\<forall>j < length xs. passes url_parse (xs ! j) key (item_path path j)" by simp
  show ?case
  proof (intro conjI allI impI)
    fix k assume "key_in k (JArray xs)"
    then show "\<not> forbidden_key k" using all by (auto simp: key_in_Array in_set_conv_nth)
  next
    fix s key' path' assume "string_at (JArray xs) key path s key' path'"
    then show "scan_string url_parse s key' path' = Inr ()" using all by blast
  qed
next
  case (6 url_parse k v m path)
  then show ?case by (auto split: if_splits sum.splits)
next
  case (8 url_parse v xs i key path)
  then have "passes url_parse v key (item_path path i)"
      "\<forall>j < length xs. passes url_parse (xs ! j) key (item_path path (i + 1 + j))"
    by (auto split: sum.splits)
  then show ?case by (auto simp: less_Suc_eq_0_disj)
qed auto

lemma dollar_paren_iff: "has_dollar_paren s \<longleftrightarrow> (\<exists>a b c. s = a @ ''$('' @ b @ '')'' @ c)"
proof (induction s rule: has_dollar_paren.induct)
  case (1 x y cs)
  show ?case
  proof (cases "x = CHR ''$'' \<and> y = CHR ''(''")
    case True
    have "CHR '')'' \<in> set cs \<longleftrightarrow> (\<exists>a b c. x # y # cs = a @ ''$('' @ b @ '')'' @ c)"
    proof
      assume "CHR '')'' \<in> set cs"
      then obtain b c where "cs = b @ CHR '')'' # c" by (metis split_list)
      then have "x # y # cs = [] @ ''$('' @ b @ '')'' @ c" using True by simp
      then show "\<exists>a b c. x # y # cs = a @ ''$('' @ b @ '')'' @ c" by blast
    next
      assume "\<exists>a b c. x # y # cs = a @ ''$('' @ b @ '')'' @ c"
      then obtain a b c where abc: "x # y # cs = a @ ''$('' @ b @ '')'' @ c" by blast
      then show "CHR '')'' \<in> set cs"
        by (cases a; cases "tl a") auto
    qed
    then show ?thesis using True by simp
  next
    case False
    have "(\<exists>a b c. x # y # cs = a @ ''$('' @ b @ '')'' @ c) \<longleftrightarrow> (\<exists>a b c. y # cs = a @ ''$('' @ b @ '')'' @ c)"
    proof
      assume "\<exists>a b c. x # y # cs = a @ ''$('' @ b @ '')'' @ c"
      then obtain a b c where "x # y # cs = a @ ''$('' @ b @ '')'' @ c" by blast
      with False show "\<exists>a b c. y # cs = a @ ''$('' @ b @ '')'' @ c" by (cases a) auto
    next
      assume "\<exists>a b c. y # cs = a @ ''$('' @ b @ '')'' @ c"
      then obtain a b c where "y # cs = a @ ''$('' @ b @ '')'' @ c" by blast
      then have "x # y # cs = (x # a) @ ''$('' @ b @ '')'' @ c" by simp
      then show "\<exists>a b c. x # y # cs = a @ ''$('' @ b @ '')'' @ c" by blast
    qed
    then show ?thesis using 1 False by auto
  qed
qed auto

lemma strip_any_None: "strip_any ws s = None \<longleftrightarrow> (\<forall>w \<in> set ws. strip_prefix w s = None)"
  by (induction ws) (auto split: option.splits)

lemma trim_start_stops: "strip_any whitespace_encodings (trim_start s) = None"
proof (induction s rule: trim_start.induct)
  case (1 s)
  then show ?case by (cases "strip_any whitespace_encodings s") (auto simp: trim_start.simps [of s])
qed

lemma trim_rev_stops: "strip_any (map rev whitespace_encodings) (trim_rev s) = None"
proof (induction s rule: trim_rev.induct)
  case (1 s)
  then show ?case by (cases "strip_any (map rev whitespace_encodings) s") (auto simp: trim_rev.simps [of s])
qed

lemma trim_trim: "trim (trim s) = trim s"
proof -
  let ?t = "trim s"
  obtain p where p: "trim_start s = ?t @ p"
    using trim_rev_suffix [of "rev (trim_start s)"] by (metis rev_append rev_rev_ident trim_def trim_end_def)
  have "strip_any whitespace_encodings ?t = None"
  proof -
    have "strip_prefix w ?t = None" if "strip_prefix w (?t @ p) = None" for w
      using that by (cases "strip_prefix w ?t") (auto simp: strip_prefix_Some)
    then show ?thesis
      using trim_start_stops [of s] unfolding p by (simp add: strip_any_None)
  qed
  then have "trim_start ?t = ?t" by (simp add: trim_start.simps [of ?t])
  moreover have "strip_any (map rev whitespace_encodings) (rev ?t) = None"
    using trim_rev_stops by (simp add: trim_def trim_end_def)
  then have "trim_end ?t = ?t" by (simp add: trim_end_def trim_rev.simps [of "rev ?t"])
  ultimately show ?thesis by (simp add: trim_def)
qed

definition safe_url :: "(string \<Rightarrow> parsed_url option) \<Rightarrow> string \<Rightarrow> bool" where
  "safe_url url_parse s =
     (case url_parse (trim s) of
        Some u \<Rightarrow> eq_ignore_ascii_case (url_scheme u) ''https''
                  \<or> (eq_ignore_ascii_case (url_scheme u) ''http'' \<and> loopback_host u)
      | None \<Rightarrow> scheme_of (trim s) \<in> {None} \<union> {Some sc |sc. to_ascii_lowercase sc = ''https''})"

lemma check_url_safe: "check_url url_parse field s = Inr () \<Longrightarrow> safe_url url_parse s"
  by (auto simp: check_url_def safe_url_def is_loopback_http_def trim_trim Let_def split: option.splits if_splits)

text \<open>C25. A profile that was accepted is data only. After \<open>checked_document\<close>, no object at any depth has a key that
  names code, and no string at any depth, whether it was written in the file or came from the environment, is
  the path of a native module, starts with an exclamation mark, contains a \<open>$(...)\<close>, or (outside the two hint
  fields) a backtick; and a URL field is https or loopback http when the URL parser understands it, and never
  cleartext http when it does not.
\<close>

theorem accepted_document_is_data:
  assumes "checked_document url_parse env v = Inr doc"
  shows "(\<forall>k. key_in k doc \<longrightarrow> \<not> forbidden_key k)
    \<and> (\<forall>s key path. string_at doc None [] s key path \<longrightarrow>
         \<not> is_native_module_path s \<and> \<not> starts_with ''!'' (trim_start s)
         \<and> (\<nexists>a b c. s = a @ ''$('' @ b @ '')'' @ c)
         \<and> (CHR 0x60 \<in> set s \<longrightarrow> is_hint_path path)
         \<and> (is_url_field (unwrap_or key []) \<longrightarrow> safe_url url_parse s))"
proof -
  have "scan_value url_parse doc None [] = Inr ()"
    using assms by (auto simp: checked_document_def scan_def Let_def split: sum.splits)
  from scan_passes(1) [OF this]
  have pass: "\<And>k. key_in k doc \<Longrightarrow> \<not> forbidden_key k"
      "\<And>s key path. string_at doc None [] s key path \<Longrightarrow> scan_string url_parse s key path = Inr ()"
    by auto
  have accept: "\<not> is_native_module_path s \<and> \<not> starts_with ''!'' (trim_start s) \<and> \<not> has_dollar_paren s
      \<and> (CHR 0x60 \<in> set s \<longrightarrow> is_hint_path path) \<and> (is_url_field (unwrap_or key []) \<longrightarrow> safe_url url_parse s)"
    if "scan_string url_parse s key path = Inr ()" for s key path
    using that check_url_safe [of url_parse path s]
    by (auto simp: scan_string_def refuse_interpolation_def split: if_splits sum.splits option.splits)
  show ?thesis
    using pass accept unfolding dollar_paren_iff [symmetric] by blast
qed

definition example_document :: json where
  "example_document = JObject [(''base_url'', JString ''a'')]"

definition any_https :: "string \<Rightarrow> parsed_url option" where
  "any_https s = Some \<lparr>url_scheme = ''https'', url_host = None\<rparr>"

lemma trim_a: "trim ''a'' = ''a''" "trim_start ''a'' = ''a''"
proof -
  show "trim ''a'' = ''a''" using trim_printable(2) [of "CHR ''a''" "CHR ''a''"] by (simp add: byte_val_def)
  have "strip_any whitespace_encodings ''a'' = None"
    by (simp add: whitespace_encodings_def char_of_def bit_0)
  then show "trim_start ''a'' = ''a''" by (simp add: trim_start.simps)
qed

lemma example_accepted: "checked_document any_https env example_document = Inr example_document"
proof -
  have low: "to_ascii_lowercase ''a'' = ''a''" "to_ascii_lowercase ''https'' = ''https''" "\<not> forbidden_key ''base_url''"
    by code_simp+
  have "subst_string env ''a'' = Keep ''a''"
    by (simp add: subst_string_def subst_loop.simps match_env_ref_def utf8_step_ascii byte_val_def)
  then show ?thesis
    by (simp add: checked_document_def scan_def example_document_def low scan_string_def is_native_module_path_def trim_a
        is_url_field_def check_url_def any_https_def eq_ignore_ascii_case_def refuse_interpolation_def child_path_def
        refuse_nested_struct_tables_def ends_with_def strip_suffix_def starts_with_def)
qed

theorem accepted_document_is_data_witness:
  "\<not> forbidden_key ''base_url'' \<and> safe_url any_https ''a''"
proof -
  have at: "string_at example_document None [] ''a'' (Some ''base_url'') ''base_url''"
    unfolding example_document_def
    by (rule string_at.field [where k = "''base_url''"]) (auto simp: child_path_def intro: string_at.here)
  have key: "key_in ''base_url'' example_document"
    unfolding example_document_def by (rule key_in.here [where v = "JString ''a''"]) simp
  show ?thesis
    using accepted_document_is_data [OF example_accepted] at key by (auto simp: is_url_field_def)
qed


section \<open>What substitution does\<close>

lemma subst_missing: "subst_loop env s out True = Unset"
proof (induction env s out "True" rule: subst_loop.induct)
  case (1 env s out)
  then show ?case
    by (subst subst_loop.simps) (auto simp: Let_def split: list.splits option.splits)
qed

lemma subst_acc:
  "subst_loop env s (out @ out') unset =
     (case subst_loop env s out' unset of Keep t \<Rightarrow> Keep (out @ t) | Unset \<Rightarrow> Unset)"
proof (induction env s out' unset rule: subst_loop.induct)
  case (1 env s out' unset)
  show ?case
  proof (cases s)
    case Nil
    then show ?thesis by (simp add: subst_loop.simps)
  next
    case (Cons b rest)
    show ?thesis
    proof (cases "match_env_ref s")
      case None
      with 1(1) Cons show ?thesis
        by (subst (1 2) subst_loop.simps) (simp add: Let_def)
    next
      case (Some p)
      obtain var n where p: "p = (var, n)" by (cases p)
      show ?thesis
        using 1(2,3) Some Cons p
        by (subst (1 2) subst_loop.simps) (auto simp: subst_missing split: option.splits)
    qed
  qed
qed

definition plain_char :: "char \<Rightarrow> bool" where
  "plain_char c = (byte_val c < 128 \<and> c \<noteq> CHR ''$'' \<and> c \<noteq> CHR ''{'')"

lemma subst_plain: "list_all plain_char a \<Longrightarrow> subst_loop env (a @ s) out unset = subst_loop env s (out @ a) unset"
proof (induction a arbitrary: out)
  case (Cons c a)
  then have "match_env_ref ((c # a) @ s) = None" "utf8_step c (a @ s) = (True, 1)"
    by (auto simp: plain_char_def match_env_ref_def split: option.splits)
  then show ?case
    using Cons by (subst subst_loop.simps) simp
qed simp

fun holds_no_null :: "json \<Rightarrow> bool" where
  "holds_no_null (JArray xs) = list_all (\<lambda>v. \<not> is_null v \<and> holds_no_null v) xs"
| "holds_no_null (JObject m) = list_all (\<lambda>(k, v). \<not> is_null v \<and> holds_no_null v) m"
| "holds_no_null _ = True"

lemma kept_entries:
  "list_all (\<lambda>(k, v). holds_no_null v) m \<Longrightarrow> list_all (\<lambda>(k, v). \<not> is_null v \<and> holds_no_null v) out \<Longrightarrow>
     list_all (\<lambda>(k, v). \<not> is_null v \<and> holds_no_null v)
       (foldl (\<lambda>out (k, v). if is_null v then out else bt_insert k v out) out m)"
proof (induction m arbitrary: out)
  case (Cons p m)
  then show ?case
    by (cases p) (auto intro!: Cons.IH list_all_bt_insert [where P = "\<lambda>v. \<not> is_null v \<and> holds_no_null v"])
qed simp

lemma env_walk_no_null: "holds_no_null (env_walk env v)"
proof (induction env v rule: env_walk.induct)
  case (1 env s)
  then show ?case by (simp split: subst.splits)
next
  case (2 env xs)
  then show ?case by (auto simp: list_all_iff)
next
  case (3 env m)
  then have "list_all (\<lambda>(k, v). holds_no_null v) (map (\<lambda>(k, v). (k, env_walk env v)) m)"
    by (auto simp: list_all_iff)
  then show ?case using kept_entries [of _ "[]"] by simp
qed auto

text \<open>Environment substitution is one pass and leaves no half-built value. A reference to a set variable is
  replaced by the variable's text, which is not read again for references; a reference to a missing or blank
  variable removes the whole field, so no document after \<open>env_walk\<close> contains a null inside an array or object.
  (The text before the reference is taken to be ASCII without the two characters that can open a reference.)
\<close>

theorem env_substitution:
  assumes "list_all plain_char a" "match_env_ref (r @ b) = Some (var, length r)"
  shows "holds_no_null (env_walk env doc)
    \<and> subst_string env (a @ r @ b) =
        (case env var of
           None \<Rightarrow> Unset
         | Some v \<Rightarrow>
             if trim v = [] then Unset
             else case subst_string env b of Keep t \<Rightarrow> Keep (a @ v @ t) | Unset \<Rightarrow> Unset)"
proof -
  have "r \<noteq> []" using match_env_ref_bounds [OF assms(2)] by auto
  then obtain c cs where r: "r = c # cs" by (cases r) auto
  have acc: "subst_loop env b (a @ v) False =
      (case subst_string env b of Keep t \<Rightarrow> Keep (a @ v @ t) | Unset \<Rightarrow> Unset)" for v
    using subst_acc [of env b "a @ v" "[]" False] by (simp add: subst_string_def split: subst.splits)
  have "subst_string env (a @ r @ b) = subst_loop env (r @ b) a False"
    unfolding subst_string_def subst_plain [OF assms(1)] by simp
  also have "\<dots> = (case env var of
           None \<Rightarrow> Unset
         | Some v \<Rightarrow> if trim v = [] then Unset else subst_loop env b (a @ v) False)"
    using assms(2) by (subst subst_loop.simps) (auto simp: r subst_missing split: option.splits)
  finally show ?thesis
    using env_walk_no_null by (simp add: acc split: option.splits)
qed

theorem env_substitution_witness:
  "subst_string (\<lambda>v. if v = ''R'' then Some ''$X'' else None) ''h$R.x'' = Keep ''h$X.x''"
proof -
  have m: "match_env_ref (''$R'' @ ''.x'') = Some (''R'', length ''$R'')"
    by (simp add: match_env_ref_def ident_prefix_len_def is_ident_start_def is_ident_char_def is_ascii_alphabetic_def
        is_ascii_alphanumeric_def is_ascii_digit_def byte_val_def)
  have b: "subst_string env ''.x'' = Keep ''.x''" for env
    using subst_plain [of "''.x''" env "[]" "[]" False]
    by (simp add: subst_string_def plain_char_def byte_val_def subst_loop.simps [of env "[]"])
  have t: "trim ''$X'' = ''$X''"
    using trim_printable(1) [of "CHR ''$''" "CHR ''X''" "[]"] by (simp add: byte_val_def)
  show ?thesis
    using env_substitution [OF _ m, of "''h''" "\<lambda>v. if v = ''R'' then Some ''$X'' else None" JNull]
    by (simp add: b t plain_char_def byte_val_def)
qed

end
