(* ===== verification/Wm_Profile.thy ===== *)
theory Wm_Profile
  imports Wm_Profile_Scan "HOL-Library.Multiset"
begin

text \<open>
  Profile documents (\<open>profile/parse.rs\<close>, \<open>profile/overlay.rs\<close>, \<open>profile/load.rs\<close> of \<open>wiremux-auth\<close>): the fields of
  one layer, the field-wise merge of the layers with one id, the resolution of the merged layer into a profile,
  and the catalog. Reading and listing files is outside the model: a layer is given with the id the catalog keys
  it by, and a directory as the list of its files.
\<close>

section \<open>One layer\<close>

datatype raw_access_env = AccessOne string | AccessMany "string list"

record raw_betas_table =
  bt_values :: "string list option"
  bt_header :: "string option"
  bt_merge :: "list_merge option"

datatype raw_betas = BetasList "string list" | BetasTable raw_betas_table

record token_response =
  tr_access_token_ptr :: "string option"
  tr_refresh_token_ptr :: "string option"
  tr_expires_ptr :: "string option"
  tr_expires_unit :: "expires_unit option"

record raw_oauth =
  ro_token_url :: "string option"
  ro_token_url_fallback :: "string option"
  ro_authorize_url :: "string option"
  ro_authorize_params :: "((string \<times> string) list) option"
  ro_device_auth_url :: "string option"
  ro_client_id :: "string option"
  ro_redirect_uri :: "string option"
  ro_scopes :: "(string list) option"
  ro_list_merge :: "list_merge option"
  ro_pkce :: "bool option"
  ro_refresh_grant :: "string option"
  ro_refresh_body :: "((string \<times> string) list) option"
  ro_token_request_format :: "token_request_format option"
  ro_token_headers :: "((string \<times> string) list) option"
  ro_creds_path :: "string option"
  ro_creds_format :: "creds_format option"
  ro_access_token_ptr :: "string option"
  ro_refresh_token_ptr :: "string option"
  ro_expires_ptr :: "string option"
  ro_expires_unit :: "expires_unit option"
  ro_access_env :: "string option"
  ro_login :: "login option"
  ro_setup_token_hint :: "string option"
  ro_keychain_service :: "string option"
  ro_keychain_accounts :: "(string list) option"
  ro_token_response :: "token_response option"

record raw_fingerprint =
  rf_user_agent :: "string option"
  rf_x_app :: "string option"
  rf_system_prompt_prefix :: "string option"
  rf_tool_name_case :: "tool_name_case option"
  rf_forbidden_body_fields :: "(string list) option"
  rf_forbidden_field_policy :: "forbidden_field_policy option"
  rf_extra_body :: "((string \<times> json) list) option"

record raw_profile =
  raw_schema_version :: "u32 option"
  raw_id :: "string option"
  raw_display_name :: "string option"
  raw_wire :: "wire option"
  raw_stream_events :: "(string list) option"
  raw_list_merge :: "list_merge option"
  raw_tool_type_policy :: "tool_type_policy option"
  raw_stream_unknown_policy :: "stream_unknown_policy option"
  raw_base_url :: "string option"
  raw_chat_path :: "string option"
  raw_messages_path :: "string option"
  raw_responses_path :: "string option"
  raw_gemini_path :: "string option"
  raw_converse_path :: "string option"
  raw_auth_scheme :: "auth_scheme option"
  raw_headers :: "((string \<times> string) list) option"
  raw_header_merge :: "list_merge option"
  raw_aws_service :: "string option"
  raw_aws_region :: "string option"
  raw_gcp_key_env :: "string option"
  raw_read_timeout_secs :: "u64 option"
  raw_access_env :: "raw_access_env option"
  raw_oauth :: "raw_oauth option"
  raw_fingerprint :: "raw_fingerprint option"
  raw_betas :: "raw_betas option"
  raw_beta_header :: "string option"
  raw_beta_merge :: "list_merge option"


section \<open>Merging layers\<close>

definition max_version :: "u32 option \<Rightarrow> u32 option \<Rightarrow> u32 option" where
  "max_version a b =
     (case (a, b) of
        (None, None) \<Rightarrow> None
      | (Some x, None) \<Rightarrow> Some x
      | (None, Some x) \<Rightarrow> Some x
      | (Some x, Some y) \<Rightarrow> Some (max x y))"

text \<open>\<open>for item in b { if !a.contains(&item) { a.push(item) } }\<close>.\<close>

fun push_unique :: "'a list \<Rightarrow> 'a list \<Rightarrow> 'a list" where
  "push_unique a [] = a"
| "push_unique a (x # xs) = push_unique (if x \<in> set a then a else a @ [x]) xs"

definition merge_list :: "'a list option \<Rightarrow> 'a list option \<Rightarrow> list_merge \<Rightarrow> 'a list option" where
  "merge_list earlier later policy =
     (case (earlier, later) of
        (None, None) \<Rightarrow> None
      | (Some a, None) \<Rightarrow> Some a
      | (None, Some b) \<Rightarrow> Some b
      | (Some a, Some b) \<Rightarrow> (case policy of MergeUnion \<Rightarrow> Some (push_unique a b) | MergeReplace \<Rightarrow> Some b))"

definition merge_map ::
  "(string \<times> 'v) list option \<Rightarrow> (string \<times> 'v) list option \<Rightarrow> list_merge \<Rightarrow> (string \<times> 'v) list option" where
  "merge_map earlier later policy =
     (case (earlier, later) of
        (None, None) \<Rightarrow> None
      | (Some a, None) \<Rightarrow> Some a
      | (None, Some b) \<Rightarrow> Some b
      | (Some a, Some b) \<Rightarrow>
          (case policy of
             MergeUnion \<Rightarrow> Some (foldl (\<lambda>m (k, v). bt_insert k v m) a b)
           | MergeReplace \<Rightarrow> Some b))"

text \<open>The common shape of the table merges: both present, one present, none.\<close>

definition merge_both :: "('a \<Rightarrow> 'a \<Rightarrow> 'a) \<Rightarrow> 'a option \<Rightarrow> 'a option \<Rightarrow> 'a option" where
  "merge_both f earlier later =
     (case (earlier, later) of
        (None, None) \<Rightarrow> None
      | (Some a, None) \<Rightarrow> Some a
      | (None, Some b) \<Rightarrow> Some b
      | (Some a, Some b) \<Rightarrow> Some (f a b))"

abbreviation policy_or_default :: "list_merge option \<Rightarrow> list_merge" where
  "policy_or_default p \<equiv> unwrap_or p MergeUnion"

definition merge_token_response :: "token_response option \<Rightarrow> token_response option \<Rightarrow> token_response option" where
  "merge_token_response = merge_both (\<lambda>a b.
     \<lparr>tr_access_token_ptr = or_else (tr_access_token_ptr b) (tr_access_token_ptr a),
      tr_refresh_token_ptr = or_else (tr_refresh_token_ptr b) (tr_refresh_token_ptr a),
      tr_expires_ptr = or_else (tr_expires_ptr b) (tr_expires_ptr a),
      tr_expires_unit = or_else (tr_expires_unit b) (tr_expires_unit a)\<rparr>)"

definition merge_fingerprint :: "raw_fingerprint option \<Rightarrow> raw_fingerprint option \<Rightarrow> raw_fingerprint option" where
  "merge_fingerprint = merge_both (\<lambda>a b.
     \<lparr>rf_user_agent = or_else (rf_user_agent b) (rf_user_agent a),
      rf_x_app = or_else (rf_x_app b) (rf_x_app a),
      rf_system_prompt_prefix = or_else (rf_system_prompt_prefix b) (rf_system_prompt_prefix a),
      rf_tool_name_case = or_else (rf_tool_name_case b) (rf_tool_name_case a),
      rf_forbidden_body_fields = or_else (rf_forbidden_body_fields b) (rf_forbidden_body_fields a),
      rf_forbidden_field_policy = or_else (rf_forbidden_field_policy b) (rf_forbidden_field_policy a),
      rf_extra_body = or_else (rf_extra_body b) (rf_extra_body a)\<rparr>)"

definition merge_oauth :: "raw_oauth option \<Rightarrow> raw_oauth option \<Rightarrow> raw_oauth option" where
  "merge_oauth = merge_both (\<lambda>a b.
     let list_merge = or_else (ro_list_merge b) (ro_list_merge a)
     in \<lparr>ro_token_url = or_else (ro_token_url b) (ro_token_url a),
         ro_token_url_fallback = or_else (ro_token_url_fallback b) (ro_token_url_fallback a),
         ro_authorize_url = or_else (ro_authorize_url b) (ro_authorize_url a),
         ro_authorize_params = or_else (ro_authorize_params b) (ro_authorize_params a),
         ro_device_auth_url = or_else (ro_device_auth_url b) (ro_device_auth_url a),
         ro_client_id = or_else (ro_client_id b) (ro_client_id a),
         ro_redirect_uri = or_else (ro_redirect_uri b) (ro_redirect_uri a),
         ro_scopes = merge_list (ro_scopes a) (ro_scopes b) (policy_or_default list_merge),
         ro_list_merge = list_merge,
         ro_pkce = or_else (ro_pkce b) (ro_pkce a),
         ro_refresh_grant = or_else (ro_refresh_grant b) (ro_refresh_grant a),
         ro_refresh_body = or_else (ro_refresh_body b) (ro_refresh_body a),
         ro_token_request_format = or_else (ro_token_request_format b) (ro_token_request_format a),
         ro_token_headers = or_else (ro_token_headers b) (ro_token_headers a),
         ro_creds_path = or_else (ro_creds_path b) (ro_creds_path a),
         ro_creds_format = or_else (ro_creds_format b) (ro_creds_format a),
         ro_access_token_ptr = or_else (ro_access_token_ptr b) (ro_access_token_ptr a),
         ro_refresh_token_ptr = or_else (ro_refresh_token_ptr b) (ro_refresh_token_ptr a),
         ro_expires_ptr = or_else (ro_expires_ptr b) (ro_expires_ptr a),
         ro_expires_unit = or_else (ro_expires_unit b) (ro_expires_unit a),
         ro_access_env = or_else (ro_access_env b) (ro_access_env a),
         ro_login = or_else (ro_login b) (ro_login a),
         ro_setup_token_hint = or_else (ro_setup_token_hint b) (ro_setup_token_hint a),
         ro_keychain_service = or_else (ro_keychain_service b) (ro_keychain_service a),
         ro_keychain_accounts = or_else (ro_keychain_accounts b) (ro_keychain_accounts a),
         ro_token_response = merge_token_response (ro_token_response a) (ro_token_response b)\<rparr>)"

definition betas_parts :: "raw_betas option \<Rightarrow> string list option \<times> string option \<times> list_merge option" where
  "betas_parts field =
     (case field of
        None \<Rightarrow> (None, None, None)
      | Some (BetasList values) \<Rightarrow> (Some values, None, None)
      | Some (BetasTable tbl) \<Rightarrow> (bt_values tbl, bt_header tbl, bt_merge tbl))"

definition rebuild_betas :: "string list option \<Rightarrow> string option \<Rightarrow> list_merge option \<Rightarrow> raw_betas option" where
  "rebuild_betas values header merge =
     (if values = None \<and> header = None \<and> merge = None then None
      else Some (BetasTable \<lparr>bt_values = values, bt_header = header, bt_merge = merge\<rparr>))"

definition merge :: "raw_profile \<Rightarrow> raw_profile \<Rightarrow> raw_profile" where
  "merge earlier later =
     (let (e_values, e_header, e_merge) = betas_parts (raw_betas earlier);
          (l_values, l_header, l_merge) = betas_parts (raw_betas later);
          beta_merge = or_else l_merge e_merge;
          values = merge_list e_values l_values (policy_or_default beta_merge);
          header = or_else l_header e_header;
          root_list_merge = or_else (raw_list_merge later) (raw_list_merge earlier);
          header_merge = or_else (raw_header_merge later) (raw_header_merge earlier)
      in \<lparr>raw_schema_version = max_version (raw_schema_version earlier) (raw_schema_version later),
          raw_id = or_else (raw_id later) (raw_id earlier),
          raw_display_name = or_else (raw_display_name later) (raw_display_name earlier),
          raw_wire = or_else (raw_wire later) (raw_wire earlier),
          raw_stream_events = merge_list (raw_stream_events earlier) (raw_stream_events later) (policy_or_default root_list_merge),
          raw_list_merge = root_list_merge,
          raw_tool_type_policy = or_else (raw_tool_type_policy later) (raw_tool_type_policy earlier),
          raw_stream_unknown_policy = or_else (raw_stream_unknown_policy later) (raw_stream_unknown_policy earlier),
          raw_base_url = or_else (raw_base_url later) (raw_base_url earlier),
          raw_chat_path = or_else (raw_chat_path later) (raw_chat_path earlier),
          raw_messages_path = or_else (raw_messages_path later) (raw_messages_path earlier),
          raw_responses_path = or_else (raw_responses_path later) (raw_responses_path earlier),
          raw_gemini_path = or_else (raw_gemini_path later) (raw_gemini_path earlier),
          raw_converse_path = or_else (raw_converse_path later) (raw_converse_path earlier),
          raw_auth_scheme = or_else (raw_auth_scheme later) (raw_auth_scheme earlier),
          raw_headers = merge_map (raw_headers earlier) (raw_headers later) (policy_or_default header_merge),
          raw_header_merge = header_merge,
          raw_aws_service = or_else (raw_aws_service later) (raw_aws_service earlier),
          raw_aws_region = or_else (raw_aws_region later) (raw_aws_region earlier),
          raw_gcp_key_env = or_else (raw_gcp_key_env later) (raw_gcp_key_env earlier),
          raw_read_timeout_secs = or_else (raw_read_timeout_secs later) (raw_read_timeout_secs earlier),
          raw_access_env = or_else (raw_access_env later) (raw_access_env earlier),
          raw_oauth = merge_oauth (raw_oauth earlier) (raw_oauth later),
          raw_fingerprint = merge_fingerprint (raw_fingerprint earlier) (raw_fingerprint later),
          raw_betas = rebuild_betas values header beta_merge,
          raw_beta_header = or_else (raw_beta_header later) (raw_beta_header earlier),
          raw_beta_merge = or_else (raw_beta_merge later) (raw_beta_merge earlier)\<rparr>)"


section \<open>Resolving a merged layer\<close>

record full_dialect = dialect +
  dl_wire :: "wire option"
  dl_list_merge :: list_merge
  dl_tool_type_policy :: tool_type_policy

record http =
  h_base_url :: "string option"
  h_chat_path :: "string option"
  h_auth_scheme :: "auth_scheme option"
  h_headers :: "(string \<times> string) list"
  h_header_merge :: list_merge
  h_aws_service :: "string option"
  h_aws_region :: "string option"
  h_gcp_key_env :: "string option"
  h_read_timeout_secs :: "u64 option"

record oauth_pack =
  o_token_url :: string
  o_token_url_fallback :: "string option"
  o_authorize_url :: "string option"
  o_authorize_params :: "(string \<times> string) list"
  o_device_auth_url :: "string option"
  o_client_id :: "string option"
  o_redirect_uri :: "string option"
  o_scopes :: "string list"
  o_list_merge :: list_merge
  o_pkce :: "bool option"
  o_refresh_grant :: "string option"
  o_refresh_body :: "(string \<times> string) list"
  o_token_request_format :: "token_request_format option"
  o_token_headers :: "(string \<times> string) list"
  o_creds_path :: "string option"
  o_creds_format :: "creds_format option"
  o_access_token_ptr :: "string option"
  o_refresh_token_ptr :: "string option"
  o_expires_ptr :: "string option"
  o_expires_unit :: "expires_unit option"
  o_access_env :: "string option"
  o_login :: "login option"
  o_setup_token_hint :: "string option"
  o_keychain_service :: "string option"
  o_keychain_accounts :: "string list"
  o_token_response :: "token_response option"

record fingerprint =
  f_user_agent :: "string option"
  f_x_app :: "string option"
  f_system_prompt_prefix :: "string option"
  f_tool_name_case :: "tool_name_case option"
  f_forbidden_body_fields :: "string list"
  f_forbidden_field_policy :: forbidden_field_policy
  f_extra_body :: "(string \<times> json) list"

record betas =
  b_values :: "string list"
  b_header :: string
  b_merge :: list_merge

record resolved_profile =
  p_schema_version :: u32
  p_id :: string
  p_display_name :: "string option"
  p_dialect :: full_dialect
  p_http :: http
  p_oauth :: "oauth_pack option"
  p_access_env :: "string list"
  p_fingerprint :: "fingerprint option"
  p_betas :: betas

definition SCHEMA_VERSION_MAX :: u32 where
  "SCHEMA_VERSION_MAX = 1"

definition effective_chat_path :: "raw_profile \<Rightarrow> string option" where
  "effective_chat_path raw =
     (case raw_chat_path raw of
        Some path \<Rightarrow> Some path
      | None \<Rightarrow>
          (case raw_wire raw of
             Some Messages \<Rightarrow> raw_messages_path raw
           | Some Responses \<Rightarrow> raw_responses_path raw
           | Some Gemini \<Rightarrow> raw_gemini_path raw
           | Some Converse \<Rightarrow> raw_converse_path raw
           | Some ChatCompletions \<Rightarrow> None
           | None \<Rightarrow> None))"

definition resolve_access_env :: "raw_access_env option \<Rightarrow> string list" where
  "resolve_access_env raw =
     (case raw of
        None \<Rightarrow> []
      | Some (AccessOne name) \<Rightarrow> if name = [] then [] else [name]
      | Some (AccessMany names) \<Rightarrow> filter (\<lambda>s. s \<noteq> []) names)"

definition resolve_oauth :: "raw_oauth \<Rightarrow> profile_error + oauth_pack" where
  "resolve_oauth raw =
     (case ofilter (\<lambda>url. url \<noteq> []) (ro_token_url raw) of
        None \<Rightarrow> Inl (MissingField ''oauth.token_url'')
      | Some token_url \<Rightarrow>
          (let claude = (ro_creds_format raw = Some ClaudeCredentials)
           in Inr \<lparr>o_token_url = token_url,
               o_token_url_fallback = ro_token_url_fallback raw,
               o_authorize_url = ro_authorize_url raw,
               o_authorize_params = unwrap_or (ro_authorize_params raw) [],
               o_device_auth_url = ro_device_auth_url raw,
               o_client_id = ro_client_id raw,
               o_redirect_uri = ro_redirect_uri raw,
               o_scopes = unwrap_or (ro_scopes raw) [],
               o_list_merge = policy_or_default (ro_list_merge raw),
               o_pkce = (case ro_pkce raw of
                           Some v \<Rightarrow> Some v | None \<Rightarrow> if ro_authorize_url raw \<noteq> None then Some True else None),
               o_refresh_grant = or_else (ro_refresh_grant raw) (Some ''refresh_token''),
               o_refresh_body = unwrap_or (ro_refresh_body raw) [],
               o_token_request_format = ro_token_request_format raw,
               o_token_headers = unwrap_or (ro_token_headers raw) [],
               o_creds_path = ro_creds_path raw,
               o_creds_format = ro_creds_format raw,
               o_access_token_ptr = (if claude then or_else (ro_access_token_ptr raw) (Some ''/claudeAiOauth/accessToken'')
                                     else ro_access_token_ptr raw),
               o_refresh_token_ptr = (if claude then or_else (ro_refresh_token_ptr raw) (Some ''/claudeAiOauth/refreshToken'')
                                      else ro_refresh_token_ptr raw),
               o_expires_ptr = (if claude then or_else (ro_expires_ptr raw) (Some ''/claudeAiOauth/expiresAt'')
                                else ro_expires_ptr raw),
               o_expires_unit = or_else (ro_expires_unit raw) (Some (if claude then UnitMs else UnitS)),
               o_access_env = ro_access_env raw,
               o_login = ro_login raw,
               o_setup_token_hint = ro_setup_token_hint raw,
               o_keychain_service = ro_keychain_service raw,
               o_keychain_accounts = unwrap_or (ro_keychain_accounts raw) [],
               o_token_response = ro_token_response raw\<rparr>))"

definition resolve_fingerprint :: "raw_fingerprint \<Rightarrow> fingerprint" where
  "resolve_fingerprint raw =
     \<lparr>f_user_agent = rf_user_agent raw,
      f_x_app = rf_x_app raw,
      f_system_prompt_prefix = rf_system_prompt_prefix raw,
      f_tool_name_case = rf_tool_name_case raw,
      f_forbidden_body_fields = unwrap_or (rf_forbidden_body_fields raw) [],
      f_forbidden_field_policy = unwrap_or (rf_forbidden_field_policy raw) ForbiddenHardError,
      f_extra_body = unwrap_or (rf_extra_body raw) []\<rparr>"

definition betas_default_for :: "wire option \<Rightarrow> bool \<Rightarrow> betas" where
  "betas_default_for w has_oauth =
     \<lparr>b_values = [], b_header = ''anthropic-beta'',
      b_merge = (if w = Some Messages \<and> has_oauth then MergeReplace else MergeUnion)\<rparr>"

text \<open>The values, header and policy of the betas: a table's own header and policy win over the top-level ones.\<close>

definition resolve_betas :: "raw_profile \<Rightarrow> betas \<Rightarrow> betas" where
  "resolve_betas raw start =
     (let (values, header, policy) = betas_parts (raw_betas raw)
      in \<lparr>b_values = unwrap_or values (b_values start),
          b_header = unwrap_or (or_else header (raw_beta_header raw)) (b_header start),
          b_merge = unwrap_or (or_else policy (raw_beta_merge raw)) (b_merge start)\<rparr>)"

text \<open>The profile of a merged layer whose version, id and OAuth pack were accepted.\<close>

definition resolved_from :: "raw_profile \<Rightarrow> u32 \<Rightarrow> string \<Rightarrow> oauth_pack option \<Rightarrow> resolved_profile" where
  "resolved_from raw version id' oauth =
     (let chat_path = or_else (effective_chat_path raw) (map_option default_chat_path (raw_wire raw))
      in \<lparr>p_schema_version = version,
          p_id = id',
          p_display_name = raw_display_name raw,
          p_dialect = \<lparr>stream_events = (case raw_stream_events raw of
                      Some events \<Rightarrow> events
                    | None \<Rightarrow> unwrap_or (map_option default_stream_events (raw_wire raw)) []),
             stream_unknown_policy = unwrap_or (raw_stream_unknown_policy raw) HardError,
             dl_wire = raw_wire raw,
             dl_list_merge = policy_or_default (raw_list_merge raw),
             dl_tool_type_policy = unwrap_or (raw_tool_type_policy raw) ToolHardError\<rparr>,
          p_http = \<lparr>h_base_url = raw_base_url raw,
             h_chat_path = chat_path,
             h_auth_scheme = or_else (raw_auth_scheme raw) (map_option default_auth_scheme (raw_wire raw)),
             h_headers = unwrap_or (raw_headers raw) [],
             h_header_merge = policy_or_default (raw_header_merge raw),
             h_aws_service = ofilter (\<lambda>s. s \<noteq> []) (raw_aws_service raw),
             h_aws_region = ofilter (\<lambda>s. s \<noteq> []) (raw_aws_region raw),
             h_gcp_key_env = ofilter (\<lambda>s. s \<noteq> []) (raw_gcp_key_env raw),
             h_read_timeout_secs = ofilter (\<lambda>s. s > 0) (raw_read_timeout_secs raw)\<rparr>,
          p_oauth = oauth,
          p_access_env = resolve_access_env (raw_access_env raw),
          p_fingerprint = map_option resolve_fingerprint (raw_fingerprint raw),
          p_betas = resolve_betas raw (betas_default_for (raw_wire raw) (oauth \<noteq> None))\<rparr>)"

definition resolve :: "raw_profile \<Rightarrow> profile_error + resolved_profile" where
  "resolve raw =
     (case raw_schema_version raw of
        None \<Rightarrow> Inl (MissingField ''schema_version'')
      | Some version \<Rightarrow>
          if version > SCHEMA_VERSION_MAX then Inl (SchemaVersion version SCHEMA_VERSION_MAX)
          else
     (case ofilter (\<lambda>i. i \<noteq> []) (raw_id raw) of
        None \<Rightarrow> Inl (MissingField ''id'')
      | Some id' \<Rightarrow>
     (case (case raw_oauth raw of None \<Rightarrow> Inr None | Some o' \<Rightarrow> map_sum id Some (resolve_oauth o')) of
        Inl e \<Rightarrow> Inl e
      | Inr oauth \<Rightarrow> Inr (resolved_from raw version id' oauth))))"


section \<open>The catalog\<close>

record layer =
  ly_id :: string
  ly_profile :: raw_profile
  ly_from_shipped :: bool

definition catalog_id :: "raw_profile \<Rightarrow> string option \<Rightarrow> string option" where
  "catalog_id profile stem =
     (case ofilter (\<lambda>i. i \<noteq> []) (raw_id profile) of
        Some i \<Rightarrow> Some i | None \<Rightarrow> ofilter (\<lambda>s. s \<noteq> []) stem)"

definition push_layer :: "layer list \<Rightarrow> string \<Rightarrow> raw_profile \<Rightarrow> layer list" where
  "push_layer layers stem profile =
     (case catalog_id profile (Some stem) of
        None \<Rightarrow> layers
      | Some i \<Rightarrow> layers @ [\<lparr>ly_id = i, ly_profile = profile, ly_from_shipped = False\<rparr>])"

definition list_profiles :: "layer list \<Rightarrow> string list" where
  "list_profiles layers = remdups_adj (sort (map ly_id layers))"

definition load_step :: "string \<Rightarrow> raw_profile option \<Rightarrow> layer \<Rightarrow> raw_profile option" where
  "load_step i acc l =
     (if ly_id l \<noteq> i then acc
      else Some (case acc of None \<Rightarrow> ly_profile l | Some earlier \<Rightarrow> merge earlier (ly_profile l)))"

definition load_profile :: "string \<Rightarrow> layer list \<Rightarrow> profile_error + resolved_profile" where
  "load_profile i layers =
     (case foldl (load_step i) None layers of
        Some raw \<Rightarrow> resolve raw
      | None \<Rightarrow> Inl (NotFound i (list_profiles layers)))"

definition unique_non_shipped_layer_ids :: "layer list \<Rightarrow> string list" where
  "unique_non_shipped_layer_ids layers =
     foldl (\<lambda>ids l. if ly_from_shipped l \<or> ly_id l \<in> set ids then ids else ids @ [ly_id l]) [] layers"

definition minimal_profile_for_wire :: "wire \<Rightarrow> resolved_profile" where
  "minimal_profile_for_wire w =
     \<lparr>p_schema_version = 1, p_id = wire_as_str w, p_display_name = None,
      p_dialect = \<lparr>stream_events = default_stream_events w, stream_unknown_policy = HardError, dl_wire = Some w,
         dl_list_merge = MergeUnion, dl_tool_type_policy = ToolHardError\<rparr>,
      p_http = \<lparr>h_base_url = None, h_chat_path = Some (default_chat_path w),
         h_auth_scheme = Some (default_auth_scheme w), h_headers = [], h_header_merge = MergeUnion,
         h_aws_service = None, h_aws_region = None, h_gcp_key_env = None, h_read_timeout_secs = None\<rparr>,
      p_oauth = None, p_access_env = [], p_fingerprint = None, p_betas = betas_default_for (Some w) False\<rparr>"

fun first_for_wire :: "wire \<Rightarrow> string list \<Rightarrow> layer list \<Rightarrow> profile_error + resolved_profile" where
  "first_for_wire w [] layers = Inr (minimal_profile_for_wire w)"
| "first_for_wire w (i # ids) layers =
     (if i = wire_as_str w then first_for_wire w ids layers
      else case load_profile i layers of
             Inl e \<Rightarrow> Inl e
           | Inr p \<Rightarrow> if dl_wire (p_dialect p) = Some w then Inr p else first_for_wire w ids layers)"

definition load_profile_for_wire :: "wire \<Rightarrow> layer list \<Rightarrow> profile_error + resolved_profile" where
  "load_profile_for_wire w layers =
     (case load_profile (wire_as_str w) layers of
        Inr p \<Rightarrow> Inr p
      | Inl (NotFound _ _) \<Rightarrow> first_for_wire w (unique_non_shipped_layer_ids layers) layers
      | Inl e \<Rightarrow> Inl e)"

text \<open>Files of the user and extra directories, as paths (lists of components): collected directory by directory,
  then sorted and cleared of repeats.\<close>

definition user_layer_files :: "string list list list \<Rightarrow> string list list" where
  "user_layer_files dirs = remdups_adj (sort (concat dirs))"


section \<open>A field of the merged layers\<close>

text \<open>The contract of a plain field: the later layer's value, and the earlier one's where the later is silent.
  Then a chain of layers gives the value of the last layer that has one.\<close>

fun last_some :: "'a option list \<Rightarrow> 'a option" where
  "last_some [] = None"
| "last_some (x # xs) = or_else (last_some xs) x"

locale overlaid_field =
  fixes get :: "raw_profile \<Rightarrow> 'a option"
  assumes get_merge: "get (merge earlier later) = or_else (get later) (get earlier)"
begin

lemma get_layers: "get (foldl merge p ps) = or_else (last_some (map get ps)) (get p)"
  by (induction ps arbitrary: p) (simp_all add: get_merge or_else_assoc)

end

lemma merge_fields:
  "raw_id (merge earlier later) = or_else (raw_id later) (raw_id earlier)"
  "raw_display_name (merge earlier later) = or_else (raw_display_name later) (raw_display_name earlier)"
  "raw_wire (merge earlier later) = or_else (raw_wire later) (raw_wire earlier)"
  "raw_list_merge (merge earlier later) = or_else (raw_list_merge later) (raw_list_merge earlier)"
  "raw_tool_type_policy (merge earlier later) = or_else (raw_tool_type_policy later) (raw_tool_type_policy earlier)"
  "raw_stream_unknown_policy (merge earlier later) = or_else (raw_stream_unknown_policy later) (raw_stream_unknown_policy earlier)"
  "raw_base_url (merge earlier later) = or_else (raw_base_url later) (raw_base_url earlier)"
  "raw_chat_path (merge earlier later) = or_else (raw_chat_path later) (raw_chat_path earlier)"
  "raw_messages_path (merge earlier later) = or_else (raw_messages_path later) (raw_messages_path earlier)"
  "raw_responses_path (merge earlier later) = or_else (raw_responses_path later) (raw_responses_path earlier)"
  "raw_gemini_path (merge earlier later) = or_else (raw_gemini_path later) (raw_gemini_path earlier)"
  "raw_converse_path (merge earlier later) = or_else (raw_converse_path later) (raw_converse_path earlier)"
  "raw_auth_scheme (merge earlier later) = or_else (raw_auth_scheme later) (raw_auth_scheme earlier)"
  "raw_header_merge (merge earlier later) = or_else (raw_header_merge later) (raw_header_merge earlier)"
  "raw_aws_service (merge earlier later) = or_else (raw_aws_service later) (raw_aws_service earlier)"
  "raw_aws_region (merge earlier later) = or_else (raw_aws_region later) (raw_aws_region earlier)"
  "raw_gcp_key_env (merge earlier later) = or_else (raw_gcp_key_env later) (raw_gcp_key_env earlier)"
  "raw_read_timeout_secs (merge earlier later) = or_else (raw_read_timeout_secs later) (raw_read_timeout_secs earlier)"
  "raw_access_env (merge earlier later) = or_else (raw_access_env later) (raw_access_env earlier)"
  "raw_beta_header (merge earlier later) = or_else (raw_beta_header later) (raw_beta_header earlier)"
  "raw_beta_merge (merge earlier later) = or_else (raw_beta_merge later) (raw_beta_merge earlier)"
  by (simp_all add: merge_def Let_def case_prod_beta')

interpretation id_field: overlaid_field raw_id
  by unfold_locales (simp add: merge_fields)

interpretation display_name_field: overlaid_field raw_display_name
  by unfold_locales (simp add: merge_fields)

interpretation wire_field: overlaid_field raw_wire
  by unfold_locales (simp add: merge_fields)

interpretation list_merge_field: overlaid_field raw_list_merge
  by unfold_locales (simp add: merge_fields)

interpretation tool_type_policy_field: overlaid_field raw_tool_type_policy
  by unfold_locales (simp add: merge_fields)

interpretation stream_unknown_policy_field: overlaid_field raw_stream_unknown_policy
  by unfold_locales (simp add: merge_fields)

interpretation base_url_field: overlaid_field raw_base_url
  by unfold_locales (simp add: merge_fields)

interpretation chat_path_field: overlaid_field raw_chat_path
  by unfold_locales (simp add: merge_fields)

interpretation messages_path_field: overlaid_field raw_messages_path
  by unfold_locales (simp add: merge_fields)

interpretation responses_path_field: overlaid_field raw_responses_path
  by unfold_locales (simp add: merge_fields)

interpretation gemini_path_field: overlaid_field raw_gemini_path
  by unfold_locales (simp add: merge_fields)

interpretation converse_path_field: overlaid_field raw_converse_path
  by unfold_locales (simp add: merge_fields)

interpretation auth_scheme_field: overlaid_field raw_auth_scheme
  by unfold_locales (simp add: merge_fields)

interpretation header_merge_field: overlaid_field raw_header_merge
  by unfold_locales (simp add: merge_fields)

interpretation aws_service_field: overlaid_field raw_aws_service
  by unfold_locales (simp add: merge_fields)

interpretation aws_region_field: overlaid_field raw_aws_region
  by unfold_locales (simp add: merge_fields)

interpretation gcp_key_env_field: overlaid_field raw_gcp_key_env
  by unfold_locales (simp add: merge_fields)

interpretation read_timeout_secs_field: overlaid_field raw_read_timeout_secs
  by unfold_locales (simp add: merge_fields)

interpretation access_env_field: overlaid_field raw_access_env
  by unfold_locales (simp add: merge_fields)

interpretation beta_header_field: overlaid_field raw_beta_header
  by unfold_locales (simp add: merge_fields)

interpretation beta_merge_field: overlaid_field raw_beta_merge
  by unfold_locales (simp add: merge_fields)

lemma schema_version_layers:
  "raw_schema_version (foldl merge p ps) = foldl max_version (raw_schema_version p) (map raw_schema_version ps)"
proof (induction ps arbitrary: p)
  case (Cons q ps)
  then show ?case by (simp add: merge_def Let_def case_prod_beta')
qed simp

lemma max_version_bound:
  "foldl max_version v vs = None \<longleftrightarrow> v = None \<and> set vs \<subseteq> {None}"
  "foldl max_version v vs = Some m \<Longrightarrow> u \<in> set (v # vs) \<Longrightarrow> u = Some n \<Longrightarrow> n \<le> m"
proof -
  show "foldl max_version v vs = None \<longleftrightarrow> v = None \<and> set vs \<subseteq> {None}"
    by (induction vs arbitrary: v) (auto simp: max_version_def split: option.splits)
  show "foldl max_version v vs = Some m \<Longrightarrow> u \<in> set (v # vs) \<Longrightarrow> u = Some n \<Longrightarrow> n \<le> m"
  proof (induction vs arbitrary: v u n)
    case (Cons w vs)
    show ?case
    proof (cases "u \<in> set vs")
      case True
      then show ?thesis using Cons.IH [of "max_version v w" u n] Cons.prems by simp
    next
      case False
      then obtain k where k: "max_version v w = Some k" "n \<le> k"
        using Cons.prems by (auto simp: max_version_def split: option.splits)
      then have "k \<le> m" using Cons.IH [of "max_version v w" "Some k" k] Cons.prems by simp
      with k show ?thesis by simp
    qed
  qed simp
qed

text \<open>Only the layers of one id take part in loading it.\<close>

definition layers_of :: "string \<Rightarrow> layer list \<Rightarrow> raw_profile list" where
  "layers_of i layers = map ly_profile (filter (\<lambda>l. ly_id l = i) layers)"

lemma load_fold:
  "foldl (load_step i) acc layers =
     (case layers_of i layers of
        [] \<Rightarrow> acc
      | p # ps \<Rightarrow> Some (case acc of None \<Rightarrow> foldl merge p ps | Some q \<Rightarrow> foldl merge q (p # ps)))"
proof (induction layers arbitrary: acc)
  case (Cons l layers)
  then show ?case
    by (cases acc) (auto simp: layers_of_def load_step_def split: list.splits)
qed (simp add: layers_of_def)

lemma load_profile_layers:
  "load_profile i layers =
     (case layers_of i layers of
        [] \<Rightarrow> Inl (NotFound i (list_profiles layers)) | p # ps \<Rightarrow> resolve (foldl merge p ps))"
  by (simp add: load_profile_def load_fold split: list.splits)

lemma resolve_Inr:
  assumes "resolve raw = Inr prof"
  obtains version id' oauth where "raw_schema_version raw = Some version" "version \<le> SCHEMA_VERSION_MAX"
    "raw_id raw = Some id'" "id' \<noteq> []" "prof = resolved_from raw version id' oauth"
proof -
  have id_some: "ofilter (\<lambda>i. i \<noteq> []) x = Some y \<Longrightarrow> x = Some y \<and> y \<noteq> []" for x :: "string option" and y
    by (cases x) (auto split: if_splits)
  show thesis
    using assms that by (auto simp: resolve_def not_less split: option.splits if_splits sum.splits dest!: id_some)
qed

lemmas resolved_fields = resolved_from_def [unfolded Let_def]


text \<open>A layer that sets nothing, and two layers for the example: the second changes the base URL only.\<close>

definition silent_layer :: raw_profile where
  "silent_layer =
     \<lparr>raw_schema_version = None,
      raw_id = None,
      raw_display_name = None,
      raw_wire = None,
      raw_stream_events = None,
      raw_list_merge = None,
      raw_tool_type_policy = None,
      raw_stream_unknown_policy = None,
      raw_base_url = None,
      raw_chat_path = None,
      raw_messages_path = None,
      raw_responses_path = None,
      raw_gemini_path = None,
      raw_converse_path = None,
      raw_auth_scheme = None,
      raw_headers = None,
      raw_header_merge = None,
      raw_aws_service = None,
      raw_aws_region = None,
      raw_gcp_key_env = None,
      raw_read_timeout_secs = None,
      raw_access_env = None,
      raw_oauth = None,
      raw_fingerprint = None,
      raw_betas = None,
      raw_beta_header = None,
      raw_beta_merge = None\<rparr>"

definition first_layer :: raw_profile where
  "first_layer = silent_layer\<lparr>raw_schema_version := Some 1, raw_id := Some ''demo'', raw_wire := Some Gemini,
     raw_base_url := Some ''https://a''\<rparr>"

definition second_layer :: raw_profile where
  "second_layer = silent_layer\<lparr>raw_base_url := Some ''https://b''\<rparr>"

definition example_layers :: "layer list" where
  "example_layers =
     [\<lparr>ly_id = ''demo'', ly_profile = first_layer, ly_from_shipped = True\<rparr>,
      \<lparr>ly_id = ''other'', ly_profile = first_layer, ly_from_shipped = True\<rparr>,
      \<lparr>ly_id = ''demo'', ly_profile = second_layer, ly_from_shipped = False\<rparr>]"

lemma example_layers_of: "layers_of ''demo'' example_layers = [first_layer, second_layer]"
  by (simp add: layers_of_def example_layers_def)

lemma example_loads: "\<exists>prof. load_profile ''demo'' example_layers = Inr prof"
  by (simp add: load_profile_layers example_layers_of resolve_def merge_def first_layer_def second_layer_def
      silent_layer_def betas_parts_def max_version_def SCHEMA_VERSION_MAX_def merge_oauth_def merge_both_def)


text \<open>The order of the directories does not matter to the order of the layers: the files are sorted by path.\<close>

lemma user_layer_files_ignore_directory_order:
  "user_layer_files (dirs @ dirs') = user_layer_files (dirs' @ dirs)"
proof -
  have "mset (concat (dirs @ dirs')) = mset (concat (dirs' @ dirs))" by (simp add: add.commute)
  then have "sort (concat (dirs @ dirs')) = sort (concat (dirs' @ dirs))"
    by (metis properties_for_sort mset_sort sorted_sort)
  then show ?thesis by (simp add: user_layer_files_def)
qed

end
