(* ===== verification/Wm_Map_Ir.thy ===== *)
theory Wm_Map_Ir
  imports Wm_Stream_Gemini Wm_Profile
begin

text \<open>
  The request half of the intermediate representation (\<open>ir/mod.rs\<close>): \<open>IrRequest\<close> with its items, parts, tools and
  sampling settings, and the single-precision numbers of the settings, as their 32 bits. A \<open>usize\<close> is a \<open>nat\<close>:
  it counts values held in memory.
\<close>

section \<open>Conversation\<close>

datatype ir_document_source =
    SourceBase64 string
  | SourceText string
  | SourceUrl string
  | SourceS3 (s3_uri: string) (s3_owner: "string option")
  | SourceFileId string

datatype ir_part =
    PartText string
  | PartImageUrl (image_url: string) (image_detail: "string option") (image_owner: "string option")
      (image_file_id: "string option")
  | PartImageBase64 (image_media_type: string) (image_data: string)
  | PartThinking (thinking_text: string) (thinking_signature: "string option")
  | PartRaw (part_raw_type: string) (part_raw: json)
  | PartDocument (document_source: ir_document_source) (document_media_type: string) (document_name: "string option")
      (document_citations: "bool option") (document_context: "string option")
  | PartAudio (audio_data: string) (audio_format_of: string)
  | PartCacheBreakpoint (breakpoint_mode: string) (breakpoint_inner: ir_part)

datatype ir_item =
    ItemSystem (role_text: string) (role_breakpoint: "string option") (role_parts: "ir_part list")
  | ItemSystemCache json
  | ItemSystemGuard json
  | ItemDeveloper (role_text: string) (role_breakpoint: "string option") (role_parts: "ir_part list")
  | ItemUser "ir_part list"
  | ItemAssistant "ir_part list" (assistant_phase_of: "string option")
  | ItemFunctionCall (fc_call_id: string) (fc_name: string) (fc_arguments: string) (fc_signature: "string option")
  | ItemCustomToolCall (cc_call_id: string) (cc_name: string) (cc_input: string) (cc_item: "json option")
  | ItemFunctionOutput (fo_call_id: string) (fo_output: string) (fo_parts: "ir_part list") (fo_is_error: bool)
  | ItemReasoning (ri_encrypted: "string option") (ri_summary: "string option") (ri_raw: "json option")
  | ItemHostedToolCall string json
  | ItemUnknown string json

datatype ir_tool =
    ToolFunction (tf_name: string) (tf_description: string) (tf_parameters: json) (tf_strict: "bool option")
  | ToolNamespace string json
  | ToolHosted string json
  | ToolUnknown string json
  | ToolCachePoint json

datatype ir_tool_choice = ChoiceAuto | ChoiceNone | ChoiceRequired | ChoiceNamed string

record ir_cache =
  c_enabled :: bool
  c_retention :: "string option"
  c_min_cacheable_tokens :: "u32 option"

definition ir_cache_default :: ir_cache where
  "ir_cache_default = \<lparr>c_enabled = False, c_retention = None, c_min_cacheable_tokens = None\<rparr>"

definition ir_cache_enabled :: ir_cache where
  "ir_cache_enabled = ir_cache_default\<lparr>c_enabled := True\<rparr>"


section \<open>Sampling settings\<close>

type_synonym f32 = "32 word"
type_synonym f64 = "64 word"

record ir_sampling =
  s_temperature :: "f32 option"
  s_top_p :: "f32 option"
  s_top_k :: "u32 option"
  s_max_tokens :: "u32 option"
  s_stop :: "string list"
  s_tool_choice :: ir_tool_choice
  s_parallel_tool_calls :: "bool option"
  s_store :: "bool option"
  s_previous_response_id :: "string option"
  s_cache :: ir_cache
  s_stream :: "bool option"
  s_include_thoughts :: "bool option"
  s_thinking_budget :: "u32 option"
  s_reasoning_effort :: "string option"
  s_max_reasoning_tokens :: "u32 option"
  s_json_schema :: "json option"
  s_json_schema_name :: "string option"
  s_json_schema_description :: "string option"
  s_json_schema_strict :: "bool option"
  s_json_object :: "bool option"
  s_include :: "string list"
  s_prompt_cache_key :: "string option"
  s_prompt_cache_retention :: "string option"
  s_prompt_cache_mode :: "string option"
  s_prompt_cache_ttl :: "string option"
  s_top_logprobs :: "u32 option"
  s_moderation_model :: "string option"
  s_moderation_input :: "string option"
  s_moderation_output :: "string option"
  s_include_obfuscation :: "bool option"
  s_user :: "string option"
  s_verbosity :: "string option"
  s_safety_identifier :: "string option"
  s_metadata :: "(string \<times> string) list"
  s_frequency_penalty :: "f32 option"
  s_presence_penalty :: "f32 option"
  s_seed :: "int option"
  s_n :: "u32 option"
  s_service_tier :: "string option"
  s_output_modalities :: "string list"
  s_audio_voice :: "string option"
  s_audio_format :: "string option"
  s_logprobs :: "bool option"
  s_logit_bias :: "(string \<times> f64) list"
  s_prediction :: "json option"
  s_web_search_options :: "json option"
  s_inference_geo :: "string option"
  s_performance_latency :: "string option"
  s_previous_message_id :: "string option"
  s_response_field_paths :: "string list"
  s_additional_request_fields :: "json option"
  s_prompt_variables :: "json option"
  s_guardrail :: "json option"
  s_container :: "json option"
  s_context_management :: "json option"
  s_mcp_servers :: "json option"
  s_media_resolution :: "string option"
  s_image_config :: "json option"
  s_audio_transcription_config :: "json option"
  s_translation_config :: "json option"
  s_affective_dialog :: "bool option"
  s_enhanced_civic_answers :: "bool option"
  s_multi_speaker_speech :: "json option"
  s_cached_content :: "string option"
  s_safety_settings :: "json option"
  s_request_labels :: "json option"
  s_truncation :: "string option"
  s_max_tool_calls :: "u32 option"
  s_background :: "bool option"
  s_conversation :: "json option"
  s_responses_context_management :: "json option"
  s_messages_thinking :: "json option"

definition ir_sampling_default :: ir_sampling where
  "ir_sampling_default =
     \<lparr>s_temperature = None, s_top_p = None, s_top_k = None, s_max_tokens = None, s_stop = [],
      s_tool_choice = ChoiceAuto, s_parallel_tool_calls = None, s_store = None, s_previous_response_id = None,
      s_cache = ir_cache_default, s_stream = None, s_include_thoughts = None, s_thinking_budget = None,
      s_reasoning_effort = None, s_max_reasoning_tokens = None, s_json_schema = None, s_json_schema_name = None,
      s_json_schema_description = None, s_json_schema_strict = None, s_json_object = None, s_include = [],
      s_prompt_cache_key = None, s_prompt_cache_retention = None, s_prompt_cache_mode = None,
      s_prompt_cache_ttl = None, s_top_logprobs = None, s_moderation_model = None, s_moderation_input = None,
      s_moderation_output = None, s_include_obfuscation = None, s_user = None, s_verbosity = None,
      s_safety_identifier = None, s_metadata = [], s_frequency_penalty = None, s_presence_penalty = None,
      s_seed = None, s_n = None, s_service_tier = None, s_output_modalities = [], s_audio_voice = None,
      s_audio_format = None, s_logprobs = None, s_logit_bias = [], s_prediction = None,
      s_web_search_options = None, s_inference_geo = None, s_performance_latency = None,
      s_previous_message_id = None, s_response_field_paths = [], s_additional_request_fields = None,
      s_prompt_variables = None, s_guardrail = None, s_container = None, s_context_management = None,
      s_mcp_servers = None, s_media_resolution = None, s_image_config = None,
      s_audio_transcription_config = None, s_translation_config = None, s_affective_dialog = None,
      s_enhanced_civic_answers = None, s_multi_speaker_speech = None, s_cached_content = None,
      s_safety_settings = None, s_request_labels = None, s_truncation = None, s_max_tool_calls = None,
      s_background = None, s_conversation = None, s_responses_context_management = None,
      s_messages_thinking = None\<rparr>"

record ir_request =
  r_model :: string
  r_items :: "ir_item list"
  r_tools :: "ir_tool list"
  r_sampling :: ir_sampling

definition ir_request_new :: "string \<Rightarrow> ir_item list \<Rightarrow> ir_request" where
  "ir_request_new model items =
     \<lparr>r_model = model, r_items = items, r_tools = [], r_sampling = ir_sampling_default\<rparr>"


section \<open>Single precision\<close>

text \<open>
  \<open>x as f32\<close> on the bits: the significand is shifted by 29 places (more below the smallest normal exponent) and
  rounded half to even; a carry moves into the exponent field by itself, and what is too large is the infinity.
\<close>

definition round_shift :: "nat \<Rightarrow> nat \<Rightarrow> nat" where
  "round_shift m s =
     (let q = m div 2 ^ s; r = m mod 2 ^ s
      in if 2 * r > 2 ^ s \<or> (2 * r = 2 ^ s \<and> odd q) then q + 1 else q)"

definition f32_of_f64 :: "f64 \<Rightarrow> f32" where
  "f32_of_f64 w =
     (let b = unat w; sign = (b div 2 ^ 63) * 2 ^ 31; e = (b div 2 ^ 52) mod 2048; frac = b mod 2 ^ 52
      in if e = 2047 then of_nat (sign + 255 * 2 ^ 23 + (if frac = 0 then 0 else 2 ^ 22))
         else
           let m = (if e = 0 then frac else 2 ^ 52 + frac); e = max e 1; e' = max e 897
           in of_nat (sign + min ((e' - 897) * 2 ^ 23 + round_shift m (29 + (e' - e))) (255 * 2 ^ 23)))"

text \<open>\<open>f64::from(x)\<close>: exact.\<close>

definition f64_of_f32 :: "f32 \<Rightarrow> f64" where
  "f64_of_f32 w =
     (let b = unat w; sign = (b div 2 ^ 31) * 2 ^ 63; e = (b div 2 ^ 23) mod 256; frac = b mod 2 ^ 23
      in if e = 255 then of_nat (sign + 2047 * 2 ^ 52 + frac * 2 ^ 29)
         else if e \<noteq> 0 then of_nat (sign + (e + 896) * 2 ^ 52 + frac * 2 ^ 29)
         else if frac = 0 then of_nat sign
         else let t = top_bit frac in of_nat (sign + (t + 873) * 2 ^ 52 + frac * 2 ^ (52 - t)))"

definition f32_is_finite :: "f32 \<Rightarrow> bool" where
  "f32_is_finite w = ((unat w div 2 ^ 23) mod 256 \<noteq> 255)"

text \<open>The order of two finite numbers is the order of their magnitudes with the signs put back, so \<open>-0\<close> is \<open>0\<close>.\<close>

definition f32_key :: "f32 \<Rightarrow> int" where
  "f32_key w =
     (let m = int (unat w mod 2 ^ 31) in if unat w div 2 ^ 31 = 1 then - m else m)"

definition f32_less :: "f32 \<Rightarrow> f32 \<Rightarrow> bool" where
  "f32_less a b = (f32_key a < f32_key b)"

lemma f32_less_samples:
  "f32_less 0xC0000000 0" "f32_less 0 0x3F800000" "\<not> f32_less 0x80000000 0" "\<not> f32_less 0 0x80000000"
  by (simp_all add: f32_less_def f32_key_def Let_def)

end
