(* ===== verification/Wm_Map_Base.thy ===== *)
theory Wm_Map_Base
  imports Wm_Map_Ir
begin

text \<open>
  The helpers the request maps share (\<open>map/mod.rs\<close>): cache breakpoints on parts, text of a role, media types and
  file parts, what a model rejects, stop sequences, tool name cases. A function that takes \<open>&mut LossReport\<close>
  returns the report; \<open>to_str\<close> is the printer of \<open>serde_json\<close>. \<open>reparse\<close> stands for
  \<open>to_string().parse::<f64>().ok()\<close> on an \<open>f32\<close>, \<open>upper\<close> and \<open>lower\<close> for Unicode's tables on one character.
\<close>

section \<open>Recording losses\<close>

text \<open>\<open>if cond { report.record(path, LossAction::Drop, "no slot"); }\<close>, one or many in order.\<close>

definition drop_if :: "bool \<Rightarrow> string \<Rightarrow> loss_report \<Rightarrow> loss_report" where
  "drop_if b p r = (if b then loss_record p LossDrop ''no slot'' r else r)"

definition drop_each :: "(bool \<times> string) list \<Rightarrow> loss_report \<Rightarrow> loss_report" where
  "drop_each bs r = foldl (\<lambda>r (b, p). drop_if b (''sampling.'' @ p) r) r bs"

definition is_some :: "'a option \<Rightarrow> bool" where
  "is_some x = (x \<noteq> None)"

lemma is_some_simps [simp]: "is_some (Some x)" "\<not> is_some None"
  by (simp_all add: is_some_def)

definition dropped_details :: "loss_report \<Rightarrow> string list" where
  "dropped_details r = map detail (filter (\<lambda>e. action e = LossDrop) r)"

definition hard :: "string \<Rightarrow> string \<Rightarrow> map_error" where
  "hard p d = MapHardError p d"

fun json_kind :: "json \<Rightarrow> string" where
  "json_kind JNull = ''null''"
| "json_kind (JBool _) = ''bool''"
| "json_kind (JNumber _) = ''number''"
| "json_kind (JString _) = ''string''"
| "json_kind (JArray _) = ''array''"
| "json_kind (JObject _) = ''object''"

definition json_object_or_raw ::
  "(string \<Rightarrow> json option) \<Rightarrow> string \<Rightarrow> string \<Rightarrow> string \<Rightarrow> string \<Rightarrow> loss_report \<Rightarrow> json \<times> loss_report" where
  "json_object_or_raw parse raw_text p d wrap_key r =
     (case json_object_or_wrapped parse raw_text wrap_key of
        (v, degraded) \<Rightarrow> (v, if degraded then loss_record p LossDegrade d r else r))"


section \<open>Fields\<close>

definition bool_field :: "json \<Rightarrow> string \<Rightarrow> bool option" where
  "bool_field v k = Option.bind (jget v k) as_bool"

definition i64_field :: "json \<Rightarrow> string \<Rightarrow> int option" where
  "i64_field v k = Option.bind (jget v k) as_i64"

definition f32_field :: "json \<Rightarrow> string \<Rightarrow> f32 option" where
  "f32_field v k = map_option f32_of_f64 (Option.bind (jget v k) as_f64)"

definition json_f64 :: "f64 \<Rightarrow> json" where
  "json_f64 w = (if f64_is_finite w then JNumber (Float w) else JNull)"

definition json_f32 :: "(f32 \<Rightarrow> f64 option) \<Rightarrow> f32 \<Rightarrow> json" where
  "json_f32 reparse x = json_f64 (unwrap_or (reparse x) (f64_of_f32 x))"

definition string_object_field :: "json \<Rightarrow> string \<Rightarrow> (string \<times> string) list" where
  "string_object_field v k =
     (case Option.bind (jget v k) as_object of
        None \<Rightarrow> []
      | Some m \<Rightarrow> List.map_filter (\<lambda>(k, v). map_option (\<lambda>s. (k, s)) (as_str v)) m)"

fun value_as_string :: "(json \<Rightarrow> string) \<Rightarrow> json \<Rightarrow> string" where
  "value_as_string to_str (JString s) = s"
| "value_as_string to_str v = to_str v"

definition is_gemini_file_raw :: "json \<Rightarrow> bool" where
  "is_gemini_file_raw raw = (is_some (jget raw ''fileData'') \<or> is_some (jget raw ''fileUri''))"

definition raw_type_name :: "json \<Rightarrow> string option" where
  "raw_type_name raw = nonempty_str_opt (jget raw ''type'')"

definition messages_raw_passthrough :: "json \<Rightarrow> bool" where
  "messages_raw_passthrough raw = (is_some (raw_type_name raw) \<and> \<not> is_gemini_file_raw raw)"

definition responses_raw_passthrough :: "json \<Rightarrow> bool" where
  "responses_raw_passthrough raw = messages_raw_passthrough raw"

definition off_dialect_raw_path :: "json \<Rightarrow> string" where
  "off_dialect_raw_path raw =
     (if is_some (jget raw ''fileData'') then ''item.part.fileData''
      else if is_some (jget raw ''fileUri'') then ''item.part.fileUri'' else ''item.part.raw'')"

text \<open>\<open>stop_values\<close>: the first key that holds a string or an array.\<close>

fun stop_values :: "json \<Rightarrow> string list \<Rightarrow> string list" where
  "stop_values v [] = []"
| "stop_values v (k # ks) =
     (case jget v k of
        Some (JString s) \<Rightarrow> [s]
      | Some (JArray xs) \<Rightarrow> List.map_filter as_str xs
      | _ \<Rightarrow> stop_values v ks)"

fun kept_stop :: "string list \<Rightarrow> loss_report \<Rightarrow> string list \<times> loss_report" where
  "kept_stop [] r = ([], r)"
| "kept_stop (s # ss) r =
     (if s = [] then kept_stop ss (loss_record ''sampling.stop'' LossDrop ''stop sequence is empty'' r)
      else (case kept_stop ss r of (kept, r) \<Rightarrow> (s # kept, r)))"

text \<open>\<open>.as_deref().map(str::trim).filter(|s| !s.is_empty())\<close> and \<open>.filter(|s| !s.trim().is_empty())\<close>.\<close>

definition trimmed :: "string option \<Rightarrow> string option" where
  "trimmed x = ofilter (\<lambda>s. s \<noteq> []) (map_option trim x)"

definition not_blank :: "string option \<Rightarrow> string option" where
  "not_blank x = ofilter (\<lambda>s. trim s \<noteq> []) x"

definition official_json_schema ::
  "json \<Rightarrow> string option \<Rightarrow> loss_report \<Rightarrow> (json \<times> string) option \<times> loss_report" where
  "official_json_schema schema name r =
     (case trimmed name of
        Some name \<Rightarrow> if is_object schema then (Some (schema, name), r)
          else (None, loss_record ''sampling.json_schema'' LossDrop
                  ''json_schema requires nonempty name and object schema'' r)
      | None \<Rightarrow> (None, loss_record ''sampling.json_schema'' LossDrop
                  ''json_schema requires nonempty name and object schema'' r))"

definition reject_sampling_number ::
  "f32 option \<Rightarrow> f32 \<Rightarrow> f32 \<Rightarrow> string \<Rightarrow> string \<Rightarrow> map_error + unit" where
  "reject_sampling_number x lo hi p d =
     (case x of
        Some v \<Rightarrow> if \<not> f32_is_finite v \<or> f32_less v lo \<or> f32_less hi v then Inl (hard p d) else Inr ()
      | None \<Rightarrow> Inr ())"

definition assistant_phase :: "string option \<Rightarrow> string option" where
  "assistant_phase phase = not_blank phase"

definition drop_assistant_phase :: "string option \<Rightarrow> string \<Rightarrow> loss_report \<Rightarrow> loss_report" where
  "drop_assistant_phase phase p r =
     (if is_some (assistant_phase phase) then loss_record p LossDrop ''phase has no slot'' r else r)"


section \<open>Settings without a slot\<close>

definition drop_dest_chat_logit_bias :: "ir_sampling \<Rightarrow> loss_report \<Rightarrow> loss_report" where
  "drop_dest_chat_logit_bias s = drop_each
     [(s_logit_bias s \<noteq> [], ''logit_bias''), (is_some (s_prediction s), ''prediction''),
      (is_some (s_web_search_options s), ''web_search_options'')]"

definition drop_dest_chat_sampling_extras :: "ir_sampling \<Rightarrow> loss_report \<Rightarrow> loss_report" where
  "drop_dest_chat_sampling_extras s r =
     drop_dest_chat_logit_bias s (drop_each
       [(is_some (s_prompt_cache_mode s), ''prompt_cache_mode''), (is_some (s_prompt_cache_ttl s), ''prompt_cache_ttl''),
        (is_some (s_moderation_model s), ''moderation_model''), (is_some (s_moderation_input s), ''moderation_input''),
        (is_some (s_moderation_output s), ''moderation_output''),
        (is_some (s_include_obfuscation s), ''include_obfuscation'')] r)"

definition drop_dest_top_logprobs :: "ir_sampling \<Rightarrow> loss_report \<Rightarrow> loss_report" where
  "drop_dest_top_logprobs s = drop_each [(is_some (s_top_logprobs s), ''top_logprobs'')]"

definition drop_dest_logprobs :: "ir_sampling \<Rightarrow> loss_report \<Rightarrow> loss_report" where
  "drop_dest_logprobs s = drop_each [(is_some (s_logprobs s), ''logprobs'')]"

definition drop_dest_n_and_penalties :: "ir_sampling \<Rightarrow> loss_report \<Rightarrow> loss_report" where
  "drop_dest_n_and_penalties s = drop_each
     [(is_some (s_frequency_penalty s), ''frequency_penalty''), (is_some (s_presence_penalty s), ''presence_penalty''),
      (is_some (s_seed s), ''seed''), (is_some (s_n s), ''n''), (is_some (s_media_resolution s), ''media_resolution''),
      (is_some (s_image_config s), ''image_config''),
      (is_some (s_audio_transcription_config s), ''audio_transcription_config''),
      (is_some (s_translation_config s), ''translation_config''), (is_some (s_affective_dialog s), ''affective_dialog''),
      (is_some (s_enhanced_civic_answers s), ''enhanced_civic_answers''),
      (is_some (s_multi_speaker_speech s), ''multi_speaker_speech''), (is_some (s_cached_content s), ''cached_content''),
      (is_some (s_safety_settings s), ''safety_settings''), (is_some (s_request_labels s), ''request_labels'')]"

definition drop_responses_request_fields :: "ir_sampling \<Rightarrow> loss_report \<Rightarrow> loss_report" where
  "drop_responses_request_fields s = drop_each
     [(is_some (not_blank (s_truncation s)), ''truncation''), (is_some (s_max_tool_calls s), ''max_tool_calls''),
      (is_some (s_background s), ''background''), (is_some (s_conversation s), ''conversation''),
      (is_some (s_responses_context_management s), ''responses_context_management'')]"

definition drop_messages_native_thinking :: "ir_sampling \<Rightarrow> loss_report \<Rightarrow> loss_report" where
  "drop_messages_native_thinking s = drop_each [(is_some (s_messages_thinking s), ''messages_thinking'')]"

definition drop_dest_output_modalities :: "ir_sampling \<Rightarrow> loss_report \<Rightarrow> loss_report" where
  "drop_dest_output_modalities s = drop_each
     [(s_output_modalities s \<noteq> [], ''output_modalities''), (is_some (s_audio_voice s), ''audio_voice''),
      (is_some (s_audio_format s), ''audio_format'')]"


section \<open>Cache breakpoints\<close>

definition with_prompt_cache :: "ir_part option \<Rightarrow> json \<Rightarrow> ir_part option" where
  "with_prompt_cache part src =
     (case part of
        None \<Rightarrow> None
      | Some part \<Rightarrow>
          (case jget src ''prompt_cache_breakpoint'' of
             None \<Rightarrow> Some part
           | Some marker \<Rightarrow>
               if \<not> is_object marker then Some part
               else Some (PartCacheBreakpoint
                      (unwrap_or (trimmed (Option.bind (jget marker ''mode'') as_str)) ''explicit'') part)))"

fun peel_prompt_cache :: "ir_part \<Rightarrow> ir_part \<times> string option" where
  "peel_prompt_cache (PartCacheBreakpoint mode inner) = (inner, Some mode)"
| "peel_prompt_cache part = (part, None)"

fun peel_prompt_cache_modes :: "ir_part \<Rightarrow> ir_part \<times> string list" where
  "peel_prompt_cache_modes (PartCacheBreakpoint mode inner) =
     (case peel_prompt_cache_modes inner of (p, modes) \<Rightarrow> (p, mode # modes))"
| "peel_prompt_cache_modes part = (part, [])"

text \<open>The loop of \<open>peel_prompt_cache_all\<close>: to the payload.\<close>

fun innermost_part :: "ir_part \<Rightarrow> ir_part" where
  "innermost_part (PartCacheBreakpoint mode inner) = innermost_part inner"
| "innermost_part part = part"

fun peel_prompt_cache_all :: "ir_part \<Rightarrow> ir_part \<times> string option" where
  "peel_prompt_cache_all (PartCacheBreakpoint mode inner) = (innermost_part inner, Some mode)"
| "peel_prompt_cache_all part = (part, None)"

definition apply_prompt_cache ::
  "json \<Rightarrow> string option \<Rightarrow> bool \<Rightarrow> loss_report \<Rightarrow> json \<times> loss_report" where
  "apply_prompt_cache v mode keep r =
     (case ofilter (\<lambda>m. m \<noteq> []) mode of
        None \<Rightarrow> (v, r)
      | Some mode \<Rightarrow>
          if \<not> keep then (v, loss_record ''part.prompt_cache_breakpoint'' LossDrop
                              ''prompt cache breakpoint has no slot'' r)
          else (jinsert ''prompt_cache_breakpoint'' (json_obj [(''mode'', JString mode)]) v, r))"

definition drop_prompt_cache_modes :: "ir_part \<Rightarrow> loss_report \<Rightarrow> loss_report" where
  "drop_prompt_cache_modes part r =
     foldl (\<lambda>r mode. snd (apply_prompt_cache JNull (Some mode) False r)) r (snd (peel_prompt_cache_modes part))"

fun role_text_breakpoint :: "ir_part list \<Rightarrow> string option" where
  "role_text_breakpoint [part] = snd (peel_prompt_cache part)"
| "role_text_breakpoint parts = None"

definition role_content_parts :: "ir_part list \<Rightarrow> ir_part list" where
  "role_content_parts parts =
     (if length parts > 1 \<and> list_ex (\<lambda>p. is_some (snd (peel_prompt_cache p))) parts then parts else [])"

definition note_role_breakpoint :: "string option \<Rightarrow> loss_report \<Rightarrow> loss_report" where
  "note_role_breakpoint mode r =
     (if is_some_and mode (\<lambda>m. m \<noteq> [])
      then loss_record ''part.prompt_cache_breakpoint'' LossDrop ''prompt cache breakpoint has no slot'' r else r)"

text \<open>One part of \<open>system_role_text\<close>: the text it adds and the report.\<close>

definition system_role_part :: "ir_part \<Rightarrow> loss_report \<Rightarrow> string \<times> loss_report" where
  "system_role_part part r =
     (case fst (peel_prompt_cache_all part) of
        PartText t \<Rightarrow> (t, r)
      | PartThinking t _ \<Rightarrow> (t, r)
      | PartCacheBreakpoint _ _ \<Rightarrow> ([], r)
      | PartImageUrl _ _ _ _ \<Rightarrow> ([], loss_record ''part.image'' LossDrop ''system role has no image slot'' r)
      | PartImageBase64 _ _ \<Rightarrow> ([], loss_record ''part.image'' LossDrop ''system role has no image slot'' r)
      | PartDocument _ _ _ _ _ \<Rightarrow> ([], loss_record ''part.document'' LossDrop ''system role has no document slot'' r)
      | PartAudio _ _ \<Rightarrow> ([], loss_record ''part.audio'' LossDrop ''system role has no audio slot'' r)
      | PartRaw _ _ \<Rightarrow> ([], loss_record ''part.raw'' LossDrop ''system role has no slot'' r))"

fun system_role_parts :: "ir_part list \<Rightarrow> loss_report \<Rightarrow> string \<times> loss_report" where
  "system_role_parts [] r = ([], r)"
| "system_role_parts (p # ps) r =
     (case system_role_part p r of (t, r) \<Rightarrow> (case system_role_parts ps r of (ts, r) \<Rightarrow> (t @ ts, r)))"

definition system_role_text :: "string \<Rightarrow> ir_part list \<Rightarrow> loss_report \<Rightarrow> string \<times> loss_report" where
  "system_role_text t content_parts r = (if content_parts = [] then (t, r) else system_role_parts content_parts r)"


section \<open>Media\<close>

definition note_dropped_image_detail :: "string option \<Rightarrow> string \<Rightarrow> loss_report \<Rightarrow> loss_report" where
  "note_dropped_image_detail d wire_name r =
     (if is_some_and d (\<lambda>t. t \<noteq> [])
      then loss_record ''part.image.detail'' LossDrop (''image detail has no '' @ wire_name @ '' slot'') r else r)"

definition image_file_id_without_url :: "string \<Rightarrow> string option \<Rightarrow> bool" where
  "image_file_id_without_url url file_id = (url = [] \<and> is_some_and file_id (\<lambda>f. f \<noteq> []))"

definition drop_image_file_id_without_url :: "string \<Rightarrow> string option \<Rightarrow> loss_report \<Rightarrow> bool \<times> loss_report" where
  "drop_image_file_id_without_url url file_id r =
     (if image_file_id_without_url url file_id
      then (True, loss_record ''part.image.file_id'' LossDrop ''no slot'' r) else (False, r))"

definition split_data_url :: "string \<Rightarrow> (string \<times> string) option" where
  "split_data_url url = Option.bind (strip_prefix ''data:'' url) (split_once_str '';base64,'')"

definition is_pdf_media_type :: "string \<Rightarrow> bool" where
  "is_pdf_media_type media =
     (to_ascii_lowercase media \<in> set [''application/pdf'', ''application/x-pdf'', ''pdf''])"

definition is_audio_media_type :: "string \<Rightarrow> bool" where
  "is_audio_media_type media = starts_with ''audio/'' (to_ascii_lowercase media)"

definition audio_format_from_mime :: "string \<Rightarrow> string" where
  "audio_format_from_mime mime =
     unwrap_or (ofilter (\<lambda>s. s \<noteq> []) (map_option snd (split_once CHR ''/'' mime))) mime"

definition audio_mime_from_format :: "string \<Rightarrow> string" where
  "audio_mime_from_format fmt = (if CHR ''/'' \<in> set fmt then fmt else ''audio/'' @ fmt)"

definition converse_document_formats :: "(string \<times> string) list" where
  "converse_document_formats =
     [(''application/pdf'', ''pdf''), (''application/x-pdf'', ''pdf''), (''pdf'', ''pdf''), (''text/csv'', ''csv''),
      (''csv'', ''csv''), (''application/msword'', ''doc''), (''doc'', ''doc''),
      (''application/vnd.openxmlformats-officedocument.wordprocessingml.document'', ''docx''), (''docx'', ''docx''),
      (''application/vnd.ms-excel'', ''xls''), (''xls'', ''xls''),
      (''application/vnd.openxmlformats-officedocument.spreadsheetml.sheet'', ''xlsx''), (''xlsx'', ''xlsx''),
      (''text/html'', ''html''), (''html'', ''html''), (''text/plain'', ''txt''), (''txt'', ''txt''),
      (''text/markdown'', ''md''), (''md'', ''md'')]"

definition converse_document_format :: "string \<Rightarrow> string option" where
  "converse_document_format media = map_of converse_document_formats (to_ascii_lowercase media)"

definition converse_format_media :: "(string \<times> string) list" where
  "converse_format_media =
     [(''pdf'', ''application/pdf''), (''csv'', ''text/csv''), (''doc'', ''application/msword''),
      (''docx'', ''application/vnd.openxmlformats-officedocument.wordprocessingml.document''),
      (''xls'', ''application/vnd.ms-excel''),
      (''xlsx'', ''application/vnd.openxmlformats-officedocument.spreadsheetml.sheet''),
      (''html'', ''text/html''), (''txt'', ''text/plain''), (''md'', ''text/markdown'')]"

definition media_type_from_converse_format :: "string \<Rightarrow> string" where
  "media_type_from_converse_format fmt =
     (let f = to_ascii_lowercase fmt in unwrap_or (map_of converse_format_media f) f)"

definition media_type_from_converse_image_format :: "string \<Rightarrow> string" where
  "media_type_from_converse_image_format fmt =
     (let fmt = trim fmt
      in if CHR ''/'' \<in> set fmt then fmt
         else
           let f = to_ascii_lowercase fmt
           in unwrap_or (map_of [(''png'', ''image/png''), (''jpeg'', ''image/jpeg''), (''jpg'', ''image/jpeg''),
                (''gif'', ''image/gif''), (''webp'', ''image/webp''), ('''', ''image/png'')] f) (''image/'' @ f))"

text \<open>\<open>url.split(['?', '#']).next()\<close>, then \<open>rsplit_once('.')\<close>.\<close>

definition converse_image_format_from_url :: "string \<Rightarrow> string" where
  "converse_image_format_from_url url =
     (let path = takeWhile (\<lambda>c. c \<noteq> CHR ''?'' \<and> c \<noteq> CHR ''#'') url;
          ext = (if CHR ''.'' \<in> set path then rev (takeWhile (\<lambda>c. c \<noteq> CHR ''.'') (rev path)) else [])
      in unwrap_or (map_of [(''png'', ''png''), (''jpg'', ''jpeg''), (''jpeg'', ''jpeg''), (''gif'', ''gif''),
           (''webp'', ''webp'')] (to_ascii_lowercase ext)) ''png'')"

definition converse_audio_format :: "string \<Rightarrow> string option" where
  "converse_audio_format fmt =
     (let lower = to_ascii_lowercase fmt; lower = unwrap_or (strip_prefix ''audio/'' lower) lower
      in ofilter (\<lambda>f. f \<in> set [''mp3'', ''opus'', ''wav'', ''aac'', ''flac'', ''mp4'', ''ogg'', ''mkv'', ''mka'',
           ''x-aac'', ''m4a'', ''mpeg'', ''mpga'', ''pcm'', ''webm'']) (Some lower))"

definition document_filename :: "string option \<Rightarrow> string \<Rightarrow> string" where
  "document_filename name media =
     (case trimmed name of
        Some name \<Rightarrow> name
      | None \<Rightarrow> (case converse_document_format media of Some ext \<Rightarrow> ''document.'' @ ext | None \<Rightarrow> ''document''))"

definition document_ref_source :: "string \<Rightarrow> ir_document_source" where
  "document_ref_source uri =
     (let lower = to_ascii_lowercase uri
      in if starts_with ''http://'' lower \<or> starts_with ''https://'' lower \<or> starts_with ''s3://'' lower
            \<or> starts_with ''gs://'' lower
         then SourceUrl uri else SourceFileId uri)"

definition function_response_mime_allowed :: "string \<Rightarrow> bool" where
  "function_response_mime_allowed mime =
     (let mime = to_ascii_lowercase mime
      in starts_with ''image/'' mime \<or> is_pdf_media_type mime \<or> mime = ''text/plain'')"

record inline_response =
  fi_mime :: string
  fi_data :: string
  fi_display_name :: "string option"

definition inline_view :: "ir_part \<Rightarrow> (string \<times> string \<times> string option) option" where
  "inline_view part =
     (case part of
        PartImageBase64 media d \<Rightarrow> Some (media, d, None)
      | PartImageUrl url _ _ _ \<Rightarrow> map_option (\<lambda>(mime, d). (mime, d, None)) (split_data_url url)
      | PartDocument (SourceBase64 d) media name _ _ \<Rightarrow> Some (media, d, name)
      | PartRaw _ raw \<Rightarrow>
          Option.bind (jget raw ''inlineData'') (\<lambda>inline.
            Option.bind (str_field inline ''mimeType'') (\<lambda>mime.
              map_option (\<lambda>d. (mime, d, str_field inline ''displayName'')) (str_field inline ''data'')))
      | _ \<Rightarrow> None)"

definition function_response_inline :: "ir_part \<Rightarrow> inline_response option" where
  "function_response_inline part =
     (case inline_view part of
        None \<Rightarrow> None
      | Some (mime, d, name) \<Rightarrow>
          if trim d = [] \<or> \<not> function_response_mime_allowed mime then None
          else Some \<lparr>fi_mime = mime, fi_data = d, fi_display_name = ofilter (\<lambda>n. n \<noteq> []) name\<rparr>)"

definition function_response_image :: "ir_part \<Rightarrow> (string \<times> string) option" where
  "function_response_image part =
     Option.bind (function_response_inline part) (\<lambda>inline.
       if starts_with ''image/'' (to_ascii_lowercase (fi_mime inline)) then Some (fi_mime inline, fi_data inline)
       else None)"

definition part_has_media_hint :: "json \<Rightarrow> bool" where
  "part_has_media_hint part =
     list_ex (\<lambda>k. is_some (jget part k))
       [''mediaResolution'', ''mediaProcessing'', ''videoMetadata'', ''audioTranscription'', ''speechMetadata'',
        ''partMetadata'', ''thoughtSignature'']"

fun plain_media_part :: "ir_part \<Rightarrow> ir_part option" where
  "plain_media_part (PartRaw _ raw) =
     (if \<not> part_has_media_hint raw then None
      else
        (case jget raw ''inlineData'' of
           Some inline \<Rightarrow>
             (let media = unwrap_or (str_field inline ''mimeType'') []; d = unwrap_or (str_field inline ''data'') []
              in if d = [] then None
                 else if is_audio_media_type media then Some (PartAudio d (audio_format_from_mime media))
                 else if is_pdf_media_type media then Some (PartDocument (SourceBase64 d) media None None None)
                 else Some (PartImageBase64 media d))
         | None \<Rightarrow>
             (case str_field raw ''text'' of
                Some t \<Rightarrow> Some (PartText t)
              | None \<Rightarrow>
                  Option.bind (jget raw ''fileData'') (\<lambda>file.
                    let media = unwrap_or (str_field file ''mimeType'') [];
                        uri = unwrap_or (str_field file ''fileUri'') []
                    in if is_pdf_media_type media \<and> uri \<noteq> []
                       then Some (PartDocument (document_ref_source uri) media None None None) else None))))"
| "plain_media_part part = None"

definition function_output_json_text :: "(json \<Rightarrow> string) \<Rightarrow> ir_part \<Rightarrow> string option" where
  "function_output_json_text to_str part =
     (case fst (peel_prompt_cache_all part) of
        PartRaw type_name raw \<Rightarrow> if type_name = ''json'' then Some (to_str raw) else None
      | _ \<Rightarrow> None)"

definition top_level_text_or_json :: "(json \<Rightarrow> string) \<Rightarrow> ir_part \<Rightarrow> string option" where
  "top_level_text_or_json to_str part =
     (case part of
        PartText piece \<Rightarrow> if piece \<noteq> [] then Some piece else function_output_json_text to_str part
      | _ \<Rightarrow> function_output_json_text to_str part)"

text \<open>\<open>if !text.is_empty() { text.push('\n'); } text.push_str(&piece);\<close>\<close>

definition add_line :: "string \<Rightarrow> string \<Rightarrow> string" where
  "add_line t piece = (if t \<noteq> [] then t @ [CHR 10] @ piece else piece)"

definition function_output_text :: "(json \<Rightarrow> string) \<Rightarrow> string \<Rightarrow> ir_part list \<Rightarrow> string" where
  "function_output_text to_str output parts =
     (if list_ex (\<lambda>p. case p of PartText t \<Rightarrow> t \<noteq> [] | _ \<Rightarrow> False) parts
      then foldl add_line [] (List.map_filter (top_level_text_or_json to_str) parts)
      else foldl add_line output (List.map_filter (function_output_json_text to_str) parts))"

text \<open>\<open>decode_openai_file_part\<close>: \<open>str_field(file, a).or_else(|| str_field(part, a))...\<close> is the first of a list.\<close>

definition first_str :: "(json \<times> string) list \<Rightarrow> string option" where
  "first_str ks = foldr (\<lambda>(v, k) rest. or_else (str_field v k) rest) ks None"

definition decode_openai_file_part :: "json \<Rightarrow> ir_part option" where
  "decode_openai_file_part part =
     (let file = unwrap_or (jget part ''file'') part;
          name = ofilter (\<lambda>s. s \<noteq> [])
            (first_str [(file, ''filename''), (part, ''filename''), (file, ''name''), (part, ''name'')]);
          media = unwrap_or (first_str [(file, ''media_type''), (part, ''media_type'')]) []
      in case first_str [(file, ''file_id''), (part, ''file_id'')] of
           Some file_id \<Rightarrow> Some (PartDocument (SourceFileId file_id) media name None None)
         | None \<Rightarrow>
             (case first_str [(file, ''file_url''), (part, ''file_url''), (file, ''url''), (part, ''url'')] of
                Some url \<Rightarrow> Some (PartDocument (document_ref_source url) media name None None)
              | None \<Rightarrow>
                  (case first_str [(file, ''file_data''), (part, ''file_data''), (file, ''data'')] of
                     None \<Rightarrow> None
                   | Some d \<Rightarrow>
                       (case split_data_url d of
                          Some (mt, b64) \<Rightarrow> Some (PartDocument (SourceBase64 b64) mt name None None)
                        | None \<Rightarrow>
                            Some (PartDocument (SourceBase64 d) (if media = [] then ''application/pdf'' else media)
                                    name None None)))))"

definition decode_input_audio_part :: "json \<Rightarrow> ir_part option" where
  "decode_input_audio_part part =
     (let audio = unwrap_or (jget part ''input_audio'') part
      in map_option (\<lambda>d. PartAudio d (unwrap_or (str_field audio ''format'') ''wav'')) (str_field audio ''data''))"


section \<open>What a model rejects\<close>

text \<open>\<open>model.rsplit('/').next()\<close>.\<close>

definition openai_model_leaf :: "string \<Rightarrow> string" where
  "openai_model_leaf model = rev (takeWhile (\<lambda>c. c \<noteq> CHR ''/'') (rev model))"

definition chat_stop_unsupported :: "string \<Rightarrow> bool" where
  "chat_stop_unsupported model =
     (let id' = to_ascii_lowercase (openai_model_leaf model)
      in (id' = ''o3'' \<or> (starts_with ''o3-'' id' \<and> \<not> starts_with ''o3-mini'' id'))
         \<or> id' = ''o4-mini'' \<or> starts_with ''o4-mini-'' id')"

definition gpt5_sampling_params_rejected :: "string \<Rightarrow> string option \<Rightarrow> bool" where
  "gpt5_sampling_params_rejected model effort =
     (let id' = to_ascii_lowercase (openai_model_leaf model);
          older = (id' = ''gpt-5'' \<or> starts_with ''gpt-5-20'' id' \<or> id' = ''gpt-5-mini'' \<or> starts_with ''gpt-5-mini-'' id'
                   \<or> id' = ''gpt-5-nano'' \<or> starts_with ''gpt-5-nano-'' id');
          later = (id' = ''gpt-5.1'' \<or> starts_with ''gpt-5.1-'' id' \<or> id' = ''gpt-5.2'' \<or> starts_with ''gpt-5.2-'' id')
      in if older then True
         else if \<not> later then False
         else (case trimmed effort of Some t \<Rightarrow> \<not> eq_ignore_ascii_case t ''none'' | None \<Rightarrow> False))"


section \<open>Tool name case\<close>

type_synonym case_tables = "(string \<Rightarrow> bool) \<times> (string \<Rightarrow> string)"

definition convert_case_step :: "case_tables \<Rightarrow> char \<Rightarrow> string \<Rightarrow> nat \<times> string \<Rightarrow> string" where
  "convert_case_step tables sep out ich =
     (case (tables, ich) of
        ((upper, lower), (i, ch)) \<Rightarrow>
          if ch = ''-'' \<or> ch = ''_'' then out @ [sep]
          else if upper ch then
            (if i > 0 \<and> \<not> ends_with [sep] out \<and> \<not> ends_with ''.'' out then out @ [sep] else out) @ lower ch
          else out @ ch)"

definition convert_case :: "case_tables \<Rightarrow> string \<Rightarrow> char \<Rightarrow> string" where
  "convert_case tables name sep = foldl (convert_case_step tables sep) [] (List.enumerate 0 (chars name))"

fun apply_tool_name_case :: "case_tables \<Rightarrow> string \<Rightarrow> tool_name_case option \<Rightarrow> string" where
  "apply_tool_name_case tables name None = name"
| "apply_tool_name_case tables name (Some CaseAsIs) = name"
| "apply_tool_name_case tables name (Some CaseSnake) = convert_case tables name CHR ''_''"
| "apply_tool_name_case tables name (Some CaseKebab) = convert_case tables name CHR ''-''"

end
