(* ===== verification/Wm_Map_Tools.thy ===== *)
theory Wm_Map_Tools
  imports Wm_Map_Base
begin

text \<open>
  \<open>map/tools.rs\<close>: tools of a request, decoded by their type and prepared for an encoder under the profile's tool
  type policy. A namespace is a group of functions; where the wire has no such group it is flattened to
  functions with dotted names, or refused.
\<close>

section \<open>Reading a tool\<close>

definition HOSTED_KINDS :: "string list" where
  "HOSTED_KINDS =
     [''web_search'', ''web_search_preview'', ''file_search'', ''code_interpreter'', ''computer'',
      ''image_generation'', ''mcp'', ''local_shell'', ''shell'', ''tool_search'']"

definition is_hosted :: "string \<Rightarrow> bool" where
  "is_hosted type_name = (type_name \<in> set HOSTED_KINDS)"

definition empty_parameters :: json where
  "empty_parameters = json_obj [(''type'', JString ''object''), (''properties'', JObject [])]"

definition tool_parameters :: "json \<Rightarrow> json" where
  "tool_parameters src = unwrap_or (or_else (jget src ''parameters'') (jget src ''input_schema'')) empty_parameters"

definition function_from :: "json \<Rightarrow> ir_tool" where
  "function_from src =
     ToolFunction (unwrap_or (str_field src ''name'') []) (unwrap_or (str_field src ''description'') [])
       (tool_parameters src) (bool_field src ''strict'')"

definition looks_like_function :: "json \<Rightarrow> bool" where
  "looks_like_function v =
     (is_some (str_field v ''name'')
      \<and> (is_some (jget v ''parameters'') \<or> is_some (jget v ''input_schema'') \<or> is_some (jget v ''description'')
         \<or> str_field v ''type'' = Some ''function''))"

definition decode_function_or_messages :: "json \<Rightarrow> string \<Rightarrow> ir_tool" where
  "decode_function_or_messages v type_name =
     (case jget v ''function'' of
        Some func \<Rightarrow> function_from func
      | None \<Rightarrow> if looks_like_function v then function_from v else ToolUnknown type_name v)"

definition decode_tool :: "json \<Rightarrow> ir_tool" where
  "decode_tool v =
     (let type_name = unwrap_or (str_field v ''type'') []
      in if type_name = ''namespace'' then ToolNamespace (unwrap_or (str_field v ''name'') []) v
         else if type_name = ''function'' \<or> type_name = [] then decode_function_or_messages v type_name
         else if is_hosted type_name then ToolHosted type_name v
         else ToolUnknown type_name v)"


section \<open>Namespaces\<close>

definition namespace_raw :: "string \<Rightarrow> json \<Rightarrow> json" where
  "namespace_raw name raw =
     (let obj = jinsert ''type'' (JString ''namespace'') (if is_object raw then raw else JObject [])
      in if name \<noteq> [] then jinsert ''name'' (JString name) obj else obj)"

definition flatten_child :: "string \<Rightarrow> string \<Rightarrow> json \<Rightarrow> map_error + ir_tool" where
  "flatten_child name p child =
     (case str_field child ''name'' of
        None \<Rightarrow> Inl (hard p ''namespace child missing name'')
      | Some child_name \<Rightarrow>
          Inr (ToolFunction (name @ ''.'' @ child_name) (unwrap_or (str_field child ''description'') [])
                 (tool_parameters child) (bool_field child ''strict'')))"

fun flatten_children :: "string \<Rightarrow> string \<Rightarrow> json list \<Rightarrow> map_error + ir_tool list" where
  "flatten_children name p [] = Inr []"
| "flatten_children name p (child # rest) =
     (case flatten_child name p child of
        Inl e \<Rightarrow> Inl e
      | Inr tool \<Rightarrow>
          (case flatten_children name p rest of Inl e \<Rightarrow> Inl e | Inr tools \<Rightarrow> Inr (tool # tools)))"

definition flatten_namespace :: "string \<Rightarrow> json \<Rightarrow> string \<Rightarrow> map_error + ir_tool list" where
  "flatten_namespace name raw p =
     (case Option.bind (jget raw ''tools'') as_array of
        None \<Rightarrow> Inl (hard p ''namespace has no flatten table (tools[])'')
      | Some tools \<Rightarrow>
          (case flatten_children name p tools of
             Inl e \<Rightarrow> Inl e
           | Inr out \<Rightarrow> if out = [] then Inl (hard p ''namespace flatten table is empty'') else Inr out))"

definition split_namespace_name :: "string \<Rightarrow> (string \<times> string) option" where
  "split_namespace_name name =
     Option.bind (split_once CHR ''.'' name) (\<lambda>(ns, leaf). if ns = [] \<or> leaf = [] then None else Some (ns, leaf))"

definition qualify_call_name :: "json \<Rightarrow> string" where
  "qualify_call_name item =
     (let name = unwrap_or (str_field item ''name'') []
      in case str_field item ''namespace'' of
           Some ns \<Rightarrow> if ns \<noteq> [] \<and> \<not> starts_with (ns @ ''.'') name then ns @ ''.'' @ name else name
         | None \<Rightarrow> name)"


section \<open>Preparing tools\<close>

datatype prepared_tool =
    PreparedFunction (pf_name: string) (pf_description: string) (pf_parameters: json) (pf_strict: "bool option")
  | PreparedRaw json

fun wire_keeps_strict :: "wire \<Rightarrow> bool" where
  "wire_keeps_strict ChatCompletions = True"
| "wire_keeps_strict Responses = True"
| "wire_keeps_strict Converse = True"
| "wire_keeps_strict Messages = False"
| "wire_keeps_strict Gemini = False"

text \<open>What \<open>prepare_tools\<close> reads of the profile: the wire, the policy, the case of tool names and the tables for it.\<close>

record tool_setting =
  ts_wire :: wire
  ts_policy :: tool_type_policy
  ts_case :: "tool_name_case option"
  ts_tables :: case_tables

definition tool_path :: "nat \<Rightarrow> string" where
  "tool_path idx = ''tools['' @ show_nat idx @ '']''"

definition strict_drop :: "tool_setting \<Rightarrow> string \<Rightarrow> bool option \<Rightarrow> loss_report \<Rightarrow> loss_report" where
  "strict_drop ts p strict r = drop_if (is_some strict \<and> \<not> wire_keeps_strict (ts_wire ts)) (p @ ''.strict'') r"

definition prepared_function :: "tool_setting \<Rightarrow> string \<Rightarrow> string \<Rightarrow> json \<Rightarrow> bool option \<Rightarrow> prepared_tool" where
  "prepared_function ts name description parameters strict =
     PreparedFunction (apply_tool_name_case (ts_tables ts) name (ts_case ts)) description parameters strict"

text \<open>The loop over a flattened namespace; \<open>if let IrTool::Function\<close> skips anything else.\<close>

fun push_flat :: "tool_setting \<Rightarrow> string \<Rightarrow> ir_tool list \<Rightarrow> loss_report \<Rightarrow> prepared_tool list \<times> loss_report" where
  "push_flat ts p [] r = ([], r)"
| "push_flat ts p (ToolFunction name description parameters strict # tools) r =
     (case push_flat ts p tools (strict_drop ts p strict r) of
        (out, r) \<Rightarrow> (prepared_function ts name description parameters strict # out, r))"
| "push_flat ts p (_ # tools) r = push_flat ts p tools r"

definition push_namespace ::
  "tool_setting \<Rightarrow> string \<Rightarrow> json \<Rightarrow> string \<Rightarrow> loss_report \<Rightarrow> map_error + (prepared_tool list \<times> loss_report)" where
  "push_namespace ts name raw p r =
     (case ts_policy ts of
        ToolPassthrough \<Rightarrow> Inr ([PreparedRaw raw], loss_record p LossPreserve ''namespace passthrough'' r)
      | ToolFlattenNamespace \<Rightarrow>
          (case flatten_namespace name raw p of
             Inl e \<Rightarrow> Inl e
           | Inr flat \<Rightarrow>
               Inr (push_flat ts p flat (loss_record p LossDegrade ''flatten namespace to dotted function tools'' r)))
      | ToolHardError \<Rightarrow>
          if ts_wire ts = Responses
          then Inr ([PreparedRaw (namespace_raw name raw)], loss_record p LossPreserve ''namespace tool'' r)
          else Inl (hard p ''type=namespace is not silent-stripped; hard-error (set tool_type_policy = flatten-namespace to flatten)''))"

definition push_custom_tool ::
  "tool_setting \<Rightarrow> json \<Rightarrow> string \<Rightarrow> loss_report \<Rightarrow> map_error + (prepared_tool list \<times> loss_report)" where
  "push_custom_tool ts raw p r =
     (let name = unwrap_or (str_field raw ''name'') []
      in if trim name = [] then Inl (hard p ''custom tool name is empty'')
         else if ts_wire ts = ChatCompletions \<or> ts_wire ts = Responses
         then Inr ([PreparedRaw raw], loss_record p LossPreserve ''custom tool'' r)
         else Inr ([prepared_function ts name (unwrap_or (str_field raw ''description'') []) empty_parameters None],
                   loss_record p LossDegrade ''custom tool became a function tool'' r))"

definition push_hosted ::
  "tool_setting \<Rightarrow> string \<Rightarrow> json \<Rightarrow> string \<Rightarrow> loss_report \<Rightarrow> map_error + (prepared_tool list \<times> loss_report)" where
  "push_hosted ts kind raw p r =
     (if ts_policy ts = ToolPassthrough
      then Inr ([PreparedRaw raw], loss_record p LossPreserve ''hosted passthrough'' r)
      else if ts_wire ts = Responses then Inr ([PreparedRaw raw], loss_record p LossPreserve (''hosted '' @ kind) r)
      else Inl (hard p (''hosted tool `'' @ kind @ ''` has no slot on `'' @ wire_as_str (ts_wire ts) @ ''`'')))"

definition prepare_tool ::
  "tool_setting \<Rightarrow> nat \<Rightarrow> ir_tool \<Rightarrow> loss_report \<Rightarrow> map_error + (prepared_tool list \<times> loss_report)" where
  "prepare_tool ts idx tool r =
     (let p = tool_path idx
      in case tool of
           ToolFunction name description parameters strict \<Rightarrow>
             if trim name = [] then Inl (hard p ''function tool name is empty'')
             else Inr ([prepared_function ts name description parameters strict], strict_drop ts p strict r)
         | ToolNamespace name raw \<Rightarrow> push_namespace ts name raw p r
         | ToolHosted kind raw \<Rightarrow> push_hosted ts kind raw p r
         | ToolCachePoint raw \<Rightarrow>
             if ts_wire ts = Converse then Inr ([PreparedRaw (json_obj [(''cachePoint'', raw)])], r)
             else Inr ([], loss_record p LossDrop ''tool cache point has no slot'' r)
         | ToolUnknown type_name raw \<Rightarrow>
             if type_name = ''systemTool'' then
               (if ts_wire ts = Converse \<and> is_object raw then Inr ([PreparedRaw (json_obj [(''systemTool'', raw)])], r)
                else Inr ([], loss_record p LossDrop ''system tool has no slot'' r))
             else if type_name = ''custom'' then push_custom_tool ts raw p r
             else (case ts_policy ts of
                     ToolPassthrough \<Rightarrow> Inr ([PreparedRaw raw], loss_record p LossPreserve ''unknown tool passthrough'' r)
                   | _ \<Rightarrow> Inl (hard p (''unknown tool type `'' @ type_name
                            @ ''` (tool_type_policy = passthrough|flatten-namespace|hard-error)''))))"

fun prepare_from ::
  "tool_setting \<Rightarrow> nat \<Rightarrow> ir_tool list \<Rightarrow> loss_report \<Rightarrow> map_error + (prepared_tool list \<times> loss_report)" where
  "prepare_from ts idx [] r = Inr ([], r)"
| "prepare_from ts idx (tool # tools) r =
     (case prepare_tool ts idx tool r of
        Inl e \<Rightarrow> Inl e
      | Inr (now, r) \<Rightarrow>
          (case prepare_from ts (idx + 1) tools r of Inl e \<Rightarrow> Inl e | Inr (out, r) \<Rightarrow> Inr (now @ out, r)))"

definition tool_setting_of :: "case_tables \<Rightarrow> wire \<Rightarrow> resolved_profile \<Rightarrow> tool_setting" where
  "tool_setting_of tables w prof =
     \<lparr>ts_wire = w, ts_policy = dl_tool_type_policy (p_dialect prof),
      ts_case = Option.bind (p_fingerprint prof) f_tool_name_case, ts_tables = tables\<rparr>"

definition prepare_tools ::
  "case_tables \<Rightarrow> wire \<Rightarrow> ir_request \<Rightarrow> resolved_profile \<Rightarrow> loss_report
     \<Rightarrow> map_error + (prepared_tool list \<times> loss_report)" where
  "prepare_tools tables w ir prof r = prepare_from (tool_setting_of tables w prof) 0 (r_tools ir) r"


section \<open>No tool is lost in silence\<close>

text \<open>A tool has a place in what is sent, or a \<open>Drop\<close> in the report under its own path.\<close>

definition accounted :: "nat \<Rightarrow> prepared_tool list \<Rightarrow> loss_report \<Rightarrow> bool" where
  "accounted idx out r = (out \<noteq> [] \<or> list_ex (\<lambda>e. loss_path e = tool_path idx \<and> action e = LossDrop) r)"

text \<open>What a function tool is sent as.\<close>

definition sent_function :: "tool_setting \<Rightarrow> ir_tool \<Rightarrow> prepared_tool list \<Rightarrow> bool" where
  "sent_function ts tool out =
     (case tool of
        ToolFunction name description parameters strict \<Rightarrow> out = [prepared_function ts name description parameters strict]
      | _ \<Rightarrow> True)"

lemma loss_record_grows [simp]: "set r \<subseteq> set (loss_record p a d r)"
  by (auto simp: loss_record_def)

lemma drop_if_grows [simp]: "set r \<subseteq> set (drop_if b p r)"
  by (auto simp: drop_if_def loss_record_def)

lemma push_flat_grows: "push_flat ts p tools r = (out, r') \<Longrightarrow> set r \<subseteq> set r'"
proof (induction ts p tools r arbitrary: out r' rule: push_flat.induct)
  case (2 ts p name description parameters strict tools r)
  obtain out' r'' where rest: "push_flat ts p tools (strict_drop ts p strict r) = (out', r'')" by force
  with "2.prems" "2.IH" [OF rest] show ?case
    using drop_if_grows [of r] by (fastforce simp: strict_drop_def)
qed simp_all

lemma flatten_children_functions:
  "flatten_children name p cs = Inr tools \<Longrightarrow> length tools = length cs
     \<and> list_all2 (\<lambda>tool c. \<exists>leaf. str_field c ''name'' = Some leaf
         \<and> tool = ToolFunction (name @ ''.'' @ leaf) (unwrap_or (str_field c ''description'') []) (tool_parameters c)
             (bool_field c ''strict'')) tools cs"
  by (induction cs arbitrary: tools) (auto simp: flatten_child_def split: sum.splits option.splits)

lemma flatten_namespace_nonempty: "flatten_namespace name raw p = Inr tools \<Longrightarrow> tools \<noteq> []"
  by (auto simp: flatten_namespace_def split: option.splits sum.splits if_splits)

lemma flatten_namespace_functions:
  "flatten_namespace name raw p = Inr tools \<Longrightarrow> t \<in> set tools \<Longrightarrow> \<exists>n d ps st. t = ToolFunction n d ps st"
proof -
  assume f: "flatten_namespace name raw p = Inr tools" and t: "t \<in> set tools"
  from f obtain cs where "flatten_children name p cs = Inr tools"
    by (auto simp: flatten_namespace_def split: option.splits sum.splits if_splits)
  from flatten_children_functions [OF this] t show ?thesis
    by (fastforce simp: list_all2_conv_all_nth in_set_conv_nth)
qed

lemma push_flat_nonempty:
  "push_flat ts p tools r = (out, r') \<Longrightarrow> tools \<noteq> [] \<Longrightarrow> \<forall>t \<in> set tools. \<exists>n d ps st. t = ToolFunction n d ps st \<Longrightarrow> out \<noteq> []"
  by (cases tools) (auto split: prod.splits)

lemma push_namespace_kept:
  "push_namespace ts name raw p r = Inr (out, r') \<Longrightarrow> out \<noteq> [] \<and> set r \<subseteq> set r'"
proof (cases "ts_policy ts")
  case ToolFlattenNamespace
  assume "push_namespace ts name raw p r = Inr (out, r')"
  with ToolFlattenNamespace obtain flat where flat: "flatten_namespace name raw p = Inr flat"
    and push: "push_flat ts p flat (loss_record p LossDegrade ''flatten namespace to dotted function tools'' r) = (out, r')"
    by (auto simp: push_namespace_def split: sum.splits)
  have "out \<noteq> []"
    using push_flat_nonempty [OF push flatten_namespace_nonempty [OF flat]] flatten_namespace_functions [OF flat] by blast
  then show ?thesis using push_flat_grows [OF push] loss_record_grows by blast
qed (auto simp: push_namespace_def loss_record_def split: if_splits)

lemma prepare_tool_accounted:
  assumes "prepare_tool ts idx tool r = Inr (out, r')"
  shows "set r \<subseteq> set r' \<and> accounted idx out r' \<and> sent_function ts tool out"
proof (cases tool)
  case (ToolNamespace name raw)
  then show ?thesis
    using assms push_namespace_kept by (auto simp: prepare_tool_def accounted_def sent_function_def Let_def)
qed (use assms in \<open>auto simp: prepare_tool_def accounted_def sent_function_def push_hosted_def push_custom_tool_def
       strict_drop_def Let_def loss_record_def drop_if_def split: if_splits tool_type_policy.splits\<close>)

lemma accounted_mono: "accounted idx out r \<Longrightarrow> set r \<subseteq> set r' \<Longrightarrow> accounted idx out r'"
  by (auto simp: accounted_def list_ex_iff)

lemma prepare_from_accounted:
  "prepare_from ts idx tools r = Inr (out, r') \<Longrightarrow> set r \<subseteq> set r'
     \<and> (\<exists>outs. out = concat outs \<and> length outs = length tools
          \<and> (\<forall>i < length tools. accounted (idx + i) (outs ! i) r' \<and> sent_function ts (tools ! i) (outs ! i)))"
proof (induction ts idx tools r arbitrary: out r' rule: prepare_from.induct)
  case (2 ts idx tool tools r)
  from "2.prems" obtain now s rest where now: "prepare_tool ts idx tool r = Inr (now, s)"
    and rest: "prepare_from ts (idx + 1) tools s = Inr (rest, r')" and out: "out = now @ rest"
    by (auto split: sum.splits)
  from "2.IH" [OF now refl rest] obtain outs where sub: "set s \<subseteq> set r'" and outs: "rest = concat outs"
    "length outs = length tools"
    "\<forall>i < length tools. accounted (idx + 1 + i) (outs ! i) r' \<and> sent_function ts (tools ! i) (outs ! i)" by blast
  have first: "set r \<subseteq> set s" "accounted idx now s" "sent_function ts tool now"
    using prepare_tool_accounted [OF now] by auto
  have "accounted (idx + i) ((now # outs) ! i) r' \<and> sent_function ts ((tool # tools) ! i) ((now # outs) ! i)"
    if "i < length (tool # tools)" for i
    using that first sub outs accounted_mono by (cases i) auto
  then show ?case
    using first(1) sub outs(1,2) out by (intro conjI exI [of _ "now # outs"]) auto
qed simp

text \<open>C23. When the tools of a request are prepared, each tool either contributes to the list sent, in its place, or
  is named in the loss report as dropped; a function tool is always sent, with its name in the profile's case.
\<close>

theorem prepared_tools_accounted:
  assumes "prepare_tools tables w ir prof r = Inr (out, r')"
  shows "\<exists>outs. out = concat outs \<and> length outs = length (r_tools ir)
    \<and> (\<forall>i < length (r_tools ir). accounted i (outs ! i) r'
         \<and> sent_function (tool_setting_of tables w prof) (r_tools ir ! i) (outs ! i))"
  using prepare_from_accounted [of _ 0] assms by (fastforce simp: prepare_tools_def)


section \<open>Names of flattened functions\<close>

definition named_call :: "string \<Rightarrow> string \<Rightarrow> json" where
  "named_call ns leaf = json_obj [(''name'', JString leaf), (''namespace'', JString ns)]"

lemma flattened_name_splits:
  "ns \<noteq> [] \<Longrightarrow> CHR ''.'' \<notin> set ns \<Longrightarrow> leaf \<noteq> [] \<Longrightarrow> split_namespace_name (ns @ ''.'' @ leaf) = Some (ns, leaf)"
  by (simp add: split_namespace_name_def)

lemma flattened_name_qualified:
  "ns \<noteq> [] \<Longrightarrow> \<not> starts_with (ns @ ''.'') leaf \<Longrightarrow> qualify_call_name (named_call ns leaf) = ns @ ''.'' @ leaf"
  by (simp add: qualify_call_name_def named_call_def Let_def)


text \<open>Without the conditions: a dotted namespace is split at its first dot, and a function whose own name repeats
the namespace is not qualified.\<close>

lemma dotted_namespace_not_restored: "split_namespace_name (''a.b'' @ ''.'' @ ''f'') = Some (''a'', ''b.f'')"
  by code_simp

lemma repeated_namespace_not_qualified: "qualify_call_name (named_call ''a'' ''a.f'') = ''a.f''"
  by code_simp


section \<open>Examples\<close>

definition example_tools :: "ir_tool list" where
  "example_tools =
     [ToolCachePoint JNull, ToolFunction ''look'' ''Looks.'' (JObject []) None,
      ToolNamespace ''files'' (json_obj [(''tools'', JArray [json_obj [(''name'', JString ''read'')]])])]"

definition example_tools_profile :: resolved_profile where
  "example_tools_profile =
     (let p = minimal_profile_for_wire Messages
      in p\<lparr>p_dialect := (p_dialect p)\<lparr>dl_tool_type_policy := ToolFlattenNamespace\<rparr>\<rparr>)"

definition example_tools_request :: ir_request where
  "example_tools_request = (ir_request_new ''m'' [])\<lparr>r_tools := example_tools\<rparr>"

lemma example_tools_prepared:
  "prepare_tools (\<lambda>_. False, \<lambda>s. s) Messages example_tools_request example_tools_profile [] =
     Inr ([PreparedFunction ''look'' ''Looks.'' (JObject []) None, PreparedFunction ''files.read'' [] empty_parameters None],
       [\<lparr>loss_path = ''tools[0]'', action = LossDrop, detail = ''tool cache point has no slot''\<rparr>,
        \<lparr>loss_path = ''tools[2]'', action = LossDegrade, detail = ''flatten namespace to dotted function tools''\<rparr>])"
  by code_simp

theorem prepared_tools_accounted_witness:
  "\<exists>outs. [PreparedFunction ''look'' ''Looks.'' (JObject []) None, PreparedFunction ''files.read'' [] empty_parameters None]
      = concat outs \<and> length outs = 3"
  using prepared_tools_accounted [OF example_tools_prepared]
  by (auto simp: example_tools_request_def example_tools_def)


end
