(* ===== verification/Wm_Map_Policy.thy ===== *)
theory Wm_Map_Policy
  imports Wm_Map_Tools
begin

text \<open>
  \<open>decode\<close> and \<open>encode\<close> of \<open>map/mod.rs\<close> around the maps of the wires: what a profile's fingerprint adds to a request
  (a prefix of the system prompt, extra fields of the body) and what it forbids. The map of the wire is the
  argument \<open>enc\<close>: the locale \<open>request_encoder\<close> is what the policy needs of it, namely that it writes an object.
\<close>

section \<open>Definitions\<close>

text \<open>\<open>apply_system_prefix\<close>: the first system item is the one that \<open>find\<close> returns.\<close>

fun prefix_first_system :: "string \<Rightarrow> ir_item list \<Rightarrow> ir_item list option" where
  "prefix_first_system p [] = None"
| "prefix_first_system p (ItemSystem t mode parts # items) =
     Some (ItemSystem (if starts_with p t then t else p @ t) mode parts # items)"
| "prefix_first_system p (item # items) = map_option ((#) item) (prefix_first_system p items)"

definition apply_system_prefix :: "ir_request \<Rightarrow> resolved_profile \<Rightarrow> ir_request" where
  "apply_system_prefix ir prof =
     (case Option.bind (p_fingerprint prof) f_system_prompt_prefix of
        None \<Rightarrow> ir
      | Some prefix \<Rightarrow>
          if prefix = [] then ir
          else ir\<lparr>r_items := (case prefix_first_system prefix (r_items ir) of
                               Some items \<Rightarrow> items
                             | None \<Rightarrow> ItemSystem prefix None [] # r_items ir)\<rparr>)"

definition strip_or_refuse_store ::
  "ir_request \<Rightarrow> resolved_profile \<Rightarrow> loss_report \<Rightarrow> map_error + (ir_request \<times> loss_report)" where
  "strip_or_refuse_store ir prof r =
     (case p_fingerprint prof of
        None \<Rightarrow> Inr (ir, r)
      | Some fp \<Rightarrow>
          if s_store (r_sampling ir) = None then Inr (ir, r)
          else if ''store'' \<notin> set (f_forbidden_body_fields fp) then Inr (ir, r)
          else (case f_forbidden_field_policy fp of
                  ForbiddenHardError \<Rightarrow> Inl (hard ''sampling.store'' ''forbidden body field `store`'')
                | ForbiddenStrip \<Rightarrow>
                    Inr (ir\<lparr>r_sampling := (r_sampling ir)\<lparr>s_store := None\<rparr>\<rparr>,
                         loss_record ''sampling.store'' LossDrop ''forbidden_body_fields strip'' r)))"

definition merge_extra_body :: "json \<Rightarrow> resolved_profile \<Rightarrow> json" where
  "merge_extra_body body prof =
     (case p_fingerprint prof of
        None \<Rightarrow> body
      | Some fp \<Rightarrow> foldl (\<lambda>body (k, v). jinsert k v body) body (f_extra_body fp))"

fun strip_fields ::
  "forbidden_field_policy \<Rightarrow> string list \<Rightarrow> json \<Rightarrow> loss_report \<Rightarrow> map_error + (json \<times> loss_report)" where
  "strip_fields policy [] body r = Inr (body, r)"
| "strip_fields policy (key # keys) body r =
     (if jget body key = None then strip_fields policy keys body r
      else (case policy of
              ForbiddenHardError \<Rightarrow> Inl (hard key (''forbidden body field `'' @ key @ ''`''))
            | ForbiddenStrip \<Rightarrow>
                strip_fields policy keys (jremove key body)
                  (loss_record key LossDrop ''forbidden_body_fields strip'' r)))"

definition apply_forbidden_fields ::
  "json \<Rightarrow> resolved_profile \<Rightarrow> loss_report \<Rightarrow> map_error + (json \<times> loss_report)" where
  "apply_forbidden_fields body prof r =
     (case p_fingerprint prof of
        None \<Rightarrow> Inr (body, r)
      | Some fp \<Rightarrow> strip_fields (f_forbidden_field_policy fp) (f_forbidden_body_fields fp) body r)"

type_synonym wire_encoder =
  "ir_request \<Rightarrow> prepared_tool list \<Rightarrow> loss_report \<Rightarrow> map_error + (json \<times> loss_report)"

text \<open>\<open>encode\<close> for the wire whose map is \<open>enc\<close>: the body before it is printed, and its report.\<close>

definition encode_body ::
  "wire_encoder \<Rightarrow> case_tables \<Rightarrow> wire \<Rightarrow> ir_request \<Rightarrow> resolved_profile \<Rightarrow> map_error + (json \<times> loss_report)" where
  "encode_body enc tables w ir prof =
     (case strip_or_refuse_store (apply_system_prefix ir prof) prof [] of
        Inl e \<Rightarrow> Inl e
      | Inr (ir, r) \<Rightarrow>
          (case prepare_tools tables w ir prof r of
             Inl e \<Rightarrow> Inl e
           | Inr (prepared, r) \<Rightarrow>
               (case enc ir prepared r of
                  Inl e \<Rightarrow> Inl e
                | Inr (body, r) \<Rightarrow> apply_forbidden_fields (merge_extra_body body prof) prof r)))"

text \<open>\<open>decode\<close> before the map of the wire: \<open>from_slice\<close> is the parser, its error the text it is shown as.\<close>

definition decode_body ::
  "(bytes \<Rightarrow> string + json) \<Rightarrow> (json \<Rightarrow> map_error + (ir_request \<times> loss_report)) \<Rightarrow> wire \<Rightarrow> bytes
     \<Rightarrow> map_error + (ir_request \<times> loss_report)" where
  "decode_body from_slice dec w bs =
     (case from_slice bs of
        Inl err \<Rightarrow> Inl (MapInvalid (''request body for wire `'' @ wire_as_str w @ ''` is invalid JSON: '' @ err))
      | Inr v \<Rightarrow>
          if \<not> is_object v
          then Inl (MapInvalid (''request body for wire `'' @ wire_as_str w
                      @ ''` must be a JSON object, got '' @ json_kind v))
          else dec v)"


section \<open>What is sent\<close>

definition sorted_object :: "json \<Rightarrow> bool" where
  "sorted_object v = (case v of JObject m \<Rightarrow> bt_wf m | _ \<Rightarrow> False)"

lemma sorted_object_jinsert [simp]: "sorted_object v \<Longrightarrow> sorted_object (jinsert k w v)"
  by (cases v) (simp_all add: sorted_object_def)

lemma sorted_object_jremove [simp]: "sorted_object v \<Longrightarrow> sorted_object (jremove k v)"
  by (cases v) (simp_all add: sorted_object_def)

lemma sorted_object_json_obj [simp]: "sorted_object (json_obj kvs)"
proof -
  have "bt_wf m \<Longrightarrow> bt_wf (foldl (\<lambda>m (k, v). bt_insert k v m) m kvs)" for m :: jobject
    by (induction kvs arbitrary: m) auto
  then show ?thesis by (simp add: json_obj_def sorted_object_def)
qed

lemma sorted_object_set_opt [simp]: "sorted_object v \<Longrightarrow> sorted_object (set_opt k w v)"
  by (cases w) (simp_all add: set_opt_def)

lemma jget_jremove: "sorted_object v \<Longrightarrow> jget (jremove k v) k' = (if k' = k then None else jget v k')"
  by (cases v) (simp_all add: sorted_object_def map_of_bt_remove)

lemma jget_jinsert_sorted: "sorted_object v \<Longrightarrow> jget (jinsert k w v) k' = (if k' = k then Some w else jget v k')"
  by (cases v) (simp_all add: sorted_object_def)

definition dropped_field :: "string \<Rightarrow> loss_report \<Rightarrow> bool" where
  "dropped_field k r = list_ex (\<lambda>e. loss_path e = k \<and> action e = LossDrop) r"

lemma dropped_field_record:
  "dropped_field k (loss_record p a d r) \<longleftrightarrow> dropped_field k r \<or> (p = k \<and> a = LossDrop)"
  by (auto simp: dropped_field_def loss_record_def)

lemma strip_fields_result:
  "strip_fields policy keys body r = Inr (body', r') \<Longrightarrow> sorted_object body \<Longrightarrow>
     sorted_object body' \<and> (\<forall>k. jget body' k = (if k \<in> set keys then None else jget body k))
     \<and> (\<forall>k. dropped_field k r \<longrightarrow> dropped_field k r')
     \<and> (\<forall>k \<in> set keys. jget body k \<noteq> None \<longrightarrow> policy = ForbiddenStrip \<and> dropped_field k r')"
proof (induction policy keys body r arbitrary: body' r' rule: strip_fields.induct)
  case (2 policy key keys body r)
  show ?case
  proof (cases "jget body key")
    case None
    have "strip_fields policy keys body r = Inr (body', r')" using "2.prems"(1) None by simp
    from "2.IH"(1) [OF None this "2.prems"(2)] None show ?thesis by (intro conjI allI ballI impI) auto
  next
    case (Some v)
    with "2.prems" have policy: "policy = ForbiddenStrip" by (cases policy) simp_all
    have "strip_fields policy keys (jremove key body) (loss_record key LossDrop ''forbidden_body_fields strip'' r)
        = Inr (body', r')"
      using "2.prems" Some policy by simp
    note IH = "2.IH"(2) [OF _ policy this]
    have get: "jget (jremove key body) k = (if k = key then None else jget body k)" for k
      using "2.prems"(2) by (rule jget_jremove)
    have "sorted_object body'" "\<forall>k. jget body' k = (if k \<in> set keys then None else jget (jremove key body) k)"
      and drops: "\<forall>k. dropped_field k r \<longrightarrow> dropped_field k r'" "dropped_field key r'"
      "\<forall>k \<in> set keys. k \<noteq> key \<longrightarrow> jget body k \<noteq> None \<longrightarrow> dropped_field k r'"
      using IH Some "2.prems"(2) by (simp_all add: dropped_field_record get)
    moreover have "\<forall>k \<in> set (key # keys). jget body k \<noteq> None \<longrightarrow> dropped_field k r'"
      using drops(2,3) by auto
    ultimately show ?thesis using policy unfolding get by auto
  qed
qed simp

lemma foldl_jinsert:
  "sorted_object body \<Longrightarrow> sorted_object (foldl (\<lambda>body (k, v). jinsert k v body) body kvs)
     \<and> jget (foldl (\<lambda>body (k, v). jinsert k v body) body kvs) k
        = (case map_of (rev kvs) k of Some v \<Rightarrow> Some v | None \<Rightarrow> jget body k)"
proof (induction kvs arbitrary: body)
  case (Cons p kvs)
  obtain a b where p: "p = (a, b)" by (cases p)
  show ?case
    using Cons.IH [of "jinsert a b body"] Cons.prems
    by (auto simp: p jget_jinsert_sorted map_add_def split: option.splits)
qed simp

text \<open>The contract of a wire's request encoder.\<close>

locale request_encoder =
  fixes enc :: wire_encoder
  assumes object_body: "enc ir tools r = Inr (body, r') \<Longrightarrow> sorted_object body"
begin

lemma policy_holds:
  assumes sent: "encode_body enc tables w ir prof = Inr (body, r)" and fp: "p_fingerprint prof = Some fp"
  shows "\<forall>k \<in> set (f_forbidden_body_fields fp). jget body k = None"
    and "k \<notin> set (f_forbidden_body_fields fp) \<Longrightarrow> map_of (rev (f_extra_body fp)) k = Some v \<Longrightarrow> jget body k = Some v"
    and "k \<in> set (f_forbidden_body_fields fp) \<Longrightarrow> map_of (rev (f_extra_body fp)) k = Some v \<Longrightarrow>
      f_forbidden_field_policy fp = ForbiddenStrip \<and> dropped_field k r"
proof -
  from sent obtain b s where b: "sorted_object b"
    and fields: "apply_forbidden_fields (merge_extra_body b prof) prof s = Inr (body, r)"
    by (auto simp: encode_body_def dest: object_body split: sum.splits prod.splits)
  have merged: "sorted_object (merge_extra_body b prof)"
    "jget (merge_extra_body b prof) k = (case map_of (rev (f_extra_body fp)) k of Some v \<Rightarrow> Some v | None \<Rightarrow> jget b k)" for k
    using foldl_jinsert [OF b, of "f_extra_body fp"] fp by (simp_all add: merge_extra_body_def)
  from strip_fields_result [OF fields [unfolded apply_forbidden_fields_def fp option.case] merged(1)] merged(2)
  show "\<forall>k \<in> set (f_forbidden_body_fields fp). jget body k = None"
    and "k \<notin> set (f_forbidden_body_fields fp) \<Longrightarrow> map_of (rev (f_extra_body fp)) k = Some v \<Longrightarrow> jget body k = Some v"
    and "k \<in> set (f_forbidden_body_fields fp) \<Longrightarrow> map_of (rev (f_extra_body fp)) k = Some v \<Longrightarrow>
      f_forbidden_field_policy fp = ForbiddenStrip \<and> dropped_field k r"
    by auto
qed

end


section \<open>The system prefix\<close>

fun first_system :: "ir_item list \<Rightarrow> string option" where
  "first_system [] = None"
| "first_system (ItemSystem t _ _ # items) = Some t"
| "first_system (_ # items) = first_system items"

lemma prefix_first_system_some:
  "prefix_first_system p items = Some items' \<Longrightarrow> \<exists>t. first_system items' = Some t \<and> starts_with p t"
  by (induction p items arbitrary: items' rule: prefix_first_system.induct) (auto simp: starts_with_iff)

lemma prefix_first_system_again:
  "prefix_first_system p items = Some items' \<Longrightarrow> prefix_first_system p items' = Some items'"
  by (induction p items arbitrary: items' rule: prefix_first_system.induct) (auto simp: starts_with_iff)

text \<open>The prefix is there, and applying it twice is applying it once.\<close>

lemma system_prefix_present:
  assumes "Option.bind (p_fingerprint prof) f_system_prompt_prefix = Some p"
  shows "p = [] \<or> (\<exists>t. first_system (r_items (apply_system_prefix ir prof)) = Some t \<and> starts_with p t)"
  using assms prefix_first_system_some
  by (auto simp: apply_system_prefix_def starts_with_iff split: option.splits)

lemma system_prefix_idempotent: "apply_system_prefix (apply_system_prefix ir prof) prof = apply_system_prefix ir prof"
  using prefix_first_system_again by (auto simp: apply_system_prefix_def starts_with_iff split: option.splits)

end
