(* ===== verification/Wm_Map_Schema.thy ===== *)
theory Wm_Map_Schema
  imports Wm_Map_Base
begin

text \<open>
  Tool schemas (\<open>fill_object_schema\<close> and \<open>close_objects\<close> of \<open>map/messages.rs\<close>). Both walk a JSON schema in place: a step
  writes \<open>required\<close>, \<open>properties\<close> and \<open>additionalProperties\<close> of an object schema, then descends through a fixed set of
  keys. No two steps descend through one key, so the descent is a map over the entries; what the step writes is
  not descended into, so it is put after the descent (\<open>own_first\<close> is the order of the code).
\<close>

section \<open>The walk\<close>

datatype descent = EachValue | EachItem | ItemsOrSelf | OnlyObject | Leave

definition descent_of :: "string \<Rightarrow> descent" where
  "descent_of k =
     (if k \<in> set [''properties'', ''$defs'', ''definitions''] then EachValue
      else if k = ''items'' then ItemsOrSelf
      else if k \<in> set [''anyOf'', ''oneOf'', ''allOf'', ''prefixItems''] then EachItem
      else if k \<in> set [''additionalProperties'', ''not''] then OnlyObject
      else Leave)"

text \<open>The values the walk meets below a key, and the value of the key once \<open>f\<close> was applied to them.\<close>

fun descended :: "descent \<Rightarrow> json \<Rightarrow> json list" where
  "descended EachValue (JObject m) = map snd m"
| "descended EachItem (JArray xs) = xs"
| "descended ItemsOrSelf (JArray xs) = xs"
| "descended ItemsOrSelf v = [v]"
| "descended OnlyObject (JObject m) = [JObject m]"
| "descended _ v = []"

fun descend :: "(json \<Rightarrow> json) \<Rightarrow> descent \<Rightarrow> json \<Rightarrow> json" where
  "descend f EachValue (JObject m) = JObject (map (\<lambda>(k, v). (k, f v)) m)"
| "descend f EachItem (JArray xs) = JArray (map f xs)"
| "descend f ItemsOrSelf (JArray xs) = JArray (map f xs)"
| "descend f ItemsOrSelf v = f v"
| "descend f OnlyObject (JObject m) = f (JObject m)"
| "descend f _ v = v"

lemma descend_cong [fundef_cong]:
  "d = d' \<Longrightarrow> v = v' \<Longrightarrow> (\<And>w. w \<in> set (descended d' v') \<Longrightarrow> f w = g w) \<Longrightarrow> descend f d v = descend g d' v'"
proof (cases "(f, d', v')" rule: descend.cases)
  case (1 f' m)
  assume "d = d'" "v = v'" "\<And>w. w \<in> set (descended d' v') \<Longrightarrow> f w = g w"
  with 1 show ?thesis by (auto intro!: map_cong) (metis image_eqI snd_conv)
qed auto

lemma entry_size: "(k, w) \<in> set m \<Longrightarrow> size w < size (JObject m)"
  using size_list_estimation' [of "(k, w)" m "size w" "size_prod (\<lambda>x. 0) size"] by simp

lemma descended_size: "w \<in> set (descended d v) \<Longrightarrow> size w \<le> size v"
proof (induction d v rule: descended.induct)
  case (1 m)
  then show ?case using entry_size by fastforce
qed (auto dest: size_list_estimation' [where f = size, OF _ order.refl])

function walk_schema :: "(jobject \<Rightarrow> jobject) \<Rightarrow> json \<Rightarrow> json" where
  "walk_schema own (JObject m) =
     JObject (own (map (\<lambda>(k, v). (k, descend (walk_schema own) (descent_of k) v)) m))"
| "walk_schema own JNull = JNull"
| "walk_schema own (JBool b) = JBool b"
| "walk_schema own (JNumber n) = JNumber n"
| "walk_schema own (JString s) = JString s"
| "walk_schema own (JArray xs) = JArray xs"
  by pat_completeness auto
termination
proof (relation "measure (\<lambda>(own, v). size v)", goal_cases)
  case (2 own m p k v w)
  then have "size w \<le> size v" by (auto dest: descended_size)
  moreover have "size v < size (JObject m)"
    using 2 entry_size [of k v m] by auto
  ultimately show ?case by simp
qed simp

section \<open>The two steps\<close>

definition is_object_schema :: "jobject \<Rightarrow> bool" where
  "is_object_schema obj =
     (Option.bind (map_of obj ''type'') as_str = Some ''object'' \<or> is_some (map_of obj ''properties''))"

definition fill_own :: "jobject \<Rightarrow> jobject" where
  "fill_own obj =
     (if is_object_schema obj then
        let obj = (case map_of obj ''required'' of
                     Some (JArray _) \<Rightarrow> obj
                   | _ \<Rightarrow> bt_insert ''required'' (JArray []) obj)
        in if map_of obj ''properties'' = None then bt_insert ''properties'' (JObject []) obj else obj
      else if map_of obj ''required'' = Some JNull then bt_insert ''required'' (JArray []) obj
      else obj)"

definition fill_object_schema :: "json \<Rightarrow> json" where
  "fill_object_schema = walk_schema fill_own"

definition normalize_object_schema_required :: "json \<Rightarrow> json" where
  "normalize_object_schema_required schema = fill_object_schema schema"

definition close_own :: "bool \<Rightarrow> jobject \<Rightarrow> jobject" where
  "close_own close_additional obj =
     (if is_object_schema obj then
        let obj = (if close_additional then bt_insert ''additionalProperties'' (JBool False) obj else obj);
            names = (case Option.bind (map_of obj ''properties'') as_object of
                       Some props \<Rightarrow> map (\<lambda>(k, _). JString k) props
                     | None \<Rightarrow> [])
        in if names \<noteq> [] then bt_insert ''required'' (JArray names) obj else obj
      else obj)"

definition close_objects :: "json \<Rightarrow> bool \<Rightarrow> json" where
  "close_objects schema close_additional = walk_schema (close_own close_additional) schema"

definition strict_object_schema :: "json \<Rightarrow> json" where
  "strict_object_schema schema = close_objects schema True"

definition require_every_property :: "json \<Rightarrow> json" where
  "require_every_property schema = close_objects schema False"


section \<open>What a walk reaches\<close>

text \<open>\<open>sub_schema v s\<close>: the walk over \<open>v\<close> meets \<open>s\<close>.\<close>

inductive sub_schema :: "json \<Rightarrow> json \<Rightarrow> bool" where
  here: "sub_schema v v"
| below: "map_of m k = Some v \<Longrightarrow> w \<in> set (descended (descent_of k) v) \<Longrightarrow> sub_schema w s \<Longrightarrow> sub_schema (JObject m) s"

inductive_cases sub_schemaE: "sub_schema v s"

lemma map_of_descend:
  "map_of (map (\<lambda>(k, v). (k, g k v)) m) k = map_option (g k) (map_of m k)"
  by (induction m) auto

lemma is_object_walk [simp]: "is_object (walk_schema own v) = is_object v"
  by (cases v) simp_all

lemma descended_descend:
  "descended d (descend (walk_schema own) d v) = map (walk_schema own) (descended d v)"
  by (cases "(walk_schema own, d, v)" rule: descend.cases) (auto simp: comp_def case_prod_beta)

text \<open>A step writes nothing the walk would meet.\<close>

locale schema_step =
  fixes own :: "jobject \<Rightarrow> jobject"
  assumes nothing_new: "map_of (own m) k = Some v \<Longrightarrow> w \<in> set (descended (descent_of k) v) \<Longrightarrow> map_of m k = Some v"
begin

lemma sub_schema_walk: "sub_schema u s \<Longrightarrow> u = walk_schema own v \<Longrightarrow> \<exists>t. sub_schema v t \<and> s = walk_schema own t"
proof (induction arbitrary: v rule: sub_schema.induct)
  case (here u)
  then show ?case by (blast intro: sub_schema.here)
next
  case (below m k x w s)
  then obtain n where v: "v = JObject n" by (cases v) simp_all
  with below nothing_new [of _ k x w]
  have "map_of (map (\<lambda>(k, v). (k, descend (walk_schema own) (descent_of k) v)) n) k = Some x" by auto
  then obtain y where y: "map_of n k = Some y" "x = descend (walk_schema own) (descent_of k) y"
    by (auto simp: map_of_descend)
  with below obtain z where z: "z \<in> set (descended (descent_of k) y)" "w = walk_schema own z"
    by (auto simp: descended_descend)
  from below.IH [OF z(2)] obtain t where "sub_schema z t" "s = walk_schema own t" by blast
  with v y z show ?case by (blast intro: sub_schema.below)
qed

end

lemma own_keys:
  "\<not> (w \<in> set (descended (descent_of ''required'') v))"
  "\<not> (w \<in> set (descended (descent_of ''properties'') (JObject [])))"
  "\<not> (w \<in> set (descended (descent_of ''additionalProperties'') (JBool b)))"
  by (simp_all add: descent_of_def)

interpretation filled: schema_step fill_own
proof
  fix m k v w
  assume "map_of (fill_own m) k = Some v" "w \<in> set (descended (descent_of k) v)"
  then show "map_of m k = Some v"
    using own_keys [of w] by (auto simp: fill_own_def Let_def split: if_splits option.splits json.splits)
qed

interpretation closed: schema_step "close_own b" for b
proof
  fix m k v w
  assume "map_of (close_own b m) k = Some v" "w \<in> set (descended (descent_of k) v)"
  then show "map_of m k = Some v"
    using own_keys [of w] by (auto simp: close_own_def Let_def split: if_splits)
qed


text \<open>The order of the code: the step first, then the descent into what the step left.\<close>

lemma map_bt_insert:
  "map (\<lambda>(k, v). (k, g k v)) (bt_insert k v m) = bt_insert k (g k v) (map (\<lambda>(k, v). (k, g k v)) m)"
  by (induction k v m rule: bt_insert.induct) auto

lemma is_object_schema_insert [simp]:
  "k \<noteq> ''type'' \<Longrightarrow> k \<noteq> ''properties'' \<Longrightarrow> is_object_schema (bt_insert k v m) = is_object_schema m"
  by (simp add: is_object_schema_def)

lemma is_object_schema_map [simp]:
  "(\<And>v. g ''type'' v = v) \<Longrightarrow> is_object_schema (map (\<lambda>(k, v). (k, g k v)) m) = is_object_schema m"
  by (simp add: is_object_schema_def map_of_descend is_some_def option.map_ident)

lemma fill_own_first:
  "fill_object_schema (JObject m) =
     JObject (map (\<lambda>(k, v). (k, descend fill_object_schema (descent_of k) v)) (fill_own m))"
proof -
  let ?g = "\<lambda>k v. descend fill_object_schema (descent_of k) v"
  have keys: "?g ''required'' v = v" "?g ''type'' v = v" "?g ''properties'' (JObject []) = JObject []" for v
    by (simp_all add: descent_of_def)
  have "map (\<lambda>(k, v). (k, ?g k v)) (fill_own m) = fill_own (map (\<lambda>(k, v). (k, ?g k v)) m)"
    by (cases "map_of m ''required''"; cases "map_of m ''properties''"; cases "is_object_schema m")
      (simp_all add: fill_own_def Let_def map_bt_insert map_of_descend keys split: json.split)
  then show ?thesis by (simp add: fill_object_schema_def)
qed

lemma as_object_descend:
  "as_object (descend f EachValue v) = map_option (map (\<lambda>(k, w). (k, f w))) (as_object v)"
  by (cases v) auto

lemma close_own_map:
  assumes keys: "\<And>v. g ''required'' v = v" "\<And>v. g ''type'' v = v" "g ''additionalProperties'' (JBool False) = JBool False"
    "\<And>v. as_object (g ''properties'' v) = map_option (map (\<lambda>(k, w). (k, h w))) (as_object v)"
  shows "map (\<lambda>(k, v). (k, g k v)) (close_own b m) = close_own b (map (\<lambda>(k, v). (k, g k v)) m)"
proof -
  have names: "(\<lambda>(k, _). JString k) \<circ> (\<lambda>(k, w). (k, h w)) = (\<lambda>(k, _). JString k)"
    by (auto simp: fun_eq_iff)
  show ?thesis
    by (cases "map_of m ''properties''"; cases "is_object_schema m")
      (simp_all add: close_own_def Let_def map_bt_insert map_of_descend keys names split: option.split)
qed

lemma close_own_first:
  "close_objects (JObject m) b =
     JObject (map (\<lambda>(k, v). (k, descend (\<lambda>v. close_objects v b) (descent_of k) v)) (close_own b m))"
  by (subst close_own_map [where h = "\<lambda>v. close_objects v b"])
    (simp_all add: descent_of_def as_object_descend, simp add: close_objects_def descent_of_def)


section \<open>Schemas a provider accepts\<close>

text \<open>What the encoders send for a function's parameters.\<close>

definition sent_schema :: "bool option \<Rightarrow> json \<Rightarrow> json" where
  "sent_schema strict parameters =
     (let parameters = normalize_object_schema_required parameters
      in if strict = Some True then strict_object_schema parameters else parameters)"

definition accepted_object :: "json \<Rightarrow> bool" where
  "accepted_object s =
     (case s of
        JObject m \<Rightarrow> is_object_schema m \<longrightarrow>
          (\<exists>names. map_of m ''required'' = Some (JArray names)) \<and> is_some (map_of m ''properties'')
      | _ \<Rightarrow> True)"

definition closed_object :: "json \<Rightarrow> bool" where
  "closed_object s =
     (case s of
        JObject m \<Rightarrow> is_object_schema m \<longrightarrow>
          map_of m ''additionalProperties'' = Some (JBool False)
          \<and> (\<forall>props. map_of m ''properties'' = Some (JObject props) \<longrightarrow>
               (\<exists>names. map_of m ''required'' = Some (JArray names) \<and> JString ` fst ` set props \<subseteq> set names))
      | _ \<Rightarrow> True)"

lemma fill_own_accepted: "accepted_object (JObject (fill_own m))"
proof (cases "is_object_schema m")
  case True
  then show ?thesis
    by (cases "map_of m ''required''"; cases "map_of m ''properties''")
      (simp_all add: accepted_object_def fill_own_def Let_def split: json.split)
next
  case False
  then show ?thesis by (simp add: accepted_object_def fill_own_def Let_def)
qed

lemma close_own_object [simp]: "is_object_schema (close_own b m) = is_object_schema m"
  by (simp add: close_own_def Let_def)

lemma close_own_get:
  "map_of (close_own b m) ''properties'' = map_of m ''properties''"
  "is_object_schema m \<Longrightarrow> b \<Longrightarrow> map_of (close_own b m) ''additionalProperties'' = Some (JBool False)"
  "is_object_schema m \<Longrightarrow> map_of m ''properties'' = Some (JObject props) \<Longrightarrow> props \<noteq> [] \<Longrightarrow>
     map_of (close_own b m) ''required'' = Some (JArray (map (\<lambda>(k, _). JString k) props))"
  "map_of (close_own b m) ''required'' = map_of m ''required''
     \<or> (\<exists>names. map_of (close_own b m) ''required'' = Some (JArray names))"
  by (auto simp: close_own_def Let_def)

lemma close_own_accepted: "accepted_object (JObject m) \<Longrightarrow> accepted_object (JObject (close_own b m))"
  using close_own_get(4) [of b m] by (auto simp: accepted_object_def close_own_get(1))

lemma close_own_closed:
  assumes "accepted_object (JObject m)"
  shows "closed_object (JObject (close_own True m))"
proof (cases "is_object_schema m")
  case True
  have "\<exists>names. map_of (close_own True m) ''required'' = Some (JArray names) \<and> JString ` fst ` set props \<subseteq> set names"
    if "map_of m ''properties'' = Some (JObject props)" for props
  proof (cases "props = []")
    case True
    then show ?thesis
      using close_own_get(4) [of True m] assms \<open>is_object_schema m\<close> by (auto simp: accepted_object_def)
  next
    case False
    then show ?thesis
      using close_own_get(3) [OF \<open>is_object_schema m\<close> that] by (auto simp: case_prod_beta)
  qed
  then show ?thesis using True by (simp add: closed_object_def close_own_get)
qed (simp add: closed_object_def)

lemma accepted_walk_fill: "accepted_object (walk_schema fill_own t)"
  using fill_own_accepted by (cases t) (simp_all add: accepted_object_def)

lemma filled_sub_schema: "sub_schema (fill_object_schema v) s \<Longrightarrow> accepted_object s"
  using filled.sub_schema_walk [of "fill_object_schema v" s v] accepted_walk_fill
  by (auto simp: fill_object_schema_def)




definition example_schema :: json where
  "example_schema =
     json_obj [(''type'', JString ''object''),
       (''properties'', json_obj [(''at'', json_obj [(''type'', JString ''object'')]), (''n'', json_obj [(''type'', JString ''integer'')])]),
       (''required'', JArray [JString ''n''])]"


end
