(* ===== verification/Wm_Map_Chat.thy ===== *)
theory Wm_Map_Chat
  imports Wm_Map_Policy Wm_Map_Schema
begin

text \<open>
  The request map of Chat Completions (\<open>map/chat.rs\<close>): \<open>decode\<close> reads a body into an \<open>ir_request\<close>, \<open>encode\<close> writes one. Names that
  other wires use too have the prefix \<open>chat_\<close>. The loop of \<open>encode_messages\<close> over an index is a recursion over the
  items from that index on. \<open>encode_sampling\<close> is a list of steps on the body and the report, in the order of the
  code; a step writes a field, a loss, or both.
\<close>

section \<open>Reading a body\<close>

definition chat_is_custom_tool_call :: "json \<Rightarrow> bool" where
  "chat_is_custom_tool_call call =
     (case str_field call ''type'' of
        Some t \<Rightarrow> t = ''custom''
      | None \<Rightarrow> is_some (jget call ''custom'') \<and> jget call ''function'' = None)"

definition chat_decode_tool_call :: "(json \<Rightarrow> string) \<Rightarrow> json \<Rightarrow> ir_item" where
  "chat_decode_tool_call to_str call =
     (if chat_is_custom_tool_call call then
        let custom = unwrap_or (jget call ''custom'') call
        in ItemCustomToolCall (unwrap_or (str_field call ''id'') []) (unwrap_or (str_field custom ''name'') [])
             (unwrap_or (map_option (value_as_string to_str) (jget custom ''input'')) []) None
      else
        let func = unwrap_or (jget call ''function'') call
        in ItemFunctionCall (unwrap_or (str_field call ''id'') []) (unwrap_or (str_field func ''name'') [])
             (unwrap_or (map_option (value_as_string to_str) (jget func ''arguments'')) ''{}'') None)"

definition chat_decode_image_part :: "json \<Rightarrow> ir_part option" where
  "chat_decode_image_part part =
     Option.bind (jget part ''image_url'') (\<lambda>img.
       Option.bind (or_else (as_str img) (str_field img ''url'')) (\<lambda>url.
         let d = ofilter (\<lambda>d. d \<noteq> [] \<and> d \<noteq> ''auto'') (str_field img ''detail'')
         in if d = None
            then (case split_data_url url of
                    Some (media, b64) \<Rightarrow> Some (PartImageBase64 media b64)
                  | None \<Rightarrow> Some (PartImageUrl url d None None))
            else Some (PartImageUrl url d None None)))"

definition chat_decode_typed_part :: "json \<Rightarrow> ir_part option" where
  "chat_decode_typed_part part =
     (let ty = unwrap_or (str_field part ''type'') ''text''
      in if ty = ''text'' then map_option PartText (str_field part ''text'')
         else if ty = ''image_url'' then chat_decode_image_part part
         else if ty = ''file'' then decode_openai_file_part part
         else if ty = ''input_audio'' then decode_input_audio_part part
         else if ty = ''refusal'' then
           map_option PartText (nonempty_str_opt (or_else (jget part ''refusal'') (jget part ''text'')))
         else if ty = ''thinking'' then
           Some (PartThinking
             (unwrap_or (Option.bind (or_else (jget part ''text'') (jget part ''thinking'')) as_str) [])
             (str_field part ''signature''))
         else map_option PartText (str_field part ''text''))"

definition chat_decode_part :: "json \<Rightarrow> ir_part option" where
  "chat_decode_part part =
     (case as_str part of
        Some t \<Rightarrow> Some (PartText t)
      | None \<Rightarrow> with_prompt_cache (chat_decode_typed_part part) part)"

definition chat_decode_content :: "json option \<Rightarrow> ir_part list" where
  "chat_decode_content content =
     (case content of
        Some (JString t) \<Rightarrow> [PartText t]
      | Some (JArray xs) \<Rightarrow> List.map_filter chat_decode_part xs
      | _ \<Rightarrow> [])"

definition chat_part_text :: "ir_part \<Rightarrow> string" where
  "chat_part_text part =
     (case fst (peel_prompt_cache part) of PartText t \<Rightarrow> t | PartThinking t _ \<Rightarrow> t | _ \<Rightarrow> [])"

definition chat_parts_text :: "ir_part list \<Rightarrow> string" where
  "chat_parts_text parts = concat (map chat_part_text parts)"

definition is_image_part :: "ir_part \<Rightarrow> bool" where
  "is_image_part part = (case part of PartImageUrl _ _ _ _ \<Rightarrow> True | PartImageBase64 _ _ \<Rightarrow> True | _ \<Rightarrow> False)"

definition plain_text_part :: "ir_part \<Rightarrow> bool" where
  "plain_text_part part = (case part of PartText _ \<Rightarrow> True | _ \<Rightarrow> False)"

definition has_breakpoint :: "ir_part list \<Rightarrow> bool" where
  "has_breakpoint parts = list_ex (\<lambda>p. is_some (snd (peel_prompt_cache p))) parts"

text \<open>The refusal of an assistant message is one more text part.\<close>

definition chat_message_parts :: "json \<Rightarrow> string \<Rightarrow> loss_report \<Rightarrow> ir_part list \<times> loss_report" where
  "chat_message_parts msg role r =
     (let parts = chat_decode_content (jget msg ''content'')
      in if role = ''assistant'' then
           (case ofilter (\<lambda>t. t \<noteq> []) (str_field msg ''refusal'') of
              Some refusal \<Rightarrow>
                (parts @ [PartText refusal], loss_record ''messages.refusal'' LossDegrade ''refusal kept as text'' r)
            | None \<Rightarrow> (parts, r))
         else (parts, r))"

definition chat_decode_tool_message :: "json \<Rightarrow> ir_part list \<Rightarrow> ir_item" where
  "chat_decode_tool_message msg parts =
     (let call_id = unwrap_or (str_field msg ''tool_call_id'') []
      in if has_breakpoint parts
         then ItemFunctionOutput call_id []
                (filter (\<lambda>p. plain_text_part (fst (peel_prompt_cache p)) \<or> is_image_part (fst (peel_prompt_cache p))) parts)
                False
         else ItemFunctionOutput call_id (chat_parts_text parts) (filter is_image_part parts) False)"

definition chat_decode_message :: "(json \<Rightarrow> string) \<Rightarrow> json \<Rightarrow> loss_report \<Rightarrow> ir_item list \<times> loss_report" where
  "chat_decode_message to_str msg r =
     (let role = unwrap_or (str_field msg ''role'') ''user''; (parts, r) = chat_message_parts msg role r
      in if role = ''system'' then
           ([ItemSystem (chat_parts_text parts) (role_text_breakpoint parts) (role_content_parts parts)], r)
         else if role = ''developer'' then
           ([ItemDeveloper (chat_parts_text parts) (role_text_breakpoint parts) (role_content_parts parts)], r)
         else if role = ''assistant'' then
           ((if parts \<noteq> [] \<or> jget msg ''tool_calls'' = None then [ItemAssistant parts None] else [])
            @ map (chat_decode_tool_call to_str) (unwrap_or (Option.bind (jget msg ''tool_calls'') as_array) []), r)
         else if role = ''tool'' then ([chat_decode_tool_message msg parts], r)
         else ([ItemUser parts], r))"

fun chat_decode_messages :: "(json \<Rightarrow> string) \<Rightarrow> json list \<Rightarrow> loss_report \<Rightarrow> ir_item list \<times> loss_report" where
  "chat_decode_messages to_str [] r = ([], r)"
| "chat_decode_messages to_str (msg # msgs) r =
     (case chat_decode_message to_str msg r of
        (now, r) \<Rightarrow> (case chat_decode_messages to_str msgs r of (items, r) \<Rightarrow> (now @ items, r)))"


section \<open>Reading the settings\<close>

definition chat_logit_bias :: "json \<Rightarrow> (string \<times> f64) list" where
  "chat_logit_bias v =
     (case Option.bind (jget v ''logit_bias'') as_object of
        None \<Rightarrow> []
      | Some m \<Rightarrow> List.map_filter (\<lambda>(k, x). map_option (\<lambda>n. (k, n)) (as_f64 x)) m)"

definition chat_object_field :: "json \<Rightarrow> string \<Rightarrow> json option" where
  "chat_object_field v k = ofilter (\<lambda>x. case x of JObject m \<Rightarrow> m \<noteq> [] | _ \<Rightarrow> False) (jget v k)"

definition chat_modality :: "string \<Rightarrow> string" where
  "chat_modality raw =
     (if eq_ignore_ascii_case raw ''text'' then ''text''
      else if eq_ignore_ascii_case raw ''audio'' then ''audio'' else raw)"

definition chat_output_modalities :: "json \<Rightarrow> string list" where
  "chat_output_modalities v =
     (case Option.bind (jget v ''modalities'') as_array of
        None \<Rightarrow> []
      | Some xs \<Rightarrow> map chat_modality (List.map_filter as_str xs))"

definition chat_audio_voice :: "json \<Rightarrow> string option" where
  "chat_audio_voice v =
     (case jget v ''audio'' of
        None \<Rightarrow> None
      | Some audio \<Rightarrow>
          (case str_field audio ''voice'' of
             Some voice \<Rightarrow> trimmed (Some voice)
           | None \<Rightarrow> trimmed (Option.bind (jget audio ''voice'') (\<lambda>x. str_field x ''id''))))"

definition chat_audio_format :: "json \<Rightarrow> string option" where
  "chat_audio_format v = trimmed (Option.bind (jget v ''audio'') (\<lambda>audio. str_field audio ''format''))"

definition chat_json_object :: "json \<Rightarrow> bool option" where
  "chat_json_object v =
     Option.bind (jget v ''response_format'')
       (\<lambda>fmt. if str_field fmt ''type'' = Some ''json_object'' then Some True else None)"

definition schema_description :: "json \<Rightarrow> string option" where
  "schema_description v = trimmed (str_field v ''description'')"

text \<open>The \<open>json_schema\<close> object of the response format, when its type says so.\<close>

definition chat_schema_format :: "json \<Rightarrow> json option" where
  "chat_schema_format v =
     Option.bind (jget v ''response_format'')
       (\<lambda>fmt. if str_field fmt ''type'' = Some ''json_schema'' then jget fmt ''json_schema'' else None)"

definition chat_json_schema :: "json \<Rightarrow> json option \<times> string option \<times> bool option \<times> string option" where
  "chat_json_schema v =
     (let js = chat_schema_format v
      in (Option.bind js (\<lambda>js. jget js ''schema''), ofilter (\<lambda>s. s \<noteq> []) (Option.bind js (\<lambda>js. str_field js ''name'')),
          Option.bind js (\<lambda>js. bool_field js ''strict''), Option.bind js schema_description))"

definition chat_decode_tool_choice :: "json option \<Rightarrow> ir_tool_choice" where
  "chat_decode_tool_choice v =
     (case v of
        Some (JString s) \<Rightarrow> if s = ''none'' then ChoiceNone else if s = ''required'' then ChoiceRequired else ChoiceAuto
      | Some (JObject m) \<Rightarrow>
          (case or_else (Option.bind (map_of m ''function'') (\<lambda>f. str_field f ''name'')) (str_field (JObject m) ''name'') of
             Some name \<Rightarrow> ChoiceNamed name
           | None \<Rightarrow>
               (case str_field (JObject m) ''type'' of
                  Some t \<Rightarrow> if t = ''none'' then ChoiceNone
                     else if t = ''required'' \<or> t = ''any'' then ChoiceRequired else ChoiceAuto
                | None \<Rightarrow> ChoiceAuto))
      | _ \<Rightarrow> ChoiceAuto)"

definition moderation_mode :: "json \<Rightarrow> string \<Rightarrow> string option" where
  "moderation_mode v side = trimmed (Option.bind (pointer v [''moderation'', ''policy'', side, ''mode'']) as_str)"

definition chat_decode_sampling :: "json \<Rightarrow> ir_sampling" where
  "chat_decode_sampling v =
     (let (schema, name, strict, description) = chat_json_schema v; top_logprobs = u32_field v ''top_logprobs''
      in ir_sampling_default\<lparr>
           s_temperature := f32_field v ''temperature'',
           s_top_p := f32_field v ''top_p'',
           s_max_tokens := or_else (u32_field v ''max_completion_tokens'') (u32_field v ''max_tokens''),
           s_stop := stop_values v [''stop''],
           s_tool_choice := chat_decode_tool_choice (jget v ''tool_choice''),
           s_parallel_tool_calls := bool_field v ''parallel_tool_calls'',
           s_store := bool_field v ''store'',
           s_previous_response_id := str_field v ''previous_response_id'',
           s_stream := bool_field v ''stream'',
           s_reasoning_effort := not_blank (str_field v ''reasoning_effort''),
           s_max_reasoning_tokens := u32_field v ''max_reasoning_tokens'',
           s_json_schema := schema,
           s_json_schema_name := name,
           s_json_schema_description := description,
           s_json_schema_strict := strict,
           s_json_object := chat_json_object v,
           s_prompt_cache_key := not_blank (str_field v ''prompt_cache_key''),
           s_prompt_cache_retention := not_blank (str_field v ''prompt_cache_retention''),
           s_prompt_cache_mode := not_blank (Option.bind (jget v ''prompt_cache_options'') (\<lambda>o'. str_field o' ''mode'')),
           s_prompt_cache_ttl := not_blank (Option.bind (jget v ''prompt_cache_options'') (\<lambda>o'. str_field o' ''ttl'')),
           s_top_logprobs := top_logprobs,
           s_moderation_model := not_blank (Option.bind (jget v ''moderation'') (\<lambda>m. str_field m ''model'')),
           s_moderation_input := moderation_mode v ''input'',
           s_moderation_output := moderation_mode v ''output'',
           s_include_obfuscation := Option.bind (jget v ''stream_options'') (\<lambda>o'. bool_field o' ''include_obfuscation''),
           s_service_tier := not_blank (str_field v ''service_tier''),
           s_user := not_blank (str_field v ''user''),
           s_verbosity := not_blank (str_field v ''verbosity''),
           s_safety_identifier := not_blank (str_field v ''safety_identifier''),
           s_metadata := string_object_field v ''metadata'',
           s_frequency_penalty := f32_field v ''frequency_penalty'',
           s_presence_penalty := f32_field v ''presence_penalty'',
           s_seed := i64_field v ''seed'',
           s_n := u32_field v ''n'',
           s_output_modalities := chat_output_modalities v,
           s_audio_voice := chat_audio_voice v,
           s_audio_format := chat_audio_format v,
           s_logprobs := or_else (bool_field v ''logprobs'') (if is_some top_logprobs then Some True else None),
           s_logit_bias := chat_logit_bias v,
           s_prediction := chat_object_field v ''prediction'',
           s_web_search_options := chat_object_field v ''web_search_options''\<rparr>)"

definition chat_request_decode :: "(json \<Rightarrow> string) \<Rightarrow> json \<Rightarrow> map_error + (ir_request \<times> loss_report)" where
  "chat_request_decode to_str v =
     (let msgs = unwrap_or (Option.bind (jget v ''messages'') as_array) [];
          (items, r) = chat_decode_messages to_str msgs [];
          tools = map decode_tool (unwrap_or (Option.bind (jget v ''tools'') as_array) [])
      in Inr (\<lparr>r_model = unwrap_or (str_field v ''model'') [], r_items = items, r_tools = tools,
               r_sampling = chat_decode_sampling v\<rparr>, r))"


section \<open>Writing parts\<close>

definition chat_role_text_content :: "string \<Rightarrow> string option \<Rightarrow> json" where
  "chat_role_text_content t mode =
     (case ofilter (\<lambda>m. m \<noteq> []) mode of
        None \<Rightarrow> JString t
      | Some mode \<Rightarrow>
          JArray [json_obj [(''type'', JString ''text''), (''text'', JString t),
                    (''prompt_cache_breakpoint'', json_obj [(''mode'', JString mode)])]])"

definition blank :: "string \<Rightarrow> bool" where
  "blank s = (trim s = [])"

text \<open>The arms of \<open>encode_parts\<close>' filter for a part without its breakpoints: kept, and the report.\<close>

definition chat_keep_raw :: "ir_part option \<Rightarrow> loss_report \<Rightarrow> bool \<times> loss_report" where
  "chat_keep_raw plain r =
     (case plain of
        Some (PartDocument (SourceUrl _) _ _ _ _) \<Rightarrow>
          (False, loss_record ''part.document'' LossDrop ''document url has no Chat Completions slot'' r)
      | Some (PartAudio d _) \<Rightarrow>
          if blank d then (False, loss_record ''part.audio'' LossDrop ''audio data is empty'' r)
          else (True, loss_record ''part.media_hint'' LossDrop ''no slot'' r)
      | Some (PartImageBase64 _ d) \<Rightarrow>
          if blank d then (False, loss_record ''part.image'' LossDrop ''image data is empty'' r)
          else (True, loss_record ''part.media_hint'' LossDrop ''no slot'' r)
      | Some (PartDocument (SourceBase64 d) _ _ _ _) \<Rightarrow>
          if blank d then (False, loss_record ''part.document'' LossDrop ''document data is empty'' r)
          else (True, loss_record ''part.media_hint'' LossDrop ''no slot'' r)
      | Some _ \<Rightarrow> (True, loss_record ''part.media_hint'' LossDrop ''no slot'' r)
      | None \<Rightarrow> (False, loss_record ''part.raw'' LossDrop ''raw part has no Chat Completions slot'' r))"

definition chat_keep_part :: "ir_part \<Rightarrow> loss_report \<Rightarrow> bool \<times> loss_report" where
  "chat_keep_part part r =
     (case part of
        PartImageUrl url _ _ file_id \<Rightarrow>
          if blank url then
            (False, if is_some_and file_id (\<lambda>f. \<not> blank f)
                    then loss_record ''part.image.file_id'' LossDrop ''no slot'' r
                    else loss_record ''part.image'' LossDrop ''image url is empty'' r)
          else if image_file_id_without_url url file_id then
            (False, loss_record ''part.image.file_id'' LossDrop ''no slot'' r)
          else if is_some_and (split_data_url url) (\<lambda>(_, d). blank d) then
            (False, loss_record ''part.image'' LossDrop ''image data is empty'' r)
          else (True, r)
      | PartAudio d _ \<Rightarrow>
          if blank d then (False, loss_record ''part.audio'' LossDrop ''audio data is empty'' r) else (True, r)
      | PartImageBase64 _ d \<Rightarrow>
          if blank d then (False, loss_record ''part.image'' LossDrop ''image data is empty'' r) else (True, r)
      | PartThinking _ _ \<Rightarrow>
          (False, loss_record ''part.thinking'' LossDrop ''thinking has no Chat Completions slot'' r)
      | PartRaw _ _ \<Rightarrow> chat_keep_raw (plain_media_part part) r
      | PartDocument (SourceBase64 d) _ _ _ _ \<Rightarrow>
          if blank d then (False, loss_record ''part.document'' LossDrop ''document data is empty'' r) else (True, r)
      | PartDocument (SourceUrl _) _ _ _ _ \<Rightarrow>
          (False, loss_record ''part.document'' LossDrop ''document url has no Chat Completions slot'' r)
      | PartDocument (SourceS3 _ _) _ _ _ _ \<Rightarrow>
          (False, loss_record ''part.document'' LossDrop ''document url has no Chat Completions slot'' r)
      | _ \<Rightarrow> (True, r))"

text \<open>The whole filter: a breakpoint around a part that is not kept is one more loss.\<close>

definition chat_visible :: "ir_part \<Rightarrow> loss_report \<Rightarrow> bool \<times> loss_report" where
  "chat_visible part r =
     (let (inner, mode) = peel_prompt_cache_all part; (keep, r) = chat_keep_part inner r
      in (keep, if \<not> keep \<and> is_some mode then snd (apply_prompt_cache JNull mode False r) else r))"

fun chat_visible_parts :: "ir_part list \<Rightarrow> loss_report \<Rightarrow> ir_part list \<times> loss_report" where
  "chat_visible_parts [] r = ([], r)"
| "chat_visible_parts (part # parts) r =
     (let (keep, r) = chat_visible part r; (visible, r) = chat_visible_parts parts r
      in (if keep then part # visible else visible, r))"

definition data_url :: "string \<Rightarrow> string \<Rightarrow> string" where
  "data_url media d = ''data:'' @ media @ '';base64,'' @ d"

definition text_value :: "string \<Rightarrow> json" where
  "text_value t = json_obj [(''type'', JString ''text''), (''text'', JString t)]"

definition chat_encode_document ::
  "ir_document_source \<Rightarrow> string \<Rightarrow> string option \<Rightarrow> loss_report \<Rightarrow> json \<times> loss_report" where
  "chat_encode_document src media name r =
     (case src of
        SourceText d \<Rightarrow>
          (text_value d, loss_record ''part.document'' LossDegrade ''plain text document becomes text'' r)
      | SourceBase64 d \<Rightarrow>
          (json_obj [(''type'', JString ''file''),
             (''file'', json_obj [(''filename'', JString (document_filename name media)),
                (''file_data'', JString (data_url (if media = [] then ''application/pdf'' else media) d))])], r)
      | SourceFileId file_id \<Rightarrow>
          if blank file_id then (text_value [], loss_record ''part.document'' LossDrop ''file id is empty'' r)
          else (json_obj [(''type'', JString ''file''),
                  (''file'', set_opt ''filename'' (map_option JString (trimmed name))
                     (json_obj [(''file_id'', JString file_id)]))], r)
      | _ \<Rightarrow> (text_value [], loss_record ''part.document'' LossDrop ''document url has no Chat Completions slot'' r))"

definition chat_image_value :: "string \<Rightarrow> string option \<Rightarrow> json" where
  "chat_image_value url d =
     json_obj [(''type'', JString ''image_url''),
       (''image_url'', set_opt ''detail'' (map_option JString d) (json_obj [(''url'', JString url)]))]"

definition chat_audio_part_value :: "string \<Rightarrow> string \<Rightarrow> json" where
  "chat_audio_part_value d fmt =
     json_obj [(''type'', JString ''input_audio''),
       (''input_audio'', json_obj [(''data'', JString d), (''format'', JString fmt)])]"

text \<open>A raw part that passed the filter has a plain view, so \<open>expect\<close> and \<open>unreachable!\<close> are not reached
(\<open>visible_raw_has_plain_view\<close>); the second component is false for the early return that skips the breakpoint.\<close>

definition chat_raw_value :: "ir_part option \<Rightarrow> loss_report \<Rightarrow> (json option \<times> bool) \<times> loss_report" where
  "chat_raw_value plain r =
     (case plain of
        Some (PartImageBase64 media d) \<Rightarrow> ((Some (chat_image_value (data_url media d) None), True), r)
      | Some (PartDocument (SourceUrl _) _ _ _ _) \<Rightarrow>
          ((Some (text_value []), True),
           loss_record ''part.document'' LossDrop ''document url has no Chat Completions slot'' r)
      | Some (PartDocument src media name _ _) \<Rightarrow>
          (case chat_encode_document src media name r of (v, r) \<Rightarrow> ((Some v, True), r))
      | Some (PartAudio d fmt) \<Rightarrow>
          if blank d
          then ((Some (text_value []), False), loss_record ''part.audio'' LossDrop ''audio data is empty'' r)
          else ((Some (chat_audio_part_value d fmt), True), r)
      | Some (PartText t) \<Rightarrow> ((Some (text_value t), True), r)
      | _ \<Rightarrow> ((None, True), r))"

definition chat_part_value :: "ir_part \<Rightarrow> loss_report \<Rightarrow> (json option \<times> bool) \<times> loss_report" where
  "chat_part_value part r =
     (case part of
        PartText t \<Rightarrow> ((Some (text_value t), True), r)
      | PartImageUrl url d _ _ \<Rightarrow> ((Some (chat_image_value url d), True), r)
      | PartImageBase64 media d \<Rightarrow> ((Some (chat_image_value (data_url media d) None), True), r)
      | PartDocument src media name _ _ \<Rightarrow>
          (case chat_encode_document src media name r of (v, r) \<Rightarrow> ((Some v, True), r))
      | PartAudio d fmt \<Rightarrow> ((Some (chat_audio_part_value d fmt), True), r)
      | PartRaw _ _ \<Rightarrow> chat_raw_value (plain_media_part part) r
      | PartThinking _ _ \<Rightarrow>
          ((None, True), loss_record ''part.thinking'' LossDrop ''thinking has no Chat Completions slot'' r)
      | PartCacheBreakpoint _ _ \<Rightarrow> ((None, True), r))"

definition chat_encode_part :: "ir_part \<Rightarrow> loss_report \<Rightarrow> json option \<times> loss_report" where
  "chat_encode_part part r =
     (let (inner, mode) = peel_prompt_cache_all part; ((v, marks), r) = chat_part_value inner r
      in case v of
           None \<Rightarrow> (None, r)
         | Some v \<Rightarrow> if marks then (case apply_prompt_cache v mode True r of (v, r) \<Rightarrow> (Some v, r)) else (Some v, r))"

fun chat_encode_visible :: "ir_part list \<Rightarrow> loss_report \<Rightarrow> json list \<times> loss_report" where
  "chat_encode_visible [] r = ([], r)"
| "chat_encode_visible (part # parts) r =
     (let (v, r) = chat_encode_part part r; (vs, r) = chat_encode_visible parts r
      in (case v of None \<Rightarrow> vs | Some v \<Rightarrow> v # vs, r))"

definition chat_encode_parts :: "ir_part list \<Rightarrow> loss_report \<Rightarrow> json \<times> loss_report" where
  "chat_encode_parts parts r =
     (let (visible, r) = chat_visible_parts parts r
      in case visible of
           [] \<Rightarrow> (JString [], r)
         | [PartText t] \<Rightarrow> (JString t, r)
         | _ \<Rightarrow> (case chat_encode_visible visible r of (vs, r) \<Rightarrow> (JArray vs, r)))"


section \<open>Writing messages\<close>

definition items_path :: "nat \<Rightarrow> string" where
  "items_path idx = ''items['' @ show_nat idx @ '']''"

definition function_call_json :: "string \<Rightarrow> string \<Rightarrow> string \<Rightarrow> json" where
  "function_call_json call_id name arguments =
     json_obj [(''id'', JString call_id), (''type'', JString ''function''),
       (''function'', json_obj [(''name'', JString name), (''arguments'', JString arguments)])]"

definition custom_tool_call_json :: "string \<Rightarrow> string \<Rightarrow> string \<Rightarrow> json" where
  "custom_tool_call_json call_id name input =
     json_obj [(''id'', JString call_id), (''type'', JString ''custom''),
       (''custom'', json_obj [(''name'', JString name), (''input'', JString input)])]"

text \<open>The calls at the front of the items, how many they are, and the report.\<close>

fun take_function_calls :: "nat \<Rightarrow> ir_item list \<Rightarrow> loss_report \<Rightarrow> json list \<times> nat \<times> loss_report" where
  "take_function_calls idx (ItemFunctionCall call_id name arguments sig # items) r =
     (let r = (if is_some sig then loss_record (items_path idx) LossDrop ''thoughtSignature has no Chat Completions slot'' r
               else r);
          (calls, n, r) = take_function_calls (idx + 1) items r
      in (function_call_json call_id name arguments # calls, n + 1, r))"
| "take_function_calls idx (ItemCustomToolCall call_id name input _ # items) r =
     (let (calls, n, r) = take_function_calls (idx + 1) items r
      in (custom_tool_call_json call_id name input # calls, n + 1, r))"
| "take_function_calls idx _ r = ([], 0, r)"

definition tool_text_and_json_parts :: "(json \<Rightarrow> string) \<Rightarrow> ir_part list \<Rightarrow> ir_part list" where
  "tool_text_and_json_parts to_str parts =
     List.map_filter (\<lambda>part.
       case fst (peel_prompt_cache_all part) of
         PartText t \<Rightarrow> if t \<noteq> [] then Some part else None
       | PartRaw type_name raw \<Rightarrow> if type_name = ''json'' then Some (PartText (to_str raw)) else None
       | _ \<Rightarrow> None) parts"

definition drop_modes :: "string list \<Rightarrow> loss_report \<Rightarrow> loss_report" where
  "drop_modes modes r = foldl (\<lambda>r mode. snd (apply_prompt_cache JNull (Some mode) False r)) r modes"

definition note_inner_breakpoint_modes :: "ir_part list \<Rightarrow> loss_report \<Rightarrow> loss_report" where
  "note_inner_breakpoint_modes parts r =
     foldl (\<lambda>r part. let modes = snd (peel_prompt_cache_modes part)
                     in drop_modes (drop (if modes \<noteq> [] \<and> hd modes \<noteq> [] then 1 else 0) modes) r) r parts"

definition filled_text :: "ir_part \<Rightarrow> bool" where
  "filled_text part = (case part of PartText t \<Rightarrow> t \<noteq> [] | _ \<Rightarrow> False)"

text \<open>The first loop of the tool result: losses of one part.\<close>

definition note_output_part :: "nat \<Rightarrow> ir_part \<Rightarrow> loss_report \<Rightarrow> loss_report" where
  "note_output_part idx part r =
     (let (visible, modes) = peel_prompt_cache_modes part;
          r = (if filled_text visible then r else drop_modes modes r)
      in if is_image_part visible \<or> is_some (function_response_image visible)
         then loss_record (items_path idx @ ''.image'') LossDrop ''no slot'' r
         else if (case visible of PartDocument _ _ _ _ _ \<Rightarrow> True
                  | PartRaw type_name _ \<Rightarrow> type_name = ''video'' \<or> type_name = ''searchResult'' | _ \<Rightarrow> False)
         then loss_record (items_path idx @ ''.part'') LossDrop
                ''tool result document, video, or search result has no slot'' r
         else r)"

definition chat_output_content :: "(json \<Rightarrow> string) \<Rightarrow> string \<Rightarrow> ir_part list \<Rightarrow> loss_report \<Rightarrow> json \<times> loss_report" where
  "chat_output_content to_str output parts r =
     (if has_breakpoint parts then
        let text_parts = filter (\<lambda>p. filled_text (fst (peel_prompt_cache_all p))) parts
        in if text_parts = [] then (JString (function_output_text to_str output parts), r)
           else if list_ex (\<lambda>p. is_some (function_output_json_text to_str p)) parts
           then chat_encode_parts (tool_text_and_json_parts to_str parts) (note_inner_breakpoint_modes text_parts r)
           else chat_encode_parts text_parts (note_inner_breakpoint_modes text_parts r)
      else (JString (function_output_text to_str output parts), r))"

definition role_message :: "string \<Rightarrow> json \<Rightarrow> json" where
  "role_message role content = json_obj [(''role'', JString role), (''content'', content)]"

definition chat_tool_message ::
  "(json \<Rightarrow> string) \<Rightarrow> nat \<Rightarrow> string \<Rightarrow> string \<Rightarrow> ir_part list \<Rightarrow> bool \<Rightarrow> loss_report \<Rightarrow> json \<times> loss_report" where
  "chat_tool_message to_str idx call_id output parts is_error r =
     (let r = foldl (\<lambda>r part. note_output_part idx part r) r parts;
          r = (if is_error then loss_record (items_path idx @ ''.is_error'') LossDrop ''no slot'' r else r);
          (content, r) = chat_output_content to_str output parts r
      in (json_obj [(''role'', JString ''tool''), (''tool_call_id'', JString call_id), (''content'', content)], r))"

definition chat_role_content :: "string \<Rightarrow> string option \<Rightarrow> ir_part list \<Rightarrow> loss_report \<Rightarrow> json \<times> loss_report" where
  "chat_role_content t mode content_parts r =
     (if content_parts = [] then (chat_role_text_content t mode, r) else chat_encode_parts content_parts r)"

definition chat_string_role :: "json \<Rightarrow> bool" where
  "chat_string_role raw = is_some (str_field raw ''role'')"

text \<open>The message an item other than a call is written as, if any. An assistant item takes the calls that follow.\<close>

definition chat_encode_item :: "(json \<Rightarrow> string) \<Rightarrow> nat \<Rightarrow> ir_item \<Rightarrow> loss_report \<Rightarrow> json option \<times> loss_report" where
  "chat_encode_item to_str idx item r =
     (case item of
        ItemSystem t mode parts \<Rightarrow>
          (case chat_role_content t mode parts r of (c, r) \<Rightarrow> (Some (role_message ''system'' c), r))
      | ItemSystemCache _ \<Rightarrow> (None, loss_record (items_path idx) LossDrop ''system cache point has no slot'' r)
      | ItemSystemGuard _ \<Rightarrow> (None, loss_record (items_path idx) LossDrop ''system guard content has no slot'' r)
      | ItemDeveloper t mode parts \<Rightarrow>
          (case chat_role_content t mode parts (loss_record (items_path idx) LossPreserve ''developer'' r) of
             (c, r) \<Rightarrow> (Some (role_message ''developer'' c), r))
      | ItemUser parts \<Rightarrow>
          (case chat_encode_parts parts r of (c, r) \<Rightarrow> (Some (role_message ''user'' c), r))
      | ItemFunctionOutput call_id output parts is_error \<Rightarrow>
          (case chat_tool_message to_str idx call_id output parts is_error r of (m, r) \<Rightarrow> (Some m, r))
      | ItemReasoning _ _ _ \<Rightarrow>
          (None, loss_record (items_path idx) LossDegrade ''reasoning omitted on Chat Completions'' r)
      | ItemHostedToolCall kind raw \<Rightarrow>
          if chat_string_role raw
          then (Some raw, loss_record (items_path idx) LossPreserve (''hosted item `'' @ kind @ ''` passthrough'') r)
          else (None, loss_record (items_path idx @ ''.role'') LossDrop ''chat messages require role'' r)
      | ItemUnknown type_name raw \<Rightarrow>
          if type_name = ''toolAddition'' \<or> type_name = ''toolRemoval''
          then (None, loss_record (items_path idx) LossDrop ''tool addition or removal has no slot'' r)
          else if chat_string_role raw then (Some raw, r)
          else (None, loss_record (items_path idx @ ''.role'') LossDrop ''chat messages require role'' r)
      | _ \<Rightarrow> (None, r))"

lemma take_function_calls_length: "take_function_calls idx items r = (calls, n, r') \<Longrightarrow> n = length calls \<and> n \<le> length items"
  by (induction idx items r arbitrary: calls n r' rule: take_function_calls.induct)
    (force split: prod.splits if_splits)+

definition is_call_item :: "ir_item \<Rightarrow> bool" where
  "is_call_item item = (case item of ItemFunctionCall _ _ _ _ \<Rightarrow> True | ItemCustomToolCall _ _ _ _ \<Rightarrow> True | _ \<Rightarrow> False)"

lemma take_function_calls_progress:
  "is_call_item item \<Longrightarrow> take_function_calls idx (item # items) r = (calls, n, r') \<Longrightarrow> 0 < n"
  by (cases item) (auto simp: is_call_item_def Let_def split: prod.splits)

function chat_encode_messages ::
  "(json \<Rightarrow> string) \<Rightarrow> nat \<Rightarrow> ir_item list \<Rightarrow> loss_report \<Rightarrow> json list \<times> loss_report" where
  "chat_encode_messages to_str idx items r =
     (case items of
        [] \<Rightarrow> ([], r)
      | item # rest \<Rightarrow>
          if is_call_item item then
            let (calls, n, r) = take_function_calls idx (item # rest) r;
                msg = json_obj [(''role'', JString ''assistant''), (''content'', JNull), (''tool_calls'', JArray calls)];
                (msgs, r) = chat_encode_messages to_str (idx + n) (drop n (item # rest)) r
            in (msg # msgs, r)
          else (case item of
            ItemAssistant parts phase \<Rightarrow>
              let r = drop_assistant_phase phase (items_path idx @ ''.phase'') r;
                  (calls, n, r) = take_function_calls (idx + 1) rest r;
                  (content, r) = chat_encode_parts parts r;
                  msg = (if calls \<noteq> [] then jinsert ''tool_calls'' (JArray calls) (role_message ''assistant'' content)
                         else role_message ''assistant'' content);
                  (msgs, r) = chat_encode_messages to_str (idx + 1 + n) (drop n rest) r
              in (msg # msgs, r)
          | _ \<Rightarrow>
              let (msg, r) = chat_encode_item to_str idx item r;
                  (msgs, r) = chat_encode_messages to_str (idx + 1) rest r
              in (case msg of None \<Rightarrow> msgs | Some msg \<Rightarrow> msg # msgs, r)))"
  by pat_completeness auto
termination
proof (relation "measure (\<lambda>(to_str, idx, items, r). length items)", goal_cases)
  case (2 to_str idx items r item rest x calls y n r')
  then show ?case using take_function_calls_progress [of item idx rest r calls n r'] by simp
qed auto

declare chat_encode_messages.simps [simp del]

end
