(* ===== verification/Wm_Map_Chat_Sampling.thy ===== *)
theory Wm_Map_Chat_Sampling
  imports Wm_Map_Chat
begin

text \<open>
  The second half of \<open>encode\<close> of \<open>map/chat.rs\<close>: tools, settings and the checks around them. A step of
  \<open>chat_encode_sampling\<close> changes the body and the report; \<open>run_steps\<close> runs them in order.
\<close>

section \<open>Steps\<close>

type_synonym body_step = "json \<times> loss_report \<Rightarrow> json \<times> loss_report"

text \<open>\<open>if let Some(v) = ... { body[k] = v; }\<close>, the same with a \<open>Preserve\<close>, a loss without a field, and losses from a helper.\<close>

definition field_step :: "string \<Rightarrow> json option \<Rightarrow> body_step" where
  "field_step k v st = (set_opt k v (fst st), snd st)"

definition kept_step :: "string \<Rightarrow> json option \<Rightarrow> string \<Rightarrow> string \<Rightarrow> body_step" where
  "kept_step k v p d st =
     (set_opt k v (fst st), if is_some v then loss_record (''sampling.'' @ p) LossPreserve d (snd st) else snd st)"

definition loss_step :: "bool \<Rightarrow> string \<Rightarrow> loss_action \<Rightarrow> string \<Rightarrow> body_step" where
  "loss_step b p a d st = (fst st, if b then loss_record (''sampling.'' @ p) a d (snd st) else snd st)"

definition no_slots :: "(bool \<times> string) list \<Rightarrow> body_step" where
  "no_slots bs st = (fst st, drop_each bs (snd st))"

definition report_step :: "(loss_report \<Rightarrow> loss_report) \<Rightarrow> body_step" where
  "report_step f st = (fst st, f (snd st))"

definition run_steps :: "body_step list \<Rightarrow> body_step" where
  "run_steps steps st = foldl (\<lambda>st step. step st) st steps"

lemma run_steps_simps [simp]: "run_steps [] st = st" "run_steps (s # ss) st = run_steps ss (s st)"
  by (simp_all add: run_steps_def)

lemma run_steps_append: "run_steps (ss @ ts) st = run_steps ts (run_steps ss st)"
  by (simp add: run_steps_def)

lemma fst_steps [simp]:
  "fst (field_step k v st) = set_opt k v (fst st)"
  "fst (kept_step k v p d st) = set_opt k v (fst st)"
  "fst (loss_step b p a d st) = fst st"
  "fst (no_slots bs st) = fst st"
  "fst (report_step f st) = fst st"
  by (simp_all add: field_step_def kept_step_def loss_step_def no_slots_def report_step_def)


section \<open>Settings\<close>

definition uses_max_completion_tokens :: "string \<Rightarrow> bool" where
  "uses_max_completion_tokens model =
     (let id' = to_ascii_lowercase (openai_model_leaf model)
      in id' = ''o1'' \<or> starts_with ''o1-'' id' \<or> id' = ''o3'' \<or> starts_with ''o3-'' id' \<or> id' = ''o4''
         \<or> starts_with ''o4-'' id' \<or> starts_with ''gpt-5'' id')"

definition chat_encode_tool :: "prepared_tool \<Rightarrow> json" where
  "chat_encode_tool tool =
     (case tool of
        PreparedFunction name description parameters strict \<Rightarrow>
          json_obj [(''type'', JString ''function''),
            (''function'', set_opt ''strict'' (map_option JBool strict)
               (json_obj [(''name'', JString name), (''description'', JString description),
                  (''parameters'', sent_schema strict parameters)]))]
      | PreparedRaw raw \<Rightarrow> raw)"

fun chat_tool_choice_value :: "ir_tool_choice \<Rightarrow> json option" where
  "chat_tool_choice_value ChoiceAuto = None"
| "chat_tool_choice_value ChoiceNone = Some (JString ''none'')"
| "chat_tool_choice_value ChoiceRequired = Some (JString ''required'')"
| "chat_tool_choice_value (ChoiceNamed name) =
     Some (json_obj [(''type'', JString ''function''), (''function'', json_obj [(''name'', JString name)])])"

definition chat_encode_tool_choice :: "ir_tool_choice \<Rightarrow> body_step" where
  "chat_encode_tool_choice choice = field_step ''tool_choice'' (chat_tool_choice_value choice)"

definition json_str :: "string option \<Rightarrow> json option" where
  "json_str x = map_option JString x"

definition json_strs :: "string list \<Rightarrow> json" where
  "json_strs xs = JArray (map JString xs)"

text \<open>\<open>if x.is_none() && y.is_none() ... { return; }\<close>: an object only when it has an entry.\<close>

definition nonempty_object :: "(string \<times> json option) list \<Rightarrow> json option" where
  "nonempty_object kvs =
     (if list_all (\<lambda>(k, v). v = None) kvs then None
      else Some (foldl (\<lambda>j (k, v). set_opt k v j) (JObject []) kvs))"

definition chat_encode_prompt_cache_options :: "ir_sampling \<Rightarrow> body_step list" where
  "chat_encode_prompt_cache_options s =
     (let mode = trimmed (s_prompt_cache_mode s); ttl = trimmed (s_prompt_cache_ttl s)
      in [loss_step (is_some mode) ''prompt_cache_mode'' LossPreserve ''chat prompt_cache_options.mode'',
          loss_step (is_some ttl) ''prompt_cache_ttl'' LossPreserve ''chat prompt_cache_options.ttl'',
          field_step ''prompt_cache_options'' (nonempty_object [(''mode'', json_str mode), (''ttl'', json_str ttl)])])"

definition mode_object :: "string option \<Rightarrow> json option" where
  "mode_object mode = map_option (\<lambda>m. json_obj [(''mode'', JString m)]) mode"

definition chat_encode_moderation :: "ir_sampling \<Rightarrow> body_step list" where
  "chat_encode_moderation s =
     (let model = trimmed (s_moderation_model s); inp = trimmed (s_moderation_input s);
          out = trimmed (s_moderation_output s)
      in [loss_step (is_some model) ''moderation_model'' LossPreserve ''chat moderation.model'',
          loss_step (is_some inp) ''moderation_input'' LossPreserve ''chat moderation.policy.input.mode'',
          loss_step (is_some out) ''moderation_output'' LossPreserve ''chat moderation.policy.output.mode'',
          field_step ''moderation''
            (nonempty_object [(''model'', json_str model),
               (''policy'', nonempty_object [(''input'', mode_object inp), (''output'', mode_object out)])])])"

definition chat_modalities_sent :: "string list \<Rightarrow> string list" where
  "chat_modalities_sent raws =
     List.map_filter (\<lambda>raw. if eq_ignore_ascii_case raw ''text'' then Some ''text''
                            else if eq_ignore_ascii_case raw ''audio'' then Some ''audio'' else None) raws"

definition chat_audio_settings :: "ir_sampling \<Rightarrow> json option" where
  "chat_audio_settings s =
     (let voice = trimmed (s_audio_voice s)
      in if voice = None \<and> \<not> list_ex (\<lambda>raw. eq_ignore_ascii_case raw ''audio'') (s_output_modalities s) then None
         else Some (jinsert ''format'' (JString (unwrap_or (trimmed (s_audio_format s)) ''wav''))
                (set_opt ''voice'' (json_str voice) (JObject []))))"

definition chat_encode_output_modalities_and_audio :: "ir_sampling \<Rightarrow> body_step list" where
  "chat_encode_output_modalities_and_audio s =
     (let modalities = chat_modalities_sent (s_output_modalities s)
      in [loss_step (s_output_modalities s \<noteq> [] \<and> modalities = []) ''output_modalities'' LossDrop
            ''chat modalities are text or audio'',
          field_step ''modalities'' (if modalities \<noteq> [] then Some (json_strs modalities) else None),
          loss_step (modalities \<noteq> []) ''output_modalities''
            (if length modalities < length (s_output_modalities s) then LossDegrade else LossPreserve) ''chat modalities'',
          loss_step (is_some (trimmed (s_audio_voice s))) ''audio_voice'' LossPreserve ''chat audio.voice'',
          field_step ''audio'' (chat_audio_settings s)])"

definition chat_stop_step :: "string \<Rightarrow> string list \<Rightarrow> body_step" where
  "chat_stop_step model stop st =
     (if stop = [] then st
      else if chat_stop_unsupported model
      then (fst st, loss_record ''sampling.stop'' LossDrop ''o3 and o4-mini Chat Completions reject stop'' (snd st))
      else (case kept_stop stop (snd st) of
              (kept, r) \<Rightarrow> (set_opt ''stop'' (if kept \<noteq> [] then Some (json_strs kept) else None) (fst st), r)))"

definition chat_logprobs_steps :: "string \<Rightarrow> ir_sampling \<Rightarrow> body_step list" where
  "chat_logprobs_steps model s =
     (if gpt5_sampling_params_rejected model (s_reasoning_effort s)
         \<and> (s_logprobs s = Some True \<or> is_some (s_top_logprobs s)) then
        [loss_step True ''logprobs'' LossDrop
           ''gpt-5 family Chat Completions reject logprobs unless gpt-5.1 or gpt-5.2 reasoning effort is none'',
         loss_step (is_some (s_top_logprobs s)) ''top_logprobs'' LossDrop
           ''gpt-5 family Chat Completions reject logprobs unless gpt-5.1 or gpt-5.2 reasoning effort is none'']
      else
        [field_step ''logprobs''
           (if s_logprobs s = Some True \<or> is_some (s_top_logprobs s) then Some (JBool True) else None),
         loss_step (s_logprobs s = Some True) ''logprobs'' LossPreserve ''chat logprobs'',
         kept_step ''top_logprobs'' (map_option json_u32 (s_top_logprobs s)) ''top_logprobs'' ''chat top_logprobs''])"

definition chat_stream_options_step :: "bool option \<Rightarrow> body_step" where
  "chat_stream_options_step obfuscation st =
     (case obfuscation of
        None \<Rightarrow> st
      | Some b \<Rightarrow>
          let opts = ofilter is_object (jget (fst st) ''stream_options'')
          in (jinsert ''stream_options'' (jinsert ''include_obfuscation'' (JBool b) (unwrap_or opts (JObject []))) (fst st),
              loss_record ''sampling.include_obfuscation'' LossPreserve ''chat stream_options.include_obfuscation''
                (snd st)))"

definition chat_response_format_step :: "ir_sampling \<Rightarrow> body_step" where
  "chat_response_format_step s st =
     (let (official, r) =
            (case s_json_schema s of
               None \<Rightarrow> (None, snd st)
             | Some schema \<Rightarrow> official_json_schema schema (s_json_schema_name s) (snd st))
      in case official of
           Some (schema, name) \<Rightarrow>
             (let schema = (if s_json_schema_strict s = Some True
                            then strict_object_schema (normalize_object_schema_required schema) else schema);
                  js = set_opt ''description'' (json_str (trimmed (s_json_schema_description s)))
                         (set_opt ''strict'' (map_option JBool (s_json_schema_strict s))
                            (json_obj [(''name'', JString name), (''schema'', schema)]))
              in (jinsert ''response_format''
                    (json_obj [(''type'', JString ''json_schema''), (''json_schema'', js)]) (fst st), r))
         | None \<Rightarrow>
             (set_opt ''response_format''
                (if s_json_object s = Some True then Some (json_obj [(''type'', JString ''json_object'')]) else None)
                (fst st), r))"

definition json_string_map :: "(string \<times> string) list \<Rightarrow> json" where
  "json_string_map m = JObject (map (\<lambda>(k, v). (k, JString v)) m)"

definition json_f64_map :: "(string \<times> f64) list \<Rightarrow> json" where
  "json_f64_map m = JObject (map (\<lambda>(k, v). (k, json_f64 v)) m)"

definition chat_no_slot :: "ir_sampling \<Rightarrow> (bool \<times> string) list" where
  "chat_no_slot s =
     [(is_some (s_top_k s), ''top_k''), (is_some (s_media_resolution s), ''media_resolution''),
      (is_some (s_image_config s), ''image_config''),
      (is_some (s_audio_transcription_config s), ''audio_transcription_config''),
      (is_some (s_translation_config s), ''translation_config''), (is_some (s_affective_dialog s), ''affective_dialog''),
      (is_some (s_enhanced_civic_answers s), ''enhanced_civic_answers''),
      (is_some (s_multi_speaker_speech s), ''multi_speaker_speech''), (is_some (s_cached_content s), ''cached_content''),
      (is_some (s_safety_settings s), ''safety_settings''), (is_some (s_request_labels s), ''request_labels''),
      (is_some (s_inference_geo s), ''inference_geo''), (is_some (s_performance_latency s), ''performance_latency''),
      (is_some (s_previous_message_id s), ''previous_message_id''),
      (s_response_field_paths s \<noteq> [], ''response_field_paths''),
      (is_some (s_additional_request_fields s), ''additional_request_fields''),
      (is_some (s_prompt_variables s), ''prompt_variables''), (is_some (s_guardrail s), ''guardrail''),
      (is_some (s_container s), ''container''), (is_some (s_context_management s), ''context_management'')]"

definition chat_numbers :: "(f32 \<Rightarrow> f64 option) \<Rightarrow> string \<Rightarrow> ir_sampling \<Rightarrow> body_step list" where
  "chat_numbers reparse model s =
     (let mc = uses_max_completion_tokens model
      in [loss_step (mc \<and> is_some (s_temperature s)) ''temperature'' LossDrop
            ''o-series and gpt-5 Chat Completions reject temperature'',
          field_step ''temperature'' (if mc then None else map_option (json_f32 reparse) (s_temperature s)),
          loss_step (mc \<and> is_some (s_top_p s)) ''top_p'' LossDrop
            ''o-series and gpt-5 Chat Completions reject top_p'',
          field_step ''top_p'' (if mc then None else map_option (json_f32 reparse) (s_top_p s)),
          no_slots (chat_no_slot s),
          report_step (drop_responses_request_fields s),
          report_step (drop_messages_native_thinking s),
          no_slots [(is_some (s_mcp_servers s), ''mcp_servers'')],
          field_step (if mc then ''max_completion_tokens'' else ''max_tokens'') (map_option json_u32 (s_max_tokens s)),
          chat_stop_step model (s_stop s),
          field_step ''frequency_penalty'' (map_option (json_f32 reparse) (s_frequency_penalty s)),
          field_step ''presence_penalty'' (map_option (json_f32 reparse) (s_presence_penalty s)),
          field_step ''seed'' (map_option json_i64 (s_seed s)),
          field_step ''n'' (map_option json_u32 (s_n s)),
          chat_encode_tool_choice (s_tool_choice s),
          kept_step ''parallel_tool_calls'' (map_option JBool (s_parallel_tool_calls s)) ''parallel_tool_calls''
            ''chat parallel_tool_calls'',
          kept_step ''store'' (map_option JBool (s_store s)) ''store'' ''chat store'',
          loss_step (is_some (s_previous_response_id s)) ''previous_response_id'' LossDegrade
            ''drop id, rebuild full input'',
          loss_step (c_enabled (s_cache s)) ''cache'' LossDrop ''no slot'',
          kept_step ''prompt_cache_key'' (json_str (not_blank (s_prompt_cache_key s))) ''prompt_cache_key''
            ''chat prompt_cache_key'',
          kept_step ''prompt_cache_retention'' (json_str (not_blank (s_prompt_cache_retention s)))
            ''prompt_cache_retention'' ''chat prompt_cache_retention''])"

definition chat_account :: "ir_sampling \<Rightarrow> body_step list" where
  "chat_account s =
     [field_step ''user'' (json_str (not_blank (s_user s))),
      kept_step ''verbosity'' (json_str (not_blank (s_verbosity s))) ''verbosity'' ''chat verbosity'',
      kept_step ''safety_identifier'' (json_str (not_blank (s_safety_identifier s))) ''safety_identifier''
        ''chat safety_identifier'',
      kept_step ''metadata'' (if s_metadata s \<noteq> [] then Some (json_string_map (s_metadata s)) else None) ''metadata''
        ''chat metadata'',
      kept_step ''service_tier'' (json_str (not_blank (s_service_tier s))) ''service_tier'' ''chat service_tier'',
      field_step ''stream'' (map_option JBool (s_stream s)),
      field_step ''stream_options''
        (if s_stream s = Some True then Some (json_obj [(''include_usage'', JBool True)]) else None),
      chat_stream_options_step (s_include_obfuscation s),
      field_step ''reasoning_effort'' (json_str (not_blank (s_reasoning_effort s))),
      no_slots [(is_some (s_max_reasoning_tokens s), ''max_reasoning_tokens''),
        (is_some (s_include_thoughts s), ''include_thoughts''), (s_include s \<noteq> [], ''include''),
        (is_some (s_thinking_budget s), ''thinking_budget'')],
      chat_response_format_step s]"

definition chat_extras :: "ir_sampling \<Rightarrow> body_step list" where
  "chat_extras s =
     [kept_step ''logit_bias'' (if s_logit_bias s \<noteq> [] then Some (json_f64_map (s_logit_bias s)) else None) ''logit_bias''
        ''chat logit_bias'',
      kept_step ''prediction'' (s_prediction s) ''prediction'' ''chat prediction'',
      kept_step ''web_search_options'' (s_web_search_options s) ''web_search_options'' ''chat web_search_options'']"

definition chat_encode_sampling :: "(f32 \<Rightarrow> f64 option) \<Rightarrow> ir_request \<Rightarrow> body_step" where
  "chat_encode_sampling reparse ir =
     (let s = r_sampling ir; model = r_model ir
      in run_steps (chat_numbers reparse model s @ chat_encode_prompt_cache_options s @ chat_logprobs_steps model s
           @ chat_encode_moderation s @ chat_account s @ chat_encode_output_modalities_and_audio s @ chat_extras s))"


section \<open>The body\<close>

text \<open>The checks in their order; the first that fails is the error.\<close>

definition chat_check_sampling :: "ir_request \<Rightarrow> map_error + unit" where
  "chat_check_sampling ir =
     (let s = r_sampling ir; mc = uses_max_completion_tokens (r_model ir);
          checks =
            [if mc then Inr () else reject_sampling_number (s_temperature s) 0 0x40000000 ''sampling.temperature''
               ''temperature must be between 0 and 2'',
             if mc then Inr () else reject_sampling_number (s_top_p s) 0 0x3F800000 ''sampling.top_p''
               ''top_p must be between 0 and 1'',
             reject_sampling_number (s_frequency_penalty s) 0xC0000000 0x40000000 ''sampling.frequency_penalty''
               ''frequency_penalty must be between -2 and 2'',
             reject_sampling_number (s_presence_penalty s) 0xC0000000 0x40000000 ''sampling.presence_penalty''
               ''presence_penalty must be between -2 and 2'',
             if s_n s = Some 0 then Inl (hard ''sampling.n'' ''n must be at least 1'') else Inr (),
             if s_max_tokens s = Some 0 then Inl (hard ''sampling.max_tokens'' ''max_tokens must be at least 1'')
             else Inr ()]
      in foldr (\<lambda>c rest. case c of Inl e \<Rightarrow> Inl e | Inr _ \<Rightarrow> rest) checks (Inr ()))"

definition chat_request_encode :: "(json \<Rightarrow> string) \<Rightarrow> (f32 \<Rightarrow> f64 option) \<Rightarrow> wire_encoder" where
  "chat_request_encode to_str reparse ir tools r =
     (let (messages, r) = chat_encode_messages to_str 0 (r_items ir) r
      in if messages = [] \<and> dropped_details r \<noteq> []
         then Inl (MapInvalid (''chat messages must not be empty: '' @ join ''; '' (dropped_details r)))
         else
           let body = json_obj [(''model'', JString (r_model ir)), (''messages'', JArray messages)];
               body = set_opt ''tools'' (if tools \<noteq> [] then Some (JArray (map chat_encode_tool tools)) else None) body
           in (case chat_check_sampling ir of
                 Inl e \<Rightarrow> Inl e
               | Inr _ \<Rightarrow> Inr (chat_encode_sampling reparse ir (body, r))))"

end
