(* ===== verification/Wm_Map_Chat_Trip.thy ===== *)
theory Wm_Map_Chat_Trip
  imports Wm_Map_Chat_Sampling
begin

text \<open>
  A request written for Chat Completions and read again. \<open>chat_item\<close> and \<open>chat_settings\<close> say what the wire has a slot for;
  inside that, \<open>chat_request_decode\<close> undoes \<open>chat_request_encode\<close> and the report names no loss.
\<close>

section \<open>Parts\<close>

definition opt_pair :: "string \<Rightarrow> json option \<Rightarrow> (string \<times> json) list" where
  "opt_pair k v = (case v of None \<Rightarrow> [] | Some w \<Rightarrow> [(k, w)])"

text \<open>A text the readers keep as it is: absent, or not empty and already trimmed.\<close>

definition tidy :: "string option \<Rightarrow> bool" where
  "tidy x = (case x of None \<Rightarrow> True | Some s \<Rightarrow> s \<noteq> [] \<and> trim s = s)"

fun chat_plain_part :: "ir_part \<Rightarrow> bool" where
  "chat_plain_part (PartText t) = True"
| "chat_plain_part (PartImageUrl url d owner file_id) =
     (\<not> blank url \<and> owner = None \<and> file_id = None
      \<and> (case d of
           None \<Rightarrow> split_data_url url = None
         | Some d \<Rightarrow> d \<noteq> [] \<and> d \<noteq> ''auto'' \<and> \<not> is_some_and (split_data_url url) (\<lambda>(_, x). blank x)))"
| "chat_plain_part (PartImageBase64 media d) = (CHR '';'' \<notin> set media \<and> \<not> blank d)"
| "chat_plain_part (PartDocument (SourceBase64 d) media name cites ctx) =
     (\<not> blank d \<and> media \<noteq> [] \<and> CHR '';'' \<notin> set media \<and> name \<noteq> None \<and> tidy name \<and> cites = None \<and> ctx = None)"
| "chat_plain_part (PartDocument (SourceFileId f) media name cites ctx) =
     (\<not> blank f \<and> media = [] \<and> tidy name \<and> cites = None \<and> ctx = None)"
| "chat_plain_part (PartAudio d fmt) = (\<not> blank d)"
| "chat_plain_part _ = False"

fun chat_part :: "ir_part \<Rightarrow> bool" where
  "chat_part (PartCacheBreakpoint mode inner) = (tidy (Some mode) \<and> chat_plain_part inner)"
| "chat_part part = chat_plain_part part"

lemma blank_Nil [simp]: "blank []"
  by (simp add: blank_def)

lemma split_data_url_data_url [simp]: "CHR '';'' \<notin> set media \<Longrightarrow> split_data_url (data_url media d) = Some (media, d)"
  using split_once_str_fresh [of "CHR '';''" media "''base64,''" d]
  by (simp add: split_data_url_def data_url_def del: split_once_str.simps)

lemma trimmed_tidy [simp]: "tidy x \<Longrightarrow> trimmed x = x"
  by (cases x) (simp_all add: tidy_def trimmed_def)

lemma peel_plain: "chat_plain_part p \<Longrightarrow> peel_prompt_cache_all p = (p, None)"
  by (cases p) simp_all

lemma innermost_plain: "chat_plain_part p \<Longrightarrow> innermost_part p = p"
  by (cases p) simp_all

lemma keep_plain: "chat_plain_part p \<Longrightarrow> chat_keep_part p r = (True, r)"
  by (induction p rule: chat_plain_part.induct)
    (auto simp: chat_keep_part_def image_file_id_without_url_def split: option.splits)

lemma visible_chat_part: "chat_part p \<Longrightarrow> chat_visible p r = (True, r)"
  by (cases p rule: chat_part.cases) (auto simp: chat_visible_def keep_plain peel_plain innermost_plain)

lemma visible_chat_parts: "list_all chat_part ps \<Longrightarrow> chat_visible_parts ps r = (ps, r)"
  by (induction ps) (simp_all add: visible_chat_part)

text \<open>The value of a part before a breakpoint is put on it.\<close>

lemma as_str_json_obj [simp]: "as_str (json_obj kvs) = None" "as_array (json_obj kvs) = None"
  by (simp_all add: json_obj_def)

lemma set_opt_json_obj: "set_opt k v (json_obj kvs) = json_obj (kvs @ opt_pair k v)"
  by (cases v) (simp_all add: set_opt_def opt_pair_def jinsert_json_obj)

lemma map_of_rev_opt_pair [simp]:
  "map_of (rev (opt_pair k v)) k' = (if k' = k then v else None)"
  by (cases v) (simp_all add: opt_pair_def)

lemma document_filename_tidy [simp]: "tidy (Some name) \<Longrightarrow> document_filename (Some name) media = name"
  by (simp add: document_filename_def)

lemma plain_part_value:
  assumes "chat_plain_part p"
  shows "\<exists>kvs. chat_part_value p r = ((Some (json_obj kvs), True), r) 
    \<and> map_of (rev kvs) ''prompt_cache_breakpoint'' = None \<and> chat_decode_typed_part (json_obj kvs) = Some p
    \<and> (\<forall>w. chat_decode_typed_part (json_obj (kvs @ [(''prompt_cache_breakpoint'', w)])) = Some p)"
proof (cases p rule: chat_plain_part.cases)
  case (1 t)
  show ?thesis 
    by (intro exI [of _ "[(''type'', JString ''text''), (''text'', JString t)]"])
      (simp add: 1 chat_part_value_def text_value_def chat_decode_typed_part_def)
next
  case (2 url d owner file_id)
  show ?thesis
  proof (cases d)
    case None
    show ?thesis
      by (intro exI [of _ "[(''type'', JString ''image_url''), (''image_url'', json_obj [(''url'', JString url)])]"])
        (use assms 2 None in \<open>simp add: chat_part_value_def chat_image_value_def chat_decode_typed_part_def
           chat_decode_image_part_def set_opt_def\<close>)
  next
    case (Some x)
    show ?thesis
      by (intro exI [of _ "[(''type'', JString ''image_url''),
            (''image_url'', json_obj [(''url'', JString url), (''detail'', JString x)])]"])
        (use assms 2 Some in \<open>simp add: chat_part_value_def chat_image_value_def chat_decode_typed_part_def
           chat_decode_image_part_def set_opt_def jinsert_json_obj\<close>)
  qed
next
  case (3 media d)
  show ?thesis
    by (intro exI [of _ "[(''type'', JString ''image_url''),
            (''image_url'', json_obj [(''url'', JString (data_url media d))])]"])
      (use assms 3 in \<open>simp add: chat_part_value_def chat_image_value_def chat_decode_typed_part_def
           chat_decode_image_part_def set_opt_def\<close>)
next
  case (4 d media name cites ctx)
  then obtain n where n: "name = Some n" "tidy (Some n)" using assms by auto
  then have "n \<noteq> []" by (simp add: tidy_def)
  then show ?thesis
    by (intro exI [of _ "[(''type'', JString ''file''),
            (''file'', json_obj [(''filename'', JString n), (''file_data'', JString (data_url media d))])]"])
      (use assms 4 n in \<open>simp add: chat_part_value_def chat_encode_document_def chat_decode_typed_part_def
         decode_openai_file_part_def first_str_def Let_def\<close>)
next
  case (5 f media name cites ctx)
  then have "name \<noteq> Some []" using assms by (auto simp: tidy_def)
  then show ?thesis
    by (intro exI [of _ "[(''type'', JString ''file''),
            (''file'', json_obj ([(''file_id'', JString f)] @ opt_pair ''filename'' (map_option JString name)))]"])
      (use assms 5 in \<open>cases name; simp add: chat_part_value_def chat_encode_document_def chat_decode_typed_part_def
         decode_openai_file_part_def first_str_def set_opt_json_obj opt_pair_def\<close>)
next
  case (6 d fmt)
  show ?thesis
    by (intro exI [of _ "[(''type'', JString ''input_audio''),
            (''input_audio'', json_obj [(''data'', JString d), (''format'', JString fmt)])]"])
      (simp add: 6 chat_part_value_def chat_audio_part_value_def chat_decode_typed_part_def decode_input_audio_part_def Let_def)
qed (use assms in simp_all)


lemma encode_plain_part:
  assumes "chat_plain_part p"
  shows "\<exists>v. chat_encode_part p r = (Some v, r) \<and> chat_decode_part v = Some p"
proof -
  obtain kvs where "chat_part_value p r = ((Some (json_obj kvs), True), r)"
    "map_of (rev kvs) ''prompt_cache_breakpoint'' = None" "chat_decode_typed_part (json_obj kvs) = Some p"
    using plain_part_value [OF assms] by blast
  then show ?thesis
    by (simp add: chat_encode_part_def peel_plain [OF assms] apply_prompt_cache_def chat_decode_part_def
        with_prompt_cache_def)
qed

lemma encode_chat_part:
  assumes "chat_part p"
  shows "\<exists>v. chat_encode_part p r = (Some v, r) \<and> chat_decode_part v = Some p"
proof (cases p)
  case (PartCacheBreakpoint mode inner)
  with assms have inner: "chat_plain_part inner" and mode: "tidy (Some mode)" by simp_all
  obtain kvs where kvs: "chat_part_value inner r = ((Some (json_obj kvs), True), r)"
    "\<forall>w. chat_decode_typed_part (json_obj (kvs @ [(''prompt_cache_breakpoint'', w)])) = Some inner"
    using plain_part_value [OF inner] by blast
  have "mode \<noteq> []" using mode by (simp add: tidy_def)
  then show ?thesis
    using mode kvs
    by (simp add: PartCacheBreakpoint chat_encode_part_def innermost_plain [OF inner] apply_prompt_cache_def
        jinsert_json_obj chat_decode_part_def with_prompt_cache_def)
qed (use assms encode_plain_part in simp_all)

lemma encode_chat_parts:
  "list_all chat_part ps \<Longrightarrow> \<exists>vs. chat_encode_visible ps r = (vs, r) \<and> List.map_filter chat_decode_part vs = ps"
proof (induction ps)
  case (Cons p ps)
  then obtain vs where "chat_encode_visible ps r = (vs, r)" "List.map_filter chat_decode_part vs = ps" by auto
  moreover obtain v where "chat_encode_part p r = (Some v, r)" "chat_decode_part v = Some p"
    using encode_chat_part Cons.prems by auto
  ultimately show ?case by (simp add: map_filter_simps)
qed (simp add: map_filter_simps)

lemma content_round_trip:
  assumes "ps \<noteq> []" "list_all chat_part ps"
  shows "\<exists>c. chat_encode_parts ps r = (c, r) \<and> chat_decode_content (Some c) = ps"
proof -
  obtain vs where vs: "chat_encode_visible ps r = (vs, r)" "List.map_filter chat_decode_part vs = ps"
    using encode_chat_parts [OF assms(2)] by blast
  then show ?thesis
    using assms(1) visible_chat_parts [OF assms(2), of r]
    by (cases "\<exists>t. ps = [PartText t]")
      (auto simp: chat_encode_parts_def chat_decode_content_def split: list.splits ir_part.splits)
qed


section \<open>Messages\<close>

definition role_parts_fit :: "string \<Rightarrow> string option \<Rightarrow> ir_part list \<Rightarrow> bool" where
  "role_parts_fit t mode parts =
     (if parts = [] then tidy mode
      else mode = None \<and> length parts > 1 \<and> has_breakpoint parts \<and> list_all chat_part parts
           \<and> t = chat_parts_text parts)"

fun chat_item :: "ir_item \<Rightarrow> bool" where
  "chat_item (ItemSystem t mode parts) = role_parts_fit t mode parts"
| "chat_item (ItemDeveloper t mode parts) = role_parts_fit t mode parts"
| "chat_item (ItemUser parts) = (parts \<noteq> [] \<and> list_all chat_part parts)"
| "chat_item (ItemAssistant parts phase) = (parts \<noteq> [] \<and> list_all chat_part parts \<and> phase = None)"
| "chat_item (ItemFunctionCall call_id name arguments sig) = (sig = None)"
| "chat_item (ItemCustomToolCall call_id name input item) = (item = None)"
| "chat_item (ItemFunctionOutput call_id output parts is_error) = (parts = [] \<and> \<not> is_error)"
| "chat_item _ = False"

lemma role_text_round_trip:
  assumes "tidy mode"
  shows "chat_decode_content (Some (chat_role_text_content t mode))
     = [case mode of None \<Rightarrow> PartText t | Some m \<Rightarrow> PartCacheBreakpoint m (PartText t)]"
proof (cases mode)
  case (Some m)
  with assms have m: "m \<noteq> []" "tidy (Some m)" by (auto simp: tidy_def)
  with Some show ?thesis
    by (simp add: chat_role_text_content_def chat_decode_content_def chat_decode_part_def chat_decode_typed_part_def
        with_prompt_cache_def map_filter_simps)
qed (simp add: chat_role_text_content_def chat_decode_content_def)

lemma role_content_round_trip:
  assumes "role_parts_fit t mode parts"
  shows "\<exists>c ps. chat_role_content t mode parts r = (c, r) \<and> chat_decode_content (Some c) = ps
    \<and> chat_parts_text ps = t \<and> role_text_breakpoint ps = mode \<and> role_content_parts ps = parts"
proof (cases "parts = []")
  case True
  then have "tidy mode" using assms by (simp add: role_parts_fit_def)
  with True show ?thesis
    by (cases mode) (simp_all add: chat_role_content_def role_text_round_trip chat_parts_text_def chat_part_text_def
        role_content_parts_def)
next
  case False
  then have fit: "mode = None" "length parts > 1" "has_breakpoint parts" "list_all chat_part parts"
    "t = chat_parts_text parts"
    using assms by (auto simp: role_parts_fit_def split: if_splits)
  obtain c where "chat_encode_parts parts r = (c, r)" "chat_decode_content (Some c) = parts"
    using content_round_trip [OF False fit(4)] by blast
  moreover have "role_text_breakpoint parts = None"
    using fit(2) by (cases parts rule: role_text_breakpoint.cases) simp_all
  ultimately show ?thesis
    using False fit by (simp add: chat_role_content_def role_content_parts_def has_breakpoint_def)
qed


lemma lossy_record [simp]: "lossy (loss_record p LossPreserve d r) = lossy r"
  by (simp add: lossy_def loss_record_def)

lemma role_message_get [simp]:
  "str_field (role_message role c) ''role'' = Some role" "jget (role_message role c) ''content'' = Some c"
  "jget (role_message role c) ''tool_calls'' = None" "str_field (role_message role c) ''refusal'' = None"
  by (simp_all add: role_message_def)

lemma item_round_trip:
  assumes "chat_item item" "\<not> is_call_item item" "\<nexists>parts phase. item = ItemAssistant parts phase"
  shows "\<exists>m r'. chat_encode_item to_str idx item r = (Some m, r') \<and> chat_decode_message to_str m q = ([item], q)
    \<and> lossy r' = lossy r"
proof (cases item)
  case (ItemSystem t mode parts)
  then obtain c where "chat_role_content t mode parts r = (c, r)" "chat_parts_text (chat_decode_content (Some c)) = t"
    "role_text_breakpoint (chat_decode_content (Some c)) = mode" "role_content_parts (chat_decode_content (Some c)) = parts"
    using role_content_round_trip [of t mode parts r] assms(1) by auto
  then show ?thesis
    by (simp add: ItemSystem chat_encode_item_def chat_decode_message_def chat_message_parts_def Let_def)
next
  case (ItemDeveloper t mode parts)
  let ?r = "loss_record (items_path idx) LossPreserve ''developer'' r"
  obtain c where "chat_role_content t mode parts ?r = (c, ?r)" "chat_parts_text (chat_decode_content (Some c)) = t"
    "role_text_breakpoint (chat_decode_content (Some c)) = mode" "role_content_parts (chat_decode_content (Some c)) = parts"
    using role_content_round_trip [of t mode parts ?r] assms(1) ItemDeveloper by auto
  then show ?thesis
    by (simp add: ItemDeveloper chat_encode_item_def chat_decode_message_def chat_message_parts_def Let_def)
next
  case (ItemUser parts)
  then obtain c where "chat_encode_parts parts r = (c, r)" "chat_decode_content (Some c) = parts"
    using content_round_trip [of parts r] assms(1) by auto
  then show ?thesis
    by (simp add: ItemUser chat_encode_item_def chat_decode_message_def chat_message_parts_def Let_def)
next
  case (ItemFunctionOutput call_id out parts is_error)
  then show ?thesis
    using assms(1)
    by (simp add: chat_encode_item_def chat_tool_message_def chat_output_content_def has_breakpoint_def
        function_output_text_def map_filter_simps chat_decode_message_def chat_message_parts_def chat_decode_content_def
        chat_decode_tool_message_def chat_parts_text_def chat_part_text_def is_image_part_def Let_def)
qed (use assms in \<open>simp_all add: is_call_item_def\<close>)

lemma calls_round_trip:
  "list_all chat_item items \<Longrightarrow> take_function_calls idx items r = (calls, n, r') \<Longrightarrow>
     r' = r \<and> n = length calls \<and> map (chat_decode_tool_call to_str) calls = take n items"
proof (induction idx items r arbitrary: calls n r' rule: take_function_calls.induct)
  case (1 idx call_id name arguments sig items r)
  then show ?case
    by (auto simp: function_call_json_def chat_decode_tool_call_def chat_is_custom_tool_call_def Let_def split: prod.splits)
next
  case (2 idx call_id name input item items r)
  then show ?case
    by (auto simp: custom_tool_call_json_def chat_decode_tool_call_def chat_is_custom_tool_call_def Let_def
        split: prod.splits)
qed auto

definition assistant_message :: "json \<Rightarrow> json list \<Rightarrow> json" where
  "assistant_message content calls =
     (if calls \<noteq> [] then jinsert ''tool_calls'' (JArray calls) (role_message ''assistant'' content)
      else role_message ''assistant'' content)"

lemma assistant_round_trip:
  assumes "ps \<noteq> []" "chat_decode_content (Some c) = ps"
  shows "chat_decode_message to_str (assistant_message c calls) q
    = (ItemAssistant ps None # map (chat_decode_tool_call to_str) calls, q)"
proof (cases "calls = []")
  case True
  then show ?thesis
    using assms by (simp add: assistant_message_def chat_decode_message_def chat_message_parts_def Let_def)
next
  case False
  then show ?thesis
    using assms
    by (simp add: assistant_message_def role_message_def jinsert_json_obj chat_decode_message_def chat_message_parts_def Let_def)
qed

lemma standalone_round_trip:
  "chat_decode_message to_str
     (json_obj [(''role'', JString ''assistant''), (''content'', JNull), (''tool_calls'', JArray calls)]) q
    = (map (chat_decode_tool_call to_str) calls, q)"
  by (simp add: chat_decode_message_def chat_message_parts_def chat_decode_content_def Let_def)

lemma list_all_drop: "list_all P xs \<Longrightarrow> list_all P (drop n xs)"
  by (auto simp: list_all_iff dest: in_set_dropD)

lemma messages_round_trip:
  "list_all chat_item items \<Longrightarrow> chat_encode_messages to_str idx items r = (msgs, r') \<Longrightarrow>
     chat_decode_messages to_str msgs q = (items, q) \<and> lossy r' = lossy r"
proof (induction items arbitrary: idx r msgs r' rule: measure_induct_rule [where f = length])
  case (less items)
  show ?case
  proof (cases items)
    case Nil
    then show ?thesis using less.prems by (simp add: chat_encode_messages.simps)
  next
    case (Cons item rest)
    have fit: "chat_item item" "list_all chat_item rest" using less.prems(1) Cons by simp_all
    note IH = less.IH [OF _ list_all_drop]
    consider (call) "is_call_item item" | (assistant) parts phase where "item = ItemAssistant parts phase"
      | (other) "\<not> is_call_item item" "\<nexists>parts phase. item = ItemAssistant parts phase"
      by blast
    then show ?thesis
    proof cases
      case call
      obtain calls n s where calls: "take_function_calls idx (item # rest) r = (calls, n, s)" by (metis prod_cases3)
      obtain ms s' where ms: "chat_encode_messages to_str (idx + n) (drop n (item # rest)) s = (ms, s')" by force
      have "0 < n" using take_function_calls_progress [OF call calls] .
      then have rest: "chat_decode_messages to_str ms q = (drop n (item # rest), q)" "lossy s' = lossy s"
        using IH [OF _ _ ms] less.prems(1) Cons by simp_all
      have take: "s = r" "map (chat_decode_tool_call to_str) calls = take n (item # rest)"
        using calls_round_trip [OF _ calls] fit by simp_all
      have "msgs = json_obj [(''role'', JString ''assistant''), (''content'', JNull), (''tool_calls'', JArray calls)] # ms"
        "r' = s'"
        using less.prems(2) Cons call calls ms by (simp_all add: chat_encode_messages.simps [of _ _ "item # rest"])
      then show ?thesis
        using rest take Cons by (simp add: standalone_round_trip)
    next
      case assistant
      define s0 where "s0 = drop_assistant_phase phase (items_path idx @ ''.phase'') r"
      have s0: "s0 = r" and parts: "parts \<noteq> []" "list_all chat_part parts" and phase: "phase = None"
        using fit assistant by (simp_all add: s0_def drop_assistant_phase_def assistant_phase_def not_blank_def)
      obtain calls n s where calls: "take_function_calls (idx + 1) rest s0 = (calls, n, s)" by (metis prod_cases3)
      have take: "s = s0" "map (chat_decode_tool_call to_str) calls = take n rest"
        using calls_round_trip [OF fit(2) calls] by simp_all
      obtain c where c: "chat_encode_parts parts s = (c, s)" "chat_decode_content (Some c) = parts"
        using content_round_trip [OF parts, of s] by blast
      obtain ms s' where ms: "chat_encode_messages to_str (idx + 1 + n) (drop n rest) s = (ms, s')" by force
      have rest: "chat_decode_messages to_str ms q = (drop n rest, q)" "lossy s' = lossy s"
        using IH [OF _ fit(2) ms] Cons by simp_all
      have "msgs = assistant_message c calls # ms" "r' = s'"
        using less.prems(2) Cons assistant calls c ms
        by (simp_all add: chat_encode_messages.simps [of _ _ "ItemAssistant parts phase # rest"] is_call_item_def s0_def assistant_message_def
            Let_def)
      then show ?thesis
        using rest take s0 Cons assistant phase assistant_round_trip [OF parts(1) c(2)] by simp
    next
      case other
      obtain m s where m: "chat_encode_item to_str idx item r = (Some m, s)"
        "chat_decode_message to_str m q = ([item], q)" "lossy s = lossy r"
        using item_round_trip [OF fit(1) other] by blast
      obtain ms s' where ms: "chat_encode_messages to_str (idx + 1) rest s = (ms, s')" by force
      have rest: "chat_decode_messages to_str ms q = (rest, q) \<and> lossy s' = lossy s"
        using less.IH [OF _ fit(2) ms] Cons by simp
      have "msgs = m # ms" "r' = s'"
        using less.prems(2) Cons other m(1) ms
        by (simp_all add: chat_encode_messages.simps [of _ _ "item # rest"] split: ir_item.splits)
      then show ?thesis using rest m Cons by simp
    qed
  qed
qed

end
