(* ===== verification/Wm_Map_Chat_Settings.thy ===== *)
theory Wm_Map_Chat_Settings
  imports Wm_Map_Chat_Trip Wm_Stream_Responses
begin

text \<open>
  The settings of a Chat Completions request read back. \<open>chat_fields\<close> lists the fields \<open>chat_encode_sampling\<close> writes when
  every setting has a slot (\<open>chat_settings\<close>); no key is written twice, so the reader finds each field where it
  was put.
\<close>

section \<open>Fields of a body\<close>

definition entries :: "(string \<times> json option) list \<Rightarrow> (string \<times> json) list" where
  "entries flds = concat (map (\<lambda>(k, v). opt_pair k v) flds)"

lemma entries_simps [simp]:
  "entries [] = []" "entries ((k, v) # flds) = opt_pair k v @ entries flds"
  "entries (fs @ gs) = entries fs @ entries gs"
  by (simp_all add: entries_def)

text \<open>With distinct keys, a field is found unless it was left out.\<close>

lemma jget_entries:
  "distinct (map fst flds) \<Longrightarrow>
     jget (json_obj (kvs @ entries flds)) k
       = (case map_of flds k of Some (Some v) \<Rightarrow> Some v | _ \<Rightarrow> map_of (rev kvs) k)"
proof (induction flds arbitrary: kvs)
  case (Cons f flds)
  obtain a v where f: "f = (a, v)" by (cases f)
  have "jget (json_obj (kvs @ entries (f # flds))) k = jget (json_obj ((kvs @ opt_pair a v) @ entries flds)) k"
    by (simp add: f)
  also have "\<dots> = (case map_of flds k of Some (Some w) \<Rightarrow> Some w | _ \<Rightarrow> map_of (rev (kvs @ opt_pair a v)) k)"
    using Cons.prems by (intro Cons.IH) simp
  also have "\<dots> = (case map_of (f # flds) k of Some (Some w) \<Rightarrow> Some w | _ \<Rightarrow> map_of (rev kvs) k)"
  proof (cases "k = a")
    case True
    then have "map_of flds k = None"
      using Cons.prems by (auto simp: f map_of_eq_None_iff)
    with True show ?thesis by (cases v) (simp_all add: f map_add_def)
  next
    case False
    then have "map_of (rev (kvs @ opt_pair a v)) k = map_of (rev kvs) k" by (simp add: map_add_def)
    with False show ?thesis by (simp add: f split: option.split)
  qed
  finally show ?case .
qed simp

lemma jinsert_twice [simp]: "jinsert k w (jinsert k v j) = jinsert k w j"
proof (cases j)
  case (JObject m)
  have "bt_insert k w (bt_insert k v m) = bt_insert k w m"
    by (induction m) auto
  with JObject show ?thesis by simp
qed simp_all


section \<open>Settings the wire has a slot for\<close>

definition float_kept :: "(f32 \<Rightarrow> f64 option) \<Rightarrow> f32 option \<Rightarrow> bool" where
  "float_kept reparse x =
     (case x of
        None \<Rightarrow> True
      | Some f \<Rightarrow> (case reparse f of None \<Rightarrow> False | Some w \<Rightarrow> f64_is_finite w \<and> f32_of_f64 w = f))"

definition not_blank_text :: "string option \<Rightarrow> bool" where
  "not_blank_text x = (case x of None \<Rightarrow> True | Some s \<Rightarrow> \<not> blank s)"

definition object_text :: "json option \<Rightarrow> bool" where
  "object_text x = (case x of None \<Rightarrow> True | Some (JObject m) \<Rightarrow> m \<noteq> [] | _ \<Rightarrow> False)"

definition stop_fits :: "string \<Rightarrow> string list \<Rightarrow> bool" where
  "stop_fits model stop = (stop = [] \<or> (\<not> chat_stop_unsupported model \<and> [] \<notin> set stop))"

definition logprobs_fit :: "string \<Rightarrow> ir_sampling \<Rightarrow> bool" where
  "logprobs_fit model s =
     (s_logprobs s \<noteq> Some False \<and> (s_top_logprobs s \<noteq> None \<longrightarrow> s_logprobs s = Some True)
      \<and> (s_logprobs s = Some True \<longrightarrow> \<not> gpt5_sampling_params_rejected model (s_reasoning_effort s)))"

definition audio_fits :: "ir_sampling \<Rightarrow> bool" where
  "audio_fits s =
     (set (s_output_modalities s) \<subseteq> {''text'', ''audio''} \<and> tidy (s_audio_voice s) \<and> tidy (s_audio_format s)
      \<and> (is_some (s_audio_format s) \<longleftrightarrow> is_some (s_audio_voice s) \<or> ''audio'' \<in> set (s_output_modalities s)))"

definition schema_fits :: "ir_sampling \<Rightarrow> bool" where
  "schema_fits s =
     (case s_json_schema s of
        None \<Rightarrow> s_json_schema_name s = None \<and> s_json_schema_description s = None \<and> s_json_schema_strict s = None
          \<and> s_json_object s \<noteq> Some False
      | Some schema \<Rightarrow> is_object schema \<and> s_json_schema_name s \<noteq> None \<and> tidy (s_json_schema_name s)
          \<and> tidy (s_json_schema_description s) \<and> s_json_object s = None
          \<and> (s_json_schema_strict s = Some True \<longrightarrow>
               strict_object_schema (normalize_object_schema_required schema) = schema))"

text \<open>The settings \<open>chat_decode_sampling\<close> fills in; the others have their defaults.\<close>

definition chat_core :: "ir_sampling \<Rightarrow> ir_sampling" where
  "chat_core s = ir_sampling_default\<lparr>
     s_temperature := s_temperature s, s_top_p := s_top_p s, s_max_tokens := s_max_tokens s, s_stop := s_stop s,
     s_tool_choice := s_tool_choice s, s_parallel_tool_calls := s_parallel_tool_calls s, s_store := s_store s,
     s_stream := s_stream s, s_reasoning_effort := s_reasoning_effort s, s_json_schema := s_json_schema s,
     s_json_schema_name := s_json_schema_name s, s_json_schema_description := s_json_schema_description s,
     s_json_schema_strict := s_json_schema_strict s, s_json_object := s_json_object s,
     s_prompt_cache_key := s_prompt_cache_key s, s_prompt_cache_retention := s_prompt_cache_retention s,
     s_prompt_cache_mode := s_prompt_cache_mode s, s_prompt_cache_ttl := s_prompt_cache_ttl s,
     s_top_logprobs := s_top_logprobs s, s_moderation_model := s_moderation_model s,
     s_moderation_input := s_moderation_input s, s_moderation_output := s_moderation_output s,
     s_include_obfuscation := s_include_obfuscation s, s_user := s_user s, s_verbosity := s_verbosity s,
     s_safety_identifier := s_safety_identifier s, s_metadata := s_metadata s,
     s_frequency_penalty := s_frequency_penalty s, s_presence_penalty := s_presence_penalty s, s_seed := s_seed s,
     s_n := s_n s, s_service_tier := s_service_tier s, s_output_modalities := s_output_modalities s,
     s_audio_voice := s_audio_voice s, s_audio_format := s_audio_format s, s_logprobs := s_logprobs s,
     s_logit_bias := s_logit_bias s, s_prediction := s_prediction s, s_web_search_options := s_web_search_options s\<rparr>"

definition chat_settings :: "(f32 \<Rightarrow> f64 option) \<Rightarrow> string \<Rightarrow> ir_sampling \<Rightarrow> bool" where
  "chat_settings reparse model s =
     (s = chat_core s
      \<and> (uses_max_completion_tokens model \<longrightarrow> s_temperature s = None \<and> s_top_p s = None)
      \<and> list_all (float_kept reparse) [s_temperature s, s_top_p s, s_frequency_penalty s, s_presence_penalty s]
      \<and> stop_fits model (s_stop s)
      \<and> list_all not_blank_text [s_reasoning_effort s, s_prompt_cache_key s, s_prompt_cache_retention s, s_user s,
           s_verbosity s, s_safety_identifier s, s_service_tier s]
      \<and> list_all tidy [s_prompt_cache_mode s, s_prompt_cache_ttl s, s_moderation_model s, s_moderation_input s,
           s_moderation_output s]
      \<and> (case s_seed s of None \<Rightarrow> True | Some i \<Rightarrow> - (2 ^ 63) \<le> i \<and> i < 2 ^ 63)
      \<and> logprobs_fit model s \<and> audio_fits s \<and> schema_fits s
      \<and> list_all (\<lambda>(k, w). f64_is_finite w) (s_logit_bias s)
      \<and> object_text (s_prediction s) \<and> object_text (s_web_search_options s))"


section \<open>What is written\<close>

definition when_some :: "'a list \<Rightarrow> json \<Rightarrow> json option" where
  "when_some xs v = (if xs \<noteq> [] then Some v else None)"

definition stream_options_value :: "ir_sampling \<Rightarrow> json option" where
  "stream_options_value s =
     (case s_include_obfuscation s of
        None \<Rightarrow> if s_stream s = Some True then Some (json_obj [(''include_usage'', JBool True)]) else None
      | Some b \<Rightarrow> Some (json_obj ((if s_stream s = Some True then [(''include_usage'', JBool True)] else [])
                        @ [(''include_obfuscation'', JBool b)])))"

definition response_format_value :: "ir_sampling \<Rightarrow> json option" where
  "response_format_value s =
     (case s_json_schema s of
        None \<Rightarrow> if s_json_object s = Some True then Some (json_obj [(''type'', JString ''json_object'')]) else None
      | Some schema \<Rightarrow>
          Some (json_obj [(''type'', JString ''json_schema''),
            (''json_schema'', json_obj ([(''name'', JString (the (s_json_schema_name s))), (''schema'', schema)]
               @ opt_pair ''strict'' (map_option JBool (s_json_schema_strict s))
               @ opt_pair ''description'' (json_str (s_json_schema_description s))))]))"

definition chat_fields :: "(f32 \<Rightarrow> f64 option) \<Rightarrow> string \<Rightarrow> ir_sampling \<Rightarrow> (string \<times> json option) list" where
  "chat_fields reparse model s =
     [(''temperature'', map_option (json_f32 reparse) (s_temperature s)),
      (''top_p'', map_option (json_f32 reparse) (s_top_p s)),
      (if uses_max_completion_tokens model then ''max_completion_tokens'' else ''max_tokens'',
       map_option json_u32 (s_max_tokens s)),
      (''stop'', when_some (s_stop s) (json_strs (s_stop s))),
      (''frequency_penalty'', map_option (json_f32 reparse) (s_frequency_penalty s)),
      (''presence_penalty'', map_option (json_f32 reparse) (s_presence_penalty s)),
      (''seed'', map_option json_i64 (s_seed s)), (''n'', map_option json_u32 (s_n s)),
      (''tool_choice'', chat_tool_choice_value (s_tool_choice s)),
      (''parallel_tool_calls'', map_option JBool (s_parallel_tool_calls s)), (''store'', map_option JBool (s_store s)),
      (''prompt_cache_key'', json_str (s_prompt_cache_key s)),
      (''prompt_cache_retention'', json_str (s_prompt_cache_retention s)),
      (''prompt_cache_options'',
       nonempty_object [(''mode'', json_str (s_prompt_cache_mode s)), (''ttl'', json_str (s_prompt_cache_ttl s))]),
      (''logprobs'', map_option JBool (s_logprobs s)), (''top_logprobs'', map_option json_u32 (s_top_logprobs s)),
      (''moderation'',
       nonempty_object [(''model'', json_str (s_moderation_model s)),
         (''policy'', nonempty_object [(''input'', mode_object (s_moderation_input s)),
            (''output'', mode_object (s_moderation_output s))])]),
      (''user'', json_str (s_user s)), (''verbosity'', json_str (s_verbosity s)),
      (''safety_identifier'', json_str (s_safety_identifier s)),
      (''metadata'', when_some (s_metadata s) (json_string_map (s_metadata s))),
      (''service_tier'', json_str (s_service_tier s)), (''stream'', map_option JBool (s_stream s)),
      (''stream_options'', stream_options_value s), (''reasoning_effort'', json_str (s_reasoning_effort s)),
      (''response_format'', response_format_value s),
      (''modalities'', when_some (s_output_modalities s) (json_strs (s_output_modalities s))),
      (''audio'', chat_audio_settings s),
      (''logit_bias'', when_some (s_logit_bias s) (json_f64_map (s_logit_bias s))),
      (''prediction'', s_prediction s), (''web_search_options'', s_web_search_options s)]"

lemma chat_fields_distinct: "distinct (map fst (chat_fields reparse model s))"
  by (simp add: chat_fields_def)

lemma not_blank_text_id [simp]: "not_blank_text x \<Longrightarrow> not_blank x = x"
  by (cases x) (simp_all add: not_blank_text_def not_blank_def blank_def)

lemma kept_stop_all: "[] \<notin> set stop \<Longrightarrow> kept_stop stop r = (stop, r)"
  by (induction stop) auto

lemma chat_stop_fields:
  "stop_fits model stop \<Longrightarrow> chat_stop_step model stop st = (set_opt ''stop'' (when_some stop (json_strs stop)) (fst st), snd st)"
  by (cases st) (auto simp: chat_stop_step_def stop_fits_def kept_stop_all when_some_def set_opt_def)

lemma chat_modalities_all:
  "set raws \<subseteq> {''text'', ''audio''} \<Longrightarrow> chat_modalities_sent raws = raws"
  by (induction raws) (auto simp: chat_modalities_sent_def map_filter_simps eq_ignore_ascii_case_def
      to_ascii_lowercase_def ascii_lower_def byte_val_def)


lemma chat_audio_modality:
  "set raws \<subseteq> {''text'', ''audio''} \<Longrightarrow> list_ex (\<lambda>raw. eq_ignore_ascii_case raw ''audio'') raws \<longleftrightarrow> ''audio'' \<in> set raws"
  by (induction raws) (auto simp: eq_ignore_ascii_case_def to_ascii_lowercase_def ascii_lower_def byte_val_def)

text \<open>The steps whose field depends on more than their own setting.\<close>

lemma logprobs_fields:
  assumes "logprobs_fit model s"
  shows "fst (run_steps (chat_logprobs_steps model s) st)
    = set_opt ''top_logprobs'' (map_option json_u32 (s_top_logprobs s))
        (set_opt ''logprobs'' (map_option JBool (s_logprobs s)) (fst st))"
  using assms
  by (cases "s_logprobs s"; cases "s_top_logprobs s") (auto simp: logprobs_fit_def chat_logprobs_steps_def)

lemma stream_options_fields:
  assumes "fst st = json_obj kvs" "map_of (rev kvs) ''stream_options'' = None"
  shows "fst (chat_stream_options_step (s_include_obfuscation s)
      (field_step ''stream_options'' (if s_stream s = Some True then Some (json_obj [(''include_usage'', JBool True)]) else None)
        st))
    = json_obj (kvs @ opt_pair ''stream_options'' (stream_options_value s))"
proof -
  have empty: "JObject [] = json_obj []" by (simp add: json_obj_def)
  show ?thesis
    using assms
    by (cases "s_include_obfuscation s"; cases "s_stream s = Some True")
      (simp_all add: chat_stream_options_step_def stream_options_value_def field_step_def set_opt_def opt_pair_def
        empty jinsert_json_obj [of "''include_obfuscation''"] jget_jinsert_obj flip: jinsert_json_obj [of "''stream_options''"])
qed

lemma response_format_fields:
  assumes "schema_fits s"
  shows "fst (chat_response_format_step s st) = set_opt ''response_format'' (response_format_value s) (fst st)"
proof (cases "s_json_schema s")
  case None
  then show ?thesis by (simp add: chat_response_format_step_def response_format_value_def)
next
  case (Some schema)
  then obtain name where name: "s_json_schema_name s = Some name" and fit: "is_object schema" "tidy (Some name)"
    "tidy (s_json_schema_description s)"
    "s_json_schema_strict s = Some True \<longrightarrow> strict_object_schema (normalize_object_schema_required schema) = schema"
    using assms by (auto simp: schema_fits_def)
  have "official_json_schema schema (s_json_schema_name s) (snd st) = (Some (schema, name), snd st)"
    using fit name by (simp add: official_json_schema_def)
  then show ?thesis
    using Some name fit
    by (simp add: chat_response_format_step_def response_format_value_def set_opt_json_obj Let_def
        set_opt_def [of _ "Some _"] append_assoc [symmetric] del: append_assoc append.simps)
qed

lemma audio_fields:
  assumes "audio_fits s"
  shows "fst (run_steps (chat_encode_output_modalities_and_audio s) st)
    = set_opt ''audio'' (chat_audio_settings s)
        (set_opt ''modalities'' (when_some (s_output_modalities s) (json_strs (s_output_modalities s))) (fst st))"
  using assms
  by (simp add: audio_fits_def chat_encode_output_modalities_and_audio_def chat_modalities_all when_some_def Let_def)

lemma tidy_fields:
  assumes "tidy (s_prompt_cache_mode s)" "tidy (s_prompt_cache_ttl s)" "tidy (s_moderation_model s)"
    "tidy (s_moderation_input s)" "tidy (s_moderation_output s)"
  shows "fst (run_steps (chat_encode_prompt_cache_options s) st)
      = set_opt ''prompt_cache_options''
          (nonempty_object [(''mode'', json_str (s_prompt_cache_mode s)), (''ttl'', json_str (s_prompt_cache_ttl s))]) (fst st)"
    and "fst (run_steps (chat_encode_moderation s) st)
      = set_opt ''moderation''
          (nonempty_object [(''model'', json_str (s_moderation_model s)),
            (''policy'', nonempty_object [(''input'', mode_object (s_moderation_input s)),
              (''output'', mode_object (s_moderation_output s))])]) (fst st)"
  using assms by (simp_all add: chat_encode_prompt_cache_options_def chat_encode_moderation_def Let_def)

lemma number_fields:
  assumes "chat_settings reparse model s" "fst st = json_obj kvs"
  shows "fst (run_steps (chat_numbers reparse model s) st) = json_obj (kvs @ entries (take 13 (chat_fields reparse model s)))"
  using assms
  by (cases "uses_max_completion_tokens model")
    (simp_all add: chat_settings_def chat_numbers_def chat_fields_def chat_encode_tool_choice_def chat_stop_fields set_opt_json_obj Let_def)


lemma account_fields:
  assumes fit: "chat_settings reparse model s" and st: "fst st = json_obj kvs" "map_of (rev kvs) ''stream_options'' = None"
  shows "fst (run_steps (chat_account s) st) = json_obj (kvs @ entries (take 9 (drop 17 (chat_fields reparse model s))))"
proof -
  let ?kvs = "kvs @ entries (take 6 (drop 17 (chat_fields reparse model s)))"
  obtain st' where st': "st' = run_steps (take 6 (chat_account s)) st" by blast
  have fst': "fst st' = json_obj ?kvs"
    using fit st(1) by (simp add: st' chat_settings_def chat_account_def chat_fields_def set_opt_json_obj when_some_def)
  have none: "map_of (rev ?kvs) ''stream_options'' = None"
    using st(2) by (simp add: chat_fields_def map_add_def)
  have "run_steps (chat_account s) st = run_steps (drop 6 (chat_account s)) st'"
    unfolding st' run_steps_append [symmetric] by simp
  also have "fst \<dots> = json_obj (?kvs @ entries (take 3 (drop 23 (chat_fields reparse model s))))"
    using fit stream_options_fields [OF fst' none, of s] response_format_fields [of s]
    by (simp add: chat_settings_def chat_account_def chat_fields_def set_opt_json_obj)
  finally show ?thesis by (simp add: chat_fields_def)
qed

lemma chat_encode_entries:
  assumes fit: "chat_settings reparse (r_model ir) (r_sampling ir)" and none: "map_of (rev kvs) ''stream_options'' = None"
  shows "fst (chat_encode_sampling reparse ir (json_obj kvs, r))
    = json_obj (kvs @ entries (chat_fields reparse (r_model ir) (r_sampling ir)))"
proof -
  let ?s = "r_sampling ir" and ?f = "chat_fields reparse (r_model ir) (r_sampling ir)"
  obtain st1 where st1: "st1 = run_steps (chat_numbers reparse (r_model ir) ?s) (json_obj kvs, r)" by blast
  have fst1: "fst st1 = json_obj (kvs @ entries (take 13 ?f))"
    using number_fields [OF fit] by (simp add: st1)
  obtain st2 where st2: "st2 = run_steps (chat_encode_moderation ?s) (run_steps (chat_logprobs_steps (r_model ir) ?s)
      (run_steps (chat_encode_prompt_cache_options ?s) st1))" by blast
  have "fst st2 = json_obj ((kvs @ entries (take 13 ?f)) @ entries (take 4 (drop 13 ?f)))"
    using fit fst1 by (simp add: st2 chat_settings_def tidy_fields logprobs_fields set_opt_json_obj)
      (simp add: chat_fields_def)
  then have fst2: "fst st2 = json_obj (kvs @ entries (take 17 ?f))" by (simp add: chat_fields_def)
  have none2: "map_of (rev (kvs @ entries (take 17 ?f))) ''stream_options'' = None"
    using none by (simp add: chat_fields_def map_add_def)
  obtain st3 where st3: "st3 = run_steps (chat_account ?s) st2" by blast
  have fst3: "fst st3 = json_obj ((kvs @ entries (take 17 ?f)) @ entries (take 9 (drop 17 ?f)))"
    unfolding st3 by (rule account_fields [OF fit fst2 none2])
  have "chat_encode_sampling reparse ir (json_obj kvs, r)
      = run_steps (chat_extras ?s) (run_steps (chat_encode_output_modalities_and_audio ?s) st3)"
    by (simp add: chat_encode_sampling_def Let_def run_steps_append st1 st2 st3)
  also have "fst \<dots> = json_obj (((kvs @ entries (take 17 ?f)) @ entries (take 9 (drop 17 ?f))) @ entries (drop 26 ?f))"
    using fit fst3 by (simp add: chat_settings_def chat_extras_def audio_fields set_opt_json_obj when_some_def)
      (simp add: chat_fields_def when_some_def)
  finally show ?thesis by (simp add: chat_fields_def)
qed



section \<open>What is read\<close>

lemma read_f32: "jget b k = map_option (json_f32 reparse) x \<Longrightarrow> float_kept reparse x \<Longrightarrow> f32_field b k = x"
  by (cases x) (auto simp: f32_field_def float_kept_def json_f32_def json_f64_def split: option.splits)

lemma read_u32: "jget b k = map_option json_u32 x \<Longrightarrow> u32_field b k = x"
  by (cases x) (simp_all add: u32_field_def)

lemma read_bool: "jget b k = map_option JBool x \<Longrightarrow> bool_field b k = x"
  by (cases x) (simp_all add: bool_field_def)

lemma read_str: "jget b k = json_str x \<Longrightarrow> str_field b k = x"
  by (cases x) (simp_all add: str_field_def json_str_def)

lemma read_i64:
  "jget b k = map_option json_i64 x \<Longrightarrow> case x of None \<Rightarrow> True | Some i \<Rightarrow> - (2 ^ 63) \<le> i \<and> i < 2 ^ 63 \<Longrightarrow> i64_field b k = x"
  by (cases x) (simp_all add: i64_field_def as_i64_json)

lemma filter_strs [simp]: "List.map_filter as_str (map JString xs) = xs"
  by (induction xs) (simp_all add: map_filter_simps)

lemma read_stop: "jget b ''stop'' = when_some xs (json_strs xs) \<Longrightarrow> stop_values b [''stop''] = xs"
  by (cases xs) (simp_all add: when_some_def json_strs_def map_filter_simps)

lemma read_strings: "jget b k = when_some m (json_string_map m) \<Longrightarrow> string_object_field b k = m"
proof -
  have "List.map_filter (\<lambda>(k, v). map_option (\<lambda>s. (k, s)) (as_str v)) (map (\<lambda>(k, v). (k, JString v)) m) = m" for m
    by (induction m) (auto simp: map_filter_simps)
  then show "jget b k = when_some m (json_string_map m) \<Longrightarrow> string_object_field b k = m"
    by (cases "m = []") (simp_all add: string_object_field_def when_some_def json_string_map_def)
qed

lemma read_logit_bias:
  "jget b ''logit_bias'' = when_some m (json_f64_map m) \<Longrightarrow> list_all (\<lambda>(k, w). f64_is_finite w) m \<Longrightarrow> chat_logit_bias b = m"
proof -
  have "list_all (\<lambda>(k, w). f64_is_finite w) m \<Longrightarrow>
      List.map_filter (\<lambda>(k, x). map_option (\<lambda>n. (k, n)) (as_f64 x)) (map (\<lambda>(k, v). (k, json_f64 v)) m) = m" for m
    by (induction m) (auto simp: map_filter_simps json_f64_def)
  then show "jget b ''logit_bias'' = when_some m (json_f64_map m) \<Longrightarrow> list_all (\<lambda>(k, w). f64_is_finite w) m
      \<Longrightarrow> chat_logit_bias b = m"
    by (cases "m = []") (simp_all add: chat_logit_bias_def when_some_def json_f64_map_def)
qed

lemma read_tool_choice: "jget b ''tool_choice'' = chat_tool_choice_value c \<Longrightarrow> chat_decode_tool_choice (jget b ''tool_choice'') = c"
proof (cases c)
  case (ChoiceNamed name)
  assume "jget b ''tool_choice'' = chat_tool_choice_value c"
  with ChoiceNamed show ?thesis
    by (simp add: chat_decode_tool_choice_def json_obj_def str_field_def)
qed (simp_all add: chat_decode_tool_choice_def)

lemma read_object: "jget b k = x \<Longrightarrow> object_text x \<Longrightarrow> chat_object_field b k = x"
  by (cases x) (auto simp: chat_object_field_def object_text_def split: json.splits)

lemma read_modalities:
  assumes "jget b ''modalities'' = when_some xs (json_strs xs)" "set xs \<subseteq> {''text'', ''audio''}"
  shows "chat_output_modalities b = xs"
proof -
  have "map chat_modality xs = xs" using assms(2)
    by (intro map_idI) (auto simp: chat_modality_def eq_ignore_ascii_case_def to_ascii_lowercase_def ascii_lower_def byte_val_def)
  with assms(1) show ?thesis
    by (cases "xs = []") (simp_all add: chat_output_modalities_def when_some_def json_strs_def)
qed

lemma read_audio:
  assumes "jget b ''audio'' = chat_audio_settings s" "audio_fits s"
  shows "chat_audio_voice b = s_audio_voice s" "chat_audio_format b = s_audio_format s"
proof -
  have empty: "JObject [] = json_obj []" by (simp add: json_obj_def)
  have fit: "tidy (s_audio_voice s)" "tidy (s_audio_format s)"
    "is_some (s_audio_format s) \<longleftrightarrow> is_some (s_audio_voice s) \<or> ''audio'' \<in> set (s_output_modalities s)"
    "list_ex (\<lambda>raw. eq_ignore_ascii_case raw ''audio'') (s_output_modalities s) \<longleftrightarrow> ''audio'' \<in> set (s_output_modalities s)"
    using assms(2) by (simp_all add: audio_fits_def chat_audio_modality)
  show "chat_audio_voice b = s_audio_voice s" "chat_audio_format b = s_audio_format s"
    using assms(1) fit
    by (cases "s_audio_voice s"; cases "s_audio_format s";
        simp add: chat_audio_voice_def chat_audio_format_def chat_audio_settings_def empty set_opt_json_obj
          jinsert_json_obj json_str_def opt_pair_def Let_def; simp add: tidy_def trimmed_def)+
qed

lemma read_cache_options:
  assumes "jget b ''prompt_cache_options'' = nonempty_object [(''mode'', json_str m), (''ttl'', json_str t)]"
  shows "Option.bind (jget b ''prompt_cache_options'') (\<lambda>o'. str_field o' ''mode'') = m"
    "Option.bind (jget b ''prompt_cache_options'') (\<lambda>o'. str_field o' ''ttl'') = t"
proof -
  have empty: "JObject [] = json_obj []" by (simp add: json_obj_def)
  show "Option.bind (jget b ''prompt_cache_options'') (\<lambda>o'. str_field o' ''mode'') = m"
    "Option.bind (jget b ''prompt_cache_options'') (\<lambda>o'. str_field o' ''ttl'') = t"
    unfolding assms
    by (cases m; cases t; simp add: nonempty_object_def json_str_def empty set_opt_json_obj opt_pair_def)+
qed

lemma read_moderation:
  assumes "jget b ''moderation'' = nonempty_object [(''model'', json_str m),
      (''policy'', nonempty_object [(''input'', mode_object i), (''output'', mode_object o')])]" "is_object b"
  shows "Option.bind (jget b ''moderation'') (\<lambda>m. str_field m ''model'') = m"
    "Option.bind (pointer b [''moderation'', ''policy'', ''input'', ''mode'']) as_str = i"
    "Option.bind (pointer b [''moderation'', ''policy'', ''output'', ''mode'']) as_str = o'"
proof -
  have empty: "JObject [] = json_obj []" by (simp add: json_obj_def)
  have step: "step_pointer b ''moderation'' = jget b ''moderation''" using assms(2) by (rule step_pointer_object)
  show "Option.bind (jget b ''moderation'') (\<lambda>m. str_field m ''model'') = m"
    "Option.bind (pointer b [''moderation'', ''policy'', ''input'', ''mode'']) as_str = i"
    "Option.bind (pointer b [''moderation'', ''policy'', ''output'', ''mode'']) as_str = o'"
    unfolding pointer.simps step assms(1)
    by (cases m; cases i; cases o';
        simp add: nonempty_object_def json_str_def mode_object_def empty set_opt_json_obj opt_pair_def)+
qed

lemma read_obfuscation:
  "jget b ''stream_options'' = stream_options_value s \<Longrightarrow>
     Option.bind (jget b ''stream_options'') (\<lambda>o'. bool_field o' ''include_obfuscation'') = s_include_obfuscation s"
  by (cases "s_include_obfuscation s") (simp_all add: stream_options_value_def bool_field_def)

lemma read_response_format:
  assumes "jget b ''response_format'' = response_format_value s" "schema_fits s"
  shows "chat_json_schema b = (s_json_schema s, s_json_schema_name s, s_json_schema_strict s, s_json_schema_description s)"
    "chat_json_object b = s_json_object s"
proof -
  show "chat_json_schema b = (s_json_schema s, s_json_schema_name s, s_json_schema_strict s, s_json_schema_description s)"
  proof (cases "s_json_schema s")
    case None
    then show ?thesis
      using assms by (simp add: chat_json_schema_def chat_schema_format_def response_format_value_def schema_fits_def)
  next
    case (Some schema)
    with assms(2) obtain n where n: "s_json_schema_name s = Some n" "tidy (Some n)" "tidy (s_json_schema_description s)"
      by (auto simp: schema_fits_def)
    then have "n \<noteq> []" by (simp add: tidy_def)
    with n Some assms show ?thesis
      by (cases "s_json_schema_strict s"; cases "s_json_schema_description s";
          simp add: chat_json_schema_def chat_schema_format_def response_format_value_def schema_description_def
            bool_field_def json_str_def opt_pair_def)
  qed
  show "chat_json_object b = s_json_object s"
    using assms by (cases "s_json_schema s"; cases "s_json_object s")
      (auto simp: chat_json_object_def response_format_value_def schema_fits_def)
qed


text \<open>The settings read back from any body that carries the fields.\<close>

lemma settings_read_back:
  assumes fit: "chat_settings reparse model s"
    and b: "b = json_obj (kvs @ entries (chat_fields reparse model s))"
    and fresh: "\<And>k. k \<in> {''previous_response_id'', ''max_reasoning_tokens'', ''max_tokens'', ''max_completion_tokens''}
      \<union> fst ` set (chat_fields reparse model s) \<Longrightarrow> map_of (rev kvs) k = None"
  shows "chat_decode_sampling b = s"
proof -
  have got: "jget b k = v" if "(k, v) \<in> set (chat_fields reparse model s)" for k v
  proof -
    have "map_of (chat_fields reparse model s) k = Some v"
      using that chat_fields_distinct by (metis map_of_eq_Some_iff)
    moreover have "map_of (rev kvs) k = None" using fresh [of k] imageI [OF that, of fst] by simp
    ultimately show ?thesis
      unfolding b jget_entries [OF chat_fields_distinct] by (simp split: option.split)
  qed
  have absent: "jget b k = None" if "k \<notin> fst ` set (chat_fields reparse model s)"
    "k \<in> {''previous_response_id'', ''max_reasoning_tokens'', ''max_tokens'', ''max_completion_tokens''}" for k
  proof -
    have "map_of (chat_fields reparse model s) k = None" using that(1) by (simp add: map_of_eq_None_iff)
    moreover have "map_of (rev kvs) k = None" by (rule fresh) (use that(2) in blast)
    ultimately show ?thesis
      unfolding b jget_entries [OF chat_fields_distinct] by simp
  qed
  have object: "is_object b" by (simp add: b)
  have fits: "s = chat_core s"
    "uses_max_completion_tokens model \<longrightarrow> s_temperature s = None \<and> s_top_p s = None"
    "list_all (float_kept reparse) [s_temperature s, s_top_p s, s_frequency_penalty s, s_presence_penalty s]"
    "list_all not_blank_text [s_reasoning_effort s, s_prompt_cache_key s, s_prompt_cache_retention s, s_user s,
         s_verbosity s, s_safety_identifier s, s_service_tier s]"
    "list_all tidy [s_prompt_cache_mode s, s_prompt_cache_ttl s, s_moderation_model s, s_moderation_input s,
         s_moderation_output s]"
    "case s_seed s of None \<Rightarrow> True | Some i \<Rightarrow> - (2 ^ 63) \<le> i \<and> i < 2 ^ 63"
    "logprobs_fit model s" "audio_fits s" "schema_fits s" "list_all (\<lambda>(k, w). f64_is_finite w) (s_logit_bias s)"
    "object_text (s_prediction s)" "object_text (s_web_search_options s)"
    using fit unfolding chat_settings_def by blast+
  have bools:
    "bool_field b ''parallel_tool_calls'' = s_parallel_tool_calls s"
    "bool_field b ''store'' = s_store s"
    "bool_field b ''logprobs'' = s_logprobs s"
    "bool_field b ''stream'' = s_stream s"
    by (rule read_bool [OF got], simp add: chat_fields_def)+
  have u32s:
    "u32_field b ''n'' = s_n s"
    "u32_field b ''top_logprobs'' = s_top_logprobs s"
    by (rule read_u32 [OF got], simp add: chat_fields_def)+
  have strs:
    "str_field b ''prompt_cache_key'' = s_prompt_cache_key s"
    "str_field b ''prompt_cache_retention'' = s_prompt_cache_retention s"
    "str_field b ''user'' = s_user s"
    "str_field b ''verbosity'' = s_verbosity s"
    "str_field b ''safety_identifier'' = s_safety_identifier s"
    "str_field b ''service_tier'' = s_service_tier s"
    "str_field b ''reasoning_effort'' = s_reasoning_effort s"
    by (rule read_str [OF got], simp add: chat_fields_def)+
  have f32s:
    "f32_field b ''temperature'' = s_temperature s"
    "f32_field b ''top_p'' = s_top_p s"
    "f32_field b ''frequency_penalty'' = s_frequency_penalty s"
    "f32_field b ''presence_penalty'' = s_presence_penalty s"
    using fits(3) by (auto intro!: read_f32 [OF got] simp: chat_fields_def)
  have max_tokens: "or_else (u32_field b ''max_completion_tokens'') (u32_field b ''max_tokens'') = s_max_tokens s"
  proof (cases "uses_max_completion_tokens model")
    case True
    have "u32_field b ''max_completion_tokens'' = s_max_tokens s"
      by (rule read_u32 [OF got]) (simp add: chat_fields_def True)
    moreover have "jget b ''max_tokens'' = None"
      by (rule absent) (simp_all add: chat_fields_def True)
    ultimately show ?thesis by (simp add: u32_field_def)
  next
    case False
    have "u32_field b ''max_tokens'' = s_max_tokens s"
      by (rule read_u32 [OF got]) (simp add: chat_fields_def False)
    moreover have "jget b ''max_completion_tokens'' = None"
      by (rule absent) (simp_all add: chat_fields_def False)
    ultimately show ?thesis by (simp add: u32_field_def)
  qed
  have others: "jget b ''previous_response_id'' = None" "jget b ''max_reasoning_tokens'' = None"
    by (rule absent; simp add: chat_fields_def)+
  have stop: "stop_values b [''stop''] = s_stop s"
    by (rule read_stop [OF got]) (simp add: chat_fields_def)
  have seed: "i64_field b ''seed'' = s_seed s"
    by (rule read_i64 [OF got fits(6)]) (simp add: chat_fields_def)
  have choice: "chat_decode_tool_choice (jget b ''tool_choice'') = s_tool_choice s"
    by (rule read_tool_choice [OF got]) (simp add: chat_fields_def)
  have metadata: "string_object_field b ''metadata'' = s_metadata s"
    by (rule read_strings [OF got]) (simp add: chat_fields_def)
  have bias: "chat_logit_bias b = s_logit_bias s"
    by (rule read_logit_bias [OF got fits(10)]) (simp add: chat_fields_def)
  have objects: "chat_object_field b ''prediction'' = s_prediction s"
    "chat_object_field b ''web_search_options'' = s_web_search_options s"
    by (rule read_object [OF got], simp add: chat_fields_def, rule fits)+
  have modalities: "chat_output_modalities b = s_output_modalities s"
    by (rule read_modalities [OF got]) (use fits(8) in \<open>simp_all add: chat_fields_def audio_fits_def\<close>)
  have audio: "chat_audio_voice b = s_audio_voice s" "chat_audio_format b = s_audio_format s"
    by (rule read_audio [OF got fits(8)], simp add: chat_fields_def)+
  have cache: "Option.bind (jget b ''prompt_cache_options'') (\<lambda>o'. str_field o' ''mode'') = s_prompt_cache_mode s"
    "Option.bind (jget b ''prompt_cache_options'') (\<lambda>o'. str_field o' ''ttl'') = s_prompt_cache_ttl s"
    by (rule read_cache_options [OF got], simp add: chat_fields_def)+
  have "jget b ''moderation'' = nonempty_object [(''model'', json_str (s_moderation_model s)),
      (''policy'', nonempty_object [(''input'', mode_object (s_moderation_input s)),
         (''output'', mode_object (s_moderation_output s))])]"
    by (rule got) (simp add: chat_fields_def)
  note moderation = read_moderation [OF this object]
  have modes: "moderation_mode b ''input'' = trimmed (s_moderation_input s)"
    "moderation_mode b ''output'' = trimmed (s_moderation_output s)"
    unfolding moderation_mode_def moderation(2,3) by (rule refl)+
  have obfuscation: "Option.bind (jget b ''stream_options'') (\<lambda>o'. bool_field o' ''include_obfuscation'') = s_include_obfuscation s"
    by (rule read_obfuscation [OF got]) (simp add: chat_fields_def)
  have fmt: "chat_json_schema b = (s_json_schema s, s_json_schema_name s, s_json_schema_strict s, s_json_schema_description s)"
    "chat_json_object b = s_json_object s"
    by (rule read_response_format [OF got fits(9)], simp add: chat_fields_def)+
  have logprobs: "or_else (s_logprobs s) (if is_some (s_top_logprobs s) then Some True else None) = s_logprobs s"
    using fits(7) by (cases "s_logprobs s"; cases "s_top_logprobs s") (simp_all add: logprobs_fit_def)
  have "not_blank x = x" if "tidy x" for x
    using that by (cases x) (simp_all add: tidy_def not_blank_def)
  then have "chat_decode_sampling b = chat_core s"
    using fits(4,5)
    by (simp add: chat_decode_sampling_def chat_core_def bools u32s strs f32s max_tokens stop seed choice metadata bias
        objects modalities audio cache moderation(1) modes obfuscation fmt logprobs str_field_def [of b "''previous_response_id''"]
        u32_field_def [of b "''max_reasoning_tokens''"] others Let_def
          del: stop_values.simps)
      (simp add: ir_sampling_default_def)
  with fits(1) show ?thesis by simp
qed

end
