(* ===== verification/Wm_Map_Chat_Request.thy ===== *)
theory Wm_Map_Chat_Request
  imports Wm_Map_Chat_Settings
begin

text \<open>
  Whole requests on Chat Completions: the encoder meets the policy's contract (\<open>request_encoder\<close>), so what a profile
  forbids is not sent; and a request the wire has slots for is read back from its body, with no loss reported.
\<close>

section \<open>Steps that keep an object, steps that lose nothing\<close>

definition keeps_object :: "body_step \<Rightarrow> bool" where
  "keeps_object step = (\<forall>st. sorted_object (fst st) \<longrightarrow> sorted_object (fst (step st)))"

definition quiet :: "body_step \<Rightarrow> bool" where
  "quiet step = (\<forall>st. lossy (snd (step st)) = lossy (snd st))"

lemma run_keeps_object: "list_all keeps_object steps \<Longrightarrow> sorted_object (fst st) \<Longrightarrow> sorted_object (fst (run_steps steps st))"
  by (induction steps arbitrary: st) (simp_all add: keeps_object_def del: split_paired_All)

lemma run_quiet: "list_all quiet steps \<Longrightarrow> lossy (snd (run_steps steps st)) = lossy (snd st)"
  by (induction steps arbitrary: st) (simp_all add: quiet_def del: split_paired_All)

lemma keeps_object_steps [simp]:
  "keeps_object (field_step k v)" "keeps_object (kept_step k v p d)" "keeps_object (loss_step b p a d)"
  "keeps_object (no_slots bs)" "keeps_object (report_step f)" "keeps_object (chat_stop_step model stop)"
  "keeps_object (chat_stream_options_step o')" "keeps_object (chat_response_format_step s)"
  "keeps_object (chat_encode_tool_choice c)"
  by (auto simp: keeps_object_def chat_stop_step_def chat_stream_options_step_def chat_response_format_step_def
      chat_encode_tool_choice_def Let_def split: option.split prod.split)

lemma chat_sampling_keeps_object:
  "sorted_object body \<Longrightarrow> sorted_object (fst (chat_encode_sampling reparse ir (body, r)))"
  unfolding chat_encode_sampling_def Let_def
  by (rule run_keeps_object)
    (simp_all add: chat_numbers_def chat_encode_prompt_cache_options_def chat_logprobs_steps_def chat_encode_moderation_def
      chat_account_def chat_encode_output_modalities_and_audio_def chat_extras_def Let_def)

interpretation chat_requests: request_encoder "chat_request_encode to_str reparse" for to_str reparse
proof
  fix ir tools r body r'
  assume "chat_request_encode to_str reparse ir tools r = Inr (body, r')"
  then show "sorted_object body"
    by (auto simp: chat_request_encode_def Let_def split: prod.splits if_splits sum.splits
        dest!: arg_cong [where f = fst] intro!: chat_sampling_keeps_object)
qed

definition silent :: "(bool \<times> string) list \<Rightarrow> bool" where
  "silent bs = list_all (\<lambda>(b, _). \<not> b) bs"

lemma drop_each_silent: "silent bs \<Longrightarrow> drop_each bs r = r"
  by (induction bs arbitrary: r) (auto simp: silent_def drop_each_def drop_if_def)

lemma quiet_steps [simp]:
  "quiet (field_step k v)" "quiet (kept_step k v p d)" "\<not> b \<or> a = LossPreserve \<Longrightarrow> quiet (loss_step b p a d)"
  "silent bs \<Longrightarrow> quiet (no_slots bs)" "quiet (chat_stream_options_step o')" "quiet (chat_encode_tool_choice c)"
  by (auto simp: quiet_def field_step_def kept_step_def loss_step_def no_slots_def drop_each_silent
      chat_stream_options_step_def chat_encode_tool_choice_def Let_def split: option.split)

lemma quiet_fitting:
  "stop_fits model stop \<Longrightarrow> quiet (chat_stop_step model stop)" "schema_fits s \<Longrightarrow> quiet (chat_response_format_step s)"
  by (auto simp: quiet_def chat_stop_fields chat_response_format_step_def schema_fits_def official_json_schema_def
      Let_def split: option.splits)

lemma chat_sampling_quiet:
  assumes "chat_settings reparse (r_model ir) (r_sampling ir)"
  shows "lossy (snd (chat_encode_sampling reparse ir st)) = lossy (snd st)"
proof -
  let ?s = "r_sampling ir"
  have core: "?s = chat_core ?s" using assms by (simp add: chat_settings_def)
  have "silent (chat_no_slot (chat_core ?s))" "drop_responses_request_fields (chat_core ?s) r = r"
    "drop_messages_native_thinking (chat_core ?s) r = r" "s_mcp_servers (chat_core ?s) = None"
    "s_previous_response_id (chat_core ?s) = None" "\<not> c_enabled (s_cache (chat_core ?s))"
    "s_max_reasoning_tokens (chat_core ?s) = None" "s_include_thoughts (chat_core ?s) = None"
    "s_include (chat_core ?s) = []" "s_thinking_budget (chat_core ?s) = None" for r
    by (simp_all add: chat_core_def ir_sampling_default_def ir_cache_default_def chat_no_slot_def silent_def
        drop_responses_request_fields_def drop_messages_native_thinking_def drop_each_def drop_if_def not_blank_def)
  then have none: "silent (chat_no_slot ?s)" "drop_responses_request_fields ?s = id"
    "drop_messages_native_thinking ?s = id" "s_mcp_servers ?s = None"
    "s_previous_response_id ?s = None" "\<not> c_enabled (s_cache ?s)"
    "s_max_reasoning_tokens ?s = None" "s_include_thoughts ?s = None"
    "s_include ?s = []" "s_thinking_budget ?s = None"
    unfolding core [symmetric] by (simp_all add: fun_eq_iff)
  have id': "quiet (report_step id)" by (simp add: quiet_def report_step_def)
  have "list_all quiet (chat_numbers reparse (r_model ir) ?s)"
    using assms none id' by (simp add: chat_numbers_def chat_settings_def quiet_fitting silent_def Let_def)
  moreover have "list_all quiet (chat_encode_prompt_cache_options ?s @ chat_encode_moderation ?s @ chat_extras ?s)"
    by (simp add: chat_encode_prompt_cache_options_def chat_encode_moderation_def chat_extras_def Let_def)
  moreover have "list_all quiet (chat_logprobs_steps (r_model ir) ?s)"
    using assms by (auto simp: chat_logprobs_steps_def chat_settings_def logprobs_fit_def)
  moreover have "list_all quiet (chat_account ?s)"
    using assms none by (simp add: chat_account_def chat_settings_def quiet_fitting silent_def)
  moreover have "list_all quiet (chat_encode_output_modalities_and_audio ?s)"
    using assms by (simp add: chat_encode_output_modalities_and_audio_def chat_settings_def audio_fits_def
        chat_modalities_all Let_def)
  ultimately show ?thesis
    unfolding chat_encode_sampling_def Let_def by (intro run_quiet) simp
qed



section \<open>Round trip\<close>

lemma decode_sent_function:
  "decode_tool (chat_encode_tool (PreparedFunction name description parameters strict))
     = ToolFunction name description (sent_schema strict parameters) strict"
  by (cases strict)
    (simp_all add: chat_encode_tool_def decode_tool_def decode_function_or_messages_def function_from_def tool_parameters_def
      bool_field_def set_opt_json_obj opt_pair_def Let_def)

text \<open>The fields around the settings have keys of their own.\<close>

lemma base_keys_fresh:
  assumes "k \<in> {''previous_response_id'', ''max_reasoning_tokens'', ''max_tokens'', ''max_completion_tokens''}
      \<union> fst ` set (chat_fields reparse model s)"
  shows "map_of (rev ([(''model'', m), (''messages'', ms)] @ opt_pair ''tools'' ts)) k = None"
proof -
  have "k \<notin> {''model'', ''messages'', ''tools''}"
    using assms by (auto simp: chat_fields_def split: if_splits)
  then show ?thesis by (simp add: map_add_def)
qed

lemma chat_encode_read_back:
  assumes sent: "chat_request_encode to_str reparse ir tools r = Inr (body, r')"
    and items: "list_all chat_item (r_items ir)" and settings: "chat_settings reparse (r_model ir) (r_sampling ir)"
  shows "chat_request_decode to_str body = Inr (ir\<lparr>r_tools := map (\<lambda>t. decode_tool (chat_encode_tool t)) tools\<rparr>, [])
    \<and> lossy r' = lossy r"
proof -
  obtain msgs s where msgs: "chat_encode_messages to_str 0 (r_items ir) r = (msgs, s)" by force
  let ?kvs = "[(''model'', JString (r_model ir)), (''messages'', JArray msgs)]
    @ opt_pair ''tools'' (if tools \<noteq> [] then Some (JArray (map chat_encode_tool tools)) else None)"
  have "Inr (body, r') = (Inr (chat_encode_sampling reparse ir (json_obj ?kvs, s)) :: map_error + _)"
    using sent msgs by (simp add: chat_request_encode_def set_opt_json_obj split: if_splits sum.splits)
  then have result: "chat_encode_sampling reparse ir (json_obj ?kvs, s) = (body, r')" by simp
  have none: "map_of (rev ?kvs) ''stream_options'' = None"
    by (rule base_keys_fresh [of _ reparse "r_model ir" "r_sampling ir"]) (simp add: chat_fields_def)
  have body: "body = json_obj (?kvs @ entries (chat_fields reparse (r_model ir) (r_sampling ir)))"
    using chat_encode_entries [OF settings none, of s] result by simp
  have keys: "map_of (chat_fields reparse (r_model ir) (r_sampling ir)) k = None" if "k \<in> {''model'', ''messages'', ''tools''}" for k
    using that by (elim insertE) (simp_all add: chat_fields_def)
  have get: "jget body k = map_of (rev ?kvs) k" if "k \<in> {''model'', ''messages'', ''tools''}" for k
    unfolding body jget_entries [OF chat_fields_distinct] using keys [OF that] by simp
  have decoded: "chat_decode_messages to_str msgs [] = (r_items ir, [])" "lossy s = lossy r"
    using messages_round_trip [OF items msgs] by simp_all
  have sampling: "chat_decode_sampling body = r_sampling ir"
    by (rule settings_read_back [OF settings body base_keys_fresh])
  have "unwrap_or (Option.bind (jget body ''tools'') as_array) [] = map chat_encode_tool tools"
    by (simp add: get map_add_def)
  then have "chat_request_decode to_str body = Inr (ir\<lparr>r_tools := map (\<lambda>t. decode_tool (chat_encode_tool t)) tools\<rparr>, [])"
    using decoded(1) sampling by (simp add: chat_request_decode_def get map_add_def str_field_def comp_def Let_def)
  moreover have "lossy r' = lossy r"
    using chat_sampling_quiet [OF settings, of "(json_obj ?kvs, s)"] result decoded(2) by simp
  ultimately show ?thesis by simp
qed

definition function_tool :: "ir_tool \<Rightarrow> bool" where
  "function_tool tool = (case tool of ToolFunction name _ _ _ \<Rightarrow> trim name \<noteq> [] | _ \<Rightarrow> False)"

definition sent_tool :: "ir_tool \<Rightarrow> ir_tool" where
  "sent_tool tool =
     (case tool of
        ToolFunction name description parameters strict \<Rightarrow>
          ToolFunction name description (sent_schema strict parameters) strict
      | _ \<Rightarrow> tool)"

lemma prepare_functions:
  "list_all function_tool tools \<Longrightarrow> ts_case ts = None \<Longrightarrow> ts_wire ts = ChatCompletions \<Longrightarrow>
     \<exists>out. prepare_from ts idx tools r = Inr (out, r) \<and> map (\<lambda>t. decode_tool (chat_encode_tool t)) out = map sent_tool tools"
proof (induction tools arbitrary: idx)
  case (Cons tool tools)
  then obtain name description parameters strict where tool: "tool = ToolFunction name description parameters strict"
    "trim name \<noteq> []"
    by (auto simp: function_tool_def split: ir_tool.splits)
  obtain out where "prepare_from ts (idx + 1) tools r = Inr (out, r)"
    "map (\<lambda>t. decode_tool (chat_encode_tool t)) out = map sent_tool tools"
    using Cons by auto
  then show ?case
    using Cons.prems tool
    by (simp add: prepare_tool_def prepared_function_def strict_drop_def drop_if_def decode_sent_function sent_tool_def Let_def)
qed simp

text \<open>C6. A request whose items, function tools and settings have slots on Chat Completions is sent under a profile without
  fingerprint in a body from which the same request is read: every item in its order, every setting, every tool
  with its schema completed. Nothing is reported as lost.
\<close>

theorem chat_request_round_trip:
  assumes "encode_body (chat_request_encode to_str reparse) tables ChatCompletions ir prof = Inr (body, r)"
    "p_fingerprint prof = None" "list_all chat_item (r_items ir)" "list_all function_tool (r_tools ir)"
    "chat_settings reparse (r_model ir) (r_sampling ir)"
  shows "chat_request_decode to_str body = Inr (ir\<lparr>r_tools := map sent_tool (r_tools ir)\<rparr>, []) \<and> lossy r = []"
proof -
  let ?ts = "tool_setting_of tables ChatCompletions prof"
  obtain out where out: "prepare_from ?ts 0 (r_tools ir) [] = Inr (out, [])"
    "map (\<lambda>t. decode_tool (chat_encode_tool t)) out = map sent_tool (r_tools ir)"
    using prepare_functions [OF assms(4), of ?ts 0 "[]"] assms(2) by (auto simp: tool_setting_of_def)
  then have "chat_request_encode to_str reparse ir out [] = Inr (body, r)"
    using assms(1,2)
    by (auto simp: encode_body_def apply_system_prefix_def strip_or_refuse_store_def prepare_tools_def
        apply_forbidden_fields_def merge_extra_body_def split: sum.splits)
  from chat_encode_read_back [OF this assms(3,5)] out(2) show ?thesis by (simp add: lossy_def)
qed

text \<open>C21. No field a profile forbids is in the body sent to an upstream that speaks Chat Completions, whatever the request and
  whatever the profile itself adds; what it adds and does not forbid is there.
\<close>

theorem chat_forbidden_fields_absent:
  assumes "encode_body (chat_request_encode to_str reparse) tables ChatCompletions ir prof = Inr (body, r)"
    "p_fingerprint prof = Some fp"
  shows "(\<forall>k \<in> set (f_forbidden_body_fields fp). jget body k = None)
    \<and> (\<forall>k v. k \<notin> set (f_forbidden_body_fields fp) \<and> map_of (rev (f_extra_body fp)) k = Some v \<longrightarrow> jget body k = Some v)"
  using chat_requests.policy_holds [OF assms] by blast



section \<open>Examples\<close>

definition no_cases :: case_tables where
  "no_cases = (\<lambda>_. False, \<lambda>s. s)"

definition example_request :: ir_request where
  "example_request =
     \<lparr>r_model = ''gpt-4o'',
      r_items = [ItemSystem ''Be brief.'' None [], ItemUser [PartText ''Weather?'', PartImageBase64 ''image/png'' ''iVBO''],
        ItemAssistant [PartText ''Looking.''] None, ItemFunctionCall ''call_1'' ''weather'' ''{}'' None,
        ItemFunctionOutput ''call_1'' ''sunny'' [] False],
      r_tools = [ToolFunction ''weather'' ''The weather.'' (JObject []) None],
      r_sampling = ir_sampling_default\<lparr>s_max_tokens := Some 64, s_stop := [''END''], s_stream := Some True\<rparr>\<rparr>"

lemma example_settings: "chat_settings (\<lambda>_. None) ''gpt-4o'' (r_sampling example_request)"
  by code_simp

definition example_fingerprint :: fingerprint where
  "example_fingerprint =
     \<lparr>f_user_agent = None, f_x_app = None, f_system_prompt_prefix = Some ''You are a client. '', f_tool_name_case = None,
      f_forbidden_body_fields = [''stream'', ''max_tokens''], f_forbidden_field_policy = ForbiddenStrip,
      f_extra_body = [(''n'', json_u32 1), (''stream'', JBool True)]\<rparr>"

definition example_profile :: resolved_profile where
  "example_profile = (minimal_profile_for_wire ChatCompletions)\<lparr>p_fingerprint := Some example_fingerprint\<rparr>"

lemma chat_encode_succeeds:
  "chat_check_sampling ir = Inr () \<Longrightarrow> fst (chat_encode_messages to_str 0 (r_items ir) r) \<noteq> [] \<Longrightarrow>
     \<exists>res. chat_request_encode to_str reparse ir tools r = Inr res"
  by (auto simp: chat_request_encode_def Let_def split: prod.split)

lemma strip_fields_strip: "\<exists>res. strip_fields ForbiddenStrip keys body r = Inr res"
  by (induction keys arbitrary: body r) auto

lemma example_prefixed:
  "apply_system_prefix example_request example_profile
     = example_request\<lparr>r_items := ItemSystem ''You are a client. Be brief.'' None [] # drop 1 (r_items example_request)\<rparr>"
  by (simp add: apply_system_prefix_def example_profile_def example_fingerprint_def example_request_def starts_with_def)

lemma printable_words: "trim ''weather'' = ''weather''" "trim ''iVBO'' = ''iVBO''"
  using trim_printable(1) [of "CHR ''w''" "CHR ''r''" "''eathe''"] trim_printable(1) [of "CHR ''i''" "CHR ''O''" "''VB''"]
  by (simp_all add: byte_val_def)

lemma example_requests_sent:
  "\<exists>res. encode_body (chat_request_encode (\<lambda>_. []) (\<lambda>_. None)) no_cases ChatCompletions example_request
      (minimal_profile_for_wire ChatCompletions) = Inr res"
  "\<exists>res. encode_body (chat_request_encode (\<lambda>_. []) (\<lambda>_. None)) no_cases ChatCompletions example_request example_profile
      = Inr res"
proof -
  have sampling: "s_store (r_sampling example_request) = None" by (simp add: example_request_def ir_sampling_default_def)
  have tools: "prepare_tools no_cases ChatCompletions ir prof [] = Inr ([PreparedFunction ''weather'' ''The weather.'' (JObject []) None], [])"
    if "r_tools ir = r_tools example_request" "Option.bind (p_fingerprint prof) f_tool_name_case = None" for ir prof
  proof -
    show ?thesis
      using that by (simp add: printable_words prepare_tools_def tool_setting_of_def example_request_def prepare_tool_def
          prepared_function_def strict_drop_def drop_if_def)
  qed
  have check: "chat_check_sampling example_request = Inr ()"
    by (simp add: chat_check_sampling_def example_request_def ir_sampling_default_def reject_sampling_number_def Let_def)
  show "\<exists>res. encode_body (chat_request_encode (\<lambda>_. []) (\<lambda>_. None)) no_cases ChatCompletions example_request
      (minimal_profile_for_wire ChatCompletions) = Inr res"
  proof -
    have "fst (chat_encode_messages (\<lambda>_. []) 0 (r_items example_request) []) \<noteq> []"
      by (subst chat_encode_messages.simps)
        (simp add: example_request_def is_call_item_def chat_encode_item_def chat_role_content_def split: prod.split)
    then obtain body r where "chat_request_encode (\<lambda>_. []) (\<lambda>_. None) example_request
        [PreparedFunction ''weather'' ''The weather.'' (JObject []) None] [] = Inr (body, r)"
      using chat_encode_succeeds check by (metis surj_pair)
    then show ?thesis
      by (simp add: encode_body_def apply_system_prefix_def strip_or_refuse_store_def minimal_profile_for_wire_def tools
          apply_forbidden_fields_def merge_extra_body_def)
  qed
  show "\<exists>res. encode_body (chat_request_encode (\<lambda>_. []) (\<lambda>_. None)) no_cases ChatCompletions example_request example_profile
      = Inr res"
  proof -
    let ?ir = "apply_system_prefix example_request example_profile"
    have fp: "p_fingerprint example_profile = Some example_fingerprint"
      "f_forbidden_field_policy example_fingerprint = ForbiddenStrip"
      by (simp_all add: example_profile_def example_fingerprint_def)
    have store: "s_store (r_sampling ?ir) = None" by (simp add: example_prefixed sampling)
    have "chat_check_sampling ?ir = chat_check_sampling example_request"
      by (simp add: example_prefixed chat_check_sampling_def)
    moreover have "fst (chat_encode_messages (\<lambda>_. []) 0 (r_items ?ir) []) \<noteq> []"
      unfolding example_prefixed
      by (subst chat_encode_messages.simps)
        (simp add: example_request_def is_call_item_def chat_encode_item_def chat_role_content_def split: prod.split)
    ultimately obtain body r where enc: "chat_request_encode (\<lambda>_. []) (\<lambda>_. None) ?ir
        [PreparedFunction ''weather'' ''The weather.'' (JObject []) None] [] = Inr (body, r)"
      using chat_encode_succeeds check by (metis surj_pair)
    have "prepare_tools no_cases ChatCompletions ?ir example_profile [] = Inr ([PreparedFunction ''weather'' ''The weather.'' (JObject []) None], [])"
      by (rule tools) (simp add: example_prefixed, simp add: example_profile_def example_fingerprint_def)
    moreover have "strip_or_refuse_store ?ir example_profile [] = Inr (?ir, [])"
      by (simp add: strip_or_refuse_store_def store fp)
    ultimately show ?thesis
      using enc strip_fields_strip
      by (simp add: encode_body_def apply_forbidden_fields_def fp)
  qed
qed

theorem chat_request_round_trip_witness:
  "\<exists>body r. encode_body (chat_request_encode (\<lambda>_. []) (\<lambda>_. None)) no_cases ChatCompletions example_request
      (minimal_profile_for_wire ChatCompletions) = Inr (body, r)
    \<and> chat_request_decode (\<lambda>_. []) body = Inr (example_request\<lparr>r_tools := map sent_tool (r_tools example_request)\<rparr>, [])
    \<and> lossy r = []"
proof -
  obtain body r where sent: "encode_body (chat_request_encode (\<lambda>_. []) (\<lambda>_. None)) no_cases ChatCompletions
      example_request (minimal_profile_for_wire ChatCompletions) = Inr (body, r)"
    using example_requests_sent(1) by (metis surj_pair)
  have fits: "p_fingerprint (minimal_profile_for_wire ChatCompletions) = None"
    "list_all chat_item (r_items example_request)" "list_all function_tool (r_tools example_request)"
    "r_model example_request = ''gpt-4o''"
    by (simp_all add: minimal_profile_for_wire_def example_request_def function_tool_def role_parts_fit_def tidy_def
        blank_def printable_words)
  show ?thesis
    using chat_request_round_trip [OF sent fits(1-3)] example_settings fits(4) sent by auto
qed

theorem chat_forbidden_fields_absent_witness:
  "\<exists>body r. encode_body (chat_request_encode (\<lambda>_. []) (\<lambda>_. None)) no_cases ChatCompletions example_request example_profile
      = Inr (body, r)
    \<and> jget body ''stream'' = None \<and> jget body ''max_tokens'' = None \<and> jget body ''n'' = Some (json_u32 1)"
proof -
  obtain body r where sent: "encode_body (chat_request_encode (\<lambda>_. []) (\<lambda>_. None)) no_cases ChatCompletions
      example_request example_profile = Inr (body, r)"
    using example_requests_sent(2) by (metis surj_pair)
  have "p_fingerprint example_profile = Some example_fingerprint" by (simp add: example_profile_def)
  from chat_forbidden_fields_absent [OF sent this] sent show ?thesis by (auto simp: example_fingerprint_def)
qed

end
