(* ===== verification/Spec2Isabelle.thy ===== *)
theory Spec2Isabelle
  imports Wm_Sse Wm_Eventstream Wm_Usage Wm_Assembler Wm_Stream_Codec Wm_Stream_Policy Wm_Encoder_Stream Wm_Encoder_Chat
    Wm_Encoder_Gemini Wm_Encoder_Blocks Wm_Encoder_Items Wm_Complete_Relay Wm_Complete_Calls Wm_Complete_Types
    Wm_Profile Wm_Map_Chat_Request
begin

text \<open>
  A model of wiremux, a gateway between the wires of language model providers (Chat Completions, Messages, Responses,
  Gemini, Converse). A client speaks one wire, an upstream another; a response stream crosses the gateway as

  bytes from the upstream \<open>\<rightarrow>\<close> frames \<open>\<rightarrow>\<close> stream events (\<open>IrStreamEvent\<close>) \<open>\<rightarrow>\<close> frames \<open>\<rightarrow>\<close> bytes to the client

  and the profile of the upstream says which wire it speaks and what to do with frames nobody listed. The paths below
  are relative to \<open>crates/wiremux/src\<close>, those that begin with \<open>profile\<close> to \<open>crates/wiremux-auth/src\<close>.

  \<^bold>\<open>Foundations.\<close> \<open>Wm_Prelude\<close> holds Rust's \<open>Result\<close>, bytes and strings, saturating words and the ordered map
  (the locale \<open>ordered_map\<close>, interpreted on the sorted association lists the model uses for \<open>BTreeMap\<close>); \<open>Wm_Strings\<close> the
  operations of \<open>str\<close>, with UTF-8 validation and lossy decoding; \<open>Wm_Json\<close> the value type of \<open>serde_json\<close>; \<open>Wm_Ir\<close> the
  data the stream components exchange (\<open>ir/mod.rs\<close>, \<open>RawSse\<close>, \<open>MapError\<close>).

  \<^bold>\<open>Frames.\<close> \<open>Wm_Chunks\<close> is the interface of an incremental reader: the locale \<open>chunked_reader\<close> says that what is
  accepted in one read is accepted in two, and proves that no way of cutting the bytes matters. \<open>Wm_Sse\<close> models
  \<open>stream/sse.rs\<close> (\<open>SseReader\<close>) and \<open>format_sse\<close> of \<open>proxy.rs\<close>: frames written are read back, memory stays bounded, the
  pending bytes rebuild the state. \<open>Wm_Eventstream\<close> models \<open>stream/eventstream.rs\<close>, the binary framing of AWS: CRC-32,
  typed headers, messages; messages written are read back and a corrupted byte of a message is rejected. Both
  interpret the reader's interface on their \<open>feed\<close>.

  \<^bold>\<open>Events.\<close> One theory per wire models its singular and plural decoders and its encoder:
  \<open>Wm_Stream_Chat\<close>, \<open>Wm_Stream_Messages\<close>, \<open>Wm_Stream_Responses\<close>, \<open>Wm_Stream_Gemini\<close>, \<open>Wm_Stream_Converse\<close>
  (\<open>stream/<wire>.rs\<close> and the helpers of \<open>stream/complete.rs\<close> and \<open>map/\<close> they call). \<open>Wm_Usage\<close> models the token
  counts (\<open>stream/usage.rs\<close>), \<open>Wm_Completion\<close> the test for visible output (\<open>completion.rs\<close>), \<open>Wm_Assembler\<close> the
  \<open>ToolCallAssembler\<close>. \<open>Wm_Stream\<close> models the root (\<open>stream/mod.rs\<close>): frame names, the decoders combined, terminal
  frames, \<open>StreamDecoder\<close>, \<open>UpstreamFrames\<close>, \<open>encode_stream_event\<close>. The lemmas of each wire say that an event with a slot
  on the wire comes back from the frame it was written to; \<open>Wm_Stream_Codec\<close> states this as the locale
  \<open>stream_codec\<close>, interprets it on every wire, and proves in \<open>stream_bridge\<close> that a gateway between two wires keeps
  what both have slots for; \<open>Wm_Stream_Policy\<close> is about frames that are unknown or end a stream.

  \<^bold>\<open>Whole streams.\<close> \<open>stream/encoder.rs\<close> (\<open>StreamEncoder\<close>) turns events into the frames of one client stream. Its state is
  the record \<open>encoder\<close>, extended per wire by the fields that wire reads (the field \<open>wire\<close> never changes, so each
  wire has its own specialisation of \<open>push\<close> and \<open>finish\<close>): \<open>Wm_Encoder_Messages\<close>, \<open>Wm_Encoder_Chat\<close>,
  \<open>Wm_Encoder_Gemini\<close>, \<open>Wm_Encoder_Converse\<close>, \<open>Wm_Encoder_Responses\<close>. What a client may rely on is a protocol, an
  inductive step relation on frames: blocks that open, grow and close one at a time
  (\<open>mstep\<close> in \<open>Wm_Encoder_Protocol\<close>, \<open>bstep\<close> in \<open>Wm_Encoder_Blocks\<close>), items whose final form is the sum of their deltas
  (\<open>rstep\<close> in \<open>Wm_Encoder_Items\<close>). The locale \<open>protocol_encoder\<close> of \<open>Wm_Encoder_Stream\<close> states when an encoder follows a
  protocol, one push at a time, and concludes that whole streams do; it is interpreted on the Messages, Converse
  and Responses encoders. What the events must satisfy is a record of what came so far (\<open>may_come\<close>,
  \<open>block_may_come\<close>, \<open>item_may_come\<close>): fragments belong to calls that started, and fewer than \<open>2^32\<close> events, because the
  block indexes are \<open>u32\<close> and saturate. The lemmas after each theorem are the streams that leave the protocol where
  a condition is dropped.

  \<^bold>\<open>Complete bodies.\<close> An answer that is not streamed is one JSON body (\<open>stream/complete.rs\<close>). \<open>Wm_Complete_Encode\<close> and
  \<open>Wm_Complete_Gemini\<close> model the encoders: the loop over the events as a step on a record of its local variables
  (\<open>chat_body\<close>, \<open>messages_body\<close>, \<open>responses_body\<close>, \<open>gemini_body\<close>, all extending \<open>body_state\<close>), then the body as a value of what
  was collected; the \<open>indexed_tool\<close> functions keep the calls apart. \<open>Wm_Complete_Decode\<close> models the decoders.
  \<open>Wm_Complete\<close>, \<open>Wm_Complete_Messages\<close> and \<open>Wm_Complete_Responses\<close> prove that a body read back says what the events
  said and makes the same calls; \<open>Wm_Complete_Calls\<close> that the calls carry exactly the arguments sent for them;
  \<open>Wm_Complete_Types\<close> that every body, on all five wires, is well-formed JSON. The locale \<open>faithful_hops\<close> of
  \<open>Wm_Complete_Relay\<close> states one hop over a wire, and is interpreted on the dispatch of \<open>complete.rs\<close>: an answer may pass
  any number of wires.

  \<^bold>\<open>Requests.\<close> A request is decoded to \<open>IrRequest\<close> (\<open>Wm_Map_Ir\<close>: items, parts, tools, and the record of 75
  settings), prepared, and encoded on the other wire. \<open>Wm_Map_Base\<close> models the helpers of \<open>map/mod.rs\<close>; \<open>Wm_Map_Tools\<close>
  the tool type policy of \<open>map/tools.rs\<close>: every tool is sent or reported, the names of a flattened namespace lead back to
  it. \<open>Wm_Map_Schema\<close> models the schema walks (locale \<open>schema_step\<close>, interpreted on the steps that complete and close an
  object schema); \<open>Wm_Map_Policy\<close> what a profile prepends, adds and forbids, with \<open>encode\<close> of \<open>map/mod.rs\<close> over the
  encoder of a wire: the locale \<open>request_encoder\<close> asks of that encoder that it builds an object, and concludes that nothing
  forbidden is sent. \<open>Wm_Map_Chat\<close> and \<open>Wm_Map_Chat_Sampling\<close> model \<open>map/chat.rs\<close>, the settings as a list of steps on body
  and report (\<open>run_steps\<close>), and \<open>Wm_Map_Chat_Trip\<close>, \<open>Wm_Map_Chat_Settings\<close> and \<open>Wm_Map_Chat_Request\<close> prove its round trip:
  \<open>chat_item\<close> and \<open>chat_settings\<close> say which items and settings the wire has slots for.

  \<^bold>\<open>Profiles.\<close> \<open>Wm_Profile_Types\<close> models the enumerations of \<open>profile/types.rs\<close> with the suggestion of a legal
  spelling and \<open>edit_distance\<close>; \<open>Wm_Profile_Scan\<close> the substitution of environment references (\<open>profile/envsubst.rs\<close>) and the
  refusals (\<open>profile/refuse.rs\<close>): an accepted document is data; \<open>Wm_Profile\<close> the merge of layers
  (\<open>profile/overlay.rs\<close>), their resolution (\<open>profile/parse.rs\<close>) and the catalog (\<open>profile/load.rs\<close>).

  \<^bold>\<open>Parameters.\<close> \<open>parse\<close> and \<open>to_str\<close> are \<open>serde_json\<close>'s parser and printer, \<open>debug\<close> the \<open>Debug\<close> form of an event in an
  error text, \<open>url_parse\<close> the \<open>url\<close> crate, \<open>env\<close> the environment. Theorems that need a law of one of them (a printed
  value is read back) name it as a hypothesis. A floating point number is its bits; \<open>reparse\<close> is the printing of an
  \<open>f32\<close> and its parsing as an \<open>f64\<close>. The Unicode case tables (\<open>case_tables\<close>) are an argument of the tool names.

  \<^bold>\<open>Loops.\<close> Loops over data are structural. The search of the Chat encoder for a free index is a
  \<open>partial_function\<close>, since it does not end when every \<open>u32\<close> is taken; \<open>chat_stream_returns\<close> proves that it does end on
  every stream of fewer than \<open>2^32\<close> events. No definition uses fuel.

  \<^bold>\<open>Not modelled.\<close> The request bodies of Messages, Responses, Gemini and Converse (\<open>map/<wire>.rs\<close>) beyond the
  helpers the stream code and the schemas call; the HTTP server and clients, ingestion of other tools' settings, the command line, token
  providers, credential files and login flows, which are asynchronous I/O over libraries that are not in the
  repository; the compiled-in profiles, which are an argument of the catalog.
\<close>

end
